(* ===== verification/Prelude.thy ===== *)
theory Prelude
  imports Main "HOL-Library.Word"
begin

text \<open>
  The shared vocabulary of the development: the machine integers of the tools, the result
  type that carries failed assertions and undefined behaviour, and the generic facts about
  results and lists that the component theories rely on.

  \<^bold>\<open>Assertions.\<close> \<^verbatim>\<open>src/tools/mipsdec/common.h\<close> defines \<open>M_ASSERT(x)\<close> as \<open>assert(x)\<close> in the
  Windows build: a false condition ends the program. The other build prints a line and carries
  on. The model follows \<open>assert\<close>: a failed assertion is the value \<open>Fail AssertFailed\<close>. The two
  builds agree on every run in which no assertion fails, so a theorem that concludes
  \<open>f x = Ret y\<close> holds of both.
  Reads through an end iterator or past the end of a buffer are \<open>Fail Undefined\<close>.
\<close>

unbundle bit_operations_syntax

type_synonym u8 = "8 word"
type_synonym u16 = "16 word"
type_synonym u32 = "32 word"

section \<open>Lists\<close>

text \<open>The first index at which a condition holds: a counting loop that returns on the first hit.\<close>

fun find_index :: "('a \<Rightarrow> bool) \<Rightarrow> 'a list \<Rightarrow> nat option" where
  "find_index P [] = None"
| "find_index P (x # xs) = (if P x then Some 0 else map_option Suc (find_index P xs))"

lemma find_index_Some:
  "find_index P xs = Some n \<longleftrightarrow> n < length xs \<and> P (xs ! n) \<and> (\<forall>m < n. \<not> P (xs ! m))"
proof (induction xs arbitrary: n)
  case Nil
  show ?case by simp
next
  case (Cons x xs)
  show ?case
  proof (cases n)
    case 0
    then show ?thesis by auto
  next
    case (Suc k)
    have "(\<forall>m < Suc k. \<not> P ((x # xs) ! m)) \<longleftrightarrow> \<not> P x \<and> (\<forall>m < k. \<not> P (xs ! m))"
      by (simp add: All_less_Suc2)
    with Suc Cons.IH show ?thesis by auto
  qed
qed

lemma find_index_None: "find_index P xs = None \<longleftrightarrow> (\<forall>x \<in> set xs. \<not> P x)"
  by (induction xs) auto

lemma find_eq_find_index: "List.find P xs = map_option (\<lambda>n. xs ! n) (find_index P xs)"
  by (induction xs) (auto simp: option.map_comp comp_def)

section \<open>Results\<close>

datatype failure = AssertFailed | Undefined

datatype 'a result = Fail failure | Ret 'a

definition M_ASSERT :: "bool \<Rightarrow> 'a result \<Rightarrow> 'a result" where
  "M_ASSERT b k = (if b then k else Fail AssertFailed)"

fun r_bind :: "'a result \<Rightarrow> ('a \<Rightarrow> 'b result) \<Rightarrow> 'b result" where
  "r_bind (Fail e) f = Fail e"
| "r_bind (Ret x) f = f x"

definition r_map :: "('a \<Rightarrow> 'b) \<Rightarrow> 'a result \<Rightarrow> 'b result" where
  "r_map f r = r_bind r (\<lambda>x. Ret (f x))"

text \<open>The short-circuit operators \<open>||\<close> and \<open>&&\<close> on operands that may fail.\<close>

definition r_or :: "bool result \<Rightarrow> bool result \<Rightarrow> bool result" where
  "r_or a b = r_bind a (\<lambda>x. if x then Ret True else b)"

definition r_and :: "bool result \<Rightarrow> bool result \<Rightarrow> bool result" where
  "r_and a b = r_bind a (\<lambda>x. if x then b else Ret False)"

named_theorems result_simps \<open>rewrite rules that decompose a result that returned\<close>

lemma M_ASSERT_True [simp]: "M_ASSERT True k = k"
  by (simp add: M_ASSERT_def)

lemma M_ASSERT_False [simp]: "M_ASSERT False k = Fail AssertFailed"
  by (simp add: M_ASSERT_def)

lemma M_ASSERT_eq_Ret [result_simps]: "M_ASSERT b k = Ret y \<longleftrightarrow> b \<and> k = Ret y"
  by (simp add: M_ASSERT_def)

lemma r_bind_eq_Ret [result_simps]: "r_bind r f = Ret y \<longleftrightarrow> (\<exists>x. r = Ret x \<and> f x = Ret y)"
  by (cases r) auto

lemma r_map_eq_Ret [result_simps]: "r_map f r = Ret y \<longleftrightarrow> (\<exists>x. r = Ret x \<and> f x = y)"
  by (cases r) (auto simp: r_map_def)

lemma r_map_simps [simp]: "r_map f (Ret x) = Ret (f x)" "r_map f (Fail e) = Fail e"
  by (simp_all add: r_map_def)

lemma r_or_simps [simp]: "r_or (Ret x) b = (if x then Ret True else b)" "r_or (Fail e) b = Fail e"
  by (simp_all add: r_or_def)

lemma r_and_simps [simp]: "r_and (Ret x) b = (if x then b else Ret False)" "r_and (Fail e) b = Fail e"
  by (simp_all add: r_and_def)

lemma r_bind_cong [fundef_cong]:
  "r = s \<Longrightarrow> (\<And>x. s = Ret x \<Longrightarrow> f x = g x) \<Longrightarrow> r_bind r f = r_bind s g"
  by (cases s) auto

text \<open>A word below \<open>2 ^ 31\<close> is not negative when it is read as a signed number.\<close>

lemma sint_small:
  fixes w :: u32
  assumes "unat w < 2 ^ 31"
  shows "sint w = int (unat w)"
proof -
  have "int (unat w) < int (2 ^ 31)" using assms by (simp only: of_nat_less_iff)
  then have "int (unat w) < 2 ^ 31" by (simp only: of_nat_power of_nat_numeral)
  then have "signed_take_bit 31 (int (unat w)) = int (unat w)" by (intro signed_take_bit_int_eq_self) linarith+
  then show ?thesis by (simp add: sint_uint)
qed

end
