(* ===== verification/Registers.thy ===== *)
theory Registers
  imports Prelude
begin

text \<open>
  The register file of \<^verbatim>\<open>src/tools/mipsdec/register.h\<close> and \<^verbatim>\<open>register.cpp\<close>: the enumeration
  \<open>tRegister\<close>, the decoder of the five-bit register fields and the printed names.
  \<open>encodeRegister\<close> is the numbering of the MIPS32 architecture, against which the decoder is
  specified.
\<close>

datatype tRegister =
    R_ZERO | R_A0 | R_A1 | R_A2 | R_A3 | R_AT | R_FP | R_GP | R_RA
  | R_S0 | R_S1 | R_S2 | R_S3 | R_S4 | R_S5 | R_S6 | R_S7 | R_SP
  | R_T0 | R_T1 | R_T2 | R_T3 | R_T4 | R_T5 | R_T6 | R_T7 | R_T8 | R_T9
  | R_V0 | R_V1 | R_UNKNOWN

definition decodeRegister :: "u32 \<Rightarrow> tRegister result" where
  "decodeRegister uRawData =
    (if uRawData = 0x00 then Ret R_ZERO
     else if uRawData = 0x01 then Ret R_AT
     else if uRawData = 0x02 then Ret R_V0
     else if uRawData = 0x03 then Ret R_V1
     else if uRawData = 0x04 then Ret R_A0
     else if uRawData = 0x05 then Ret R_A1
     else if uRawData = 0x06 then Ret R_A2
     else if uRawData = 0x07 then Ret R_A3
     else if uRawData = 0x08 then Ret R_T0
     else if uRawData = 0x09 then Ret R_T1
     else if uRawData = 0x0A then Ret R_T2
     else if uRawData = 0x0B then Ret R_T3
     else if uRawData = 0x0C then Ret R_T4
     else if uRawData = 0x0D then Ret R_T5
     else if uRawData = 0x0E then Ret R_T6
     else if uRawData = 0x0F then Ret R_T7
     else if uRawData = 0x10 then Ret R_S0
     else if uRawData = 0x11 then Ret R_S1
     else if uRawData = 0x12 then Ret R_S2
     else if uRawData = 0x13 then Ret R_S3
     else if uRawData = 0x14 then Ret R_S4
     else if uRawData = 0x15 then Ret R_S5
     else if uRawData = 0x16 then Ret R_S6
     else if uRawData = 0x17 then Ret R_S7
     else if uRawData = 0x18 then Ret R_T8
     else if uRawData = 0x19 then Ret R_T9
     else if uRawData = 0x1C then Ret R_GP
     else if uRawData = 0x1D then Ret R_SP
     else if uRawData = 0x1E then Ret R_FP
     else if uRawData = 0x1F then Ret R_RA
     else M_ASSERT False (Ret R_UNKNOWN))"

fun getRegName :: "tRegister \<Rightarrow> string result" where
  "getRegName R_ZERO = Ret ''0''"
| "getRegName R_A0 = Ret ''a0''"
| "getRegName R_A1 = Ret ''a1''"
| "getRegName R_A2 = Ret ''a2''"
| "getRegName R_A3 = Ret ''a3''"
| "getRegName R_AT = Ret ''at''"
| "getRegName R_FP = Ret ''fp''"
| "getRegName R_GP = Ret ''gp''"
| "getRegName R_RA = Ret ''ra''"
| "getRegName R_S0 = Ret ''s0''"
| "getRegName R_S1 = Ret ''s1''"
| "getRegName R_S2 = Ret ''s2''"
| "getRegName R_S3 = Ret ''s3''"
| "getRegName R_S4 = Ret ''s4''"
| "getRegName R_S5 = Ret ''s5''"
| "getRegName R_S6 = Ret ''s6''"
| "getRegName R_S7 = Ret ''s7''"
| "getRegName R_SP = Ret ''sp''"
| "getRegName R_T0 = Ret ''t0''"
| "getRegName R_T1 = Ret ''t1''"
| "getRegName R_T2 = Ret ''t2''"
| "getRegName R_T3 = Ret ''t3''"
| "getRegName R_T4 = Ret ''t4''"
| "getRegName R_T5 = Ret ''t5''"
| "getRegName R_T6 = Ret ''t6''"
| "getRegName R_T7 = Ret ''t7''"
| "getRegName R_T8 = Ret ''t8''"
| "getRegName R_T9 = Ret ''t9''"
| "getRegName R_V0 = Ret ''v0''"
| "getRegName R_V1 = Ret ''v1''"
| "getRegName R_UNKNOWN = M_ASSERT False (Ret ''<UNKN>'')"

text \<open>The architecture's register numbers; the kernel registers 26 and 27 have no constructor.\<close>

fun encodeRegister :: "tRegister \<Rightarrow> u32" where
  "encodeRegister R_ZERO = 0" | "encodeRegister R_AT = 1"
| "encodeRegister R_V0 = 2" | "encodeRegister R_V1 = 3"
| "encodeRegister R_A0 = 4" | "encodeRegister R_A1 = 5"
| "encodeRegister R_A2 = 6" | "encodeRegister R_A3 = 7"
| "encodeRegister R_T0 = 8" | "encodeRegister R_T1 = 9"
| "encodeRegister R_T2 = 10" | "encodeRegister R_T3 = 11"
| "encodeRegister R_T4 = 12" | "encodeRegister R_T5 = 13"
| "encodeRegister R_T6 = 14" | "encodeRegister R_T7 = 15"
| "encodeRegister R_S0 = 16" | "encodeRegister R_S1 = 17"
| "encodeRegister R_S2 = 18" | "encodeRegister R_S3 = 19"
| "encodeRegister R_S4 = 20" | "encodeRegister R_S5 = 21"
| "encodeRegister R_S6 = 22" | "encodeRegister R_S7 = 23"
| "encodeRegister R_T8 = 24" | "encodeRegister R_T9 = 25"
| "encodeRegister R_GP = 28" | "encodeRegister R_SP = 29"
| "encodeRegister R_FP = 30" | "encodeRegister R_RA = 31"
| "encodeRegister R_UNKNOWN = 26"

lemma decodeRegister_encode: "r \<noteq> R_UNKNOWN \<Longrightarrow> decodeRegister (encodeRegister r) = Ret r"
  by (cases r) (simp_all add: decodeRegister_def)

lemma decodeRegister_Ret: "decodeRegister w = Ret r \<Longrightarrow> r \<noteq> R_UNKNOWN \<and> encodeRegister r = w"
  by (auto simp: decodeRegister_def split: if_splits)

lemma decodeRegister_Ret_iff: "decodeRegister w = Ret r \<longleftrightarrow> r \<noteq> R_UNKNOWN \<and> encodeRegister r = w"
  using decodeRegister_encode decodeRegister_Ret by blast

lemma encodeRegister_less: "encodeRegister r < 32"
  by (cases r) simp_all

lemma getRegName_inj: "getRegName r = getRegName r' \<Longrightarrow> r = r'"
  by (cases r; cases r') simp_all

end
