(* ===== verification/Instructions.thy ===== *)
theory Instructions
  imports Registers
begin

text \<open>
  The instruction data and the decoder of mipsdec: \<^verbatim>\<open>src/tools/mipsdec/instruction.h\<close> and the
  first half of \<^verbatim>\<open>instruction.cpp\<close>. The class \<open>Instruction\<close> is split into a record of its
  scalar members (\<open>inst_data\<close>) and a datatype that adds the three instruction lists a branch
  owns, because the lists hold instructions again. Member functions take the object they are
  called on as their first argument and return the changed object.
\<close>

section \<open>Enumerations and the class Instruction\<close>

datatype tInstructionFormat =
    IF_UNKNOWN | IF_NOARG | IF_RSRTRD | IF_RSRT | IF_RSRTSI | IF_RSSI | IF_RSRTUI
  | IF_RTUI | IF_RTRDSA | IF_RSRD | IF_RD | IF_RS | IF_RTRDSEL

datatype tInstructionDelaySlot = IDS_NONE | IDS_CONDITIONAL | IDS_UNCONDITIONAL

datatype tInstructionClass = IC_BRANCH | IC_JUMP | IC_OTHER

datatype tInstructionType =
    IT_ADDIU | IT_ADDU | IT_AND | IT_ANDI | IT_BEQ | IT_BEQL | IT_BGEZ | IT_BGTZ | IT_BLEZ
  | IT_BLTZ | IT_BNE | IT_BNEL | IT_MFHI | IT_J | IT_JALR | IT_JALR_HB | IT_JR | IT_JR_HB
  | IT_LB | IT_LBU | IT_LH | IT_LHU | IT_LUI | IT_LW | IT_LWL | IT_LWR | IT_MFC0 | IT_MTC0
  | IT_MULT | IT_MULTU | IT_NOP | IT_NOR | IT_OR | IT_ORI | IT_SB | IT_SH | IT_SLL | IT_SLTI
  | IT_SLTIU | IT_SLTU | IT_SRA | IT_SRAV | IT_SRL | IT_SSNOP | IT_SUBU | IT_SW | IT_SWL
  | IT_SWR | IT_XORI

text \<open>\<open>iSI\<close> is a \<open>signed short\<close>: the sixteen bits are kept and read with \<open>sint\<close>.\<close>

record inst_data =
  uAddress :: u32
  eType :: tInstructionType
  eFormat :: tInstructionFormat
  eRS :: tRegister
  eRT :: tRegister
  eRD :: tRegister
  uUI :: u16
  iSI :: u16
  uSEL :: u8
  uSA :: u8
  uJumpAddress :: u32
  bDelayedDelete :: bool
  bDelaySlotReordered :: bool
  bIgnoreJump :: bool
  bIsJumpTarget :: bool

datatype Instruction =
  Instruction (dat: inst_data) (collIfBranch: "Instruction list")
    (collElseBranch: "Instruction list") (collInsertAfter: "Instruction list")

type_synonym tInstList = "Instruction list"

definition upd_dat :: "(inst_data \<Rightarrow> inst_data) \<Rightarrow> Instruction \<Rightarrow> Instruction" where
  "upd_dat f i = Instruction (f (dat i)) (collIfBranch i) (collElseBranch i) (collInsertAfter i)"

definition set_if :: "tInstList \<Rightarrow> Instruction \<Rightarrow> Instruction" where
  "set_if xs i = Instruction (dat i) xs (collElseBranch i) (collInsertAfter i)"

definition set_else :: "tInstList \<Rightarrow> Instruction \<Rightarrow> Instruction" where
  "set_else xs i = Instruction (dat i) (collIfBranch i) xs (collInsertAfter i)"

definition set_after :: "tInstList \<Rightarrow> Instruction \<Rightarrow> Instruction" where
  "set_after xs i = Instruction (dat i) (collIfBranch i) (collElseBranch i) xs"

text \<open>
  The constructor sets three flags and leaves every other scalar member as the storage has it:
  \<open>raw\<close> is the content of that storage.
\<close>

definition Instruction_new :: "inst_data \<Rightarrow> Instruction" where
  "Instruction_new raw =
     Instruction (raw\<lparr>bDelayedDelete := False, bDelaySlotReordered := False, bIgnoreJump := False\<rparr>)
       [] [] []"

section \<open>The instruction table\<close>

datatype tResultField = RF_NONE | RF_RD | RF_RS | RF_RT

record tInstructionInfo =
  uOpcode :: u32
  uSpecialOpcode :: u32
  uRegimmOpcode :: u32
  uCop0Opcode :: u32
  pName :: string
  info_eType :: tInstructionType
  info_eFormat :: tInstructionFormat
  eResultField :: tResultField
  eDelaySlot :: tInstructionDelaySlot

definition NO_OPCODE :: u32 where
  "NO_OPCODE = 0xFFFFFFFF"

definition DECLARE_REGULAR_OPCODE ::
  "u32 \<Rightarrow> string \<Rightarrow> tInstructionType \<Rightarrow> tInstructionFormat \<Rightarrow> tResultField \<Rightarrow> tInstructionDelaySlot
    \<Rightarrow> tInstructionInfo" where
  "DECLARE_REGULAR_OPCODE opcode name ty format result_field delayslot =
    \<lparr>uOpcode = opcode, uSpecialOpcode = NO_OPCODE, uRegimmOpcode = NO_OPCODE,
     uCop0Opcode = NO_OPCODE, pName = name, info_eType = ty, info_eFormat = format,
     eResultField = result_field, eDelaySlot = delayslot\<rparr>"

definition DECLARE_SPECIAL_OPCODE ::
  "u32 \<Rightarrow> string \<Rightarrow> tInstructionType \<Rightarrow> tInstructionFormat \<Rightarrow> tResultField \<Rightarrow> tInstructionDelaySlot
    \<Rightarrow> tInstructionInfo" where
  "DECLARE_SPECIAL_OPCODE specialopcode name ty format result_field delayslot =
    \<lparr>uOpcode = 0x00, uSpecialOpcode = specialopcode, uRegimmOpcode = NO_OPCODE,
     uCop0Opcode = NO_OPCODE, pName = name, info_eType = ty, info_eFormat = format,
     eResultField = result_field, eDelaySlot = delayslot\<rparr>"

definition DECLARE_REGIMM_OPCODE ::
  "u32 \<Rightarrow> string \<Rightarrow> tInstructionType \<Rightarrow> tInstructionFormat \<Rightarrow> tResultField \<Rightarrow> tInstructionDelaySlot
    \<Rightarrow> tInstructionInfo" where
  "DECLARE_REGIMM_OPCODE regimmopcode name ty format result_field delayslot =
    \<lparr>uOpcode = 0x01, uSpecialOpcode = NO_OPCODE, uRegimmOpcode = regimmopcode,
     uCop0Opcode = NO_OPCODE, pName = name, info_eType = ty, info_eFormat = format,
     eResultField = result_field, eDelaySlot = delayslot\<rparr>"

definition DECLARE_COP0_OPCODE ::
  "u32 \<Rightarrow> string \<Rightarrow> tInstructionType \<Rightarrow> tInstructionFormat \<Rightarrow> tResultField \<Rightarrow> tInstructionDelaySlot
    \<Rightarrow> tInstructionInfo" where
  "DECLARE_COP0_OPCODE cop0opcode name ty format result_field delayslot =
    \<lparr>uOpcode = 0x10, uSpecialOpcode = NO_OPCODE, uRegimmOpcode = NO_OPCODE,
     uCop0Opcode = cop0opcode, pName = name, info_eType = ty, info_eFormat = format,
     eResultField = result_field, eDelaySlot = delayslot\<rparr>"

definition DECLARE_VIRTUAL_OPCODE ::
  "string \<Rightarrow> tInstructionType \<Rightarrow> tInstructionFormat \<Rightarrow> tResultField \<Rightarrow> tInstructionDelaySlot
    \<Rightarrow> tInstructionInfo" where
  "DECLARE_VIRTUAL_OPCODE name ty format result_field delayslot =
    \<lparr>uOpcode = NO_OPCODE, uSpecialOpcode = NO_OPCODE, uRegimmOpcode = NO_OPCODE,
     uCop0Opcode = NO_OPCODE, pName = name, info_eType = ty, info_eFormat = format,
     eResultField = result_field, eDelaySlot = delayslot\<rparr>"

lemmas declare_opcode_defs =
  DECLARE_REGULAR_OPCODE_def DECLARE_SPECIAL_OPCODE_def DECLARE_REGIMM_OPCODE_def
  DECLARE_COP0_OPCODE_def DECLARE_VIRTUAL_OPCODE_def NO_OPCODE_def

definition s_InstructionInfo :: "tInstructionInfo list" where
  "s_InstructionInfo = [
    DECLARE_SPECIAL_OPCODE 0x21 ''ADDU'' IT_ADDU IF_RSRTRD RF_RD IDS_NONE,
    DECLARE_REGULAR_OPCODE 0x09 ''ADDIU'' IT_ADDIU IF_RSRTSI RF_RT IDS_NONE,
    DECLARE_SPECIAL_OPCODE 0x24 ''AND'' IT_AND IF_RSRTRD RF_RD IDS_NONE,
    DECLARE_REGULAR_OPCODE 0x0C ''ANDI'' IT_ANDI IF_RSRTUI RF_RT IDS_NONE,
    DECLARE_REGULAR_OPCODE 0x04 ''BEQ'' IT_BEQ IF_RSRTSI RF_NONE IDS_UNCONDITIONAL,
    DECLARE_REGULAR_OPCODE 0x14 ''BEQL'' IT_BEQL IF_RSRTSI RF_NONE IDS_CONDITIONAL,
    DECLARE_REGIMM_OPCODE 0x01 ''BGEZ'' IT_BGEZ IF_RSSI RF_NONE IDS_UNCONDITIONAL,
    DECLARE_REGULAR_OPCODE 0x07 ''BGTZ'' IT_BGTZ IF_RSSI RF_NONE IDS_UNCONDITIONAL,
    DECLARE_REGULAR_OPCODE 0x06 ''BLEZ'' IT_BLEZ IF_RSSI RF_NONE IDS_UNCONDITIONAL,
    DECLARE_REGIMM_OPCODE 0x00 ''BLTZ'' IT_BLTZ IF_RSSI RF_NONE IDS_UNCONDITIONAL,
    DECLARE_REGULAR_OPCODE 0x05 ''BNE'' IT_BNE IF_RSRTSI RF_NONE IDS_UNCONDITIONAL,
    DECLARE_REGULAR_OPCODE 0x15 ''BNEL'' IT_BNEL IF_RSRTSI RF_NONE IDS_CONDITIONAL,
    DECLARE_REGULAR_OPCODE 0x02 ''J'' IT_J IF_NOARG RF_NONE IDS_UNCONDITIONAL,
    DECLARE_SPECIAL_OPCODE 0x09 ''JALR'' IT_JALR IF_RSRD RF_NONE IDS_UNCONDITIONAL,
    DECLARE_SPECIAL_OPCODE 0x08 ''JR'' IT_JR IF_RS RF_NONE IDS_UNCONDITIONAL,
    DECLARE_REGULAR_OPCODE 0x20 ''LB'' IT_LB IF_RSRTSI RF_RT IDS_NONE,
    DECLARE_REGULAR_OPCODE 0x24 ''LBU'' IT_LBU IF_RSRTSI RF_RT IDS_NONE,
    DECLARE_REGULAR_OPCODE 0x21 ''LH'' IT_LH IF_RSRTSI RF_RT IDS_NONE,
    DECLARE_REGULAR_OPCODE 0x25 ''LHU'' IT_LHU IF_RSRTSI RF_RT IDS_NONE,
    DECLARE_REGULAR_OPCODE 0x0F ''LUI'' IT_LUI IF_RTUI RF_RT IDS_NONE,
    DECLARE_REGULAR_OPCODE 0x23 ''LW'' IT_LW IF_RSRTSI RF_RT IDS_NONE,
    DECLARE_REGULAR_OPCODE 0x22 ''LWL'' IT_LWL IF_RSRTSI RF_RT IDS_NONE,
    DECLARE_REGULAR_OPCODE 0x26 ''LWR'' IT_LWR IF_RSRTSI RF_RT IDS_NONE,
    DECLARE_COP0_OPCODE 0x00 ''MFC0'' IT_MFC0 IF_RTRDSEL RF_RT IDS_NONE,
    DECLARE_SPECIAL_OPCODE 0x10 ''MFHI'' IT_MFHI IF_RD RF_RD IDS_NONE,
    DECLARE_COP0_OPCODE 0x04 ''MTC0'' IT_MTC0 IF_RTRDSEL RF_NONE IDS_NONE,
    DECLARE_SPECIAL_OPCODE 0x18 ''MULT'' IT_MULT IF_RSRT RF_NONE IDS_NONE,
    DECLARE_SPECIAL_OPCODE 0x19 ''MULTU'' IT_MULTU IF_RSRT RF_NONE IDS_NONE,
    DECLARE_VIRTUAL_OPCODE ''NOP'' IT_NOP IF_NOARG RF_NONE IDS_NONE,
    DECLARE_SPECIAL_OPCODE 0x27 ''NOR'' IT_NOR IF_RSRTRD RF_RD IDS_NONE,
    DECLARE_SPECIAL_OPCODE 0x25 ''OR'' IT_OR IF_RSRTRD RF_RD IDS_NONE,
    DECLARE_REGULAR_OPCODE 0x0D ''ORI'' IT_ORI IF_RSRTUI RF_RT IDS_NONE,
    DECLARE_REGULAR_OPCODE 0x28 ''SB'' IT_SB IF_RSRTSI RF_NONE IDS_NONE,
    DECLARE_REGULAR_OPCODE 0x29 ''SH'' IT_SH IF_RSRTSI RF_NONE IDS_NONE,
    DECLARE_SPECIAL_OPCODE 0x00 ''SLL'' IT_SLL IF_RTRDSA RF_RD IDS_NONE,
    DECLARE_REGULAR_OPCODE 0x0A ''SLTI'' IT_SLTI IF_RSRTSI RF_RT IDS_NONE,
    DECLARE_REGULAR_OPCODE 0x0B ''SLTIU'' IT_SLTIU IF_RSRTSI RF_RT IDS_NONE,
    DECLARE_SPECIAL_OPCODE 0x2B ''SLTU'' IT_SLTU IF_RSRTRD RF_RD IDS_NONE,
    DECLARE_SPECIAL_OPCODE 0x03 ''SRA'' IT_SRA IF_RTRDSA RF_RD IDS_NONE,
    DECLARE_SPECIAL_OPCODE 0x07 ''SRAV'' IT_SRAV IF_RSRTRD RF_RD IDS_NONE,
    DECLARE_SPECIAL_OPCODE 0x02 ''SRL'' IT_SRL IF_RTRDSA RF_RD IDS_NONE,
    DECLARE_VIRTUAL_OPCODE ''SSNOP'' IT_SSNOP IF_NOARG RF_NONE IDS_NONE,
    DECLARE_SPECIAL_OPCODE 0x23 ''SUBU'' IT_SUBU IF_RSRTRD RF_RD IDS_NONE,
    DECLARE_REGULAR_OPCODE 0x2B ''SW'' IT_SW IF_RSRTSI RF_NONE IDS_NONE,
    DECLARE_REGULAR_OPCODE 0x2A ''SWL'' IT_SWL IF_RSRTSI RF_NONE IDS_NONE,
    DECLARE_REGULAR_OPCODE 0x2E ''SWR'' IT_SWR IF_RSRTSI RF_NONE IDS_NONE,
    DECLARE_REGULAR_OPCODE 0x0E ''XORI'' IT_XORI IF_RSRTUI RF_RT IDS_NONE]"

definition getInstructionInfoIdx :: "tInstructionType \<Rightarrow> nat result" where
  "getInstructionInfoIdx ty =
    (case find_index (\<lambda>info. info_eType info = ty) s_InstructionInfo of
       Some uInfoIdx \<Rightarrow> Ret uInfoIdx
     | None \<Rightarrow> M_ASSERT False (Ret 0))"

text \<open>The expression \<open>s_InstructionInfo[getInstructionInfoIdx(eType)]\<close>.\<close>

definition info_of :: "tInstructionType \<Rightarrow> tInstructionInfo result" where
  "info_of ty = r_map (\<lambda>idx. s_InstructionInfo ! idx) (getInstructionInfoIdx ty)"

section \<open>Decoding\<close>

text \<open>One round of the loop of \<open>decodeData\<close>: does this table entry match the word?\<close>

definition info_matches :: "u32 \<Rightarrow> tInstructionInfo \<Rightarrow> bool" where
  "info_matches uInstructionData info =
    (let opc = drop_bit 26 uInstructionData in
     uOpcode info = opc \<and>
     (if opc = 0x00 then uSpecialOpcode info = uInstructionData AND 0x3F
      else if opc = 0x01 then uRegimmOpcode info = drop_bit 16 uInstructionData AND 0x1F
      else if opc = 0x10 then uCop0Opcode info = drop_bit 21 uInstructionData AND 0x1F
      else True))"

definition decodeData :: "u32 \<Rightarrow> nat result" where
  "decodeData uInstructionData =
    (case find_index (info_matches uInstructionData) s_InstructionInfo of
       Some uInfoIdx \<Rightarrow> Ret uInfoIdx
     | None \<Rightarrow> M_ASSERT False (Ret 0))"

definition setDefaults :: "Instruction \<Rightarrow> Instruction" where
  "setDefaults i =
    Instruction ((dat i)\<lparr>eFormat := IF_UNKNOWN, eRS := R_UNKNOWN, eRT := R_UNKNOWN, eRD := R_UNKNOWN,
        uUI := 0, iSI := 0, uSEL := 0, bDelaySlotReordered := False, uJumpAddress := 0,
        bIsJumpTarget := False\<rparr>)
      [] [] (collInsertAfter i)"

definition field :: "nat \<Rightarrow> u32 \<Rightarrow> u32" where
  "field n uInstructionData = drop_bit n uInstructionData AND 0x1F"

definition decodeNOARG :: "Instruction \<Rightarrow> Instruction" where
  "decodeNOARG i = upd_dat (\<lambda>d. d\<lparr>eFormat := IF_NOARG\<rparr>) (setDefaults i)"

definition decodeRTRDSA :: "u32 \<Rightarrow> Instruction \<Rightarrow> Instruction result" where
  "decodeRTRDSA w i =
    r_bind (decodeRegister (field 16 w)) (\<lambda>rt. r_bind (decodeRegister (field 11 w)) (\<lambda>rd.
    Ret (upd_dat (\<lambda>d. d\<lparr>eFormat := IF_RTRDSA, eRT := rt, eRD := rd, uSA := ucast (field 6 w)\<rparr>)
      (setDefaults i))))"

definition decodeRTRDSEL :: "u32 \<Rightarrow> Instruction \<Rightarrow> Instruction result" where
  "decodeRTRDSEL w i =
    r_bind (decodeRegister (field 16 w)) (\<lambda>rt.
    Ret (upd_dat (\<lambda>d. d\<lparr>eFormat := IF_RTRDSEL, eRT := rt, uSEL := ucast (w AND 0x7)\<rparr>)
      (setDefaults i)))"

definition decodeRTUI :: "u32 \<Rightarrow> Instruction \<Rightarrow> Instruction result" where
  "decodeRTUI w i =
    r_bind (decodeRegister (field 16 w)) (\<lambda>rt.
    Ret (upd_dat (\<lambda>d. d\<lparr>eFormat := IF_RTUI, eRT := rt, uUI := ucast (w AND 0xFFFF)\<rparr>)
      (setDefaults i)))"

definition decodeRSRTRD :: "u32 \<Rightarrow> Instruction \<Rightarrow> Instruction result" where
  "decodeRSRTRD w i =
    r_bind (decodeRegister (field 21 w)) (\<lambda>rs. r_bind (decodeRegister (field 16 w)) (\<lambda>rt.
    r_bind (decodeRegister (field 11 w)) (\<lambda>rd.
    Ret (upd_dat (\<lambda>d. d\<lparr>eFormat := IF_RSRTRD, eRS := rs, eRT := rt, eRD := rd\<rparr>)
      (setDefaults i)))))"

definition decodeRSRD :: "u32 \<Rightarrow> Instruction \<Rightarrow> Instruction result" where
  "decodeRSRD w i =
    r_bind (decodeRegister (field 21 w)) (\<lambda>rs. r_bind (decodeRegister (field 11 w)) (\<lambda>rd.
    Ret (upd_dat (\<lambda>d. d\<lparr>eFormat := IF_RSRD, eRS := rs, eRD := rd\<rparr>) (setDefaults i))))"

definition decodeRSRT :: "u32 \<Rightarrow> Instruction \<Rightarrow> Instruction result" where
  "decodeRSRT w i =
    r_bind (decodeRegister (field 21 w)) (\<lambda>rs. r_bind (decodeRegister (field 16 w)) (\<lambda>rt.
    Ret (upd_dat (\<lambda>d. d\<lparr>eFormat := IF_RSRT, eRS := rs, eRT := rt\<rparr>) (setDefaults i))))"

definition decodeRSRTSI :: "u32 \<Rightarrow> Instruction \<Rightarrow> Instruction result" where
  "decodeRSRTSI w i =
    r_bind (decodeRegister (field 21 w)) (\<lambda>rs. r_bind (decodeRegister (field 16 w)) (\<lambda>rt.
    Ret (upd_dat (\<lambda>d. d\<lparr>eFormat := IF_RSRTSI, eRS := rs, eRT := rt, iSI := ucast (w AND 0xFFFF)\<rparr>)
      (setDefaults i))))"

definition decodeRSSI :: "u32 \<Rightarrow> Instruction \<Rightarrow> Instruction result" where
  "decodeRSSI w i =
    r_bind (decodeRegister (field 21 w)) (\<lambda>rs.
    Ret (upd_dat (\<lambda>d. d\<lparr>eFormat := IF_RSSI, eRS := rs, iSI := ucast (w AND 0xFFFF)\<rparr>)
      (setDefaults i)))"

definition decodeRSRTUI :: "u32 \<Rightarrow> Instruction \<Rightarrow> Instruction result" where
  "decodeRSRTUI w i =
    r_bind (decodeRegister (field 21 w)) (\<lambda>rs. r_bind (decodeRegister (field 16 w)) (\<lambda>rt.
    Ret (upd_dat (\<lambda>d. d\<lparr>eFormat := IF_RSRTUI, eRS := rs, eRT := rt, uUI := ucast (w AND 0xFFFF)\<rparr>)
      (setDefaults i))))"

definition decodeRD :: "u32 \<Rightarrow> Instruction \<Rightarrow> Instruction result" where
  "decodeRD w i =
    r_bind (decodeRegister (field 11 w)) (\<lambda>rd.
    Ret (upd_dat (\<lambda>d. d\<lparr>eFormat := IF_RD, eRD := rd\<rparr>) (setDefaults i)))"

definition decodeRS :: "u32 \<Rightarrow> Instruction \<Rightarrow> Instruction result" where
  "decodeRS w i =
    r_bind (decodeRegister (field 21 w)) (\<lambda>rs.
    Ret (upd_dat (\<lambda>d. d\<lparr>eFormat := IF_RS, eRS := rs\<rparr>) (setDefaults i)))"

text \<open>The first \<open>switch\<close> of \<open>Instruction::parse\<close>: decode the operands by format.\<close>

fun parse_operands :: "tInstructionFormat \<Rightarrow> u32 \<Rightarrow> Instruction \<Rightarrow> Instruction result" where
  "parse_operands IF_NOARG w i = Ret (decodeNOARG i)"
| "parse_operands IF_RSRTRD w i = decodeRSRTRD w i"
| "parse_operands IF_RSRT w i = decodeRSRT w i"
| "parse_operands IF_RSRTSI w i = decodeRSRTSI w i"
| "parse_operands IF_RSSI w i = decodeRSSI w i"
| "parse_operands IF_RSRTUI w i = decodeRSRTUI w i"
| "parse_operands IF_RTUI w i = decodeRTUI w i"
| "parse_operands IF_RTRDSA w i = decodeRTRDSA w i"
| "parse_operands IF_RSRD w i = decodeRSRD w i"
| "parse_operands IF_RD w i = decodeRD w i"
| "parse_operands IF_RS w i = decodeRS w i"
| "parse_operands IF_RTRDSEL w i = decodeRTRDSEL w i"
| "parse_operands IF_UNKNOWN w i = M_ASSERT False (Ret i)"

text \<open>
  The second \<open>switch\<close>: jump addresses, the hazard-barrier variants and the two no-ops. The
  addition \<open>uAddress + 4 + (iSI << 2)\<close> wraps at 32 bits.
\<close>

definition parse_fixup :: "u32 \<Rightarrow> Instruction \<Rightarrow> Instruction" where
  "parse_fixup w i =
    (case eType (dat i) of
       IT_BEQ \<Rightarrow> upd_dat (\<lambda>d. d\<lparr>uJumpAddress := uAddress d + 4 + push_bit 2 (scast (iSI d))\<rparr>) i
     | IT_BEQL \<Rightarrow> upd_dat (\<lambda>d. d\<lparr>uJumpAddress := uAddress d + 4 + push_bit 2 (scast (iSI d))\<rparr>) i
     | IT_BGTZ \<Rightarrow> upd_dat (\<lambda>d. d\<lparr>uJumpAddress := uAddress d + 4 + push_bit 2 (scast (iSI d))\<rparr>) i
     | IT_BLEZ \<Rightarrow> upd_dat (\<lambda>d. d\<lparr>uJumpAddress := uAddress d + 4 + push_bit 2 (scast (iSI d))\<rparr>) i
     | IT_BLTZ \<Rightarrow> upd_dat (\<lambda>d. d\<lparr>uJumpAddress := uAddress d + 4 + push_bit 2 (scast (iSI d))\<rparr>) i
     | IT_BNE \<Rightarrow> upd_dat (\<lambda>d. d\<lparr>uJumpAddress := uAddress d + 4 + push_bit 2 (scast (iSI d))\<rparr>) i
     | IT_BNEL \<Rightarrow> upd_dat (\<lambda>d. d\<lparr>uJumpAddress := uAddress d + 4 + push_bit 2 (scast (iSI d))\<rparr>) i
     | IT_J \<Rightarrow> upd_dat (\<lambda>d. d\<lparr>uJumpAddress :=
           ((uAddress d + 4) AND NOT 0xFFFFFFF) OR push_bit 2 (w AND 0x3FFFFFF)\<rparr>) i
     | IT_JALR \<Rightarrow> (if w AND push_bit 10 1 \<noteq> 0 then upd_dat (\<lambda>d. d\<lparr>eType := IT_JALR_HB\<rparr>) i else i)
     | IT_JR \<Rightarrow> (if w AND push_bit 10 1 \<noteq> 0 then upd_dat (\<lambda>d. d\<lparr>eType := IT_JR_HB\<rparr>) i else i)
     | IT_SLL \<Rightarrow>
         (if eRT (dat i) = R_ZERO \<and> eRD (dat i) = R_ZERO then
            (if uSA (dat i) = 0 then upd_dat (\<lambda>d. d\<lparr>eType := IT_NOP\<rparr>) (decodeNOARG i)
             else if uSA (dat i) = 1 then upd_dat (\<lambda>d. d\<lparr>eType := IT_SSNOP\<rparr>) (decodeNOARG i)
             else i)
          else i)
     | _ \<Rightarrow> i)"

definition parse :: "Instruction \<Rightarrow> u32 \<Rightarrow> u32 \<Rightarrow> Instruction result" where
  "parse i uInstructionData uInstructionAddress =
    (let i1 = upd_dat (\<lambda>d. d\<lparr>uAddress := uInstructionAddress\<rparr>) i in
     r_bind (decodeData uInstructionData) (\<lambda>uInfoIdx.
     (let info = s_InstructionInfo ! uInfoIdx;
          i2 = upd_dat (\<lambda>d. d\<lparr>eType := info_eType info\<rparr>) i1 in
      r_bind (parse_operands (info_eFormat info) uInstructionData i2) (\<lambda>i3.
      Ret (parse_fixup uInstructionData i3)))))"

section \<open>Queries and changes\<close>

definition encodeAbsoluteJump :: "u32 \<Rightarrow> Instruction \<Rightarrow> Instruction result" where
  "encodeAbsoluteJump uJAddress i =
    M_ASSERT (uJAddress \<noteq> 0)
      (Ret (upd_dat (\<lambda>d. d\<lparr>uAddress := 0xFFFFFFFF, eType := IT_J, eFormat := IF_NOARG,
         uJumpAddress := uJAddress, bDelaySlotReordered := True\<rparr>) (setDefaults i)))"

text \<open>\<open>swap\<close> returns the new \<open>*this\<close> and the new \<open>aOtherInstruction\<close>.\<close>

definition swap :: "Instruction \<Rightarrow> Instruction \<Rightarrow> bool \<Rightarrow> Instruction \<times> Instruction" where
  "swap this other bSwapAddress =
    (if bSwapAddress then (other, this)
     else (upd_dat (\<lambda>d. d\<lparr>uAddress := uAddress (dat this)\<rparr>) other,
           upd_dat (\<lambda>d. d\<lparr>uAddress := uAddress (dat other)\<rparr>) this))"

definition modifiesRegister :: "inst_data \<Rightarrow> tRegister \<Rightarrow> bool result" where
  "modifiesRegister d eRegister =
    M_ASSERT (eRegister \<noteq> R_UNKNOWN)
      (r_bind (info_of (eType d)) (\<lambda>info.
        (case eResultField info of
           RF_NONE \<Rightarrow> Ret False
         | RF_RD \<Rightarrow> M_ASSERT (eRD d \<noteq> R_UNKNOWN) (Ret (eRD d = eRegister))
         | RF_RS \<Rightarrow> M_ASSERT (eRS d \<noteq> R_UNKNOWN) (Ret (eRS d = eRegister))
         | RF_RT \<Rightarrow> M_ASSERT (eRT d \<noteq> R_UNKNOWN) (Ret (eRT d = eRegister)))))"

definition encodeRegisterMove :: "tRegister \<Rightarrow> tRegister \<Rightarrow> Instruction \<Rightarrow> Instruction result" where
  "encodeRegisterMove eSrcRegister eDstRegister i =
    M_ASSERT (eSrcRegister \<noteq> R_UNKNOWN) (M_ASSERT (eDstRegister \<noteq> R_UNKNOWN)
      (Ret (upd_dat (\<lambda>d. d\<lparr>uAddress := 0xFFFFFFFF, eType := IT_ADDU, eFormat := IF_RSRTRD,
         eRS := eSrcRegister, eRT := R_ZERO, eRD := eDstRegister\<rparr>) (setDefaults i))))"

definition makeNOP :: "Instruction \<Rightarrow> Instruction result" where
  "makeNOP i =
    M_ASSERT (length (collIfBranch i) = 0) (M_ASSERT (length (collElseBranch i) = 0)
    (M_ASSERT (uJumpAddress (dat i) = 0)
      (let bWasJumpTarget = bIsJumpTarget (dat i); uOldAddress = uAddress (dat i) in
       Ret (upd_dat (\<lambda>d. d\<lparr>eType := IT_NOP, uAddress := uOldAddress, bIsJumpTarget := bWasJumpTarget\<rparr>)
         (decodeNOARG i)))))"

definition getDelaySlotType :: "inst_data \<Rightarrow> tInstructionDelaySlot result" where
  "getDelaySlotType d = r_map eDelaySlot (info_of (eType d))"

definition getClassType :: "inst_data \<Rightarrow> tInstructionClass result" where
  "getClassType d =
    r_bind (info_of (eType d)) (\<lambda>info.
      (if pName info ! 0 = CHR ''B'' then M_ASSERT (eDelaySlot info \<noteq> IDS_NONE) (Ret IC_BRANCH)
       else if pName info ! 0 = CHR ''J'' then M_ASSERT (eDelaySlot info \<noteq> IDS_NONE) (Ret IC_JUMP)
       else M_ASSERT (eDelaySlot info = IDS_NONE) (Ret IC_OTHER)))"

definition isNOP :: "inst_data \<Rightarrow> bool" where
  "isNOP d = (case eType d of IT_NOP \<Rightarrow> True | IT_SSNOP \<Rightarrow> True | _ \<Rightarrow> False)"

definition deleteDelayed :: "Instruction \<Rightarrow> Instruction result" where
  "deleteDelayed i =
    M_ASSERT (\<not> bDelayedDelete (dat i)) (Ret (upd_dat (\<lambda>d. d\<lparr>bDelayedDelete := True\<rparr>) i))"

definition isSame :: "inst_data \<Rightarrow> inst_data \<Rightarrow> bool" where
  "isSame d o' =
    (\<not> (eType d \<noteq> eType o' \<or> eFormat d \<noteq> eFormat o' \<or> eRS d \<noteq> eRS o' \<or> eRT d \<noteq> eRT o' \<or>
       eRD d \<noteq> eRD o' \<or> uUI d \<noteq> uUI o' \<or> iSI d \<noteq> iSI o' \<or> uSEL d \<noteq> uSEL o' \<or> uSA d \<noteq> uSA o' \<or>
       uJumpAddress d \<noteq> uJumpAddress o'))"

definition getInstrName :: "inst_data \<Rightarrow> string result" where
  "getInstrName d = r_map pName (info_of (eType d))"

section \<open>Table facts\<close>

lemma info_of_find:
  "info_of ty =
    (case List.find (\<lambda>info. info_eType info = ty) s_InstructionInfo of
       Some info \<Rightarrow> Ret info | None \<Rightarrow> Fail AssertFailed)"
  by (simp add: info_of_def getInstructionInfoIdx_def find_eq_find_index split: option.splits)

lemma info_of_simps [simp]:
  "info_of IT_ADDU = Ret (DECLARE_SPECIAL_OPCODE 0x21 ''ADDU'' IT_ADDU IF_RSRTRD RF_RD IDS_NONE)"
  "info_of IT_ADDIU = Ret (DECLARE_REGULAR_OPCODE 0x09 ''ADDIU'' IT_ADDIU IF_RSRTSI RF_RT IDS_NONE)"
  "info_of IT_AND = Ret (DECLARE_SPECIAL_OPCODE 0x24 ''AND'' IT_AND IF_RSRTRD RF_RD IDS_NONE)"
  "info_of IT_ANDI = Ret (DECLARE_REGULAR_OPCODE 0x0C ''ANDI'' IT_ANDI IF_RSRTUI RF_RT IDS_NONE)"
  "info_of IT_BEQ = Ret (DECLARE_REGULAR_OPCODE 0x04 ''BEQ'' IT_BEQ IF_RSRTSI RF_NONE IDS_UNCONDITIONAL)"
  "info_of IT_BEQL = Ret (DECLARE_REGULAR_OPCODE 0x14 ''BEQL'' IT_BEQL IF_RSRTSI RF_NONE IDS_CONDITIONAL)"
  "info_of IT_BGEZ = Ret (DECLARE_REGIMM_OPCODE 0x01 ''BGEZ'' IT_BGEZ IF_RSSI RF_NONE IDS_UNCONDITIONAL)"
  "info_of IT_BGTZ = Ret (DECLARE_REGULAR_OPCODE 0x07 ''BGTZ'' IT_BGTZ IF_RSSI RF_NONE IDS_UNCONDITIONAL)"
  "info_of IT_BLEZ = Ret (DECLARE_REGULAR_OPCODE 0x06 ''BLEZ'' IT_BLEZ IF_RSSI RF_NONE IDS_UNCONDITIONAL)"
  "info_of IT_BLTZ = Ret (DECLARE_REGIMM_OPCODE 0x00 ''BLTZ'' IT_BLTZ IF_RSSI RF_NONE IDS_UNCONDITIONAL)"
  "info_of IT_BNE = Ret (DECLARE_REGULAR_OPCODE 0x05 ''BNE'' IT_BNE IF_RSRTSI RF_NONE IDS_UNCONDITIONAL)"
  "info_of IT_BNEL = Ret (DECLARE_REGULAR_OPCODE 0x15 ''BNEL'' IT_BNEL IF_RSRTSI RF_NONE IDS_CONDITIONAL)"
  "info_of IT_J = Ret (DECLARE_REGULAR_OPCODE 0x02 ''J'' IT_J IF_NOARG RF_NONE IDS_UNCONDITIONAL)"
  "info_of IT_JALR = Ret (DECLARE_SPECIAL_OPCODE 0x09 ''JALR'' IT_JALR IF_RSRD RF_NONE IDS_UNCONDITIONAL)"
  "info_of IT_JR = Ret (DECLARE_SPECIAL_OPCODE 0x08 ''JR'' IT_JR IF_RS RF_NONE IDS_UNCONDITIONAL)"
  "info_of IT_LB = Ret (DECLARE_REGULAR_OPCODE 0x20 ''LB'' IT_LB IF_RSRTSI RF_RT IDS_NONE)"
  "info_of IT_LBU = Ret (DECLARE_REGULAR_OPCODE 0x24 ''LBU'' IT_LBU IF_RSRTSI RF_RT IDS_NONE)"
  "info_of IT_LH = Ret (DECLARE_REGULAR_OPCODE 0x21 ''LH'' IT_LH IF_RSRTSI RF_RT IDS_NONE)"
  "info_of IT_LHU = Ret (DECLARE_REGULAR_OPCODE 0x25 ''LHU'' IT_LHU IF_RSRTSI RF_RT IDS_NONE)"
  "info_of IT_LUI = Ret (DECLARE_REGULAR_OPCODE 0x0F ''LUI'' IT_LUI IF_RTUI RF_RT IDS_NONE)"
  "info_of IT_LW = Ret (DECLARE_REGULAR_OPCODE 0x23 ''LW'' IT_LW IF_RSRTSI RF_RT IDS_NONE)"
  "info_of IT_LWL = Ret (DECLARE_REGULAR_OPCODE 0x22 ''LWL'' IT_LWL IF_RSRTSI RF_RT IDS_NONE)"
  "info_of IT_LWR = Ret (DECLARE_REGULAR_OPCODE 0x26 ''LWR'' IT_LWR IF_RSRTSI RF_RT IDS_NONE)"
  "info_of IT_MFC0 = Ret (DECLARE_COP0_OPCODE 0x00 ''MFC0'' IT_MFC0 IF_RTRDSEL RF_RT IDS_NONE)"
  "info_of IT_MFHI = Ret (DECLARE_SPECIAL_OPCODE 0x10 ''MFHI'' IT_MFHI IF_RD RF_RD IDS_NONE)"
  "info_of IT_MTC0 = Ret (DECLARE_COP0_OPCODE 0x04 ''MTC0'' IT_MTC0 IF_RTRDSEL RF_NONE IDS_NONE)"
  "info_of IT_MULT = Ret (DECLARE_SPECIAL_OPCODE 0x18 ''MULT'' IT_MULT IF_RSRT RF_NONE IDS_NONE)"
  "info_of IT_MULTU = Ret (DECLARE_SPECIAL_OPCODE 0x19 ''MULTU'' IT_MULTU IF_RSRT RF_NONE IDS_NONE)"
  "info_of IT_NOP = Ret (DECLARE_VIRTUAL_OPCODE ''NOP'' IT_NOP IF_NOARG RF_NONE IDS_NONE)"
  "info_of IT_NOR = Ret (DECLARE_SPECIAL_OPCODE 0x27 ''NOR'' IT_NOR IF_RSRTRD RF_RD IDS_NONE)"
  "info_of IT_OR = Ret (DECLARE_SPECIAL_OPCODE 0x25 ''OR'' IT_OR IF_RSRTRD RF_RD IDS_NONE)"
  "info_of IT_ORI = Ret (DECLARE_REGULAR_OPCODE 0x0D ''ORI'' IT_ORI IF_RSRTUI RF_RT IDS_NONE)"
  "info_of IT_SB = Ret (DECLARE_REGULAR_OPCODE 0x28 ''SB'' IT_SB IF_RSRTSI RF_NONE IDS_NONE)"
  "info_of IT_SH = Ret (DECLARE_REGULAR_OPCODE 0x29 ''SH'' IT_SH IF_RSRTSI RF_NONE IDS_NONE)"
  "info_of IT_SLL = Ret (DECLARE_SPECIAL_OPCODE 0x00 ''SLL'' IT_SLL IF_RTRDSA RF_RD IDS_NONE)"
  "info_of IT_SLTI = Ret (DECLARE_REGULAR_OPCODE 0x0A ''SLTI'' IT_SLTI IF_RSRTSI RF_RT IDS_NONE)"
  "info_of IT_SLTIU = Ret (DECLARE_REGULAR_OPCODE 0x0B ''SLTIU'' IT_SLTIU IF_RSRTSI RF_RT IDS_NONE)"
  "info_of IT_SLTU = Ret (DECLARE_SPECIAL_OPCODE 0x2B ''SLTU'' IT_SLTU IF_RSRTRD RF_RD IDS_NONE)"
  "info_of IT_SRA = Ret (DECLARE_SPECIAL_OPCODE 0x03 ''SRA'' IT_SRA IF_RTRDSA RF_RD IDS_NONE)"
  "info_of IT_SRAV = Ret (DECLARE_SPECIAL_OPCODE 0x07 ''SRAV'' IT_SRAV IF_RSRTRD RF_RD IDS_NONE)"
  "info_of IT_SRL = Ret (DECLARE_SPECIAL_OPCODE 0x02 ''SRL'' IT_SRL IF_RTRDSA RF_RD IDS_NONE)"
  "info_of IT_SSNOP = Ret (DECLARE_VIRTUAL_OPCODE ''SSNOP'' IT_SSNOP IF_NOARG RF_NONE IDS_NONE)"
  "info_of IT_SUBU = Ret (DECLARE_SPECIAL_OPCODE 0x23 ''SUBU'' IT_SUBU IF_RSRTRD RF_RD IDS_NONE)"
  "info_of IT_SW = Ret (DECLARE_REGULAR_OPCODE 0x2B ''SW'' IT_SW IF_RSRTSI RF_NONE IDS_NONE)"
  "info_of IT_SWL = Ret (DECLARE_REGULAR_OPCODE 0x2A ''SWL'' IT_SWL IF_RSRTSI RF_NONE IDS_NONE)"
  "info_of IT_SWR = Ret (DECLARE_REGULAR_OPCODE 0x2E ''SWR'' IT_SWR IF_RSRTSI RF_NONE IDS_NONE)"
  "info_of IT_XORI = Ret (DECLARE_REGULAR_OPCODE 0x0E ''XORI'' IT_XORI IF_RSRTUI RF_RT IDS_NONE)"
  "info_of IT_JALR_HB = Fail AssertFailed"
  "info_of IT_JR_HB = Fail AssertFailed"
  unfolding info_of_find s_InstructionInfo_def by (simp_all add: declare_opcode_defs)

text \<open>The hazard-barrier variants are produced by \<open>parse\<close> but have no row in the table.\<close>

definition has_info :: "tInstructionType \<Rightarrow> bool" where
  "has_info ty \<longleftrightarrow> ty \<noteq> IT_JALR_HB \<and> ty \<noteq> IT_JR_HB"

lemma info_of_Ret: "info_of ty = Ret info \<Longrightarrow> has_info ty"
  by (cases ty) (simp_all add: has_info_def)

lemma parse_of_info:
  assumes "r_map (\<lambda>idx. s_InstructionInfo ! idx) (decodeData w) = info_of ty"
  shows "parse i w a =
    r_bind (info_of ty) (\<lambda>info.
    r_bind (parse_operands (info_eFormat info) w
              (upd_dat (\<lambda>d. d\<lparr>eType := info_eType info\<rparr>) (upd_dat (\<lambda>d. d\<lparr>uAddress := a\<rparr>) i)))
      (\<lambda>i3. Ret (parse_fixup w i3)))"
  unfolding assms [symmetric] by (cases "decodeData w") (simp_all add: parse_def Let_def)

lemmas decode_defs =
  decodeNOARG_def decodeRSRTRD_def decodeRSRT_def decodeRSRTSI_def decodeRSSI_def decodeRSRTUI_def
  decodeRTUI_def decodeRTRDSA_def decodeRSRD_def decodeRD_def decodeRS_def decodeRTRDSEL_def
  upd_dat_def setDefaults_def

lemma upd_dat_simps [simp]:
  "dat (upd_dat f i) = f (dat i)"
  "collIfBranch (upd_dat f i) = collIfBranch i"
  "collElseBranch (upd_dat f i) = collElseBranch i"
  "collInsertAfter (upd_dat f i) = collInsertAfter i"
  by (simp_all add: upd_dat_def)

lemma set_branch_simps [simp]:
  "dat (set_if xs i) = dat i" "collIfBranch (set_if xs i) = xs"
  "collElseBranch (set_if xs i) = collElseBranch i" "collInsertAfter (set_if xs i) = collInsertAfter i"
  "dat (set_else xs i) = dat i" "collIfBranch (set_else xs i) = collIfBranch i"
  "collElseBranch (set_else xs i) = xs" "collInsertAfter (set_else xs i) = collInsertAfter i"
  "dat (set_after xs i) = dat i" "collIfBranch (set_after xs i) = collIfBranch i"
  "collElseBranch (set_after xs i) = collElseBranch i" "collInsertAfter (set_after xs i) = xs"
  by (simp_all add: set_if_def set_else_def set_after_def)

end
