(* ===== verification/Encoding.thy ===== *)
theory Encoding
  imports Instructions
begin

text \<open>
  The decoder against the architecture. \<open>mips_isa\<close> gives, for every instruction of mipsdec, its
  opcode and operand layout as the MIPS32 manual has them, \<open>assemble\<close> builds the machine word,
  and the lemmas show that \<open>Instruction::parse\<close> recovers the instruction from the word. The
  table facts \<open>info_of_simps\<close> and the well-formedness of parsed instructions, on which the
  later theories rest, are here too.
\<close>

section \<open>Machine words\<close>

datatype mips_op = Regular u32 | Special u32 | Regimm u32 | Cop0 u32

fun mips_isa :: "tInstructionType \<Rightarrow> mips_op \<times> tInstructionFormat" where
  "mips_isa IT_ADDIU = (Regular 9, IF_RSRTSI)"
| "mips_isa IT_ADDU = (Special 33, IF_RSRTRD)"
| "mips_isa IT_AND = (Special 36, IF_RSRTRD)"
| "mips_isa IT_ANDI = (Regular 12, IF_RSRTUI)"
| "mips_isa IT_BEQ = (Regular 4, IF_RSRTSI)"
| "mips_isa IT_BEQL = (Regular 20, IF_RSRTSI)"
| "mips_isa IT_BGEZ = (Regimm 1, IF_RSSI)"
| "mips_isa IT_BGTZ = (Regular 7, IF_RSSI)"
| "mips_isa IT_BLEZ = (Regular 6, IF_RSSI)"
| "mips_isa IT_BLTZ = (Regimm 0, IF_RSSI)"
| "mips_isa IT_BNE = (Regular 5, IF_RSRTSI)"
| "mips_isa IT_BNEL = (Regular 21, IF_RSRTSI)"
| "mips_isa IT_MFHI = (Special 16, IF_RD)"
| "mips_isa IT_J = (Regular 2, IF_NOARG)"
| "mips_isa IT_JALR = (Special 9, IF_RSRD)"
| "mips_isa IT_JALR_HB = (Special 9, IF_RSRD)"
| "mips_isa IT_JR = (Special 8, IF_RS)"
| "mips_isa IT_JR_HB = (Special 8, IF_RS)"
| "mips_isa IT_LB = (Regular 32, IF_RSRTSI)"
| "mips_isa IT_LBU = (Regular 36, IF_RSRTSI)"
| "mips_isa IT_LH = (Regular 33, IF_RSRTSI)"
| "mips_isa IT_LHU = (Regular 37, IF_RSRTSI)"
| "mips_isa IT_LUI = (Regular 15, IF_RTUI)"
| "mips_isa IT_LW = (Regular 35, IF_RSRTSI)"
| "mips_isa IT_LWL = (Regular 34, IF_RSRTSI)"
| "mips_isa IT_LWR = (Regular 38, IF_RSRTSI)"
| "mips_isa IT_MFC0 = (Cop0 0, IF_RTRDSEL)"
| "mips_isa IT_MTC0 = (Cop0 4, IF_RTRDSEL)"
| "mips_isa IT_MULT = (Special 24, IF_RSRT)"
| "mips_isa IT_MULTU = (Special 25, IF_RSRT)"
| "mips_isa IT_NOP = (Special 0, IF_NOARG)"
| "mips_isa IT_NOR = (Special 39, IF_RSRTRD)"
| "mips_isa IT_OR = (Special 37, IF_RSRTRD)"
| "mips_isa IT_ORI = (Regular 13, IF_RSRTUI)"
| "mips_isa IT_SB = (Regular 40, IF_RSRTSI)"
| "mips_isa IT_SH = (Regular 41, IF_RSRTSI)"
| "mips_isa IT_SLL = (Special 0, IF_RTRDSA)"
| "mips_isa IT_SLTI = (Regular 10, IF_RSRTSI)"
| "mips_isa IT_SLTIU = (Regular 11, IF_RSRTSI)"
| "mips_isa IT_SLTU = (Special 43, IF_RSRTRD)"
| "mips_isa IT_SRA = (Special 3, IF_RTRDSA)"
| "mips_isa IT_SRAV = (Special 7, IF_RSRTRD)"
| "mips_isa IT_SRL = (Special 2, IF_RTRDSA)"
| "mips_isa IT_SSNOP = (Special 0, IF_NOARG)"
| "mips_isa IT_SUBU = (Special 35, IF_RSRTRD)"
| "mips_isa IT_SW = (Regular 43, IF_RSRTSI)"
| "mips_isa IT_SWL = (Regular 42, IF_RSRTSI)"
| "mips_isa IT_SWR = (Regular 46, IF_RSRTSI)"
| "mips_isa IT_XORI = (Regular 14, IF_RSRTUI)"

definition r_word :: "u32 \<Rightarrow> u32 \<Rightarrow> u32 \<Rightarrow> u32 \<Rightarrow> u32 \<Rightarrow> u32 \<Rightarrow> u32" where
  "r_word op rs rt rd sa funct =
     push_bit 26 op OR push_bit 21 (take_bit 5 rs) OR push_bit 16 (take_bit 5 rt) OR
     push_bit 11 (take_bit 5 rd) OR push_bit 6 (take_bit 5 sa) OR take_bit 6 funct"

definition i_word :: "u32 \<Rightarrow> u32 \<Rightarrow> u32 \<Rightarrow> u16 \<Rightarrow> u32" where
  "i_word op rs rt imm =
     push_bit 26 op OR push_bit 21 (take_bit 5 rs) OR push_bit 16 (take_bit 5 rt) OR ucast imm"

definition j_word :: "u32 \<Rightarrow> u32 \<Rightarrow> u32" where
  "j_word op target = push_bit 26 op OR take_bit 26 (drop_bit 2 target)"

text \<open>A register field: operands an instruction does not have are encoded as 0.\<close>

definition reg_bits :: "tRegister \<Rightarrow> u32" where
  "reg_bits r = (if r = R_UNKNOWN then 0 else encodeRegister r)"

definition sa_bits :: "inst_data \<Rightarrow> u32" where
  "sa_bits d =
    (case eType d of
       IT_SSNOP \<Rightarrow> 1
     | IT_JALR_HB \<Rightarrow> 16
     | IT_JR_HB \<Rightarrow> 16
     | _ \<Rightarrow> (if eFormat d = IF_RTRDSA then ucast (uSA d) else 0))"

definition imm_bits :: "inst_data \<Rightarrow> u16" where
  "imm_bits d = (if eFormat d = IF_RSRTUI \<or> eFormat d = IF_RTUI then uUI d else iSI d)"

definition assemble :: "inst_data \<Rightarrow> u32" where
  "assemble d =
    (case fst (mips_isa (eType d)) of
       Special funct \<Rightarrow> r_word 0 (reg_bits (eRS d)) (reg_bits (eRT d)) (reg_bits (eRD d)) (sa_bits d) funct
     | Regular op \<Rightarrow>
         (if eType d = IT_J then j_word op (uJumpAddress d)
          else i_word op (reg_bits (eRS d)) (reg_bits (eRT d)) (imm_bits d))
     | Regimm rt \<Rightarrow> i_word 1 (reg_bits (eRS d)) rt (imm_bits d)
     | Cop0 rs \<Rightarrow> r_word 16 rs (reg_bits (eRT d)) (reg_bits (eRD d)) 0 (ucast (uSEL d)))"

section \<open>Canonical instructions\<close>

text \<open>Exactly the operands of the layout are present; the others have their default values.\<close>

fun canonical_operands :: "tInstructionFormat \<Rightarrow> inst_data \<Rightarrow> bool" where
  "canonical_operands IF_UNKNOWN d = False"
| "canonical_operands IF_NOARG d =
    (eRS d = R_UNKNOWN \<and> eRT d = R_UNKNOWN \<and> eRD d = R_UNKNOWN \<and> uUI d = 0 \<and> iSI d = 0 \<and> uSEL d = 0)"
| "canonical_operands IF_RSRTRD d =
    (eRS d \<noteq> R_UNKNOWN \<and> eRT d \<noteq> R_UNKNOWN \<and> eRD d \<noteq> R_UNKNOWN \<and> uUI d = 0 \<and> iSI d = 0 \<and> uSEL d = 0)"
| "canonical_operands IF_RSRT d =
    (eRS d \<noteq> R_UNKNOWN \<and> eRT d \<noteq> R_UNKNOWN \<and> eRD d = R_UNKNOWN \<and> uUI d = 0 \<and> iSI d = 0 \<and> uSEL d = 0)"
| "canonical_operands IF_RSRTSI d =
    (eRS d \<noteq> R_UNKNOWN \<and> eRT d \<noteq> R_UNKNOWN \<and> eRD d = R_UNKNOWN \<and> uUI d = 0 \<and> uSEL d = 0)"
| "canonical_operands IF_RSSI d =
    (eRS d \<noteq> R_UNKNOWN \<and> eRT d = R_UNKNOWN \<and> eRD d = R_UNKNOWN \<and> uUI d = 0 \<and> uSEL d = 0)"
| "canonical_operands IF_RSRTUI d =
    (eRS d \<noteq> R_UNKNOWN \<and> eRT d \<noteq> R_UNKNOWN \<and> eRD d = R_UNKNOWN \<and> iSI d = 0 \<and> uSEL d = 0)"
| "canonical_operands IF_RTUI d =
    (eRS d = R_UNKNOWN \<and> eRT d \<noteq> R_UNKNOWN \<and> eRD d = R_UNKNOWN \<and> iSI d = 0 \<and> uSEL d = 0)"
| "canonical_operands IF_RTRDSA d =
    (eRS d = R_UNKNOWN \<and> eRT d \<noteq> R_UNKNOWN \<and> eRD d \<noteq> R_UNKNOWN \<and> uUI d = 0 \<and> iSI d = 0 \<and> uSEL d = 0 \<and>
     uSA d < 32 \<and> (eType d = IT_SLL \<longrightarrow> \<not> (eRT d = R_ZERO \<and> eRD d = R_ZERO \<and> uSA d \<le> 1)))"
| "canonical_operands IF_RSRD d =
    (eRS d \<noteq> R_UNKNOWN \<and> eRT d = R_UNKNOWN \<and> eRD d \<noteq> R_UNKNOWN \<and> uUI d = 0 \<and> iSI d = 0 \<and> uSEL d = 0)"
| "canonical_operands IF_RD d =
    (eRS d = R_UNKNOWN \<and> eRT d = R_UNKNOWN \<and> eRD d \<noteq> R_UNKNOWN \<and> uUI d = 0 \<and> iSI d = 0 \<and> uSEL d = 0)"
| "canonical_operands IF_RS d =
    (eRS d \<noteq> R_UNKNOWN \<and> eRT d = R_UNKNOWN \<and> eRD d = R_UNKNOWN \<and> uUI d = 0 \<and> iSI d = 0 \<and> uSEL d = 0)"
| "canonical_operands IF_RTRDSEL d =
    (eRS d = R_UNKNOWN \<and> eRT d \<noteq> R_UNKNOWN \<and> eRD d \<noteq> R_UNKNOWN \<and> uUI d = 0 \<and> iSI d = 0 \<and> uSEL d < 8)"

definition conditional_branch :: "tInstructionType \<Rightarrow> bool" where
  "conditional_branch ty \<longleftrightarrow>
    ty \<in> {IT_BEQ, IT_BEQL, IT_BGEZ, IT_BGTZ, IT_BLEZ, IT_BLTZ, IT_BNE, IT_BNEL}"

text \<open>Branches are relative to the delay slot, jumps stay in its 256 MB region.\<close>

definition canonical_target :: "inst_data \<Rightarrow> bool" where
  "canonical_target d \<longleftrightarrow>
    (if conditional_branch (eType d) then uJumpAddress d = uAddress d + 4 + word_of_int (4 * sint (iSI d))
     else if eType d = IT_J then
       drop_bit 28 (uJumpAddress d) = drop_bit 28 (uAddress d + 4) \<and> take_bit 2 (uJumpAddress d) = 0
     else uJumpAddress d = 0)"

definition canonical :: "inst_data \<Rightarrow> bool" where
  "canonical d \<longleftrightarrow> eFormat d = snd (mips_isa (eType d)) \<and> canonical_operands (eFormat d) d \<and> canonical_target d"

section \<open>Field extraction\<close>

lemma and_0x1F: "(x::u32) AND 0x1F = take_bit 5 x"
  by (simp add: take_bit_eq_mask mask_eq_exp_minus_1)

lemma and_0x3F: "(x::u32) AND 0x3F = take_bit 6 x"
  by (simp add: take_bit_eq_mask mask_eq_exp_minus_1)

lemma and_0x7: "(x::u32) AND 0x7 = take_bit 3 x"
  by (simp add: take_bit_eq_mask mask_eq_exp_minus_1)

lemma and_0xFFFF: "(x::u32) AND 0xFFFF = take_bit 16 x"
  by (simp add: take_bit_eq_mask mask_eq_exp_minus_1)

lemma and_0x3FFFFFF: "(x::u32) AND 0x3FFFFFF = take_bit 26 x"
  by (simp add: take_bit_eq_mask mask_eq_exp_minus_1)

lemmas and_masks = and_0x1F and_0x3F and_0x7 and_0xFFFF and_0x3FFFFFF

lemma r_word_op: "drop_bit 26 (r_word op rs rt rd sa f) = take_bit 6 op"
  unfolding r_word_def by (rule bit_eqI) (auto simp: bit_simps)

lemma r_word_rs: "field 21 (r_word op rs rt rd sa f) = take_bit 5 rs"
  unfolding r_word_def field_def and_masks by (rule bit_eqI) (auto simp: bit_simps)

lemma r_word_rt: "field 16 (r_word op rs rt rd sa f) = take_bit 5 rt"
  unfolding r_word_def field_def and_masks by (rule bit_eqI) (auto simp: bit_simps)

lemma r_word_rd: "field 11 (r_word op rs rt rd sa f) = take_bit 5 rd"
  unfolding r_word_def field_def and_masks by (rule bit_eqI) (auto simp: bit_simps)

lemma r_word_sa: "field 6 (r_word op rs rt rd sa f) = take_bit 5 sa"
  unfolding r_word_def field_def and_masks by (rule bit_eqI) (auto simp: bit_simps)

lemma r_word_funct: "r_word op rs rt rd sa f AND 0x3F = take_bit 6 f"
  unfolding r_word_def and_masks by (rule bit_eqI) (auto simp: bit_simps)

lemma r_word_sel: "r_word op rs rt rd sa f AND 0x7 = take_bit 3 f"
  unfolding r_word_def and_masks by (rule bit_eqI) (auto simp: bit_simps)

lemma i_word_op: "drop_bit 26 (i_word op rs rt imm) = take_bit 6 op"
  unfolding i_word_def by (rule bit_eqI) (auto simp: bit_simps dest: bit_imp_le_length)

lemma i_word_rs: "field 21 (i_word op rs rt imm) = take_bit 5 rs"
  unfolding i_word_def field_def and_masks by (rule bit_eqI) (auto simp: bit_simps dest: bit_imp_le_length)

lemma i_word_rt: "field 16 (i_word op rs rt imm) = take_bit 5 rt"
  unfolding i_word_def field_def and_masks by (rule bit_eqI) (auto simp: bit_simps dest: bit_imp_le_length)

lemma i_word_imm: "ucast (i_word op rs rt imm AND 0xFFFF) = imm"
  unfolding i_word_def and_masks by (rule bit_eqI) (auto simp: bit_simps)

lemma j_word_op: "drop_bit 26 (j_word op t) = take_bit 6 op"
  unfolding j_word_def by (rule bit_eqI) (auto simp: bit_simps)

lemma j_word_target: "j_word op t AND 0x3FFFFFF = take_bit 26 (drop_bit 2 t)"
  unfolding j_word_def and_masks by (rule bit_eqI) (auto simp: bit_simps)

lemmas word_fields =
  r_word_op r_word_rs r_word_rt r_word_rd r_word_sa r_word_funct r_word_sel
  i_word_op i_word_rs i_word_rt i_word_imm j_word_op j_word_target

lemma r_word_hb: "r_word op rs rt rd sa f AND push_bit 10 1 \<noteq> 0 \<longleftrightarrow> bit sa 4"
proof -
  have "bit (r_word op rs rt rd sa f) 10 \<longleftrightarrow> bit sa 4"
    by (simp add: r_word_def bit_simps)
  moreover have "(w::u32) AND push_bit 10 1 \<noteq> 0 \<longleftrightarrow> bit w 10" for w
    using and_exp_eq_0_iff_not_bit [of w 10] by (simp add: push_bit_eq_mult)
  ultimately show ?thesis by simp
qed

lemma decodeRegister_reg_bits:
  "r \<noteq> R_UNKNOWN \<Longrightarrow> decodeRegister (take_bit 5 (reg_bits r)) = Ret r"
  by (cases r) (simp_all add: reg_bits_def decodeRegister_def)

section \<open>Decoding assembled words\<close>

text \<open>The table row that an encoding selects before the fix-ups of \<open>parse\<close>.\<close>

definition base_type :: "tInstructionType \<Rightarrow> tInstructionType" where
  "base_type ty =
    (case ty of IT_NOP \<Rightarrow> IT_SLL | IT_SSNOP \<Rightarrow> IT_SLL | IT_JALR_HB \<Rightarrow> IT_JALR | IT_JR_HB \<Rightarrow> IT_JR
     | _ \<Rightarrow> ty)"

text \<open>Which rows an opcode selects, as a condition on the row alone.\<close>

fun op_row :: "mips_op \<Rightarrow> tInstructionInfo \<Rightarrow> bool" where
  "op_row (Regular op) info = (uOpcode info = op)"
| "op_row (Special f) info = (uOpcode info = 0 \<and> uSpecialOpcode info = f)"
| "op_row (Regimm rt) info = (uOpcode info = 1 \<and> uRegimmOpcode info = rt)"
| "op_row (Cop0 rs) info = (uOpcode info = 16 \<and> uCop0Opcode info = rs)"

lemma mips_isa_range:
  "fst (mips_isa ty) = Regular x \<Longrightarrow> x \<noteq> 0 \<and> x \<noteq> 1 \<and> x \<noteq> 16 \<and> take_bit 6 x = x"
  "fst (mips_isa ty) = Special x \<Longrightarrow> take_bit 6 x = x"
  "fst (mips_isa ty) = Regimm x \<Longrightarrow> take_bit 5 x = x"
  "fst (mips_isa ty) = Cop0 x \<Longrightarrow> take_bit 5 x = x"
  by (cases ty; auto)+

lemma info_matches_assemble: "info_matches (assemble d) = op_row (fst (mips_isa (eType d)))"
proof
  fix info
  show "info_matches (assemble d) info = op_row (fst (mips_isa (eType d))) info"
  proof (cases "fst (mips_isa (eType d))")
    case (Regular x)
    then show ?thesis
      using mips_isa_range(1) [OF Regular]
      by (auto simp: info_matches_def assemble_def Let_def i_word_op j_word_op)
  next
    case (Special x)
    then show ?thesis
      using mips_isa_range(2) [OF Special]
      by (simp add: info_matches_def assemble_def Let_def r_word_op r_word_funct)
  next
    case (Regimm x)
    then show ?thesis
      using mips_isa_range(3) [OF Regimm] i_word_rt [of 1 _ x]
      by (simp add: info_matches_def assemble_def Let_def i_word_op field_def)
  next
    case (Cop0 x)
    then show ?thesis
      using mips_isa_range(4) [OF Cop0] r_word_rs [of 16 x]
      by (simp add: info_matches_def assemble_def Let_def r_word_op field_def)
  qed
qed

definition all_types :: "tInstructionType list" where
  "all_types =
    [IT_ADDIU, IT_ADDU, IT_AND, IT_ANDI, IT_BEQ, IT_BEQL, IT_BGEZ, IT_BGTZ, IT_BLEZ,
     IT_BLTZ, IT_BNE, IT_BNEL, IT_MFHI, IT_J, IT_JALR, IT_JALR_HB, IT_JR, IT_JR_HB, IT_LB,
     IT_LBU, IT_LH, IT_LHU, IT_LUI, IT_LW, IT_LWL, IT_LWR, IT_MFC0, IT_MTC0, IT_MULT,
     IT_MULTU, IT_NOP, IT_NOR, IT_OR, IT_ORI, IT_SB, IT_SH, IT_SLL, IT_SLTI, IT_SLTIU,
     IT_SLTU, IT_SRA, IT_SRAV, IT_SRL, IT_SSNOP, IT_SUBU, IT_SW, IT_SWL, IT_SWR, IT_XORI]"

lemma all_types: "ty \<in> set all_types"
  by (cases ty) (simp_all add: all_types_def)

lemma op_row_base_all:
  "list_all (\<lambda>ty. List.find (op_row (fst (mips_isa ty))) s_InstructionInfo =
     List.find (\<lambda>info. info_eType info = base_type ty) s_InstructionInfo) all_types"
  by code_simp

lemma op_row_base:
  "List.find (op_row (fst (mips_isa ty))) s_InstructionInfo =
   List.find (\<lambda>info. info_eType info = base_type ty) s_InstructionInfo"
  using op_row_base_all all_types [of ty] by (simp add: list_all_iff)

lemma decodeData_find:
  "r_map (\<lambda>idx. s_InstructionInfo ! idx) (decodeData w) =
    (case List.find (info_matches w) s_InstructionInfo of
       Some info \<Rightarrow> Ret info | None \<Rightarrow> Fail AssertFailed)"
  by (simp add: decodeData_def find_eq_find_index split: option.splits)

lemma decodeData_assemble:
  "r_map (\<lambda>idx. s_InstructionInfo ! idx) (decodeData (assemble d)) = info_of (base_type (eType d))"
  by (simp add: decodeData_find info_of_find info_matches_assemble op_row_base)

lemma scast_target: "push_bit 2 (scast (x::u16)) = (word_of_int (4 * sint x) :: u32)"
proof -
  have "push_bit 2 (scast x) = (4 * scast x :: u32)"
    by (simp add: push_bit_eq_mult mult.commute)
  also have "\<dots> = of_int 4 * of_int (sint x)"
    by (simp only: scast_eq of_int_numeral)
  also have "\<dots> = word_of_int (4 * sint x)"
    by (simp only: of_int_mult)
  finally show ?thesis .
qed

lemma bit_less: "(x :: 'a::len word) < 2 ^ k \<Longrightarrow> bit x n \<Longrightarrow> n < k"
  by (metis bit_take_bit_iff mod_word_less take_bit_eq_mod)

lemma ucast_take_bit_id:
  fixes x :: u8
  assumes "x < 2 ^ k"
  shows "ucast (take_bit k (ucast x :: u32)) = x"
proof (rule bit_eqI)
  fix n assume "possible_bit TYPE(8 word) n"
  then have "n < 8" by simp
  moreover have "bit x n \<Longrightarrow> n < k" by (rule bit_less [OF assms])
  ultimately show "bit (ucast (take_bit k (ucast x :: u32)) :: u8) n = bit x n"
    by (auto simp: bit_simps)
qed

lemma j_target:
  assumes "drop_bit 28 t = drop_bit 28 (a::u32)" "take_bit 2 t = 0"
  shows "(a AND - 268435456) OR push_bit 2 (take_bit 26 (drop_bit 2 t)) = t"
proof (rule bit_eqI)
  fix n assume "possible_bit TYPE(32 word) n"
  then have n: "n < 32" by simp
  have m: "(- 268435456::u32) = NOT (mask 28)" by (simp add: mask_eq_exp_minus_1)
  have hi: "bit a (28 + k) = bit t (28 + k)" for k
    using arg_cong [OF assms(1), of "\<lambda>x. bit x k"] by (simp add: bit_drop_bit_eq)
  have lo: "\<not> (k < 2 \<and> bit t k)" for k
    using arg_cong [OF assms(2), of "\<lambda>x. bit x k"] by (simp add: bit_take_bit_iff)
  consider "n < 2" | "2 \<le> n" "n < 28" | k where "n = 28 + k"
    by (metis le_add_diff_inverse not_less)
  then show "bit ((a AND - 268435456) OR push_bit 2 (take_bit 26 (drop_bit 2 t))) n = bit t n"
    unfolding m
  proof cases
    case 1
    with lo [of n] show "bit ((a AND NOT (mask 28)) OR push_bit 2 (take_bit 26 (drop_bit 2 t))) n = bit t n"
      by (simp add: bit_simps)
  next
    case 2
    then obtain k where "n = 2 + k" "k < 26" by (intro that [of "n - 2"]) auto
    with n show "bit ((a AND NOT (mask 28)) OR push_bit 2 (take_bit 26 (drop_bit 2 t))) n = bit t n"
      by (simp add: bit_simps)
  next
    case 3
    with hi [of k] n show "bit ((a AND NOT (mask 28)) OR push_bit 2 (take_bit 26 (drop_bit 2 t))) n = bit t n"
      by (simp add: bit_simps)
  qed
qed

lemma r_word_hb_simps:
  "r_word op rs rt rd 0 f AND 1024 = 0"
  "r_word op rs rt rd 16 f AND 1024 \<noteq> 0"
  using r_word_hb [of op rs rt rd 0 f] r_word_hb [of op rs rt rd 16 f] by simp_all

lemma decodeRegister_unknown_bits: "decodeRegister (take_bit 5 (reg_bits R_UNKNOWN)) = Ret R_ZERO"
  by (simp add: reg_bits_def decodeRegister_def)

text \<open>What \<open>parse\<close> makes of an instruction: the target of BGEZ and the register number of the coprocessor are lost.\<close>

definition as_parsed :: "inst_data \<Rightarrow> inst_data" where
  "as_parsed d = d\<lparr>eRD := (if eType d \<in> {IT_MFC0, IT_MTC0} then R_UNKNOWN else eRD d),
    uJumpAddress := (if eType d = IT_BGEZ then 0 else uJumpAddress d)\<rparr>"

text \<open>The instruction that \<open>parse\<close> returns for the word of \<open>d\<close>; a format without a shift amount leaves \<open>uSA\<close> uninitialised.\<close>

definition parsed_as :: "inst_data \<Rightarrow> inst_data \<Rightarrow> bool" where
  "parsed_as p d \<longleftrightarrow> uAddress p = uAddress d \<and> isSame p ((as_parsed d)\<lparr>uSA := uSA p\<rparr>) \<and>
    (eFormat d = IF_RTRDSA \<longrightarrow> uSA p = uSA d)"

lemma parse_assembled:
  assumes "canonical d"
  shows "\<exists>i. parse (Instruction_new raw) (assemble d) (uAddress d) = Ret i \<and> parsed_as (dat i) d"
proof -
  have "eFormat d = snd (mips_isa (eType d))" and "canonical_operands (snd (mips_isa (eType d))) d"
    and "canonical_target d"
    using assms unfolding canonical_def by auto
  then show ?thesis
    unfolding parse_of_info [OF decodeData_assemble] canonical_target_def conditional_branch_def as_parsed_def parsed_as_def
    by (cases "eType d")
      (simp_all add: assemble_def declare_opcode_defs base_type_def word_fields
        decodeRegister_reg_bits decodeRegister_unknown_bits parse_fixup_def scast_target imm_bits_def
        isSame_def r_word_hb_simps sa_bits_def Instruction_new_def j_target decode_defs
        ucast_take_bit_id, auto)
qed

text \<open>
  C11. Decoding inverts the architecture's encoding, with two exceptions: for every instruction in
  canonical form, \<open>parse\<close> applied to its machine word at its address succeeds on whatever the object's
  storage held and yields the same instruction in the sense of \<open>isSame\<close>, jump address included, except that
  the jump address of BGEZ becomes 0 and the coprocessor register of MFC0 and MTC0 is lost (\<open>uSA\<close> is only
  set by formats that have a shift amount).
\<close>

theorem parse_assemble:
  assumes "canonical d"
  shows "\<exists>i. parse (Instruction_new raw) (assemble d) (uAddress d) = Ret i \<and>
    uAddress (dat i) = uAddress d \<and>
    isSame (dat i) (d\<lparr>uSA := uSA (dat i),
      eRD := (if eType d \<in> {IT_MFC0, IT_MTC0} then R_UNKNOWN else eRD d),
      uJumpAddress := (if eType d = IT_BGEZ then 0 else uJumpAddress d)\<rparr>) \<and>
    (eFormat d = IF_RTRDSA \<longrightarrow> uSA (dat i) = uSA d)"
  using parse_assembled [OF assms, of raw] by (auto simp: as_parsed_def parsed_as_def isSame_def)

definition d_addiu_sp :: inst_data where
  "d_addiu_sp = \<lparr>uAddress = 0x80001000, eType = IT_ADDIU, eFormat = IF_RSRTSI, eRS = R_SP, eRT = R_SP,
     eRD = R_UNKNOWN, uUI = 0, iSI = - 24, uSEL = 0, uSA = 0, uJumpAddress = 0, bDelayedDelete = False,
     bDelaySlotReordered = False, bIgnoreJump = False, bIsJumpTarget = False\<rparr>"

theorem parse_assemble_witness:
  "canonical d_addiu_sp \<and> assemble d_addiu_sp = 0x27BDFFE8 \<and>
   (\<exists>i. parse (Instruction_new d_addiu_sp) 0x27BDFFE8 0x80001000 = Ret i \<and> iSI (dat i) = - 24)"
proof -
  have c: "canonical d_addiu_sp"
    by (simp add: canonical_def d_addiu_sp_def canonical_target_def conditional_branch_def)
  have a: "assemble d_addiu_sp = 0x27BDFFE8"
    by (simp add: assemble_def d_addiu_sp_def i_word_def reg_bits_def imm_bits_def)
  show ?thesis
    using c a parse_assemble [OF c, of d_addiu_sp]
    by (auto simp: isSame_def d_addiu_sp_def)
qed

section \<open>Parsed instructions are well formed\<close>

text \<open>The register operands of a format are known registers.\<close>

fun regs_known :: "tInstructionFormat \<Rightarrow> inst_data \<Rightarrow> bool" where
  "regs_known IF_UNKNOWN d = False"
| "regs_known IF_NOARG d = True"
| "regs_known IF_RSRTRD d = (eRS d \<noteq> R_UNKNOWN \<and> eRT d \<noteq> R_UNKNOWN \<and> eRD d \<noteq> R_UNKNOWN)"
| "regs_known IF_RSRT d = (eRS d \<noteq> R_UNKNOWN \<and> eRT d \<noteq> R_UNKNOWN)"
| "regs_known IF_RSRTSI d = (eRS d \<noteq> R_UNKNOWN \<and> eRT d \<noteq> R_UNKNOWN)"
| "regs_known IF_RSSI d = (eRS d \<noteq> R_UNKNOWN)"
| "regs_known IF_RSRTUI d = (eRS d \<noteq> R_UNKNOWN \<and> eRT d \<noteq> R_UNKNOWN)"
| "regs_known IF_RTUI d = (eRT d \<noteq> R_UNKNOWN)"
| "regs_known IF_RTRDSA d = (eRT d \<noteq> R_UNKNOWN \<and> eRD d \<noteq> R_UNKNOWN)"
| "regs_known IF_RSRD d = (eRS d \<noteq> R_UNKNOWN \<and> eRD d \<noteq> R_UNKNOWN)"
| "regs_known IF_RD d = (eRD d \<noteq> R_UNKNOWN)"
| "regs_known IF_RS d = (eRS d \<noteq> R_UNKNOWN)"
| "regs_known IF_RTRDSEL d = (eRT d \<noteq> R_UNKNOWN)"

definition wf_dat :: "inst_data \<Rightarrow> bool" where
  "wf_dat d \<longleftrightarrow> eFormat d = snd (mips_isa (eType d)) \<and> regs_known (eFormat d) d"

lemma table_format:
  "info \<in> set s_InstructionInfo \<Longrightarrow>
    info_eFormat info = snd (mips_isa (info_eType info)) \<and> has_info (info_eType info)"
  unfolding s_InstructionInfo_def by (auto simp: declare_opcode_defs has_info_def)

lemma decodeData_Ret: "decodeData w = Ret idx \<Longrightarrow> s_InstructionInfo ! idx \<in> set s_InstructionInfo"
  by (auto simp: decodeData_def find_index_Some split: option.splits)

lemma parse_operands_wf:
  assumes "parse_operands fmt w i = Ret j" and "fmt = snd (mips_isa (eType (dat i)))"
  shows "wf_dat (dat j)" and "eType (dat j) = eType (dat i)" and "uAddress (dat j) = uAddress (dat i)"
    and "uJumpAddress (dat j) = 0" and "collIfBranch j = []" and "collElseBranch j = []"
    and "collInsertAfter j = collInsertAfter i" and "bDelayedDelete (dat j) = bDelayedDelete (dat i)"
    and "\<not> bDelaySlotReordered (dat j)" and "bIgnoreJump (dat j) = bIgnoreJump (dat i)"
    and "\<not> bIsJumpTarget (dat j)"
  using assms by (cases fmt; auto simp: decode_defs wf_dat_def result_simps dest: decodeRegister_Ret)+

lemma parse_fixup_wf: "wf_dat (dat i) \<Longrightarrow> wf_dat (dat (parse_fixup w i))"
  by (auto simp: parse_fixup_def wf_dat_def decode_defs split: tInstructionType.split)

lemma parse_fixup_frame:
  assumes "collIfBranch i = []" and "collElseBranch i = []"
  shows "uAddress (dat (parse_fixup w i)) = uAddress (dat i)"
    and "collIfBranch (parse_fixup w i) = []" and "collElseBranch (parse_fixup w i) = []"
    and "collInsertAfter (parse_fixup w i) = collInsertAfter i"
    and "bDelayedDelete (dat (parse_fixup w i)) = bDelayedDelete (dat i)"
    and "bIgnoreJump (dat (parse_fixup w i)) = bIgnoreJump (dat i)"
  using assms by (auto simp: parse_fixup_def decode_defs split: tInstructionType.split)

lemma parse_fixup_flags:
  "\<not> bDelaySlotReordered (dat i) \<Longrightarrow> \<not> bDelaySlotReordered (dat (parse_fixup w i))"
  "\<not> bIsJumpTarget (dat i) \<Longrightarrow> \<not> bIsJumpTarget (dat (parse_fixup w i))"
  by (auto simp: parse_fixup_def decode_defs split: tInstructionType.split)

text \<open>A freshly parsed instruction: no branches, no pending edits, flags cleared.\<close>

definition fresh_inst :: "Instruction \<Rightarrow> bool" where
  "fresh_inst i \<longleftrightarrow> wf_dat (dat i) \<and> collIfBranch i = [] \<and> collElseBranch i = [] \<and>
     collInsertAfter i = [] \<and> \<not> bDelayedDelete (dat i) \<and> \<not> bDelaySlotReordered (dat i) \<and>
     \<not> bIgnoreJump (dat i) \<and> \<not> bIsJumpTarget (dat i)"

lemma parse_Ret_fresh:
  assumes "parse (Instruction_new raw) w a = Ret i"
  shows "fresh_inst i \<and> uAddress (dat i) = a"
proof -
  let ?i0 = "\<lambda>info. upd_dat (\<lambda>d. d\<lparr>eType := info_eType info\<rparr>) (upd_dat (\<lambda>d. d\<lparr>uAddress := a\<rparr>) (Instruction_new raw))"
  from assms obtain idx j where dec: "decodeData w = Ret idx"
    and ops: "parse_operands (info_eFormat (s_InstructionInfo ! idx)) w (?i0 (s_InstructionInfo ! idx)) = Ret j"
    and i: "i = parse_fixup w j"
    by (auto simp: parse_def Let_def result_simps)
  have fmt: "info_eFormat (s_InstructionInfo ! idx) = snd (mips_isa (eType (dat (?i0 (s_InstructionInfo ! idx)))))"
    using table_format [OF decodeData_Ret [OF dec]] by simp
  note wf = parse_operands_wf [OF ops fmt]
  show ?thesis
    using wf parse_fixup_wf [OF wf(1)] parse_fixup_frame [OF wf(5,6)] parse_fixup_flags
    by (simp add: i fresh_inst_def Instruction_new_def)
qed

text \<open>
  C12. Whatever the word and whatever the uninitialised storage, an instruction that \<open>parse\<close>
  accepts is well formed: its format is the one the architecture gives its type, all register
  operands of the format are known registers, it carries the address it was read from, it owns
  no branches and no pending edits, and all its flags are cleared.
\<close>

theorem parse_fresh:
  assumes "parse (Instruction_new raw) w a = Ret i"
  shows "fresh_inst i \<and> uAddress (dat i) = a"
  using assms by (rule parse_Ret_fresh)

theorem parse_fresh_witness:
  "\<exists>i. parse (Instruction_new d_addiu_sp) 0x27BDFFE8 0x80001000 = Ret i \<and> fresh_inst i \<and>
     uAddress (dat i) = 0x80001000"
proof -
  obtain i where i: "parse (Instruction_new d_addiu_sp) 0x27BDFFE8 0x80001000 = Ret i"
    by (simp add: parse_def decodeData_def s_InstructionInfo_def info_matches_def declare_opcode_defs
        decode_defs field_def decodeRegister_def)
  show ?thesis
    using i parse_fresh [OF i] by blast
qed

text \<open>
  C13. The target of a parsed conditional branch is the address of its delay slot plus four times
  the sign-extended offset, as the architecture defines it. BGEZ is the exception: its type is
  missing from the second \<open>switch\<close> of \<open>parse\<close> and its target is always 0.
\<close>

theorem parse_branch_target:
  assumes "parse (Instruction_new raw) w a = Ret i" and "conditional_branch (eType (dat i))"
  shows "uJumpAddress (dat i) =
    (if eType (dat i) = IT_BGEZ then 0 else a + 4 + word_of_int (4 * sint (iSI (dat i))))"
proof -
  let ?i0 = "\<lambda>info. upd_dat (\<lambda>d. d\<lparr>eType := info_eType info\<rparr>) (upd_dat (\<lambda>d. d\<lparr>uAddress := a\<rparr>) (Instruction_new raw))"
  from assms(1) obtain idx j where dec: "decodeData w = Ret idx"
    and ops: "parse_operands (info_eFormat (s_InstructionInfo ! idx)) w (?i0 (s_InstructionInfo ! idx)) = Ret j"
    and i: "i = parse_fixup w j"
    by (auto simp: parse_def Let_def result_simps)
  have fmt: "info_eFormat (s_InstructionInfo ! idx) = snd (mips_isa (eType (dat (?i0 (s_InstructionInfo ! idx)))))"
    using table_format [OF decodeData_Ret [OF dec]] by simp
  note wf = parse_operands_wf [OF ops fmt]
  show ?thesis
    using wf(3,4) assms(2) unfolding i
    by (cases "eType (dat j)")
      (auto simp: parse_fixup_def scast_target conditional_branch_def decode_defs split: if_splits)
qed

theorem parse_branch_target_witness:
  "\<exists>i. parse (Instruction_new d_addiu_sp) 0x0601FFFE 0x80001000 = Ret i \<and> eType (dat i) = IT_BGEZ \<and>
     sint (iSI (dat i)) = - 2 \<and> uJumpAddress (dat i) = 0"
proof -
  obtain i where i: "parse (Instruction_new d_addiu_sp) 0x0601FFFE 0x80001000 = Ret i"
    and t: "eType (dat i) = IT_BGEZ" and s: "sint (iSI (dat i)) = - 2"
    by (simp add: parse_def decodeData_def s_InstructionInfo_def info_matches_def declare_opcode_defs
        decode_defs field_def decodeRegister_def parse_fixup_def)
  have "conditional_branch (eType (dat i))"
    by (simp add: t conditional_branch_def)
  then show ?thesis
    using i t s parse_branch_target [OF i] by auto
qed

section \<open>Class, delay slot and result register\<close>

text \<open>What the table lookups compute, as plain functions of the type and the operands.\<close>

definition class_of :: "tInstructionType \<Rightarrow> tInstructionClass" where
  "class_of ty =
    (if conditional_branch ty then IC_BRANCH
     else if ty \<in> {IT_J, IT_JALR, IT_JALR_HB, IT_JR, IT_JR_HB} then IC_JUMP else IC_OTHER)"

definition slot_of :: "tInstructionType \<Rightarrow> tInstructionDelaySlot" where
  "slot_of ty =
    (if class_of ty = IC_OTHER then IDS_NONE
     else if ty \<in> {IT_BEQL, IT_BNEL} then IDS_CONDITIONAL else IDS_UNCONDITIONAL)"

text \<open>The register in the result operand of an instruction.\<close>

definition result_of :: "inst_data \<Rightarrow> tRegister option" where
  "result_of d =
    (if eType d \<in> {IT_ADDU, IT_AND, IT_MFHI, IT_NOR, IT_OR, IT_SLL, IT_SLTU, IT_SRA, IT_SRAV, IT_SRL,
        IT_SUBU} then Some (eRD d)
     else if eType d \<in> {IT_ADDIU, IT_ANDI, IT_LB, IT_LBU, IT_LH, IT_LHU, IT_LUI, IT_LW, IT_LWL, IT_LWR,
        IT_MFC0, IT_ORI, IT_SLTI, IT_SLTIU, IT_XORI} then Some (eRT d)
     else None)"

text \<open>The general-purpose register an instruction writes: a call also writes its link register.\<close>

definition dest_of :: "inst_data \<Rightarrow> tRegister option" where
  "dest_of d = (if eType d \<in> {IT_JALR, IT_JALR_HB} then Some (eRD d) else result_of d)"

lemma getClassType_eq: "has_info (eType d) \<Longrightarrow> getClassType d = Ret (class_of (eType d))"
  by (cases "eType d")
    (simp_all add: getClassType_def class_of_def conditional_branch_def has_info_def declare_opcode_defs)

lemma getDelaySlotType_eq: "has_info (eType d) \<Longrightarrow> getDelaySlotType d = Ret (slot_of (eType d))"
  by (cases "eType d")
    (simp_all add: getDelaySlotType_def slot_of_def class_of_def conditional_branch_def has_info_def
      declare_opcode_defs)

lemma modifiesRegister_eq:
  assumes "wf_dat d" and "has_info (eType d)" and "r \<noteq> R_UNKNOWN"
  shows "modifiesRegister d r = Ret (result_of d = Some r)"
proof -
  have "regs_known (snd (mips_isa (eType d))) d"
    using assms(1) by (auto simp: wf_dat_def)
  then show ?thesis
    using assms(2,3)
    by (cases "eType d")
      (simp_all add: modifiesRegister_def result_of_def has_info_def declare_opcode_defs)
qed

lemma getClassType_Ret: "getClassType d = Ret c \<Longrightarrow> has_info (eType d) \<and> c = class_of (eType d)"
proof -
  assume c: "getClassType d = Ret c"
  then have "has_info (eType d)"
    by (auto simp: getClassType_def result_simps dest: info_of_Ret)
  with c show ?thesis by (simp add: getClassType_eq)
qed

lemma getDelaySlotType_Ret: "getDelaySlotType d = Ret c \<Longrightarrow> has_info (eType d) \<and> c = slot_of (eType d)"
proof -
  assume c: "getDelaySlotType d = Ret c"
  then have "has_info (eType d)"
    by (auto simp: getDelaySlotType_def result_simps dest: info_of_Ret)
  with c show ?thesis by (simp add: getDelaySlotType_eq)
qed

lemma modifiesRegister_Ret: "modifiesRegister d r = Ret b \<Longrightarrow> b = (result_of d = Some r)"
  by (cases "eType d") (auto simp: modifiesRegister_def result_of_def result_simps declare_opcode_defs)

lemma queries_HB:
  assumes "eType d \<in> {IT_JALR_HB, IT_JR_HB}"
  shows "getClassType d = Fail AssertFailed" "getDelaySlotType d = Fail AssertFailed" "modifiesRegister d r = Fail AssertFailed"
  using assms by (auto simp: getClassType_def getDelaySlotType_def modifiesRegister_def M_ASSERT_def)

text \<open>
  C14. The queries of a well-formed instruction. For JALR.HB and JR.HB, which the decoder produces but which have
  no row in the table, all three fail their assertion. For every other instruction \<open>getClassType\<close> separates branches,
  jumps and the rest, \<open>getDelaySlotType\<close> marks exactly the branch-likely instructions as conditional, and
  \<open>modifiesRegister\<close> answers whether the instruction writes the register, except that it denies that JALR writes its
  link register.
\<close>

theorem instruction_queries:
  assumes "wf_dat d" and "r \<noteq> R_UNKNOWN"
  shows "if eType d \<in> {IT_JALR_HB, IT_JR_HB}
    then getClassType d = Fail AssertFailed \<and> getDelaySlotType d = Fail AssertFailed \<and> modifiesRegister d r = Fail AssertFailed
    else getClassType d = Ret (class_of (eType d)) \<and> getDelaySlotType d = Ret (slot_of (eType d)) \<and>
      modifiesRegister d r = Ret (dest_of d = Some r \<and> eType d \<noteq> IT_JALR)"
proof (cases "eType d \<in> {IT_JALR_HB, IT_JR_HB}")
  case True
  with queries_HB [OF True] show ?thesis by simp
next
  case False
  then have "has_info (eType d)" by (simp add: has_info_def)
  moreover have "result_of d = Some r \<longleftrightarrow> dest_of d = Some r \<and> eType d \<noteq> IT_JALR"
    using False by (auto simp: dest_of_def result_of_def)
  ultimately show ?thesis
    using False assms by (simp add: getClassType_eq getDelaySlotType_eq modifiesRegister_eq)
qed

theorem instruction_queries_witness:
  "wf_dat d_addiu_sp \<and> modifiesRegister d_addiu_sp R_SP = Ret True \<and>
    modifiesRegister (d_addiu_sp\<lparr>eType := IT_JALR, eFormat := IF_RSRD, eRD := R_RA\<rparr>) R_RA = Ret False"
proof -
  have "wf_dat d_addiu_sp" "wf_dat (d_addiu_sp\<lparr>eType := IT_JALR, eFormat := IF_RSRD, eRD := R_RA\<rparr>)"
    by (simp_all add: wf_dat_def d_addiu_sp_def)
  then show ?thesis
    using instruction_queries [of d_addiu_sp R_SP]
      instruction_queries [of "d_addiu_sp\<lparr>eType := IT_JALR, eFormat := IF_RSRD, eRD := R_RA\<rparr>" R_RA]
    by (simp add: d_addiu_sp_def dest_of_def result_of_def)
qed

end
