(* ===== verification/JumpTargets.thy ===== *)
theory JumpTargets
  imports Encoding
begin

text \<open>
  Instruction lists and their jump targets: the second half of
  \<^verbatim>\<open>src/tools/mipsdec/instruction.cpp\<close>. An instruction list is a tree, because a branch owns the
  lists \<open>collIfBranch\<close> and \<open>collElseBranch\<close>. The theory also holds what all passes over such
  trees share: the induction rule, the preorder of the instructions, and the traversal
  \<open>rewrite_first\<close> that visits an instruction, then its if branch, then its else branch, then
  the rest of the list and stops at the first change.
\<close>

section \<open>Jump targets\<close>

fun isJumpTarget :: "tInstList \<Rightarrow> u32 \<Rightarrow> bool" where
  "isJumpTarget [] a = False"
| "isJumpTarget (Instruction d ifs els ins # rest) a =
    (if uJumpAddress d = a \<and> \<not> bIgnoreJump d then True
     else if isJumpTarget ifs a then True
     else if isJumpTarget els a then True
     else isJumpTarget rest a)"

fun getJumpTargets :: "tInstList \<Rightarrow> u32 list \<Rightarrow> u32 list" where
  "getJumpTargets [] collJumpTargets = collJumpTargets"
| "getJumpTargets (Instruction d ifs els ins # rest) collJumpTargets =
    (let targets1 = (if uJumpAddress d \<noteq> 0 \<and> \<not> bIgnoreJump d
                     then collJumpTargets @ [uJumpAddress d] else collJumpTargets);
         targets2 = getJumpTargets ifs targets1;
         targets3 = getJumpTargets els targets2
     in getJumpTargets rest targets3)"

fun markJumpTargets :: "tInstList \<Rightarrow> u32 list \<Rightarrow> tInstList" where
  "markJumpTargets [] collJumpTargets = []"
| "markJumpTargets (Instruction d ifs els ins # rest) collJumpTargets =
    Instruction (d\<lparr>bIsJumpTarget := list_ex (\<lambda>t. uAddress d = t) collJumpTargets\<rparr>)
      (markJumpTargets ifs collJumpTargets) (markJumpTargets els collJumpTargets) ins
    # markJumpTargets rest collJumpTargets"

definition updateJumpTargets :: "tInstList \<Rightarrow> tInstList" where
  "updateJumpTargets collInstList = markJumpTargets collInstList (getJumpTargets collInstList [])"

text \<open>The superseded version: it marks the outermost list only against the whole list.\<close>

fun updateJumpTargetsOld_loop :: "tInstList \<Rightarrow> tInstList \<Rightarrow> tInstList" where
  "updateJumpTargetsOld_loop collInstList [] = []"
| "updateJumpTargetsOld_loop collInstList (Instruction d ifs els ins # rest) =
    Instruction (d\<lparr>bIsJumpTarget := isJumpTarget collInstList (uAddress d)\<rparr>)
      (updateJumpTargets ifs) (updateJumpTargets els) ins
    # updateJumpTargetsOld_loop collInstList rest"

definition updateJumpTargetsOld :: "tInstList \<Rightarrow> tInstList" where
  "updateJumpTargetsOld collInstList = updateJumpTargetsOld_loop collInstList collInstList"

section \<open>Instruction trees\<close>

text \<open>All instructions of a tree in the order in which the passes visit them.\<close>

fun preorder :: "tInstList \<Rightarrow> Instruction list" where
  "preorder [] = []"
| "preorder (Instruction d ifs els ins # rest) =
    Instruction d ifs els ins # preorder ifs @ preorder els @ preorder rest"

definition targets :: "tInstList \<Rightarrow> u32 list" where
  "targets xs = map (uJumpAddress \<circ> dat)
     (filter (\<lambda>i. uJumpAddress (dat i) \<noteq> 0 \<and> \<not> bIgnoreJump (dat i)) (preorder xs))"

fun rewrite_first :: "(tInstList \<Rightarrow> tInstList option result) \<Rightarrow> tInstList \<Rightarrow> tInstList option result" where
  "rewrite_first f [] = Ret None"
| "rewrite_first f (Instruction d ifs els ins # rest) =
    r_bind (f (Instruction d ifs els ins # rest)) (\<lambda>r0. case r0 of
      Some ys \<Rightarrow> Ret (Some ys)
    | None \<Rightarrow> r_bind (rewrite_first f ifs) (\<lambda>r1. case r1 of
        Some ys \<Rightarrow> Ret (Some (Instruction d ys els ins # rest))
      | None \<Rightarrow> r_bind (rewrite_first f els) (\<lambda>r2. case r2 of
          Some ys \<Rightarrow> Ret (Some (Instruction d ifs ys ins # rest))
        | None \<Rightarrow> r_map (map_option (Cons (Instruction d ifs els ins))) (rewrite_first f rest))))"

lemma inst_list_induct [case_names Nil Cons]:
  assumes "P []"
    and "\<And>d ifs els ins rest. P ifs \<Longrightarrow> P els \<Longrightarrow> P rest \<Longrightarrow> P (Instruction d ifs els ins # rest)"
  shows "P xs"
  using assms by (induction xs rule: preorder.induct) auto

text \<open>The four ways in which a traversal reports a change, and the one in which it does not.\<close>

lemma rewrite_first_ConsE:
  assumes "rewrite_first f (Instruction d ifs els ins # rest) = Ret (Some ys)"
  obtains "f (Instruction d ifs els ins # rest) = Ret (Some ys)"
  | zs where "f (Instruction d ifs els ins # rest) = Ret None"
      "rewrite_first f ifs = Ret (Some zs)" "ys = Instruction d zs els ins # rest"
  | zs where "f (Instruction d ifs els ins # rest) = Ret None" "rewrite_first f ifs = Ret None"
      "rewrite_first f els = Ret (Some zs)" "ys = Instruction d ifs zs ins # rest"
  | zs where "f (Instruction d ifs els ins # rest) = Ret None" "rewrite_first f ifs = Ret None"
      "rewrite_first f els = Ret None" "rewrite_first f rest = Ret (Some zs)"
      "ys = Instruction d ifs els ins # zs"
proof -
  from assms obtain r0 where r0: "f (Instruction d ifs els ins # rest) = Ret r0"
    by (auto simp: r_bind_eq_Ret)
  show thesis
  proof (cases r0)
    case (Some zs)
    with r0 assms show ?thesis by (intro that(1)) simp
  next
    case None
    with r0 assms obtain r1 where r1: "rewrite_first f ifs = Ret r1"
      by (auto simp: r_bind_eq_Ret)
    show ?thesis
    proof (cases r1)
      case (Some zs)
      with None r0 r1 assms show ?thesis by (intro that(2) [of zs]) simp_all
    next
      case None': None
      with None r0 r1 assms obtain r2 where r2: "rewrite_first f els = Ret r2"
        by (auto simp: r_bind_eq_Ret)
      show ?thesis
      proof (cases r2)
        case (Some zs)
        with None None' r0 r1 r2 assms show ?thesis by (intro that(3) [of zs]) simp_all
      next
        case None'': None
        with None None' r0 r1 r2 assms obtain zs where
          "rewrite_first f rest = Ret (Some zs)" "ys = Instruction d ifs els ins # zs"
          by (auto simp: r_map_eq_Ret)
        with None None' None'' r0 r1 r2 show ?thesis by (intro that(4) [of zs]) simp_all
      qed
    qed
  qed
qed

lemma rewrite_first_Cons_None:
  "rewrite_first f (Instruction d ifs els ins # rest) = Ret None \<longleftrightarrow>
    f (Instruction d ifs els ins # rest) = Ret None \<and> rewrite_first f ifs = Ret None \<and>
    rewrite_first f els = Ret None \<and> rewrite_first f rest = Ret None"
  by (auto simp: result_simps split: option.split_asm)

text \<open>
  What a pass guarantees of one change it guarantees of the whole tree, if the guarantee is
  stable under putting the changed list back where it came from.
\<close>

lemma rewrite_first_ctx:
  assumes step: "rewrite_first f xs = Ret (Some ys)"
    and loc: "\<And>us vs. f us = Ret (Some vs) \<Longrightarrow> R us vs"
    and cons: "\<And>i us vs. R us vs \<Longrightarrow> R (i # us) (i # vs)"
    and if_ctx: "\<And>d els ins rest us vs. R us vs \<Longrightarrow>
       R (Instruction d us els ins # rest) (Instruction d vs els ins # rest)"
    and else_ctx: "\<And>d ifs ins rest us vs. R us vs \<Longrightarrow>
       R (Instruction d ifs us ins # rest) (Instruction d ifs vs ins # rest)"
  shows "R xs ys"
  using step
proof (induction xs arbitrary: ys rule: inst_list_induct)
  case Nil
  then show ?case by simp
next
  case (Cons d ifs els ins rest)
  from Cons.prems show ?case
    by (rule rewrite_first_ConsE) (auto intro: loc cons if_ctx else_ctx Cons.IH)
qed

text \<open>If nothing was changed, nothing in the tree can be changed.\<close>

fun positions :: "tInstList \<Rightarrow> tInstList list" where
  "positions [] = []"
| "positions (Instruction d ifs els ins # rest) =
    (Instruction d ifs els ins # rest) # positions ifs @ positions els @ positions rest"

lemma rewrite_first_None:
  "rewrite_first f xs = Ret None \<Longrightarrow> us \<in> set (positions xs) \<Longrightarrow> f us = Ret None"
  by (induction xs rule: inst_list_induct)
    (auto simp: rewrite_first_Cons_None simp del: rewrite_first.simps(2))

section \<open>Correctness of the marking\<close>

lemma preorder_append [simp]: "preorder (xs @ ys) = preorder xs @ preorder ys"
  by (induction xs rule: inst_list_induct) auto

lemma targets_simps [simp]:
  "targets [] = []"
  "targets (Instruction d ifs els ins # rest) =
    (if uJumpAddress d \<noteq> 0 \<and> \<not> bIgnoreJump d then [uJumpAddress d] else []) @
    targets ifs @ targets els @ targets rest"
  by (simp_all add: targets_def)

lemma getJumpTargets_eq: "getJumpTargets xs acc = acc @ targets xs"
  by (induction xs arbitrary: acc rule: inst_list_induct) (auto simp: Let_def)

lemma isJumpTarget_iff: "a \<noteq> 0 \<Longrightarrow> isJumpTarget xs a \<longleftrightarrow> a \<in> set (targets xs)"
  by (induction xs rule: inst_list_induct) auto

lemma preorder_mark:
  "preorder (markJumpTargets xs ts) =
    map (\<lambda>i. Instruction ((dat i)\<lparr>bIsJumpTarget := uAddress (dat i) \<in> set ts\<rparr>)
      (markJumpTargets (collIfBranch i) ts) (markJumpTargets (collElseBranch i) ts) (collInsertAfter i))
      (preorder xs)"
  by (induction xs rule: inst_list_induct) (auto simp: list_ex_iff)

lemma targets_mark [simp]: "targets (markJumpTargets xs ts) = targets xs"
  by (induction xs rule: inst_list_induct) auto

text \<open>The invariant that \<open>main\<close> re-establishes before every round of the optimiser.\<close>

definition marked :: "tInstList \<Rightarrow> bool" where
  "marked xs \<longleftrightarrow> (\<forall>i \<in> set (preorder xs). bIsJumpTarget (dat i) = (uAddress (dat i) \<in> set (targets xs)))"

text \<open>
  C15. After \<open>updateJumpTargets\<close>, at every depth of the tree, an instruction is flagged as a jump
  target exactly if some jump of the tree that is not ignored goes to its address; the jumps
  themselves are unchanged, and a second call changes nothing.
\<close>

theorem updateJumpTargets_marked:
  "marked (updateJumpTargets xs) \<and> targets (updateJumpTargets xs) = targets xs \<and>
   updateJumpTargets (updateJumpTargets xs) = updateJumpTargets xs"
proof -
  have "markJumpTargets (markJumpTargets ys ts) ts = markJumpTargets ys ts" for ys ts
    by (induction ys rule: inst_list_induct) auto
  then show ?thesis
    by (auto simp: marked_def updateJumpTargets_def getJumpTargets_eq preorder_mark)
qed

text \<open>
  The linear search of \<open>isJumpTarget\<close> and the collected list of \<open>getJumpTargets\<close> agree on
  every address but 0, which \<open>getJumpTargets\<close> never collects.
\<close>

lemma isJumpTarget_getJumpTargets:
  "a \<noteq> 0 \<Longrightarrow> isJumpTarget xs a \<longleftrightarrow> a \<in> set (getJumpTargets xs [])"
  by (simp add: getJumpTargets_eq isJumpTarget_iff)

lemma isJumpTarget_getJumpTargets_witness:
  "isJumpTarget [Instruction (d_addiu_sp\<lparr>eType := IT_J, uJumpAddress := 0x80001010\<rparr>) [] [] []] 0x80001010"
  using isJumpTarget_getJumpTargets [of "0x80001010"] by (simp add: d_addiu_sp_def)

end
