(* ===== verification/Printf.thy ===== *)
theory Printf
  imports Prelude
begin

text \<open>
  The conversions of the C library that the tools use: the integer directives of \<open>printf\<close>
  (\<open>%d\<close>, \<open>%4d\<close>, \<open>%X\<close>, \<open>%08X\<close>) and \<open>strtoul\<close> with base 16.
\<close>

section \<open>Digits\<close>

text \<open>The digits of a number, most significant first.\<close>

function digits :: "nat \<Rightarrow> nat \<Rightarrow> nat list" where
  "digits b n = (if n < b \<or> b < 2 then [n] else digits b (n div b) @ [n mod b])"
  by pat_completeness auto
termination
  by (relation "measure snd") auto

declare digits.simps [simp del]

definition digit_char :: "nat \<Rightarrow> char" where
  "digit_char n = (if n < 10 then char_of (48 + n) else char_of (55 + n))"

definition hex_value :: "char \<Rightarrow> nat option" where
  "hex_value c =
    (let n = of_char c in
     if 48 \<le> n \<and> n \<le> 57 then Some (n - 48)
     else if 65 \<le> n \<and> n \<le> 70 then Some (n - 55)
     else if 97 \<le> n \<and> n \<le> 102 then Some (n - 87)
     else None)"

section \<open>printf\<close>

definition fmt_u :: "nat \<Rightarrow> string" where
  "fmt_u n = map digit_char (digits 10 n)"

definition fmt_d :: "int \<Rightarrow> string" where
  "fmt_d i = (if i < 0 then CHR ''-'' # fmt_u (nat (- i)) else fmt_u (nat i))"

definition pad_left :: "char \<Rightarrow> nat \<Rightarrow> string \<Rightarrow> string" where
  "pad_left c n s = replicate (n - length s) c @ s"

definition fmt_4d :: "int \<Rightarrow> string" where
  "fmt_4d i = pad_left (CHR '' '') 4 (fmt_d i)"

definition fmt_X :: "nat \<Rightarrow> string" where
  "fmt_X n = map digit_char (digits 16 n)"

definition fmt_08X :: "u32 \<Rightarrow> string" where
  "fmt_08X w = pad_left (CHR ''0'') 8 (fmt_X (unat w))"

section \<open>strtoul\<close>

definition isspace :: "char \<Rightarrow> bool" where
  "isspace c \<longleftrightarrow> of_char c \<in> {9, 10, 11, 12, 13, 32 :: nat}"

fun hex_digits :: "nat \<Rightarrow> string \<Rightarrow> nat" where
  "hex_digits acc [] = acc"
| "hex_digits acc (c # cs) =
    (case hex_value c of Some v \<Rightarrow> hex_digits (16 * acc + v) cs | None \<Rightarrow> acc)"

text \<open>An optional \<open>0x\<close> prefix is skipped when a hexadecimal digit follows it.\<close>

fun skip_0x :: "string \<Rightarrow> string" where
  "skip_0x (a # b # c # cs) =
    (if a = CHR ''0'' \<and> (b = CHR ''x'' \<or> b = CHR ''X'') \<and> hex_value c \<noteq> None then c # cs
     else a # b # c # cs)"
| "skip_0x s = s"

text \<open>The result is converted to \<open>unsigned\<close> by its caller, hence the 32-bit word.\<close>

definition strtoul16 :: "string \<Rightarrow> u32" where
  "strtoul16 s =
    (case dropWhile isspace s of
       [] \<Rightarrow> 0
     | c # cs \<Rightarrow>
         (if c = CHR ''-'' then - of_nat (hex_digits 0 (skip_0x cs))
          else if c = CHR ''+'' then of_nat (hex_digits 0 (skip_0x cs))
          else of_nat (hex_digits 0 (skip_0x (c # cs)))))"

section \<open>Round trips\<close>

lemma digits_less: "2 \<le> b \<Longrightarrow> x \<in> set (digits b n) \<Longrightarrow> x < b"
proof (induction b n rule: digits.induct)
  case (1 b n)
  then show ?case
    by (subst (asm) (2) digits.simps) (auto split: if_splits)
qed

lemma digits_nonempty: "digits b n \<noteq> []"
  by (subst digits.simps) simp

lemma length_digits: "2 \<le> b \<Longrightarrow> n < b ^ k \<Longrightarrow> 0 < k \<Longrightarrow> length (digits b n) \<le> k"
proof (induction k arbitrary: n)
  case 0
  then show ?case by simp
next
  case (Suc k)
  show ?case
  proof (cases "n < b")
    case True
    then show ?thesis by (subst digits.simps) simp
  next
    case False
    with Suc.prems have "n div b < b ^ k" and "0 < k"
      by (auto simp: less_mult_imp_div_less mult.commute intro: gr0I)
    with Suc.IH Suc.prems have "length (digits b (n div b)) \<le> k" by simp
    with False show ?thesis by (subst digits.simps) simp
  qed
qed

lemma hex_value_digit_char: "n < 16 \<Longrightarrow> hex_value (digit_char n) = Some n"
  by (auto simp: hex_value_def digit_char_def Let_def)

lemma hex_digits_append:
  "\<forall>c \<in> set s. hex_value c \<noteq> None \<Longrightarrow> hex_digits acc (s @ t) = hex_digits (hex_digits acc s) t"
  by (induction s arbitrary: acc) auto

lemma fmt_X_digit: "c \<in> set (fmt_X n) \<Longrightarrow> hex_value c \<noteq> None"
  by (auto simp: fmt_X_def hex_value_digit_char digits_less)

lemma hex_digits_fmt_X: "hex_digits 0 (fmt_X n) = n"
proof (induction "16::nat" n rule: digits.induct)
  case (1 n)
  show ?case
  proof (cases "n < 16")
    case True
    then show ?thesis
      by (simp add: fmt_X_def digits.simps [of 16 n] hex_value_digit_char)
  next
    case False
    have split: "fmt_X n = fmt_X (n div 16) @ [digit_char (n mod 16)]"
      using False by (simp add: fmt_X_def digits.simps [of 16 n])
    have "hex_digits 0 (fmt_X (n div 16)) = n div 16"
      using False "1" by simp
    then show ?thesis
      by (simp add: split hex_digits_append fmt_X_digit hex_value_digit_char)
  qed
qed

lemma hex_digits_zeros: "hex_digits 0 (replicate k (CHR ''0'') @ s) = hex_digits 0 s"
  by (induction k) (auto simp: hex_value_def)

lemma hex_value_not_sign:
  "hex_value c = Some v \<Longrightarrow> \<not> isspace c \<and> c \<noteq> CHR ''-'' \<and> c \<noteq> CHR ''+'' \<and> c \<noteq> CHR ''x'' \<and> c \<noteq> CHR ''X''"
  by (auto simp: hex_value_def Let_def isspace_def split: if_splits)

lemma hex_value_ctrl:
  "hex_value (CHR 0x0A) = None" "hex_value (CHR 0x0D) = None" "hex_value (CHR 0x00) = None"
  by code_simp+

lemma digit_char_eval:
  "digit_char 0 = CHR ''0''" "digit_char (Suc 0) = CHR ''1''" "digit_char 2 = CHR ''2''"
  "digit_char 3 = CHR ''3''" "digit_char 4 = CHR ''4''" "digit_char 5 = CHR ''5''"
  "digit_char 6 = CHR ''6''" "digit_char 7 = CHR ''7''" "digit_char 8 = CHR ''8''"
  "digit_char 9 = CHR ''9''" "digit_char 10 = CHR ''A''" "digit_char 11 = CHR ''B''"
  "digit_char 12 = CHR ''C''" "digit_char 13 = CHR ''D''" "digit_char 14 = CHR ''E''"
  "digit_char 15 = CHR ''F''"
  by code_simp+

lemma skip_0x_hex: "\<forall>c \<in> set s. hex_value c \<noteq> None \<Longrightarrow> skip_0x s = s"
  by (cases s rule: skip_0x.cases) (auto dest: hex_value_not_sign)

lemma strtoul16_hex:
  assumes "\<forall>c \<in> set s. hex_value c \<noteq> None"
  shows "strtoul16 s = of_nat (hex_digits 0 s)"
proof (cases s)
  case Nil
  then show ?thesis by (simp add: strtoul16_def)
next
  case (Cons c cs)
  with assms have "dropWhile isspace s = s" and "c \<noteq> CHR ''-''" and "c \<noteq> CHR ''+''"
    by (auto dest: hex_value_not_sign)
  then show ?thesis
    using skip_0x_hex [OF assms] Cons by (simp add: strtoul16_def)
qed

lemma fmt_08X_digit: "c \<in> set (fmt_08X w) \<Longrightarrow> hex_value c \<noteq> None"
  using fmt_X_digit [of c "unat w"] by (auto simp: fmt_08X_def pad_left_def hex_value_def)

lemma length_fmt_08X: "length (fmt_08X w) = 8"
proof -
  have "unat w < 16 ^ 8"
    using unsigned_less [of w] by simp
  then have "length (fmt_X (unat w)) \<le> 8"
    by (simp add: fmt_X_def length_digits)
  then show ?thesis by (simp add: fmt_08X_def pad_left_def)
qed

lemma strtoul16_fmt_08X: "strtoul16 (fmt_08X w) = w"
proof -
  have "strtoul16 (fmt_08X w) = of_nat (hex_digits 0 (fmt_08X w))"
    by (rule strtoul16_hex) (simp add: fmt_08X_digit)
  also have "hex_digits 0 (fmt_08X w) = unat w"
    by (simp add: fmt_08X_def pad_left_def hex_digits_zeros hex_digits_fmt_X)
  finally show ?thesis by simp
qed

end
