(* ===== verification/Symbols.thy ===== *)
theory Symbols
  imports Printf
begin

text \<open>
  The symbol table of mipsdec, \<^verbatim>\<open>src/tools/mipsdec/symbols.h\<close> and \<^verbatim>\<open>symbols.cpp\<close>: reading a
  System.map file and looking symbols up by name and by address. The file is a character list,
  \<open>None\<close> when it cannot be opened; the static member \<open>m_collSymbolList\<close> is passed explicitly, and what a
  function prints is its last result.
  The locale \<open>symbol_table\<close> is what the other components rely on.
\<close>

section \<open>Reading the map file\<close>

record tSymbolEntry =
  sym_uAddress :: u32
  cType :: char
  strName :: string

type_synonym tSymList = "tSymbolEntry list"

abbreviation newline :: char where
  "newline \<equiv> CHR 0x0A"

abbreviation carriage_return :: char where
  "carriage_return \<equiv> CHR 0x0D"

text \<open>\<open>fgets\<close>: at most \<open>size - 1\<close> characters, up to and including the first newline.\<close>

fun fgets_chars :: "nat \<Rightarrow> string \<Rightarrow> string \<times> string" where
  "fgets_chars 0 s = ([], s)"
| "fgets_chars (Suc n) [] = ([], [])"
| "fgets_chars (Suc n) (c # cs) =
    (if c = newline then ([c], cs) else (let (a, b) = fgets_chars n cs in (c # a, b)))"

definition fgets :: "nat \<Rightarrow> string \<Rightarrow> (string \<times> string) option" where
  "fgets sz s = (if s = [] then None else Some (fgets_chars (sz - 1) s))"

text \<open>A C string ends at the first NUL character.\<close>

definition c_str :: "string \<Rightarrow> string" where
  "c_str s = takeWhile (\<lambda>c. c \<noteq> CHR 0x00) s"

definition strip_eol :: "string \<Rightarrow> string" where
  "strip_eol s = rev (dropWhile (\<lambda>c. c = newline \<or> c = carriage_return) (rev s))"

definition parseSymLine :: "string \<Rightarrow> tSymbolEntry option" where
  "parseSymLine strSymLine =
    (if length strSymLine < 12 \<or> strSymLine ! 8 \<noteq> CHR '' '' \<or> strSymLine ! 10 \<noteq> CHR '' '' then None
     else
       (let line1 = strip_eol strSymLine;
            strSymAddr = take 8 line1;
            line2 = drop 9 line1;
            strSymType = take 1 line2;
            line3 = drop 2 line2
        in Some \<lparr>sym_uAddress = strtoul16 strSymAddr, cType = strSymType ! 0, strName = line3\<rparr>))"

lemma fgets_chars_length: "length (snd (fgets_chars n s)) \<le> length s"
  by (induction n s rule: fgets_chars.induct) (auto simp: case_prod_unfold Let_def)

lemma fgets_shorter: "fgets sz s = Some (l, rest) \<Longrightarrow> 1 < sz \<Longrightarrow> length rest < length s"
proof -
  assume f: "fgets sz s = Some (l, rest)" and sz: "1 < sz"
  then obtain c cs where s: "s = c # cs" and chars: "fgets_chars (sz - 1) s = (l, rest)"
    by (cases s) (auto simp: fgets_def)
  from sz obtain n where "sz - 1 = Suc n" by (metis less_imp_Suc_add diff_Suc_1 plus_1_eq_Suc)
  with chars s fgets_chars_length [of n cs] show ?thesis
    by (auto simp: case_prod_unfold Let_def split: if_splits)
qed

text \<open>\<open>printf("Error in symbol line: %d (\"%s\")\n", \<dots>)\<close>\<close>

definition symbol_line_error :: "nat \<Rightarrow> string \<Rightarrow> string" where
  "symbol_line_error n strSymLine =
    ''Error in symbol line: '' @ fmt_d (int n) @ '' ('' @ [CHR 0x22] @ strSymLine @ [CHR 0x22] @ '')'' @ [newline]"

function parseSymFile_loop :: "tSymList \<Rightarrow> string \<Rightarrow> tSymList \<times> bool \<times> string" where
  "parseSymFile_loop coll s =
    (case fgets 1024 s of
       None \<Rightarrow> (coll, True, [])
     | Some (pBuf, rest) \<Rightarrow>
         (case parseSymLine (c_str pBuf) of
            None \<Rightarrow> (coll, False, symbol_line_error (length coll) (c_str pBuf))
          | Some aSymEntry \<Rightarrow> parseSymFile_loop (coll @ [aSymEntry]) rest))"
  by pat_completeness auto
termination
  by (relation "measure (\<lambda>(coll, s). length s)") (auto dest: fgets_shorter)

declare parseSymFile_loop.simps [simp del]

definition parseSymFile :: "string \<Rightarrow> string option \<Rightarrow> tSymList \<times> bool \<times> string" where
  "parseSymFile strSymFile symFile =
    (case symFile of
       None \<Rightarrow> ([], False, ''Can'' @ [CHR 0x27] @ ''t open symbol file: '' @ strSymFile @ [newline])
     | Some s \<Rightarrow> parseSymFile_loop [] s)"

section \<open>Lookup\<close>

definition lookup_name :: "tSymList \<Rightarrow> string \<Rightarrow> nat option" where
  "lookup_name coll strSymName = find_index (\<lambda>e. strName e = strSymName) coll"

definition lookup_addr :: "tSymList \<Rightarrow> u32 \<Rightarrow> nat option" where
  "lookup_addr coll a = find_index (\<lambda>e. sym_uAddress e = a) coll"

definition getCount :: "tSymList \<Rightarrow> nat" where
  "getCount coll = length coll"

definition get :: "tSymList \<Rightarrow> nat \<Rightarrow> tSymbolEntry result" where
  "get coll uSymIdx = M_ASSERT (uSymIdx < getCount coll) (Ret (coll ! uSymIdx))"

section \<open>The interface\<close>

text \<open>
  A lookup that succeeds names an entry that can be read and that has the wanted key, one that
  fails means that no entry has it, and reading is possible exactly below the count.
\<close>

locale symbol_table =
  fixes by_name :: "'t \<Rightarrow> string \<Rightarrow> nat option"
    and by_addr :: "'t \<Rightarrow> u32 \<Rightarrow> nat option"
    and count :: "'t \<Rightarrow> nat"
    and entry :: "'t \<Rightarrow> nat \<Rightarrow> tSymbolEntry result"
  assumes entry_below: "n < count t \<Longrightarrow> \<exists>e. entry t n = Ret e"
    and entry_above: "count t \<le> n \<Longrightarrow> entry t n = Fail AssertFailed"
    and name_found: "by_name t s = Some n \<Longrightarrow> \<exists>e. entry t n = Ret e \<and> strName e = s"
    and name_missing: "by_name t s = None \<Longrightarrow> entry t n = Ret e \<Longrightarrow> strName e \<noteq> s"
    and addr_found: "by_addr t a = Some n \<Longrightarrow> \<exists>e. entry t n = Ret e \<and> sym_uAddress e = a"
    and addr_missing: "by_addr t a = None \<Longrightarrow> entry t n = Ret e \<Longrightarrow> sym_uAddress e \<noteq> a"
begin

lemma found_below: "entry t n = Ret e \<Longrightarrow> n < count t"
  using entry_above [of t n] by (cases "n < count t") auto

text \<open>A function and its successor in the table: what \<open>parseFromFile\<close> reads.\<close>

lemma name_and_next:
  assumes "by_name t s = Some n" and "n + 1 \<noteq> count t"
  shows "\<exists>e e'. entry t n = Ret e \<and> strName e = s \<and> entry t (n + 1) = Ret e'"
proof -
  obtain e where e: "entry t n = Ret e" "strName e = s"
    using name_found [OF assms(1)] by blast
  then have "n + 1 < count t"
    using found_below [OF e(1)] assms(2) by linarith
  with entry_below [of "n + 1" t] e show ?thesis by blast
qed

end

interpretation syms: symbol_table lookup_name lookup_addr getCount get
proof
  fix t :: tSymList and n
  show "\<exists>e. get t n = Ret e" if "n < getCount t"
    using that by (simp add: get_def)
  show "get t n = Fail AssertFailed" if "getCount t \<le> n"
    using that by (simp add: get_def M_ASSERT_def)
next
  fix t :: tSymList and s n
  show "\<exists>e. get t n = Ret e \<and> strName e = s" if "lookup_name t s = Some n"
    using that by (simp add: lookup_name_def get_def getCount_def find_index_Some)
next
  fix t :: tSymList and s n e
  show "strName e \<noteq> s" if "lookup_name t s = None" and "get t n = Ret e"
    using that by (auto simp: lookup_name_def get_def getCount_def find_index_None result_simps)
next
  fix t :: tSymList and a n
  show "\<exists>e. get t n = Ret e \<and> sym_uAddress e = a" if "lookup_addr t a = Some n"
    using that by (simp add: lookup_addr_def get_def getCount_def find_index_Some)
next
  fix t :: tSymList and a n e
  show "sym_uAddress e \<noteq> a" if "lookup_addr t a = None" and "get t n = Ret e"
    using that by (auto simp: lookup_addr_def get_def getCount_def find_index_None result_simps)
qed

section \<open>Map files round trip\<close>

text \<open>A line of the map file as \<open>nm\<close> writes it, and the entries for which a line is unambiguous.\<close>

definition sym_line :: "tSymbolEntry \<Rightarrow> string" where
  "sym_line e = fmt_08X (sym_uAddress e) @ '' '' @ [cType e] @ '' '' @ strName e @ [newline]"

definition printable_entry :: "tSymbolEntry \<Rightarrow> bool" where
  "printable_entry e \<longleftrightarrow> length (strName e) \<le> 1011 \<and>
     (\<forall>c \<in> set (cType e # strName e). c \<noteq> newline \<and> c \<noteq> carriage_return \<and> c \<noteq> CHR 0x00)"

lemma fgets_chars_line:
  "newline \<notin> set l \<Longrightarrow> length l < n \<Longrightarrow> fgets_chars n (l @ newline # rest) = (l @ [newline], rest)"
proof (induction l arbitrary: n)
  case Nil
  then show ?case by (cases n) auto
next
  case (Cons c l)
  then show ?case by (cases n) auto
qed

lemma strip_eol_line:
  "(\<forall>c \<in> set l. c \<noteq> newline \<and> c \<noteq> carriage_return) \<Longrightarrow> strip_eol (l @ [newline]) = l"
proof -
  assume a: "\<forall>c \<in> set l. c \<noteq> newline \<and> c \<noteq> carriage_return"
  then have "dropWhile (\<lambda>c. c = newline \<or> c = carriage_return) (rev l) = rev l"
    by (cases "rev l") (auto dest: arg_cong [where f = set])
  then show ?thesis by (simp add: strip_eol_def)
qed

lemma c_str_line: "CHR 0x00 \<notin> set l \<Longrightarrow> c_str l = l"
  by (auto simp: c_str_def takeWhile_eq_all_conv)

definition sym_body :: "tSymbolEntry \<Rightarrow> string" where
  "sym_body e = fmt_08X (sym_uAddress e) @ '' '' @ [cType e] @ '' '' @ strName e"

lemma sym_line_body: "sym_line e = sym_body e @ [newline]"
  by (simp add: sym_line_def sym_body_def)

lemma length_sym_body: "length (sym_body e) = 11 + length (strName e)"
  by (simp add: sym_body_def length_fmt_08X)

lemma sym_body_chars:
  assumes "printable_entry e" and "c \<in> set (sym_body e)"
  shows "c \<noteq> newline \<and> c \<noteq> carriage_return \<and> c \<noteq> CHR 0x00"
proof -
  consider "c \<in> set (fmt_08X (sym_uAddress e))" | "c = CHR '' ''" | "c \<in> set (cType e # strName e)"
    using assms(2) by (auto simp: sym_body_def)
  then show ?thesis
  proof cases
    case 1
    then have "hex_value c \<noteq> None" by (rule fmt_08X_digit)
    then show ?thesis using hex_value_ctrl by metis
  next
    case 2
    then show ?thesis by simp
  next
    case 3
    then show ?thesis using assms(1) unfolding printable_entry_def by blast
  qed
qed

lemma sym_body_nth: "sym_body e ! 8 = CHR '' ''" "sym_body e ! 10 = CHR '' ''"
  using length_fmt_08X [of "sym_uAddress e"] by (simp_all add: sym_body_def nth_append)

lemma parseSymLine_line:
  assumes "printable_entry e"
  shows "parseSymLine (sym_line e) = Some e"
proof -
  have "strip_eol (sym_line e) = sym_body e"
    unfolding sym_line_body by (rule strip_eol_line) (use sym_body_chars [OF assms] in auto)
  moreover have "take 8 (sym_body e) = fmt_08X (sym_uAddress e)"
    and "drop 9 (sym_body e) = cType e # '' '' @ strName e" and "drop 11 (sym_body e) = strName e"
    using length_fmt_08X [of "sym_uAddress e"] by (simp_all add: sym_body_def)
  ultimately show ?thesis
    using length_sym_body [of e] sym_body_nth [of e]
    by (simp add: parseSymLine_def Let_def strtoul16_fmt_08X sym_line_body nth_append)
qed

lemma parseSymFile_loop_lines:
  "\<forall>e \<in> set es. printable_entry e \<Longrightarrow>
    parseSymFile_loop coll (concat (map sym_line es)) = (coll @ es, True, [])"
proof (induction es arbitrary: coll)
  case Nil
  then show ?case by (simp add: parseSymFile_loop.simps [of coll "[]"] fgets_def)
next
  case (Cons e es)
  then have e: "printable_entry e" by simp
  have chars: "fgets_chars 1023 (sym_line e @ concat (map sym_line es)) = (sym_line e, concat (map sym_line es))"
    using fgets_chars_line [of "sym_body e" 1023 "concat (map sym_line es)"] sym_body_chars [OF e]
      length_sym_body [of e] e
    by (auto simp: sym_line_body printable_entry_def)
  have "c_str (sym_line e) = sym_line e"
    by (rule c_str_line) (use sym_body_chars [OF e] in \<open>auto simp: sym_line_body\<close>)
  moreover have "sym_line e \<noteq> []"
    by (simp add: sym_line_body)
  ultimately show ?case
    using chars parseSymLine_line [OF e] Cons
    by (subst parseSymFile_loop.simps) (simp add: fgets_def)
qed

text \<open>
  C16. Reading a map file back: if every entry has a name of at most 1011 characters and neither the
  name nor the type is a line break or NUL, then \<open>parseSymFile\<close> on the printed lines succeeds, prints
  nothing and returns exactly those entries, in order.
\<close>

theorem parseSymFile_lines:
  "\<forall>e \<in> set es. printable_entry e \<Longrightarrow> parseSymFile name (Some (concat (map sym_line es))) = (es, True, [])"
  by (simp add: parseSymFile_def parseSymFile_loop_lines)

theorem parseSymFile_lines_witness:
  "printable_entry \<lparr>sym_uAddress = 0x80001000, cType = CHR ''T'', strName = ''start_kernel''\<rparr> \<and>
   parseSymFile ''System.map'' (Some (''80001000 T start_kernel'' @ [newline])) =
     ([\<lparr>sym_uAddress = 0x80001000, cType = CHR ''T'', strName = ''start_kernel''\<rparr>], True, [])"
proof -
  let ?e = "\<lparr>sym_uAddress = 0x80001000, cType = CHR ''T'', strName = ''start_kernel''\<rparr>"
  have p: "\<forall>e \<in> set [?e]. printable_entry e"
    by (simp add: printable_entry_def)
  have l: "concat (map sym_line [?e]) = ''80001000 T start_kernel'' @ [newline]"
    by (simp add: sym_line_def fmt_08X_def fmt_X_def digits.simps digit_char_eval pad_left_def)
  have "parseSymFile ''System.map'' (Some (''80001000 T start_kernel'' @ [newline])) = ([?e], True, [])"
    using parseSymFile_lines [OF p, of "''System.map''"] by (simp only: l)
  moreover have "printable_entry ?e"
    using p by (simp only: list.set_intros)
  ultimately show ?thesis by (rule conjI [rotated])
qed

text \<open>
  The two lookups return the first entry with the wanted name or address, and fail only if there is
  none; the entry they name can be read without an assertion.
\<close>

lemma lookup_first:
  "(lookup_name t s = Some n \<longleftrightarrow>
      (\<exists>e. get t n = Ret e \<and> strName e = s) \<and> (\<forall>m < n. \<forall>e. get t m = Ret e \<longrightarrow> strName e \<noteq> s)) \<and>
   (lookup_addr t a = Some n \<longleftrightarrow>
      (\<exists>e. get t n = Ret e \<and> sym_uAddress e = a) \<and> (\<forall>m < n. \<forall>e. get t m = Ret e \<longrightarrow> sym_uAddress e \<noteq> a))"
  by (auto simp: lookup_name_def lookup_addr_def find_index_Some get_def getCount_def result_simps)

lemma lookup_first_witness:
  "lookup_addr [\<lparr>sym_uAddress = 8, cType = CHR ''T'', strName = ''a''\<rparr>,
                \<lparr>sym_uAddress = 8, cType = CHR ''T'', strName = ''b''\<rparr>] 8 = Some 0"
  using lookup_first [of "[\<lparr>sym_uAddress = 8, cType = CHR ''T'', strName = ''a''\<rparr>,
                \<lparr>sym_uAddress = 8, cType = CHR ''T'', strName = ''b''\<rparr>]" "''a''" 0 8]
  by (simp add: get_def getCount_def)

end
