(* ===== verification/Functions.thy ===== *)
theory Functions
  imports JumpTargets Symbols
begin

text \<open>
  The class \<open>Function\<close> of mipsdec, \<^verbatim>\<open>src/tools/mipsdec/function.h\<close> and \<^verbatim>\<open>function.cpp\<close>: reading
  the instructions of a function from a binary image, detecting its stack frame, and applying
  the edits that the optimiser has queued. The binary file is a byte list, \<open>None\<close> when it cannot
  be opened; \<open>raw n\<close> is the uninitialised storage of the \<open>n\<close>th instruction object. What is printed is the
  last result.
\<close>

section \<open>The class Function\<close>

record Function =
  m_collInstList :: tInstList
  bHasStackOffset :: bool
  uOptimizationPasses :: u32
  uStackOffset :: u32
  fn_strName :: string

definition Function_new :: Function where
  "Function_new = \<lparr>m_collInstList = [], bHasStackOffset = False, uOptimizationPasses = 0,
     uStackOffset = 0, fn_strName = ''''\<rparr>"

text \<open>The loop of \<open>detectStackOffset\<close>: the size of the frame, if an instruction changes the stack pointer.\<close>

fun stack_offset_of :: "tInstList \<Rightarrow> u32 option result" where
  "stack_offset_of [] = Ret None"
| "stack_offset_of (itCurr # rest) =
    r_bind (modifiesRegister (dat itCurr) R_SP) (\<lambda>m.
      if m then
        M_ASSERT (eType (dat itCurr) = IT_ADDIU) (M_ASSERT (sint (iSI (dat itCurr)) < 0)
          (Ret (Some (word_of_int \<bar>sint (iSI (dat itCurr))\<bar>))))
      else stack_offset_of rest)"

definition detectStackOffset :: "Function \<Rightarrow> Function result" where
  "detectStackOffset fn =
    r_map (\<lambda>off. case off of
        Some n \<Rightarrow> fn\<lparr>uStackOffset := n, bHasStackOffset := True\<rparr>
      | None \<Rightarrow> fn\<lparr>uStackOffset := 0, bHasStackOffset := False\<rparr>)
      (stack_offset_of (m_collInstList fn))"

definition calcSymFileOffset :: "u32 \<Rightarrow> u32" where
  "calcSymFileOffset uSymAddress = uSymAddress - 0x80000000"

text \<open>
  \<open>fseek(pBinFile, off, SEEK_SET)\<close> takes a \<open>long\<close>. A negative offset is refused, and the result is not looked
  at, so that reading starts at the beginning of the file.
\<close>

definition fseek_set :: "u32 \<Rightarrow> nat" where
  "fseek_set off = (if sint off < 0 then 0 else unat off)"

text \<open>The inner loop: four bytes, each shifted in from the top.\<close>

fun read_bytes :: "nat \<Rightarrow> u32 \<Rightarrow> u8 list \<Rightarrow> (u32 \<times> u8 list) option" where
  "read_bytes 0 uData bs = Some (uData, bs)"
| "read_bytes (Suc k) uData [] = None"
| "read_bytes (Suc k) uData (uByte # bs) =
    read_bytes k (drop_bit 8 uData OR push_bit 24 (ucast uByte)) bs"

text \<open>
  The outer loop. The flag is the return value: false after a short read, in which case the
  instructions read so far stay in the list.
\<close>

function read_instructions ::
  "(nat \<Rightarrow> inst_data) \<Rightarrow> u32 \<Rightarrow> nat \<Rightarrow> nat \<Rightarrow> u8 list \<Rightarrow> tInstList \<Rightarrow> (tInstList \<times> bool \<times> string) result" where
  "read_instructions raw base uInstructionIdx uInstructionCount bs coll =
    (if uInstructionIdx < uInstructionCount then
       (case read_bytes 4 0 bs of
          None \<Rightarrow> Ret (coll, False, ''Short binary file read!'' @ [newline])
        | Some (uData, bs') \<Rightarrow>
            r_bind (parse (upd_dat (\<lambda>d. d\<lparr>eFormat := IF_UNKNOWN\<rparr>) (Instruction_new (raw uInstructionIdx)))
                     uData (base + 4 * of_nat uInstructionIdx))
              (\<lambda>aInstruction.
                read_instructions raw base (uInstructionIdx + 1) uInstructionCount bs'
                  (coll @ [aInstruction])))
     else Ret (coll, True, []))"
  by pat_completeness auto
termination
  by (relation "measure (\<lambda>(raw, base, idx, n, bs, coll). n - idx)") auto

declare read_instructions.simps [simp del]

definition parseFromFile ::
  "(nat \<Rightarrow> inst_data) \<Rightarrow> tSymList \<Rightarrow> string \<Rightarrow> string \<Rightarrow> u8 list option \<Rightarrow> Function \<Rightarrow> (Function \<times> bool \<times> string) result" where
  "parseFromFile raw symbols strFuncName strBinFile binFile fn =
    (let fn1 = fn\<lparr>fn_strName := strFuncName\<rparr> in
     case lookup_name symbols strFuncName of
       None \<Rightarrow> Ret (fn1, False, ''Unable to locate function '' @ strFuncName @ [newline])
     | Some uSymIdx \<Rightarrow>
         M_ASSERT (uSymIdx + 1 \<noteq> getCount symbols)
           (r_bind (get symbols (uSymIdx + 1)) (\<lambda>nextSym. r_bind (get symbols uSymIdx) (\<lambda>sym.
             (let uInstructionCount = (sym_uAddress nextSym - sym_uAddress sym) div 4 in
              case binFile of
                None \<Rightarrow> Ret (fn1, False, ''Can'' @ [CHR 0x27] @ ''t open binary file: '' @ strBinFile @ [newline])
              | Some bin \<Rightarrow>
                  r_map (\<lambda>(coll, ok, out). (fn1\<lparr>m_collInstList := coll\<rparr>, ok, out))
                    (read_instructions raw (sym_uAddress sym) 0 (unat uInstructionCount)
                      (drop (fseek_set (calcSymFileOffset (sym_uAddress sym))) bin)
                      (m_collInstList fn1)))))))"

section \<open>Queued edits\<close>

fun applyDelayedDeletesRecursive :: "tInstList \<Rightarrow> tInstList option result" where
  "applyDelayedDeletesRecursive [] = Ret None"
| "applyDelayedDeletesRecursive (Instruction d ifs els ins # rest) =
    (if bDelayedDelete d then M_ASSERT (length ins = 0) (Ret (Some rest))
     else r_bind (applyDelayedDeletesRecursive ifs) (\<lambda>r1. case r1 of
        Some ys \<Rightarrow> Ret (Some (Instruction d ys els ins # rest))
      | None \<Rightarrow> r_bind (applyDelayedDeletesRecursive els) (\<lambda>r2. case r2 of
          Some ys \<Rightarrow> Ret (Some (Instruction d ifs ys ins # rest))
        | None \<Rightarrow> r_map (map_option (Cons (Instruction d ifs els ins)))
            (applyDelayedDeletesRecursive rest))))"

fun applyDelayedInsertsRecursive :: "tInstList \<Rightarrow> tInstList option" where
  "applyDelayedInsertsRecursive [] = None"
| "applyDelayedInsertsRecursive (Instruction d ifs els ins # rest) =
    (if length ins > 0 then Some (Instruction d ifs els [] # ins @ rest)
     else (case applyDelayedInsertsRecursive ifs of
        Some ys \<Rightarrow> Some (Instruction d ys els ins # rest)
      | None \<Rightarrow> (case applyDelayedInsertsRecursive els of
          Some ys \<Rightarrow> Some (Instruction d ifs ys ins # rest)
        | None \<Rightarrow> map_option (Cons (Instruction d ifs els ins)) (applyDelayedInsertsRecursive rest))))"

text \<open>Both loops repeat a traversal that restarts after every edit; these are their measures.\<close>

fun tree_size :: "tInstList \<Rightarrow> nat" where
  "tree_size [] = 0"
| "tree_size (Instruction d ifs els ins # rest) = Suc (tree_size ifs + tree_size els + tree_size rest)"

fun pending_inserts :: "tInstList \<Rightarrow> nat" where
  "pending_inserts [] = 0"
| "pending_inserts (Instruction d ifs els ins # rest) =
    (if ins = [] then 0 else Suc (pending_inserts ins)) +
    pending_inserts ifs + pending_inserts els + pending_inserts rest"

lemma pending_inserts_append [simp]:
  "pending_inserts (xs @ ys) = pending_inserts xs + pending_inserts ys"
  by (induction xs rule: inst_list_induct) auto

lemma tree_size_append [simp]: "tree_size (xs @ ys) = tree_size xs + tree_size ys"
  by (induction xs rule: inst_list_induct) auto

lemma applyDelayedDeletesRecursive_size:
  "applyDelayedDeletesRecursive xs = Ret (Some ys) \<Longrightarrow> tree_size ys < tree_size xs"
proof (induction xs arbitrary: ys rule: inst_list_induct)
  case Nil
  then show ?case by simp
next
  case (Cons d ifs els ins rest)
  then show ?case
    by (fastforce simp: result_simps split: if_splits option.split_asm)
qed

lemma applyDelayedInsertsRecursive_pending:
  "applyDelayedInsertsRecursive xs = Some ys \<Longrightarrow> pending_inserts ys < pending_inserts xs"
proof (induction xs arbitrary: ys rule: inst_list_induct)
  case Nil
  then show ?case by simp
next
  case (Cons d ifs els ins rest)
  then show ?case
    by (fastforce split: if_splits option.split_asm)
qed

function applyDelayedDeletes :: "tInstList \<Rightarrow> tInstList result" where
  "applyDelayedDeletes xs =
    (case applyDelayedDeletesRecursive xs of
       Fail e \<Rightarrow> Fail e
     | Ret None \<Rightarrow> Ret xs
     | Ret (Some ys) \<Rightarrow> applyDelayedDeletes ys)"
  by pat_completeness auto
termination
  by (relation "measure tree_size") (auto dest: applyDelayedDeletesRecursive_size)

function applyDelayedInserts :: "tInstList \<Rightarrow> tInstList" where
  "applyDelayedInserts xs =
    (case applyDelayedInsertsRecursive xs of None \<Rightarrow> xs | Some ys \<Rightarrow> applyDelayedInserts ys)"
  by pat_completeness auto
termination
  by (relation "measure pending_inserts") (auto dest: applyDelayedInsertsRecursive_pending)

declare applyDelayedDeletes.simps [simp del] applyDelayedInserts.simps [simp del]

section \<open>The queued edits in one pass\<close>

text \<open>The intended effect, as a single traversal.\<close>

fun expand :: "tInstList \<Rightarrow> tInstList" where
  "expand [] = []"
| "expand (Instruction d ifs els ins # rest) =
    Instruction d (expand ifs) (expand els) [] # expand ins @ expand rest"

fun prune :: "tInstList \<Rightarrow> tInstList" where
  "prune [] = []"
| "prune (Instruction d ifs els ins # rest) =
    (if bDelayedDelete d then prune rest else Instruction d (prune ifs) (prune els) ins # prune rest)"

text \<open>Nothing is left to insert: then nothing fires the assertion of the deletions.\<close>

fun no_inserts :: "tInstList \<Rightarrow> bool" where
  "no_inserts [] = True"
| "no_inserts (Instruction d ifs els ins # rest) =
    (ins = [] \<and> no_inserts ifs \<and> no_inserts els \<and> no_inserts rest)"

lemma expand_append [simp]: "expand (xs @ ys) = expand xs @ expand ys"
  by (induction xs rule: inst_list_induct) auto

lemma prune_append [simp]: "prune (xs @ ys) = prune xs @ prune ys"
  by (induction xs rule: inst_list_induct) auto

lemma no_inserts_append [simp]: "no_inserts (xs @ ys) \<longleftrightarrow> no_inserts xs \<and> no_inserts ys"
  by (induction xs rule: inst_list_induct) auto

lemma no_inserts_expand [simp]: "no_inserts (expand xs)"
  by (induction xs rule: expand.induct) auto

lemma insert_step_expand: "applyDelayedInsertsRecursive xs = Some ys \<Longrightarrow> expand ys = expand xs"
proof (induction xs arbitrary: ys rule: inst_list_induct)
  case Nil
  then show ?case by simp
next
  case (Cons d ifs els ins rest)
  then show ?case
    by (auto split: if_splits option.split_asm)
qed

lemma insert_stop_expand: "applyDelayedInsertsRecursive xs = None \<Longrightarrow> expand xs = xs"
  by (induction xs rule: inst_list_induct) (auto split: if_splits option.split_asm)

lemma applyDelayedInserts_expand: "applyDelayedInserts xs = expand xs"
proof (induction xs rule: applyDelayedInserts.induct)
  case (1 xs)
  then show ?case
    by (subst applyDelayedInserts.simps)
      (auto split: option.splits simp: insert_stop_expand insert_step_expand)
qed

lemma delete_step_prune:
  "applyDelayedDeletesRecursive xs = Ret (Some ys) \<Longrightarrow> no_inserts xs \<Longrightarrow> prune ys = prune xs \<and> no_inserts ys"
proof (induction xs arbitrary: ys rule: inst_list_induct)
  case Nil
  then show ?case by simp
next
  case (Cons d ifs els ins rest)
  then show ?case
    by (fastforce simp: result_simps split: if_splits option.split_asm)
qed

lemma delete_stop_prune: "applyDelayedDeletesRecursive xs = Ret None \<Longrightarrow> prune xs = xs"
  by (induction xs rule: inst_list_induct)
    (auto simp: result_simps split: if_splits option.split_asm)

lemma delete_no_fail: "no_inserts xs \<Longrightarrow> \<exists>r. applyDelayedDeletesRecursive xs = Ret r"
  by (induction xs rule: inst_list_induct) (auto split: option.splits)

lemma applyDelayedDeletes_prune: "no_inserts xs \<Longrightarrow> applyDelayedDeletes xs = Ret (prune xs)"
proof (induction xs rule: applyDelayedDeletes.induct)
  case (1 xs)
  obtain r where r: "applyDelayedDeletesRecursive xs = Ret r"
    using delete_no_fail [OF "1.prems"] by blast
  show ?case
  proof (cases r)
    case None
    with r show ?thesis by (subst applyDelayedDeletes.simps) (simp add: delete_stop_prune)
  next
    case (Some ys)
    with r delete_step_prune [of xs ys] "1.prems" have "prune ys = prune xs" and "no_inserts ys"
      by simp_all
    with "1.IH" r Some show ?thesis by (subst applyDelayedDeletes.simps) simp
  qed
qed

text \<open>
  C17. Applying the queued edits the way \<open>main\<close> does, insertions first, always terminates, fires no
  assertion and has the effect of one traversal: every queued list is spliced in after its
  instruction (recursively, at every depth) and every instruction marked for deletion is removed
  together with its branches.
\<close>

theorem apply_delayed_edits:
  "applyDelayedDeletes (applyDelayedInserts xs) = Ret (prune (expand xs))"
  by (simp add: applyDelayedInserts_expand applyDelayedDeletes_prune)

section \<open>Reading a function\<close>

lemma new_with_format:
  "upd_dat (\<lambda>d. d\<lparr>eFormat := IF_UNKNOWN\<rparr>) (Instruction_new raw) = Instruction_new (raw\<lparr>eFormat := IF_UNKNOWN\<rparr>)"
  by (simp add: upd_dat_def Instruction_new_def)

definition le_bytes :: "u32 \<Rightarrow> u8 list" where
  "le_bytes w = [ucast w, ucast (drop_bit 8 w), ucast (drop_bit 16 w), ucast (drop_bit 24 w)]"

lemma read_bytes_le_bytes: "read_bytes 4 0 (le_bytes w @ bs) = Some (w, bs)"
proof -
  have "drop_bit 8 (drop_bit 8 (drop_bit 8 (push_bit 24 (ucast (ucast w :: u8) :: u32)) OR
      push_bit 24 (ucast (ucast (drop_bit 8 w) :: u8) :: u32)) OR push_bit 24 (ucast (ucast (drop_bit 16 w) :: u8) :: u32))
      OR push_bit 24 (ucast (ucast (drop_bit 24 w) :: u8) :: u32) = w"
  proof (rule bit_eqI)
    fix n assume "possible_bit TYPE(32 word) n"
    then have "n < 32" by simp
    then have "n < 8 \<or> (\<exists>k < 8. n = 8 + k) \<or> (\<exists>k < 8. n = 16 + k) \<or> (\<exists>k < 8. n = 24 + k)"
      by presburger
    then consider "n < 8" | k where "n = 8 + k" "k < 8" | k where "n = 16 + k" "k < 8"
      | k where "n = 24 + k" "k < 8"
      by blast
    then show "bit (drop_bit 8 (drop_bit 8 (drop_bit 8 (push_bit 24 (ucast (ucast w :: u8) :: u32)) OR
      push_bit 24 (ucast (ucast (drop_bit 8 w) :: u8) :: u32)) OR push_bit 24 (ucast (ucast (drop_bit 16 w) :: u8) :: u32))
      OR push_bit 24 (ucast (ucast (drop_bit 24 w) :: u8) :: u32)) n = bit w n"
      by cases (auto simp: bit_simps)
  qed
  then show ?thesis
    by (simp add: le_bytes_def numeral_eq_Suc)
qed

lemma read_instructions_step:
  assumes "idx < n" and "read_bytes 4 0 bs = Some (w, bs')"
    and "parse (Instruction_new ((raw idx)\<lparr>eFormat := IF_UNKNOWN\<rparr>)) w (base + 4 * of_nat idx) = Ret i"
  shows "read_instructions raw base idx n bs coll =
    read_instructions raw base (idx + 1) n bs' (coll @ [i])"
  using assms by (subst read_instructions.simps) (simp add: new_with_format)

lemma read_instructions_fresh:
  assumes "read_instructions raw base idx n bs coll = Ret (xs, True, out)" and "idx \<le> n"
  shows "\<exists>ys. xs = coll @ ys \<and> length ys = n - idx \<and>
    (\<forall>k < length ys. fresh_inst (ys ! k) \<and> uAddress (dat (ys ! k)) = base + 4 * of_nat (idx + k))"
  using assms
proof (induction raw base idx n bs coll rule: read_instructions.induct)
  case (1 raw base idx n bs coll)
  show ?case
  proof (cases "idx < n")
    case False
    with "1.prems" show ?thesis by (subst (asm) read_instructions.simps) simp
  next
    case True
    with "1.prems"(1) obtain w bs' i where rb: "read_bytes 4 0 bs = Some (w, bs')"
      and pi: "parse (Instruction_new ((raw idx)\<lparr>eFormat := IF_UNKNOWN\<rparr>)) w (base + 4 * of_nat idx) = Ret i"
      by (subst (asm) read_instructions.simps)
        (auto simp: result_simps new_with_format split: option.splits)
    have "read_instructions raw base (idx + 1) n bs' (coll @ [i]) = Ret (xs, True, out)"
      using "1.prems"(1) read_instructions_step [OF True rb, of raw base i coll] pi by simp
    with "1.IH" [OF True rb refl] pi True obtain ys where ys: "xs = coll @ [i] @ ys" "length ys = n - (idx + 1)"
      and all: "\<forall>k < length ys. fresh_inst (ys ! k) \<and> uAddress (dat (ys ! k)) = base + 4 * of_nat (idx + 1 + k)"
      by (auto simp: new_with_format)
    have i: "fresh_inst i \<and> uAddress (dat i) = base + 4 * of_nat idx"
      by (rule parse_Ret_fresh [OF pi])
    show ?thesis
      using ys i all True
      by (intro exI [of _ "i # ys"]) (auto simp: nth_Cons split: nat.splits)
  qed
qed

lemma read_instructions_image:
  assumes "\<forall>k < length ds. canonical (ds ! k) \<and> uAddress (ds ! k) = base + 4 * of_nat (idx + k)"
  shows "\<exists>ys. read_instructions raw base idx (idx + length ds)
      (concat (map (\<lambda>d. le_bytes (assemble d)) ds) @ bs) coll = Ret (coll @ ys, True, []) \<and>
    list_all2 (\<lambda>i d. parsed_as (dat i) d) ys ds"
  using assms
proof (induction ds arbitrary: idx coll)
  case Nil
  then show ?case by (subst read_instructions.simps) simp
next
  case (Cons d ds)
  have d: "canonical d" "uAddress d = base + 4 * of_nat idx"
    using Cons.prems [rule_format, of 0] by simp_all
  obtain i where i: "parse (Instruction_new ((raw idx)\<lparr>eFormat := IF_UNKNOWN\<rparr>)) (assemble d) (uAddress d) = Ret i"
    and same: "parsed_as (dat i) d"
    using parse_assembled [OF d(1), of "(raw idx)\<lparr>eFormat := IF_UNKNOWN\<rparr>"] by blast
  let ?bs = "concat (map (\<lambda>d. le_bytes (assemble d)) ds) @ bs"
  have "\<forall>k < length ds. canonical (ds ! k) \<and> uAddress (ds ! k) = base + 4 * of_nat (idx + 1 + k)"
  proof (intro allI impI)
    fix k assume "k < length ds"
    then show "canonical (ds ! k) \<and> uAddress (ds ! k) = base + 4 * of_nat (idx + 1 + k)"
      using Cons.prems [rule_format, of "Suc k"] by simp
  qed
  then obtain ys where ys: "read_instructions raw base (idx + 1) (idx + 1 + length ds) ?bs (coll @ [i]) =
      Ret ((coll @ [i]) @ ys, True, [])"
    and all: "list_all2 (\<lambda>i d. parsed_as (dat i) d) ys ds"
    using Cons.IH by blast
  have "read_instructions raw base idx (idx + length (d # ds)) (le_bytes (assemble d) @ ?bs) coll =
      read_instructions raw base (idx + 1) (idx + length (d # ds)) ?bs (coll @ [i])"
    using i d(2) by (intro read_instructions_step [OF _ read_bytes_le_bytes]) simp_all
  with ys all same show ?case
    by (intro exI [of _ "i # ys"]) simp
qed

text \<open>
  The image of the memory from 0x80000000 on, \<open>bin\<close>, holds the machine words of \<open>ds\<close> at the address \<open>base\<close>,
  which is one of that memory.
\<close>

definition image_holds :: "u8 list \<Rightarrow> u32 \<Rightarrow> inst_data list \<Rightarrow> bool" where
  "image_holds bin base ds \<longleftrightarrow>
    (let off = unat base - 0x80000000; code = concat (map (\<lambda>d. le_bytes (assemble d)) ds) in
     0x80000000 \<le> unat base \<and> take (length code) (drop off bin) = code \<and> length code \<le> length bin - off)"

lemma fseek_symbol:
  assumes "0x80000000 \<le> unat base"
  shows "fseek_set (calcSymFileOffset base) = unat base - 0x80000000"
proof -
  have le: "(0x80000000 :: u32) \<le> base" using assms by (simp add: word_le_nat_alt)
  have off: "unat (base - 0x80000000) = unat base - 0x80000000" using unat_sub [OF le] by simp
  moreover have "unat base < 2 ^ 32" using unsigned_less [of base] by simp
  ultimately have "unat (base - 0x80000000) < 2 ^ 31" by simp
  then have "\<not> sint (base - 0x80000000) < 0" by (simp only: sint_small of_nat_less_0_iff not_False_eq_True)
  then show ?thesis by (simp add: fseek_set_def calcSymFileOffset_def off)
qed

text \<open>A one-instruction function at the start of the image.\<close>

definition demo_syms :: tSymList where
  "demo_syms = [\<lparr>sym_uAddress = 0x80000000, cType = CHR ''T'', strName = ''f''\<rparr>,
     \<lparr>sym_uAddress = 0x80000004, cType = CHR ''T'', strName = ''g''\<rparr>]"

definition demo_bin :: "u8 list" where
  "demo_bin = [0xE8, 0xFF, 0xBD, 0x27]"

lemma demo_lookup:
  "lookup_name demo_syms ''f'' = Some 0"
  "get demo_syms 0 = Ret \<lparr>sym_uAddress = 0x80000000, cType = CHR ''T'', strName = ''f''\<rparr>"
  "get demo_syms (0 + 1) = Ret \<lparr>sym_uAddress = 0x80000004, cType = CHR ''T'', strName = ''g''\<rparr>"
  by (simp_all add: demo_syms_def lookup_name_def get_def getCount_def)

text \<open>
  C18. Reading a function from an image that holds the assembled code of the canonical instructions \<open>ds\<close> at the
  address of its symbol, the next symbol starting right behind it, succeeds, prints nothing and yields exactly these
  instructions at consecutive addresses, whatever the uninitialised storage holds, except that BGEZ loses its target
  and MFC0 and MTC0 lose the register of the coprocessor (\<open>parsed_as\<close>). The symbol is at or above 0x80000000.
\<close>

theorem parseFromFile_image:
  assumes sym: "lookup_name symbols name = Some n" "get symbols n = Ret e" "get symbols (n + 1) = Ret e'"
    and next_sym: "sym_uAddress e' = sym_uAddress e + 4 * of_nat (length ds)" "4 * length ds < 2 ^ 32"
    and code: "image_holds bin (sym_uAddress e) ds"
    and ds: "\<forall>k < length ds. canonical (ds ! k) \<and> uAddress (ds ! k) = sym_uAddress e + 4 * of_nat k"
  shows "\<exists>fn. parseFromFile raw symbols name binf (Some bin) Function_new = Ret (fn, True, []) \<and> fn_strName fn = name \<and>
    list_all2 (\<lambda>i d. parsed_as (dat i) d) (m_collInstList fn) ds"
proof -
  let ?off = "unat (sym_uAddress e) - 0x80000000"
  let ?code = "concat (map (\<lambda>d. le_bytes (assemble d)) ds)"
  have cnt: "unat ((sym_uAddress e' - sym_uAddress e) div 4) = length ds"
  proof -
    have "unat (4 * of_nat (length ds) :: u32) = 4 * length ds"
      using next_sym(2) by (simp add: unat_word_ariths unat_of_nat)
    then show ?thesis by (simp add: next_sym(1) unat_div_distrib)
  qed
  have split: "drop ?off bin = ?code @ drop (length ?code) (drop ?off bin)"
    using code append_take_drop_id [of "length ?code" "drop ?off bin"]
    by (simp add: image_holds_def Let_def)
  have seek: "fseek_set (calcSymFileOffset (sym_uAddress e)) = ?off"
    using code by (intro fseek_symbol) (simp add: image_holds_def Let_def)
  have "n + 1 \<noteq> getCount symbols"
    using syms.found_below [OF sym(3)] by simp
  moreover obtain ys where ys: "read_instructions raw (sym_uAddress e) 0 (0 + length ds)
      (?code @ drop (length ?code) (drop ?off bin)) [] = Ret ([] @ ys, True, [])"
    and all: "list_all2 (\<lambda>i d. parsed_as (dat i) d) ys ds"
    using read_instructions_image [of ds "sym_uAddress e" 0 raw "drop (length ?code) (drop ?off bin)" "[]"] ds
    by auto
  moreover have "read_instructions raw (sym_uAddress e) 0 (length ds) (drop ?off bin) [] = Ret (ys, True, [])"
    using ys by (simp only: split [symmetric] append_Nil add_0)
  ultimately show ?thesis
    using sym cnt by (simp add: parseFromFile_def Function_new_def Let_def seek)
qed

theorem parseFromFile_image_witness:
  "\<exists>fn i. parseFromFile (\<lambda>_. d_addiu_sp) demo_syms ''f'' ''vmlinux'' (Some demo_bin) Function_new = Ret (fn, True, []) \<and>
     m_collInstList fn = [i] \<and> eType (dat i) = IT_ADDIU \<and> uAddress (dat i) = 0x80000000"
proof -
  let ?d = "d_addiu_sp\<lparr>uAddress := 0x80000000\<rparr>"
  have a: "assemble ?d = 0x27BDFFE8"
    by (simp add: assemble_def d_addiu_sp_def i_word_def reg_bits_def imm_bits_def)
  have img: "image_holds demo_bin 0x80000000 [?d]"
    by (simp add: image_holds_def a demo_bin_def le_bytes_def)
  have c: "\<forall>k < length [?d]. canonical ([?d] ! k) \<and>
      uAddress ([?d] ! k) = sym_uAddress \<lparr>sym_uAddress = 0x80000000, cType = CHR ''T'', strName = ''f''\<rparr> + 4 * of_nat k"
    by (simp add: canonical_def d_addiu_sp_def canonical_target_def conditional_branch_def)
  obtain fn where fn: "parseFromFile (\<lambda>_. d_addiu_sp) demo_syms ''f'' ''vmlinux'' (Some demo_bin) Function_new = Ret (fn, True, [])"
    and all: "list_all2 (\<lambda>i d. parsed_as (dat i) d) (m_collInstList fn) [?d]"
    using parseFromFile_image [OF demo_lookup _ _ _ c, of demo_bin "\<lambda>_. d_addiu_sp" "''vmlinux''"] img by auto
  from all obtain i where "m_collInstList fn = [i]" "parsed_as (dat i) ?d"
    by (auto simp: list_all2_Cons2)
  with fn show ?thesis by (auto simp: parsed_as_def as_parsed_def isSame_def d_addiu_sp_def)
qed

text \<open>
  C19. Whatever the image holds, a function that was read without an error consists of as many
  instructions as fit between its symbol and the next one, all well formed and with cleared
  flags, at consecutive addresses that start at the symbol.
\<close>

theorem parseFromFile_fresh:
  assumes "parseFromFile raw symbols name binf binFile Function_new = Ret (fn, True, out)"
  shows "\<exists>n e e'. lookup_name symbols name = Some n \<and> get symbols n = Ret e \<and> get symbols (n + 1) = Ret e' \<and>
    length (m_collInstList fn) = unat ((sym_uAddress e' - sym_uAddress e) div 4) \<and>
    (\<forall>k < length (m_collInstList fn). fresh_inst (m_collInstList fn ! k) \<and>
       uAddress (dat (m_collInstList fn ! k)) = sym_uAddress e + 4 * of_nat k)"
proof -
  obtain n where n: "lookup_name symbols name = Some n"
    using assms by (cases "lookup_name symbols name") (auto simp: parseFromFile_def)
  obtain bin where bin: "binFile = Some bin"
    using assms n by (cases binFile) (auto simp: parseFromFile_def result_simps Let_def)
  obtain e e' where e: "get symbols n = Ret e" "get symbols (n + 1) = Ret e'"
    and rd: "read_instructions raw (sym_uAddress e) 0 (unat ((sym_uAddress e' - sym_uAddress e) div 4))
      (drop (fseek_set (calcSymFileOffset (sym_uAddress e))) bin) [] = Ret (m_collInstList fn, True, out)"
    using assms n bin by (auto simp: parseFromFile_def result_simps Let_def Function_new_def)
  from read_instructions_fresh [OF rd] n e show ?thesis by auto
qed

theorem parseFromFile_fresh_witness:
  "\<exists>fn. parseFromFile (\<lambda>_. d_addiu_sp) demo_syms ''f'' ''vmlinux'' (Some demo_bin) Function_new = Ret (fn, True, []) \<and>
     length (m_collInstList fn) = 1 \<and> fresh_inst (m_collInstList fn ! 0)"
proof -
  have w: "read_bytes 4 0 demo_bin = Some (0x27BDFFE8, [])"
    by code_simp
  obtain fn where fn: "parseFromFile (\<lambda>_. d_addiu_sp) demo_syms ''f'' ''vmlinux'' (Some demo_bin) Function_new = Ret (fn, True, [])"
    using demo_lookup
    by (simp add: parseFromFile_def Let_def calcSymFileOffset_def fseek_set_def read_instructions.simps w
        Function_new_def getCount_def demo_syms_def parse_def decodeData_def s_InstructionInfo_def
        info_matches_def declare_opcode_defs decode_defs field_def decodeRegister_def)
  show ?thesis
    using fn parseFromFile_fresh [OF fn] demo_lookup by auto
qed

end
