(* ===== verification/DelaySlots.thy ===== *)
theory DelaySlots
  imports Functions
begin

text \<open>
  Resolution of branch delay slots: \<open>delaySlotClash\<close> and \<open>resolveDelaySlots\<close> of
  \<^verbatim>\<open>src/tools/mipsdec/optimize.cpp\<close>.

  The C++ loop edits the list while it walks over it and, after every edit, restarts at the second
  element. The model keeps the list as the pair of the part before the iterator and the part from
  it on. \<open>resolve\<close> is the one-pass reading of the loop, and the two agree unless a delay slot
  itself holds an instruction with a delay slot.

  The jump that closes an if branch is a fresh \<open>Instruction\<close> object; \<open>raw\<close> gives the content of
  its storage, by the address of the branch being closed.
\<close>

section \<open>Model\<close>

definition delaySlotClash :: "inst_data \<Rightarrow> inst_data \<Rightarrow> bool result" where
  "delaySlotClash aMaster aSlot =
    (case eFormat aMaster of
       IF_RSRTRD \<Rightarrow> r_or (modifiesRegister aSlot (eRS aMaster))
         (r_or (modifiesRegister aSlot (eRT aMaster)) (modifiesRegister aSlot (eRD aMaster)))
     | IF_RSRT \<Rightarrow> r_or (modifiesRegister aSlot (eRS aMaster)) (modifiesRegister aSlot (eRT aMaster))
     | IF_RSRTSI \<Rightarrow> r_or (modifiesRegister aSlot (eRS aMaster)) (modifiesRegister aSlot (eRT aMaster))
     | IF_RSRTUI \<Rightarrow> r_or (modifiesRegister aSlot (eRS aMaster)) (modifiesRegister aSlot (eRT aMaster))
     | IF_RSSI \<Rightarrow> modifiesRegister aSlot (eRS aMaster)
     | IF_RS \<Rightarrow> modifiesRegister aSlot (eRS aMaster)
     | IF_RTUI \<Rightarrow> modifiesRegister aSlot (eRT aMaster)
     | IF_RTRDSA \<Rightarrow> r_or (modifiesRegister aSlot (eRT aMaster)) (modifiesRegister aSlot (eRD aMaster))
     | IF_RTRDSEL \<Rightarrow> r_or (modifiesRegister aSlot (eRT aMaster)) (modifiesRegister aSlot (eRD aMaster))
     | IF_RSRD \<Rightarrow> r_or (modifiesRegister aSlot (eRS aMaster)) (modifiesRegister aSlot (eRD aMaster))
     | IF_RD \<Rightarrow> modifiesRegister aSlot (eRD aMaster)
     | IF_NOARG \<Rightarrow> Ret False
     | IF_UNKNOWN \<Rightarrow> Fail AssertFailed)"

text \<open>The test at the head of the loop body.\<close>

definition unresolved :: "inst_data \<Rightarrow> bool result" where
  "unresolved d =
    (if bDelaySlotReordered d then Ret False else r_map (\<lambda>s. s \<noteq> IDS_NONE) (getDelaySlotType d))"

text \<open>Close the if branch of anything but a jump with a jump to the original target.\<close>

definition close_branch :: "(u32 \<Rightarrow> inst_data) \<Rightarrow> Instruction \<Rightarrow> Instruction result" where
  "close_branch raw i =
    r_bind (getClassType (dat i)) (\<lambda>c.
      if c \<noteq> IC_JUMP then
        r_bind (encodeAbsoluteJump (uJumpAddress (dat i)) (Instruction_new (raw (uAddress (dat i))))) (\<lambda>j.
          Ret (upd_dat (\<lambda>d. d\<lparr>bIgnoreJump := True\<rparr>) (set_if (collIfBranch i @ [j]) i)))
      else Ret i)"

text \<open>
  The body of the loop at an unresolved instruction \<open>cur\<close> followed by \<open>nxt\<close>: the instructions
  that replace the two.
\<close>

definition resolve_slot :: "(u32 \<Rightarrow> inst_data) \<Rightarrow> Instruction \<Rightarrow> Instruction \<Rightarrow> tInstList result" where
  "resolve_slot raw cur nxt =
    (let cur1 = upd_dat (\<lambda>d. d\<lparr>bDelaySlotReordered := True\<rparr>) cur in
     r_bind (getDelaySlotType (dat cur1)) (\<lambda>s.
       case s of
         IDS_CONDITIONAL \<Rightarrow>
           r_bind (getClassType (dat cur1)) (\<lambda>c. M_ASSERT (c = IC_BRANCH)
             (r_bind (close_branch raw (set_if (collIfBranch cur1 @ [nxt]) cur1)) (\<lambda>cur2. Ret [cur2])))
       | IDS_UNCONDITIONAL \<Rightarrow>
           r_bind (r_and (r_map (\<lambda>c. c = IC_BRANCH) (getClassType (dat cur1)))
                     (delaySlotClash (dat cur1) (dat nxt))) (\<lambda>clash.
             if clash then
               r_bind (close_branch raw
                   (set_else (collElseBranch cur1 @ [nxt]) (set_if (collIfBranch cur1 @ [nxt]) cur1)))
                 (\<lambda>cur2. Ret [cur2])
             else
               (let (slot, master) = swap cur1 nxt False in
                r_bind (close_branch raw master) (\<lambda>master2. Ret [slot, master2])))
       | IDS_NONE \<Rightarrow> Fail AssertFailed))"

definition pending :: "tInstList \<Rightarrow> nat" where
  "pending xs = length (filter (\<lambda>i. unresolved (dat i) = Ret True) xs)"

lemma pending_simps [simp]:
  "pending [] = 0"
  "pending (i # xs) = (if unresolved (dat i) = Ret True then Suc (pending xs) else pending xs)"
  "pending (xs @ ys) = pending xs + pending ys"
  by (simp_all add: pending_def)

lemma unresolved_reordered [simp]: "bDelaySlotReordered d \<Longrightarrow> unresolved d = Ret False"
  by (simp add: unresolved_def)

lemma unresolved_uAddress [simp]: "unresolved (d\<lparr>uAddress := a\<rparr>) = unresolved d"
  by (simp add: unresolved_def getDelaySlotType_def)

lemma close_branch_reordered:
  "close_branch raw i = Ret j \<Longrightarrow> bDelaySlotReordered (dat j) = bDelaySlotReordered (dat i)"
  by (auto simp: close_branch_def result_simps encodeAbsoluteJump_def set_branch_simps upd_dat_simps
      split: if_split_asm)

text \<open>The three outcomes of the loop body.\<close>

lemma resolve_slotE:
  fixes cur nxt :: Instruction
  defines "cur1 \<equiv> upd_dat (\<lambda>d. d\<lparr>bDelaySlotReordered := True\<rparr>) cur"
  assumes "resolve_slot raw cur nxt = Ret new"
  obtains (conditional) cur2 where "slot_of (eType (dat cur)) = IDS_CONDITIONAL"
      "class_of (eType (dat cur)) = IC_BRANCH"
      "close_branch raw (set_if (collIfBranch cur @ [nxt]) cur1) = Ret cur2" "new = [cur2]"
  | (clash) cur2 where "slot_of (eType (dat cur)) = IDS_UNCONDITIONAL"
      "class_of (eType (dat cur)) = IC_BRANCH" "delaySlotClash (dat cur1) (dat nxt) = Ret True"
      "close_branch raw (set_else (collElseBranch cur @ [nxt]) (set_if (collIfBranch cur @ [nxt]) cur1)) = Ret cur2"
      "new = [cur2]"
  | (swap) master where "slot_of (eType (dat cur)) = IDS_UNCONDITIONAL"
      "class_of (eType (dat cur)) = IC_BRANCH \<Longrightarrow> delaySlotClash (dat cur1) (dat nxt) = Ret False"
      "close_branch raw (upd_dat (\<lambda>d. d\<lparr>uAddress := uAddress (dat nxt)\<rparr>) cur1) = Ret master"
      "new = [upd_dat (\<lambda>d. d\<lparr>uAddress := uAddress (dat cur)\<rparr>) nxt, master]"
proof -
  have cur1: "eType (dat cur1) = eType (dat cur)" "uAddress (dat cur1) = uAddress (dat cur)"
    "collIfBranch cur1 = collIfBranch cur" "collElseBranch cur1 = collElseBranch cur"
    by (simp_all add: cur1_def upd_dat_simps)
  from assms(2) obtain s where "getDelaySlotType (dat cur1) = Ret s"
    by (auto simp: resolve_slot_def Let_def result_simps cur1_def)
  moreover from this have "s = slot_of (eType (dat cur))"
    by (auto dest!: getDelaySlotType_Ret simp: cur1_def upd_dat_simps)
  ultimately show thesis
    using assms(2)
    by (cases s) (auto simp: resolve_slot_def Let_def result_simps swap_def r_and_def cur1
        simp flip: cur1_def dest!: getClassType_Ret split: if_split_asm
        intro: conditional clash swap)
qed

lemma resolve_slot_pending:
  assumes "resolve_slot raw cur nxt = Ret new" and "unresolved (dat cur) = Ret True"
  shows "pending new < pending [cur, nxt]"
  using assms(1)
  by (cases rule: resolve_slotE)
    (auto simp: assms(2) set_branch_simps upd_dat_simps dest!: close_branch_reordered)

text \<open>
  The loop: \<open>pre\<close> is the part of the list before \<open>itCurr\<close>. After a change the iterator starts
  over at the beginning and is then advanced by one.
\<close>

function resolve_loop :: "(u32 \<Rightarrow> inst_data) \<Rightarrow> tInstList \<Rightarrow> tInstList \<Rightarrow> tInstList result" where
  "resolve_loop raw pre [] = Ret pre"
| "resolve_loop raw pre (cur # rest) =
    r_bind (unresolved (dat cur)) (\<lambda>b.
      if b then
        (case rest of
           [] \<Rightarrow> Fail AssertFailed
         | nxt # rest' \<Rightarrow>
             r_bind (resolve_slot raw cur nxt) (\<lambda>new.
               let whole = pre @ new @ rest' in resolve_loop raw (take 1 whole) (drop 1 whole)))
      else resolve_loop raw (pre @ [cur]) rest)"
  by pat_completeness auto
termination
proof (relation "measures [\<lambda>(raw, pre, rest). pending (pre @ rest), \<lambda>(raw, pre, rest). length rest]",
    goal_cases)
  case 1
  show ?case by simp
next
  case (2 raw pre cur rest b nxt rest' new whole)
  have "pending new < pending [cur, nxt]"
    using 2 resolve_slot_pending by simp
  moreover have "pending (take 1 whole @ drop 1 whole) = pending pre + pending new + pending rest'"
    using 2 by (simp only: append_take_drop_id pending_simps add.assoc)
  ultimately show ?case
    using 2 by (cases "unresolved (dat nxt) = Ret True") (simp_all del: append_take_drop_id pending_simps(3) add: pending_simps(3) [of pre])
next
  case (3 raw pre cur rest b)
  then show ?case by simp
qed

definition resolveDelaySlots :: "(u32 \<Rightarrow> inst_data) \<Rightarrow> tInstList \<Rightarrow> tInstList result" where
  "resolveDelaySlots raw collInstList = resolve_loop raw [] collInstList"

section \<open>One pass suffices\<close>

fun resolve :: "(u32 \<Rightarrow> inst_data) \<Rightarrow> tInstList \<Rightarrow> tInstList result" where
  "resolve raw [] = Ret []"
| "resolve raw [cur] =
    r_bind (unresolved (dat cur)) (\<lambda>b. if b then Fail AssertFailed else Ret [cur])"
| "resolve raw (cur # nxt # rest) =
    r_bind (unresolved (dat cur)) (\<lambda>b.
      if b then r_bind (resolve_slot raw cur nxt) (\<lambda>new. r_map (\<lambda>ys. new @ ys) (resolve raw rest))
      else r_map (Cons cur) (resolve raw (nxt # rest)))"

fun no_slot_in_slot :: "tInstList \<Rightarrow> bool" where
  "no_slot_in_slot (a # b # xs) \<longleftrightarrow>
    \<not> (unresolved (dat a) = Ret True \<and> unresolved (dat b) \<noteq> Ret False) \<and> no_slot_in_slot (b # xs)"
| "no_slot_in_slot _ \<longleftrightarrow> True"

lemma resolve_Cons_resolved:
  "unresolved (dat i) = Ret False \<Longrightarrow> resolve raw (i # xs) = r_map (Cons i) (resolve raw xs)"
  by (cases xs) simp_all

lemma r_map_r_map [simp]: "r_map f (r_map g r) = r_map (\<lambda>x. f (g x)) r"
  by (cases r) simp_all

lemma r_map_id [simp]: "r_map (\<lambda>x. x) r = r"
  by (cases r) simp_all

lemma resolve_append_resolved:
  "\<forall>i \<in> set xs. unresolved (dat i) = Ret False \<Longrightarrow>
    resolve raw (xs @ ys) = r_map (\<lambda>zs. xs @ zs) (resolve raw ys)"
  by (cases "resolve raw ys"; induction xs) (simp_all add: resolve_Cons_resolved)

lemma no_slot_in_slot_Cons:
  "unresolved (dat i) = Ret False \<Longrightarrow> no_slot_in_slot (i # xs) = no_slot_in_slot xs"
  by (cases xs) simp_all

lemma no_slot_in_slot_append_resolved:
  "\<forall>i \<in> set xs. unresolved (dat i) = Ret False \<Longrightarrow> no_slot_in_slot (xs @ ys) = no_slot_in_slot ys"
  by (induction xs) (simp_all add: no_slot_in_slot_Cons)

lemma no_slot_in_slot_tl: "no_slot_in_slot (i # xs) \<Longrightarrow> no_slot_in_slot xs"
  by (cases xs) simp_all

lemma resolve_slot_resolved:
  assumes "resolve_slot raw cur nxt = Ret new" and "unresolved (dat nxt) = Ret False"
  shows "(\<forall>i \<in> set new. unresolved (dat i) = Ret False) \<and> new \<noteq> []"
  using assms(1)
  by (cases rule: resolve_slotE)
    (auto simp: assms(2) set_branch_simps upd_dat_simps dest!: close_branch_reordered)

text \<open>Restarting over a prefix without unresolved instructions comes back to where it was.\<close>

lemma resolve_restart:
  assumes "\<forall>i \<in> set xs. unresolved (dat i) = Ret False" and "xs \<noteq> []"
    and "no_slot_in_slot (drop 1 (xs @ ys)) \<Longrightarrow> \<forall>i \<in> set (take 1 (xs @ ys)). unresolved (dat i) = Ret False \<Longrightarrow>
      resolve_loop raw (take 1 (xs @ ys)) (drop 1 (xs @ ys)) =
        r_map (\<lambda>zs. take 1 (xs @ ys) @ zs) (resolve raw (drop 1 (xs @ ys)))"
    and "no_slot_in_slot ys"
  shows "resolve_loop raw (take 1 (xs @ ys)) (drop 1 (xs @ ys)) = r_map (\<lambda>zs. xs @ zs) (resolve raw ys)"
proof -
  from assms(2) obtain x xs' where xs: "xs = x # xs'"
    by (cases xs) auto
  with assms show ?thesis
    by (simp add: no_slot_in_slot_append_resolved resolve_append_resolved)
qed

lemma resolve_loop_eq:
  "no_slot_in_slot rest \<Longrightarrow> \<forall>i \<in> set pre. unresolved (dat i) = Ret False \<Longrightarrow>
    resolve_loop raw pre rest = r_map (\<lambda>ys. pre @ ys) (resolve raw rest)"
proof (induction raw pre rest rule: resolve_loop.induct)
  case (1 raw pre)
  show ?case by simp
next
  case (2 raw pre cur rest)
  note nis = no_slot_in_slot_tl [OF "2.prems"(1)]
  show ?case
  proof (cases "unresolved (dat cur)")
    case (Fail e)
    then show ?thesis by (cases rest) simp_all
  next
    case (Ret b)
    show ?thesis
    proof (cases b)
      case False
      with Ret 2 nis show ?thesis by (simp add: resolve_Cons_resolved)
    next
      case True
      show ?thesis
      proof (cases rest)
        case Nil
        with Ret True show ?thesis by simp
      next
        case (Cons nxt rest')
        have nxt: "unresolved (dat nxt) = Ret False"
          using "2.prems"(1) Ret True Cons by auto
        show ?thesis
        proof (cases "resolve_slot raw cur nxt")
          case (Fail e)
          with Ret True Cons show ?thesis by simp
        next
          case new: (Ret new)
          have "resolve_loop raw (take 1 ((pre @ new) @ rest')) (drop 1 ((pre @ new) @ rest')) =
              r_map (\<lambda>zs. (pre @ new) @ zs) (resolve raw rest')"
            using resolve_slot_resolved [OF new nxt] "2.prems"(2) nis Cons
              "2.IH"(1) [OF Ret True Cons new refl]
            by (intro resolve_restart) (auto dest: no_slot_in_slot_tl)
          with Ret True Cons new show ?thesis by (simp add: Let_def)
        qed
      qed
    qed
  qed
qed

lemma resolveDelaySlots_eq: "no_slot_in_slot xs \<Longrightarrow> resolveDelaySlots raw xs = resolve raw xs"
  by (simp add: resolveDelaySlots_def resolve_loop_eq)

text \<open>
  C20. The restarting loop of \<open>resolveDelaySlots\<close> computes what one walk over the list computes, the
  failures included, whenever no delay slot holds an instruction that has a delay slot itself, or one
  whose table lookup fails.
\<close>

theorem resolveDelaySlots_one_pass:
  assumes "no_slot_in_slot xs"
  shows "resolveDelaySlots raw xs = resolve raw xs"
  using assms by (rule resolveDelaySlots_eq)

text \<open>A conditional branch followed by an instruction that sets its condition register.\<close>

definition d_nop :: inst_data where
  "d_nop = d_addiu_sp\<lparr>eType := IT_NOP, eFormat := IF_NOARG, eRS := R_UNKNOWN, eRT := R_UNKNOWN, iSI := 0\<rparr>"

definition d_beq :: "u32 \<Rightarrow> u32 \<Rightarrow> inst_data" where
  "d_beq a t = d_addiu_sp\<lparr>uAddress := a, eType := IT_BEQ, eRS := R_A0, eRT := R_ZERO, uJumpAddress := t\<rparr>"

abbreviation leaf :: "inst_data \<Rightarrow> Instruction" where
  "leaf d \<equiv> Instruction d [] [] []"

definition demo_branch :: tInstList where
  "demo_branch = [leaf (d_beq 0x80001000 0x80001008), leaf (d_nop\<lparr>uAddress := 0x80001004\<rparr>),
     leaf (d_nop\<lparr>uAddress := 0x80001008\<rparr>)]"

theorem resolveDelaySlots_one_pass_witness:
  "no_slot_in_slot demo_branch \<and>
    resolveDelaySlots (\<lambda>_. d_nop) demo_branch = resolve (\<lambda>_. d_nop) demo_branch"
proof -
  have "no_slot_in_slot demo_branch"
    by (simp add: demo_branch_def unresolved_def getDelaySlotType_def d_nop_def d_addiu_sp_def
        declare_opcode_defs)
  with resolveDelaySlots_one_pass show ?thesis by blast
qed

section \<open>When the pass returns\<close>

definition slotted :: "Instruction \<Rightarrow> bool" where
  "slotted i \<longleftrightarrow> class_of (eType (dat i)) \<noteq> IC_OTHER"

lemma class_has_slot: "class_of ty \<noteq> IC_OTHER \<longleftrightarrow> slot_of ty \<noteq> IDS_NONE"
  by (simp add: slot_of_def)

lemma conditional_slot: "slot_of ty = IDS_CONDITIONAL \<Longrightarrow> class_of ty = IC_BRANCH"
  by (auto simp: slot_of_def class_of_def conditional_branch_def split: if_splits)

lemma unresolved_fresh:
  "fresh_inst i \<Longrightarrow> has_info (eType (dat i)) \<Longrightarrow> unresolved (dat i) = Ret (slotted i)"
  by (simp add: unresolved_def fresh_inst_def getDelaySlotType_eq slotted_def class_has_slot)

lemma branch_format:
  "wf_dat d \<Longrightarrow> class_of (eType d) = IC_BRANCH \<Longrightarrow> eFormat d = IF_RSRTSI \<or> eFormat d = IF_RSSI"
  by (auto simp: wf_dat_def class_of_def conditional_branch_def split: if_split_asm)

text \<open>The registers a branch compares.\<close>

definition branch_regs :: "inst_data \<Rightarrow> tRegister set" where
  "branch_regs d = (if eFormat d = IF_RSRTSI then {eRS d, eRT d} else {eRS d})"

lemma delaySlotClash_eq:
  assumes "wf_dat m" and "class_of (eType m) = IC_BRANCH" and "wf_dat s" and "has_info (eType s)"
  shows "delaySlotClash m s = Ret (\<exists>r \<in> branch_regs m. result_of s = Some r)"
  using branch_format [OF assms(1,2)] assms(1)
  by (auto simp: delaySlotClash_def branch_regs_def wf_dat_def modifiesRegister_eq [OF assms(3,4)])

lemma close_branch_total:
  assumes "has_info (eType (dat i))" and "class_of (eType (dat i)) = IC_BRANCH \<Longrightarrow> uJumpAddress (dat i) \<noteq> 0"
    and "class_of (eType (dat i)) \<noteq> IC_OTHER"
  shows "\<exists>j. close_branch raw i = Ret j"
  using assms by (cases "class_of (eType (dat i))")
    (auto simp: close_branch_def getClassType_eq encodeAbsoluteJump_def)

lemma close_branch_nonzero:
  "close_branch raw i = Ret j \<Longrightarrow> class_of (eType (dat i)) = IC_BRANCH \<Longrightarrow> uJumpAddress (dat i) \<noteq> 0"
  by (auto simp: close_branch_def result_simps encodeAbsoluteJump_def dest!: getClassType_Ret
      split: if_split_asm)

lemma resolve_slot_nonzero:
  assumes "resolve_slot raw cur nxt = Ret new" and "class_of (eType (dat cur)) = IC_BRANCH"
  shows "uJumpAddress (dat cur) \<noteq> 0"
  using assms(1)
  by (cases rule: resolve_slotE)
    (use assms(2) in \<open>auto dest!: close_branch_nonzero simp: upd_dat_simps set_branch_simps\<close>)

lemma resolve_slot_total:
  assumes "wf_dat (dat cur)" "has_info (eType (dat cur))" "slotted cur"
    and "wf_dat (dat nxt)" "has_info (eType (dat nxt))"
    and "class_of (eType (dat cur)) = IC_BRANCH \<Longrightarrow> uJumpAddress (dat cur) \<noteq> 0"
  shows "\<exists>new. resolve_slot raw cur nxt = Ret new"
proof -
  let ?cur1 = "upd_dat (\<lambda>d. d\<lparr>bDelaySlotReordered := True\<rparr>) cur"
  have wf1: "wf_dat (dat ?cur1)"
    using assms(1) by (cases "eFormat (dat cur)") (simp_all add: wf_dat_def upd_dat_simps)
  have close: "\<exists>j. close_branch raw i = Ret j"
    if "eType (dat i) = eType (dat cur)" "uJumpAddress (dat i) = uJumpAddress (dat cur)" for i
    using that assms close_branch_total [of i raw] by (auto simp: slotted_def)
  obtain a b c where abc:
    "close_branch raw (set_if (collIfBranch ?cur1 @ [nxt]) ?cur1) = Ret a"
    "close_branch raw (set_else (collElseBranch ?cur1 @ [nxt]) (set_if (collIfBranch ?cur1 @ [nxt]) ?cur1)) = Ret b"
    "close_branch raw (upd_dat (\<lambda>d. d\<lparr>uAddress := uAddress (dat nxt)\<rparr>) ?cur1) = Ret c"
    using close [of "set_if (collIfBranch ?cur1 @ [nxt]) ?cur1"]
      close [of "set_else (collElseBranch ?cur1 @ [nxt]) (set_if (collIfBranch ?cur1 @ [nxt]) ?cur1)"]
      close [of "upd_dat (\<lambda>d. d\<lparr>uAddress := uAddress (dat nxt)\<rparr>) ?cur1"]
    by (auto simp: upd_dat_simps set_branch_simps)
  have "slot_of (eType (dat cur)) \<noteq> IDS_NONE"
    using assms(3) by (simp add: slotted_def flip: class_has_slot)
  then show ?thesis
    using assms(2) abc conditional_slot [of "eType (dat cur)"]
      delaySlotClash_eq [OF wf1 _ assms(4,5)]
    by (cases "slot_of (eType (dat cur))"; cases "class_of (eType (dat cur)) = IC_BRANCH")
      (auto simp: resolve_slot_def Let_def getDelaySlotType_eq getClassType_eq swap_def
        upd_dat_simps split: if_split)
qed

lemma resolve_Ret_iff:
  assumes "\<forall>i \<in> set xs. fresh_inst i \<and> has_info (eType (dat i))" and "no_slot_in_slot xs"
  shows "(\<exists>ys. resolve raw xs = Ret ys) \<longleftrightarrow>
    (xs \<noteq> [] \<longrightarrow> \<not> slotted (last xs)) \<and>
    (\<forall>i \<in> set xs. class_of (eType (dat i)) = IC_BRANCH \<longrightarrow> uJumpAddress (dat i) \<noteq> 0)"
  using assms
proof (induction raw xs rule: resolve.induct)
  case (1 raw)
  show ?case by simp
next
  case (2 raw cur)
  then show ?case by (auto simp: unresolved_fresh slotted_def)
next
  case (3 raw cur nxt rest)
  note nis = no_slot_in_slot_tl [OF "3.prems"(2)] and un = unresolved_fresh [of cur] unresolved_fresh [of nxt]
  show ?case
  proof (cases "slotted cur")
    case False
    with 3 nis un show ?thesis by (auto simp: slotted_def result_simps)
  next
    case True
    have nxt: "\<not> slotted nxt"
      using "3.prems" un True by auto
    have "(\<exists>new. resolve_slot raw cur nxt = Ret new) \<longleftrightarrow>
        (class_of (eType (dat cur)) = IC_BRANCH \<longrightarrow> uJumpAddress (dat cur) \<noteq> 0)"
      using "3.prems"(1) True resolve_slot_total [of cur nxt raw] resolve_slot_nonzero [of raw cur nxt]
      by (auto simp: fresh_inst_def)
    with 3 True nxt un no_slot_in_slot_tl [OF nis] show ?thesis
      by (cases "resolve_slot raw cur nxt") (auto simp: slotted_def result_simps)
  qed
qed

text \<open>A slot never holds an instruction with a slot. The architecture leaves the effect of such code open.\<close>

fun slots_plain :: "tInstList \<Rightarrow> bool" where
  "slots_plain (a # b # xs) \<longleftrightarrow> \<not> (slotted a \<and> slotted b) \<and> slots_plain (b # xs)"
| "slots_plain _ \<longleftrightarrow> True"

lemma unresolved_HB: "fresh_inst i \<Longrightarrow> \<not> has_info (eType (dat i)) \<Longrightarrow> unresolved (dat i) = Fail AssertFailed"
  by (simp add: unresolved_def fresh_inst_def has_info_def queries_HB)

lemma slotted_HB: "\<not> has_info (eType (dat i)) \<Longrightarrow> slotted i"
  by (auto simp: has_info_def slotted_def class_of_def conditional_branch_def)

lemma slots_plain_no_slot:
  "\<forall>i \<in> set xs. fresh_inst i \<Longrightarrow> slots_plain xs \<Longrightarrow> no_slot_in_slot xs"
proof (induction xs rule: slots_plain.induct)
  case (1 a b xs)
  have "unresolved (dat b) = Ret False" if "unresolved (dat a) = Ret True"
  proof -
    have a: "has_info (eType (dat a))" using that "1.prems"(1) unresolved_HB [of a] by auto
    with that "1.prems" unresolved_fresh [of a] have "\<not> slotted b" by simp
    with "1.prems"(1) slotted_HB [of b] unresolved_fresh [of b] show ?thesis by auto
  qed
  with 1 show ?case by auto
qed simp_all

lemma resolve_HB:
  "\<forall>i \<in> set xs. fresh_inst i \<Longrightarrow> slots_plain xs \<Longrightarrow> \<exists>i \<in> set xs. \<not> has_info (eType (dat i)) \<Longrightarrow>
    \<exists>e. resolve raw xs = Fail e"
proof (induction raw xs rule: resolve.induct)
  case (2 raw cur)
  then show ?case by (simp add: unresolved_HB)
next
  case (3 raw cur nxt rest)
  have tl: "slots_plain rest" using "3.prems"(2) by (cases rest) simp_all
  show ?case
  proof (cases "has_info (eType (dat cur))")
    case False
    with "3.prems"(1) show ?thesis by (simp add: unresolved_HB)
  next
    case True
    with "3.prems"(1) have un: "unresolved (dat cur) = Ret (slotted cur)" by (intro unresolved_fresh) simp_all
    show ?thesis
    proof (cases "slotted cur")
      case slot: True
      with "3.prems"(2) slotted_HB [of nxt] have "has_info (eType (dat nxt))" by auto
      with True "3.prems"(3) have "\<exists>i \<in> set rest. \<not> has_info (eType (dat i))" by auto
      with un slot "3.prems"(1) tl "3.IH"(1) [of True] show ?thesis
        by (cases "resolve_slot raw cur nxt") (fastforce simp: r_map_def)+
    next
      case False
      with un True "3.prems" "3.IH"(2) [of False] have "\<exists>e. resolve raw (nxt # rest) = Fail e" by auto
      with un False show ?thesis by auto
    qed
  qed
qed simp

text \<open>
  C21. On a freshly parsed function no delay slot of which holds a branch or jump, \<open>resolveDelaySlots\<close> returns
  exactly if the function has no JR.HB or JALR.HB, its last instruction has no delay slot, and no branch has the
  target 0. Since \<open>parse\<close> leaves the target of BGEZ at 0, the pass fails its assertion on a function with a BGEZ.
\<close>

theorem resolveDelaySlots_returns_iff:
  assumes "\<forall>i \<in> set xs. fresh_inst i" and "slots_plain xs"
  shows "(\<exists>ys. resolveDelaySlots raw xs = Ret ys) \<longleftrightarrow>
    (\<forall>i \<in> set xs. eType (dat i) \<notin> {IT_JR_HB, IT_JALR_HB}) \<and>
    (xs \<noteq> [] \<longrightarrow> \<not> slotted (last xs)) \<and>
    (\<forall>i \<in> set xs. class_of (eType (dat i)) = IC_BRANCH \<longrightarrow> uJumpAddress (dat i) \<noteq> 0)"
proof -
  have nis: "no_slot_in_slot xs" using assms by (rule slots_plain_no_slot)
  have HB: "(\<forall>i \<in> set xs. eType (dat i) \<notin> {IT_JR_HB, IT_JALR_HB}) \<longleftrightarrow> (\<forall>i \<in> set xs. has_info (eType (dat i)))"
    by (auto simp: has_info_def)
  show ?thesis
  proof (cases "\<forall>i \<in> set xs. has_info (eType (dat i))")
    case True
    with assms(1) have "\<forall>i \<in> set xs. fresh_inst i \<and> has_info (eType (dat i))" by simp
    from resolve_Ret_iff [OF this nis, of raw] True show ?thesis
      unfolding HB resolveDelaySlots_eq [OF nis] by simp
  next
    case False
    with resolve_HB [OF assms, of raw] show ?thesis
      unfolding HB resolveDelaySlots_eq [OF nis] by auto
  qed
qed

lemmas demo_defs = d_nop_def d_addiu_sp_def d_beq_def

lemma demo_branch_fresh: "\<forall>i \<in> set demo_branch. fresh_inst i \<and> has_info (eType (dat i))"
  by (simp add: demo_branch_def demo_defs fresh_inst_def wf_dat_def has_info_def)

lemma demo_branch_slots: "slots_plain demo_branch"
  by (simp add: demo_branch_def demo_defs slotted_def class_of_def conditional_branch_def)

theorem resolveDelaySlots_returns_iff_witness:
  "(\<exists>ys. resolveDelaySlots (\<lambda>_. d_nop) demo_branch = Ret ys) \<and>
   \<not> (\<exists>ys. resolveDelaySlots (\<lambda>_. d_nop) (map (upd_dat (\<lambda>d. d\<lparr>uJumpAddress := 0\<rparr>)) demo_branch) = Ret ys)"
proof
  have "\<forall>i \<in> set demo_branch. fresh_inst i" using demo_branch_fresh by blast
  from resolveDelaySlots_returns_iff [OF this demo_branch_slots, of "\<lambda>_. d_nop"]
  show "\<exists>ys. resolveDelaySlots (\<lambda>_. d_nop) demo_branch = Ret ys"
    by (simp add: demo_branch_def demo_defs slotted_def class_of_def conditional_branch_def)
  let ?xs = "map (upd_dat (\<lambda>d. d\<lparr>uJumpAddress := 0\<rparr>)) demo_branch"
  have "\<forall>i \<in> set ?xs. fresh_inst i" and "slots_plain ?xs"
    by (simp_all add: demo_branch_def demo_defs fresh_inst_def wf_dat_def upd_dat_simps slotted_def class_of_def
        conditional_branch_def)
  from resolveDelaySlots_returns_iff [OF this, of "\<lambda>_. d_nop"]
  show "\<not> (\<exists>ys. resolveDelaySlots (\<lambda>_. d_nop) ?xs = Ret ys)"
    by (simp add: demo_branch_def demo_defs slotted_def class_of_def conditional_branch_def upd_dat_simps)
qed

end
