(* ===== verification/Passes.thy ===== *)
theory Passes
  imports DelaySlots
begin

text \<open>
  The passes of \<^verbatim>\<open>src/tools/mipsdec/optimize.cpp\<close> that change the tree at one place: detection of
  else branches, of branches with only an else part, of jumps at the end of a branch, of prolog and
  epilog, of NOPs, of if branches that end the block and of identical branch ends.

  Each pass visits the tree in the order position, if branch, else branch, next position, changes the
  first place where it can and reports whether it changed anything: \<open>Some\<close> new tree or \<open>None\<close>. The
  functions \<open>\<dots>_here\<close> are the loop bodies, applied to the list from the current iterator on;
  \<^const>\<open>rewrite_first\<close> is the traversal they share. \<open>detectEndOfBranchJumps\<close> has a traversal of its
  own.
\<close>

section \<open>Model\<close>

text \<open>
  The inner loop of \<open>detectElseBranch\<close>: the number of instructions before the jump target, if the
  target is reached without passing another jump target.
\<close>

fun else_block :: "u32 \<Rightarrow> tInstList \<Rightarrow> nat option" where
  "else_block uJumpAddr [] = None"
| "else_block uJumpAddr (i # rest) =
    (if uAddress (dat i) = uJumpAddr then Some 0
     else if bIsJumpTarget (dat i) then None
     else map_option Suc (else_block uJumpAddr rest))"

fun detectElseBranch_here :: "tInstList \<Rightarrow> tInstList option result" where
  "detectElseBranch_here [] = Ret None"
| "detectElseBranch_here (Instruction d ifs els ins # rest) =
    (if length ifs > 0 \<and> length els = 0 \<and> eType (dat (last ifs)) = IT_J then
       (case else_block (uJumpAddress (dat (last ifs))) rest of
          Some n \<Rightarrow> Ret (Some (Instruction d (butlast ifs) (take n rest @ els) ins # drop n rest))
        | None \<Rightarrow> Ret None)
     else Ret None)"

definition detectElseBranch :: "tInstList \<Rightarrow> tInstList option result" where
  "detectElseBranch = rewrite_first detectElseBranch_here"

definition invertCondition :: "inst_data \<Rightarrow> inst_data result" where
  "invertCondition d =
    r_bind (getClassType d) (\<lambda>c. M_ASSERT (c = IC_BRANCH)
      (case eType d of
         IT_BEQ \<Rightarrow> Ret (d\<lparr>eType := IT_BNE\<rparr>)
       | IT_BEQL \<Rightarrow> Ret (d\<lparr>eType := IT_BNEL\<rparr>)
       | IT_BNE \<Rightarrow> Ret (d\<lparr>eType := IT_BEQ\<rparr>)
       | IT_BNEL \<Rightarrow> Ret (d\<lparr>eType := IT_BEQL\<rparr>)
       | IT_BGTZ \<Rightarrow> Ret (d\<lparr>eType := IT_BLEZ\<rparr>)
       | IT_BLEZ \<Rightarrow> Ret (d\<lparr>eType := IT_BGTZ\<rparr>)
       | IT_BLTZ \<Rightarrow> Ret (d\<lparr>eType := IT_BGEZ\<rparr>)
       | _ \<Rightarrow> Fail AssertFailed))"

fun detectOnlyElseBranch_here :: "tInstList \<Rightarrow> tInstList option result" where
  "detectOnlyElseBranch_here [] = Ret None"
| "detectOnlyElseBranch_here (Instruction d ifs els ins # rest) =
    (if length ifs = 0 \<and> length els > 0 then
       r_bind (invertCondition d) (\<lambda>d'. Ret (Some (Instruction d' els [] ins # rest)))
     else Ret None)"

definition detectOnlyElseBranch :: "tInstList \<Rightarrow> tInstList option result" where
  "detectOnlyElseBranch = rewrite_first detectOnlyElseBranch_here"

text \<open>
  \<open>removeClosingJump\<close> (which nothing calls) looks at the last instruction of the list only, and at
  the last instructions of its branches.
\<close>

function removeClosingJump :: "tInstList \<Rightarrow> u32 \<Rightarrow> tInstList option result" where
  "removeClosingJump xs uJumpTarget =
    M_ASSERT (uJumpTarget \<noteq> 0) (M_ASSERT (uJumpTarget \<noteq> 0xFFFFFFFF)
      (if xs = [] then Ret None
       else (case last xs of Instruction d ifs els ins \<Rightarrow>
         (if uJumpAddress d = uJumpTarget \<and> \<not> bIgnoreJump d then Ret (Some (butlast xs))
          else r_bind (removeClosingJump ifs uJumpTarget) (\<lambda>r. case r of
            Some ys \<Rightarrow> Ret (Some (butlast xs @ [Instruction d ys els ins]))
          | None \<Rightarrow> r_bind (removeClosingJump els uJumpTarget) (\<lambda>r. case r of
              Some ys \<Rightarrow> Ret (Some (butlast xs @ [Instruction d ifs ys ins]))
            | None \<Rightarrow> Ret None))))))"
  by pat_completeness auto

lemma tree_size_last:
  "xs \<noteq> [] \<Longrightarrow> last xs = Instruction d ifs els ins \<Longrightarrow> tree_size ifs < tree_size xs \<and> tree_size els < tree_size xs"
proof (induction xs rule: inst_list_induct)
  case (Cons d' ifs' els' ins' rest)
  then show ?case by (cases rest) auto
qed simp

termination removeClosingJump
  by (relation "measure (\<lambda>(xs, t). tree_size xs)") (auto dest: tree_size_last [OF _ sym] tree_size_last)

text \<open>
  \<open>removeClosingJump2\<close> and \<open>detectEndOfBranchJumps\<close> start by advancing \<open>begin()\<close> of a list that may be
  empty. The C++ standard leaves that undefined; \<open>std::list\<close> is a circular list in the implementations
  the tool is built with, where the result is \<open>end()\<close> again and the loop is not entered.
\<close>

fun removeClosingJump2_loop :: "tInstList \<Rightarrow> u32 \<Rightarrow> tInstList option" where
  "removeClosingJump2_loop [] uNextAddress = None"
| "removeClosingJump2_loop [cur] uNextAddress = None"
| "removeClosingJump2_loop (Instruction d ifs els ins # nxt # rest) uNextAddress =
    (if length ifs > 0 \<and> length els = 0 \<and> uJumpAddress (dat (last ifs)) = uNextAddress \<and>
        \<not> bIgnoreJump (dat (last ifs))
     then Some [Instruction d (butlast ifs) ((nxt # rest) @ els) ins]
     else map_option (Cons (Instruction d ifs els ins)) (removeClosingJump2_loop (nxt # rest) uNextAddress))"

definition removeClosingJump2 :: "tInstList \<Rightarrow> u32 \<Rightarrow> tInstList option result" where
  "removeClosingJump2 xs uNextAddress =
    M_ASSERT (uNextAddress \<noteq> 0) (M_ASSERT (uNextAddress \<noteq> 0xFFFFFFFF)
      (Ret (removeClosingJump2_loop xs uNextAddress)))"

fun detectEndOfBranchJumps :: "tInstList \<Rightarrow> tInstList option result" where
  "detectEndOfBranchJumps [] = Ret None"
| "detectEndOfBranchJumps [cur] = Ret None"
| "detectEndOfBranchJumps (Instruction d ifs els ins # nxt # rest) =
    (let next_pos = r_map (map_option (Cons (Instruction d ifs els ins))) (detectEndOfBranchJumps (nxt # rest)) in
     if (length ifs > 0 \<or> length els > 0) \<and> bIsJumpTarget (dat nxt) then
       r_bind (removeClosingJump2 ifs (uAddress (dat nxt))) (\<lambda>r. case r of
         Some ys \<Rightarrow> Ret (Some (Instruction d ys els ins # nxt # rest))
       | None \<Rightarrow> r_bind (removeClosingJump2 els (uAddress (dat nxt))) (\<lambda>r. case r of
           Some ys \<Rightarrow> Ret (Some (Instruction d ifs ys ins # nxt # rest))
         | None \<Rightarrow> r_bind (detectEndOfBranchJumps ifs) (\<lambda>r. case r of
             Some ys \<Rightarrow> Ret (Some (Instruction d ys els ins # nxt # rest))
           | None \<Rightarrow> r_bind (detectEndOfBranchJumps els) (\<lambda>r. case r of
               Some ys \<Rightarrow> Ret (Some (Instruction d ifs ys ins # nxt # rest))
             | None \<Rightarrow> next_pos))))
     else next_pos)"

text \<open>Erase an instruction, or turn it into a NOP if it carries a label.\<close>

fun strip_here :: "tInstList \<Rightarrow> tInstList option result" where
  "strip_here [] = Fail Undefined"
| "strip_here (i # rest) =
    (if bIsJumpTarget (dat i) then r_map (\<lambda>j. Some (j # rest)) (makeNOP i) else Ret (Some rest))"

definition abs_SI :: "inst_data \<Rightarrow> u32" where
  "abs_SI d = word_of_int \<bar>sint (iSI d)\<bar>"

fun stripEpilogProlog_here :: "u32 \<Rightarrow> tInstList \<Rightarrow> tInstList option result" where
  "stripEpilogProlog_here uStackOffs [] = Ret None"
| "stripEpilogProlog_here uStackOffs (i # rest) =
    r_bind (modifiesRegister (dat i) R_SP) (\<lambda>b.
      if b then
        M_ASSERT (eType (dat i) = IT_ADDIU) (M_ASSERT (abs_SI (dat i) = uStackOffs) (strip_here (i # rest)))
      else if (eType (dat i) = IT_LW \<or> eType (dat i) = IT_SW) \<and> eRS (dat i) = R_SP \<and>
          uStackOffs - abs_SI (dat i) \<in> {4, 8, 12, 16, 20, 24}
      then strip_here (i # rest)
      else Ret None)"

definition stripEpilogProlog :: "tInstList \<Rightarrow> u32 \<Rightarrow> tInstList option result" where
  "stripEpilogProlog xs uStackOffs = rewrite_first (stripEpilogProlog_here uStackOffs) xs"

definition detectEpilogProlog :: "Function \<Rightarrow> tInstList option result" where
  "detectEpilogProlog aFunction =
    (if \<not> bHasStackOffset aFunction then Ret None
     else stripEpilogProlog (m_collInstList aFunction) (uStackOffset aFunction))"

fun stripNops_here :: "tInstList \<Rightarrow> tInstList option result" where
  "stripNops_here [] = Ret None"
| "stripNops_here (i # rest) =
    (if isNOP (dat i) \<and> \<not> bIsJumpTarget (dat i) then Ret (Some rest) else Ret None)"

definition stripNops :: "tInstList \<Rightarrow> tInstList option result" where
  "stripNops = rewrite_first stripNops_here"

text \<open>An unconditional transfer that closes a block: J, or JR through the return address.\<close>

definition closes_block :: "inst_data \<Rightarrow> bool" where
  "closes_block d \<longleftrightarrow> eType d = IT_J \<or> (eType d = IT_JR \<and> eRS d = R_RA)"

fun detectEndingIfBranch_here :: "tInstList \<Rightarrow> tInstList option result" where
  "detectEndingIfBranch_here [] = Ret None"
| "detectEndingIfBranch_here (Instruction d ifs els ins # rest) =
    (if length ifs > 0 \<and> length els > 0 \<and> closes_block (dat (last ifs))
     then Ret (Some (Instruction d ifs [] ins # els @ rest))
     else Ret None)"

definition detectEndingIfBranch :: "tInstList \<Rightarrow> tInstList option result" where
  "detectEndingIfBranch = rewrite_first detectEndingIfBranch_here"

fun detectIdenticalIfElseBranch_here :: "tInstList \<Rightarrow> tInstList option result" where
  "detectIdenticalIfElseBranch_here [] = Ret None"
| "detectIdenticalIfElseBranch_here (Instruction d ifs els ins # rest) =
    (if length ifs > 0 \<and> length els > 0 \<and> length (collIfBranch (last ifs)) = 0 \<and>
        length (collIfBranch (last els)) = 0 \<and> isSame (dat (last ifs)) (dat (last els))
     then M_ASSERT (length (collElseBranch (last ifs)) = 0) (M_ASSERT (length (collElseBranch (last els)) = 0)
       (Ret (Some (Instruction d (butlast ifs) (butlast els) ins # last ifs # rest))))
     else Ret None)"

definition detectIdenticalIfElseBranch :: "tInstList \<Rightarrow> tInstList option result" where
  "detectIdenticalIfElseBranch = rewrite_first detectIdenticalIfElseBranch_here"

section \<open>Where \<open>detectEndOfBranchJumps\<close> makes its change\<close>

lemma detectEndOfBranchJumps_ctx:
  assumes "detectEndOfBranchJumps xs = Ret (Some ys)"
    and "\<And>d ifs els ins nxt rest us. removeClosingJump2 ifs (uAddress (dat nxt)) = Ret (Some us) \<Longrightarrow>
       R (Instruction d ifs els ins # nxt # rest) (Instruction d us els ins # nxt # rest)"
    and "\<And>d ifs els ins nxt rest us. removeClosingJump2 els (uAddress (dat nxt)) = Ret (Some us) \<Longrightarrow>
       R (Instruction d ifs els ins # nxt # rest) (Instruction d ifs us ins # nxt # rest)"
    and "\<And>i us vs. R us vs \<Longrightarrow> R (i # us) (i # vs)"
    and "\<And>d els ins rest us vs. R us vs \<Longrightarrow>
       R (Instruction d us els ins # rest) (Instruction d vs els ins # rest)"
    and "\<And>d ifs ins rest us vs. R us vs \<Longrightarrow>
       R (Instruction d ifs us ins # rest) (Instruction d ifs vs ins # rest)"
  shows "R xs ys"
  using assms(1)
proof (induction xs arbitrary: ys rule: inst_list_induct)
  case Nil
  then show ?case by simp
next
  case (Cons d ifs els ins rest)
  from Cons.prems obtain nxt rest' where rest: "rest = nxt # rest'"
    by (cases rest) auto
  let ?a = "uAddress (dat nxt)"
  from Cons.prems consider us where "removeClosingJump2 ifs ?a = Ret (Some us)" "ys = Instruction d us els ins # rest"
    | us where "removeClosingJump2 els ?a = Ret (Some us)" "ys = Instruction d ifs us ins # rest"
    | us where "detectEndOfBranchJumps ifs = Ret (Some us)" "ys = Instruction d us els ins # rest"
    | us where "detectEndOfBranchJumps els = Ret (Some us)" "ys = Instruction d ifs us ins # rest"
    | us where "detectEndOfBranchJumps rest = Ret (Some us)" "ys = Instruction d ifs els ins # us"
    by (auto simp: rest Let_def result_simps split: if_split_asm option.split_asm)
  then show ?case
    using assms(2-) Cons.IH by cases (simp_all add: rest)
qed

end
