(* ===== verification/Blocks.thy ===== *)
theory Blocks
  imports Passes
begin

text \<open>
  The two passes of \<^verbatim>\<open>src/tools/mipsdec/optimize.cpp\<close> that move or copy a block to the jump that
  leads to it, and \<open>optimizeInstructions\<close>, which runs all passes.

  The C++ code keeps a pointer to the last jump source and iterators into the branch it walks over.
  Here both are positions in the order in which the passes visit the tree (\<^const>\<open>preorder\<close>):
  \<open>at_index n f\<close> edits the list that starts at the \<open>n\<close>-th instruction of that order. Marking an
  instruction and filling its \<open>collInsertAfter\<close> leaves all positions as they are.
\<close>

section \<open>Positions\<close>

definition num_inst :: "tInstList \<Rightarrow> nat" where
  "num_inst xs = length (preorder xs)"

fun at_index :: "nat \<Rightarrow> (tInstList \<Rightarrow> tInstList result) \<Rightarrow> tInstList \<Rightarrow> tInstList result" where
  "at_index n f [] = Fail Undefined"
| "at_index n f (Instruction d ifs els ins # rest) =
    (if n = 0 then f (Instruction d ifs els ins # rest)
     else if n - 1 < num_inst ifs then
       r_map (\<lambda>ys. Instruction d ys els ins # rest) (at_index (n - 1) f ifs)
     else if n - 1 - num_inst ifs < num_inst els then
       r_map (\<lambda>ys. Instruction d ifs ys ins # rest) (at_index (n - 1 - num_inst ifs) f els)
     else r_map (Cons (Instruction d ifs els ins)) (at_index (n - 1 - num_inst ifs - num_inst els) f rest))"

fun from_index :: "nat \<Rightarrow> tInstList \<Rightarrow> tInstList" where
  "from_index n [] = []"
| "from_index n (Instruction d ifs els ins # rest) =
    (if n = 0 then Instruction d ifs els ins # rest
     else if n - 1 < num_inst ifs then from_index (n - 1) ifs
     else if n - 1 - num_inst ifs < num_inst els then from_index (n - 1 - num_inst ifs) els
     else from_index (n - 1 - num_inst ifs - num_inst els) rest)"

text \<open>The traversal of the passes, as a search: the first position at which a result is found.\<close>

fun search_first :: "(tInstList \<Rightarrow> 'a option result) \<Rightarrow> tInstList \<Rightarrow> (nat \<times> 'a) option result" where
  "search_first f [] = Ret None"
| "search_first f (Instruction d ifs els ins # rest) =
    r_bind (f (Instruction d ifs els ins # rest)) (\<lambda>r0. case r0 of
      Some a \<Rightarrow> Ret (Some (0, a))
    | None \<Rightarrow> r_bind (search_first f ifs) (\<lambda>r1. case r1 of
        Some (n, a) \<Rightarrow> Ret (Some (1 + n, a))
      | None \<Rightarrow> r_bind (search_first f els) (\<lambda>r2. case r2 of
          Some (n, a) \<Rightarrow> Ret (Some (1 + num_inst ifs + n, a))
        | None \<Rightarrow> r_map (map_option (\<lambda>(n, a). (1 + num_inst ifs + num_inst els + n, a)))
            (search_first f rest))))"

section \<open>Model\<close>

text \<open>
  \<open>getCalcNumJumpSources\<close>: the number of jumps to an address and the last of them. \<open>pos\<close> is the
  position of the head of the list.
\<close>

fun jump_sources :: "tInstList \<Rightarrow> u32 \<Rightarrow> nat \<Rightarrow> nat option \<Rightarrow> nat \<times> nat option" where
  "jump_sources [] a pos pLast = (0, pLast)"
| "jump_sources (Instruction d ifs els ins # rest) a pos pLast =
    (let hit = (uJumpAddress d = a \<and> \<not> bIgnoreJump d);
         last0 = (if hit then Some pos else pLast);
         (n1, last1) = jump_sources ifs a (pos + 1) last0;
         (n2, last2) = jump_sources els a (pos + 1 + num_inst ifs) last1;
         (n3, last3) = jump_sources rest a (pos + 1 + num_inst ifs + num_inst els) last2
     in ((if hit then 1 else 0) + n1 + n2 + n3, last3))"

definition getCalcNumJumpSources :: "tInstList \<Rightarrow> u32 \<Rightarrow> (nat \<times> nat option) result" where
  "getCalcNumJumpSources xs a =
    M_ASSERT (a \<noteq> 0) (M_ASSERT (a \<noteq> 0xFFFFFFFF) (Ret (jump_sources xs a 0 None)))"

text \<open>
  The change at the jump source: the jump is marked for deletion and the block is queued behind it.
  The marking comes first, so a block that contains its own jump source is copied with the mark.
\<close>

fun mark_source :: "tInstList \<Rightarrow> tInstList result" where
  "mark_source [] = Fail Undefined"
| "mark_source (i # rest) =
    M_ASSERT (length (collInsertAfter i) = 0) (r_map (\<lambda>j. j # rest) (deleteDelayed i))"

fun queue_block :: "tInstList \<Rightarrow> tInstList \<Rightarrow> tInstList result" where
  "queue_block block [] = Fail Undefined"
| "queue_block block (i # rest) = Ret (set_after (collInsertAfter i @ block) i # rest)"

text \<open>
  \<open>pLastJumpSource\<close> is a null pointer if no source was found: using it is undefined.
  \<open>pos\<close> is the position of the list the block is taken from, \<open>skip\<close> and \<open>len\<close> its extent there.
\<close>

definition attach_block :: "tInstList \<Rightarrow> nat option \<Rightarrow> nat \<Rightarrow> nat \<Rightarrow> nat \<Rightarrow> tInstList result" where
  "attach_block f pLastJumpSource pos skip len =
    (case pLastJumpSource of
       None \<Rightarrow> Fail Undefined
     | Some src \<Rightarrow>
         r_bind (at_index src mark_source f) (\<lambda>f1.
           at_index src (queue_block (take len (drop skip (from_index pos f1)))) f1))"

text \<open>
  The inner loop of \<open>reassembleSingleJumpBlocks\<close>: \<open>len\<close> is the number of instructions from
  \<open>itBlockBegin\<close> to before \<open>itBlockEnd\<close>.
\<close>

fun single_jump_block :: "tInstList \<Rightarrow> u32 \<Rightarrow> tInstList \<Rightarrow> nat \<Rightarrow> (nat \<times> nat option) option result" where
  "single_jump_block f uBlockAddr [] len = Ret None"
| "single_jump_block f uBlockAddr (e # rest) len =
    (if bIsJumpTarget (dat e) then Ret None
     else if eType (dat e) = IT_J then
       r_bind (getCalcNumJumpSources f uBlockAddr) (\<lambda>(uNum, pLast).
         if uNum = 1 then Ret (Some (len + 1, pLast)) else single_jump_block f uBlockAddr rest (len + 1))
     else single_jump_block f uBlockAddr rest (len + 1))"

definition reassemble_here :: "tInstList \<Rightarrow> tInstList \<Rightarrow> (nat \<times> nat option) option result" where
  "reassemble_here f us =
    (case us of
       cur # begin # rest \<Rightarrow>
         (if eType (dat cur) = IT_J \<and> bIsJumpTarget (dat begin)
          then single_jump_block f (uAddress (dat begin)) rest 1
          else Ret None)
     | _ \<Rightarrow> Ret None)"

fun erase_block :: "nat \<Rightarrow> tInstList \<Rightarrow> tInstList result" where
  "erase_block len [] = Fail Undefined"
| "erase_block len (cur # rest) = Ret (cur # drop len rest)"

definition reassembleSingleJumpBlocks :: "tInstList \<Rightarrow> tInstList option result" where
  "reassembleSingleJumpBlocks f =
    r_bind (search_first (reassemble_here f) f) (\<lambda>r. case r of
      None \<Rightarrow> Ret None
    | Some (pos, len, pLast) \<Rightarrow>
        r_bind (attach_block f pLast pos 1 len) (\<lambda>f1.
          r_map Some (at_index pos (erase_block len) f1)))"

fun getInstructionCount :: "tInstList \<Rightarrow> nat" where
  "getInstructionCount [] = 0"
| "getInstructionCount (Instruction d ifs els ins # rest) =
    (if \<not> isNOP d then 1 + getInstructionCount ifs + getInstructionCount els else 0) +
    getInstructionCount rest"

definition MAX_CLONE_INSTRUCTIONS :: nat where
  "MAX_CLONE_INSTRUCTIONS = 10"

text \<open>The block from the current instruction to the first jump or return, if it is small enough.\<close>

definition clone_here :: "tInstList \<Rightarrow> tInstList \<Rightarrow> (nat \<times> nat option) option result" where
  "clone_here f us =
    (case us of
       [] \<Rightarrow> Ret None
     | cur # rest \<Rightarrow>
         (if bIsJumpTarget (dat cur) then
            (case find_index (\<lambda>i. closes_block (dat i)) us of
               None \<Rightarrow> Ret None
             | Some n \<Rightarrow>
                 (if getInstructionCount (take (n + 1) us) \<le> MAX_CLONE_INSTRUCTIONS then
                    r_bind (getCalcNumJumpSources f (uAddress (dat cur))) (\<lambda>(uNum, pLast).
                      M_ASSERT (uNum \<ge> 1) (Ret (Some (n + 1, pLast))))
                  else Ret None))
          else Ret None))"

definition detectAndCloneSmallBlocks :: "tInstList \<Rightarrow> tInstList option result" where
  "detectAndCloneSmallBlocks f =
    r_bind (search_first (clone_here f) f) (\<lambda>r. case r of
      None \<Rightarrow> Ret None
    | Some (pos, len, pLast) \<Rightarrow> r_map Some (attach_block f pLast pos 0 len))"

text \<open>The passes in the order of \<open>optimizeInstructions\<close>; the first that changes something ends the round.\<close>

fun first_change :: "(tInstList \<Rightarrow> tInstList option result) list \<Rightarrow> tInstList \<Rightarrow> tInstList option result" where
  "first_change [] xs = Ret None"
| "first_change (p # ps) xs =
    r_bind (p xs) (\<lambda>r. case r of Some ys \<Rightarrow> Ret (Some ys) | None \<Rightarrow> first_change ps xs)"

definition optimizer_passes :: "Function \<Rightarrow> (tInstList \<Rightarrow> tInstList option result) list" where
  "optimizer_passes fn =
    [reassembleSingleJumpBlocks, detectElseBranch, detectOnlyElseBranch, detectEndOfBranchJumps,
     (\<lambda>xs. detectEpilogProlog (fn\<lparr>m_collInstList := xs\<rparr>)), stripNops, detectEndingIfBranch,
     detectIdenticalIfElseBranch, detectAndCloneSmallBlocks]"

definition optimizeInstructions :: "Function \<Rightarrow> Function option result" where
  "optimizeInstructions fn =
    r_map (map_option (\<lambda>xs. fn\<lparr>m_collInstList := xs\<rparr>)) (first_change (optimizer_passes fn) (m_collInstList fn))"

end
