(* ===== verification/Semantics.thy ===== *)
theory Semantics
  imports Blocks
begin

text \<open>
  What an instruction tree computes. The meaning of the single instructions is a parameter, the
  record \<open>isa\<close>: effect, branch condition, target of a register jump, saving of a return address, effect of a call. On top of it

  \<^item> \<open>walk\<close> executes a list of instructions up to the first jump: it falls through the end, requests
    a jump to an address, or leaves the function;
  \<^item> \<open>cont_at\<close> finds the code that follows a label, whatever the depth of the label;
  \<^item> \<open>runs\<close> is the big-step relation that follows the jumps.

  The theory provides the two proof principles of the pass proofs: runs of two programs agree if
  one reaches what the other jumps to (\<open>runs_sim\<close>), and a change at one place of a tree is a change
  of the program (\<open>edit\<close>).
\<close>

section \<open>Execution\<close>

record 's isa =
  i_exec :: "inst_data \<Rightarrow> 's \<Rightarrow> 's"
  i_cond :: "inst_data \<Rightarrow> 's \<Rightarrow> bool"
  i_target :: "inst_data \<Rightarrow> 's \<Rightarrow> u32"
  i_link :: "inst_data \<Rightarrow> u32 \<Rightarrow> 's \<Rightarrow> 's"
  i_call :: "u32 \<Rightarrow> 's \<Rightarrow> 's"

datatype 's flow = Fall 's | Goto u32 's | Leave u32 's

fun seqf :: "'s flow \<Rightarrow> ('s \<Rightarrow> 's flow) \<Rightarrow> 's flow" where
  "seqf (Fall s) k = k s"
| "seqf (Goto a s) k = Goto a s"
| "seqf (Leave v s) k = Leave v s"

text \<open>One instruction, given the meaning of its two branches.\<close>

definition step1 :: "'s isa \<Rightarrow> inst_data \<Rightarrow> ('s \<Rightarrow> 's flow) \<Rightarrow> ('s \<Rightarrow> 's flow) \<Rightarrow> 's \<Rightarrow> 's flow" where
  "step1 M d kif kelse s =
    (case class_of (eType d) of
       IC_OTHER \<Rightarrow> Fall (i_exec M d s)
     | IC_BRANCH \<Rightarrow> (if i_cond M d s then kif s else kelse s)
     | IC_JUMP \<Rightarrow>
         (if eType d = IT_J then Goto (uJumpAddress d) s
          else if eType d \<in> {IT_JR, IT_JR_HB} then Leave (i_target M d s) s
          else Fall (i_call M (i_target M d s) s)))"

fun walk :: "'s isa \<Rightarrow> tInstList \<Rightarrow> 's \<Rightarrow> 's flow" where
  "walk M [] s = Fall s"
| "walk M (Instruction d ifs els ins # rest) s =
    seqf (step1 M d (walk M ifs) (walk M els) s) (walk M rest)"

fun cont_at :: "tInstList \<Rightarrow> u32 \<Rightarrow> tInstList option" where
  "cont_at [] a = None"
| "cont_at (Instruction d ifs els ins # rest) a =
    (if uAddress d = a then Some (Instruction d ifs els ins # rest)
     else (case cont_at ifs a of
         Some w \<Rightarrow> Some (w @ rest)
       | None \<Rightarrow> (case cont_at els a of Some w \<Rightarrow> Some (w @ rest) | None \<Rightarrow> cont_at rest a)))"

definition enter :: "'s isa \<Rightarrow> tInstList \<Rightarrow> u32 \<Rightarrow> 's \<Rightarrow> 's flow option" where
  "enter M P a s = map_option (\<lambda>w. walk M w s) (cont_at P a)"

text \<open>
  A run ends when control falls off the end of the function, or leaves it with an address: through a
  register jump, or by a jump to an address that is no label of the function.
\<close>

datatype 's outcome = Fell 's | Left u32 's

inductive runs :: "(u32 \<Rightarrow> 's \<Rightarrow> 's flow option) \<Rightarrow> 's flow \<Rightarrow> 's outcome \<Rightarrow> bool" for E where
  fell: "runs E (Fall s) (Fell s)"
| left: "runs E (Leave v s) (Left v s)"
| tail: "E a s = None \<Longrightarrow> runs E (Goto a s) (Left a s)"
| jump: "E a s = Some f \<Longrightarrow> runs E f r \<Longrightarrow> runs E (Goto a s) r"

inductive_simps runs_simps [simp]: "runs E (Fall s) r" "runs E (Leave v s) r"
inductive_cases runs_GotoE: "runs E (Goto a s) r"

definition evaluates :: "'s isa \<Rightarrow> tInstList \<Rightarrow> 's \<Rightarrow> 's outcome \<Rightarrow> bool" where
  "evaluates M P s r \<longleftrightarrow> runs (enter M P) (walk M P s) r"

section \<open>Following jumps\<close>

inductive reach :: "(u32 \<Rightarrow> 's \<Rightarrow> 's flow option) \<Rightarrow> 's flow \<Rightarrow> 's flow \<Rightarrow> bool" for E where
  reach_refl [simp, intro]: "reach E f f"
| reach_jump: "E a s = Some f \<Longrightarrow> reach E f g \<Longrightarrow> reach E (Goto a s) g"

lemma runs_reach: "reach E f g \<Longrightarrow> runs E g r \<Longrightarrow> runs E f r"
  by (induction rule: reach.induct) (auto intro: runs.jump)

lemma runs_deterministic: "runs E f r \<Longrightarrow> runs E f r' \<Longrightarrow> r = r'"
proof (induction arbitrary: r' rule: runs.induct)
  case (tail a s)
  from tail(2,1) show ?case by (cases rule: runs_GotoE) auto
next
  case (jump a s f r)
  from jump(4,1,3) show ?case by (cases rule: runs_GotoE) auto
qed simp_all

text \<open>The addresses a flow can request.\<close>

fun flow_in :: "u32 set \<Rightarrow> 's flow \<Rightarrow> bool" where
  "flow_in L (Goto a s) = (a \<in> L)"
| "flow_in L _ = True"

text \<open>
  The simulation: whatever the second program jumps to, the first reaches as well, at every address
  that is still requested. Then the two have the same runs.
\<close>

definition jump_sim :: "(u32 \<Rightarrow> 's \<Rightarrow> 's flow option) \<Rightarrow> (u32 \<Rightarrow> 's \<Rightarrow> 's flow option) \<Rightarrow> u32 set \<Rightarrow> bool" where
  "jump_sim E E' L \<longleftrightarrow>
    (\<forall>a \<in> L. \<forall>s. rel_option (\<lambda>f g. reach E f g \<and> flow_in L g) (E a s) (E' a s))"

lemma jump_sim_cases:
  assumes "jump_sim E E' L" and "a \<in> L"
  obtains "E a s = None" "E' a s = None"
  | f g where "E a s = Some f" "E' a s = Some g" "reach E f g" "flow_in L g"
proof -
  from assms have "rel_option (\<lambda>f g. reach E f g \<and> flow_in L g) (E a s) (E' a s)"
    by (simp add: jump_sim_def)
  then show thesis
    by (cases rule: option.rel_cases) (use that in auto)
qed

lemma runs_back:
  assumes "jump_sim E E' L" and "runs E' f r" and "flow_in L f"
  shows "runs E f r"
  using assms(2,3)
proof (induction rule: runs.induct)
  case (tail a s)
  then show ?case by (auto intro: runs.tail elim: jump_sim_cases [OF assms(1), of a s])
next
  case (jump a s g r)
  then have "a \<in> L" by simp
  with assms(1) show ?case
    by (rule jump_sim_cases [of E E' L a s]) (use jump in \<open>auto intro: runs.jump runs_reach\<close>)
qed simp_all

lemma runs_forth:
  assumes "jump_sim E E' L" and "runs E f r" and "reach E f g" and "flow_in L g"
  shows "runs E' g r"
  using assms(2-)
proof (induction arbitrary: g rule: runs.induct)
  case (tail a s)
  from tail(2) have "g = Goto a s"
    using tail(1) by (cases rule: reach.cases) auto
  with tail show ?case by (auto intro: runs.tail elim: jump_sim_cases [OF assms(1), of a s])
next
  case (jump a s f r)
  from jump(4) show ?case
  proof (cases rule: reach.cases)
    case reach_refl
    with jump.prems have a: "a \<in> L" by simp
    from assms(1) a jump reach_refl show ?thesis
      by (auto elim!: jump_sim_cases [of E E' L a s] intro: runs.jump)
  next
    case (reach_jump f')
    with jump show ?thesis by auto
  qed
next
  case (fell s)
  from fell(1) have "g = Fall s" by (cases rule: reach.cases) auto
  then show ?case by simp
next
  case (left v s)
  from left(1) have "g = Leave v s" by (cases rule: reach.cases) auto
  then show ?case by simp
qed

lemma runs_sim:
  "jump_sim E E' L \<Longrightarrow> reach E f g \<Longrightarrow> flow_in L g \<Longrightarrow> runs E f r \<longleftrightarrow> runs E' g r"
  using runs_forth runs_back runs_reach by metis

section \<open>Composition\<close>

lemma seqf_assoc: "seqf (seqf f k) k' = seqf f (\<lambda>s. seqf (k s) k')"
  by (cases f) simp_all

lemma walk_append: "walk M (xs @ ys) = (\<lambda>s. seqf (walk M xs s) (walk M ys))"
  by (induction xs rule: inst_list_induct) (rule ext, simp add: seqf_assoc)+

lemma walk_Cons: "walk M (i # xs) s = seqf (walk M [i] s) (walk M xs)"
  using walk_append [of M "[i]" xs] by simp

lemma reach_seqf: "(\<And>s. reach E (k s) (k' s)) \<Longrightarrow> reach E (seqf f k) (seqf f k')"
  by (cases f) simp_all

lemma reach_trans: "reach E f g \<Longrightarrow> reach E g h \<Longrightarrow> reach E f h"
  by (induction rule: reach.induct) (auto intro: reach_jump)

text \<open>Two pieces of code of which the first reaches what the second does.\<close>

definition simulates :: "'s isa \<Rightarrow> tInstList \<Rightarrow> tInstList \<Rightarrow> tInstList \<Rightarrow> bool" where
  "simulates M P xs ys \<longleftrightarrow> (\<forall>s. reach (enter M P) (walk M xs s) (walk M ys s))"

lemma simulates_refl [simp, intro]: "simulates M P xs xs"
  by (simp add: simulates_def)

lemma simulatesI: "walk M xs = walk M ys \<Longrightarrow> simulates M P xs ys"
  by (simp add: simulates_def)

lemma simulates_append: "simulates M P xs ys \<Longrightarrow> simulates M P (zs @ xs) (zs @ ys)"
  by (simp add: simulates_def walk_append reach_seqf)

lemma simulates_Cons: "simulates M P xs ys \<Longrightarrow> simulates M P (i # xs) (i # ys)"
  using simulates_append [of M P xs ys "[i]"] by simp

text \<open>The branch taken continues with the code after the branch instruction.\<close>

lemma walk_branch:
  "class_of (eType d) = IC_BRANCH \<Longrightarrow>
    walk M (Instruction d ifs els ins # rest) s = walk M ((if i_cond M d s then ifs else els) @ rest) s"
  by (simp add: walk_append step1_def)

lemma simulates_branch:
  assumes "class_of (eType d) = IC_BRANCH \<Longrightarrow> simulates M P (ifs @ rest) (ifs' @ rest')"
    and "class_of (eType d) = IC_BRANCH \<Longrightarrow> simulates M P (els @ rest) (els' @ rest')"
    and "class_of (eType d) \<noteq> IC_BRANCH \<Longrightarrow> simulates M P rest rest'"
  shows "simulates M P (Instruction d ifs els ins # rest) (Instruction d ifs' els' ins' # rest')"
proof (cases "class_of (eType d) = IC_BRANCH")
  case True
  with assms(1,2) show ?thesis
    by (simp add: simulates_def walk_branch del: walk.simps)
next
  case False
  then have "step1 M d k1 k2 = step1 M d k1' k2'" for k1 k2 k1' k2'
    by (auto simp: step1_def fun_eq_iff split: tInstructionClass.split)
  with assms(3) [OF False] show ?thesis
    unfolding simulates_def by (metis reach_seqf walk.simps(2))
qed

section \<open>Changing a tree at one place\<close>

text \<open>
  \<open>edit xs ys k P P'\<close>: \<open>P'\<close> is \<open>P\<close> with \<open>ys\<close> in place of \<open>xs\<close>, a final part of some branch; \<open>k\<close> is
  the code that control reaches at the end of that branch.
\<close>

inductive edit :: "tInstList \<Rightarrow> tInstList \<Rightarrow> tInstList \<Rightarrow> tInstList \<Rightarrow> tInstList \<Rightarrow> bool" for xs ys where
  edit_here: "edit xs ys [] xs ys"
| edit_next: "edit xs ys k P P' \<Longrightarrow> edit xs ys k (i # P) (i # P')"
| edit_if: "edit xs ys k P P' \<Longrightarrow>
    edit xs ys (k @ rest) (Instruction d P els ins # rest) (Instruction d P' els ins # rest)"
| edit_else: "edit xs ys k P P' \<Longrightarrow>
    edit xs ys (k @ rest) (Instruction d ifs P ins # rest) (Instruction d ifs P' ins # rest)"

lemma rewrite_first_edit:
  assumes "rewrite_first f P = Ret (Some P')"
  shows "\<exists>xs ys k. edit xs ys k P P' \<and> f xs = Ret (Some ys)"
  using assms by (rule rewrite_first_ctx) (blast intro: edit.intros)+

lemma edit_simulates:
  assumes "edit xs ys k P P'" and "simulates M Q (xs @ k @ c) (ys @ k @ c)"
  shows "simulates M Q (P @ c) (P' @ c)"
  using assms
proof (induction arbitrary: c rule: edit.induct)
  case (edit_next k P P' i)
  then show ?case by (simp add: simulates_Cons)
next
  case (edit_if k P P' rest d els ins)
  then show ?case by (auto intro!: simulates_branch edit_if.IH simp flip: append_assoc)
next
  case (edit_else k P P' rest d ifs ins)
  then show ?case by (auto intro!: simulates_branch edit_else.IH simp flip: append_assoc)
qed simp

lemma edit_cont_at:
  assumes "edit xs ys k P P'" and "simulates M Q (xs @ k @ c) (ys @ k @ c)"
    and "rel_option (\<lambda>u v. simulates M Q (u @ k @ c) (v @ k @ c)) (cont_at xs a) (cont_at ys a)"
  shows "rel_option (\<lambda>u v. simulates M Q (u @ c) (v @ c)) (cont_at P a) (cont_at P' a)"
  using assms
proof (induction arbitrary: c rule: edit.induct)
  case (edit_next k P P' i)
  have "simulates M Q (P @ c) (P' @ c)"
    using edit_next.hyps edit_next.prems(1) by (rule edit_simulates)
  moreover have "rel_option (\<lambda>u v. simulates M Q (u @ c) (v @ c)) (cont_at P a) (cont_at P' a)"
    using edit_next by blast
  ultimately show ?case
    by (cases i) (auto simp: simulates_Cons simulates_append split: option.split)
next
  case (edit_if k P P' rest d els ins)
  have "simulates M Q (P @ rest @ c) (P' @ rest @ c)"
    using edit_if.hyps by (rule edit_simulates) (use edit_if.prems in simp)
  moreover have "rel_option (\<lambda>u v. simulates M Q (u @ rest @ c) (v @ rest @ c)) (cont_at P a) (cont_at P' a)"
    using edit_if by simp
  ultimately show ?case
    by (cases "cont_at P a"; cases "cont_at P' a")
      (auto intro!: simulates_branch split: option.split simp: option.rel_refl)
next
  case (edit_else k P P' rest d ifs ins)
  have "simulates M Q (P @ rest @ c) (P' @ rest @ c)"
    using edit_else.hyps by (rule edit_simulates) (use edit_else.prems in simp)
  moreover have "rel_option (\<lambda>u v. simulates M Q (u @ rest @ c) (v @ rest @ c)) (cont_at P a) (cont_at P' a)"
    using edit_else by simp
  ultimately show ?case
    by (cases "cont_at P a"; cases "cont_at P' a")
      (auto intro!: simulates_branch split: option.split simp: option.rel_refl)
qed simp

section \<open>Labels\<close>

definition labels :: "tInstList \<Rightarrow> u32 list" where
  "labels xs = map (uAddress \<circ> dat) (preorder xs)"

lemma labels_simps [simp]:
  "labels [] = []"
  "labels (Instruction d ifs els ins # rest) = uAddress d # labels ifs @ labels els @ labels rest"
  "labels (xs @ ys) = labels xs @ labels ys"
  by (simp_all add: labels_def)

lemma cont_at_None: "cont_at xs a = None \<longleftrightarrow> a \<notin> set (labels xs)"
  by (induction xs rule: inst_list_induct) (auto split: option.split)

lemma count_list_append [simp]: "count_list (xs @ ys) a = count_list xs a + count_list ys a"
  by (induction xs) auto

lemma count_list_pos: "a \<in> set xs \<longleftrightarrow> 0 < count_list xs a"
  using count_list_0_iff [of xs a] by auto

lemma edit_labels:
  "edit xs ys k P P' \<Longrightarrow>
    count_list (labels P') a + count_list (labels xs) a = count_list (labels P) a + count_list (labels ys) a"
proof (induction rule: edit.induct)
  case (edit_next k P P' i)
  then show ?case by (cases i) auto
qed auto

lemma edit_label_in: "edit xs ys k P P' \<Longrightarrow> a \<in> set (labels xs) \<Longrightarrow> a \<in> set (labels P)"
proof (induction rule: edit.induct)
  case (edit_next k P P' i)
  then show ?case by (cases i) auto
qed auto

lemma cont_at_Some: "cont_at xs a = Some w \<Longrightarrow> a \<in> set (labels xs)"
  by (metis cont_at_None option.distinct(1))

text \<open>A label that occurs once is found where it is.\<close>

lemma unique_label_parts:
  assumes "count_list (labels (Instruction d ifs els ins # rest)) a \<le> 1"
  shows "count_list (labels ifs) a \<le> 1" "count_list (labels els) a \<le> 1" "count_list (labels rest) a \<le> 1"
    and "a \<in> set (labels ifs) \<Longrightarrow> uAddress d \<noteq> a"
    and "a \<in> set (labels els) \<Longrightarrow> uAddress d \<noteq> a \<and> cont_at ifs a = None"
    and "a \<in> set (labels rest) \<Longrightarrow> uAddress d \<noteq> a \<and> cont_at ifs a = None \<and> cont_at els a = None"
  using assms by (auto simp: cont_at_None count_list_pos split: if_split_asm)

lemma cont_at_inside:
  assumes "count_list (labels (Instruction d ifs els ins # rest)) a \<le> 1"
  shows "cont_at ifs a = Some w \<Longrightarrow> cont_at (Instruction d ifs els ins # rest) a = Some (w @ rest)"
    and "cont_at els a = Some w \<Longrightarrow> cont_at (Instruction d ifs els ins # rest) a = Some (w @ rest)"
    and "cont_at rest a = Some w \<Longrightarrow> cont_at (Instruction d ifs els ins # rest) a = Some w"
  using unique_label_parts(4-) [OF assms] cont_at_Some [of ifs a w] cont_at_Some [of els a w]
    cont_at_Some [of rest a w]
  by simp_all

lemma edit_cont_unique:
  "edit xs ys k P P' \<Longrightarrow> count_list (labels P) a \<le> 1 \<Longrightarrow> cont_at xs a = Some w \<Longrightarrow>
    cont_at P a = Some (w @ k)"
proof (induction rule: edit.induct)
  case edit_here
  then show ?case by simp
next
  case (edit_next k P P' i)
  then show ?case
    by (cases i) (metis cont_at_inside(3) unique_label_parts(3))
next
  case (edit_if k P P' rest d els ins)
  then show ?case
    using unique_label_parts(1) [OF edit_if.prems(1)] cont_at_inside(1) [OF edit_if.prems(1)] by simp
next
  case (edit_else k P P' rest d ifs ins)
  then show ?case
    using unique_label_parts(2) [OF edit_else.prems(1)] cont_at_inside(2) [OF edit_else.prems(1)] by simp
qed

lemma cont_at_head: "cont_at (x # xs) (uAddress (dat x)) = Some (x # xs)"
  by (cases x) simp

text \<open>So is the label of the instruction that follows the branch.\<close>

lemma edit_cont_next:
  "edit xs ys k P P' \<Longrightarrow> count_list (labels P) (uAddress (dat x)) \<le> 1 \<Longrightarrow> k = x # k' \<Longrightarrow>
    cont_at P (uAddress (dat x)) = Some k"
proof (induction arbitrary: k' rule: edit.induct)
  case edit_here
  then show ?case by simp
next
  case (edit_next k P P' i)
  then show ?case
    by (cases i) (metis cont_at_inside(3) unique_label_parts(3))
next
  case (edit_if k P P' rest d els ins)
  note parts = unique_label_parts(1) [OF edit_if.prems(1)] and inside = cont_at_inside [OF edit_if.prems(1)]
  show ?case
  proof (cases k)
    case Nil
    with edit_if.prems(2) show ?thesis by (metis append_Nil cont_at_head inside(3))
  next
    case (Cons y k'')
    with edit_if parts inside(1) show ?thesis by simp
  qed
next
  case (edit_else k P P' rest d ifs ins)
  note parts = unique_label_parts(2) [OF edit_else.prems(1)] and inside = cont_at_inside [OF edit_else.prems(1)]
  show ?case
  proof (cases k)
    case Nil
    with edit_else.prems(2) show ?thesis by (metis append_Nil cont_at_head inside(3))
  next
    case (Cons y k'')
    with edit_else parts inside(2) show ?thesis by simp
  qed
qed

section \<open>Well-formed trees\<close>

definition datas :: "tInstList \<Rightarrow> inst_data list" where
  "datas xs = map dat (preorder xs)"

lemma datas_simps [simp]:
  "datas [] = []"
  "datas (Instruction d ifs els ins # rest) = d # datas ifs @ datas els @ datas rest"
  "datas (xs @ ys) = datas xs @ datas ys"
  by (simp_all add: datas_def)

lemma edit_datas: "edit xs ys k P P' \<Longrightarrow> set (datas P') \<subseteq> set (datas P) \<union> set (datas ys)"
  and edit_datas_in: "edit xs ys k P P' \<Longrightarrow> set (datas xs) \<subseteq> set (datas P)"
proof (induction rule: edit.induct)
  case (edit_next k P P' i)
  { case 1 with edit_next show ?case by (cases i) auto }
  { case 2 with edit_next show ?case by (cases i) auto }
qed auto

lemma cont_at_datas: "cont_at xs a = Some w \<Longrightarrow> set (datas w) \<subseteq> set (datas xs)"
proof (induction xs arbitrary: w rule: inst_list_induct)
  case (Cons d ifs els ins rest)
  then show ?case by (fastforce split: if_split_asm option.split_asm)
qed simp

text \<open>A live jump target is what a J instruction jumps to, and the other way round.\<close>

definition live_jump :: "inst_data \<Rightarrow> bool" where
  "live_jump d \<longleftrightarrow> uJumpAddress d \<noteq> 0 \<and> \<not> bIgnoreJump d"

definition jump_ok :: "inst_data \<Rightarrow> bool" where
  "jump_ok d \<longleftrightarrow> (eType d = IT_J \<longleftrightarrow> live_jump d)"

abbreviation jumps_ok :: "tInstList \<Rightarrow> bool" where
  "jumps_ok xs \<equiv> \<forall>d \<in> set (datas xs). jump_ok d"

lemma set_targets: "set (targets xs) = uJumpAddress ` {d \<in> set (datas xs). live_jump d}"
  by (force simp: targets_def datas_def live_jump_def)

lemma set_targets_J: "jumps_ok xs \<Longrightarrow> set (targets xs) = uJumpAddress ` {d \<in> set (datas xs). eType d = IT_J}"
  by (force simp: set_targets jump_ok_def)

lemma set_targets_mono: "set (datas xs) \<subseteq> set (datas ys) \<Longrightarrow> set (targets xs) \<subseteq> set (targets ys)"
  by (auto simp: set_targets)

lemma flow_in_mono: "flow_in A f \<Longrightarrow> A \<subseteq> B \<Longrightarrow> flow_in B f"
  by (cases f) auto

lemma flow_in_seqf: "flow_in L f \<Longrightarrow> (\<And>s. flow_in L (k s)) \<Longrightarrow> flow_in L (seqf f k)"
  by (cases f) auto

lemma walk_flow_in: "set (datas xs) \<subseteq> set (datas P) \<Longrightarrow> jumps_ok P \<Longrightarrow> flow_in (set (targets P)) (walk M xs s)"
proof (induction xs arbitrary: s rule: inst_list_induct)
  case (Cons d ifs els ins rest)
  have "flow_in (set (targets P)) (step1 M d (walk M ifs) (walk M els) s)"
    using Cons by (auto simp: step1_def set_targets_J split: tInstructionClass.split)
  with Cons show ?case by (auto intro: flow_in_seqf)
qed simp

text \<open>
  A change at one place preserves the behaviour of the function if the old code, and the code after
  every label that is still jumped to, reaches what the new code does.
\<close>

lemma edit_evaluates:
  assumes "edit xs ys k P P'" and "jumps_ok P'" and "simulates M P (xs @ k) (ys @ k)"
    and "\<And>a. a \<in> set (targets P') \<Longrightarrow>
      rel_option (\<lambda>u v. simulates M P (u @ k) (v @ k)) (cont_at xs a) (cont_at ys a)"
  shows "evaluates M P s r \<longleftrightarrow> evaluates M P' s r"
proof -
  have "jump_sim (enter M P) (enter M P') (set (targets P'))"
    unfolding jump_sim_def
  proof safe
    fix a s assume a: "a \<in> set (targets P')"
    have "rel_option (\<lambda>u v. simulates M P (u @ []) (v @ [])) (cont_at P a) (cont_at P' a)"
      using assms(1) by (rule edit_cont_at) (use assms(3,4) a in simp_all)
    then show "rel_option (\<lambda>f g. reach (enter M P) f g \<and> flow_in (set (targets P')) g) (enter M P a s) (enter M P' a s)"
      using walk_flow_in [OF cont_at_datas assms(2)]
      by (cases rule: option.rel_cases) (auto simp: enter_def simulates_def)
  qed
  moreover have "simulates M P (P @ []) (P' @ [])"
    using assms(1) by (rule edit_simulates) (use assms(3) in simp)
  moreover have "flow_in (set (targets P')) (walk M P' s)"
    using assms(2) by (intro walk_flow_in) simp
  ultimately show ?thesis
    by (auto simp: evaluates_def simulates_def intro: runs_sim [THEN iffD1] runs_sim [THEN iffD2])
qed

end
