(* ===== verification/Preservation.thy ===== *)
theory Preservation
  imports Semantics
begin

text \<open>
  The optimiser passes preserve the behaviour of the function. The laws about single instructions
  that this needs are the locale \<open>isa_laws\<close>; \<open>tree_ok\<close> is what \<open>main\<close> establishes before each round.

  Three passes drop an instruction without looking at its label. For them the theorem needs that no
  label that is still jumped to gets lost (\<open>labels_kept\<close>).
\<close>

section \<open>The state of the tree between two rounds\<close>

definition leaf_ok :: "Instruction \<Rightarrow> bool" where
  "leaf_ok i \<longleftrightarrow> (class_of (eType (dat i)) \<noteq> IC_BRANCH \<longrightarrow> collIfBranch i = [] \<and> collElseBranch i = [])"

text \<open>No edit is queued.\<close>

definition settled :: "Instruction \<Rightarrow> bool" where
  "settled i \<longleftrightarrow> collInsertAfter i = [] \<and> \<not> bDelayedDelete (dat i)"

definition tree_ok :: "tInstList \<Rightarrow> bool" where
  "tree_ok P \<longleftrightarrow> jumps_ok P \<and> marked P \<and> list_all leaf_ok (preorder P) \<and> list_all settled (preorder P) \<and>
     list_all (\<lambda>a. count_list (labels P) a \<le> 1) (targets P)"

definition labels_kept :: "tInstList \<Rightarrow> tInstList \<Rightarrow> bool" where
  "labels_kept P P' \<longleftrightarrow> list_all (\<lambda>a. a \<in> set (labels P) \<longrightarrow> a \<in> set (labels P')) (targets P')"

lemma edit_preorder_in: "edit xs ys k P P' \<Longrightarrow> set (preorder xs) \<subseteq> set (preorder P)"
proof (induction rule: edit.induct)
  case (edit_next k P P' i)
  then show ?case by (cases i) auto
qed auto

lemma edit_count_le: "edit xs ys k P P' \<Longrightarrow> count_list (labels xs) a \<le> count_list (labels P) a"
proof (induction rule: edit.induct)
  case (edit_next k P P' i)
  then show ?case by (cases i) auto
qed auto

lemma cont_at_append:
  "cont_at (xs @ ys) a = (case cont_at xs a of Some w \<Rightarrow> Some (w @ ys) | None \<Rightarrow> cont_at ys a)"
  by (induction xs rule: inst_list_induct) (auto split: option.split)

lemma cont_at_suffix:
  assumes "count_list (labels (xs @ ys)) a \<le> 1" and "cont_at ys a = Some w"
  shows "cont_at (xs @ ys) a = Some w"
proof -
  have "cont_at xs a = None"
    using assms cont_at_Some [OF assms(2)] by (auto simp: cont_at_None count_list_pos)
  with assms(2) show ?thesis by (simp add: cont_at_append)
qed

text \<open>A jump reaches the code after its label.\<close>

lemma jump_simulates:
  assumes "eType (dat j) = IT_J" and "cont_at P (uJumpAddress (dat j)) = Some w"
  shows "simulates M P (j # c) w"
proof -
  have "walk M (j # c) s = Goto (uJumpAddress (dat j)) s" for s
    using assms(1) by (cases j) (simp add: step1_def class_of_def conditional_branch_def)
  with assms(2) show ?thesis
    by (auto simp: simulates_def enter_def intro: reach_jump)
qed

text \<open>The hole of an edit, in terms of the whole tree.\<close>

lemma tree_ok_hole:
  assumes "tree_ok P" and "edit xs ys k P P'"
  shows "jumps_ok xs" and "\<And>i. i \<in> set (preorder xs) \<Longrightarrow> leaf_ok i"
    and "\<And>i. i \<in> set (preorder xs) \<Longrightarrow> bIsJumpTarget (dat i) \<longleftrightarrow> uAddress (dat i) \<in> set (targets P)"
    and "\<And>a. a \<in> set (targets P) \<Longrightarrow> count_list (labels P) a \<le> 1"
    and "set (targets xs) \<subseteq> set (targets P)"
proof -
  note ok = assms(1) [unfolded tree_ok_def marked_def list_all_iff]
  note sub = edit_preorder_in [OF assms(2)] edit_datas_in [OF assms(2)]
  show "jumps_ok xs" using ok sub by blast
  show "leaf_ok i" if "i \<in> set (preorder xs)" for i using ok sub that by blast
  show "bIsJumpTarget (dat i) \<longleftrightarrow> uAddress (dat i) \<in> set (targets P)" if "i \<in> set (preorder xs)" for i
    using ok sub that by blast
  show "count_list (labels P) a \<le> 1" if "a \<in> set (targets P)" for a using ok that by blast
  show "set (targets xs) \<subseteq> set (targets P)" using sub(2) by (rule set_targets_mono)
qed

lemma edit_jumps_ok:
  assumes "jumps_ok P" and "edit xs ys k P P'" and "set (datas ys) \<subseteq> set (datas xs) \<union> {d. jump_ok d \<and> \<not> live_jump d}"
  shows "jumps_ok P'" and "set (targets P') \<subseteq> set (targets P)"
proof -
  have sub: "set (datas P') \<subseteq> set (datas P) \<union> {d. jump_ok d \<and> \<not> live_jump d}"
    using edit_datas [OF assms(2)] edit_datas_in [OF assms(2)] assms(3) by blast
  then show "jumps_ok P'" using assms(1) by blast
  from sub show "set (targets P') \<subseteq> set (targets P)" by (auto simp: set_targets)
qed

text \<open>A label that occurs once and that a change removes is not kept.\<close>

lemma removed_label:
  assumes "tree_ok P" and "edit xs ys k P P'" and "labels_kept P P'"
    and "a \<in> set (targets P')" and "set (targets P') \<subseteq> set (targets P)"
    and "count_list (labels xs) a = Suc (count_list (labels ys) a)"
  shows False
proof -
  have "count_list (labels P) a \<le> 1"
    using tree_ok_hole(4) [OF assms(1,2)] assms(4,5) by blast
  with edit_labels [OF assms(2), of a] edit_count_le [OF assms(2), of a] assms(6)
  have "count_list (labels P') a = 0" and "count_list (labels P) a = 1" by simp_all
  then have "a \<notin> set (labels P')" and "a \<in> set (labels P)"
    by (simp_all add: count_list_pos)
  with assms(3,4) show False by (auto simp: labels_kept_def list_all_iff)
qed

lemma edit_preserves:
  assumes "tree_ok P" and e: "edit xs ys k P P'"
    and "set (datas ys) \<subseteq> set (datas xs) \<union> {d. jump_ok d \<and> \<not> live_jump d}"
    and "simulates M P (xs @ k) (ys @ k)"
    and "\<And>a. a \<in> set (targets P') \<Longrightarrow> set (targets P') \<subseteq> set (targets P) \<Longrightarrow>
      rel_option (\<lambda>u v. simulates M P (u @ k) (v @ k)) (cont_at xs a) (cont_at ys a)"
  shows "evaluates M P s r \<longleftrightarrow> evaluates M P' s r"
proof -
  have "jumps_ok P" using assms(1) by (simp add: tree_ok_def)
  note P' = edit_jumps_ok [OF this e assms(3)]
  show ?thesis
    using e P'(1) assms(4) by (rule edit_evaluates) (use P'(2) assms(5) in blast)
qed

lemma invertCondition_Ret:
  assumes "invertCondition d = Ret d'"
  shows "class_of (eType d) = IC_BRANCH" and "class_of (eType d') = IC_BRANCH"
    and "uAddress d' = uAddress d" and "uJumpAddress d' = uJumpAddress d" and "bIgnoreJump d' = bIgnoreJump d"
proof -
  from assms have c: "class_of (eType d) = IC_BRANCH"
    by (auto simp: invertCondition_def result_simps dest!: getClassType_Ret)
  with assms show "class_of (eType d) = IC_BRANCH" "class_of (eType d') = IC_BRANCH"
    "uAddress d' = uAddress d" "uJumpAddress d' = uJumpAddress d" "bIgnoreJump d' = bIgnoreJump d"
    by (cases "eType d"; auto simp: invertCondition_def result_simps class_of_def conditional_branch_def)+
qed

lemma branch_not_live: "class_of (eType d) = IC_BRANCH \<Longrightarrow> jump_ok d \<longleftrightarrow> \<not> live_jump d"
  by (auto simp: jump_ok_def class_of_def conditional_branch_def split: if_split_asm)

text \<open>A list that ends in a jump or a return does not fall through, wherever it is entered.\<close>

lemma closed_walk:
  "xs \<noteq> [] \<Longrightarrow> closes_block (dat (last xs)) \<Longrightarrow> walk M (xs @ c) = walk M xs"
proof (induction xs rule: inst_list_induct)
  case (Cons d ifs els ins rest)
  show ?case
  proof (cases "rest = []")
    case True
    with Cons.prems show ?thesis
      by (auto simp: fun_eq_iff step1_def closes_block_def class_of_def conditional_branch_def)
  next
    case False
    with Cons show ?thesis by (intro ext) simp
  qed
qed simp

lemma cont_at_last:
  "cont_at xs a = Some w \<Longrightarrow> collIfBranch (last xs) = [] \<Longrightarrow> collElseBranch (last xs) = [] \<Longrightarrow>
    w \<noteq> [] \<and> last w = last xs"
proof (induction xs arbitrary: w rule: inst_list_induct)
  case (Cons d ifs els ins rest)
  show ?case
  proof (cases "rest = []")
    case True
    with Cons.prems show ?thesis by (auto split: if_split_asm)
  next
    case False
    with Cons show ?thesis by (auto split: if_split_asm option.split_asm)
  qed
qed simp

lemma last_in_preorder: "xs \<noteq> [] \<Longrightarrow> last xs \<in> set (preorder xs)"
proof (induction xs rule: inst_list_induct)
  case (Cons d ifs els ins rest)
  then show ?case by (cases rest) auto
qed simp

lemma else_block_Some:
  "else_block t rest = Some n \<Longrightarrow>
    n < length rest \<and> uAddress (dat (rest ! n)) = t \<and> rest = take n rest @ rest ! n # drop (Suc n) rest"
proof (induction rest arbitrary: n)
  case (Cons i rest)
  then show ?case by (cases n) (auto split: if_split_asm)
qed simp

text \<open>What \<open>detectEndOfBranchJumps\<close> changes: a branch that jumps behind the enclosing branch.\<close>

definition closing_edit :: "u32 \<Rightarrow> tInstList \<Rightarrow> tInstList \<Rightarrow> bool" where
  "closing_edit t xs ys \<longleftrightarrow> (\<exists>d ifs ins R. xs = Instruction d ifs [] ins # R \<and> ifs \<noteq> [] \<and>
     ys = [Instruction d (butlast ifs) R ins] \<and> uJumpAddress (dat (last ifs)) = t \<and>
     \<not> bIgnoreJump (dat (last ifs)))"

lemma removeClosingJump2_loop_edit:
  "removeClosingJump2_loop L t = Some L' \<Longrightarrow> \<exists>xs ys. edit xs ys [] L L' \<and> closing_edit t xs ys"
proof (induction L t arbitrary: L' rule: removeClosingJump2_loop.induct)
  case (3 d ifs els ins nxt rest t)
  show ?case
  proof (cases "length ifs > 0 \<and> length els = 0 \<and> uJumpAddress (dat (last ifs)) = t \<and> \<not> bIgnoreJump (dat (last ifs))")
    case True
    with 3 have "closing_edit t (Instruction d ifs els ins # nxt # rest) L'"
      by (auto simp: closing_edit_def)
    then show ?thesis using edit_here by blast
  next
    case False
    with "3.prems" obtain L'' where L'': "removeClosingJump2_loop (nxt # rest) t = Some L''"
      "L' = Instruction d ifs els ins # L''" by auto
    from "3.IH" [OF False L''(1)] show ?thesis unfolding L''(2) by (blast intro: edit_next)
  qed
qed simp_all

lemma removeClosingJump2_edit:
  "removeClosingJump2 L t = Ret (Some L') \<Longrightarrow> t \<noteq> 0 \<and> (\<exists>xs ys. edit xs ys [] L L' \<and> closing_edit t xs ys)"
  by (auto simp: removeClosingJump2_def result_simps dest: removeClosingJump2_loop_edit)

definition branch_end_edit :: "tInstList \<Rightarrow> tInstList \<Rightarrow> bool" where
  "branch_end_edit P P' \<longleftrightarrow> (\<exists>xs ys x k. edit xs ys (x # k) P P' \<and> closing_edit (uAddress (dat x)) xs ys \<and>
     uAddress (dat x) \<noteq> 0)"

lemma branch_end_editI:
  "edit xs ys (x # k) P P' \<Longrightarrow> closing_edit (uAddress (dat x)) xs ys \<Longrightarrow> uAddress (dat x) \<noteq> 0 \<Longrightarrow>
    branch_end_edit P P'"
  unfolding branch_end_edit_def by blast

lemma branch_end_editE:
  assumes "branch_end_edit P P'"
  obtains xs ys x k where "edit xs ys (x # k) P P'" "closing_edit (uAddress (dat x)) xs ys" "uAddress (dat x) \<noteq> 0"
  using assms unfolding branch_end_edit_def by blast

lemma branch_end_edit_ctx:
  assumes "branch_end_edit P P'"
  shows "branch_end_edit (i # P) (i # P')"
    and "branch_end_edit (Instruction d P els ins # rest) (Instruction d P' els ins # rest)"
    and "branch_end_edit (Instruction d ifs P ins # rest) (Instruction d ifs P' ins # rest)"
proof -
  from assms obtain xs ys x k where e: "edit xs ys (x # k) P P'" "closing_edit (uAddress (dat x)) xs ys"
    "uAddress (dat x) \<noteq> 0" by (rule branch_end_editE)
  from edit_next [OF e(1)] e(2,3) show "branch_end_edit (i # P) (i # P')" by (rule branch_end_editI)
  from edit_if [OF e(1), of rest d els ins, unfolded append_Cons] e(2,3)
  show "branch_end_edit (Instruction d P els ins # rest) (Instruction d P' els ins # rest)" by (rule branch_end_editI)
  from edit_else [OF e(1), of rest d ifs ins, unfolded append_Cons] e(2,3)
  show "branch_end_edit (Instruction d ifs P ins # rest) (Instruction d ifs P' ins # rest)" by (rule branch_end_editI)
qed

lemma removeClosingJump2_branch_end:
  assumes "removeClosingJump2 L (uAddress (dat nxt)) = Ret (Some L')"
  shows "branch_end_edit (Instruction d L els ins # nxt # rest) (Instruction d L' els ins # nxt # rest)"
    and "branch_end_edit (Instruction d ifs L ins # nxt # rest) (Instruction d ifs L' ins # nxt # rest)"
proof -
  from removeClosingJump2_edit [OF assms] obtain xs ys where e: "edit xs ys [] L L'"
    "closing_edit (uAddress (dat nxt)) xs ys" "uAddress (dat nxt) \<noteq> 0" by blast
  from edit_if [OF e(1), of "nxt # rest" d els ins, unfolded append_Nil] e(2,3)
  show "branch_end_edit (Instruction d L els ins # nxt # rest) (Instruction d L' els ins # nxt # rest)"
    by (rule branch_end_editI)
  from edit_else [OF e(1), of "nxt # rest" d ifs ins, unfolded append_Nil] e(2,3)
  show "branch_end_edit (Instruction d ifs L ins # nxt # rest) (Instruction d ifs L' ins # nxt # rest)"
    by (rule branch_end_editI)
qed

lemma detectEndOfBranchJumps_edit: "detectEndOfBranchJumps P = Ret (Some P') \<Longrightarrow> branch_end_edit P P'"
  by (erule detectEndOfBranchJumps_ctx)
    (blast intro: branch_end_edit_ctx removeClosingJump2_branch_end)+

section \<open>The laws\<close>

locale isa_laws =
  fixes M :: "'s isa"
  assumes exec_nop: "isNOP d \<Longrightarrow> i_exec M d s = s"
    and same_exec: "isSame d d' \<Longrightarrow> i_exec M d = i_exec M d'"
    and same_cond: "isSame d d' \<Longrightarrow> i_cond M d = i_cond M d'"
    and same_target: "isSame d d' \<Longrightarrow> i_target M d = i_target M d'"
    and invert: "invertCondition d = Ret d' \<Longrightarrow> i_cond M d' s \<longleftrightarrow> \<not> i_cond M d s"
begin

lemma walk_same:
  "isSame (dat i) (dat j) \<Longrightarrow> collIfBranch i = collIfBranch j \<Longrightarrow> collElseBranch i = collElseBranch j \<Longrightarrow>
    walk M (i # c) = walk M (j # c)"
  using same_exec [of "dat i" "dat j"] same_cond [of "dat i" "dat j"] same_target [of "dat i" "dat j"]
  by (cases i; cases j) (auto simp: fun_eq_iff step1_def isSame_def split: tInstructionClass.split)

lemma walk_nop: "isNOP (dat i) \<Longrightarrow> walk M (i # c) = walk M c"
  by (cases i) (auto simp: fun_eq_iff step1_def exec_nop isNOP_def class_of_def conditional_branch_def
      split: tInstructionType.split_asm)

lemma stripNops_preserves:
  assumes "tree_ok P" and "stripNops P = Ret (Some P')"
  shows "evaluates M P s r \<longleftrightarrow> evaluates M P' s r"
proof -
  from assms(2) obtain xs ys k where e: "edit xs ys k P P'" and f: "stripNops_here xs = Ret (Some ys)"
    using rewrite_first_edit unfolding stripNops_def by blast
  from f obtain i rest where xs: "xs = i # rest" "ys = rest" "isNOP (dat i)" "\<not> bIsJumpTarget (dat i)"
    by (cases xs) (auto split: if_split_asm)
  obtain d ifs els ins where i: "i = Instruction d ifs els ins" by (cases i)
  note hole = tree_ok_hole [OF assms(1) e]
  have cls: "class_of (eType d) \<noteq> IC_BRANCH"
    using xs(3) i by (auto simp: isNOP_def class_of_def conditional_branch_def split: tInstructionType.split_asm)
  have leaf: "ifs = []" "els = []"
    using hole(2) [of i] cls by (auto simp: xs(1) i leaf_ok_def)
  have lab: "uAddress d \<notin> set (targets P)"
    using hole(3) [of i] xs i by simp
  have sub: "set (datas ys) \<subseteq> set (datas xs) \<union> {d. jump_ok d \<and> \<not> live_jump d}"
    by (auto simp: xs i)
  show ?thesis
  proof (rule edit_preserves [OF assms(1) e sub])
    show "simulates M P (xs @ k) (ys @ k)"
      using xs by (simp add: walk_nop simulatesI)
  next
    fix a assume "a \<in> set (targets P')" "set (targets P') \<subseteq> set (targets P)"
    with lab have "uAddress d \<noteq> a" by blast
    then show "rel_option (\<lambda>u v. simulates M P (u @ k) (v @ k)) (cont_at xs a) (cont_at ys a)"
      by (simp add: xs i leaf option.rel_refl)
  qed
qed

lemma detectOnlyElseBranch_preserves:
  assumes "tree_ok P" and "detectOnlyElseBranch P = Ret (Some P')"
  shows "evaluates M P s r \<longleftrightarrow> evaluates M P' s r"
proof -
  from assms(2) obtain xs ys k where e: "edit xs ys k P P'" and f: "detectOnlyElseBranch_here xs = Ret (Some ys)"
    using rewrite_first_edit unfolding detectOnlyElseBranch_def by blast
  from f obtain d els ins rest d' where xs: "xs = Instruction d [] els ins # rest"
    "ys = Instruction d' els [] ins # rest" and inv: "invertCondition d = Ret d'"
    by (cases xs rule: detectOnlyElseBranch_here.cases) (auto simp: result_simps split: if_split_asm)
  note inv' = invertCondition_Ret [OF inv]
  have "jump_ok d" using tree_ok_hole(1) [OF assms(1) e] xs by simp
  then have "jump_ok d' \<and> \<not> live_jump d'"
    using inv' by (simp add: branch_not_live) (simp add: live_jump_def)
  then have sub: "set (datas ys) \<subseteq> set (datas xs) \<union> {d. jump_ok d \<and> \<not> live_jump d}"
    by (auto simp: xs)
  have here: "simulates M P (xs @ k) (ys @ k)"
    using inv' invert [OF inv] by (intro simulatesI) (simp add: fun_eq_iff xs walk_branch del: walk.simps)
  show ?thesis
    by (rule edit_preserves [OF assms(1) e sub here])
      (use here inv'(3) in \<open>auto simp: xs option.rel_refl split: option.split\<close>)
qed

lemma detectEndingIfBranch_preserves:
  assumes "tree_ok P" and "detectEndingIfBranch P = Ret (Some P')"
  shows "evaluates M P s r \<longleftrightarrow> evaluates M P' s r"
proof -
  from assms(2) obtain xs ys k where e: "edit xs ys k P P'" and f: "detectEndingIfBranch_here xs = Ret (Some ys)"
    using rewrite_first_edit unfolding detectEndingIfBranch_def by blast
  from f obtain d ifs els ins rest where xs: "xs = Instruction d ifs els ins # rest"
    "ys = Instruction d ifs [] ins # els @ rest" and ne: "ifs \<noteq> []" and cl: "closes_block (dat (last ifs))"
    by (cases xs rule: detectEndingIfBranch_here.cases) (auto split: if_split_asm)
  note leaf = tree_ok_hole(2) [OF assms(1) e]
  have last: "collIfBranch (last ifs) = []" "collElseBranch (last ifs) = []"
    using leaf [of "last ifs"] last_in_preorder [OF ne] cl
    by (auto simp: xs(1) leaf_ok_def closes_block_def class_of_def conditional_branch_def)
  have sub: "set (datas ys) \<subseteq> set (datas xs) \<union> {d. jump_ok d \<and> \<not> live_jump d}"
    by (auto simp: xs)
  have cls: "class_of (eType d) = IC_BRANCH"
    using leaf [of "Instruction d ifs els ins"] ne by (auto simp: xs(1) leaf_ok_def)
  have here: "simulates M P (xs @ k) (ys @ k)"
    unfolding xs append_Cons append_assoc
    by (intro simulates_branch simulatesI [of M "ifs @ c" for c]) (simp_all add: cls closed_walk [OF ne cl])
  have inside: "simulates M P (w @ c) (w @ c')" if "cont_at ifs a = Some w" for a w c c'
    using cont_at_last [OF that last] cl by (auto intro: simulatesI simp: closed_walk)
  show ?thesis
    by (rule edit_preserves [OF assms(1) e sub here])
      (use here inside in \<open>auto simp: xs option.rel_refl cont_at_append split: option.split\<close>)
qed

lemma detectElseBranch_preserves:
  assumes "tree_ok P" and "detectElseBranch P = Ret (Some P')" and "labels_kept P P'"
  shows "evaluates M P s r \<longleftrightarrow> evaluates M P' s r"
proof -
  from assms(2) obtain xs ys k where e: "edit xs ys k P P'" and f: "detectElseBranch_here xs = Ret (Some ys)"
    using rewrite_first_edit unfolding detectElseBranch_def by blast
  from f obtain d ifs ins rest n where xs0: "xs = Instruction d ifs [] ins # rest"
      "ys = Instruction d (butlast ifs) (take n rest) ins # drop n rest" "ifs \<noteq> []"
    and j0: "eType (dat (last ifs)) = IT_J" "else_block (uJumpAddress (dat (last ifs))) rest = Some n"
    by (cases xs rule: detectElseBranch_here.cases) (auto split: if_split_asm option.split_asm)
  define A j where "A = butlast ifs" and "j = last ifs"
  have "ifs = A @ [j]"
    using xs0(3) by (simp add: A_def j_def)
  with xs0 j0 have xs: "xs = Instruction d (A @ [j]) [] ins # rest"
      "ys = Instruction d A (take n rest) ins # drop n rest"
    and j: "eType (dat j) = IT_J" and n: "else_block (uJumpAddress (dat j)) rest = Some n"
    by simp_all
  define B x R where "B = take n rest" and "x = rest ! n" and "R = drop (Suc n) rest"
  have rest: "rest = B @ x # R" and x: "uAddress (dat x) = uJumpAddress (dat j)" and dr: "drop n rest = x # R"
    using else_block_Some [OF n] by (auto simp: B_def x_def R_def Cons_nth_drop_Suc)
  note ys = xs(2) [unfolded dr, folded B_def]
  note hole = tree_ok_hole [OF assms(1) e]
  obtain dj insj where J: "j = Instruction dj [] [] insj"
    using hole(2) [of j] j by (cases j) (auto simp: xs(1) leaf_ok_def class_of_def conditional_branch_def)
  have cls: "class_of (eType d) = IC_BRANCH"
    using hole(2) [of "Instruction d (A @ [j]) [] ins"] by (auto simp: xs(1) leaf_ok_def)
  have "uJumpAddress dj \<in> set (targets P)"
    using hole(1,5) j J by (auto simp: xs(1) set_targets_J)
  note uniq = hole(4) [OF this]
  have split: "xs = (Instruction d (A @ [j]) [] ins # B) @ x # R"
    by (simp add: xs(1) rest)
  have "cont_at xs (uJumpAddress dj) = Some (x # R)"
    using edit_count_le [OF e, of "uJumpAddress dj"] uniq cont_at_head [of x R] x J
    unfolding split by (intro cont_at_suffix) simp_all
  from edit_cont_unique [OF e uniq this]
  have jump: "simulates M P (w @ j # c) (w @ x # R @ k)" for w c
    using j J by (intro simulates_append jump_simulates) auto
  have here: "simulates M P (xs @ k) (ys @ k)"
    unfolding xs(1) ys rest append_Cons append_assoc
    using jump [of A] by (intro simulates_branch) (simp_all add: cls)
  have sub: "set (datas ys) \<subseteq> set (datas xs) \<union> {d. jump_ok d \<and> \<not> live_jump d}"
    by (auto simp: xs(1) ys rest)
  show ?thesis
  proof (rule edit_preserves [OF assms(1) e sub here])
    fix a assume a: "a \<in> set (targets P')" "set (targets P') \<subseteq> set (targets P)"
    have "count_list (labels xs) a = Suc (count_list (labels ys) a)" if "uAddress dj = a"
      using that by (simp add: xs(1) ys rest J)
    then have "uAddress dj \<noteq> a"
      using removed_label [OF assms(1) e assms(3) a] by blast
    then show "rel_option (\<lambda>u v. simulates M P (u @ k) (v @ k)) (cont_at xs a) (cont_at ys a)"
      using here jump by (auto simp: xs(1) ys rest J cont_at_append option.rel_refl split: option.split)
  qed
qed

lemma detectIdenticalIfElseBranch_preserves:
  assumes "tree_ok P" and "detectIdenticalIfElseBranch P = Ret (Some P')" and "labels_kept P P'"
  shows "evaluates M P s r \<longleftrightarrow> evaluates M P' s r"
proof -
  from assms(2) obtain xs ys k where e: "edit xs ys k P P'" and f: "detectIdenticalIfElseBranch_here xs = Ret (Some ys)"
    using rewrite_first_edit unfolding detectIdenticalIfElseBranch_def by blast
  from f obtain d A p B q ins rest where xs: "xs = Instruction d (A @ [p]) (B @ [q]) ins # rest"
      "ys = Instruction d A B ins # p # rest"
    and pq: "collIfBranch p = []" "collElseBranch p = []" "collIfBranch q = []" "collElseBranch q = []"
      "isSame (dat p) (dat q)"
    by (cases xs rule: detectIdenticalIfElseBranch_here.cases)
      (fastforce simp: result_simps split: if_split_asm intro: append_butlast_last_id [symmetric])+
  obtain dp insp dq insq where P: "p = Instruction dp [] [] insp" "q = Instruction dq [] [] insq"
    using pq by (cases p; cases q) auto
  have same: "walk M (q # c) = walk M (p # c)" for c
    using pq by (intro walk_same [symmetric]) auto
  then have swap: "simulates M P (w @ q # c) (w @ p # c)" for w c
    by (intro simulates_append simulatesI)
  have cls: "class_of (eType d) = IC_BRANCH"
    using tree_ok_hole(2) [OF assms(1) e, of "Instruction d (A @ [p]) (B @ [q]) ins"] by (auto simp: xs(1) leaf_ok_def)
  have here: "simulates M P (xs @ k) (ys @ k)"
    unfolding xs append_Cons append_assoc using swap [of B] by (intro simulates_branch) (simp_all add: cls)
  have sub: "set (datas ys) \<subseteq> set (datas xs) \<union> {d. jump_ok d \<and> \<not> live_jump d}"
    by (auto simp: xs P)
  show ?thesis
  proof (rule edit_preserves [OF assms(1) e sub here])
    fix a assume a: "a \<in> set (targets P')" "set (targets P') \<subseteq> set (targets P)"
    have "count_list (labels xs) a = Suc (count_list (labels ys) a)" if "uAddress dq = a"
      using that by (simp add: xs P)
    then have "uAddress dq \<noteq> a"
      using removed_label [OF assms(1) e assms(3) a] by blast
    moreover have "count_list (labels xs) a \<le> 1"
      using a tree_ok_hole(4) [OF assms(1) e, of a] edit_count_le [OF e, of a] by fastforce
    then have "uAddress dp = a \<Longrightarrow> cont_at B a = None \<and> cont_at rest a = None"
      by (auto simp: xs P cont_at_None count_list_pos split: if_split_asm)
    ultimately show "rel_option (\<lambda>u v. simulates M P (u @ k) (v @ k)) (cont_at xs a) (cont_at ys a)"
      using here swap by (auto simp: xs P cont_at_append option.rel_refl split: option.split)
  qed
qed

lemma detectEndOfBranchJumps_preserves:
  assumes "tree_ok P" and "detectEndOfBranchJumps P = Ret (Some P')" and "labels_kept P P'"
  shows "evaluates M P s r \<longleftrightarrow> evaluates M P' s r"
proof -
  from detectEndOfBranchJumps_edit [OF assms(2)] obtain xs ys x k d ifs ins R
    where e: "edit xs ys (x # k) P P'" and xs0: "xs = Instruction d ifs [] ins # R" "ifs \<noteq> []"
      "ys = [Instruction d (butlast ifs) R ins]"
    and j00: "uJumpAddress (dat (last ifs)) = uAddress (dat x)" "\<not> bIgnoreJump (dat (last ifs))"
      "uAddress (dat x) \<noteq> 0"
    unfolding branch_end_edit_def closing_edit_def by blast
  define A j where "A = butlast ifs" and "j = last ifs"
  have "ifs = A @ [j]"
    using xs0(2) by (simp add: A_def j_def)
  with xs0 j00 have xs: "xs = Instruction d (A @ [j]) [] ins # R" "ys = [Instruction d A R ins]"
    and j0: "uJumpAddress (dat j) = uAddress (dat x)" "\<not> bIgnoreJump (dat j)" "uAddress (dat x) \<noteq> 0"
    by simp_all
  note hole = tree_ok_hole [OF assms(1) e]
  have j: "eType (dat j) = IT_J"
    using hole(1) j0 by (cases j) (auto simp: xs(1) jump_ok_def live_jump_def)
  obtain dj insj where J: "j = Instruction dj [] [] insj"
    using hole(2) [of j] j by (cases j) (auto simp: xs(1) leaf_ok_def class_of_def conditional_branch_def)
  have cls: "class_of (eType d) = IC_BRANCH"
    using hole(2) [of "Instruction d (A @ [j]) [] ins"] by (auto simp: xs(1) leaf_ok_def)
  have "uJumpAddress dj \<in> set (targets P)"
    using hole(1,5) j J by (auto simp: xs(1) set_targets_J)
  then have "count_list (labels P) (uAddress (dat x)) \<le> 1"
    using hole(4) j0(1) J by fastforce
  from edit_cont_next [OF e this refl]
  have jump: "simulates M P (w @ j # c) (w @ x # k)" for w c
    using j j0(1) by (intro simulates_append jump_simulates) auto
  have here: "simulates M P (xs @ x # k) (ys @ x # k)"
    unfolding xs append_Cons append_assoc append_Nil
    using jump [of A] by (intro simulates_branch) (simp_all add: cls)
  have sub: "set (datas ys) \<subseteq> set (datas xs) \<union> {d. jump_ok d \<and> \<not> live_jump d}"
    by (auto simp: xs)
  show ?thesis
  proof (rule edit_preserves [OF assms(1) e sub here])
    fix a assume a: "a \<in> set (targets P')" "set (targets P') \<subseteq> set (targets P)"
    have "count_list (labels xs) a = Suc (count_list (labels ys) a)" if "uAddress dj = a"
      using that by (simp add: xs J)
    then have "uAddress dj \<noteq> a"
      using removed_label [OF assms(1) e assms(3) a] by blast
    then show "rel_option (\<lambda>u v. simulates M P (u @ x # k) (v @ x # k)) (cont_at xs a) (cont_at ys a)"
      using here jump by (auto simp: xs J cont_at_append option.rel_refl split: option.split)
  qed
qed

end

end
