(* ===== verification/Mips.thy ===== *)
theory Mips
  imports Preservation
begin

text \<open>
  The MIPS32 instructions that the decompiler knows, as functions on a machine state, and the proof
  that they satisfy the laws of \<^const>\<open>isa_laws\<close>. The reference is the architecture manual; the binary
  is little endian, as \<open>parseFromFile\<close> reads it. Address errors and other exceptions are left out.

  The decoder drops the coprocessor register number of MFC0 and MTC0, so the state has one
  coprocessor register per select field. The effect of a call is a parameter of the machine: \<open>callee\<close>
  maps the address called and the state at the call to the state on return. At the call the link register
  holds the return address, a position in the binary that a tree of instructions does not have; \<open>callee\<close> is given
  the state without it.
\<close>

record mach =
  gpr :: "tRegister \<Rightarrow> u32"
  hi :: u32
  lo :: u32
  mem :: "u32 \<Rightarrow> u8"
  c0 :: "u8 \<Rightarrow> u32"

definition rd_reg :: "mach \<Rightarrow> tRegister \<Rightarrow> u32" where
  "rd_reg s r = (if r = R_ZERO then 0 else gpr s r)"

definition wr_reg :: "tRegister \<Rightarrow> u32 \<Rightarrow> mach \<Rightarrow> mach" where
  "wr_reg r v s = (if r = R_ZERO then s else s\<lparr>gpr := (gpr s)(r := v)\<rparr>)"

definition load16 :: "mach \<Rightarrow> u32 \<Rightarrow> u16" where
  "load16 s a = ucast (mem s a) OR push_bit 8 (ucast (mem s (a + 1)))"

definition load32 :: "mach \<Rightarrow> u32 \<Rightarrow> u32" where
  "load32 s a = ucast (load16 s a) OR push_bit 16 (ucast (load16 s (a + 2)))"

definition store8 :: "u32 \<Rightarrow> u8 \<Rightarrow> mach \<Rightarrow> mach" where
  "store8 a v s = s\<lparr>mem := (mem s)(a := v)\<rparr>"

definition store16 :: "u32 \<Rightarrow> u16 \<Rightarrow> mach \<Rightarrow> mach" where
  "store16 a v s = store8 (a + 1) (ucast (drop_bit 8 v)) (store8 a (ucast v) s)"

definition store32 :: "u32 \<Rightarrow> u32 \<Rightarrow> mach \<Rightarrow> mach" where
  "store32 a v s = store16 (a + 2) (ucast (drop_bit 16 v)) (store16 a (ucast v) s)"

definition ea :: "inst_data \<Rightarrow> mach \<Rightarrow> u32" where
  "ea d s = rd_reg s (eRS d) + scast (iSI d)"

definition bool_word :: "bool \<Rightarrow> u32" where
  "bool_word b = (if b then 1 else 0)"

text \<open>The word and the byte number that the unaligned loads and stores work on.\<close>

definition aligned :: "u32 \<Rightarrow> u32" where
  "aligned a = a AND NOT 3"

definition lane :: "u32 \<Rightarrow> nat" where
  "lane a = unat (a AND 3)"

definition mips_exec :: "inst_data \<Rightarrow> mach \<Rightarrow> mach" where
  "mips_exec d s =
    (let rs = rd_reg s (eRS d); rt = rd_reg s (eRT d); a = ea d s; sa = unat (uSA d) in
     case eType d of
       IT_ADDIU \<Rightarrow> wr_reg (eRT d) (rs + scast (iSI d)) s
     | IT_ADDU \<Rightarrow> wr_reg (eRD d) (rs + rt) s
     | IT_AND \<Rightarrow> wr_reg (eRD d) (rs AND rt) s
     | IT_ANDI \<Rightarrow> wr_reg (eRT d) (rs AND ucast (uUI d)) s
     | IT_LB \<Rightarrow> wr_reg (eRT d) (scast (mem s a)) s
     | IT_LBU \<Rightarrow> wr_reg (eRT d) (ucast (mem s a)) s
     | IT_LH \<Rightarrow> wr_reg (eRT d) (scast (load16 s a)) s
     | IT_LHU \<Rightarrow> wr_reg (eRT d) (ucast (load16 s a)) s
     | IT_LUI \<Rightarrow> wr_reg (eRT d) (push_bit 16 (ucast (uUI d))) s
     | IT_LW \<Rightarrow> wr_reg (eRT d) (load32 s a) s
     | IT_LWL \<Rightarrow> wr_reg (eRT d)
         (push_bit (8 * (3 - lane a)) (load32 s (aligned a)) OR take_bit (8 * (3 - lane a)) rt) s
     | IT_LWR \<Rightarrow> wr_reg (eRT d)
         (drop_bit (8 * lane a) (load32 s (aligned a)) OR (rt AND NOT (mask (8 * (4 - lane a))))) s
     | IT_MFC0 \<Rightarrow> wr_reg (eRT d) (c0 s (uSEL d)) s
     | IT_MFHI \<Rightarrow> wr_reg (eRD d) (hi s) s
     | IT_MTC0 \<Rightarrow> s\<lparr>c0 := (c0 s)(uSEL d := rt)\<rparr>
     | IT_MULT \<Rightarrow> (let p = (scast rs :: 64 word) * scast rt in s\<lparr>hi := ucast (drop_bit 32 p), lo := ucast p\<rparr>)
     | IT_MULTU \<Rightarrow> (let p = (ucast rs :: 64 word) * ucast rt in s\<lparr>hi := ucast (drop_bit 32 p), lo := ucast p\<rparr>)
     | IT_NOR \<Rightarrow> wr_reg (eRD d) (NOT (rs OR rt)) s
     | IT_OR \<Rightarrow> wr_reg (eRD d) (rs OR rt) s
     | IT_ORI \<Rightarrow> wr_reg (eRT d) (rs OR ucast (uUI d)) s
     | IT_SB \<Rightarrow> store8 a (ucast rt) s
     | IT_SH \<Rightarrow> store16 a (ucast rt) s
     | IT_SLL \<Rightarrow> wr_reg (eRD d) (push_bit sa rt) s
     | IT_SLTI \<Rightarrow> wr_reg (eRT d) (bool_word (sint rs < sint (iSI d))) s
     | IT_SLTIU \<Rightarrow> wr_reg (eRT d) (bool_word (rs < scast (iSI d))) s
     | IT_SLTU \<Rightarrow> wr_reg (eRD d) (bool_word (rs < rt)) s
     | IT_SRA \<Rightarrow> wr_reg (eRD d) (signed_drop_bit sa rt) s
     | IT_SRAV \<Rightarrow> wr_reg (eRD d) (signed_drop_bit (unat (rs AND 0x1F)) rt) s
     | IT_SRL \<Rightarrow> wr_reg (eRD d) (drop_bit sa rt) s
     | IT_SUBU \<Rightarrow> wr_reg (eRD d) (rs - rt) s
     | IT_SW \<Rightarrow> store32 a rt s
     | IT_SWL \<Rightarrow> store32 (aligned a)
         (drop_bit (8 * (3 - lane a)) rt OR (load32 s (aligned a) AND NOT (mask (8 * (lane a + 1))))) s
     | IT_SWR \<Rightarrow> store32 (aligned a) (push_bit (8 * lane a) rt OR take_bit (8 * lane a) (load32 s (aligned a))) s
     | IT_XORI \<Rightarrow> wr_reg (eRT d) (rs XOR ucast (uUI d)) s
     | _ \<Rightarrow> s)"

definition mips_cond :: "inst_data \<Rightarrow> mach \<Rightarrow> bool" where
  "mips_cond d s =
    (let rs = rd_reg s (eRS d); rt = rd_reg s (eRT d) in
     case eType d of
       IT_BEQ \<Rightarrow> rs = rt
     | IT_BEQL \<Rightarrow> rs = rt
     | IT_BNE \<Rightarrow> rs \<noteq> rt
     | IT_BNEL \<Rightarrow> rs \<noteq> rt
     | IT_BGEZ \<Rightarrow> sint rs \<ge> 0
     | IT_BGTZ \<Rightarrow> sint rs > 0
     | IT_BLEZ \<Rightarrow> sint rs \<le> 0
     | IT_BLTZ \<Rightarrow> sint rs < 0
     | _ \<Rightarrow> False)"

definition mips :: "(u32 \<Rightarrow> mach \<Rightarrow> mach) \<Rightarrow> mach isa" where
  "mips callee = \<lparr>i_exec = mips_exec, i_cond = mips_cond, i_target = (\<lambda>d s. rd_reg s (eRS d)),
    i_link = (\<lambda>d. wr_reg (eRD d)), i_call = (\<lambda>a s. callee a (wr_reg R_RA 0 s))\<rparr>"

lemma mips_simps [simp]:
  "i_exec (mips callee) = mips_exec" "i_cond (mips callee) = mips_cond"
  "i_target (mips callee) d s = rd_reg s (eRS d)" "i_link (mips callee) d = wr_reg (eRD d)"
  "i_call (mips callee) a s = callee a (wr_reg R_RA 0 s)"
  by (simp_all add: mips_def)

section \<open>The laws hold\<close>

interpretation mips: isa_laws "mips callee" for callee
proof
  show "i_exec (mips callee) d s = s" if "isNOP d" for d s
    using that by (auto simp: isNOP_def mips_exec_def Let_def split: tInstructionType.split_asm)
  show "i_exec (mips callee) d = i_exec (mips callee) d'" if "isSame d d'" for d d'
    using that by (cases "eType d'") (simp_all add: isSame_def mips_exec_def ea_def fun_eq_iff Let_def)
  show "i_cond (mips callee) d = i_cond (mips callee) d'" if "isSame d d'" for d d'
    using that by (cases "eType d'") (simp_all add: isSame_def mips_cond_def fun_eq_iff Let_def)
  show "i_target (mips callee) d = i_target (mips callee) d'" if "isSame d d'" for d d'
    using that by (simp add: isSame_def fun_eq_iff)
  show "i_cond (mips callee) d' s \<longleftrightarrow> \<not> i_cond (mips callee) d s" if "invertCondition d = Ret d'" for d d' s
    using that by (cases "eType d") (auto simp: invertCondition_def result_simps mips_cond_def Let_def)
qed

text \<open>An instruction changes no register but its result register.\<close>

lemma rd_wr_reg [simp]: "rd_reg (wr_reg r v s) r' = (if r = r' \<and> r \<noteq> R_ZERO then v else rd_reg s r')"
  by (simp add: rd_reg_def wr_reg_def)

lemma rd_reg_store [simp]:
  "rd_reg (store8 a b s) r = rd_reg s r" "rd_reg (store16 a h s) r = rd_reg s r"
  "rd_reg (store32 a w s) r = rd_reg s r"
  by (simp_all add: rd_reg_def store8_def store16_def store32_def)

lemma rd_reg_exec: "result_of d \<noteq> Some r \<Longrightarrow> rd_reg (mips_exec d s) r = rd_reg s r"
  by (cases "eType d") (simp_all add: mips_exec_def result_of_def Let_def, simp_all add: rd_reg_def)

text \<open>An instruction has nothing to do with a register that is none of its operands.\<close>

lemma wr_reg_store:
  "store8 a b (wr_reg r v s) = wr_reg r v (store8 a b s)" "store16 a h (wr_reg r v s) = wr_reg r v (store16 a h s)"
  "store32 a w (wr_reg r v s) = wr_reg r v (store32 a w s)"
  by (simp_all add: wr_reg_def store8_def store16_def store32_def)

lemma wr_reg_commute: "r \<noteq> r' \<Longrightarrow> wr_reg r v (wr_reg r' v' s) = wr_reg r' v' (wr_reg r v s)"
  by (simp add: wr_reg_def fun_upd_twist)

lemma wr_reg_twice [simp]: "wr_reg r v (wr_reg r v' s) = wr_reg r v s"
  by (simp add: wr_reg_def)

lemma wr_reg_fields [simp]:
  "hi (wr_reg r v s) = hi s" "lo (wr_reg r v s) = lo s" "mem (wr_reg r v s) = mem s" "c0 (wr_reg r v s) = c0 s"
  "load16 (wr_reg r v s) a = load16 s a" "load32 (wr_reg r v s) a = load32 s a"
  by (simp_all add: wr_reg_def load16_def load32_def)

lemma wr_reg_updates:
  "(wr_reg r v s)\<lparr>hi := a, lo := b\<rparr> = wr_reg r v (s\<lparr>hi := a, lo := b\<rparr>)"
  "(wr_reg r v s)\<lparr>c0 := f\<rparr> = wr_reg r v (s\<lparr>c0 := f\<rparr>)"
  by (simp_all add: wr_reg_def)

lemma mips_exec_wr_reg:
  assumes "r \<notin> {eRS n, eRT n, eRD n}"
  shows "mips_exec n (wr_reg r v s) = wr_reg r v (mips_exec n s)"
proof -
  have "rd_reg (wr_reg r v s) (eRS n) = rd_reg s (eRS n)" "rd_reg (wr_reg r v s) (eRT n) = rd_reg s (eRT n)"
    "ea n (wr_reg r v s) = ea n s"
    using assms by (auto simp: ea_def)
  moreover have "wr_reg (eRT n) w (wr_reg r v s) = wr_reg r v (wr_reg (eRT n) w s)"
    "wr_reg (eRD n) w (wr_reg r v s) = wr_reg r v (wr_reg (eRD n) w s)" for w
    using assms by (auto intro: wr_reg_commute)
  ultimately show ?thesis
    by (cases "eType n") (simp_all add: mips_exec_def Let_def wr_reg_store wr_reg_updates)
qed

end
