(* ===== verification/Rounds.thy ===== *)
theory Rounds
  imports Mips
begin

text \<open>
  One round of the loop of \<open>main\<close> (\<^verbatim>\<open>src/tools/mipsdec/mipsdec.cpp\<close>): a pass that changes the tree,
  then the queued insertions, the queued deletions and the marking of the jump targets. The round
  preserves the behaviour of the function and the conditions under which the next round does.
\<close>

section \<open>Finishing a round\<close>

definition finish_round :: "tInstList \<Rightarrow> tInstList result" where
  "finish_round xs = r_map updateJumpTargets (applyDelayedDeletes (applyDelayedInserts xs))"

lemma finish_round_eq: "finish_round xs = Ret (updateJumpTargets (prune (expand xs)))"
  by (simp add: finish_round_def applyDelayedInserts_expand applyDelayedDeletes_prune)

lemma settled_expand: "list_all settled (preorder xs) \<Longrightarrow> expand xs = xs"
  by (induction xs rule: inst_list_induct) (auto simp: settled_def)

lemma settled_prune: "list_all settled (preorder xs) \<Longrightarrow> prune xs = xs"
  by (induction xs rule: inst_list_induct) (auto simp: settled_def)

text \<open>The flag of the jump targets has no influence on the execution.\<close>

lemma datas_mark: "datas (markJumpTargets xs ts) = map (\<lambda>d. d\<lparr>bIsJumpTarget := uAddress d \<in> set ts\<rparr>) (datas xs)"
  by (induction xs rule: inst_list_induct) (auto simp: list_ex_iff)

lemma labels_mark [simp]: "labels (markJumpTargets xs ts) = labels xs"
  by (induction xs rule: inst_list_induct) auto

lemma mark_append [simp]: "markJumpTargets (xs @ ys) ts = markJumpTargets xs ts @ markJumpTargets ys ts"
  by (induction xs rule: inst_list_induct) auto

lemma cont_at_mark: "cont_at (markJumpTargets xs ts) a = map_option (\<lambda>w. markJumpTargets w ts) (cont_at xs a)"
  by (induction xs rule: inst_list_induct) (auto split: option.split)

lemma jump_ok_flag [simp]: "jump_ok (d\<lparr>bIsJumpTarget := b\<rparr>) = jump_ok d"
  by (simp add: jump_ok_def live_jump_def)

lemma isSame_flag: "isSame (d\<lparr>bIsJumpTarget := b\<rparr>) d"
  by (simp add: isSame_def)

context isa_laws
begin

lemma step1_flag: "step1 M (d\<lparr>bIsJumpTarget := b\<rparr>) = step1 M d"
  using same_exec [OF isSame_flag, of b d] same_cond [OF isSame_flag, of b d] same_target [OF isSame_flag, of b d]
  by (auto simp: fun_eq_iff step1_def split: tInstructionClass.split)

lemma walk_mark: "walk M (markJumpTargets xs ts) = walk M xs"
  by (induction xs rule: inst_list_induct) (rule ext, simp add: step1_flag)+

lemma evaluates_mark: "evaluates M (updateJumpTargets P) s r \<longleftrightarrow> evaluates M P s r"
proof -
  have "enter M (updateJumpTargets P) = enter M P"
    by (simp add: fun_eq_iff enter_def updateJumpTargets_def cont_at_mark option.map_comp comp_def walk_mark)
  then show ?thesis
    by (simp add: evaluates_def updateJumpTargets_def walk_mark)
qed

end

section \<open>The conditions for the next round\<close>

lemma edit_nonempty: "edit xs ys k P P' \<Longrightarrow> xs \<noteq> [] \<Longrightarrow> P \<noteq> []"
  by (induction rule: edit.induct) auto

lemma edit_leaf_ok:
  "edit xs ys k P P' \<Longrightarrow> xs \<noteq> [] \<Longrightarrow> list_all leaf_ok (preorder P) \<Longrightarrow> list_all leaf_ok (preorder ys) \<Longrightarrow>
    list_all leaf_ok (preorder P')"
proof (induction rule: edit.induct)
  case (edit_next k P P' i)
  then show ?case by (cases i) auto
next
  case (edit_if k P P' rest d els ins)
  then show ?case using edit_nonempty [OF edit_if.hyps] by (auto simp: leaf_ok_def)
next
  case (edit_else k P P' rest d ifs ins)
  then show ?case using edit_nonempty [OF edit_else.hyps] by (auto simp: leaf_ok_def)
qed simp

lemma edit_settled:
  "edit xs ys k P P' \<Longrightarrow> list_all settled (preorder P) \<Longrightarrow> list_all settled (preorder ys) \<Longrightarrow>
    list_all settled (preorder P')"
proof (induction rule: edit.induct)
  case (edit_next k P P' i)
  then show ?case by (cases i) auto
qed (auto simp: settled_def)

lemma marked_update: "marked (updateJumpTargets P)"
  by (auto simp: marked_def updateJumpTargets_def preorder_mark getJumpTargets_eq)

lemma tree_ok_update:
  assumes "jumps_ok P" and "list_all leaf_ok (preorder P)" and "list_all settled (preorder P)"
    and "\<And>a. a \<in> set (targets P) \<Longrightarrow> count_list (labels P) a \<le> 1"
  shows "tree_ok (updateJumpTargets P)"
  using assms marked_update [of P]
  by (auto simp: tree_ok_def updateJumpTargets_def datas_mark preorder_mark list_all_iff leaf_ok_def settled_def)

lemma edit_round:
  assumes "tree_ok P" and e: "edit xs ys k P P'" and "xs \<noteq> []"
    and "set (datas ys) \<subseteq> set (datas xs) \<union> {d. jump_ok d \<and> \<not> live_jump d}"
    and "list_all leaf_ok (preorder ys)" and "list_all settled (preorder ys)"
    and "\<And>a. count_list (labels ys) a \<le> count_list (labels xs) a"
  shows "\<exists>Q. finish_round P' = Ret Q \<and> tree_ok Q \<and>
    (\<forall>M s r. isa_laws M \<longrightarrow> evaluates M Q s r = evaluates M P' s r)"
proof -
  note ok = assms(1) [unfolded tree_ok_def]
  have settled: "list_all settled (preorder P')"
    using ok assms(6) edit_settled [OF e] by blast
  then have "finish_round P' = Ret (updateJumpTargets P')"
    by (simp add: finish_round_eq settled_expand settled_prune)
  moreover have "tree_ok (updateJumpTargets P')"
  proof (rule tree_ok_update)
    show "jumps_ok P'" using ok edit_jumps_ok(1) [OF _ e assms(4)] by blast
    show "list_all leaf_ok (preorder P')" using ok edit_leaf_ok [OF e assms(3)] assms(5) by blast
    show "list_all settled (preorder P')" by (rule settled)
  next
    fix a assume "a \<in> set (targets P')"
    then have "a \<in> set (targets P)" using ok edit_jumps_ok(2) [OF _ e assms(4)] by blast
    with tree_ok_hole(4) [OF assms(1) e] edit_labels [OF e, of a] assms(7) [of a]
    show "count_list (labels P') a \<le> 1" by fastforce
  qed
  ultimately show ?thesis by (auto simp: isa_laws.evaluates_mark)
qed

text \<open>What every pass guarantees of the part it rewrites.\<close>

definition benign :: "tInstList \<Rightarrow> tInstList \<Rightarrow> bool" where
  "benign xs ys \<longleftrightarrow> xs \<noteq> [] \<and> set (datas ys) \<subseteq> set (datas xs) \<union> {d. jump_ok d \<and> \<not> live_jump d} \<and>
    (list_all leaf_ok (preorder xs) \<longrightarrow> list_all leaf_ok (preorder ys)) \<and>
    (list_all settled (preorder xs) \<longrightarrow> list_all settled (preorder ys)) \<and>
    (\<forall>a. count_list (labels ys) a \<le> count_list (labels xs) a)"

lemma split_last: "xs \<noteq> [] \<Longrightarrow> \<exists>A z. xs = A @ [z]"
  by (cases xs rule: rev_cases) auto

lemma stripNops_benign: "stripNops_here xs = Ret (Some ys) \<Longrightarrow> benign xs ys"
proof (cases xs)
  case (Cons i rest)
  assume "stripNops_here xs = Ret (Some ys)"
  with Cons show ?thesis by (cases i) (auto simp: benign_def split: if_split_asm)
qed simp

lemma detectOnlyElseBranch_benign:
  "detectOnlyElseBranch_here xs = Ret (Some ys) \<Longrightarrow> jumps_ok xs \<Longrightarrow> benign xs ys"
proof (cases xs rule: detectOnlyElseBranch_here.cases)
  case (2 d ifs els ins rest)
  assume f: "detectOnlyElseBranch_here xs = Ret (Some ys)" and j: "jumps_ok xs"
  from f 2 obtain d' where ys: "ifs = []" "ys = Instruction d' els [] ins # rest" and inv: "invertCondition d = Ret d'"
    by (auto simp: result_simps split: if_split_asm)
  note inv' = invertCondition_Ret [OF inv]
  have "bDelayedDelete d' = bDelayedDelete d"
    using inv by (auto simp: invertCondition_def result_simps split: tInstructionType.split_asm)
  moreover have "jump_ok d' \<and> \<not> live_jump d'"
    using j 2 inv' by (simp add: branch_not_live) (simp add: live_jump_def)
  ultimately show ?thesis
    using inv' 2 ys by (auto simp: benign_def leaf_ok_def settled_def)
qed simp

lemma detectEndingIfBranch_benign: "detectEndingIfBranch_here xs = Ret (Some ys) \<Longrightarrow> benign xs ys"
  by (cases xs rule: detectEndingIfBranch_here.cases)
    (auto simp: benign_def leaf_ok_def settled_def split: if_split_asm)

lemma detectElseBranch_benign: "detectElseBranch_here xs = Ret (Some ys) \<Longrightarrow> benign xs ys"
proof (cases xs rule: detectElseBranch_here.cases)
  case (2 d ifs els ins rest)
  assume "detectElseBranch_here xs = Ret (Some ys)"
  with 2 obtain n where n: "ifs \<noteq> []" "els = []"
    "ys = Instruction d (butlast ifs) (take n rest) ins # drop n rest"
    by (auto split: if_split_asm option.split_asm)
  moreover obtain B R where R: "rest = B @ R" "take n rest = B" "drop n rest = R"
    by (metis append_take_drop_id)
  moreover from split_last [OF n(1)] obtain A z where A: "ifs = A @ [z]" by blast
  ultimately have "xs = Instruction d (A @ [z]) [] ins # B @ R" "ys = Instruction d A B ins # R"
    using 2 by simp_all
  then show ?thesis
    by (cases z) (auto simp: benign_def leaf_ok_def settled_def)
qed simp

lemma detectIdenticalIfElseBranch_benign: "detectIdenticalIfElseBranch_here xs = Ret (Some ys) \<Longrightarrow> benign xs ys"
proof (cases xs rule: detectIdenticalIfElseBranch_here.cases)
  case (2 d ifs els ins rest)
  assume f: "detectIdenticalIfElseBranch_here xs = Ret (Some ys)"
  with 2 have n: "ifs \<noteq> []" "els \<noteq> []"
    "ys = Instruction d (butlast ifs) (butlast els) ins # last ifs # rest"
    by (auto simp: result_simps split: if_split_asm)
  from split_last [OF n(1)] split_last [OF n(2)] obtain A z B w where A: "ifs = A @ [z]" "els = B @ [w]" by blast
  show ?thesis
    using 2 n A by (cases z; cases w) (auto simp: benign_def leaf_ok_def settled_def)
qed simp

lemma closing_edit_benign: "closing_edit t xs ys \<Longrightarrow> benign xs ys"
proof -
  assume "closing_edit t xs ys"
  then obtain d ifs ins R where n: "xs = Instruction d ifs [] ins # R" "ifs \<noteq> []"
    "ys = [Instruction d (butlast ifs) R ins]" unfolding closing_edit_def by blast
  from split_last [OF n(2)] obtain A z where A: "ifs = A @ [z]" by blast
  show ?thesis
    using n A by (cases z) (auto simp: benign_def leaf_ok_def settled_def)
qed

lemma benign_round:
  assumes "tree_ok P" and e: "edit xs ys k P P'" and b: "benign xs ys"
  shows "\<exists>Q. finish_round P' = Ret Q \<and> tree_ok Q \<and>
    (\<forall>M s r. isa_laws M \<longrightarrow> evaluates M Q s r = evaluates M P' s r)"
proof -
  have "list_all leaf_ok (preorder xs)" "list_all settled (preorder xs)"
    using assms(1) edit_preorder_in [OF e] by (auto simp: tree_ok_def list_all_iff)
  with b show ?thesis
    unfolding benign_def by (intro edit_round [OF assms(1) e]) blast+
qed

lemma local_pass_round:
  assumes "tree_ok P" and "rewrite_first f P = Ret (Some P')"
    and "\<And>xs ys. f xs = Ret (Some ys) \<Longrightarrow> jumps_ok xs \<Longrightarrow> benign xs ys"
  shows "\<exists>Q. finish_round P' = Ret Q \<and> tree_ok Q \<and>
    (\<forall>M s r. isa_laws M \<longrightarrow> evaluates M Q s r = evaluates M P' s r)"
proof -
  from rewrite_first_edit [OF assms(2)] obtain xs ys k where "edit xs ys k P P'" "f xs = Ret (Some ys)" by blast
  with benign_round [OF assms(1)] assms(3) tree_ok_hole(1) [OF assms(1)] show ?thesis by blast
qed

lemma detectEndOfBranchJumps_round:
  assumes "tree_ok P" and "detectEndOfBranchJumps P = Ret (Some P')"
  shows "\<exists>Q. finish_round P' = Ret Q \<and> tree_ok Q \<and>
    (\<forall>M s r. isa_laws M \<longrightarrow> evaluates M Q s r = evaluates M P' s r)"
  using detectEndOfBranchJumps_edit [OF assms(2)] benign_round [OF assms(1) _ closing_edit_benign]
  by (blast elim: branch_end_editE)

lemma round_combine:
  fixes M :: "'s isa"
  assumes "isa_laws M"
    and "\<exists>Q. finish_round P' = Ret Q \<and> tree_ok Q \<and>
      (\<forall>(M :: 's isa) s r. isa_laws M \<longrightarrow> evaluates M Q s r = evaluates M P' s r)"
    and "\<And>s r. evaluates M P s r \<longleftrightarrow> evaluates M P' s r"
  shows "\<exists>Q. finish_round P' = Ret Q \<and> tree_ok Q \<and> (\<forall>s r. evaluates M Q s r \<longleftrightarrow> evaluates M P s r)"
  using assms by metis

section \<open>The restructuring passes are correct\<close>

lemma label_safe_step:
  assumes "tree_ok P" and "p \<in> {stripNops, detectOnlyElseBranch, detectEndingIfBranch}"
    and "p P = Ret (Some P')"
  shows "\<exists>Q. finish_round P' = Ret Q \<and> tree_ok Q \<and>
    (\<forall>s r. evaluates (mips callee) Q s r \<longleftrightarrow> evaluates (mips callee) P s r)"
  using assms(2)
proof (elim insertE emptyE)
  assume p: "p = stripNops"
  note step = assms(3) [unfolded p]
  from round_combine [OF mips.isa_laws_axioms local_pass_round [OF assms(1) step [unfolded stripNops_def] stripNops_benign]
      mips.stripNops_preserves [OF assms(1) step]] show ?thesis .
next
  assume p: "p = detectOnlyElseBranch"
  note step = assms(3) [unfolded p]
  from round_combine [OF mips.isa_laws_axioms local_pass_round [OF assms(1) step [unfolded detectOnlyElseBranch_def]
      detectOnlyElseBranch_benign] mips.detectOnlyElseBranch_preserves [OF assms(1) step]] show ?thesis .
next
  assume p: "p = detectEndingIfBranch"
  note step = assms(3) [unfolded p]
  from round_combine [OF mips.isa_laws_axioms local_pass_round [OF assms(1) step [unfolded detectEndingIfBranch_def]
      detectEndingIfBranch_benign] mips.detectEndingIfBranch_preserves [OF assms(1) step]] show ?thesis .
qed

lemma jump_removing_step:
  assumes "tree_ok P" and "p \<in> {detectElseBranch, detectEndOfBranchJumps, detectIdenticalIfElseBranch}"
    and "p P = Ret (Some P')" and "labels_kept P P'"
  shows "\<exists>Q. finish_round P' = Ret Q \<and> tree_ok Q \<and>
    (\<forall>s r. evaluates (mips callee) Q s r \<longleftrightarrow> evaluates (mips callee) P s r)"
  using assms(2)
proof (elim insertE emptyE)
  assume p: "p = detectElseBranch"
  note step = assms(3) [unfolded p]
  from round_combine [OF mips.isa_laws_axioms local_pass_round [OF assms(1) step [unfolded detectElseBranch_def]
      detectElseBranch_benign] mips.detectElseBranch_preserves [OF assms(1) step assms(4)]] show ?thesis .
next
  assume p: "p = detectEndOfBranchJumps"
  note step = assms(3) [unfolded p]
  from round_combine [OF mips.isa_laws_axioms detectEndOfBranchJumps_round [OF assms(1) step]
      mips.detectEndOfBranchJumps_preserves [OF assms(1) step assms(4)]] show ?thesis .
next
  assume p: "p = detectIdenticalIfElseBranch"
  note step = assms(3) [unfolded p]
  from round_combine [OF mips.isa_laws_axioms local_pass_round [OF assms(1) step [unfolded detectIdenticalIfElseBranch_def]
      detectIdenticalIfElseBranch_benign] mips.detectIdenticalIfElseBranch_preserves [OF assms(1) step assms(4)]]
  show ?thesis .
qed

text \<open>
  C4. A round in which \<open>stripNops\<close>, \<open>detectOnlyElseBranch\<close> or \<open>detectEndingIfBranch\<close> made its change
  returns a tree that computes exactly what the tree before the round computes: from every machine
  state, whatever the called functions do, the same final state, and a run that does not end still
  does not end. The tree also satisfies the conditions for the next round.
\<close>

theorem label_safe_round:
  assumes "tree_ok P" and "p \<in> {stripNops, detectOnlyElseBranch, detectEndingIfBranch}"
    and "p P = Ret (Some P')"
  shows "\<exists>Q. finish_round P' = Ret Q \<and> tree_ok Q \<and>
    (\<forall>s r. evaluates (mips callee) Q s r \<longleftrightarrow> evaluates (mips callee) P s r)"
  using assms by (rule label_safe_step)

text \<open>Small trees to apply the theorems to.\<close>

definition d_jr :: "u32 \<Rightarrow> inst_data" where
  "d_jr a = d_nop\<lparr>uAddress := a, eType := IT_JR, eFormat := IF_RS, eRS := R_RA\<rparr>"

definition d_j :: "u32 \<Rightarrow> u32 \<Rightarrow> inst_data" where
  "d_j a t = d_nop\<lparr>uAddress := a, eType := IT_J, uJumpAddress := t\<rparr>"

lemmas tree_eval = tree_ok_def marked_def jump_ok_def live_jump_def leaf_ok_def settled_def class_of_def
  conditional_branch_def demo_defs d_jr_def d_j_def

theorem label_safe_round_witness:
  "\<exists>Q. finish_round [leaf (d_jr 0x80001004)] = Ret Q \<and> tree_ok Q \<and>
    (\<forall>s r. evaluates (mips (\<lambda>_ s. s)) Q s r \<longleftrightarrow>
      evaluates (mips (\<lambda>_ s. s)) [leaf d_nop, leaf (d_jr 0x80001004)] s r)"
proof (rule label_safe_round)
  show "tree_ok [leaf d_nop, leaf (d_jr 0x80001004)]"
    by (simp add: tree_eval)
  show "stripNops \<in> {stripNops, detectOnlyElseBranch, detectEndingIfBranch}"
    by simp
  show "stripNops [leaf d_nop, leaf (d_jr 0x80001004)] = Ret (Some [leaf (d_jr 0x80001004)])"
    by (simp add: stripNops_def isNOP_def tree_eval)
qed

text \<open>
  C5. The same holds of a round in which \<open>detectElseBranch\<close>, \<open>detectEndOfBranchJumps\<close> or
  \<open>detectIdenticalIfElseBranch\<close> made its change, provided that every address that is still jumped to
  and was a label before is a label after the change.
\<close>

theorem jump_removing_round:
  assumes "tree_ok P" and "p \<in> {detectElseBranch, detectEndOfBranchJumps, detectIdenticalIfElseBranch}"
    and "p P = Ret (Some P')" and "labels_kept P P'"
  shows "\<exists>Q. finish_round P' = Ret Q \<and> tree_ok Q \<and>
    (\<forall>s r. evaluates (mips callee) Q s r \<longleftrightarrow> evaluates (mips callee) P s r)"
  using assms by (rule jump_removing_step)

text \<open>A branch over two instructions whose if part jumps behind them.\<close>

definition demo_else :: tInstList where
  "demo_else = [Instruction ((d_beq 0x80001000 0x8000100C)\<lparr>bIgnoreJump := True\<rparr>)
       [leaf (d_addiu_sp\<lparr>uAddress := 0x80001004\<rparr>), leaf (d_j 0xFFFFFFFF 0x8000100C)] [] [],
     leaf (d_nop\<lparr>uAddress := 0x80001008\<rparr>), leaf ((d_jr 0x8000100C)\<lparr>bIsJumpTarget := True\<rparr>)]"

definition demo_else_done :: tInstList where
  "demo_else_done = [Instruction ((d_beq 0x80001000 0x8000100C)\<lparr>bIgnoreJump := True\<rparr>)
       [leaf (d_addiu_sp\<lparr>uAddress := 0x80001004\<rparr>)] [leaf (d_nop\<lparr>uAddress := 0x80001008\<rparr>)] [],
     leaf ((d_jr 0x8000100C)\<lparr>bIsJumpTarget := True\<rparr>)]"

theorem jump_removing_round_witness:
  "\<exists>Q. finish_round demo_else_done = Ret Q \<and> tree_ok Q \<and>
    (\<forall>s r. evaluates (mips (\<lambda>_ s. s)) Q s r \<longleftrightarrow> evaluates (mips (\<lambda>_ s. s)) demo_else s r)"
proof (rule jump_removing_round)
  show "tree_ok demo_else"
    by (simp add: demo_else_def tree_eval)
  show "detectElseBranch \<in> {detectElseBranch, detectEndOfBranchJumps, detectIdenticalIfElseBranch}"
    by simp
  show "detectElseBranch demo_else = Ret (Some demo_else_done)"
    by (simp add: detectElseBranch_def demo_else_def demo_else_done_def tree_eval)
  show "labels_kept demo_else demo_else_done"
    by (simp add: labels_kept_def demo_else_done_def tree_eval)
qed

end
