(* ===== verification/SlotSemantics.thy ===== *)
theory SlotSemantics
  imports Rounds
begin

text \<open>
  \<open>resolveDelaySlots\<close> against the architecture: \<open>dwalk\<close> executes the instructions as the processor
  does, the instruction after a branch or jump before the transfer takes effect; \<^const>\<open>walk\<close> executes
  the tree that the pass returns, which has no delay slots.
\<close>

section \<open>Execution with delay slots\<close>

text \<open>
  A branch-likely instruction annuls its slot when it is not taken. The target of a register jump is
  read, and the return address of a call saved, before the slot is executed. The two cases of an instruction with a slot at the end of the list
  do not occur in a complete function.
\<close>

fun dwalk :: "'s isa \<Rightarrow> tInstList \<Rightarrow> 's \<Rightarrow> 's flow" where
  "dwalk M [] s = Fall s"
| "dwalk M [i] s = Fall (if slotted i then s else i_exec M (dat i) s)"
| "dwalk M (i # n # rest) s =
    (let d = dat i; s' = i_exec M (dat n) s in
     case class_of (eType d) of
       IC_OTHER \<Rightarrow> dwalk M (n # rest) (i_exec M d s)
     | IC_BRANCH \<Rightarrow>
         (if i_cond M d s then Goto (uJumpAddress d) s'
          else dwalk M rest (if slot_of (eType d) = IDS_CONDITIONAL then s else s'))
     | IC_JUMP \<Rightarrow>
         (if eType d = IT_J then Goto (uJumpAddress d) s'
          else if eType d \<in> {IT_JR, IT_JR_HB} then Leave (i_target M d s) s'
          else dwalk M rest (i_call M (i_target M d s) (i_exec M (dat n) (i_link M d (uAddress d + 8) s)))))"

fun flat_at :: "tInstList \<Rightarrow> u32 \<Rightarrow> tInstList option" where
  "flat_at [] a = None"
| "flat_at (i # rest) a = (if uAddress (dat i) = a then Some (i # rest) else flat_at rest a)"

definition slot_evaluates :: "'s isa \<Rightarrow> tInstList \<Rightarrow> 's \<Rightarrow> 's outcome \<Rightarrow> bool" where
  "slot_evaluates M P s r \<longleftrightarrow>
    runs (\<lambda>a s. map_option (\<lambda>w. dwalk M w s) (flat_at P a)) (dwalk M P s) r"

section \<open>Functions on which the pass is correct\<close>

text \<open>
  The last instruction has no slot. In every slot there is an instruction without a slot, no jump of
  the function leads into it, it does not overwrite the register a register jump goes through, and in the slot
  of a call it does not use the link register. Branches and J have a target, which excludes BGEZ as it is parsed, and there is
  no JR.HB or JALR.HB: on those the pass fails an assertion (\<open>resolveDelaySlots_returns_iff\<close>). The architecture only
  demands that no slot holds an instruction with a slot. The rest are limits of the pass, and the last section of this
  theory shows that it goes wrong beyond them.
\<close>

fun slots_ok :: "u32 list \<Rightarrow> tInstList \<Rightarrow> bool" where
  "slots_ok T [] = True"
| "slots_ok T [i] = (\<not> slotted i)"
| "slots_ok T (i # n # rest) =
    (if slotted i then
       \<not> slotted n \<and> uAddress (dat n) \<notin> set T \<and>
       (class_of (eType (dat i)) = IC_JUMP \<and> eType (dat i) \<noteq> IT_J \<longrightarrow> result_of (dat n) \<noteq> Some (eRS (dat i))) \<and>
       (eType (dat i) = IT_JALR \<longrightarrow> eRD (dat i) = R_RA \<and> R_RA \<notin> {eRS (dat n), eRT (dat n), eRD (dat n)}) \<and>
       slots_ok T rest
     else slots_ok T (n # rest))"

definition inst_ok :: "Instruction \<Rightarrow> bool" where
  "inst_ok i \<longleftrightarrow> fresh_inst i \<and> has_info (eType (dat i)) \<and>
    (uJumpAddress (dat i) \<noteq> 0 \<longleftrightarrow> class_of (eType (dat i)) = IC_BRANCH \<or> eType (dat i) = IT_J)"

definition slot_program :: "tInstList \<Rightarrow> bool" where
  "slot_program xs \<longleftrightarrow> list_all inst_ok xs \<and> slots_ok (targets xs) xs \<and>
    distinct (labels xs) \<and> 0xFFFFFFFF \<notin> set (targets xs)"

section \<open>What the loop body builds\<close>

text \<open>The jump that closes an if branch.\<close>

definition closing_jump :: "inst_data \<Rightarrow> u32 \<Rightarrow> Instruction" where
  "closing_jump raw t =
    leaf (raw\<lparr>uAddress := 0xFFFFFFFF, eType := IT_J, eFormat := IF_NOARG, eRS := R_UNKNOWN, eRT := R_UNKNOWN,
      eRD := R_UNKNOWN, uUI := 0, iSI := 0, uSEL := 0, uJumpAddress := t, bDelayedDelete := False,
      bDelaySlotReordered := True, bIgnoreJump := False, bIsJumpTarget := False\<rparr>)"

lemma close_branch_Ret:
  assumes "close_branch raw i = Ret j"
  shows "class_of (eType (dat i)) = IC_JUMP \<Longrightarrow> j = i"
    and "class_of (eType (dat i)) = IC_BRANCH \<Longrightarrow>
      j = Instruction ((dat i)\<lparr>bIgnoreJump := True\<rparr>)
        (collIfBranch i @ [closing_jump (raw (uAddress (dat i))) (uJumpAddress (dat i))])
        (collElseBranch i) (collInsertAfter i)"
  using assms
  by (auto simp: close_branch_def result_simps encodeAbsoluteJump_def closing_jump_def setDefaults_def
      Instruction_new_def upd_dat_def set_if_def dest!: getClassType_Ret split: if_split_asm)

lemma closing_jump_simps [simp]:
  "dat (closing_jump raw t) = raw\<lparr>uAddress := 0xFFFFFFFF, eType := IT_J, eFormat := IF_NOARG, eRS := R_UNKNOWN,
      eRT := R_UNKNOWN, eRD := R_UNKNOWN, uUI := 0, iSI := 0, uSEL := 0, uJumpAddress := t, bDelayedDelete := False,
      bDelaySlotReordered := True, bIgnoreJump := False, bIsJumpTarget := False\<rparr>"
  "walk M (closing_jump raw t # c) s = Goto t s"
  "cont_at (closing_jump raw t # c) a = (if a = 0xFFFFFFFF then Some (closing_jump raw t # c) else cont_at c a)"
  by (simp_all add: closing_jump_def step1_def class_of_def conditional_branch_def)

text \<open>
  For a freshly parsed pair: a branch-likely takes its slot into the if branch, a branch that depends on
  the slot takes it into both branches, everything else is swapped with its slot.
\<close>

lemma resolve_slot_freshE:
  assumes res: "resolve_slot raw (leaf d) (leaf n) = Ret new" and wf: "wf_dat d" "wf_dat n" "has_info (eType n)"
    and d: "class_of (eType d) \<noteq> IC_OTHER"
  obtains (likely) j where "class_of (eType d) = IC_BRANCH" "slot_of (eType d) = IDS_CONDITIONAL"
      "new = [Instruction (d\<lparr>bDelaySlotReordered := True, bIgnoreJump := True\<rparr>)
        [leaf n, closing_jump j (uJumpAddress d)] [] []]"
  | (both) j where "class_of (eType d) = IC_BRANCH" "slot_of (eType d) = IDS_UNCONDITIONAL"
      "new = [Instruction (d\<lparr>bDelaySlotReordered := True, bIgnoreJump := True\<rparr>)
        [leaf n, closing_jump j (uJumpAddress d)] [leaf n] []]"
  | (ahead) j where "class_of (eType d) = IC_BRANCH" "slot_of (eType d) = IDS_UNCONDITIONAL"
      "\<forall>r \<in> branch_regs d. result_of n \<noteq> Some r"
      "new = [leaf (n\<lparr>uAddress := uAddress d\<rparr>),
        Instruction (d\<lparr>bDelaySlotReordered := True, uAddress := uAddress n, bIgnoreJump := True\<rparr>)
          [closing_jump j (uJumpAddress d)] [] []]"
  | (jump) "class_of (eType d) = IC_JUMP"
      "new = [leaf (n\<lparr>uAddress := uAddress d\<rparr>), leaf (d\<lparr>bDelaySlotReordered := True, uAddress := uAddress n\<rparr>)]"
proof -
  let ?d1 = "d\<lparr>bDelaySlotReordered := True\<rparr>"
  have wf1: "wf_dat ?d1" and regs: "branch_regs ?d1 = branch_regs d"
    using wf(1) by (cases "eFormat d"; simp add: wf_dat_def branch_regs_def)+
  have c1: "upd_dat (\<lambda>d. d\<lparr>bDelaySlotReordered := True\<rparr>) (leaf d) = leaf ?d1"
    by (simp add: upd_dat_def)
  have no_clash: "delaySlotClash ?d1 n = Ret (\<exists>r \<in> branch_regs d. result_of n = Some r)"
    if "class_of (eType d) = IC_BRANCH"
    using delaySlotClash_eq [OF wf1 _ wf(2,3)] that regs by simp
  from res show thesis
  proof (cases rule: resolve_slotE)
    case (conditional cur2)
    have "cur2 = Instruction (?d1\<lparr>bIgnoreJump := True\<rparr>) [leaf n, closing_jump (raw (uAddress d)) (uJumpAddress d)] [] []"
      using close_branch_Ret(2) [OF conditional(3)] conditional(2) by (simp add: c1 set_if_def)
    with conditional show ?thesis by (intro likely) simp_all
  next
    case (clash cur2)
    have "cur2 = Instruction (?d1\<lparr>bIgnoreJump := True\<rparr>) [leaf n, closing_jump (raw (uAddress d)) (uJumpAddress d)] [leaf n] []"
      using close_branch_Ret(2) [OF clash(4)] clash(2) by (simp add: c1 set_if_def set_else_def)
    with clash show ?thesis by (intro both) simp_all
  next
    case (swap master)
    show ?thesis
    proof (cases "class_of (eType d)")
      case IC_BRANCH
      have "master = Instruction (?d1\<lparr>uAddress := uAddress n, bIgnoreJump := True\<rparr>)
          [closing_jump (raw (uAddress n)) (uJumpAddress d)] [] []"
        using close_branch_Ret(2) [OF swap(3)] IC_BRANCH by (simp add: c1 upd_dat_def)
      with swap IC_BRANCH no_clash show ?thesis by (intro ahead) (simp_all add: c1 upd_dat_def)
    next
      case IC_JUMP
      have "master = leaf (?d1\<lparr>uAddress := uAddress n\<rparr>)"
        using close_branch_Ret(1) [OF swap(3)] IC_JUMP by (simp add: c1 upd_dat_def)
      with swap IC_JUMP show ?thesis by (intro jump) (simp_all add: upd_dat_def)
    next
      case IC_OTHER
      with d show ?thesis by simp
    qed
  qed
qed

section \<open>The tree computes what the processor does\<close>

locale slot_laws = isa_laws +
  assumes frame_cond: "wf_dat d \<Longrightarrow> class_of (eType d) = IC_BRANCH \<Longrightarrow> class_of (eType n) = IC_OTHER \<Longrightarrow>
      \<forall>r \<in> branch_regs d. result_of n \<noteq> Some r \<Longrightarrow> i_cond M d (i_exec M n s) = i_cond M d s"
    and frame_target: "class_of (eType n) = IC_OTHER \<Longrightarrow> result_of n \<noteq> Some (eRS d) \<Longrightarrow>
      i_target M d (i_exec M n s) = i_target M d s"
    and link_slot: "class_of (eType n) = IC_OTHER \<Longrightarrow> eRD d \<notin> {eRS n, eRT n, eRD n} \<Longrightarrow>
      i_exec M n (i_link M d a s) = i_link M d a (i_exec M n s)"
    and link_call: "eRD d = R_RA \<Longrightarrow> i_call M t (i_link M d a s) = i_call M t s"
begin

lemma flags_irrelevant:
  "i_exec M (n\<lparr>uAddress := a\<rparr>) = i_exec M n"
  "i_target M (d\<lparr>bDelaySlotReordered := b, uAddress := a\<rparr>) = i_target M d"
  "i_cond M (d\<lparr>bDelaySlotReordered := b, uAddress := a, bIgnoreJump := c\<rparr>) = i_cond M d"
  "i_cond M (d\<lparr>bDelaySlotReordered := b, bIgnoreJump := c\<rparr>) = i_cond M d"
  by (rule same_exec same_target same_cond; simp add: isSame_def)+

text \<open>One instruction and its slot.\<close>

lemma walk_resolve_slot:
  assumes res: "resolve_slot raw (leaf d) (leaf n) = Ret new" and wf: "wf_dat d" "wf_dat n" "has_info (eType n)"
    and d: "class_of (eType d) \<noteq> IC_OTHER" and n: "class_of (eType n) = IC_OTHER"
    and target: "class_of (eType d) = IC_JUMP \<and> eType d \<noteq> IT_J \<Longrightarrow> result_of n \<noteq> Some (eRS d)"
    and link: "eType d = IT_JALR \<Longrightarrow> eRD d = R_RA \<and> R_RA \<notin> {eRS n, eRT n, eRD n}" and hb: "has_info (eType d)"
    and rest: "walk M ys = dwalk M rest"
  shows "walk M (new @ ys) s = dwalk M (leaf d # leaf n # rest) s"
  using res wf d
proof (cases rule: resolve_slot_freshE)
  case (likely j)
  then show ?thesis by (simp add: step1_def flags_irrelevant Let_def n rest)
next
  case (both j)
  then show ?thesis by (simp add: step1_def flags_irrelevant Let_def n rest)
next
  case (ahead j)
  with frame_cond [OF wf(1) ahead(1) n ahead(3)] show ?thesis
    by (simp add: step1_def flags_irrelevant Let_def n rest)
next
  case jump
  note simps = step1_def flags_irrelevant Let_def n rest
  from jump(1) hb consider "eType d = IT_J" | "eType d = IT_JR" | "eType d = IT_JALR"
    by (auto simp: class_of_def has_info_def conditional_branch_def split: if_split_asm)
  then show ?thesis
  proof cases
    case 3
    with link link_slot [OF n, of d] have "i_call M t (i_exec M n (i_link M d a s)) = i_call M t (i_exec M n s)" for t a
      by (simp add: link_call)
    with 3 jump frame_target [OF n target] show ?thesis by (simp add: simps)
  qed (use jump frame_target [OF n target] in \<open>simp_all add: simps\<close>)
qed

lemma leaf_of_fresh: "fresh_inst i \<Longrightarrow> i = leaf (dat i)"
  by (cases i) (simp add: fresh_inst_def)

lemma walk_resolve:
  "resolve raw xs = Ret ys \<Longrightarrow> slots_ok T xs \<Longrightarrow> list_all inst_ok xs \<Longrightarrow> walk M ys = dwalk M xs"
proof (induction raw xs arbitrary: ys rule: resolve.induct)
  case (1 raw)
  then show ?case by (auto simp: fun_eq_iff)
next
  case (2 raw cur)
  then obtain d where cur: "cur = leaf d" "class_of (eType d) = IC_OTHER"
    using leaf_of_fresh [of cur] by (auto simp: inst_ok_def slotted_def)
  with 2 show ?case
    by (auto simp: result_simps fun_eq_iff step1_def slotted_def split: if_split_asm)
next
  case (3 raw cur nxt rest)
  have ok0: "inst_ok cur" "inst_ok nxt" "list_all inst_ok (nxt # rest)"
    using "3.prems"(3) by simp_all
  obtain d n where dn: "cur = leaf d" "nxt = leaf n"
    using ok0(1,2) leaf_of_fresh [of cur] leaf_of_fresh [of nxt] by (auto simp: inst_ok_def)
  have ok: "wf_dat d" "wf_dat n" "has_info (eType d)" "has_info (eType n)" "list_all inst_ok (nxt # rest)"
    using ok0 by (simp_all add: inst_ok_def fresh_inst_def dn)
  have un: "unresolved (dat cur) = Ret (slotted cur)"
    using "3.prems"(3) by (intro unresolved_fresh) (simp_all add: inst_ok_def)
  show ?case
  proof (cases "slotted cur")
    case False
    with "3.prems"(1) un obtain zs where zs: "resolve raw (nxt # rest) = Ret zs" "ys = cur # zs"
      by (auto simp: result_simps)
    have "walk M zs = dwalk M (nxt # rest)"
      using False un zs(1) "3.prems" ok(5) "3.IH"(2) [of False] by simp
    with False dn zs(2) show ?thesis by (auto simp: fun_eq_iff step1_def slotted_def)
  next
    case True
    with "3.prems"(1) un obtain new zs where zs: "resolve_slot raw cur nxt = Ret new" "resolve raw rest = Ret zs"
      "ys = new @ zs"
      by (auto simp: result_simps)
    have "walk M zs = dwalk M rest"
      using True un zs(1,2) "3.prems" ok(5) "3.IH"(1) [of True new] by simp
    with True dn zs "3.prems"(2) ok show ?thesis
      by (intro ext) (simp only: zs(3) dn, intro walk_resolve_slot; simp add: slotted_def)
  qed
qed

end

lemma class_of_J [simp]: "class_of IT_J = IC_JUMP"
  by (simp add: class_of_def conditional_branch_def)

lemma leaf_of_ok: "inst_ok i \<Longrightarrow> \<exists>d. i = leaf d"
  by (cases i) (simp add: inst_ok_def fresh_inst_def)

text \<open>One step of the one-pass reading, for the instructions of a slot program.\<close>

lemma resolve_ok_cases:
  assumes "resolve raw (cur # nxt # rest) = Ret ys" and "slots_ok T (cur # nxt # rest)"
    and "list_all inst_ok (cur # nxt # rest)"
  obtains (plain) d zs where "cur = leaf d" "class_of (eType d) = IC_OTHER" "ys = leaf d # zs"
      "resolve raw (nxt # rest) = Ret zs" "slots_ok T (nxt # rest)"
  | (slot) d n new zs where "cur = leaf d" "nxt = leaf n" "wf_dat d" "wf_dat n" "has_info (eType n)"
      "class_of (eType d) \<noteq> IC_OTHER" "class_of (eType n) = IC_OTHER" "uAddress n \<notin> set T"
      "resolve_slot raw (leaf d) (leaf n) = Ret new" "ys = new @ zs" "resolve raw rest = Ret zs" "slots_ok T rest"
proof -
  have ok: "inst_ok cur" "inst_ok nxt"
    using assms(3) by simp_all
  then obtain d n where dn: "cur = leaf d" "nxt = leaf n"
    using leaf_of_ok by meson
  have un: "unresolved (dat cur) = Ret (slotted cur)"
    using ok by (intro unresolved_fresh) (simp_all add: inst_ok_def)
  show thesis
  proof (cases "slotted cur")
    case False
    with assms(1) un obtain zs where "resolve raw (nxt # rest) = Ret zs" "ys = cur # zs"
      by (auto simp: result_simps)
    with False dn assms(2) show ?thesis by (intro plain) (simp_all add: slotted_def)
  next
    case True
    with assms(1) un obtain new zs where "resolve_slot raw cur nxt = Ret new" "resolve raw rest = Ret zs" "ys = new @ zs"
      by (auto simp: result_simps)
    with True dn ok assms(2) show ?thesis
      by (intro slot) (simp_all add: slotted_def inst_ok_def fresh_inst_def)
  qed
qed

lemma resolve_single:
  "resolve raw [cur] = Ret ys \<Longrightarrow> slots_ok T [cur] \<Longrightarrow> list_all inst_ok [cur] \<Longrightarrow>
    \<exists>d. cur = leaf d \<and> class_of (eType d) = IC_OTHER \<and> ys = [leaf d]"
  using leaf_of_ok [of cur] by (auto simp: result_simps slotted_def split: if_split_asm)

text \<open>A label is found in the tree where the address is in the code.\<close>

lemma resolve_cont_at:
  assumes "a \<in> set T" and "a \<noteq> 0xFFFFFFFF"
  shows "resolve raw xs = Ret ys \<Longrightarrow> slots_ok T xs \<Longrightarrow> list_all inst_ok xs \<Longrightarrow>
    rel_option (\<lambda>w v. resolve raw w = Ret v \<and> slots_ok T w \<and> list_all inst_ok w) (flat_at xs a) (cont_at ys a)"
proof (induction raw xs arbitrary: ys rule: resolve.induct)
  case (1 raw)
  then show ?case by auto
next
  case (2 raw cur)
  with resolve_single [OF 2] show ?case by auto
next
  case (3 raw cur nxt rest)
  from "3.prems" show ?case
  proof (cases rule: resolve_ok_cases)
    case (plain d zs)
    then have "unresolved (dat cur) = Ret False"
      using "3.prems"(3) unresolved_fresh [of cur] by (simp add: inst_ok_def slotted_def)
    with plain 3 show ?thesis by auto
  next
    case (slot d n new zs)
    then have "unresolved (dat cur) = Ret True"
      using "3.prems"(3) unresolved_fresh [of cur] by (simp add: inst_ok_def slotted_def)
    with slot 3 have IH: "rel_option (\<lambda>w v. resolve raw w = Ret v \<and> slots_ok T w \<and> list_all inst_ok w)
        (flat_at rest a) (cont_at zs a)" by simp
    have n: "uAddress n \<noteq> a" using slot(8) assms(1) by blast
    have "cont_at ys a = (if uAddress d = a then Some ys else cont_at zs a)"
      using slot(9,3,4,5,6) by (cases rule: resolve_slot_freshE) (simp_all add: slot(10) n assms(2))
    with IH "3.prems" n show ?thesis
      by (cases "uAddress d = a") (simp_all add: slot(1,2) del: resolve.simps slots_ok.simps)
  qed
qed

text \<open>The tree satisfies the conditions of the first round.\<close>

definition resolved_shape :: "u32 list \<Rightarrow> tInstList \<Rightarrow> tInstList \<Rightarrow> bool" where
  "resolved_shape T xs ys \<longleftrightarrow>
    jumps_ok ys \<and> list_all leaf_ok (preorder ys) \<and> list_all settled (preorder ys) \<and>
    set (targets ys) \<subseteq> set (targets xs) \<and>
    (\<forall>a \<in> set T. a \<noteq> 0xFFFFFFFF \<longrightarrow> count_list (labels ys) a = count_list (labels xs) a)"

lemma targets_append [simp]: "targets (xs @ ys) = targets xs @ targets ys"
  by (simp add: targets_def)

lemma resolved_shape_append:
  "resolved_shape T xs ys \<Longrightarrow> resolved_shape T xs' ys' \<Longrightarrow> resolved_shape T (xs @ xs') (ys @ ys')"
  by (auto simp: resolved_shape_def)

lemma resolved_shape_plain:
  "inst_ok (leaf d) \<Longrightarrow> class_of (eType d) = IC_OTHER \<Longrightarrow> resolved_shape T [leaf d] [leaf d]"
  by (auto simp: resolved_shape_def jump_ok_def live_jump_def leaf_ok_def settled_def inst_ok_def fresh_inst_def)

lemma resolved_shape_slot:
  assumes "resolve_slot raw (leaf d) (leaf n) = Ret new" "wf_dat d" "wf_dat n" "has_info (eType n)"
    "class_of (eType d) \<noteq> IC_OTHER"
    and "inst_ok (leaf d)" "inst_ok (leaf n)" "class_of (eType n) = IC_OTHER" "uAddress n \<notin> set T"
  shows "resolved_shape T [leaf d, leaf n] new"
proof -
  have d: "class_of (eType d) = IC_BRANCH \<or> eType d = IT_J \<longleftrightarrow> uJumpAddress d \<noteq> 0" "\<not> bIgnoreJump d"
    "\<not> bDelayedDelete d" and n: "uJumpAddress n = 0" "\<not> bDelayedDelete n" "eType n \<noteq> IT_J"
    using assms(6,7,8) by (auto simp: inst_ok_def fresh_inst_def)
  note defs = resolved_shape_def jump_ok_def live_jump_def leaf_ok_def settled_def closing_jump_def
  have n_a: "\<And>a. a \<in> set T \<Longrightarrow> uAddress n \<noteq> a" using assms(9) by blast
  from assms(1-5) show ?thesis
  proof (cases rule: resolve_slot_freshE)
    case (likely j)
    moreover have "eType d \<noteq> IT_J" using likely(1) by auto
    ultimately show ?thesis using d n n_a assms(8) by (simp add: defs)
  next
    case (both j)
    moreover have "eType d \<noteq> IT_J" using both(1) by auto
    ultimately show ?thesis using d n n_a assms(8) by (simp add: defs)
  next
    case (ahead j)
    moreover have "eType d \<noteq> IT_J" using ahead(1) by auto
    ultimately show ?thesis using d n n_a assms(8) by (simp add: defs)
  next
    case jump
    then show ?thesis using d n n_a assms(8) by (auto simp: defs)
  qed
qed

lemma resolve_shape:
  "resolve raw xs = Ret ys \<Longrightarrow> slots_ok T xs \<Longrightarrow> list_all inst_ok xs \<Longrightarrow> resolved_shape T xs ys"
proof (induction raw xs arbitrary: ys rule: resolve.induct)
  case (1 raw)
  then show ?case by (auto simp: resolved_shape_def)
next
  case (2 raw cur)
  with resolve_single [OF 2] show ?case by (auto intro: resolved_shape_plain)
next
  case (3 raw cur nxt rest)
  have ok: "inst_ok cur" "inst_ok nxt" using "3.prems"(3) by simp_all
  note un = unresolved_fresh [of cur]
  from "3.prems" show ?case
  proof (cases rule: resolve_ok_cases)
    case (plain d zs)
    then have un: "unresolved (dat cur) = Ret False"
      using ok(1) un by (simp add: inst_ok_def slotted_def)
    have "resolved_shape T (nxt # rest) zs"
      by (rule "3.IH"(2) [OF un _ plain(4,5)]) (use "3.prems"(3) in simp_all)
    with resolved_shape_append [OF resolved_shape_plain, of d T "nxt # rest" zs] plain ok
    show ?thesis by simp
  next
    case (slot d n new zs)
    then have un: "unresolved (dat cur) = Ret True"
      using ok(1) un by (simp add: inst_ok_def slotted_def)
    have "resolved_shape T rest zs"
      by (rule "3.IH"(1) [OF un _ slot(9) [folded slot(1,2)] slot(11,12)]) (use "3.prems"(3) in simp_all)
    with resolved_shape_append [OF resolved_shape_slot [OF slot(9,3-6) _ _ slot(7,8)]] slot(1,2,10) ok
    show ?thesis by fastforce
  qed
qed

lemma distinct_count_list_le: "distinct xs \<Longrightarrow> count_list xs a \<le> 1"
  by (induction xs) (auto simp: count_list_pos)

lemma slots_ok_no_slot:
  "slots_ok T xs \<Longrightarrow> list_all inst_ok xs \<Longrightarrow> no_slot_in_slot xs \<and> (xs \<noteq> [] \<longrightarrow> \<not> slotted (last xs))"
proof (induction T xs rule: slots_ok.induct)
  case (3 T i n rest)
  have un: "unresolved (dat i) = Ret (slotted i)" "unresolved (dat n) = Ret (slotted n)"
    using "3.prems"(2) unresolved_fresh by (auto simp: inst_ok_def)
  show ?case
  proof (cases "slotted i")
    case True
    with 3 have "\<not> slotted n" "no_slot_in_slot rest" "rest \<noteq> [] \<longrightarrow> \<not> slotted (last rest)" by simp_all
    with un True show ?thesis by (cases rest) auto
  next
    case False
    with 3 un show ?thesis by auto
  qed
qed simp_all

lemma slot_program_returns:
  assumes "slot_program xs"
  shows "\<exists>ys. resolve raw xs = Ret ys"
proof -
  have ok: "list_all inst_ok xs" and so: "slots_ok (targets xs) xs"
    using assms by (simp_all add: slot_program_def)
  have "\<forall>i \<in> set xs. fresh_inst i \<and> has_info (eType (dat i))"
    using ok by (auto simp: list_all_iff inst_ok_def)
  from resolve_Ret_iff [OF this, of raw] slots_ok_no_slot [OF so ok] ok show ?thesis
    by (auto simp: list_all_iff inst_ok_def)
qed

lemma slot_program_tree_ok:
  assumes "slot_program xs" and "resolve raw xs = Ret ys"
  shows "tree_ok (updateJumpTargets ys)"
proof -
  have shape: "resolved_shape (targets xs) xs ys"
    using assms by (intro resolve_shape) (simp_all add: slot_program_def)
  show ?thesis
  proof (rule tree_ok_update)
    fix a assume a: "a \<in> set (targets ys)"
    with shape have T: "a \<in> set (targets xs)" by (auto simp: resolved_shape_def)
    with assms(1) have "a \<noteq> 0xFFFFFFFF" by (auto simp: slot_program_def)
    with T shape have "count_list (labels ys) a = count_list (labels xs) a"
      by (simp add: resolved_shape_def)
    also have "\<dots> \<le> 1"
      using assms(1) distinct_count_list_le [of "labels xs" a] by (simp add: slot_program_def)
    finally show "count_list (labels ys) a \<le> 1" .
  qed (use shape in \<open>simp_all add: resolved_shape_def\<close>)
qed

context slot_laws
begin

lemma resolve_evaluates:
  assumes "slot_program xs" and "resolve raw xs = Ret ys"
  shows "evaluates M ys s r \<longleftrightarrow> slot_evaluates M xs s r"
proof -
  let ?D = "\<lambda>a s. map_option (\<lambda>w. dwalk M w s) (flat_at xs a)" and ?L = "set (targets ys)"
  have prog: "list_all inst_ok xs" "slots_ok (targets xs) xs" "0xFFFFFFFF \<notin> set (targets xs)"
    using assms(1) by (simp_all add: slot_program_def)
  have shape: "resolved_shape (targets xs) xs ys"
    using assms(2) prog by (intro resolve_shape)
  then have jumps: "jumps_ok ys" by (simp add: resolved_shape_def)
  have "jump_sim ?D (enter M ys) ?L"
    unfolding jump_sim_def
  proof safe
    fix a s assume "a \<in> ?L"
    with shape have a: "a \<in> set (targets xs)" by (auto simp: resolved_shape_def)
    with prog(3) have "a \<noteq> 0xFFFFFFFF" by auto
    from resolve_cont_at [OF a this assms(2) prog(2,1)]
    show "rel_option (\<lambda>f g. reach ?D f g \<and> flow_in ?L g) (?D a s) (enter M ys a s)"
    proof (cases rule: option.rel_cases)
      case None
      then show ?thesis by (simp add: enter_def)
    next
      case (Some w v)
      then have "walk M v = dwalk M w" by (auto intro: walk_resolve)
      moreover have "flow_in ?L (walk M v s)"
        using Some(2) by (intro walk_flow_in [OF cont_at_datas jumps])
      ultimately show ?thesis using Some by (simp add: enter_def)
    qed
  qed
  moreover have "walk M ys s = dwalk M xs s"
    using walk_resolve [OF assms(2) prog(2,1)] by simp
  moreover have "flow_in ?L (walk M ys s)"
    using jumps by (intro walk_flow_in) simp
  ultimately show ?thesis
    unfolding evaluates_def slot_evaluates_def
    using runs_sim [of ?D "enter M ys" ?L "dwalk M xs s" "walk M ys s" r] by simp
qed

lemma resolveDelaySlots_correct:
  assumes "slot_program xs"
  shows "\<exists>ys. resolveDelaySlots raw xs = Ret ys \<and> tree_ok (updateJumpTargets ys) \<and>
    (\<forall>s r. evaluates M (updateJumpTargets ys) s r \<longleftrightarrow> slot_evaluates M xs s r)"
proof -
  obtain ys where ys: "resolve raw xs = Ret ys"
    using slot_program_returns [OF assms] by blast
  have "no_slot_in_slot xs"
    using assms slots_ok_no_slot by (auto simp: slot_program_def)
  with ys assms show ?thesis
    by (auto simp: resolveDelaySlots_eq slot_program_tree_ok evaluates_mark resolve_evaluates)
qed

end

interpretation mips: slot_laws "mips callee" for callee
proof
  fix d n :: inst_data and s
  assume d: "wf_dat d" "class_of (eType d) = IC_BRANCH" and n: "\<forall>r \<in> branch_regs d. result_of n \<noteq> Some r"
  from n have rs: "rd_reg (mips_exec n s) (eRS d) = rd_reg s (eRS d)"
    and rt: "eFormat d = IF_RSRTSI \<Longrightarrow> rd_reg (mips_exec n s) (eRT d) = rd_reg s (eRT d)"
    by (auto simp: branch_regs_def intro!: rd_reg_exec split: if_split_asm)
  show "i_cond (mips callee) d (i_exec (mips callee) n s) = i_cond (mips callee) d s"
    using d rs rt by (cases "eType d") (simp_all add: mips_cond_def Let_def wf_dat_def)
next
  fix n d :: inst_data and s
  assume "result_of n \<noteq> Some (eRS d)"
  then show "i_target (mips callee) d (i_exec (mips callee) n s) = i_target (mips callee) d s"
    by (simp add: rd_reg_exec)
qed (simp_all add: mips_exec_wr_reg)

text \<open>
  C3. On a function in the domain of the pass, \<open>slot_program\<close>, \<open>resolveDelaySlots\<close> returns a tree without
  delay slots that computes exactly what the processor computes on the original instructions, from
  every state, whatever the called functions do. After \<open>updateJumpTargets\<close> the tree satisfies the
  conditions of the first optimiser round. The domain: every branch and J has a target, no slot holds a branch or jump,
  is jumped to, overwrites the register of a register jump or, at a call, uses the link register \<open>$ra\<close>; there is no BGEZ,
  JR.HB or JALR.HB, the last instruction has no slot and the addresses are distinct.
\<close>

theorem resolveDelaySlots_refines:
  assumes "slot_program xs"
  shows "\<exists>ys. resolveDelaySlots raw xs = Ret ys \<and> tree_ok (updateJumpTargets ys) \<and>
    (\<forall>s r. evaluates (mips callee) (updateJumpTargets ys) s r \<longleftrightarrow> slot_evaluates (mips callee) xs s r)"
  using assms by (rule mips.resolveDelaySlots_correct)

text \<open>A loop that counts \<open>A0\<close> down; the decrement sits in the slot and changes the register compared.\<close>

definition demo_loop :: tInstList where
  "demo_loop =
    [leaf ((d_beq 0x80001000 0x8000100C)\<lparr>eRT := R_V0\<rparr>),
     leaf (d_addiu_sp\<lparr>uAddress := 0x80001004, eRS := R_A0, eRT := R_A0, iSI := - 1\<rparr>),
     leaf (d_nop\<lparr>uAddress := 0x80001008\<rparr>),
     leaf (d_jr 0x8000100C), leaf (d_nop\<lparr>uAddress := 0x80001010\<rparr>)]"

theorem resolveDelaySlots_refines_witness:
  "slot_program demo_loop \<and>
    (\<exists>ys. resolveDelaySlots (\<lambda>_. d_nop) demo_loop = Ret ys \<and> tree_ok (updateJumpTargets ys) \<and>
      (\<forall>s r. evaluates (mips (\<lambda>_ s. s)) (updateJumpTargets ys) s r \<longleftrightarrow>
        slot_evaluates (mips (\<lambda>_ s. s)) demo_loop s r))"
proof
  show "slot_program demo_loop"
    by (simp add: slot_program_def demo_loop_def inst_ok_def fresh_inst_def wf_dat_def slotted_def has_info_def
        result_of_def tree_eval)
  then show "\<exists>ys. resolveDelaySlots (\<lambda>_. d_nop) demo_loop = Ret ys \<and> tree_ok (updateJumpTargets ys) \<and>
      (\<forall>s r. evaluates (mips (\<lambda>_ s. s)) (updateJumpTargets ys) s r \<longleftrightarrow>
        slot_evaluates (mips (\<lambda>_ s. s)) demo_loop s r)"
    by (rule resolveDelaySlots_refines)
qed

section \<open>Beyond the domain\<close>

lemma plain_has_info: "class_of (eType n) = IC_OTHER \<Longrightarrow> has_info (eType n)"
  by (auto simp: class_of_def has_info_def conditional_branch_def split: if_split_asm)

lemma jump_pair_resolved:
  assumes "fresh_inst (leaf d)" and "fresh_inst (leaf n)" and "eType d \<in> {IT_J, IT_JR}" and "class_of (eType n) = IC_OTHER"
  shows "resolveDelaySlots raw [leaf d, leaf n] =
    Ret [leaf (n\<lparr>uAddress := uAddress d\<rparr>), leaf (d\<lparr>bDelaySlotReordered := True, uAddress := uAddress n\<rparr>)]"
proof -
  have d: "has_info (eType d)" "class_of (eType d) = IC_JUMP"
    using assms(3) by (auto simp: has_info_def class_of_def conditional_branch_def)
  have un: "unresolved d = Ret True" "unresolved n = Ret False"
    using unresolved_fresh [OF assms(1)] unresolved_fresh [OF assms(2)] d plain_has_info [OF assms(4)] assms(4)
    by (simp_all add: slotted_def)
  then have "resolveDelaySlots raw [leaf d, leaf n] = resolve raw [leaf d, leaf n]" by (intro resolveDelaySlots_eq) simp
  moreover have "slot_of (eType d) = IDS_UNCONDITIONAL" using assms(3) by (auto simp: slot_of_def class_of_def conditional_branch_def)
  ultimately show ?thesis
    using un d by (simp add: resolve_slot_def Let_def getDelaySlotType_eq getClassType_eq upd_dat_def swap_def close_branch_def)
qed

text \<open>
  C39. A slot that overwrites the register of a register jump, which the architecture allows. The clash is looked for at
  branches only: \<open>JR r\<close> is swapped with its slot, so that the tree leaves the function through the value that the slot
  has put into \<open>r\<close>, whereas the processor leaves it through the value from before.
\<close>

theorem jump_register_clobbered:
  assumes "fresh_inst (leaf d)" and "fresh_inst (leaf n)" and "eType d = IT_JR" and "class_of (eType n) = IC_OTHER"
  shows "\<exists>ys. resolveDelaySlots raw [leaf d, leaf n] = Ret ys \<and>
    (\<forall>s r. slot_evaluates (mips callee) [leaf d, leaf n] s r \<longleftrightarrow> r = Left (rd_reg s (eRS d)) (mips_exec n s)) \<and>
    (\<forall>s r. evaluates (mips callee) (updateJumpTargets ys) s r \<longleftrightarrow>
      r = Left (rd_reg (mips_exec n s) (eRS d)) (mips_exec n s))"
proof -
  let ?ys = "[leaf (n\<lparr>uAddress := uAddress d\<rparr>), leaf (d\<lparr>bDelaySlotReordered := True, uAddress := uAddress n\<rparr>)]"
  have c: "class_of IT_JR = IC_JUMP" by (simp add: class_of_def conditional_branch_def)
  have "slot_evaluates (mips callee) [leaf d, leaf n] s r \<longleftrightarrow> r = Left (rd_reg s (eRS d)) (mips_exec n s)" for s r
    using assms(3) by (simp add: slot_evaluates_def Let_def c)
  moreover have "evaluates (mips callee) ?ys s r \<longleftrightarrow> r = Left (rd_reg (mips_exec n s) (eRS d)) (mips_exec n s)" for s r
    using assms(3,4) by (simp add: evaluates_def step1_def c mips.flags_irrelevant [where callee = callee, simplified])
  ultimately show ?thesis
    using jump_pair_resolved [OF assms(1,2) _ assms(4), of raw] assms(3) by (simp add: mips.evaluates_mark)
qed

theorem jump_register_clobbered_witness:
  "\<exists>ys. resolveDelaySlots (\<lambda>_. d_nop) [leaf (d_jr 0x80001000), leaf (d_addiu_sp\<lparr>eRS := R_RA, eRT := R_RA, iSI := 4\<rparr>)] = Ret ys \<and>
    \<not> (\<exists>s r. slot_evaluates (mips (\<lambda>_ s. s)) [leaf (d_jr 0x80001000), leaf (d_addiu_sp\<lparr>eRS := R_RA, eRT := R_RA, iSI := 4\<rparr>)] s r \<and>
      evaluates (mips (\<lambda>_ s. s)) (updateJumpTargets ys) s r)"
proof -
  let ?d = "d_jr 0x80001000" and ?n = "d_addiu_sp\<lparr>eRS := R_RA, eRT := R_RA, iSI := 4\<rparr>"
  have "fresh_inst (leaf ?d)" "fresh_inst (leaf ?n)" "eType ?d = IT_JR" "class_of (eType ?n) = IC_OTHER" "eRS ?d = R_RA"
    by (simp_all add: fresh_inst_def wf_dat_def tree_eval)
  moreover from this have "rd_reg s R_RA \<noteq> rd_reg (mips_exec ?n s) R_RA" for s
    by (simp add: mips_exec_def d_addiu_sp_def Let_def)
  ultimately show ?thesis
    using jump_register_clobbered [of ?d ?n "\<lambda>_. d_nop" "\<lambda>_ s. s"] by auto
qed

lemma runs_Goto: "E a s = Some f \<Longrightarrow> runs E (Goto a s) r \<longleftrightarrow> runs E f r"
  by (auto intro: runs.jump elim: runs_GotoE)

lemma loop_never_ends:
  assumes "\<And>s. E a s = Some (Goto a s)"
  shows "\<not> runs E (Goto a s) r"
proof
  assume "runs E (Goto a s) r"
  then show False
    by (induction "Goto a s :: 'a flow" r arbitrary: s rule: runs.induct) (auto simp: assms)
qed

text \<open>
  C40. A jump into a slot, which the architecture allows. After the swap the address of the slot is the one of the jump:
  of a J to its own slot, the processor executes the slot twice and goes on behind it, and the tree never ends.
\<close>

theorem jump_into_slot_lost:
  assumes "fresh_inst (leaf d)" and "fresh_inst (leaf n)" and "eType d = IT_J" and "class_of (eType n) = IC_OTHER"
    and "uJumpAddress d = uAddress n" and "uAddress d \<noteq> uAddress n"
  shows "\<exists>ys. resolveDelaySlots raw [leaf d, leaf n] = Ret ys \<and>
    (\<forall>s r. slot_evaluates (mips callee) [leaf d, leaf n] s r \<longleftrightarrow> r = Fell (mips_exec n (mips_exec n s))) \<and>
    (\<forall>s r. \<not> evaluates (mips callee) (updateJumpTargets ys) s r)"
proof -
  let ?ys = "[leaf (n\<lparr>uAddress := uAddress d\<rparr>), leaf (d\<lparr>bDelaySlotReordered := True, uAddress := uAddress n\<rparr>)]"
  have "enter (mips callee) ?ys (uAddress n) s = Some (Goto (uAddress n) s)" for s
    using assms(3,5,6) by (simp add: enter_def step1_def)
  from loop_never_ends [of "enter (mips callee) ?ys" "uAddress n", OF this] have "\<not> evaluates (mips callee) ?ys s r" for s r
    using assms(3,4,5) by (simp add: evaluates_def step1_def)
  moreover have "slot_evaluates (mips callee) [leaf d, leaf n] s r \<longleftrightarrow> r = Fell (mips_exec n (mips_exec n s))" for s r
  proof -
    let ?E = "\<lambda>a s. map_option (\<lambda>w. dwalk (mips callee) w s) (flat_at [leaf d, leaf n] a)"
    have "?E (uAddress n) s' = Some (Fall (mips_exec n s'))" for s'
      using assms(4,6) by (simp add: slotted_def)
    from runs_Goto [of ?E, OF this] have "runs ?E (Goto (uAddress n) s') r \<longleftrightarrow> r = Fell (mips_exec n s')" for s'
      by (simp only: runs_simps)
    then show ?thesis using assms(3,5) by (simp add: slot_evaluates_def Let_def del: flat_at.simps)
  qed
  ultimately show ?thesis
    using jump_pair_resolved [OF assms(1,2) _ assms(4), of raw] assms(3) by (simp add: mips.evaluates_mark)
qed

theorem jump_into_slot_lost_witness:
  "\<exists>ys. resolveDelaySlots (\<lambda>_. d_nop) [leaf (d_j 0x80001000 0x80001004), leaf (d_nop\<lparr>uAddress := 0x80001004\<rparr>)] = Ret ys \<and>
    (\<forall>s r. \<not> evaluates (mips (\<lambda>_ s. s)) (updateJumpTargets ys) s r)"
proof -
  let ?d = "d_j 0x80001000 0x80001004" and ?n = "d_nop\<lparr>uAddress := 0x80001004\<rparr>"
  have "fresh_inst (leaf ?d)" "fresh_inst (leaf ?n)" "eType ?d = IT_J" "class_of (eType ?n) = IC_OTHER"
    "uJumpAddress ?d = uAddress ?n" "uAddress ?d \<noteq> uAddress ?n"
    by (simp_all add: fresh_inst_def wf_dat_def tree_eval)
  from jump_into_slot_lost [OF this, of "\<lambda>_. d_nop" "\<lambda>_ s. s"] show ?thesis by blast
qed

end
