(* ===== verification/RegisterValue.thy ===== *)
theory RegisterValue
  imports Rounds
begin

text \<open>
  \<open>resolveRegisterValue\<close> of \<^verbatim>\<open>src/tools/mipsdec/instruction.cpp\<close>, with which the code generator finds
  the function that a register call goes to, and \<open>dumpInstructions\<close>, the debug listing.

  Iterators are indices into the list. The function calls itself at the same instruction for the
  operands of an ADDU: for \<open>addu r, r, x\<close> that call is the same call again and never returns. The
  model is a \<open>partial_function\<close>: \<open>None\<close> is a call that does not return, \<open>Some (Ret None)\<close> is \<open>false\<close>,
  \<open>Some (Ret (Some v))\<close> is \<open>true\<close> with the value in \<open>uRegisterVal\<close>.
\<close>

section \<open>Model\<close>

text \<open>The second loop: the instructions after the LUI, up to before the one asked about.\<close>

fun apply_offsets :: "tRegister \<Rightarrow> tInstList \<Rightarrow> u32 \<Rightarrow> u32 option result" where
  "apply_offsets eRegister [] uRegisterVal = Ret (Some uRegisterVal)"
| "apply_offsets eRegister (i # rest) uRegisterVal =
    (if eType (dat i) = IT_ADDIU then
       (if eRT (dat i) = eRegister then
          M_ASSERT (eRS (dat i) = eRegister) (apply_offsets eRegister rest (uRegisterVal + scast (iSI (dat i))))
        else apply_offsets eRegister rest uRegisterVal)
     else
       r_bind (modifiesRegister (dat i) eRegister) (\<lambda>b.
         if b then Fail AssertFailed else apply_offsets eRegister rest uRegisterVal))"

text \<open>The value of an ADDU operand: \<open>$zero\<close> is not looked up.\<close>

abbreviation operand_or_zero :: "tRegister \<Rightarrow> u32 option result option \<Rightarrow> u32 option result option" where
  "operand_or_zero r look \<equiv> (if r = R_ZERO then Some (Ret (Some 0)) else look)"

text \<open>
  The first loop: \<open>itStart\<close> is the instruction asked about, \<open>itCurr\<close> walks back from it. A LUI at
  \<open>itStart\<close> itself would make the second loop run past the end of the list.
\<close>

partial_function (option) resolve_scan ::
  "tInstList \<Rightarrow> nat \<Rightarrow> nat \<Rightarrow> tRegister \<Rightarrow> u32 option result option" where
  "resolve_scan coll itStart itCurr eRegister =
    (let d = dat (coll ! itCurr) in
     if eType d = IT_LUI \<and> eRT d = eRegister then
       (if itCurr = itStart then Some (Fail Undefined)
        else Some (apply_offsets eRegister (drop (itCurr + 1) (take itStart coll)) (push_bit 16 (ucast (uUI d)))))
     else if eType d = IT_ADDU \<and> eRD d = eRegister then
       Option.bind (operand_or_zero (eRS d) (resolve_scan coll itCurr itCurr (eRS d))) (\<lambda>r1.
         case r1 of
           Fail e \<Rightarrow> Some (Fail e)
         | Ret None \<Rightarrow> Some (Ret None)
         | Ret (Some v1) \<Rightarrow>
             Option.bind (operand_or_zero (eRT d) (resolve_scan coll itCurr itCurr (eRT d))) (\<lambda>r2.
               case r2 of
                 Fail e \<Rightarrow> Some (Fail e)
               | Ret None \<Rightarrow> Some (Ret None)
               | Ret (Some v2) \<Rightarrow> Some (Ret (Some (v1 + v2)))))
     else if bIsJumpTarget d then Some (Ret None)
     else if itCurr = 0 then Some (Ret None)
     else resolve_scan coll itStart (itCurr - 1) eRegister)"

definition resolveRegisterValue :: "tInstList \<Rightarrow> nat \<Rightarrow> tRegister \<Rightarrow> u32 option result option" where
  "resolveRegisterValue coll itCurrInstruction eRegister =
    resolve_scan coll itCurrInstruction itCurrInstruction eRegister"

section \<open>Soundness\<close>

text \<open>
  Control comes to instruction \<open>n\<close> of the list in state \<open>s'\<close>, having entered the list at instruction \<open>k\<close> in state \<open>s\<close>:
  branches are taken or not, calls are made, and every instruction on the way falls through to the next one.
\<close>

definition reaches :: "mach isa \<Rightarrow> tInstList \<Rightarrow> nat \<Rightarrow> nat \<Rightarrow> mach \<Rightarrow> mach \<Rightarrow> bool" where
  "reaches M coll k n s s' \<longleftrightarrow> k \<le> n \<and> walk M (drop k (take n coll)) s = Fall s'"

text \<open>Where the list is entered: at its start or at one of its labels.\<close>

definition entry_at :: "tInstList \<Rightarrow> nat \<Rightarrow> bool" where
  "entry_at coll k \<longleftrightarrow> k = 0 \<or> bIsJumpTarget (dat (coll ! k))"

text \<open>
  The scan takes calls for instructions without effect and does not look into the bodies of branches. \<open>way_kept\<close>: the calls
  and the branches of the list keep the registers of \<open>R\<close>, a set that has the operands of the sums it has.
\<close>

definition keeps_regs :: "mach isa \<Rightarrow> tRegister set \<Rightarrow> Instruction \<Rightarrow> bool" where
  "keeps_regs M R i \<longleftrightarrow> (\<forall>s s'. walk M [i] s = Fall s' \<longrightarrow> (\<forall>r \<in> R. rd_reg s' r = rd_reg s r))"

definition way_kept :: "mach isa \<Rightarrow> tRegister set \<Rightarrow> tInstList \<Rightarrow> bool" where
  "way_kept M R xs \<longleftrightarrow>
    (\<forall>i \<in> set xs. class_of (eType (dat i)) \<noteq> IC_OTHER \<longrightarrow> keeps_regs M R i) \<and>
    (\<forall>i \<in> set xs. eType (dat i) = IT_ADDU \<and> eRD (dat i) \<in> R \<longrightarrow> {eRS (dat i), eRT (dat i)} \<subseteq> insert R_ZERO R)"

lemma walk_snoc: "walk M (xs @ ys) s = Fall s' \<longleftrightarrow> (\<exists>t. walk M xs s = Fall t \<and> walk M ys t = Fall s')"
  by (cases "walk M xs s") (simp_all add: walk_append)

lemma reaches_split:
  assumes "reaches M coll k n s s'" and "k \<le> m" and "m \<le> n"
  obtains t where "reaches M coll k m s t" "reaches M coll m n t s'"
proof -
  have "take n coll = take m coll @ drop m (take n coll)"
    using assms(3) by (metis append_take_drop_id min.absorb1 take_take)
  then have "drop k (take n coll) = drop k (take m coll) @ drop k' (drop m (take n coll))" if "k' = k - length (take m coll)" for k'
    using that by (metis drop_append)
  moreover have "drop (k - length (take m coll)) (drop m (take n coll)) = drop m (take n coll)"
    using assms(2) by (cases "m \<le> length coll") (simp_all add: min_def)
  ultimately have "drop k (take n coll) = drop k (take m coll) @ drop m (take n coll)" by simp
  with assms that show thesis by (auto simp: reaches_def walk_snoc)
qed

lemma reaches_Suc:
  assumes "reaches M coll n (n + 1) s s'" and "n < length coll"
  shows "walk M [coll ! n] s = Fall s'"
proof -
  have "drop n (take (n + 1) coll) = [coll ! n]"
    using assms(2) by (simp add: take_Suc_conv_app_nth)
  with assms(1) show ?thesis by (simp only: reaches_def)
qed

text \<open>On the way every instruction does to the registers of \<open>R\<close> what it does by itself.\<close>

lemma mips_exec_control: "class_of (eType d) \<noteq> IC_OTHER \<Longrightarrow> mips_exec d s = s"
  by (auto simp: class_of_def conditional_branch_def mips_exec_def Let_def split: if_split_asm)

lemma way_step:
  assumes "way_kept (mips callee) R xs" and "i \<in> set xs" and "walk (mips callee) [i] s = Fall s'" and "r \<in> R"
  shows "rd_reg s' r = rd_reg (mips_exec (dat i) s) r"
proof (cases "class_of (eType (dat i)) = IC_OTHER")
  case True
  with assms(3) show ?thesis by (cases i) (simp add: step1_def)
next
  case False
  with assms show ?thesis by (auto simp: way_kept_def keeps_regs_def mips_exec_control)
qed

lemma way_kept_sub: "way_kept M R xs \<Longrightarrow> set ys \<subseteq> set xs \<Longrightarrow> way_kept M R ys"
  unfolding way_kept_def by blast

lemma modifiesRegister_False: "modifiesRegister d r = Ret False \<Longrightarrow> result_of d \<noteq> Some r"
  by (cases "eType d") (auto simp: modifiesRegister_def result_simps result_of_def declare_opcode_defs)

lemma walk_Cons_Fall: "walk M (i # xs) s = Fall s' \<longleftrightarrow> (\<exists>t. walk M [i] s = Fall t \<and> walk M xs t = Fall s')"
  using walk_snoc [of M "[i]" xs] by simp

lemma apply_offsets_sound:
  "apply_offsets r xs v = Ret (Some w) \<Longrightarrow> r \<noteq> R_ZERO \<Longrightarrow> r \<in> R \<Longrightarrow> way_kept (mips callee) R xs \<Longrightarrow>
    walk (mips callee) xs s = Fall s' \<Longrightarrow> rd_reg s r = v \<Longrightarrow> rd_reg s' r = w"
proof (induction xs arbitrary: v s)
  case (Cons i xs)
  let ?v = "if eType (dat i) = IT_ADDIU \<and> eRT (dat i) = r then v + scast (iSI (dat i)) else v"
  obtain t where t: "walk (mips callee) [i] s = Fall t" "walk (mips callee) xs t = Fall s'"
    using Cons.prems(5) walk_Cons_Fall [of "mips callee" i xs s s'] by auto
  have "rd_reg t r = rd_reg (mips_exec (dat i) s) r"
    using way_step [OF Cons.prems(4) _ t(1) Cons.prems(3)] by simp
  moreover have "apply_offsets r xs ?v = Ret (Some w) \<and> rd_reg (mips_exec (dat i) s) r = ?v"
  proof (cases "eType (dat i) = IT_ADDIU")
    case True
    with Cons.prems show ?thesis
      by (auto simp: result_simps mips_exec_def Let_def split: if_splits)
  next
    case False
    with Cons.prems(1) have "modifiesRegister (dat i) r = Ret False" "apply_offsets r xs v = Ret (Some w)"
      by (auto simp: result_simps split: if_splits)
    with False Cons.prems(6) show ?thesis
      by (auto dest: modifiesRegister_False simp: rd_reg_exec)
  qed
  ultimately show ?case
    using Cons.IH [OF _ Cons.prems(2,3) _ t(2)] way_kept_sub [OF Cons.prems(4), of xs] by auto
qed simp

text \<open>
  The instructions the scan stops at. The scan does not look at what follows an ADDU, so the code must
  not change the sum: \<open>sums_kept\<close>.
\<close>

definition sets_reg :: "inst_data \<Rightarrow> tRegister \<Rightarrow> bool" where
  "sets_reg d r \<longleftrightarrow> eType d = IT_LUI \<and> eRT d = r \<or> eType d = IT_ADDU \<and> eRD d = r"

definition self_add :: "inst_data \<Rightarrow> bool" where
  "self_add d \<longleftrightarrow> eType d = IT_ADDU \<and> eRD d \<noteq> R_ZERO \<and> (eRS d = eRD d \<or> eRT d = eRD d)"

definition sums_kept :: "tInstList \<Rightarrow> bool" where
  "sums_kept xs \<longleftrightarrow> (\<forall>j < length xs. \<forall>i < j. eType (dat (xs ! i)) = IT_ADDU \<longrightarrow>
     result_of (dat (xs ! j)) = Some (eRD (dat (xs ! i))) \<longrightarrow> eType (dat (xs ! j)) \<in> {IT_LUI, IT_ADDU})"

lemma result_of_set: "result_of d = Some r \<Longrightarrow> eType d \<in> {IT_LUI, IT_ADDU} \<Longrightarrow> sets_reg d r"
  by (auto simp: result_of_def sets_reg_def)

lemma rd_reg_walk:
  "\<forall>i \<in> set xs. result_of (dat i) \<noteq> Some r \<Longrightarrow> way_kept (mips callee) R xs \<Longrightarrow> r \<in> R \<Longrightarrow>
    walk (mips callee) xs s = Fall s' \<Longrightarrow> rd_reg s' r = rd_reg s r"
proof (induction xs arbitrary: s)
  case (Cons i xs)
  obtain t where t: "walk (mips callee) [i] s = Fall t" "walk (mips callee) xs t = Fall s'"
    using Cons.prems(4) walk_Cons_Fall [of "mips callee" i xs s s'] by auto
  have "rd_reg t r = rd_reg s r"
    using way_step [OF Cons.prems(2) _ t(1) Cons.prems(3)] Cons.prems(1) by (simp add: rd_reg_exec)
  with Cons.IH [OF _ _ Cons.prems(3) t(2)] Cons.prems way_kept_sub [OF Cons.prems(2), of xs] show ?case by auto
qed simp

lemma set_between:
  assumes "x \<in> set (drop (m + 1) (take n xs))" and "n \<le> length xs"
  obtains k where "m < k" "k < n" "x = xs ! k"
proof -
  from assms obtain k where "k < n - (m + 1)" "x = xs ! (m + 1 + k)"
    by (auto simp: in_set_conv_nth)
  with that [of "m + 1 + k"] show thesis by simp
qed

lemma sums_kept_take: "m \<le> n \<Longrightarrow> sums_kept (take n xs) \<Longrightarrow> sums_kept (take m xs)"
  by (simp add: sums_kept_def)

text \<open>The cases of a scan that returned a value.\<close>

lemma operand_value:
  assumes "operand_or_zero r look = Some (Ret (Some v))"
  obtains "r = R_ZERO" "v = 0" | "r \<noteq> R_ZERO" "look = Some (Ret (Some v))"
  using assms by (auto split: if_splits)

text \<open>The code before \<open>itStart\<close>, and what is known when the scan has come down to \<open>itCurr\<close>.\<close>

definition scan_ok :: "(u32 \<Rightarrow> mach \<Rightarrow> mach) \<Rightarrow> tRegister set \<Rightarrow> tInstList \<Rightarrow> nat \<Rightarrow> tRegister \<Rightarrow> bool" where
  "scan_ok callee R coll itStart r \<longleftrightarrow> r \<noteq> R_ZERO \<and> r \<in> R \<and> itStart < length coll \<and>
    sums_kept (take itStart coll) \<and> way_kept (mips callee) R (take itStart coll)"

definition scanned :: "tInstList \<Rightarrow> nat \<Rightarrow> nat \<Rightarrow> tRegister \<Rightarrow> bool" where
  "scanned coll itStart itCurr r \<longleftrightarrow> itCurr \<le> itStart \<and>
    (\<forall>k. itCurr < k \<longrightarrow> k < itStart \<longrightarrow> \<not> sets_reg (dat (coll ! k)) r) \<and>
    (\<forall>k. itCurr < k \<longrightarrow> k \<le> itStart \<longrightarrow> \<not> bIsJumpTarget (dat (coll ! k))) \<and>
    (itCurr = itStart \<longrightarrow> \<not> sets_reg (dat (coll ! itCurr)) r)"

definition scan_sound ::
  "(u32 \<Rightarrow> mach \<Rightarrow> mach) \<Rightarrow> tRegister set \<Rightarrow> tInstList \<Rightarrow> nat \<Rightarrow> nat \<Rightarrow> tRegister \<Rightarrow> u32 option result \<Rightarrow> bool" where
  "scan_sound callee R coll itStart itCurr r res \<longleftrightarrow>
    (\<forall>v. res = Ret (Some v) \<longrightarrow> scan_ok callee R coll itStart r \<longrightarrow> itCurr \<le> itStart \<longrightarrow>
      \<not> (self_add (dat (coll ! itCurr)) \<and> eRD (dat (coll ! itCurr)) = r) \<and>
      (scanned coll itStart itCurr r \<longrightarrow>
       (\<forall>k s s'. entry_at coll k \<longrightarrow> reaches (mips callee) coll k itStart s s' \<longrightarrow> rd_reg s' r = v)))"

lemma scan_soundI:
  assumes "\<And>v. res = Ret (Some v) \<Longrightarrow> scan_ok callee R coll itStart r \<Longrightarrow> itCurr \<le> itStart
      \<Longrightarrow> \<not> (self_add (dat (coll ! itCurr)) \<and> eRD (dat (coll ! itCurr)) = r)"
    and "\<And>v k s s'. res = Ret (Some v) \<Longrightarrow> scan_ok callee R coll itStart r \<Longrightarrow> scanned coll itStart itCurr r
      \<Longrightarrow> entry_at coll k \<Longrightarrow> reaches (mips callee) coll k itStart s s' \<Longrightarrow> rd_reg s' r = v"
  shows "scan_sound callee R coll itStart itCurr r res"
  unfolding scan_sound_def using assms by blast

lemma scan_ok_earlier: "scan_ok callee R coll n r \<Longrightarrow> m \<le> n \<Longrightarrow> r' \<noteq> R_ZERO \<Longrightarrow> r' \<in> R \<Longrightarrow> scan_ok callee R coll m r'"
  using set_take_subset_set_take [of m n coll]
  by (auto simp: scan_ok_def intro: sums_kept_take way_kept_sub)

text \<open>The list was entered at or before the instruction where the scan is, which has been executed on the way.\<close>

lemma reaches_found:
  assumes "scan_ok callee R coll st r" and "scanned coll st c r" and "sets_reg (dat (coll ! c)) r"
    and "entry_at coll k" and "reaches (mips callee) coll k st s s'"
  obtains t t' where "reaches (mips callee) coll k c s t" "walk (mips callee) [coll ! c] t = Fall t'"
    "reaches (mips callee) coll (c + 1) st t' s'" "c < st" "coll ! c \<in> set (take st coll)"
proof -
  from assms(2,3) have c: "c < st" unfolding scanned_def using le_neq_implies_less by blast
  have "k \<le> c"
  proof (rule ccontr)
    assume "\<not> k \<le> c"
    with assms(2,4,5) show False by (auto simp: scanned_def entry_at_def reaches_def)
  qed
  obtain t where t: "reaches (mips callee) coll k c s t" "reaches (mips callee) coll c st t s'"
    by (rule reaches_split [OF assms(5) \<open>k \<le> c\<close>]) (use c in auto)
  obtain t' where t': "reaches (mips callee) coll c (c + 1) t t'" "reaches (mips callee) coll (c + 1) st t' s'"
    by (rule reaches_split [OF t(2), of "c + 1"]) (use c in auto)
  have len: "c < length coll" "st < length coll" using assms(1) c by (auto simp: scan_ok_def)
  have "walk (mips callee) [coll ! c] t = Fall t'" using t'(1) len(1) by (rule reaches_Suc)
  moreover have "coll ! c \<in> set (take st coll)" using c len by (auto simp: in_set_conv_nth)
  ultimately show thesis using that t(1) t'(2) c by blast
qed

lemma reaches_walk: "reaches M coll m n s s' \<Longrightarrow> walk M (drop m (take n coll)) s = Fall s'"
  by (simp add: reaches_def)

text \<open>A LUI, followed by the second loop.\<close>

lemma scan_sound_LUI:
  assumes lui: "eType (dat (coll ! c)) = IT_LUI" "eRT (dat (coll ! c)) = r"
    and off: "apply_offsets r (drop (c + 1) (take st coll)) (push_bit 16 (ucast (uUI (dat (coll ! c))))) = res"
  shows "scan_sound callee R coll st c r res"
proof (rule scan_soundI)
  show "\<not> (self_add (dat (coll ! c)) \<and> eRD (dat (coll ! c)) = r)"
    using lui by (simp add: self_add_def)
next
  fix v k s s'
  assume v: "res = Ret (Some v)" and ok: "scan_ok callee R coll st r" and sc: "scanned coll st c r"
    and k: "entry_at coll k" "reaches (mips callee) coll k st s s'"
  have "sets_reg (dat (coll ! c)) r" using lui by (simp add: sets_reg_def)
  from reaches_found [OF ok sc this k] obtain t t' where
    t: "walk (mips callee) [coll ! c] t = Fall t'" "reaches (mips callee) coll (c + 1) st t' s'" "coll ! c \<in> set (take st coll)"
    by metis
  from ok have r: "r \<noteq> R_ZERO" "r \<in> R" "way_kept (mips callee) R (take st coll)" by (simp_all add: scan_ok_def)
  have "rd_reg t' r = push_bit 16 (ucast (uUI (dat (coll ! c))))"
    using way_step [OF r(3) t(3,1) r(2)] lui r(1) by (simp add: mips_exec_def Let_def)
  with apply_offsets_sound [OF off [unfolded v] r(1,2) way_kept_sub [OF r(3) set_drop_subset] reaches_walk [OF t(2)]]
  show "rd_reg s' r = v" .
qed

text \<open>An ADDU, with both operands resolved before it.\<close>

lemma operand_other:
  assumes "x = R_ZERO \<and> v = 0 \<or> x \<noteq> R_ZERO \<and> scan_sound callee R coll c c x (Ret (Some v))"
    and "eType (dat (coll ! c)) = IT_ADDU" and "eRS (dat (coll ! c)) = x \<or> eRT (dat (coll ! c)) = x"
    and "scan_ok callee R coll c (eRD (dat (coll ! c)))"
  shows "eRD (dat (coll ! c)) \<noteq> x"
  using assms by (auto simp: scan_sound_def self_add_def scan_ok_def)

lemma operand_sound:
  assumes "x = R_ZERO \<and> v = 0 \<or> x \<noteq> R_ZERO \<and> scan_sound callee R coll c c x (Ret (Some v))"
    and "eType (dat (coll ! c)) = IT_ADDU" and "eRD (dat (coll ! c)) \<noteq> x"
    and "x \<noteq> R_ZERO \<Longrightarrow> scan_ok callee R coll c x"
    and "entry_at coll k" and "reaches (mips callee) coll k c s t"
  shows "rd_reg t x = v"
proof (cases "x = R_ZERO")
  case False
  have "scanned coll c c x" using assms(2,3) by (auto simp: scanned_def sets_reg_def)
  with False assms show ?thesis by (auto simp: scan_sound_def)
qed (use assms(1) in \<open>simp add: rd_reg_def\<close>)

lemma kept_after:
  assumes "scan_ok callee R coll st r" and "scanned coll st c r" and "c < st"
    and "eType (dat (coll ! c)) = IT_ADDU" "eRD (dat (coll ! c)) = r"
  shows "\<forall>i \<in> set (drop (c + 1) (take st coll)). result_of (dat i) \<noteq> Some r"
proof (intro ballI notI)
  fix i
  assume i: "i \<in> set (drop (c + 1) (take st coll))" and d: "result_of (dat i) = Some r"
  have st: "st < length coll" "sums_kept (take st coll)" using assms(1) by (simp_all add: scan_ok_def)
  from i st(1) obtain k where k: "c < k" "k < st" "i = coll ! k" by (elim set_between) simp_all
  with st assms(4,5) d have "eType (dat (coll ! k)) \<in> {IT_LUI, IT_ADDU}"
    by (auto simp: sums_kept_def)
  with k d result_of_set assms(2) show False unfolding scanned_def by blast
qed

lemma scan_sound_ADDU:
  assumes addu: "eType (dat (coll ! c)) = IT_ADDU" "eRD (dat (coll ! c)) = r"
    and v1: "eRS (dat (coll ! c)) = R_ZERO \<and> v1 = 0
      \<or> eRS (dat (coll ! c)) \<noteq> R_ZERO \<and> scan_sound callee R coll c c (eRS (dat (coll ! c))) (Ret (Some v1))"
    and v2: "eRT (dat (coll ! c)) = R_ZERO \<and> v2 = 0
      \<or> eRT (dat (coll ! c)) \<noteq> R_ZERO \<and> scan_sound callee R coll c c (eRT (dat (coll ! c))) (Ret (Some v2))"
  shows "scan_sound callee R coll st c r (Ret (Some (v1 + v2)))"
proof -
  let ?d = "dat (coll ! c)"
  have other: "r \<noteq> eRS ?d \<and> r \<noteq> eRT ?d" if "scan_ok callee R coll st r" "c \<le> st"
  proof -
    have "scan_ok callee R coll c (eRD ?d)"
      using scan_ok_earlier [OF that, of r] that(1) addu(2) by (simp add: scan_ok_def)
    then show ?thesis
      using operand_other [OF v1 addu(1)] operand_other [OF v2 addu(1)] addu(2) by simp
  qed
  show ?thesis
  proof (rule scan_soundI)
    show "\<not> (self_add ?d \<and> eRD ?d = r)" if "scan_ok callee R coll st r" "c \<le> st"
      using other [OF that] by (auto simp: self_add_def addu)
  next
    fix v k s s'
    assume v: "Ret (Some (v1 + v2)) = Ret (Some v)" and ok: "scan_ok callee R coll st r" and sc: "scanned coll st c r"
      and k: "entry_at coll k" "reaches (mips callee) coll k st s s'"
    have "sets_reg ?d r" using addu by (simp add: sets_reg_def)
    from reaches_found [OF ok sc this k] obtain t t' where
      t: "reaches (mips callee) coll k c s t" "walk (mips callee) [coll ! c] t = Fall t'"
        "reaches (mips callee) coll (c + 1) st t' s'" "c < st" "coll ! c \<in> set (take st coll)" by metis
    from ok have r: "r \<noteq> R_ZERO" "r \<in> R" "way_kept (mips callee) R (take st coll)" by (simp_all add: scan_ok_def)
    have "{eRS ?d, eRT ?d} \<subseteq> insert R_ZERO R" using r(2,3) t(5) addu unfolding way_kept_def by blast
    then have before: "x \<noteq> R_ZERO \<Longrightarrow> scan_ok callee R coll c x" if "x \<in> {eRS ?d, eRT ?d}" for x
      using scan_ok_earlier [OF ok, of c x] t(4) that by auto
    have "rd_reg t (eRS ?d) = v1" "rd_reg t (eRT ?d) = v2"
      using operand_sound [OF v1 addu(1) _ before k(1) t(1)] operand_sound [OF v2 addu(1) _ before k(1) t(1)]
        other [OF ok] t(4) addu(2) by auto
    then have "rd_reg t' r = v"
      using way_step [OF r(3) t(5,2) r(2)] addu r(1) v by (simp add: mips_exec_def Let_def)
    with rd_reg_walk [OF kept_after [OF ok sc t(4) addu] way_kept_sub [OF r(3) set_drop_subset] r(2) reaches_walk [OF t(3)]]
    show "rd_reg s' r = v" by simp
  qed
qed

text \<open>Any other instruction is skipped.\<close>

lemma scan_sound_skip:
  assumes "\<not> sets_reg (dat (coll ! c)) r" and "\<not> bIsJumpTarget (dat (coll ! c))" and "c \<noteq> 0"
    and IH: "scan_sound callee R coll st (c - 1) r res"
  shows "scan_sound callee R coll st c r res"
proof (rule scan_soundI)
  show "\<not> (self_add (dat (coll ! c)) \<and> eRD (dat (coll ! c)) = r)"
    using assms(1) by (auto simp: self_add_def sets_reg_def)
next
  fix v k s s'
  assume h: "res = Ret (Some v)" "scan_ok callee R coll st r" and sc: "scanned coll st c r"
    and k: "entry_at coll k" "reaches (mips callee) coll k st s s'"
  have "\<not> sets_reg (dat (coll ! j)) r" if "c - 1 < j" "j < st" for j
    using that sc assms(1) unfolding scanned_def by (cases "j = c") auto
  moreover have "\<not> bIsJumpTarget (dat (coll ! j))" if "c - 1 < j" "j \<le> st" for j
    using that sc assms(2) unfolding scanned_def by (cases "j = c") auto
  moreover have "c - 1 \<le> st" "c - 1 \<noteq> st" using sc assms(3) unfolding scanned_def by auto
  ultimately have "scanned coll st (c - 1) r" unfolding scanned_def by blast
  with IH h k \<open>c - 1 \<le> st\<close> show "rd_reg s' r = v" unfolding scan_sound_def by blast
qed


text \<open>The ways in which one turn of the scan ends, for any function in place of the recursive calls.\<close>

lemma add_operands:
  assumes "Option.bind A (\<lambda>r1. case r1 of
       Fail e \<Rightarrow> Some (Fail e)
     | Ret None \<Rightarrow> Some (Ret None)
     | Ret (Some v1) \<Rightarrow> Option.bind B (\<lambda>r2. case r2 of
           Fail e \<Rightarrow> Some (Fail e)
         | Ret None \<Rightarrow> Some (Ret None)
         | Ret (Some v2) \<Rightarrow> Some (Ret (Some (v1 + v2))))) = Some (Ret (Some v))"
  obtains v1 v2 where "v = v1 + v2" "A = Some (Ret (Some v1))" "B = Some (Ret (Some v2))"
proof -
  from assms obtain v1 where 1: "A = Some (Ret (Some v1))"
    by (cases A) (auto split: result.split_asm option.split_asm)
  with assms obtain v2 where 2: "B = Some (Ret (Some v2))"
    by (cases B) (auto split: result.split_asm option.split_asm)
  from assms 1 2 have "v = v1 + v2" by simp
  from that [OF this 1 2] show thesis .
qed

lemma scan_turn:
  fixes f :: "tInstList \<Rightarrow> nat \<Rightarrow> nat \<Rightarrow> tRegister \<Rightarrow> u32 option result option"
  assumes "(let d = dat (coll ! c) in
     if eType d = IT_LUI \<and> eRT d = r then
       (if c = st then Some (Fail Undefined)
        else Some (apply_offsets r (drop (c + 1) (take st coll)) (push_bit 16 (ucast (uUI d)))))
     else if eType d = IT_ADDU \<and> eRD d = r then
       Option.bind (operand_or_zero (eRS d) (f coll c c (eRS d))) (\<lambda>r1.
         case r1 of
           Fail e \<Rightarrow> Some (Fail e)
         | Ret None \<Rightarrow> Some (Ret None)
         | Ret (Some v1) \<Rightarrow>
             Option.bind (operand_or_zero (eRT d) (f coll c c (eRT d))) (\<lambda>r2.
               case r2 of
                 Fail e \<Rightarrow> Some (Fail e)
               | Ret None \<Rightarrow> Some (Ret None)
               | Ret (Some v2) \<Rightarrow> Some (Ret (Some (v1 + v2)))))
     else if bIsJumpTarget d then Some (Ret None)
     else if c = 0 then Some (Ret None)
     else f coll st (c - 1) r) = Some (Ret (Some v))"
  obtains (LUI) "eType (dat (coll ! c)) = IT_LUI" "eRT (dat (coll ! c)) = r" "c \<noteq> st"
      "apply_offsets r (drop (c + 1) (take st coll)) (push_bit 16 (ucast (uUI (dat (coll ! c))))) = Ret (Some v)"
  | (ADDU) v1 v2 where "eType (dat (coll ! c)) = IT_ADDU" "eRD (dat (coll ! c)) = r" "v = v1 + v2"
      "operand_or_zero (eRS (dat (coll ! c))) (f coll c c (eRS (dat (coll ! c)))) = Some (Ret (Some v1))"
      "operand_or_zero (eRT (dat (coll ! c))) (f coll c c (eRT (dat (coll ! c)))) = Some (Ret (Some v2))"
  | (skip) "\<not> sets_reg (dat (coll ! c)) r" "\<not> bIsJumpTarget (dat (coll ! c))" "c \<noteq> 0"
      "f coll st (c - 1) r = Some (Ret (Some v))"
proof (cases "eType (dat (coll ! c)) = IT_LUI \<and> eRT (dat (coll ! c)) = r")
  case True
  with assms LUI show thesis by (simp add: Let_def split: if_split_asm)
next
  case nolui: False
  show thesis
  proof (cases "eType (dat (coll ! c)) = IT_ADDU \<and> eRD (dat (coll ! c)) = r")
    case True
    with assms nolui ADDU show thesis
      by (simp only: Let_def if_True if_False simp_thms) (elim add_operands, blast)
  next
    case False
    with assms nolui skip show thesis
      by (auto simp: Let_def sets_reg_def split: if_split_asm)
  qed
qed

lemma resolve_scan_sound:
  assumes "resolve_scan coll st c r = Some res"
  shows "scan_sound callee R coll st c r res"
proof (rule resolve_scan.raw_induct [OF _ assms], goal_cases)
  case (1 f coll st c r res)
  show ?case
  proof (cases "\<exists>v. res = Ret (Some v)")
    case False
    then show ?thesis by (auto simp: scan_sound_def)
  next
    case True
    then obtain v where res: "res = Ret (Some v)" ..
    from 1(2) [unfolded res] show ?thesis
    proof (cases rule: scan_turn)
      case LUI
      then show ?thesis unfolding res by (intro scan_sound_LUI)
    next
      case (ADDU v1 v2)
      let ?d = "dat (coll ! c)"
      have "scan_sound callee R coll st c r (Ret (Some (v1 + v2)))"
      proof (rule scan_sound_ADDU [OF ADDU(1,2)])
        show "eRS ?d = R_ZERO \<and> v1 = 0 \<or> eRS ?d \<noteq> R_ZERO \<and> scan_sound callee R coll c c (eRS ?d) (Ret (Some v1))"
          using ADDU(4) 1(1) by (auto elim!: operand_value)
        show "eRT ?d = R_ZERO \<and> v2 = 0 \<or> eRT ?d \<noteq> R_ZERO \<and> scan_sound callee R coll c c (eRT ?d) (Ret (Some v2))"
          using ADDU(5) 1(1) by (auto elim!: operand_value)
      qed
      then show ?thesis unfolding res ADDU(3) .
    next
      case skip
      with 1(1) show ?thesis unfolding res by (blast intro: scan_sound_skip)
    qed
  qed
qed

lemma known_value:
  assumes "resolveRegisterValue coll n r = Some (Ret (Some v))"
    and "n < length coll" and "r \<noteq> R_ZERO" and "\<not> sets_reg (dat (coll ! n)) r"
    and "sums_kept (take n coll)" and "r \<in> R" and "way_kept (mips callee) R (take n coll)"
    and "entry_at coll k" and "reaches (mips callee) coll k n s s'"
  shows "rd_reg s' r = v"
proof -
  have "scan_sound callee R coll n n r (Ret (Some v))"
    using assms(1) unfolding resolveRegisterValue_def by (rule resolve_scan_sound)
  with assms(2-) show ?thesis
    unfolding scan_sound_def by (simp add: scan_ok_def scanned_def)
qed

text \<open>
  C6. A value returned for register \<open>r\<close> at instruction \<open>n\<close> is the contents of the register when control comes to that
  instruction, in every run that enters the list at its start or at one of its labels and falls through to \<open>n\<close>, calls and
  branches on the way included. The scan ignores what calls and the bodies of branches do and what follows an ADDU. So the
  calls and branches before \<open>n\<close> are assumed to keep a set \<open>R\<close> of registers that has \<open>r\<close> and the operands of the sums stored in
  it, and no instruction before \<open>n\<close> but a LUI or an ADDU is assumed to change a register after an ADDU into it. The
  instruction \<open>n\<close> itself is in the list and sets \<open>r\<close> neither by a LUI nor by an ADDU, and \<open>r\<close> is not \<open>R_ZERO\<close>.
\<close>

theorem resolveRegisterValue_sound:
  assumes "resolveRegisterValue coll n r = Some (Ret (Some v))"
    and "n < length coll" and "r \<noteq> R_ZERO" and "\<not> sets_reg (dat (coll ! n)) r"
    and "sums_kept (take n coll)" and "r \<in> R" and "way_kept (mips callee) R (take n coll)"
    and "entry_at coll k" and "reaches (mips callee) coll k n s s'"
  shows "rd_reg s' r = v"
  using known_value [OF assms] .

definition d_lui :: "tRegister \<Rightarrow> u16 \<Rightarrow> inst_data" where
  "d_lui r u = d_addiu_sp\<lparr>eType := IT_LUI, eFormat := IF_RTUI, eRS := R_UNKNOWN, eRT := r, iSI := 0, uUI := u\<rparr>"

definition d_addiu :: "tRegister \<Rightarrow> tRegister \<Rightarrow> u16 \<Rightarrow> inst_data" where
  "d_addiu rt rs i = d_addiu_sp\<lparr>eRT := rt, eRS := rs, iSI := i\<rparr>"

definition d_addu :: "tRegister \<Rightarrow> tRegister \<Rightarrow> tRegister \<Rightarrow> inst_data" where
  "d_addu rd rs rt = d_addiu_sp\<lparr>eType := IT_ADDU, eFormat := IF_RSRTRD, eRD := rd, eRS := rs, eRT := rt, iSI := 0\<rparr>"

definition d_jalr :: "tRegister \<Rightarrow> inst_data" where
  "d_jalr r = d_addiu_sp\<lparr>eType := IT_JALR, eFormat := IF_RSRD, eRD := R_RA, eRS := r, eRT := R_UNKNOWN, iSI := 0\<rparr>"

lemmas d_insts = d_lui_def d_addiu_def d_addu_def d_jalr_def d_addiu_sp_def

text \<open>The usual call sequence: the address is built from two halves.\<close>

definition demo_call :: tInstList where
  "demo_call = [leaf (d_lui R_V0 0x8000), leaf (d_addiu R_V0 R_V0 0x1000), leaf (d_jalr R_V0)]"

text \<open>A label, and a branch between the two halves.\<close>

definition d_bne :: "tRegister \<Rightarrow> tRegister \<Rightarrow> inst_data" where
  "d_bne rs rt = d_addiu_sp\<lparr>eType := IT_BNE, eRS := rs, eRT := rt, iSI := 0, bDelaySlotReordered := True\<rparr>"

definition demo_guarded :: tInstList where
  "demo_guarded = [leaf (d_addiu R_A1 R_A1 1), leaf ((d_lui R_V0 0x8000)\<lparr>bIsJumpTarget := True\<rparr>),
    Instruction (d_bne R_A0 R_A1) [leaf (d_addiu R_A2 R_A2 1)] [] [], leaf (d_addiu R_V0 R_V0 0x1000), leaf (d_jalr R_V0)]"

lemma demo_guarded_way: "way_kept (mips callee) {R_V0} (take 4 demo_guarded)"
  by (auto simp: way_kept_def keeps_regs_def demo_guarded_def d_insts d_bne_def class_of_def conditional_branch_def
      step1_def mips_def mips_exec_def Let_def split: if_split_asm)

theorem resolveRegisterValue_sound_witness:
  "\<forall>callee s. \<exists>s'. reaches (mips callee) demo_guarded 1 4 s s' \<and> rd_reg s' R_V0 = 0x80001000"
proof (intro allI)
  fix callee s
  have r: "resolveRegisterValue demo_guarded 4 R_V0 = Some (Ret (Some 0x80001000))"
    by (simp add: resolveRegisterValue_def demo_guarded_def resolve_scan.simps d_insts d_bne_def
        modifiesRegister_def declare_opcode_defs)
  have "sums_kept (take 4 demo_guarded)"
    by (simp add: sums_kept_def demo_guarded_def d_insts d_bne_def less_Suc_eq eval_nat_numeral)
  moreover have "\<exists>s'. walk (mips callee) (drop 1 (take 4 demo_guarded)) s = Fall s'"
    by (simp add: demo_guarded_def d_insts d_bne_def class_of_def conditional_branch_def step1_def)
  then obtain s' where s': "reaches (mips callee) demo_guarded 1 4 s s'" by (auto simp: reaches_def)
  ultimately have "rd_reg s' R_V0 = 0x80001000"
    using resolveRegisterValue_sound [OF r _ _ _ _ _ demo_guarded_way _ s']
    by (simp add: demo_guarded_def entry_at_def sets_reg_def d_insts)
  with s' show "\<exists>s'. reaches (mips callee) demo_guarded 1 4 s s' \<and> rd_reg s' R_V0 = 0x80001000" by blast
qed

section \<open>Termination\<close>

lemma self_add_operand:
  "\<not> self_add d \<Longrightarrow> eType d = IT_ADDU \<Longrightarrow> x \<noteq> R_ZERO \<Longrightarrow> eRS d = x \<or> eRT d = x \<Longrightarrow> eRD d \<noteq> x"
  by (auto simp: self_add_def)

lemma resolve_scan_other:
  assumes "c \<noteq> 0 \<Longrightarrow> \<exists>y. resolve_scan coll st (c - 1) r = Some y"
    and "eType (dat (coll ! c)) = IT_ADDU \<Longrightarrow> eRD (dat (coll ! c)) \<noteq> r"
  shows "\<exists>y. resolve_scan coll st c r = Some y"
  using assms by (subst resolve_scan.simps) (auto simp: Let_def)

lemma add_operands_returns:
  assumes "A = Some y1" and "B = Some y2"
  shows "\<exists>y. Option.bind A (\<lambda>r1. case r1 of
       Fail e \<Rightarrow> Some (Fail e)
     | Ret None \<Rightarrow> Some (Ret None)
     | Ret (Some v1) \<Rightarrow> Option.bind B (\<lambda>r2. case r2 of
           Fail e \<Rightarrow> Some (Fail e)
         | Ret None \<Rightarrow> Some (Ret None)
         | Ret (Some v2) \<Rightarrow> Some (Ret (Some (v1 + v2 :: u32))))) = Some y"
  by (simp add: assms split: result.split option.split)

lemma resolve_scan_step:
  assumes up: "\<And>st r. c \<noteq> 0 \<Longrightarrow> \<exists>y. resolve_scan coll st (c - 1) r = Some y"
    and "\<not> self_add (dat (coll ! c))"
  shows "\<exists>y. resolve_scan coll st c r = Some y"
proof (cases "eType (dat (coll ! c)) = IT_ADDU \<and> eRD (dat (coll ! c)) = r")
  case True
  let ?d = "dat (coll ! c)"
  have operand: "\<exists>y. operand_or_zero x (resolve_scan coll c c x) = Some y" if "eRS ?d = x \<or> eRT ?d = x" for x
  proof (cases "x = R_ZERO")
    case False
    from resolve_scan_other [OF up self_add_operand [OF assms(2) _ False that]]
    have "\<exists>y. resolve_scan coll c c x = Some y" .
    with False show ?thesis by simp
  qed simp
  obtain y1 where y1: "operand_or_zero (eRS ?d) (resolve_scan coll c c (eRS ?d)) = Some y1"
    using operand [OF disjI1 [OF refl]] ..
  obtain y2 where y2: "operand_or_zero (eRT ?d) (resolve_scan coll c c (eRT ?d)) = Some y2"
    using operand [OF disjI2 [OF refl]] ..
  from True have "\<not> (eType ?d = IT_LUI \<and> eRT ?d = r)" by simp
  with True add_operands_returns [OF y1 y2] show ?thesis
    by (subst resolve_scan.simps) (simp only: Let_def if_True if_False simp_thms)
next
  case False
  show ?thesis
  proof (rule resolve_scan_other)
    show "\<exists>y. resolve_scan coll st (c - 1) r = Some y" if "c \<noteq> 0" using that by (rule up)
    show "eRD (dat (coll ! c)) \<noteq> r" if "eType (dat (coll ! c)) = IT_ADDU" using that False by simp
  qed
qed

lemma resolve_scan_returns:
  "\<forall>k \<le> c. \<not> self_add (dat (coll ! k)) \<Longrightarrow> \<exists>y. resolve_scan coll st c r = Some y"
  by (induction c arbitrary: st r) (rule resolve_scan_step, simp, simp)+

text \<open>
  C7. \<open>resolveRegisterValue\<close> returns whenever no instruction up to the one asked about adds to one of
  its own operands.
\<close>

theorem resolveRegisterValue_returns:
  assumes "\<forall>k \<le> n. \<not> self_add (dat (coll ! k))"
  shows "\<exists>y. resolveRegisterValue coll n r = Some y"
  unfolding resolveRegisterValue_def using assms by (rule resolve_scan_returns)

theorem resolveRegisterValue_returns_witness: "\<exists>y. resolveRegisterValue demo_call 2 R_A0 = Some y"
proof (rule resolveRegisterValue_returns)
  show "\<forall>k \<le> 2. \<not> self_add (dat (demo_call ! k))"
    by (simp add: demo_call_def self_add_def d_insts le_Suc_eq numeral_2_eq_2)
qed

lemma resolve_scan_diverges:
  assumes "self_add (dat (coll ! c))" and "eRS (dat (coll ! c)) = eRD (dat (coll ! c))"
  shows "resolve_scan coll st c (eRD (dat (coll ! c))) = None"
proof (rule ccontr)
  assume "resolve_scan coll st c (eRD (dat (coll ! c))) \<noteq> None"
  then obtain y where y: "resolve_scan coll st c (eRD (dat (coll ! c))) = Some y" by auto
  have "\<not> (self_add (dat (coll ! c)) \<and> eRS (dat (coll ! c)) = eRD (dat (coll ! c))
      \<and> eRD (dat (coll ! c)) = eRD (dat (coll ! c)))"
  proof (rule resolve_scan.raw_induct [OF _ y, where P = "\<lambda>coll st c r y.
      \<not> (self_add (dat (coll ! c)) \<and> eRS (dat (coll ! c)) = eRD (dat (coll ! c)) \<and> eRD (dat (coll ! c)) = r)"], goal_cases)
    case (1 f coll st c r y)
    show ?case
    proof
      assume h: "self_add (dat (coll ! c)) \<and> eRS (dat (coll ! c)) = eRD (dat (coll ! c)) \<and> eRD (dat (coll ! c)) = r"
      with 1(2) obtain y' where "f coll c c r = Some y'"
        by (auto simp: self_add_def Let_def Option.bind_eq_Some_conv)
      from 1(1) [OF this] h show False by simp
    qed
  qed
  with assms show False by simp
qed

lemma resolve_scan_upwards:
  "m \<le> c \<Longrightarrow> \<forall>k. m < k \<longrightarrow> k \<le> c \<longrightarrow> \<not> sets_reg (dat (coll ! k)) r \<and> \<not> bIsJumpTarget (dat (coll ! k))
    \<Longrightarrow> resolve_scan coll st c r = resolve_scan coll st m r"
proof (induction c)
  case (Suc c)
  show ?case
  proof (cases "m = Suc c")
    case False
    with Suc have "resolve_scan coll st c r = resolve_scan coll st m r" by simp
    moreover from Suc.prems False have "\<not> (eType (dat (coll ! Suc c)) = IT_LUI \<and> eRT (dat (coll ! Suc c)) = r)"
        "\<not> (eType (dat (coll ! Suc c)) = IT_ADDU \<and> eRD (dat (coll ! Suc c)) = r)"
        "\<not> bIsJumpTarget (dat (coll ! Suc c))"
      by (auto simp: sets_reg_def)
    ultimately show ?thesis
      by (subst resolve_scan.simps) (simp only: Let_def if_False nat.simps diff_Suc_1)
  qed simp
qed simp

text \<open>
  C8. \<open>resolveRegisterValue\<close> does not return when the scan comes to an ADDU whose first operand is the
  register asked for and its destination: the nested call for the operand is the same call again.
\<close>

theorem resolveRegisterValue_diverges:
  assumes "m \<le> n" and "self_add (dat (coll ! m))" and "eRS (dat (coll ! m)) = eRD (dat (coll ! m))"
    and "\<forall>k. m < k \<longrightarrow> k \<le> n \<longrightarrow>
      \<not> sets_reg (dat (coll ! k)) (eRD (dat (coll ! m))) \<and> \<not> bIsJumpTarget (dat (coll ! k))"
  shows "resolveRegisterValue coll n (eRD (dat (coll ! m))) = None"
  unfolding resolveRegisterValue_def
  using resolve_scan_upwards [OF assms(1,4)] resolve_scan_diverges [OF assms(2,3)] by simp

text \<open>A call through a table: the index is added to the base.\<close>

definition demo_table_call :: tInstList where
  "demo_table_call = [leaf (d_lui R_V0 0x8000), leaf (d_addu R_V0 R_V0 R_A0), leaf (d_jalr R_V0)]"

theorem resolveRegisterValue_diverges_witness: "resolveRegisterValue demo_table_call 2 R_V0 = None"
  using resolveRegisterValue_diverges [of 1 2 demo_table_call]
  by (simp add: demo_table_call_def self_add_def sets_reg_def d_insts numeral_2_eq_2 le_Suc_eq)

text \<open>
  What follows an ADDU is not added: for \<open>lui a0, u; addu v0, a0, zero; addiu v0, v0, i; jalr v0\<close>
  the value returned lacks the immediate of the ADDIU.
\<close>

definition demo_late_offset :: "u16 \<Rightarrow> u16 \<Rightarrow> tInstList" where
  "demo_late_offset u i =
    [leaf (d_lui R_A0 u), leaf (d_addu R_V0 R_A0 R_ZERO), leaf (d_addiu R_V0 R_V0 i), leaf (d_jalr R_V0)]"

lemma resolveRegisterValue_late_offset:
  "resolveRegisterValue (demo_late_offset u i) 3 R_V0 = Some (Ret (Some (push_bit 16 (ucast u)))) \<and>
   (\<exists>s'. reaches (mips callee) (demo_late_offset u i) 0 3 s s' \<and> rd_reg s' R_V0 = push_bit 16 (ucast u) + scast i)"
proof
  show "resolveRegisterValue (demo_late_offset u i) 3 R_V0 = Some (Ret (Some (push_bit 16 (ucast u))))"
    by (simp add: resolveRegisterValue_def demo_late_offset_def resolve_scan.simps d_insts)
  show "\<exists>s'. reaches (mips callee) (demo_late_offset u i) 0 3 s s' \<and> rd_reg s' R_V0 = push_bit 16 (ucast u) + scast i"
    by (simp add: demo_late_offset_def d_insts mips_exec_def Let_def rd_reg_def [of _ R_ZERO] reaches_def
        class_of_def conditional_branch_def step1_def)
qed

text \<open>
  What a branch does in its body is not seen: for \<open>lui v0, u; if (a0 != a1) addiu v0, v0, i; jalr v0\<close> the value returned is
  that of the run that does not take the branch.
\<close>

definition demo_body_offset :: "u16 \<Rightarrow> u16 \<Rightarrow> tInstList" where
  "demo_body_offset u i =
    [leaf (d_lui R_V0 u), Instruction (d_bne R_A0 R_A1) [leaf (d_addiu R_V0 R_V0 i)] [] [], leaf (d_jalr R_V0)]"

lemma resolveRegisterValue_branch_body:
  assumes "rd_reg s R_A0 \<noteq> rd_reg s R_A1"
  shows "resolveRegisterValue (demo_body_offset u i) 2 R_V0 = Some (Ret (Some (push_bit 16 (ucast u)))) \<and>
   (\<exists>s'. reaches (mips callee) (demo_body_offset u i) 0 2 s s' \<and> rd_reg s' R_V0 = push_bit 16 (ucast u) + scast i)"
proof
  show "resolveRegisterValue (demo_body_offset u i) 2 R_V0 = Some (Ret (Some (push_bit 16 (ucast u))))"
    by (simp add: resolveRegisterValue_def demo_body_offset_def resolve_scan.simps d_insts d_bne_def
        modifiesRegister_def declare_opcode_defs)
  show "\<exists>s'. reaches (mips callee) (demo_body_offset u i) 0 2 s s' \<and> rd_reg s' R_V0 = push_bit 16 (ucast u) + scast i"
    using assms by (simp add: demo_body_offset_def d_insts d_bne_def mips_exec_def mips_cond_def Let_def reaches_def
        class_of_def conditional_branch_def step1_def)
qed

section \<open>dumpInstructions\<close>

text \<open>The directive \<open>%08x\<close>: lower-case hexadecimal digits.\<close>

definition tolower_hex :: "char \<Rightarrow> char" where
  "tolower_hex c = (let n = of_char c :: nat in if 65 \<le> n \<and> n \<le> 70 then char_of (n + 32) else c)"

definition fmt_08x :: "u32 \<Rightarrow> string" where
  "fmt_08x w = map tolower_hex (fmt_08X w)"

text \<open>The number of an enumerator, as \<open>%d\<close> prints it.\<close>

definition reg_num :: "tRegister \<Rightarrow> nat" where
  "reg_num r = the (find_index (\<lambda>q. q = r)
    [R_ZERO, R_A0, R_A1, R_A2, R_A3, R_AT, R_FP, R_GP, R_RA, R_S0, R_S1, R_S2, R_S3, R_S4, R_S5, R_S6, R_S7, R_SP,
     R_T0, R_T1, R_T2, R_T3, R_T4, R_T5, R_T6, R_T7, R_T8, R_T9, R_V0, R_V1, R_UNKNOWN])"

definition tab :: char where "tab = CHR 0x09"

text \<open>
  The argument string of one line. The case \<open>IF_RTRDSA\<close> has no \<open>break\<close>: what it printed is
  overwritten by the next case, \<open>IF_RTRDSEL\<close>.
\<close>

definition dump_sel :: "inst_data \<Rightarrow> string result" where
  "dump_sel d = r_map (\<lambda>t. tab # t @ '','' @ fmt_u (reg_num (eRD d)) @ '','' @ fmt_u (unat (uSEL d))) (getRegName (eRT d))"

definition dump_regs :: "tRegister list \<Rightarrow> string \<Rightarrow> string result" where
  "dump_regs rs tail =
    (case rs of
       [] \<Rightarrow> Ret tail
     | r # rs \<Rightarrow> r_bind (getRegName r) (\<lambda>n.
         r_map (\<lambda>ns. tab # n @ concat (map (\<lambda>m. '','' @ m) ns) @ tail)
           (foldr (\<lambda>q acc. r_bind (getRegName q) (\<lambda>m. r_map ((#) m) acc)) rs (Ret []))))"

definition dump_args :: "inst_data \<Rightarrow> string result" where
  "dump_args d =
    (case eFormat d of
       IF_NOARG \<Rightarrow> Ret (tab # ''<NOARG>'')
     | IF_RSRTRD \<Rightarrow> dump_regs [eRS d, eRT d, eRD d] []
     | IF_RSRD \<Rightarrow> dump_regs [eRS d, eRD d] []
     | IF_RSRTUI \<Rightarrow> dump_regs [eRS d, eRT d] ('',0x'' @ fmt_X (unat (uUI d)))
     | IF_RTUI \<Rightarrow> dump_regs [eRT d] ('',0x'' @ fmt_X (unat (uUI d)))
     | IF_RSSI \<Rightarrow> dump_regs [eRS d] ('','' @ fmt_d (sint (iSI d)))
     | IF_RSRT \<Rightarrow> dump_regs [eRS d, eRT d] []
     | IF_RSRTSI \<Rightarrow> dump_regs [eRS d, eRT d] ('','' @ fmt_d (sint (iSI d)))
     | IF_RD \<Rightarrow> dump_regs [eRD d] []
     | IF_RS \<Rightarrow> dump_regs [eRS d] []
     | IF_RTRDSA \<Rightarrow> r_bind (dump_regs [eRT d, eRD d] ('','' @ fmt_u (unat (uSA d)))) (\<lambda>_. dump_sel d)
     | IF_RTRDSEL \<Rightarrow> dump_sel d
     | IF_UNKNOWN \<Rightarrow> Ret [])"

definition dump_line :: "inst_data \<Rightarrow> string result" where
  "dump_line d =
    r_bind (dump_args d) (\<lambda>strArg. r_bind (getInstrName d) (\<lambda>name.
      Ret (fmt_08x (uAddress d) @ [CHR '':'', tab] @ fmt_08x 0 @ [tab] @ name @ strArg @ [newline])))"

fun dumpInstructions :: "tInstList \<Rightarrow> string result" where
  "dumpInstructions [] = Ret []"
| "dumpInstructions (i # rest) =
    r_bind (dump_line (dat i)) (\<lambda>line. r_map (\<lambda>ls. line @ ls) (dumpInstructions rest))"

lemma dump_args_uSA: "dump_args (d\<lparr>uSA := n\<rparr>) = dump_args d"
  by (cases "eFormat d"; cases "getRegName (eRT d)"; cases "getRegName (eRD d)")
    (simp_all add: dump_args_def dump_sel_def dump_regs_def)

text \<open>
  The listing does not show shift amounts: changing the \<open>uSA\<close> of every instruction does not change
  what \<open>dumpInstructions\<close> prints.
\<close>

lemma dumpInstructions_hides_shift:
  "dumpInstructions (map (upd_dat (\<lambda>d. d\<lparr>uSA := n\<rparr>)) xs) = dumpInstructions xs"
  by (induction xs) (simp_all add: dump_line_def getInstrName_def dump_args_uSA)

section \<open>The listing has one line per instruction\<close>

lemma hex_no_newline: "hex_value c \<noteq> None \<Longrightarrow> c \<noteq> newline" "hex_value c \<noteq> None \<Longrightarrow> tolower_hex c \<noteq> newline"
proof -
  assume hex: "hex_value c \<noteq> None"
  then show 1: "c \<noteq> newline" by (auto simp: hex_value_def)
  show "tolower_hex c \<noteq> newline"
  proof
    assume "tolower_hex c = newline"
    with 1 have n: "65 \<le> (of_char c :: nat)" "(of_char c :: nat) \<le> 70" "char_of (of_char c + 32 :: nat) = newline"
      by (auto simp: tolower_hex_def Let_def split: if_split_asm)
    from arg_cong [OF n(3), of "of_char :: char \<Rightarrow> nat"] have "(of_char c + 32) mod 256 = (10 :: nat)" by simp
    with n(1,2) show False by simp
  qed
qed

lemma fmt_no_newline [simp]:
  "newline \<notin> set (fmt_u n)" "newline \<notin> set (fmt_X n)" "newline \<notin> set (fmt_d i)" "newline \<notin> set (fmt_08x w)"
proof -
  show u: "newline \<notin> set (fmt_u n)" for n
  proof
    assume "newline \<in> set (fmt_u n)"
    then obtain x where "x \<in> set (digits 10 n)" "newline = digit_char x" by (auto simp: fmt_u_def)
    with digits_less [of 10 x n] hex_value_digit_char [of x] hex_no_newline(1) [of newline] show False by simp
  qed
  show "newline \<notin> set (fmt_X n)" using fmt_X_digit hex_no_newline(1) by blast
  show "newline \<notin> set (fmt_d i)" using u by (simp add: fmt_d_def)
  show "newline \<notin> set (fmt_08x w)"
    using fmt_08X_digit hex_no_newline(2) by (auto simp: fmt_08x_def dest: sym)
qed

lemma getInstrName_known: "has_info (eType d) \<Longrightarrow> \<exists>n. getInstrName d = Ret n \<and> newline \<notin> set n"
  by (cases "eType d") (simp_all add: getInstrName_def has_info_def declare_opcode_defs)

lemma getRegName_known: "r \<noteq> R_UNKNOWN \<Longrightarrow> \<exists>n. getRegName r = Ret n \<and> newline \<notin> set n"
  by (cases r) simp_all

lemma dump_regs_known:
  assumes "\<forall>r \<in> set (q # rs). r \<noteq> R_UNKNOWN" and "newline \<notin> set tail"
  shows "\<exists>s. dump_regs (q # rs) tail = Ret s \<and> newline \<notin> set s"
proof -
  have "\<exists>ns. foldr (\<lambda>q acc. r_bind (getRegName q) (\<lambda>m. r_map ((#) m) acc)) rs (Ret []) = Ret ns
      \<and> (\<forall>n \<in> set ns. newline \<notin> set n)"
    if "\<forall>r \<in> set rs. r \<noteq> R_UNKNOWN" for rs
    using that
  proof (induction rs)
    case (Cons r rs)
    then show ?case using getRegName_known [of r] by auto
  qed simp
  with assms getRegName_known [of q] show ?thesis
    by (fastforce simp: dump_regs_def tab_def)
qed

lemma dump_args_known:
  assumes "wf_dat d"
  shows "\<exists>s. dump_args d = Ret s \<and> newline \<notin> set s"
proof -
  have sel: "\<exists>s. dump_sel d = Ret s \<and> newline \<notin> set s" if "eRT d \<noteq> R_UNKNOWN"
    using getRegName_known [OF that] by (auto simp: dump_sel_def tab_def)
  have sa: "\<exists>s. dump_regs [eRT d, eRD d] ('','' @ fmt_u (unat (uSA d))) = Ret s"
    if "eRT d \<noteq> R_UNKNOWN" "eRD d \<noteq> R_UNKNOWN"
    using dump_regs_known [of "eRT d" "[eRD d]" "'','' @ fmt_u (unat (uSA d))"] that by auto
  from assms have "regs_known (eFormat d) d" unfolding wf_dat_def ..
  then show ?thesis
    by (cases "eFormat d") (use sel sa in \<open>auto simp: dump_args_def tab_def intro!: dump_regs_known\<close>)
qed

text \<open>
  The listing of well-formed instructions fails no assertion and has exactly one line per instruction.
\<close>

lemma dumpInstructions_lines:
  assumes "\<forall>i \<in> set xs. wf_dat (dat i) \<and> has_info (eType (dat i))"
  shows "\<exists>t. dumpInstructions xs = Ret t \<and> count_list t newline = length xs"
  using assms
proof (induction xs)
  case (Cons i xs)
  then obtain t where t: "dumpInstructions xs = Ret t" "count_list t newline = length xs" by auto
  from Cons.prems obtain s where s: "dump_args (dat i) = Ret s" "newline \<notin> set s"
    using dump_args_known by auto
  from Cons.prems obtain n where "getInstrName (dat i) = Ret n" "newline \<notin> set n"
    using getInstrName_known by auto
  with t s show ?case
    by (simp add: dump_line_def count_notin tab_def)
qed simp

end
