(* ===== verification/Parameters.thy ===== *)
theory Parameters
  imports Prelude
begin

text \<open>
  \<^verbatim>\<open>src/tools/mipsdec/parameter.h\<close> and \<^verbatim>\<open>parameter.cpp\<close>: the C types that the generated prototypes
  refer to and the table of prototypes.

  The type objects refer to each other by address, in cycles, so a type is its name in an enumeration
  (\<open>tTypeId\<close>) and \<open>type_info\<close> gives the object. A member array of 100 entries is the list of the entries
  that the initialiser gives; the rest of the array is zero, so that \<open>pName\<close> is NULL from there on.
  The table \<open>collFunctionParameters\<close> is filled from \<^verbatim>\<open>user_function_parameter.inc\<close>, a file that each user
  writes and that is not part of the sources: it is a parameter of the operations that read it.
\<close>

definition TF_NONE :: u32 where "TF_NONE = 0"
definition TF_BY_REFERENCE :: u32 where "TF_BY_REFERENCE = 1"
definition TF_CONST :: u32 where "TF_CONST = 2"

datatype tTypeId =
    aTypeVoid | aTypeChar | aTypeUnsignedChar | aTypeInt | aTypeUnsignedInt | aTypeUnsignedShort
  | aTypeUnsignedLong | aTypeTodo | aTypeListHead | aTypeResource | aTypePciDeviceId | aTypePciBus | aTypePciDev

record tParameter =
  par_pName :: "string option"
  uFlags :: u32
  pInfo :: "tTypeId option"
  uArrayElements :: u32

record tTypeInfo =
  uSize :: u32
  type_pName :: string
  subFields :: "tParameter list"

record tFunctionParameters =
  fun_pName :: string
  collParameters :: "tParameter list"

definition FIELDS :: nat where "FIELDS = 100"

definition fld :: "string \<Rightarrow> u32 \<Rightarrow> tTypeId \<Rightarrow> tParameter" where
  "fld n f t = \<lparr>par_pName = Some n, uFlags = f, pInfo = Some t, uArrayElements = 0\<rparr>"

definition fld_array :: "string \<Rightarrow> u32 \<Rightarrow> tTypeId \<Rightarrow> u32 \<Rightarrow> tParameter" where
  "fld_array n f t k = \<lparr>par_pName = Some n, uFlags = f, pInfo = Some t, uArrayElements = k\<rparr>"

definition DECLARE_BASIC_TYPE :: "u32 \<Rightarrow> string \<Rightarrow> tTypeInfo" where
  "DECLARE_BASIC_TYPE sz name = \<lparr>uSize = sz, type_pName = name, subFields = []\<rparr>"

definition fields_ListHead :: "tParameter list" where
  "fields_ListHead = [fld ''next'' TF_BY_REFERENCE aTypeListHead, fld ''prev'' TF_BY_REFERENCE aTypeListHead]"

definition fields_Resource :: "tParameter list" where
  "fields_Resource =
    [fld ''name'' (TF_BY_REFERENCE OR TF_CONST) aTypeChar,
     fld ''start'' TF_NONE aTypeUnsignedLong,
     fld ''end'' TF_NONE aTypeUnsignedLong,
     fld ''flags'' TF_NONE aTypeUnsignedLong,
     fld ''parent'' TF_BY_REFERENCE aTypeResource,
     fld ''silbing'' TF_BY_REFERENCE aTypeResource,
     fld ''child'' TF_BY_REFERENCE aTypeResource]"

definition fields_PciDeviceId :: "tParameter list" where
  "fields_PciDeviceId =
    [fld ''vendor'' TF_NONE aTypeUnsignedInt,
     fld ''device'' TF_NONE aTypeUnsignedInt,
     fld ''subvendor'' TF_NONE aTypeUnsignedInt,
     fld ''subdevice'' TF_NONE aTypeUnsignedInt,
     fld ''class'' TF_NONE aTypeUnsignedInt,
     fld ''class_mask'' TF_NONE aTypeUnsignedInt,
     fld ''driver_data'' TF_NONE aTypeUnsignedLong]"

definition fields_PciBus :: "tParameter list" where
  "fields_PciBus =
    [fld ''node'' TF_NONE aTypeListHead,
     fld ''parent'' TF_BY_REFERENCE aTypePciBus,
     fld ''children'' TF_NONE aTypeListHead,
     fld ''devices'' TF_NONE aTypeListHead,
     fld ''self'' TF_BY_REFERENCE aTypePciDev,
     fld_array ''resource'' TF_BY_REFERENCE aTypeResource 4,
     fld ''ops'' TF_BY_REFERENCE aTypeTodo,
     fld ''sysdata'' TF_BY_REFERENCE aTypeVoid,
     fld ''procdir'' TF_BY_REFERENCE aTypeTodo,
     fld ''number'' TF_NONE aTypeUnsignedChar,
     fld ''primary'' TF_NONE aTypeUnsignedChar,
     fld ''secondary'' TF_NONE aTypeUnsignedChar,
     fld ''subordinate'' TF_NONE aTypeUnsignedChar,
     fld_array ''name'' TF_NONE aTypeUnsignedChar 48,
     fld ''vendor'' TF_NONE aTypeUnsignedShort,
     fld ''device'' TF_NONE aTypeUnsignedShort,
     fld ''serial'' TF_NONE aTypeUnsignedInt,
     fld ''pnpver'' TF_NONE aTypeUnsignedChar,
     fld ''productver'' TF_NONE aTypeUnsignedChar,
     fld ''checksum'' TF_NONE aTypeUnsignedChar,
     fld ''pad1'' TF_NONE aTypeUnsignedChar]"

definition fields_PciDev :: "tParameter list" where
  "fields_PciDev = [fld ''global_list'' TF_NONE aTypeListHead, fld ''bus_list'' TF_NONE aTypeListHead]"

fun type_info :: "tTypeId \<Rightarrow> tTypeInfo" where
  "type_info aTypeVoid = DECLARE_BASIC_TYPE 0 ''void''"
| "type_info aTypeChar = DECLARE_BASIC_TYPE 1 ''char''"
| "type_info aTypeUnsignedChar = DECLARE_BASIC_TYPE 1 ''unsigned char''"
| "type_info aTypeInt = DECLARE_BASIC_TYPE 4 ''int''"
| "type_info aTypeUnsignedInt = DECLARE_BASIC_TYPE 4 ''unsigned int''"
| "type_info aTypeUnsignedShort = DECLARE_BASIC_TYPE 2 ''unsigned short''"
| "type_info aTypeUnsignedLong = DECLARE_BASIC_TYPE 4 ''unsigned long''"
| "type_info aTypeTodo = DECLARE_BASIC_TYPE 4 ''void''"
| "type_info aTypeListHead = \<lparr>uSize = 0, type_pName = ''struct list_head'', subFields = fields_ListHead\<rparr>"
| "type_info aTypeResource = \<lparr>uSize = 0, type_pName = ''struct resource'', subFields = fields_Resource\<rparr>"
| "type_info aTypePciDeviceId = \<lparr>uSize = 0, type_pName = ''struct pci_device_id'', subFields = fields_PciDeviceId\<rparr>"
| "type_info aTypePciBus = \<lparr>uSize = 0, type_pName = ''struct pci_bus'', subFields = fields_PciBus\<rparr>"
| "type_info aTypePciDev = \<lparr>uSize = 0, type_pName = ''struct pci_dev'', subFields = fields_PciDev\<rparr>"

text \<open>The first row with the name.\<close>

fun getFunctionParameters :: "tFunctionParameters list \<Rightarrow> string \<Rightarrow> tParameter list option" where
  "getFunctionParameters [] strFunctionName = None"
| "getFunctionParameters (row # rows) strFunctionName =
    (if strFunctionName = fun_pName row then Some (collParameters row)
     else getFunctionParameters rows strFunctionName)"

text \<open>
  Reading \<open>pParams[uIdx]\<close>: an entry of the initialiser, a zero entry up to the size of the array, and
  undefined from there on.
\<close>

definition par_zero :: tParameter where
  "par_zero = \<lparr>par_pName = None, uFlags = 0, pInfo = None, uArrayElements = 0\<rparr>"

definition par_at :: "tParameter list \<Rightarrow> nat \<Rightarrow> tParameter result" where
  "par_at ps n = (if n < length ps then Ret (ps ! n) else if n < FIELDS then Ret par_zero else Fail Undefined)"

section \<open>The type table\<close>

text \<open>The types that a type holds by value; their nesting is bounded, although the references form cycles.\<close>

definition by_value :: "tTypeId \<Rightarrow> tTypeId list" where
  "by_value t = List.map_filter pInfo (filter (\<lambda>p. uFlags p AND TF_BY_REFERENCE = 0) (subFields (type_info t)))"

fun nesting :: "nat \<Rightarrow> tTypeId \<Rightarrow> bool" where
  "nesting 0 t = (by_value t = [])"
| "nesting (Suc n) t = (\<forall>u \<in> set (by_value t). nesting n u)"

lemmas type_defs = fields_ListHead_def fields_Resource_def fields_PciDeviceId_def fields_PciBus_def fields_PciDev_def
  fld_def fld_array_def DECLARE_BASIC_TYPE_def TF_NONE_def TF_BY_REFERENCE_def TF_CONST_def

text \<open>
  Every type of the table fits its array with a NULL name left to end it, has distinct member names,
  and holds other types by value at most one level deep.
\<close>

lemma type_table_wf:
  "length (subFields (type_info t)) < FIELDS \<and> distinct (map par_pName (subFields (type_info t))) \<and> nesting 1 t"
  by (cases t) (simp_all add: type_defs FIELDS_def by_value_def List.map_filter_def One_nat_def)

end
