(* ===== verification/Codegen.thy ===== *)
theory Codegen
  imports RegisterValue Parameters
begin

text \<open>
  \<^verbatim>\<open>src/tools/mipsdec/codegen.cpp\<close>: the C text for an instruction tree. Every function returns the
  characters it writes to the file. \<open>resolveRegisterValue\<close>, which the case for JALR calls, may not
  return; so the results are options, with \<open>None\<close> for a run that does not return. The symbol table and
  the table of prototypes are arguments.
\<close>

section \<open>Model\<close>

definition getIndentStr :: "nat \<Rightarrow> string" where
  "getIndentStr uDepth = replicate uDepth tab"

definition getRegVarName :: "tRegister \<Rightarrow> string result" where
  "getRegVarName eRegister =
    (let strVarName = (if eRegister = R_ZERO then [] else ''REG_'') in
     r_map (\<lambda>n. strVarName @ n) (getRegName eRegister))"

definition doIndent :: "nat \<Rightarrow> string" where
  "doIndent uDepth = getIndentStr uDepth"

text \<open>The names of one, two or three register variables for a line.\<close>

definition name1 :: "tRegister \<Rightarrow> (string \<Rightarrow> string) \<Rightarrow> string result" where
  "name1 a f = r_map f (getRegVarName a)"

definition name2 :: "tRegister \<Rightarrow> tRegister \<Rightarrow> (string \<Rightarrow> string \<Rightarrow> string) \<Rightarrow> string result" where
  "name2 a b f = r_bind (getRegVarName a) (\<lambda>x. name1 b (f x))"

definition name3 ::
  "tRegister \<Rightarrow> tRegister \<Rightarrow> tRegister \<Rightarrow> (string \<Rightarrow> string \<Rightarrow> string \<Rightarrow> string) \<Rightarrow> string result" where
  "name3 a b c f = r_bind (getRegVarName a) (\<lambda>x. name2 b c (f x))"

definition cSign :: "u16 \<Rightarrow> string" where
  "cSign i = (if sint i < 0 then ''-'' else ''+'')"

definition abs_d :: "u16 \<Rightarrow> string" where
  "abs_d i = fmt_d \<bar>sint i\<bar>"

definition hex_d :: "u16 \<Rightarrow> string" where
  "hex_d u = ''0x'' @ fmt_X (unat u)"

text \<open>A memory operand: the type, the base register and the offset.\<close>

definition mem_operand :: "string \<Rightarrow> string \<Rightarrow> u16 \<Rightarrow> string" where
  "mem_operand ty base i = ''*(('' @ ty @ '' *)(((unsigned int)('' @ base @ '')) '' @ cSign i @ '' '' @ abs_d i @ ''))''"

definition eol :: string where
  "eol = '';'' @ [newline]"

text \<open>
  The statement of an instruction that needs no look at its neighbours, one definition per \<open>case\<close> of the
  \<open>switch\<close>, without the indentation that starts the line.
\<close>

definition code_ADDIU :: "inst_data \<Rightarrow> string result" where
  "code_ADDIU d =
    (if eRS d = R_ZERO then name1 (eRT d) (\<lambda>t. t @ '' = '' @ fmt_d (sint (iSI d)) @ eol)
     else if eRT d = eRS d then name1 (eRT d) (\<lambda>t. t @ '' '' @ cSign (iSI d) @ ''= '' @ abs_d (iSI d) @ eol)
     else name2 (eRT d) (eRS d) (\<lambda>t s. t @ '' = '' @ s @ '' '' @ cSign (iSI d) @ '' '' @ abs_d (iSI d) @ eol))"

definition code_ADDU :: "inst_data \<Rightarrow> string result" where
  "code_ADDU d =
    (if eRS d = R_ZERO \<and> eRT d = R_ZERO then name1 (eRD d) (\<lambda>x. x @ '' = 0'' @ eol)
     else if eRT d = R_ZERO then name2 (eRD d) (eRS d) (\<lambda>x s. x @ '' = '' @ s @ eol)
     else if eRD d = eRS d then name2 (eRD d) (eRT d) (\<lambda>x t. x @ '' += '' @ t @ eol)
     else name3 (eRD d) (eRS d) (eRT d) (\<lambda>x s t. x @ '' = '' @ s @ '' + '' @ t @ eol))"

definition code_AND :: "inst_data \<Rightarrow> string result" where
  "code_AND d =
    (if eRD d = eRS d then name2 (eRD d) (eRT d) (\<lambda>x t. x @ '' &= '' @ t @ eol)
     else name3 (eRD d) (eRS d) (eRT d) (\<lambda>x s t. x @ '' = '' @ s @ '' & '' @ t @ eol))"

definition code_ANDI :: "inst_data \<Rightarrow> string result" where
  "code_ANDI d =
    (if eRT d = eRS d then name1 (eRT d) (\<lambda>t. t @ '' &= '' @ hex_d (uUI d) @ eol)
     else name2 (eRT d) (eRS d) (\<lambda>t s. t @ '' = '' @ s @ '' & '' @ hex_d (uUI d) @ eol))"

definition code_J :: "inst_data \<Rightarrow> string result" where
  "code_J d =
    Ret (''goto LABEL_'' @ fmt_08X (uJumpAddress d) @ eol)"

definition code_JR :: "inst_data \<Rightarrow> string result" where
  "code_JR d =
    (if eRS d = R_RA then name1 R_V0 (\<lambda>v. ''return '' @ v @ eol)
     else name1 (eRS d) (\<lambda>s. ''/* FIXME: RET-CALL '' @ s @ ''; */'' @ [newline]))"

definition code_LB :: "inst_data \<Rightarrow> string result" where
  "code_LB d =
    name2 (eRT d) (eRS d) (\<lambda>t s. t @ '' = '' @ mem_operand ''signed char'' s (iSI d) @ eol)"

definition code_LBU :: "inst_data \<Rightarrow> string result" where
  "code_LBU d =
    name2 (eRT d) (eRS d) (\<lambda>t s. t @ '' = '' @ mem_operand ''unsigned char'' s (iSI d) @ eol)"

definition code_LH :: "inst_data \<Rightarrow> string result" where
  "code_LH d =
    name2 (eRT d) (eRS d) (\<lambda>t s. t @ '' = '' @ mem_operand ''signed short'' s (iSI d) @ eol)"

definition code_LHU :: "inst_data \<Rightarrow> string result" where
  "code_LHU d =
    name2 (eRT d) (eRS d) (\<lambda>t s. t @ '' = '' @ mem_operand ''unsigned short'' s (iSI d) @ eol)"

definition code_LUI :: "inst_data \<Rightarrow> string result" where
  "code_LUI d =
    name1 (eRT d) (\<lambda>t. t @ '' = '' @ hex_d (uUI d) @ ''0000'' @ eol)"

definition code_LW :: "inst_data \<Rightarrow> string result" where
  "code_LW d =
    name2 (eRT d) (eRS d) (\<lambda>t s. t @ '' = '' @ mem_operand ''unsigned int'' s (iSI d) @ eol)"

definition code_MFC0 :: "inst_data \<Rightarrow> string result" where
  "code_MFC0 d =
    name1 (eRT d) (\<lambda>t. t @ '' = read_c0_status()'' @ eol)"

definition code_MTC0 :: "inst_data \<Rightarrow> string result" where
  "code_MTC0 d =
    name1 (eRT d) (\<lambda>t. ''write_c0_status('' @ t @ '')'' @ eol)"

definition code_OR :: "inst_data \<Rightarrow> string result" where
  "code_OR d =
    (if eRD d = eRS d then name2 (eRD d) (eRT d) (\<lambda>x t. x @ '' |= '' @ t @ eol)
     else name3 (eRD d) (eRS d) (eRT d) (\<lambda>x s t. x @ '' = '' @ s @ '' | '' @ t @ eol))"

definition code_ORI :: "inst_data \<Rightarrow> string result" where
  "code_ORI d =
    (if eRS d = R_ZERO then name1 (eRT d) (\<lambda>t. t @ '' = '' @ hex_d (uUI d) @ eol)
     else if eRT d = eRS d then name1 (eRT d) (\<lambda>t. t @ '' |= '' @ hex_d (uUI d) @ eol)
     else name2 (eRT d) (eRS d) (\<lambda>t s. t @ '' = '' @ s @ '' | '' @ hex_d (uUI d) @ eol))"

definition code_SB :: "inst_data \<Rightarrow> string result" where
  "code_SB d =
    name2 (eRS d) (eRT d) (\<lambda>s t. mem_operand ''unsigned char'' s (iSI d) @ '' = '' @ t @ '' & 0xFF'' @ eol)"

definition code_SH :: "inst_data \<Rightarrow> string result" where
  "code_SH d =
    name2 (eRS d) (eRT d) (\<lambda>s t. mem_operand ''unsigned short'' s (iSI d) @ '' = '' @ t @ '' & 0xFF'' @ eol)"

definition code_SLL :: "inst_data \<Rightarrow> string result" where
  "code_SLL d =
    (if eRD d = eRT d then name1 (eRD d) (\<lambda>x. x @ '' <<= '' @ fmt_u (unat (uSA d)) @ eol)
     else name2 (eRD d) (eRT d) (\<lambda>x t. x @ '' = '' @ t @ '' << '' @ fmt_u (unat (uSA d)) @ eol))"

definition code_SLTI :: "inst_data \<Rightarrow> string result" where
  "code_SLTI d =
    name2 (eRT d) (eRS d) (\<lambda>t s. t @ '' = (((signed int)'' @ s @ '') < '' @ fmt_d (sint (iSI d)) @ '') ? 1 : 0'' @ eol)"

definition code_SLTIU :: "inst_data \<Rightarrow> string result" where
  "code_SLTIU d =
    name2 (eRT d) (eRS d) (\<lambda>t s. t @ '' = (((unsigned int)'' @ s @ '') < '' @ fmt_d (sint (iSI d)) @ '') ? 1 : 0'' @ eol)"

definition code_SLTU :: "inst_data \<Rightarrow> string result" where
  "code_SLTU d =
    name3 (eRD d) (eRS d) (eRT d) (\<lambda>x s t. x @ '' = (((unsigned int)'' @ s @ '') < '' @ t @ '') ? 1 : 0'' @ eol)"

definition code_SRA :: "inst_data \<Rightarrow> string result" where
  "code_SRA d =
    name2 (eRD d) (eRT d) (\<lambda>x t. x @ '' = ((signed int)'' @ t @ '') >> '' @ fmt_u (unat (uSA d)) @ eol)"

definition code_SRL :: "inst_data \<Rightarrow> string result" where
  "code_SRL d =
    name2 (eRD d) (eRT d) (\<lambda>x t. x @ '' = ((unsigned int)'' @ t @ '') >> '' @ fmt_u (unat (uSA d)) @ eol)"

definition code_SW :: "inst_data \<Rightarrow> string result" where
  "code_SW d =
    name2 (eRS d) (eRT d) (\<lambda>s t. mem_operand ''unsigned int'' s (iSI d) @ '' = '' @ t @ eol)"

definition code_XORI :: "inst_data \<Rightarrow> string result" where
  "code_XORI d =
    (if eRT d = eRS d then name1 (eRT d) (\<lambda>t. t @ '' ^= '' @ hex_d (uUI d) @ eol)
     else name2 (eRT d) (eRS d) (\<lambda>t s. t @ '' = '' @ s @ '' ^ '' @ hex_d (uUI d) @ eol))"

definition code_default :: "inst_data \<Rightarrow> string result" where
  "code_default d = r_map (\<lambda>n. ''/* TODO: '' @ n @ '' */'' @ [newline]) (getInstrName d)"

definition code_line :: "inst_data \<Rightarrow> string result" where
  "code_line d =
    (case eType d of
       IT_ADDIU \<Rightarrow> code_ADDIU d
     | IT_ADDU \<Rightarrow> code_ADDU d
     | IT_AND \<Rightarrow> code_AND d
     | IT_ANDI \<Rightarrow> code_ANDI d
     | IT_J \<Rightarrow> code_J d
     | IT_JR \<Rightarrow> code_JR d
     | IT_LB \<Rightarrow> code_LB d
     | IT_LBU \<Rightarrow> code_LBU d
     | IT_LH \<Rightarrow> code_LH d
     | IT_LHU \<Rightarrow> code_LHU d
     | IT_LUI \<Rightarrow> code_LUI d
     | IT_LW \<Rightarrow> code_LW d
     | IT_MFC0 \<Rightarrow> code_MFC0 d
     | IT_MTC0 \<Rightarrow> code_MTC0 d
     | IT_OR \<Rightarrow> code_OR d
     | IT_ORI \<Rightarrow> code_ORI d
     | IT_SB \<Rightarrow> code_SB d
     | IT_SH \<Rightarrow> code_SH d
     | IT_SLL \<Rightarrow> code_SLL d
     | IT_SLTI \<Rightarrow> code_SLTI d
     | IT_SLTIU \<Rightarrow> code_SLTIU d
     | IT_SLTU \<Rightarrow> code_SLTU d
     | IT_SRA \<Rightarrow> code_SRA d
     | IT_SRL \<Rightarrow> code_SRL d
     | IT_SW \<Rightarrow> code_SW d
     | IT_XORI \<Rightarrow> code_XORI d
     | _ \<Rightarrow> code_default d)"

lemmas code_defs = code_ADDIU_def code_ADDU_def code_AND_def code_ANDI_def code_J_def code_JR_def code_LB_def
  code_LBU_def code_LH_def code_LHU_def code_LUI_def code_LW_def code_MFC0_def code_MTC0_def
  code_OR_def code_ORI_def code_SB_def code_SH_def code_SLL_def code_SLTI_def code_SLTIU_def
  code_SLTU_def code_SRA_def code_SRL_def code_SW_def code_XORI_def code_default_def

text \<open>The condition line of a branch; \<open>None\<close> for an instruction that may not have branches (\<open>bBranchAllowed\<close>).\<close>

definition condition_line :: "inst_data \<Rightarrow> string result option" where
  "condition_line d =
    (case eType d of
       IT_BEQ \<Rightarrow> Some (name2 (eRS d) (eRT d) (\<lambda>s t. ''if('' @ s @ '' == '' @ t @ '')'' @ [newline]))
     | IT_BEQL \<Rightarrow> Some (name2 (eRS d) (eRT d) (\<lambda>s t. ''if('' @ s @ '' == '' @ t @ '')'' @ [newline]))
     | IT_BGEZ \<Rightarrow> Some (name1 (eRS d) (\<lambda>s. ''if(((signed int)'' @ s @ '') >= 0)'' @ [newline]))
     | IT_BGTZ \<Rightarrow> Some (name1 (eRS d) (\<lambda>s. ''if(((signed int)'' @ s @ '') > 0)'' @ [newline]))
     | IT_BLEZ \<Rightarrow> Some (name1 (eRS d) (\<lambda>s. ''if(((signed int)'' @ s @ '') <= 0)'' @ [newline]))
     | IT_BLTZ \<Rightarrow> Some (name1 (eRS d) (\<lambda>s. ''if(((signed int)'' @ s @ '') < 0)'' @ [newline]))
     | IT_BNE \<Rightarrow> Some (name2 (eRS d) (eRT d) (\<lambda>s t. ''if('' @ s @ '' != '' @ t @ '')'' @ [newline]))
     | IT_BNEL \<Rightarrow> Some (name2 (eRS d) (eRT d) (\<lambda>s t. ''if('' @ s @ '' != '' @ t @ '')'' @ [newline]))
     | _ \<Rightarrow> None)"

text \<open>Sequencing of steps that may fail or not return.\<close>

fun or_bind :: "'a result option \<Rightarrow> ('a \<Rightarrow> 'b result option) \<Rightarrow> 'b result option" where
  "or_bind None f = None"
| "or_bind (Some (Fail e)) f = Some (Fail e)"
| "or_bind (Some (Ret x)) f = f x"

lemma or_bind_cong [fundef_cong]:
  "r = s \<Longrightarrow> (\<And>x. s = Some (Ret x) \<Longrightarrow> f x = g x) \<Longrightarrow> or_bind r f = or_bind s g"
  by (cases "(s, g)" rule: or_bind.cases) auto

lemma or_bind_eq_Ret [result_simps]: "or_bind r f = Some (Ret y) \<longleftrightarrow> (\<exists>x. r = Some (Ret x) \<and> f x = Some (Ret y))"
  by (cases "(r, f)" rule: or_bind.cases) auto

text \<open>The case for JALR, for the instruction at index \<open>n\<close> of \<open>collInstList\<close>.\<close>

definition unknown_call :: "inst_data \<Rightarrow> u32 \<Rightarrow> string result" where
  "unknown_call d uValue =
    name1 (eRS d) (\<lambda>s. ''/* FIXME: call UNKNOWN FUNCTION in '' @ s @ '' (0x'' @ fmt_08X uValue @ ''); */''
      @ [newline, newline])"

definition known_call :: "tSymList \<Rightarrow> nat \<Rightarrow> string result" where
  "known_call syms uSymIdx =
    r_bind (get syms uSymIdx) (\<lambda>e. name1 R_V0 (\<lambda>v. v @ '' = '' @ strName e @ ''()'' @ eol @ [newline]))"

definition call_line :: "tSymList \<Rightarrow> tInstList \<Rightarrow> nat \<Rightarrow> inst_data \<Rightarrow> string result option" where
  "call_line syms collInstList n d =
    or_bind (Some (M_ASSERT (eRD d = R_RA) (Ret ()))) (\<lambda>_.
      or_bind (resolveRegisterValue collInstList n (eRS d)) (\<lambda>r.
        Some (case r of
          None \<Rightarrow> unknown_call d 0
        | Some uValue \<Rightarrow>
            (case lookup_addr syms uValue of
               None \<Rightarrow> unknown_call d uValue
             | Some uSymIdx \<Rightarrow> known_call syms uSymIdx))))"

definition label_line :: "inst_data \<Rightarrow> string" where
  "label_line d = (if bIsJumpTarget d then ''LABEL_'' @ fmt_08X (uAddress d) @ '':'' @ [newline] else [])"

text \<open>What the \<open>switch\<close> writes for an instruction that may not have branches.\<close>

definition statement_text :: "tSymList \<Rightarrow> tInstList \<Rightarrow> nat \<Rightarrow> inst_data \<Rightarrow> nat \<Rightarrow> string result option" where
  "statement_text syms collInstList n d uDepth =
    (if eType d = IT_NOP \<or> eType d = IT_SSNOP then Some (Ret [])
     else if eType d = IT_JALR then
       or_bind (call_line syms collInstList n d) (\<lambda>t. Some (Ret ([newline] @ doIndent uDepth @ t)))
     else Some (r_map (\<lambda>t. doIndent uDepth @ t) (code_line d)))"

text \<open>The instructions from index \<open>n\<close> of \<open>coll\<close> on.\<close>

fun generate_from :: "tSymList \<Rightarrow> tInstList \<Rightarrow> nat \<Rightarrow> tInstList \<Rightarrow> nat \<Rightarrow> string result option" where
  "generate_from syms coll n [] uDepth = Some (Ret [])"
| "generate_from syms coll n (Instruction d ifs els ins # rest) uDepth =
    or_bind
      (case condition_line d of
         None \<Rightarrow>
           or_bind (statement_text syms coll n d uDepth) (\<lambda>t.
             Some (M_ASSERT (length ifs = 0) (M_ASSERT (length els = 0) (Ret t))))
       | Some cond \<Rightarrow>
           or_bind (Some cond) (\<lambda>c.
             if length ifs > 0 then
               or_bind (generate_from syms ifs 0 ifs (uDepth + 1)) (\<lambda>t.
                 or_bind
                   (if length els > 0 then
                      or_bind (generate_from syms els 0 els (uDepth + 1)) (\<lambda>e.
                        Some (Ret (getIndentStr uDepth @ ''else'' @ [newline] @ getIndentStr uDepth @ ''{'' @ [newline]
                          @ e @ getIndentStr uDepth @ ''}'' @ [newline])))
                    else Some (Ret []))
                   (\<lambda>e. Some (Ret ([newline] @ doIndent uDepth @ c @ getIndentStr uDepth @ ''{'' @ [newline]
                     @ t @ getIndentStr uDepth @ ''}'' @ [newline] @ e @ [newline]))))
             else Some (Fail AssertFailed)))
      (\<lambda>t. or_bind (generate_from syms coll (n + 1) rest uDepth) (\<lambda>ts. Some (Ret (label_line d @ t @ ts))))"

definition generateInstructionCode :: "tSymList \<Rightarrow> tInstList \<Rightarrow> nat \<Rightarrow> string result option" where
  "generateInstructionCode syms collInstList uDepth = generate_from syms collInstList 0 collInstList uDepth"

text \<open>The parameters of a prototype, from index \<open>uIdx\<close> on; the array has \<open>FIELDS\<close> entries.\<close>

definition parameter_text :: "nat \<Rightarrow> u32 \<Rightarrow> tTypeId \<Rightarrow> string \<Rightarrow> string" where
  "parameter_text uIdx flags ty name =
    (if uIdx > 1 then '', '' else []) @ (if flags AND TF_CONST \<noteq> 0 then ''const '' else [])
    @ type_pName (type_info ty) @ '' '' @ (if flags AND TF_BY_REFERENCE \<noteq> 0 then ''*'' else []) @ name"

function parameter_list :: "tParameter list \<Rightarrow> nat \<Rightarrow> string result" where
  "parameter_list pParams uIdx =
    r_bind (par_at pParams uIdx) (\<lambda>p. case par_pName p of
      None \<Rightarrow> Ret []
    | Some name \<Rightarrow>
        (case pInfo p of
           None \<Rightarrow> Fail Undefined
         | Some ty \<Rightarrow> r_map (\<lambda>ts. parameter_text uIdx (uFlags p) ty name @ ts) (parameter_list pParams (uIdx + 1))))"
  by pat_completeness auto
termination
  by (relation "measure (\<lambda>(ps, n). length ps - n)") (auto simp: par_at_def par_zero_def split: if_splits)

declare parameter_list.simps [simp del]

definition prototype :: "tFunctionParameters list \<Rightarrow> string \<Rightarrow> string result" where
  "prototype tbl name =
    (case getFunctionParameters tbl name of
       None \<Rightarrow> Ret (''void '' @ name @ ''(void)'' @ [newline])
     | Some pParams \<Rightarrow>
         r_bind (par_at pParams 0) (\<lambda>p. case pInfo p of
            None \<Rightarrow> Fail Undefined
          | Some ty \<Rightarrow> r_map (\<lambda>ps. type_pName (type_info ty) @ '' '' @ name @ ''('' @ ps @ '')'' @ [newline])
              (parameter_list pParams 1)))"

definition generateCode :: "tFunctionParameters list \<Rightarrow> tSymList \<Rightarrow> Function \<Rightarrow> string result option" where
  "generateCode tbl syms aFunction =
    or_bind (Some (prototype tbl (fn_strName aFunction))) (\<lambda>proto.
      or_bind (generateInstructionCode syms (m_collInstList aFunction) 1) (\<lambda>body.
        Some (Ret (''#include '' @ [CHR 0x22] @ ''../mipsdec_helper.h'' @ [CHR 0x22, newline, newline]
          @ ''/* Optimization passes: '' @ fmt_4d (sint (uOptimizationPasses aFunction)) @ '' */'' @ [newline]
          @ ''/* Stack offset.......: '' @ fmt_4d (sint (uStackOffset aFunction)) @ '' */'' @ [newline]
          @ proto @ ''{'' @ [newline] @ body @ ''}'' @ [newline]))))"

text \<open>The variables that \<^verbatim>\<open>src/tools/mipsdec/mipsdec_helper.h\<close> declares for the generated code.\<close>

definition helper_variables :: "string list" where
  "helper_variables =
    [''REG_a0'', ''REG_a1'', ''REG_a2'', ''REG_a3'',
     ''REG_sp'', ''REG_ra'', ''REG_at'', ''REG_gp'', ''REG_fp'',
     ''REG_s0'', ''REG_s1'', ''REG_s2'', ''REG_s3'', ''REG_s4'', ''REG_s5'', ''REG_s6'', ''REG_s7'',
     ''REG_t0'', ''REG_t1'', ''REG_t2'', ''REG_t3'',
     ''REG_v0'', ''REG_v1'']"

text \<open>
  The variable of a register is declared in the helper header exactly if the register is not
  \<open>$zero\<close> (which is printed as 0) and not one of \<open>$t4\<close> to \<open>$t9\<close>, which the generated code may use as well.
\<close>

lemma helper_variables_declared:
  "list_ex (\<lambda>v. getRegVarName r = Ret v) helper_variables \<longleftrightarrow>
    r \<notin> {R_ZERO, R_T4, R_T5, R_T6, R_T7, R_T8, R_T9, R_UNKNOWN}"
  by (cases r) (simp_all add: getRegVarName_def helper_variables_def)

end
