(* ===== verification/CProgram.thy ===== *)
theory CProgram
  imports Codegen
begin

text \<open>
  What the generated C text means. \<open>cexp\<close>, \<open>cstmt\<close> and \<open>cnode\<close> are the abstract syntax of the fragment of C
  that the code generator writes, with a printer (\<open>pexp\<close>, \<open>pstmt\<close>, \<open>pblock\<close>) and a semantics that follows
  the C rules for mixed signed and unsigned operands. \<open>c_block\<close> is the program an instruction tree is
  translated to. The theory shows that \<open>generateInstructionCode\<close> writes exactly the printed form of
  \<open>c_block\<close>, and that \<open>c_block\<close> computes what the instructions compute.

  The C variables \<open>REG_x\<close> are the registers of the machine state, \<open>int\<close> has 32 bits, \<open>>>\<close> on a negative
  \<open>int\<close> shifts in the sign, and memory is little endian, as on the machine.
\<close>

section \<open>Abstract syntax and printer\<close>

datatype memty = SChar | UChar | SShort | UShort | UInt

datatype cop = OpPlus | OpMinus | OpAnd | OpOr | OpXor | OpShl | OpShr

datatype ccmp = CmpEq | CmpNe | CmpLt | CmpLe | CmpGt | CmpGe

datatype cexp =
    Var tRegister
  | Dec int
  | Hex u16
  | HexHigh u16
  | Bin cop cexp cexp
  | Cmp ccmp cexp cexp
  | SignedInt cexp
  | UnsignedInt cexp
  | Paren cexp
  | Deref memty cexp
  | OneOrZero cexp

datatype cstmt = Assign tRegister cexp | AssignOp tRegister cop cexp | Store memty cexp cexp

datatype cnode =
    CLabel u32
  | CStmt cstmt
  | CGoto u32
  | CReturn
  | CIf cexp "cnode list" "cnode list option"

definition var_name :: "tRegister \<Rightarrow> string" where
  "var_name r = (case getRegVarName r of Ret n \<Rightarrow> n | Fail _ \<Rightarrow> [])"

fun memty_name :: "memty \<Rightarrow> string" where
  "memty_name SChar = ''signed char''"
| "memty_name UChar = ''unsigned char''"
| "memty_name SShort = ''signed short''"
| "memty_name UShort = ''unsigned short''"
| "memty_name UInt = ''unsigned int''"

fun cop_name :: "cop \<Rightarrow> string" where
  "cop_name OpPlus = ''+''" | "cop_name OpMinus = ''-''" | "cop_name OpAnd = ''&''" | "cop_name OpOr = ''|''"
| "cop_name OpXor = ''^''" | "cop_name OpShl = ''<<''" | "cop_name OpShr = ''>>''"

fun ccmp_name :: "ccmp \<Rightarrow> string" where
  "ccmp_name CmpEq = ''==''" | "ccmp_name CmpNe = ''!=''" | "ccmp_name CmpLt = ''<''"
| "ccmp_name CmpLe = ''<=''" | "ccmp_name CmpGt = ''>''" | "ccmp_name CmpGe = ''>=''"

fun pexp :: "cexp \<Rightarrow> string" where
  "pexp (Var r) = var_name r"
| "pexp (Dec i) = fmt_d i"
| "pexp (Hex u) = hex_d u"
| "pexp (HexHigh u) = hex_d u @ ''0000''"
| "pexp (Bin op a b) = pexp a @ '' '' @ cop_name op @ '' '' @ pexp b"
| "pexp (Cmp op a b) = pexp a @ '' '' @ ccmp_name op @ '' '' @ pexp b"
| "pexp (SignedInt a) = ''(signed int)'' @ pexp a"
| "pexp (UnsignedInt a) = ''(unsigned int)'' @ pexp a"
| "pexp (Paren a) = ''('' @ pexp a @ '')''"
| "pexp (Deref t a) = ''*(('' @ memty_name t @ '' *)('' @ pexp a @ ''))''"
| "pexp (OneOrZero a) = pexp a @ '' ? 1 : 0''"

fun pstmt :: "cstmt \<Rightarrow> string" where
  "pstmt (Assign r e) = var_name r @ '' = '' @ pexp e @ eol"
| "pstmt (AssignOp r op e) = var_name r @ '' '' @ cop_name op @ ''= '' @ pexp e @ eol"
| "pstmt (Store t a e) = pexp (Deref t a) @ '' = '' @ pexp e @ eol"

fun pnode :: "nat \<Rightarrow> cnode \<Rightarrow> string" where
  "pnode k (CLabel a) = ''LABEL_'' @ fmt_08X a @ '':'' @ [newline]"
| "pnode k (CStmt st) = getIndentStr k @ pstmt st"
| "pnode k (CGoto a) = getIndentStr k @ ''goto LABEL_'' @ fmt_08X a @ eol"
| "pnode k CReturn = getIndentStr k @ ''return '' @ var_name R_V0 @ eol"
| "pnode k (CIf c t e) =
    [newline] @ getIndentStr k @ ''if('' @ pexp c @ '')'' @ [newline]
    @ getIndentStr k @ ''{'' @ [newline] @ concat (map (pnode (k + 1)) t) @ getIndentStr k @ ''}'' @ [newline]
    @ (case e of None \<Rightarrow> []
       | Some els \<Rightarrow> getIndentStr k @ ''else'' @ [newline] @ getIndentStr k @ ''{'' @ [newline]
           @ concat (map (pnode (k + 1)) els) @ getIndentStr k @ ''}'' @ [newline])
    @ [newline]"

definition pblock :: "nat \<Rightarrow> cnode list \<Rightarrow> string" where
  "pblock k ns = concat (map (pnode k) ns)"

section \<open>Semantics\<close>

text \<open>A value is signed or unsigned, with its 32 bits; operands of different signedness are converted to unsigned.\<close>

type_synonym cval = "bool \<times> u32"

fun c_bin :: "cop \<Rightarrow> cval \<Rightarrow> cval \<Rightarrow> cval" where
  "c_bin OpPlus (sa, a) (sb, b) = (sa \<and> sb, a + b)"
| "c_bin OpMinus (sa, a) (sb, b) = (sa \<and> sb, a - b)"
| "c_bin OpAnd (sa, a) (sb, b) = (sa \<and> sb, a AND b)"
| "c_bin OpOr (sa, a) (sb, b) = (sa \<and> sb, a OR b)"
| "c_bin OpXor (sa, a) (sb, b) = (sa \<and> sb, a XOR b)"
| "c_bin OpShl (sa, a) (sb, b) = (sa, push_bit (unat b) a)"
| "c_bin OpShr (sa, a) (sb, b) = (sa, if sa then signed_drop_bit (unat b) a else drop_bit (unat b) a)"

definition c_less :: "cval \<Rightarrow> cval \<Rightarrow> bool" where
  "c_less x y = (if fst x \<and> fst y then sint (snd x) < sint (snd y) else snd x < snd y)"

fun c_cmp :: "ccmp \<Rightarrow> cval \<Rightarrow> cval \<Rightarrow> bool" where
  "c_cmp CmpEq x y = (snd x = snd y)"
| "c_cmp CmpNe x y = (snd x \<noteq> snd y)"
| "c_cmp CmpLt x y = c_less x y"
| "c_cmp CmpLe x y = (\<not> c_less y x)"
| "c_cmp CmpGt x y = c_less y x"
| "c_cmp CmpGe x y = (\<not> c_less x y)"

fun c_load :: "memty \<Rightarrow> u32 \<Rightarrow> mach \<Rightarrow> cval" where
  "c_load SChar a s = (True, scast (mem s a))"
| "c_load UChar a s = (True, ucast (mem s a))"
| "c_load SShort a s = (True, scast (load16 s a))"
| "c_load UShort a s = (True, ucast (load16 s a))"
| "c_load UInt a s = (False, load32 s a)"

fun c_val :: "cexp \<Rightarrow> mach \<Rightarrow> cval" where
  "c_val (Var r) s = (r = R_ZERO, rd_reg s r)"
| "c_val (Dec i) s = (True, word_of_int i)"
| "c_val (Hex u) s = (True, ucast u)"
| "c_val (HexHigh u) s = (u < 0x8000, push_bit 16 (ucast u))"
| "c_val (Bin op a b) s = c_bin op (c_val a s) (c_val b s)"
| "c_val (Cmp op a b) s = (True, bool_word (c_cmp op (c_val a s) (c_val b s)))"
| "c_val (SignedInt a) s = (True, snd (c_val a s))"
| "c_val (UnsignedInt a) s = (False, snd (c_val a s))"
| "c_val (Paren a) s = c_val a s"
| "c_val (Deref t a) s = c_load t (snd (c_val a s)) s"
| "c_val (OneOrZero a) s = (True, if snd (c_val a s) \<noteq> 0 then 1 else 0)"

fun c_store :: "memty \<Rightarrow> u32 \<Rightarrow> u32 \<Rightarrow> mach \<Rightarrow> mach" where
  "c_store SChar a v s = store8 a (ucast v) s"
| "c_store UChar a v s = store8 a (ucast v) s"
| "c_store SShort a v s = store16 a (ucast v) s"
| "c_store UShort a v s = store16 a (ucast v) s"
| "c_store UInt a v s = store32 a v s"

fun c_exec :: "cstmt \<Rightarrow> mach \<Rightarrow> mach" where
  "c_exec (Assign r e) s = s\<lparr>gpr := (gpr s)(r := snd (c_val e s))\<rparr>"
| "c_exec (AssignOp r op e) s = s\<lparr>gpr := (gpr s)(r := snd (c_bin op (c_val (Var r) s) (c_val e s)))\<rparr>"
| "c_exec (Store t a e) s = c_store t (snd (c_val a s)) (snd (c_val e s)) s"

text \<open>Control: a block falls through, goes to a label or returns. A program runs until it falls through or returns.\<close>

datatype cflow = CFall mach | CJump u32 mach | CRet mach

fun c_seq :: "cflow \<Rightarrow> (mach \<Rightarrow> cflow) \<Rightarrow> cflow" where
  "c_seq (CFall s) k = k s"
| "c_seq (CJump a s) k = CJump a s"
| "c_seq (CRet s) k = CRet s"

fun c_node :: "cnode \<Rightarrow> mach \<Rightarrow> cflow" and c_walk :: "cnode list \<Rightarrow> mach \<Rightarrow> cflow" where
  "c_node (CLabel a) s = CFall s"
| "c_node (CStmt st) s = CFall (c_exec st s)"
| "c_node (CGoto a) s = CJump a s"
| "c_node CReturn s = CRet s"
| "c_node (CIf c t e) s =
    (if snd (c_val c s) \<noteq> 0 then c_walk t s else (case e of None \<Rightarrow> CFall s | Some els \<Rightarrow> c_walk els s))"
| "c_walk [] s = CFall s"
| "c_walk (n # ns) s = c_seq (c_node n s) (c_walk ns)"

text \<open>The code from a label on.\<close>

fun c_at_node :: "cnode \<Rightarrow> u32 \<Rightarrow> cnode list option" and c_at :: "cnode list \<Rightarrow> u32 \<Rightarrow> cnode list option" where
  "c_at_node (CIf c t e) a =
    (case c_at t a of Some w \<Rightarrow> Some w | None \<Rightarrow> (case e of None \<Rightarrow> None | Some els \<Rightarrow> c_at els a))"
| "c_at_node (CLabel b) a = (if b = a then Some [] else None)"
| "c_at_node (CStmt st) a = None"
| "c_at_node (CGoto b) a = None"
| "c_at_node CReturn a = None"
| "c_at [] a = None"
| "c_at (n # ns) a = (case c_at_node n a of Some w \<Rightarrow> Some (w @ ns) | None \<Rightarrow> c_at ns a)"

datatype coutcome = CEnd mach | CReturned mach

inductive c_runs :: "cnode list \<Rightarrow> cflow \<Rightarrow> coutcome \<Rightarrow> bool" for B where
  "c_runs B (CFall s) (CEnd s)"
| "c_runs B (CRet s) (CReturned s)"
| "c_at B a = Some w \<Longrightarrow> c_runs B (c_walk w s) r \<Longrightarrow> c_runs B (CJump a s) r"

definition c_evaluates :: "cnode list \<Rightarrow> mach \<Rightarrow> coutcome \<Rightarrow> bool" where
  "c_evaluates B s r \<longleftrightarrow> c_runs B (c_walk B s) r"

section \<open>Translation\<close>

definition c_addr :: "inst_data \<Rightarrow> cexp" where
  "c_addr d = Bin (if sint (iSI d) < 0 then OpMinus else OpPlus) (Paren (UnsignedInt (Paren (Var (eRS d)))))
    (Dec \<bar>sint (iSI d)\<bar>)"

definition c_plus_imm :: "inst_data \<Rightarrow> cop \<times> cexp" where
  "c_plus_imm d = (if sint (iSI d) < 0 then OpMinus else OpPlus, Dec \<bar>sint (iSI d)\<bar>)"

text \<open>\<open>r op= e\<close> if the first operand is the destination, \<open>r = a op e\<close> otherwise.\<close>

definition c_update :: "tRegister \<Rightarrow> tRegister \<Rightarrow> cop \<Rightarrow> cexp \<Rightarrow> cstmt" where
  "c_update r a op e = (if r = a then AssignOp r op e else Assign r (Bin op (Var a) e))"

definition c_test :: "tRegister \<Rightarrow> cexp \<Rightarrow> cexp \<Rightarrow> cstmt" where
  "c_test r a b = Assign r (OneOrZero (Paren (Cmp CmpLt (Paren a) b)))"

definition c_stmt :: "inst_data \<Rightarrow> cstmt option" where
  "c_stmt d =
    (let rs = eRS d; rt = eRT d; rd = eRD d; sa = Dec (uint (uSA d)) in
     case eType d of
       IT_ADDIU \<Rightarrow> Some (if rs = R_ZERO then Assign rt (Dec (sint (iSI d)))
         else c_update rt rs (fst (c_plus_imm d)) (snd (c_plus_imm d)))
     | IT_ADDU \<Rightarrow> Some (if rs = R_ZERO \<and> rt = R_ZERO then Assign rd (Dec 0)
         else if rt = R_ZERO then Assign rd (Var rs)
         else c_update rd rs OpPlus (Var rt))
     | IT_AND \<Rightarrow> Some (c_update rd rs OpAnd (Var rt))
     | IT_ANDI \<Rightarrow> Some (c_update rt rs OpAnd (Hex (uUI d)))
     | IT_LB \<Rightarrow> Some (Assign rt (Deref SChar (c_addr d)))
     | IT_LBU \<Rightarrow> Some (Assign rt (Deref UChar (c_addr d)))
     | IT_LH \<Rightarrow> Some (Assign rt (Deref SShort (c_addr d)))
     | IT_LHU \<Rightarrow> Some (Assign rt (Deref UShort (c_addr d)))
     | IT_LUI \<Rightarrow> Some (Assign rt (HexHigh (uUI d)))
     | IT_LW \<Rightarrow> Some (Assign rt (Deref UInt (c_addr d)))
     | IT_OR \<Rightarrow> Some (c_update rd rs OpOr (Var rt))
     | IT_ORI \<Rightarrow> Some (if rs = R_ZERO then Assign rt (Hex (uUI d)) else c_update rt rs OpOr (Hex (uUI d)))
     | IT_SB \<Rightarrow> Some (Store UChar (c_addr d) (Bin OpAnd (Var rt) (Hex 0xFF)))
     | IT_SH \<Rightarrow> Some (Store UShort (c_addr d) (Bin OpAnd (Var rt) (Hex 0xFF)))
     | IT_SLL \<Rightarrow> Some (c_update rd rt OpShl sa)
     | IT_SLTI \<Rightarrow> Some (c_test rt (SignedInt (Var rs)) (Dec (sint (iSI d))))
     | IT_SLTIU \<Rightarrow> Some (c_test rt (UnsignedInt (Var rs)) (Dec (sint (iSI d))))
     | IT_SLTU \<Rightarrow> Some (c_test rd (UnsignedInt (Var rs)) (Var rt))
     | IT_SRA \<Rightarrow> Some (Assign rd (Bin OpShr (Paren (SignedInt (Var rt))) sa))
     | IT_SRL \<Rightarrow> Some (Assign rd (Bin OpShr (Paren (UnsignedInt (Var rt))) sa))
     | IT_SW \<Rightarrow> Some (Store UInt (c_addr d) (Var rt))
     | IT_XORI \<Rightarrow> Some (c_update rt rs OpXor (Hex (uUI d)))
     | _ \<Rightarrow> None)"

definition c_cond :: "inst_data \<Rightarrow> cexp" where
  "c_cond d =
    (let sgn = Paren (SignedInt (Var (eRS d))) in
     case eType d of
       IT_BGEZ \<Rightarrow> Cmp CmpGe sgn (Dec 0)
     | IT_BGTZ \<Rightarrow> Cmp CmpGt sgn (Dec 0)
     | IT_BLEZ \<Rightarrow> Cmp CmpLe sgn (Dec 0)
     | IT_BLTZ \<Rightarrow> Cmp CmpLt sgn (Dec 0)
     | IT_BNE \<Rightarrow> Cmp CmpNe (Var (eRS d)) (Var (eRT d))
     | IT_BNEL \<Rightarrow> Cmp CmpNe (Var (eRS d)) (Var (eRT d))
     | _ \<Rightarrow> Cmp CmpEq (Var (eRS d)) (Var (eRT d)))"

definition c_label :: "inst_data \<Rightarrow> cnode list" where
  "c_label d = (if bIsJumpTarget d then [CLabel (uAddress d)] else [])"

definition c_simple :: "inst_data \<Rightarrow> cnode list" where
  "c_simple d =
    (if eType d = IT_J then [CGoto (uJumpAddress d)]
     else if eType d = IT_JR then [CReturn]
     else (case c_stmt d of Some st \<Rightarrow> [CStmt st] | None \<Rightarrow> []))"

fun c_block :: "tInstList \<Rightarrow> cnode list" where
  "c_block [] = []"
| "c_block (Instruction d ifs els ins # rest) =
    c_label d
    @ (if class_of (eType d) = IC_BRANCH
       then [CIf (c_cond d) (c_block ifs) (if els = [] then None else Some (c_block els))]
       else c_simple d)
    @ c_block rest"

text \<open>
  The instructions that are translated: every register they name is known, the result does not go to
  \<open>$zero\<close>, a register jump is a return, and it is not one of the types written as a comment (nor SH,
  MFC0, MTC0 and the calls).
\<close>

definition c_ok :: "inst_data \<Rightarrow> bool" where
  "c_ok d \<longleftrightarrow> wf_dat d \<and> result_of d \<noteq> Some R_ZERO \<and> (eType d = IT_JR \<longrightarrow> eRS d = R_RA) \<and>
    eType d \<in> {IT_ADDIU, IT_ADDU, IT_AND, IT_ANDI, IT_BEQ, IT_BEQL, IT_BGEZ, IT_BGTZ, IT_BLEZ, IT_BLTZ, IT_BNE, IT_BNEL,
      IT_J, IT_JR, IT_LB, IT_LBU, IT_LH, IT_LHU, IT_LUI, IT_LW, IT_NOP, IT_OR, IT_ORI, IT_SB, IT_SLL, IT_SLTI, IT_SLTIU,
      IT_SLTU, IT_SRA, IT_SRL, IT_SSNOP, IT_SW, IT_XORI}"

fun c_tree :: "tInstList \<Rightarrow> bool" where
  "c_tree [] = True"
| "c_tree (Instruction d ifs els ins # rest) =
    (c_ok d \<and> (if class_of (eType d) = IC_BRANCH then ifs \<noteq> [] else ifs = [] \<and> els = []) \<and>
     c_tree ifs \<and> c_tree els \<and> c_tree rest)"

section \<open>One statement\<close>

lemma getRegVarName_known: "r \<noteq> R_UNKNOWN \<Longrightarrow> getRegVarName r = Ret (var_name r)"
  by (cases r) (simp_all add: getRegVarName_def var_name_def)

lemma names_known:
  "a \<noteq> R_UNKNOWN \<Longrightarrow> name1 a f = Ret (f (var_name a))"
  "a \<noteq> R_UNKNOWN \<Longrightarrow> b \<noteq> R_UNKNOWN \<Longrightarrow> name2 a b g = Ret (g (var_name a) (var_name b))"
  "a \<noteq> R_UNKNOWN \<Longrightarrow> b \<noteq> R_UNKNOWN \<Longrightarrow> c \<noteq> R_UNKNOWN \<Longrightarrow>
    name3 a b c h = Ret (h (var_name a) (var_name b) (var_name c))"
  by (simp_all add: name1_def name2_def name3_def getRegVarName_known)

lemma wf_regs: "wf_dat d \<Longrightarrow> regs_known (snd (mips_isa (eType d))) d"
  by (auto simp: wf_dat_def)

lemma mem_operand_print: "mem_operand (memty_name t) (var_name (eRS d)) (iSI d) = pexp (Deref t (c_addr d))"
  by (simp add: mem_operand_def c_addr_def cSign_def abs_d_def)

lemma fmt_d_0: "fmt_d 0 = ''0''"
  by (simp add: fmt_d_def fmt_u_def digits.simps digit_char_eval)

lemma hex_d_FF: "hex_d 0xFF = ''0xFF''"
  by (simp add: hex_d_def fmt_X_def digits.simps digit_char_eval)

lemma fmt_d_uint: "fmt_d (uint w) = fmt_u (unat w)"
  by (simp add: fmt_d_def)

lemmas print_simps = names_known c_update_def c_test_def c_plus_imm_def cSign_def abs_d_def fmt_d_0 hex_d_FF fmt_d_uint
  mem_operand_print [of SChar, simplified] mem_operand_print [of UChar, simplified]
  mem_operand_print [of SShort, simplified] mem_operand_print [of UShort, simplified]
  mem_operand_print [of UInt, simplified]

lemma code_line_print:
  assumes "wf_dat d" and "c_stmt d = Some st"
  shows "code_line d = Ret (pstmt st)"
  using wf_regs [OF assms(1)] assms(2)
  by (cases "eType d") (auto simp: code_line_def code_defs c_stmt_def Let_def print_simps)


lemma rd_reg_zero [simp]: "rd_reg s R_ZERO = 0"
  by (simp add: rd_reg_def)

lemma abs_imm: "word_of_int \<bar>sint i\<bar> = (if sint i < 0 then - scast i else scast i :: u32)" for i :: u16
  by (simp add: abs_if)

lemma c_addr_ea: "snd (c_val (c_addr d) s) = ea d s"
  by (simp add: c_addr_def ea_def abs_imm)

lemma c_plus_imm: "snd (c_bin (fst (c_plus_imm d)) (b, v) (c_val (snd (c_plus_imm d)) s)) = v + scast (iSI d)"
  by (simp add: c_plus_imm_def abs_imm)

lemma low_byte: "ucast (v AND 0xFF :: u32) = (ucast v :: u8)"
proof -
  have e: "(0xFF :: u32) = mask 8" by (simp add: mask_eq_exp_minus_1)
  show ?thesis unfolding e by (rule bit_word_eqI) (simp add: bit_simps)
qed

lemma unat_widen: "unat (ucast (w :: u8) :: u32) = unat w"
  by transfer (simp add: take_bit_eq_mod)

lemma sint_widen: "sint (scast (i :: u16) :: u32) = sint i"
  by (simp add: sint_up_scast is_up)

lemma c_exec_test:
  "c_exec (c_test r a b) s = s\<lparr>gpr := (gpr s)(r := bool_word (c_less (c_val a s) (c_val b s)))\<rparr>"
  by (simp add: c_test_def bool_word_def)

lemmas c_sem_simps = c_addr_ea c_plus_imm low_byte unat_widen sint_widen c_exec_test c_less_def

lemma c_exec_mips:
  assumes "c_ok d" and "c_stmt d = Some st"
  shows "c_exec st s = mips_exec d s"
  using assms
  by (cases "eType d") (auto simp: c_ok_def c_stmt_def Let_def result_of_def mips_exec_def c_update_def wr_reg_def c_sem_simps)

section \<open>The text is the program\<close>

lemma condition_line_print:
  "c_ok d \<Longrightarrow> class_of (eType d) = IC_BRANCH \<Longrightarrow>
    condition_line d = Some (Ret (''if('' @ pexp (c_cond d) @ '')'' @ [newline]))"
  using wf_regs [of d]
  by (cases "eType d") (simp_all add: c_ok_def class_of_def conditional_branch_def condition_line_def c_cond_def
      names_known fmt_d_0)

lemma condition_line_None: "class_of (eType d) \<noteq> IC_BRANCH \<Longrightarrow> condition_line d = None"
  by (cases "eType d") (simp_all add: class_of_def conditional_branch_def condition_line_def)

lemma c_ok_stmt:
  assumes "c_ok d" and "class_of (eType d) \<noteq> IC_BRANCH"
  obtains (J) "eType d = IT_J" | (JR) "eType d = IT_JR" "eRS d = R_RA"
  | (nop) "eType d = IT_NOP \<or> eType d = IT_SSNOP" "c_stmt d = None"
  | (stmt) st where "eType d \<notin> {IT_NOP, IT_SSNOP, IT_J, IT_JR, IT_JALR}" "c_stmt d = Some st" "class_of (eType d) = IC_OTHER"
  using assms
  by (cases "eType d") (simp_all add: c_ok_def class_of_def conditional_branch_def c_stmt_def Let_def)

lemma statement_text_print:
  assumes "c_ok d" and "class_of (eType d) \<noteq> IC_BRANCH"
  shows "statement_text syms coll n d k = Some (Ret (concat (map (pnode k) (c_simple d))))"
  using assms
proof (cases rule: c_ok_stmt)
  case J
  then show ?thesis by (simp add: statement_text_def c_simple_def code_line_def code_defs Let_def doIndent_def)
next
  case JR
  then show ?thesis
    by (simp add: statement_text_def c_simple_def code_line_def code_defs Let_def doIndent_def names_known)
next
  case nop
  then show ?thesis by (auto simp: statement_text_def c_simple_def)
next
  case (stmt st)
  moreover from assms(1) have "wf_dat d" by (simp add: c_ok_def)
  ultimately show ?thesis
    by (simp add: statement_text_def c_simple_def doIndent_def code_line_print)
qed

lemma label_line_print: "label_line d = concat (map (pnode k) (c_label d))"
  by (simp add: label_line_def c_label_def)

lemma generate_from_print:
  "c_tree xs \<Longrightarrow> generate_from syms coll n xs k = Some (Ret (pblock k (c_block xs)))"
proof (induction xs arbitrary: coll n k rule: inst_list_induct)
  case Nil
  show ?case by (simp add: pblock_def)
next
  case (Cons d ifs els ins rest)
  then have ok: "c_ok d" by simp
  have rest: "generate_from syms coll (n + 1) rest k = Some (Ret (pblock k (c_block rest)))"
    using Cons by simp
  show ?case
  proof (cases "class_of (eType d) = IC_BRANCH")
    case True
    with Cons have "generate_from syms ifs 0 ifs (k + 1) = Some (Ret (pblock (k + 1) (c_block ifs)))"
        "generate_from syms els 0 els (k + 1) = Some (Ret (pblock (k + 1) (c_block els)))" "ifs \<noteq> []"
      by simp_all
    with True rest condition_line_print [OF ok True] show ?thesis
      by (simp add: pblock_def label_line_print [of _ k] doIndent_def)
  next
    case False
    with Cons.prems have "ifs = []" "els = []" by simp_all
    with False rest condition_line_None [OF False] statement_text_print [OF ok False] show ?thesis
      by (simp add: pblock_def label_line_print [of _ k])
  qed
qed

section \<open>The program computes what the instructions compute\<close>

lemma c_cond_mips:
  "c_ok d \<Longrightarrow> class_of (eType d) = IC_BRANCH \<Longrightarrow> snd (c_val (c_cond d) s) \<noteq> 0 \<longleftrightarrow> mips_cond d s"
  by (cases "eType d") (auto simp: c_ok_def class_of_def conditional_branch_def c_cond_def mips_cond_def Let_def
      bool_word_def c_less_def)

fun erase :: "mach flow \<Rightarrow> cflow" where
  "erase (Fall s) = CFall s"
| "erase (Goto a s) = CJump a s"
| "erase (Leave v s) = CRet s"

lemma erase_seqf: "erase (seqf f k) = c_seq (erase f) (\<lambda>s. erase (k s))"
  by (cases f) simp_all

lemma c_seq_assoc: "c_seq (c_seq f g) h = c_seq f (\<lambda>s. c_seq (g s) h)"
  by (cases f) simp_all

lemma c_walk_append: "c_walk (xs @ ys) = (\<lambda>s. c_seq (c_walk xs s) (c_walk ys))"
proof (induction xs)
  case (Cons n xs)
  show ?case by (rule ext) (simp add: Cons c_seq_assoc)
qed (rule ext, simp)

lemma c_seq_walk_Nil [simp]: "c_seq f (c_walk []) = f"
  by (cases f) simp_all

lemma c_walk_label [simp]: "c_walk (c_label d @ xs) s = c_walk xs s"
  by (simp add: c_label_def)

lemma c_simple_walk:
  assumes "c_ok d" and "class_of (eType d) \<noteq> IC_BRANCH"
  shows "c_walk (c_simple d) s = erase (step1 (mips callee) d kif kelse s)"
  using assms
proof (cases rule: c_ok_stmt)
  case nop
  then show ?thesis
    by (auto simp: c_simple_def step1_def class_of_def conditional_branch_def mips_exec_def Let_def)
next
  case (stmt st)
  with assms(1) show ?thesis by (simp add: c_simple_def step1_def c_exec_mips)
qed (simp_all add: c_simple_def step1_def class_of_def conditional_branch_def)

definition c_here :: "inst_data \<Rightarrow> tInstList \<Rightarrow> tInstList \<Rightarrow> cnode list" where
  "c_here d ifs els =
    (if class_of (eType d) = IC_BRANCH
     then [CIf (c_cond d) (c_block ifs) (if els = [] then None else Some (c_block els))]
     else c_simple d)"

lemma c_block_Cons: "c_block (Instruction d ifs els ins # rest) = c_label d @ c_here d ifs els @ c_block rest"
  by (simp add: c_here_def)

lemma c_walk_block: "c_tree xs \<Longrightarrow> c_walk (c_block xs) s = erase (walk (mips callee) xs s)"
proof (induction xs arbitrary: s rule: inst_list_induct)
  case (Cons d ifs els ins rest)
  then have ok: "c_ok d" by simp
  have "c_walk (c_here d ifs els) s = erase (step1 (mips callee) d (walk (mips callee) ifs) (walk (mips callee) els) s)"
  proof (cases "class_of (eType d) = IC_BRANCH")
    case True
    with Cons c_cond_mips [OF ok True, of s] show ?thesis
      by (cases els) (auto simp: c_here_def step1_def split: if_split_asm)
  next
    case False
    with c_simple_walk [OF ok False] show ?thesis by (simp add: c_here_def)
  qed
  moreover have "c_walk (c_block rest) = (\<lambda>s. erase (walk (mips callee) rest s))"
    using Cons by (intro ext) simp
  ultimately show ?case
    by (simp only: c_block_Cons c_walk_label c_walk_append [of "c_here d ifs els"] walk.simps erase_seqf)
qed simp

lemma c_walk_block_fun: "c_tree xs \<Longrightarrow> c_walk (c_block xs) = (\<lambda>s. erase (walk (mips callee) xs s))"
  by (rule ext) (rule c_walk_block)

lemma c_at_append:
  "c_at (xs @ ys) a = (case c_at xs a of Some w \<Rightarrow> Some (w @ ys) | None \<Rightarrow> c_at ys a)"
  by (induction xs) (auto split: option.split)

lemma c_simple_no_label [simp]: "c_at (c_simple d) a = None"
  by (simp add: c_simple_def split: option.split)

lemma c_at_here:
  "c_at (c_here d ifs els) a =
    (if class_of (eType d) = IC_BRANCH
     then (case c_at (c_block ifs) a of Some w \<Rightarrow> Some w | None \<Rightarrow> c_at (c_block els) a)
     else None)"
  by (simp add: c_here_def split: option.split)

text \<open>A label of the C program is followed by what the address of the label is followed by in the tree.\<close>

lemma c_at_block:
  assumes "c_tree xs" and "\<forall>d \<in> set (datas xs). uAddress d = a \<longrightarrow> bIsJumpTarget d"
  shows "rel_option (\<lambda>w B. \<forall>s. c_walk B s = erase (walk (mips callee) w s)) (cont_at xs a) (c_at (c_block xs) a)"
  using assms
proof (induction xs rule: inst_list_induct)
  case (Cons d ifs els ins rest)
  let ?R = "\<lambda>w B. \<forall>s. c_walk B s = erase (walk (mips callee) w s)"
  have ok: "c_ok d" using Cons.prems by simp
  show ?case
  proof (cases "uAddress d = a")
    case True
    with Cons.prems have "c_at (c_block (Instruction d ifs els ins # rest)) a
        = Some (c_here d ifs els @ c_block rest)"
      by (simp add: c_block_Cons c_label_def del: c_block.simps)
    moreover have "c_walk (c_here d ifs els @ c_block rest) s
        = erase (walk (mips callee) (Instruction d ifs els ins # rest) s)" for s
      using c_walk_block [OF Cons.prems(1)] by (simp add: c_block_Cons del: c_block.simps walk.simps)
    ultimately show ?thesis using True by (simp del: walk.simps c_block.simps)
  next
    case False
    have skip: "c_at (c_block (Instruction d ifs els ins # rest)) a = c_at (c_here d ifs els @ c_block rest) a"
      using False by (simp add: c_block_Cons c_label_def del: c_block.simps)
    have rest: "rel_option ?R (cont_at rest a) (c_at (c_block rest) a)" using Cons by simp
    have more: "?R (w @ rest) (B @ c_block rest)" if "?R w B" for w B
      using that c_walk_block_fun [of rest] Cons.prems by (simp add: c_walk_append walk_append erase_seqf)
    show ?thesis
    proof (cases "class_of (eType d) = IC_BRANCH")
      case True
      have ifs: "rel_option ?R (cont_at ifs a) (c_at (c_block ifs) a)" using Cons by simp
      have els: "rel_option ?R (cont_at els a) (c_at (c_block els) a)" using Cons by simp
      show ?thesis unfolding skip
        using False True rest more
        by (cases rule: option.rel_cases [OF ifs]; cases rule: option.rel_cases [OF els])
          (simp_all add: c_at_append c_at_here)
    next
      case other: False
      with Cons.prems have "ifs = []" "els = []" by simp_all
      with False other rest show ?thesis unfolding skip by (simp add: c_at_append c_at_here)
    qed
  qed
qed simp

text \<open>The C function returns where the machine leaves the function; C does not see the address.\<close>

fun c_outcome :: "mach outcome \<Rightarrow> coutcome" where
  "c_outcome (Fell s) = CEnd s"
| "c_outcome (Left v s) = CReturned s"

definition c_closed :: "tInstList \<Rightarrow> bool" where
  "c_closed P \<longleftrightarrow> c_tree P \<and> (\<forall>a \<in> set (targets P). a \<in> set (labels P))"

lemma c_at_jump:
  assumes "tree_ok P" and "c_closed P" and "a \<in> set (targets P)"
  obtains w B where "cont_at P a = Some w" "c_at (c_block P) a = Some B"
    "\<And>s. c_walk B s = erase (walk (mips callee) w s)" "\<And>s. flow_in (set (targets P)) (walk (mips callee) w s)"
proof -
  from assms have "cont_at P a \<noteq> None" by (simp add: cont_at_None c_closed_def)
  then obtain w where w: "cont_at P a = Some w" by auto
  have "\<forall>d \<in> set (datas P). uAddress d = a \<longrightarrow> bIsJumpTarget d"
    using assms(1,3) by (auto simp: tree_ok_def marked_def datas_def)
  from c_at_block [OF _ this, of callee] assms(2) w obtain B where "c_at (c_block P) a = Some B"
      "\<And>s. c_walk B s = erase (walk (mips callee) w s)"
    by (auto simp: c_closed_def option_rel_Some1)
  moreover have "flow_in (set (targets P)) (walk (mips callee) w s)" for s
    using walk_flow_in [OF cont_at_datas [OF w]] assms(1) by (simp add: tree_ok_def)
  ultimately show thesis using w that by blast
qed

lemma c_runs_forth:
  assumes "tree_ok P" and "c_closed P" and "runs (enter (mips callee) P) f q" and "flow_in (set (targets P)) f"
  shows "c_runs (c_block P) (erase f) (c_outcome q)"
  using assms(3,4)
proof (induction rule: runs.induct)
  case (tail a s)
  then have "a \<in> set (targets P)" by simp
  with assms(1,2) show ?case
    by (rule c_at_jump [where callee = callee]) (use tail in \<open>simp add: enter_def\<close>)
next
  case (jump a s f r)
  then have a: "a \<in> set (targets P)" by simp
  from assms(1,2) a show ?case
  proof (rule c_at_jump [where callee = callee])
    fix w B
    assume w: "cont_at P a = Some w" "c_at (c_block P) a = Some B"
      "\<And>s. c_walk B s = erase (walk (mips callee) w s)" "\<And>s. flow_in (set (targets P)) (walk (mips callee) w s)"
    from jump.hyps w(1) have "f = walk (mips callee) w s" by (simp add: enter_def)
    with jump.IH w(2-4) show ?thesis by (simp add: c_runs.intros(3))
  qed
qed (simp_all add: c_runs.intros)

lemma c_runs_back:
  assumes "tree_ok P" and "c_closed P" and "c_runs (c_block P) cf r"
  shows "cf = erase f \<Longrightarrow> flow_in (set (targets P)) f \<Longrightarrow> \<exists>q. runs (enter (mips callee) P) f q \<and> c_outcome q = r"
  using assms(3)
proof (induction arbitrary: f rule: c_runs.induct)
  case (1 s)
  then show ?case by (cases f) (auto intro: exI [of _ "Fell s"])
next
  case (2 s)
  then show ?case by (cases f) auto
next
  case (3 a w' s r)
  from 3(4,5) have f: "f = Goto a s" "a \<in> set (targets P)" by (cases f; simp)+
  from assms(1,2) f(2) show ?case
  proof (rule c_at_jump [where callee = callee])
    fix w B
    assume w: "cont_at P a = Some w" "c_at (c_block P) a = Some B"
      "\<And>s. c_walk B s = erase (walk (mips callee) w s)" "\<And>s. flow_in (set (targets P)) (walk (mips callee) w s)"
    with 3(1) have "w' = B" by simp
    with 3(3) w(3,4) obtain q where q: "runs (enter (mips callee) P) (walk (mips callee) w s) q" "c_outcome q = r" by blast
    from w(1) have "enter (mips callee) P a s = Some (walk (mips callee) w s)" by (simp add: enter_def)
    with q f show ?thesis by (blast intro: runs.jump)
  qed
qed

lemma c_evaluates_iff:
  assumes "tree_ok P" and "c_closed P"
  shows "c_evaluates (c_block P) s r \<longleftrightarrow> (\<exists>q. evaluates (mips callee) P s q \<and> c_outcome q = r)"
proof -
  have "flow_in (set (targets P)) (walk (mips callee) P s)"
    using walk_flow_in [of P P] assms(1) by (simp add: tree_ok_def)
  moreover from assms(2) have "c_walk (c_block P) s = erase (walk (mips callee) P s)"
    by (simp add: c_closed_def c_walk_block)
  ultimately show ?thesis
    using c_runs_forth [OF assms] c_runs_back [OF assms] by (auto simp: c_evaluates_def evaluates_def)
qed

text \<open>
  C2. For a tree of translated instructions whose jumps go to its own labels, the code generator writes
  a C program and that program computes what the tree computes: from every state it falls through or
  returns with exactly the final states of the tree, and it runs forever exactly if the tree does.
\<close>

theorem generateInstructionCode_correct:
  assumes "tree_ok P" and "c_closed P"
  shows "generateInstructionCode syms P k = Some (Ret (pblock k (c_block P))) \<and>
    (\<forall>s r. c_evaluates (c_block P) s r \<longleftrightarrow> (\<exists>q. evaluates (mips callee) P s q \<and> c_outcome q = r))"
  using assms c_evaluates_iff generate_from_print by (simp add: generateInstructionCode_def c_closed_def)

text \<open>A loop: \<open>do a0 -= 1; while (a0 != 0); return\<close>.\<close>

definition demo_count :: tInstList where
  "demo_count =
    [leaf ((d_addiu R_A0 R_A0 (- 1))\<lparr>uAddress := 0x80001000, bIsJumpTarget := True\<rparr>),
     Instruction ((d_beq 0x80001004 0x80001000)\<lparr>eType := IT_BNE, bIgnoreJump := True\<rparr>) [leaf (d_j 0xFFFFFFFF 0x80001000)] [] [],
     leaf (d_jr 0x8000100C)]"

theorem generateInstructionCode_correct_witness:
  "generateInstructionCode [] demo_count 1 = Some (Ret (pblock 1 (c_block demo_count))) \<and>
    (\<forall>s r. c_evaluates (c_block demo_count) s r \<longleftrightarrow>
      (\<exists>q. evaluates (mips (\<lambda>_ s. s)) demo_count s q \<and> c_outcome q = r))"
proof (rule generateInstructionCode_correct)
  show "tree_ok demo_count"
    by (simp add: demo_count_def tree_eval d_addiu_def)
  show "c_closed demo_count"
    by (simp add: demo_count_def c_closed_def tree_eval d_addiu_def c_ok_def wf_dat_def result_of_def)
qed

text \<open>
  C10. The C text for SH masks the halfword with \<open>0xFF\<close>: the high byte in memory becomes 0, where the
  processor stores bits 8 to 15 of the register.
\<close>

theorem sh_loses_high_byte:
  assumes "wf_dat d" and "eType d = IT_SH"
  shows "\<exists>st. code_line d = Ret (pstmt st) \<and> mem (c_exec st s) (ea d s + 1) = 0 \<and>
    mem (mips_exec d s) (ea d s + 1) = ucast (drop_bit 8 (rd_reg s (eRT d)))"
proof -
  from assms(2) have st: "c_stmt d = Some (Store UShort (c_addr d) (Bin OpAnd (Var (eRT d)) (Hex 0xFF)))"
    by (simp add: c_stmt_def Let_def)
  have "ucast (drop_bit 8 (ucast (v AND 0xFF) :: u16)) = (0 :: u8)"
      "ucast (drop_bit 8 (ucast v :: u16)) = (ucast (drop_bit 8 v) :: u8)" for v :: u32
  proof -
    have e: "(0xFF :: u32) = mask 8" by (simp add: mask_eq_exp_minus_1)
    show "ucast (drop_bit 8 (ucast (v AND 0xFF) :: u16)) = (0 :: u8)"
      unfolding e by (rule bit_word_eqI) (simp add: bit_simps)
    show "ucast (drop_bit 8 (ucast v :: u16)) = (ucast (drop_bit 8 v) :: u8)"
      by (rule bit_word_eqI) (simp add: bit_simps)
  qed
  with assms(2) have "mem (c_exec (Store UShort (c_addr d) (Bin OpAnd (Var (eRT d)) (Hex 0xFF))) s) (ea d s + 1) = 0"
      "mem (mips_exec d s) (ea d s + 1) = ucast (drop_bit 8 (rd_reg s (eRT d)))"
    by (simp_all add: c_addr_ea mips_exec_def Let_def store16_def store8_def)
  with code_line_print [OF assms(1) st] show ?thesis by blast
qed

definition d_sh :: inst_data where
  "d_sh = d_addiu_sp\<lparr>eType := IT_SH, eRT := R_A0\<rparr>"

theorem sh_loses_high_byte_witness:
  "wf_dat d_sh \<and> (\<forall>s. \<exists>st. code_line d_sh = Ret (pstmt st) \<and> mem (c_exec st s) (ea d_sh s + 1) = 0 \<and>
    mem (mips_exec d_sh s) (ea d_sh s + 1) = ucast (drop_bit 8 (rd_reg s (eRT d_sh))))"
proof -
  have "wf_dat d_sh" "eType d_sh = IT_SH" by (simp_all add: d_sh_def d_addiu_sp_def wf_dat_def)
  with sh_loses_high_byte show ?thesis by simp
qed

section \<open>Calls\<close>

text \<open>
  C9. The line generated for a register call JALR at instruction \<open>n\<close> of a list, when one is generated: it calls the first
  symbol whose address is in the register at the time of the call, or, if the table has no symbol there, it is the
  comment about an unknown function with the contents of the register, or the value is not resolved and the comment
  shows 0. The time of the call is any state in which control comes to \<open>n\<close> after entering the list at its start or at
  one of its labels. The hypotheses on the code before the call are those of the value: the calls and branches before
  \<open>n\<close> keep a set \<open>R\<close> of registers that has the register of the call and the operands of the sums stored in \<open>R\<close>, and a
  register is changed after an ADDU into it only by a LUI or an ADDU. The register is not \<open>R_ZERO\<close>.
\<close>

theorem known_call_target:
  assumes "call_line syms coll n d = Some (Ret t)" and "n < length coll" and "dat (coll ! n) = d"
    and "eType d = IT_JALR" and "eRS d \<noteq> R_ZERO" and "sums_kept (take n coll)"
    and "eRS d \<in> R" and "way_kept (mips callee) R (take n coll)"
    and "entry_at coll k" and "reaches (mips callee) coll k n s s'"
  shows "eRD d = R_RA \<and>
    ((\<exists>idx. lookup_addr syms (rd_reg s' (eRS d)) = Some idx \<and>
        t = ''REG_v0 = '' @ strName (syms ! idx) @ ''();'' @ [newline, newline]) \<or>
     lookup_addr syms (rd_reg s' (eRS d)) = None \<and> unknown_call d (rd_reg s' (eRS d)) = Ret t \<or>
     resolveRegisterValue coll n (eRS d) = Some (Ret None) \<and> unknown_call d 0 = Ret t)"
proof -
  from assms(1) obtain v where ra: "eRD d = R_RA" and v: "resolveRegisterValue coll n (eRS d) = Some (Ret v)"
    by (auto simp: call_line_def result_simps split: if_split_asm)
  show ?thesis
  proof (cases v)
    case None
    with assms(1) ra v show ?thesis by (simp add: call_line_def)
  next
    case (Some u)
    have "\<not> sets_reg (dat (coll ! n)) (eRS d)" using assms(3,4) by (simp add: sets_reg_def)
    with known_value [OF v [unfolded Some] assms(2,5) _ assms(6-)] have u: "rd_reg s' (eRS d) = u" by simp
    show ?thesis
    proof (cases "lookup_addr syms u")
      case None
      with assms(1) ra v Some u show ?thesis by (simp add: call_line_def)
    next
      case idx: (Some idx)
      then have "idx < length syms" by (simp add: lookup_addr_def find_index_Some)
      with assms(1) ra v Some u idx show ?thesis
        by (simp add: call_line_def known_call_def get_def getCount_def name1_def getRegVarName_def eol_def)
    qed
  qed
qed

definition demo_callee :: tSymList where
  "demo_callee = [\<lparr>sym_uAddress = 0x80001000, cType = CHR ''T'', strName = ''main''\<rparr>]"

theorem known_call_target_witness:
  "call_line demo_callee demo_call 2 (d_jalr R_V0) = Some (Ret (''REG_v0 = main();'' @ [newline, newline])) \<and>
    (\<forall>callee s. \<exists>s'. reaches (mips callee) demo_call 0 2 s s' \<and> lookup_addr demo_callee (rd_reg s' R_V0) = Some 0)"
proof -
  have r: "resolveRegisterValue demo_call 2 R_V0 = Some (Ret (Some 0x80001000))"
    by (simp add: resolveRegisterValue_def demo_call_def resolve_scan.simps d_insts)
  have d: "eRS (d_jalr R_V0) = R_V0" "eRD (d_jalr R_V0) = R_RA" "eType (d_jalr R_V0) = IT_JALR"
    by (simp_all add: d_insts)
  have c: "call_line demo_callee demo_call 2 (d_jalr R_V0) = Some (Ret (''REG_v0 = main();'' @ [newline, newline]))"
    using r d by (simp add: call_line_def known_call_def get_def getCount_def name1_def getRegVarName_def eol_def
        lookup_addr_def demo_callee_def)
  have k: "sums_kept (take 2 demo_call)"
    by (simp add: sums_kept_def demo_call_def d_insts less_Suc_eq numeral_2_eq_2)
  have w: "way_kept (mips callee) {R_V0} (take 2 demo_call)" for callee
    by (simp add: way_kept_def demo_call_def d_insts class_of_def conditional_branch_def)
  have n: "2 < length demo_call" "dat (demo_call ! 2) = d_jalr R_V0" by (simp_all add: demo_call_def)
  have "\<exists>s'. reaches (mips callee) demo_call 0 2 s s'" for callee s
    by (simp add: reaches_def demo_call_def d_insts class_of_def conditional_branch_def step1_def)
  moreover have "lookup_addr demo_callee (rd_reg s' R_V0) = Some 0" if "reaches (mips callee) demo_call 0 2 s s'" for callee s s'
    using known_call_target [OF c n d(3) _ k _ w _ that] r d
    by (auto simp: entry_at_def unknown_call_def name1_def getRegVarName_def demo_callee_def lookup_addr_def split: if_split_asm)
  ultimately show ?thesis using c by blast
qed

end
