(* ===== verification/MipsDec.thy ===== *)
theory MipsDec
  imports SlotSemantics CProgram
begin

text \<open>
  The main program, \<^verbatim>\<open>src/tools/mipsdec/mipsdec.cpp\<close>: map file and binary in, \<^verbatim>\<open>code.c\<close> out. The
  optimiser loop need not end (\<open>detectAndCloneSmallBlocks\<close> adds instructions), so it is a
  \<open>partial_function\<close> and \<open>None\<close> is a run that does not return. The theory ends with the theorem that
  spans the program: the C text written for a function computes what the machine code in the binary
  computes.
\<close>

section \<open>Model\<close>

partial_function (option) optimize_loop :: "Function \<Rightarrow> Function result option" where
  "optimize_loop aFunction =
    (case optimizeInstructions aFunction of
       Fail e \<Rightarrow> Some (Fail e)
     | Ret None \<Rightarrow> Some (Ret aFunction)
     | Ret (Some g) \<Rightarrow>
         (case finish_round (m_collInstList g) of
            Fail e \<Rightarrow> Some (Fail e)
          | Ret xs \<Rightarrow>
              optimize_loop (g\<lparr>m_collInstList := xs, uOptimizationPasses := uOptimizationPasses g + 1\<rparr>)))"

text \<open>What the process leaves behind: the exit status, its standard output and the content of \<^verbatim>\<open>code.c\<close>.\<close>

record process =
  status :: int
  stdout :: string
  code_c :: "string option"

text \<open>The rest of the environment: the files named on the command line and whether \<^verbatim>\<open>code.c\<close> can be opened.\<close>

record environment =
  map_file :: "string \<Rightarrow> string option"
  binary_file :: "string \<Rightarrow> u8 list option"
  code_writable :: bool

definition usage :: "string \<Rightarrow> string" where
  "usage prog = ''Syntax: '' @ prog @ '' <function> <binary> <map>'' @ [newline]"

definition decompile ::
  "(nat \<Rightarrow> inst_data) \<Rightarrow> (u32 \<Rightarrow> inst_data) \<Rightarrow> tSymList \<Rightarrow> string \<Rightarrow> string \<Rightarrow> u8 list option
    \<Rightarrow> (Function \<times> string) result option" where
  "decompile raw rawj syms strFunction strBinaryFile bin =
    or_bind (Some (parseFromFile raw syms strFunction strBinaryFile bin Function_new)) (\<lambda>(f, ok, out).
    or_bind (Some (resolveDelaySlots rawj (m_collInstList f))) (\<lambda>xs.
    or_bind (Some (detectStackOffset (f\<lparr>m_collInstList := xs\<rparr>))) (\<lambda>f2.
    or_bind (optimize_loop (f2\<lparr>m_collInstList := updateJumpTargets (m_collInstList f2)\<rparr>)) (\<lambda>f3.
      Some (Ret (f3, out))))))"

definition main ::
  "(nat \<Rightarrow> inst_data) \<Rightarrow> (u32 \<Rightarrow> inst_data) \<Rightarrow> tFunctionParameters list \<Rightarrow> environment \<Rightarrow> string list
    \<Rightarrow> process result option" where
  "main raw rawj tbl env argv =
    (case argv of
       [] \<Rightarrow> Some (Fail Undefined)
     | [prog, strFunction, strBinaryFile, strMapFile] \<Rightarrow>
         (let (syms, ok, out) = parseSymFile strMapFile (map_file env strMapFile) in
          if \<not> ok then Some (Ret \<lparr>status = 0, stdout = out, code_c = None\<rparr>)
          else
            or_bind (decompile raw rawj syms strFunction strBinaryFile (binary_file env strBinaryFile)) (\<lambda>(f, out').
              if code_writable env then
                or_bind (generateCode tbl syms f) (\<lambda>text.
                  Some (Ret \<lparr>status = 0, stdout = out @ out', code_c = Some text\<rparr>))
              else Some (Fail Undefined)))
     | prog # _ \<Rightarrow> Some (Ret \<lparr>status = 1, stdout = usage prog, code_c = None\<rparr>))"

section \<open>The optimiser loop\<close>

text \<open>
  The rounds whose change is proved to preserve the behaviour, and the runs of at most \<open>n\<close> rounds that
  consist of such rounds.
\<close>

definition verified_change :: "tInstList \<Rightarrow> tInstList \<Rightarrow> bool" where
  "verified_change P P' \<longleftrightarrow>
    list_ex (\<lambda>p. p P = Ret (Some P')) [stripNops, detectOnlyElseBranch, detectEndingIfBranch] \<or>
    list_ex (\<lambda>p. p P = Ret (Some P')) [detectElseBranch, detectEndOfBranchJumps, detectIdenticalIfElseBranch]
      \<and> labels_kept P P'"

fun verified_run :: "nat \<Rightarrow> Function \<Rightarrow> bool" where
  "verified_run 0 f = (optimizeInstructions f = Ret None)"
| "verified_run (Suc n) f =
    (case optimizeInstructions f of
       Fail e \<Rightarrow> False
     | Ret None \<Rightarrow> True
     | Ret (Some g) \<Rightarrow> verified_change (m_collInstList f) (m_collInstList g) \<and>
         (case finish_round (m_collInstList g) of
            Fail e \<Rightarrow> False
          | Ret xs \<Rightarrow> verified_run n (g\<lparr>m_collInstList := xs, uOptimizationPasses := uOptimizationPasses g + 1\<rparr>)))"

lemma verified_change_round:
  assumes "tree_ok P" and "verified_change P P'"
  shows "\<exists>Q. finish_round P' = Ret Q \<and> tree_ok Q \<and>
    (\<forall>s r. evaluates (mips callee) Q s r \<longleftrightarrow> evaluates (mips callee) P s r)"
  using assms(2) unfolding verified_change_def
proof
  assume "list_ex (\<lambda>p. p P = Ret (Some P')) [stripNops, detectOnlyElseBranch, detectEndingIfBranch]"
  then obtain p where "p \<in> {stripNops, detectOnlyElseBranch, detectEndingIfBranch}" "p P = Ret (Some P')"
    by auto
  with assms(1) show ?thesis by (rule label_safe_step)
next
  assume "list_ex (\<lambda>p. p P = Ret (Some P')) [detectElseBranch, detectEndOfBranchJumps, detectIdenticalIfElseBranch]
      \<and> labels_kept P P'"
  then obtain p where "p \<in> {detectElseBranch, detectEndOfBranchJumps, detectIdenticalIfElseBranch}"
      "p P = Ret (Some P')" "labels_kept P P'"
    by auto
  with assms(1) show ?thesis by (rule jump_removing_step)
qed

lemma optimize_loop_correct:
  assumes "verified_run n f" and "tree_ok (m_collInstList f)"
  shows "\<exists>g. optimize_loop f = Some (Ret g) \<and> tree_ok (m_collInstList g) \<and> fn_strName g = fn_strName f \<and>
    (\<forall>s r. evaluates (mips callee) (m_collInstList g) s r \<longleftrightarrow> evaluates (mips callee) (m_collInstList f) s r)"
  using assms
proof (induction n arbitrary: f)
  case 0
  then show ?case by (subst optimize_loop.simps) simp
next
  case (Suc n)
  show ?case
  proof (cases "optimizeInstructions f")
    case (Fail e)
    with Suc.prems show ?thesis by simp
  next
    case (Ret r)
    show ?thesis
    proof (cases r)
      case None
      with Ret Suc.prems show ?thesis by (subst optimize_loop.simps) simp
    next
      case (Some g)
      let ?next = "\<lambda>xs. g\<lparr>m_collInstList := xs, uOptimizationPasses := uOptimizationPasses g + 1\<rparr>"
      from Suc.prems Ret Some have ch: "verified_change (m_collInstList f) (m_collInstList g)" by simp
      from verified_change_round [OF Suc.prems(2) ch, of callee] obtain Q where
        Q: "finish_round (m_collInstList g) = Ret Q" "tree_ok Q"
          "\<And>s r. evaluates (mips callee) Q s r \<longleftrightarrow> evaluates (mips callee) (m_collInstList f) s r"
        by blast
      from Suc.prems Ret Some Q have "verified_run n (?next Q)" by simp
      from Suc.IH [OF this] Q obtain h where h: "optimize_loop (?next Q) = Some (Ret h)" "tree_ok (m_collInstList h)"
          "fn_strName h = fn_strName g"
          "\<And>s r. evaluates (mips callee) (m_collInstList h) s r \<longleftrightarrow> evaluates (mips callee) (m_collInstList f) s r"
        by auto
      have "fn_strName g = fn_strName f"
        using Ret Some by (auto simp: optimizeInstructions_def result_simps)
      moreover have "optimize_loop f = Some (Ret h)"
        using Ret Some Q(1) h(1) by (subst optimize_loop.simps) simp
      ultimately show ?thesis using h by auto
    qed
  qed
qed

section \<open>The whole program\<close>

lemma detectStackOffset_frame:
  "detectStackOffset f = Ret g \<Longrightarrow> m_collInstList g = m_collInstList f \<and> fn_strName g = fn_strName f"
  by (auto simp: detectStackOffset_def result_simps split: option.split_asm)

lemma parseFromFile_name: "parseFromFile raw syms name binf bin Function_new = Ret (f, ok, out) \<Longrightarrow> fn_strName f = name"
  by (auto simp: parseFromFile_def Let_def result_simps split: option.split_asm)

text \<open>The lines before the body; the last one is the prototype.\<close>

definition file_head :: "string \<Rightarrow> Function \<Rightarrow> string" where
  "file_head proto f = ''#include '' @ [CHR 0x22] @ ''../mipsdec_helper.h'' @ [CHR 0x22, newline, newline]
    @ ''/* Optimization passes: '' @ fmt_4d (sint (uOptimizationPasses f)) @ '' */'' @ [newline]
    @ ''/* Stack offset.......: '' @ fmt_4d (sint (uStackOffset f)) @ '' */'' @ [newline] @ proto"

lemma generateCode_closed:
  assumes "c_closed (m_collInstList f)" and "prototype tbl (fn_strName f) = Ret proto"
  shows "generateCode tbl syms f = Some (Ret (file_head proto f @ ''{'' @ [newline] @ pblock 1 (c_block (m_collInstList f))
    @ ''}'' @ [newline]))"
  using assms
  by (simp add: generateCode_def generateInstructionCode_def generate_from_print c_closed_def file_head_def)

text \<open>
  C1. The program as a whole, on the runs that stay inside the verified fragment. The map file parses, the function is in
  the map with a prototype and a symbol after it, and the binary has all its instructions. The code uses its delay slots
  as \<open>slot_program\<close> says. \<open>detectStackOffset\<close> fails no assertion. The optimiser ends after at most \<open>n\<close> rounds, and each of
  them is a change by \<open>stripNops\<close>, \<open>detectOnlyElseBranch\<close> or \<open>detectEndingIfBranch\<close>, or by \<open>detectElseBranch\<close>,
  \<open>detectEndOfBranchJumps\<close> or \<open>detectIdenticalIfElseBranch\<close> that removes no label still in use: so no prologue or epilogue
  is stripped and no block is moved or cloned. The final tree is \<open>c_closed\<close>: only instructions that the generator
  translates as the processor executes them, so no call, no SH and no hazard-barrier jump. \<^verbatim>\<open>code.c\<close> can be opened. Then
  \<open>main\<close> returns with status 0, prints nothing, and writes a C function to \<^verbatim>\<open>code.c\<close> whose body computes, from every state,
  exactly what the processor with delay slots computes on the instructions read from the binary.
\<close>

theorem main_correct:
  assumes "parseSymFile mapf (map_file env mapf) = (syms, True, [])"
    and parsed: "parseFromFile raw syms name binf (binary_file env binf) Function_new = Ret (f, True, [])"
    and slots: "slot_program (m_collInstList f)"
    and xs: "resolveDelaySlots rawj (m_collInstList f) = Ret xs"
    and stack: "detectStackOffset (f\<lparr>m_collInstList := xs\<rparr>) = Ret f2"
    and run: "verified_run n (f2\<lparr>m_collInstList := updateJumpTargets xs\<rparr>)"
    and closed: "\<forall>g. optimize_loop (f2\<lparr>m_collInstList := updateJumpTargets xs\<rparr>) = Some (Ret g)
      \<longrightarrow> c_closed (m_collInstList g)"
    and "prototype tbl name = Ret proto" and "code_writable env"
  shows "\<exists>g. main raw rawj tbl env [prog, name, binf, mapf] =
      Some (Ret \<lparr>status = 0, stdout = [],
        code_c = Some (file_head proto g @ ''{'' @ [newline] @ pblock 1 (c_block (m_collInstList g)) @ ''}'' @ [newline])\<rparr>) \<and>
    (\<forall>s r. c_evaluates (c_block (m_collInstList g)) s r \<longleftrightarrow>
      (\<exists>q. slot_evaluates (mips callee) (m_collInstList f) s q \<and> c_outcome q = r))"
proof -
  let ?f3 = "f2\<lparr>m_collInstList := updateJumpTargets xs\<rparr>"
  from mips.resolveDelaySlots_correct [OF slots, of rawj callee] xs
  have ok: "tree_ok (updateJumpTargets xs)"
    and ev: "\<And>s q. evaluates (mips callee) (updateJumpTargets xs) s q \<longleftrightarrow> slot_evaluates (mips callee) (m_collInstList f) s q"
    by auto
  from optimize_loop_correct [OF run, of callee] ok ev obtain g where
    g: "optimize_loop ?f3 = Some (Ret g)" "tree_ok (m_collInstList g)" "fn_strName g = fn_strName f2"
      "\<And>s q. evaluates (mips callee) (m_collInstList g) s q \<longleftrightarrow> slot_evaluates (mips callee) (m_collInstList f) s q"
    by auto
  note frame = detectStackOffset_frame [OF stack]
  from closed g(1) have c: "c_closed (m_collInstList g)" by blast
  have "decompile raw rawj syms name binf (binary_file env binf) = Some (Ret (g, []))"
    using parsed xs stack g(1) frame by (simp add: decompile_def)
  moreover have "fn_strName g = name"
    using g(3) frame parseFromFile_name [OF parsed] by simp
  ultimately show ?thesis
    using assms(1,8,9) generateCode_closed [OF c, of tbl proto syms] c_evaluates_iff [OF g(2) c, of _ _ callee] g(4)
    by (intro exI [of _ g]) (simp add: main_def)
qed

text \<open>The function \<open>addiu v0, zero, 5; jr ra; nop\<close> at the start of a binary.\<close>

definition five_syms :: tSymList where
  "five_syms = [\<lparr>sym_uAddress = 0x80000000, cType = CHR ''T'', strName = ''five''\<rparr>,
     \<lparr>sym_uAddress = 0x8000000C, cType = CHR ''T'', strName = ''end''\<rparr>]"

definition five_bin :: "u8 list" where
  "five_bin = [0x05, 0x00, 0x02, 0x24, 0x08, 0x00, 0xE0, 0x03, 0x00, 0x00, 0x00, 0x00]"

definition five_env :: environment where
  "five_env = \<lparr>map_file = (\<lambda>_. Some (concat (map sym_line five_syms))), binary_file = (\<lambda>_. Some five_bin),
     code_writable = True\<rparr>"

definition five_code :: tInstList where
  "five_code =
    [leaf (d_addiu_sp\<lparr>uAddress := 0x80000000, eRS := R_ZERO, eRT := R_V0, iSI := 5\<rparr>),
     leaf (d_addiu_sp\<lparr>uAddress := 0x80000004, eType := IT_JR, eFormat := IF_RS, eRS := R_RA, eRT := R_UNKNOWN, iSI := 0\<rparr>),
     leaf (d_addiu_sp\<lparr>uAddress := 0x80000008, eType := IT_NOP, eFormat := IF_NOARG, eRS := R_UNKNOWN, eRT := R_UNKNOWN, iSI := 0\<rparr>)]"

definition five :: Function where
  "five = Function_new\<lparr>fn_strName := ''five'', m_collInstList := five_code\<rparr>"

lemma five_parsed:
  "parseFromFile (\<lambda>_. d_addiu_sp) five_syms ''five'' binf (Some five_bin) Function_new = Ret (five, True, [])"
proof -
  have w: "read_bytes 4 0 five_bin = Some (0x24020005, drop 4 five_bin)"
      "read_bytes 4 0 (drop 4 five_bin) = Some (0x03E00008, drop 8 five_bin)"
      "read_bytes 4 0 (drop 8 five_bin) = Some (0, [])"
    by code_simp+
  show ?thesis
    by (simp add: parseFromFile_def Let_def calcSymFileOffset_def fseek_set_def read_instructions.simps w
        Function_new_def getCount_def get_def lookup_name_def five_syms_def parse_def decodeData_def s_InstructionInfo_def
        info_matches_def declare_opcode_defs decode_defs field_def decodeRegister_def five_def five_code_def d_addiu_sp_def
        parse_fixup_def Instruction_new_def)
qed

text \<open>The tree after the delay slots are gone, and after the one round of the optimiser.\<close>

definition five_ret :: Instruction where
  "five_ret = upd_dat (\<lambda>d. d\<lparr>uAddress := 0x80000008, bDelaySlotReordered := True\<rparr>) (five_code ! 1)"

definition five_tree :: tInstList where
  "five_tree = [five_code ! 0, upd_dat (\<lambda>d. d\<lparr>uAddress := 0x80000004\<rparr>) (five_code ! 2), five_ret]"

definition five_done :: tInstList where
  "five_done = [five_code ! 0, five_ret]"

lemmas five_defs = five_code_def five_tree_def five_done_def five_ret_def tree_eval upd_dat_def

lemma five_slots: "slot_program five_code"
  by (simp add: slot_program_def inst_ok_def fresh_inst_def wf_dat_def slotted_def has_info_def result_of_def five_defs)

lemma five_resolved: "resolveDelaySlots rawj five_code = Ret five_tree"
  by (simp add: resolveDelaySlots_eq five_defs unresolved_def getDelaySlotType_def declare_opcode_defs
      resolve_slot_def getClassType_def swap_def close_branch_def)

lemma five_stack: "detectStackOffset (five\<lparr>m_collInstList := five_tree\<rparr>) = Ret (five\<lparr>m_collInstList := five_tree\<rparr>)"
  by (simp add: detectStackOffset_def five_defs modifiesRegister_def declare_opcode_defs five_def Function_new_def)

lemma five_unmarked: "updateJumpTargets five_tree = five_tree" "updateJumpTargets five_done = five_done"
  by (simp_all add: updateJumpTargets_def five_defs)

lemma five_no_pass:
  assumes "xs = five_tree \<or> xs = five_done"
  shows "reassembleSingleJumpBlocks xs = Ret None" "detectElseBranch xs = Ret None" "detectOnlyElseBranch xs = Ret None"
    "detectEndOfBranchJumps xs = Ret None"
  using assms
  by (auto simp: reassembleSingleJumpBlocks_def reassemble_here_def detectElseBranch_def detectOnlyElseBranch_def five_defs)

lemma five_strip: "stripNops five_tree = Ret (Some five_done)" "stripNops five_done = Ret None"
  by (simp_all add: stripNops_def five_defs isNOP_def)

lemma five_finish: "finish_round five_done = Ret five_done"
  by (simp add: finish_round_eq five_defs updateJumpTargets_def)

lemma five_last: "detectEndingIfBranch five_done = Ret None" "detectIdenticalIfElseBranch five_done = Ret None"
    "detectAndCloneSmallBlocks five_done = Ret None"
  by (simp_all add: detectEndingIfBranch_def detectIdenticalIfElseBranch_def detectAndCloneSmallBlocks_def clone_here_def
      five_defs)

lemma five_optimised:
  "m_collInstList f = five_tree \<Longrightarrow> \<not> bHasStackOffset f \<Longrightarrow> optimizeInstructions f = Ret (Some (f\<lparr>m_collInstList := five_done\<rparr>))"
  "m_collInstList f = five_done \<Longrightarrow> \<not> bHasStackOffset f \<Longrightarrow> optimizeInstructions f = Ret None"
  using five_no_pass [of five_tree] five_no_pass [of five_done]
  by (simp_all add: optimizeInstructions_def optimizer_passes_def detectEpilogProlog_def five_strip five_last)

theorem main_correct_witness:
  "\<exists>g. main (\<lambda>_. d_addiu_sp) (\<lambda>_. d_nop) [] five_env [''mipsdec'', ''five'', ''vmlinux'', ''map''] =
      Some (Ret \<lparr>status = 0, stdout = [],
        code_c = Some (file_head (''void five(void)'' @ [newline]) g @ ''{'' @ [newline]
          @ pblock 1 (c_block (m_collInstList g)) @ ''}'' @ [newline])\<rparr>) \<and>
    (\<forall>s r. c_evaluates (c_block (m_collInstList g)) s r \<longleftrightarrow>
      (\<exists>q. slot_evaluates (mips (\<lambda>_ s. s)) five_code s q \<and> c_outcome q = r))"
proof -
  let ?f3 = "five\<lparr>m_collInstList := five_tree\<rparr>"
  have h: "\<not> bHasStackOffset five" "m_collInstList five = five_code" by (simp_all add: five_def Function_new_def)
  have map: "parseSymFile ''map'' (map_file five_env ''map'') = (five_syms, True, [])"
    using parseSymFile_loop_lines [of five_syms "[]"]
    by (simp add: parseSymFile_def five_env_def) (simp add: five_syms_def printable_entry_def)
  have bin: "parseFromFile (\<lambda>_. d_addiu_sp) five_syms ''five'' ''vmlinux'' (binary_file five_env ''vmlinux'') Function_new
      = Ret (five, True, [])"
    using five_parsed by (simp add: five_env_def)
  have run: "verified_run 1 (?f3\<lparr>m_collInstList := updateJumpTargets five_tree\<rparr>)"
    using h by (simp add: five_unmarked five_optimised verified_change_def five_strip five_finish)
  have "optimize_loop ?f3 = Some (Ret (five\<lparr>m_collInstList := five_done, uOptimizationPasses := uOptimizationPasses five + 1\<rparr>))"
    by (subst optimize_loop.simps, subst optimize_loop.simps) (simp add: h five_optimised five_finish)
  moreover have "c_closed five_done"
    by (simp add: c_closed_def c_ok_def wf_dat_def result_of_def five_defs)
  ultimately have closed: "\<forall>g. optimize_loop (?f3\<lparr>m_collInstList := updateJumpTargets five_tree\<rparr>) = Some (Ret g)
      \<longrightarrow> c_closed (m_collInstList g)"
    by (simp add: five_unmarked)
  have "prototype [] ''five'' = Ret (''void five(void)'' @ [newline])" by (simp add: prototype_def)
  from main_correct [OF map bin _ _ _ run closed this, of "\<lambda>_. d_nop" "''mipsdec''" "\<lambda>_ s. s"] show ?thesis
    using five_slots five_resolved five_stack h by (simp add: five_env_def)
qed

text \<open>
  Bad invocations: a wrong number of arguments prints the syntax and ends with status 1; a map file
  that cannot be read or has a malformed line is reported and ends with status 0 and no output file.
\<close>

lemma main_bad_invocation:
  "(length args \<noteq> 3 \<longrightarrow>
      main raw rawj tbl env (prog # args) = Some (Ret \<lparr>status = 1, stdout = usage prog, code_c = None\<rparr>)) \<and>
   (parseSymFile mapf (map_file env mapf) = (syms, False, out) \<longrightarrow>
      main raw rawj tbl env [prog, name, binf, mapf] = Some (Ret \<lparr>status = 0, stdout = out, code_c = None\<rparr>))"
  by (auto simp: main_def split: list.split prod.split)

definition demo_env :: environment where
  "demo_env = \<lparr>map_file = (\<lambda>_. None), binary_file = (\<lambda>_. None), code_writable = True\<rparr>"

lemma optimizeInstructions_empty: "m_collInstList f = [] \<Longrightarrow> optimizeInstructions f = Ret None"
  by (simp add: optimizeInstructions_def optimizer_passes_def reassembleSingleJumpBlocks_def detectElseBranch_def
      detectOnlyElseBranch_def detectEpilogProlog_def stripEpilogProlog_def stripNops_def
      detectEndingIfBranch_def detectIdenticalIfElseBranch_def detectAndCloneSmallBlocks_def reassemble_here_def clone_here_def)

text \<open>
  C22. The result of \<open>parseFromFile\<close> is not looked at. If the map file parses, has no symbol of the name asked for, a
  prototype is found or made up for the name and \<^verbatim>\<open>code.c\<close> can be opened, then \<open>main\<close> prints that it cannot locate the
  function, goes on with an empty instruction list, writes an empty C function of that name and ends with status 0. On
  the empty list the passes \<open>removeClosingJump2\<close> and \<open>detectEndOfBranchJumps\<close> step past the end of a \<open>std::list\<close>; as
  everywhere in the development that is read as in the circular lists of the usual implementations, where it comes back
  to the end.
\<close>

theorem main_unknown_function:
  assumes "parseSymFile mapf (map_file env mapf) = (syms, True, out)" and "lookup_name syms name = None"
    and "prototype tbl name = Ret proto" and "code_writable env"
  shows "main raw rawj tbl env [prog, name, binf, mapf] =
    Some (Ret \<lparr>status = 0, stdout = out @ ''Unable to locate function '' @ name @ [newline],
      code_c = Some (file_head proto (Function_new\<lparr>fn_strName := name\<rparr>) @ ''{'' @ [newline] @ ''}'' @ [newline])\<rparr>)"
proof -
  let ?f = "Function_new\<lparr>fn_strName := name\<rparr>"
  let ?out = "''Unable to locate function '' @ name @ [newline]"
  have "parseFromFile raw syms name binf (binary_file env binf) Function_new = Ret (?f, False, ?out)"
    using assms(2) by (simp add: parseFromFile_def Let_def)
  moreover have "resolveDelaySlots rawj [] = Ret []"
    by (simp add: resolveDelaySlots_eq)
  moreover have "detectStackOffset ?f = Ret ?f"
    by (simp add: detectStackOffset_def Function_new_def)
  moreover have "optimize_loop ?f = Some (Ret ?f)"
    by (subst optimize_loop.simps) (simp add: optimizeInstructions_empty Function_new_def)
  ultimately have "decompile raw rawj syms name binf (binary_file env binf) = Some (Ret (?f, ?out))"
    by (simp add: decompile_def Function_new_def updateJumpTargets_def)
  moreover have "generateCode tbl syms ?f = Some (Ret (file_head proto ?f @ ''{'' @ [newline] @ ''}'' @ [newline]))"
    using generateCode_closed [of ?f tbl proto syms] assms(3) by (simp add: c_closed_def Function_new_def pblock_def)
  ultimately show ?thesis
    using assms(1,4) by (simp add: main_def)
qed

theorem main_unknown_function_witness:
  "main (\<lambda>_. d_nop) (\<lambda>_. d_nop) [] (demo_env\<lparr>map_file := (\<lambda>_. Some [])\<rparr>) [''mipsdec'', ''f'', ''vmlinux'', ''map''] =
    Some (Ret \<lparr>status = 0, stdout = ''Unable to locate function f'' @ [newline],
      code_c = Some (file_head (''void f(void)'' @ [newline]) (Function_new\<lparr>fn_strName := ''f''\<rparr>)
        @ ''{'' @ [newline] @ ''}'' @ [newline])\<rparr>)"
proof -
  have "parseSymFile ''map'' (map_file (demo_env\<lparr>map_file := (\<lambda>_. Some [])\<rparr>) ''map'') = ([], True, [])"
    using parseSymFile_loop_lines [of "[]" "[]"] by (simp add: parseSymFile_def demo_env_def)
  moreover have "prototype [] ''f'' = Ret (''void f(void)'' @ [newline])" by (simp add: prototype_def)
  ultimately show ?thesis
    using main_unknown_function [of "''map''" "demo_env\<lparr>map_file := (\<lambda>_. Some [])\<rparr>" "[]" "[]" "''f''" "[]"]
    by (simp add: lookup_name_def demo_env_def)
qed

end
