(* ===== verification/Bytes.thy ===== *)
theory Bytes
  imports Prelude
begin

text \<open>
  Reading memory. The tools of \<^verbatim>\<open>src/tools/udcompiler\<close> read a buffer of bytes through casted pointers; a read is a
  read of consecutive bytes, the least significant one first, since they run on x86. A byte outside of the buffer
  is \<open>Fail Undefined\<close>.
\<close>

definition byte_at :: "u8 list \<Rightarrow> nat \<Rightarrow> u8 result" where
  "byte_at bs n = (if n < length bs then Ret (bs ! n) else Fail Undefined)"

definition half_at :: "u8 list \<Rightarrow> nat \<Rightarrow> u16 result" where
  "half_at bs n = r_bind (byte_at bs n) (\<lambda>a. r_bind (byte_at bs (n + 1)) (\<lambda>b. Ret (ucast a OR push_bit 8 (ucast b))))"

definition word_at :: "u8 list \<Rightarrow> nat \<Rightarrow> u32 result" where
  "word_at bs n = r_bind (half_at bs n) (\<lambda>a. r_bind (half_at bs (n + 2)) (\<lambda>b. Ret (ucast a OR push_bit 16 (ucast b))))"

definition quad_at :: "u8 list \<Rightarrow> nat \<Rightarrow> 64 word result" where
  "quad_at bs n = r_bind (word_at bs n) (\<lambda>a. r_bind (word_at bs (n + 4)) (\<lambda>b. Ret (ucast a OR push_bit 32 (ucast b))))"

end
