(* ===== verification/Libdis.thy ===== *)
theory Libdis
  imports Bytes
begin

text \<open>
  The data types of libdisasm (\<^verbatim>\<open>src/tools/udcompiler/libdisasm_0.21-pre2/libdisasm\<close>, \<^verbatim>\<open>libdis.h\<close>), the operand lists of
  \<^verbatim>\<open>x86_operand_list.c\<close> and the accessors of \<^verbatim>\<open>x86_insn.c\<close>.

  Enumerations whose values are combined with \<open>|\<close>, or computed from the opcode tables, are 32-bit words. The
  linked operand list is a list (\<open>Live\<close>), or \<open>Freed\<close> when the pointer points to storage that was given back;
  following such a pointer is \<open>Fail Undefined\<close>. The union of operand data is a record of its members, since a
  member is only read when the operand type says that it was written; the members that hold a number share
  one 64-bit word.
\<close>

section \<open>Data types\<close>

datatype x86_op_type =
    op_unused | op_register | op_immediate | op_relative_near | op_relative_far | op_absolute | op_expression
  | op_offset | op_unknown

text \<open>\<open>op_no_datatype\<close> is the value 0, which has no name in the source.\<close>

datatype x86_op_datatype =
    op_no_datatype | op_byte | op_word | op_dword | op_qword | op_dqword | op_sreal | op_dreal | op_extreal | op_bcd | op_ssimd
  | op_dsimd | op_sssimd | op_sdsimd | op_descr32 | op_descr16 | op_pdescr32 | op_pdescr16 | op_fpuenv | op_fpregset

text \<open>Access and flags of an operand.\<close>

definition op_read :: u32 where "op_read = 1"
definition op_write :: u32 where "op_write = 2"
definition op_execute :: u32 where "op_execute = 4"
definition op_signed :: u32 where "op_signed = 1"
definition op_string :: u32 where "op_string = 2"
definition op_pointer :: u32 where "op_pointer = 8"
definition op_implied :: u32 where "op_implied = 0x20"
definition op_hardcode :: u32 where "op_hardcode = 0x40"

definition op_es_seg :: u32 where "op_es_seg = 0x100"
definition op_cs_seg :: u32 where "op_cs_seg = 0x200"
definition op_ss_seg :: u32 where "op_ss_seg = 0x300"
definition op_ds_seg :: u32 where "op_ds_seg = 0x400"
definition op_fs_seg :: u32 where "op_fs_seg = 0x500"
definition op_gs_seg :: u32 where "op_gs_seg = 0x600"

text \<open>The kinds of operands that \<open>x86_operand_foreach\<close> is asked for.\<close>

definition op_any :: u32 where "op_any = 0"
definition op_dest :: u32 where "op_dest = 1"
definition op_src :: u32 where "op_src = 2"
definition op_ro :: u32 where "op_ro = 3"
definition op_wo :: u32 where "op_wo = 4"
definition op_xo :: u32 where "op_xo = 5"
definition op_rw :: u32 where "op_rw = 6"
definition op_implicit :: u32 where "op_implicit = 0x10"
definition op_explicit :: u32 where "op_explicit = 0x20"

type_synonym x86_insn_group = u32

definition insn_none :: x86_insn_group where "insn_none = 0"

text \<open>The instruction types that the code tells apart, with the values of the enumeration.\<close>

type_synonym x86_insn_type = u32

definition insn_invalid :: x86_insn_type where "insn_invalid = 0"
definition insn_jmp :: x86_insn_type where "insn_jmp = 0x1001"
definition insn_jcc :: x86_insn_type where "insn_jcc = 0x1002"
definition insn_call :: x86_insn_type where "insn_call = 0x1003"
definition insn_callcc :: x86_insn_type where "insn_callcc = 0x1004"
definition insn_return :: x86_insn_type where "insn_return = 0x1005"
definition insn_add :: x86_insn_type where "insn_add = 0x2001"
definition insn_sub :: x86_insn_type where "insn_sub = 0x2002"
definition insn_inc :: x86_insn_type where "insn_inc = 0x2005"
definition insn_dec :: x86_insn_type where "insn_dec = 0x2006"
definition insn_mul :: x86_insn_type where "insn_mul = 0x2003"
definition insn_div :: x86_insn_type where "insn_div = 0x2004"
definition insn_shl :: x86_insn_type where "insn_shl = 0x2007"
definition insn_shr :: x86_insn_type where "insn_shr = 0x2008"
definition insn_rol :: x86_insn_type where "insn_rol = 0x2009"
definition insn_ror :: x86_insn_type where "insn_ror = 0x200A"
definition insn_and :: x86_insn_type where "insn_and = 0x3001"
definition insn_or :: x86_insn_type where "insn_or = 0x3002"
definition insn_xor :: x86_insn_type where "insn_xor = 0x3003"
definition insn_not :: x86_insn_type where "insn_not = 0x3004"
definition insn_neg :: x86_insn_type where "insn_neg = 0x3005"
definition insn_push :: x86_insn_type where "insn_push = 0x4001"
definition insn_pop :: x86_insn_type where "insn_pop = 0x4002"
definition insn_pushregs :: x86_insn_type where "insn_pushregs = 0x4003"
definition insn_popregs :: x86_insn_type where "insn_popregs = 0x4004"
definition insn_pushflags :: x86_insn_type where "insn_pushflags = 0x4005"
definition insn_popflags :: x86_insn_type where "insn_popflags = 0x4006"
definition insn_enter :: x86_insn_type where "insn_enter = 0x4007"
definition insn_leave :: x86_insn_type where "insn_leave = 0x4008"
definition insn_test :: x86_insn_type where "insn_test = 0x5001"
definition insn_mov :: x86_insn_type where "insn_mov = 0x6001"
definition insn_movcc :: x86_insn_type where "insn_movcc = 0x6002"
definition insn_xchg :: x86_insn_type where "insn_xchg = 0x6003"
definition insn_xchgcc :: x86_insn_type where "insn_xchgcc = 0x6004"

text \<open>Two values of \<open>x86_flag_status\<close>, the prefix \<open>insn_no_prefix\<close> and the options of the library.\<close>

definition insn_carry_or_zero_set :: u32 where "insn_carry_or_zero_set = 0x40"
definition insn_zero_set_or_sign_ne_oflow :: u32 where "insn_zero_set_or_sign_ne_oflow = 0x80"
definition insn_no_prefix :: u32 where "insn_no_prefix = 0"
definition opt_none :: u32 where "opt_none = 0"
definition opt_ignore_nulls :: u32 where "opt_ignore_nulls = 1"
definition opt_16_bit :: u32 where "opt_16_bit = 2"

record x86_reg_t =
  reg_name :: string
  reg_type :: u32
  reg_size :: u32
  reg_id :: u32
  reg_alias :: u32
  reg_shift :: u32

record x86_ea_t =
  ea_scale :: u32
  ea_index :: x86_reg_t
  ea_base :: x86_reg_t
  ea_disp :: u32
  ea_disp_sign :: u8
  ea_disp_size :: u8

record x86_op_t =
  op_type :: x86_op_type
  op_datatype :: x86_op_datatype
  op_access :: u32
  op_flags :: u32
  data_word :: "64 word"
  data_reg :: x86_reg_t
  data_expression :: x86_ea_t

datatype x86_oplist = Live "x86_op_t list" | Freed

definition MAX_REGNAME :: nat where "MAX_REGNAME = 8"
definition MAX_INSN_SIZE :: nat where "MAX_INSN_SIZE = 20"

record x86_insn_t =
  addr :: u32
  offset :: u32
  insn_group :: x86_insn_group
  insn_type :: x86_insn_type
  insn_note :: u32
  insn_bytes :: "u8 list"
  insn_size :: u8
  addr_size :: u8
  insn_op_size :: u8
  insn_cpu :: u32
  insn_isa :: u32
  flags_set :: u32
  flags_tested :: u32
  stack_mod :: u8
  stack_mod_val :: u32
  insn_prefix :: u32
  prefix_string :: string
  mnemonic :: string
  operands :: x86_oplist
  operand_count :: nat
  explicit_count :: nat
  insn_block :: u32
  insn_function :: u32
  insn_tag :: int

text \<open>The structure after \<open>memset\<close>.\<close>

definition zero_insn :: x86_insn_t where
  "zero_insn = \<lparr>addr = 0, offset = 0, insn_group = insn_none, insn_type = insn_invalid, insn_note = 0,
    insn_bytes = replicate MAX_INSN_SIZE 0, insn_size = 0, addr_size = 0, insn_op_size = 0, insn_cpu = 0, insn_isa = 0,
    flags_set = 0, flags_tested = 0, stack_mod = 0, stack_mod_val = 0, insn_prefix = 0, prefix_string = [],
    mnemonic = [], operands = Live [], operand_count = 0, explicit_count = 0, insn_block = 0, insn_function = 0,
    insn_tag = 0\<rparr>"

definition x86_optype_is_address :: "x86_op_type \<Rightarrow> bool" where
  "x86_optype_is_address t \<longleftrightarrow> t = op_absolute \<or> t = op_offset"

definition x86_optype_is_relative :: "x86_op_type \<Rightarrow> bool" where
  "x86_optype_is_relative t \<longleftrightarrow> t = op_relative_near \<or> t = op_relative_far"

section \<open>Operand lists\<close>

definition x86_oplist_append :: "x86_insn_t \<Rightarrow> x86_op_t \<Rightarrow> x86_insn_t result" where
  "x86_oplist_append insn op =
    (case operands insn of
       Freed \<Rightarrow> Fail Undefined
     | Live [] \<Rightarrow> Ret (insn\<lparr>operand_count := 1, explicit_count := 1, operands := Live [op]\<rparr>)
     | Live ops \<Rightarrow> Ret (insn\<lparr>operand_count := operand_count insn + 1, explicit_count := explicit_count insn + 1,
         operands := Live (ops @ [op])\<rparr>))"

text \<open>The storage that \<open>calloc\<close> returns is zero.\<close>

definition zero_reg :: x86_reg_t where
  "zero_reg = \<lparr>reg_name = [], reg_type = 0, reg_size = 0, reg_id = 0, reg_alias = 0, reg_shift = 0\<rparr>"

definition zero_op :: x86_op_t where
  "zero_op = \<lparr>op_type = op_unused, op_datatype = op_no_datatype, op_access = 0, op_flags = 0, data_word = 0,
    data_reg = zero_reg, data_expression = \<lparr>ea_scale = 0, ea_index = zero_reg, ea_base = zero_reg, ea_disp = 0,
      ea_disp_sign = 0, ea_disp_size = 0\<rparr>\<rparr>"

definition x86_operand_new :: "x86_insn_t \<Rightarrow> x86_insn_t result" where
  "x86_operand_new insn = x86_oplist_append insn zero_op"

text \<open>The member \<open>operands\<close> is not reset: unless it was NULL it now points to freed storage.\<close>

definition x86_oplist_free :: "x86_insn_t \<Rightarrow> x86_insn_t result" where
  "x86_oplist_free insn =
    (case operands insn of
       Freed \<Rightarrow> Fail Undefined
     | Live ops \<Rightarrow> Ret (insn\<lparr>operands := (if ops = [] then Live [] else Freed), operand_count := 0, explicit_count := 0\<rparr>))"

text \<open>The \<open>switch\<close> of \<open>x86_operand_foreach\<close>; the cases \<open>op_wo\<close> and \<open>op_xo\<close> have no \<open>break\<close>.\<close>

definition access_matches :: "u32 \<Rightarrow> u32 \<Rightarrow> bool" where
  "access_matches t access =
    (let r = access AND op_read \<noteq> 0; w = access AND op_write \<noteq> 0; x = access AND op_execute \<noteq> 0 in
     if t = op_any then True
     else if t = op_dest then w
     else if t = op_src then r
     else if t = op_ro then r \<and> \<not> w
     else if t = op_wo then (w \<and> \<not> r) \<and> x \<and> (w \<and> r)
     else if t = op_xo then x \<and> (w \<and> r)
     else if t = op_rw then w \<and> r
     else True)"

definition operand_visited :: "u32 \<Rightarrow> x86_op_t \<Rightarrow> bool" where
  "operand_visited t op =
    (let implicit = \<not> (t AND op_explicit \<noteq> 0 \<and> t AND op_implicit = 0);
         explicit = \<not> (t AND op_implicit \<noteq> 0 \<and> t AND op_explicit = 0);
         implied = op_flags op AND op_implied \<noteq> 0 in
     \<not> (\<not> implicit \<and> implied) \<and> \<not> (\<not> explicit \<and> \<not> implied) \<and> access_matches (t AND 0xF0) (op_access op))"

text \<open>\<open>func\<close> is the callback, a function of the operand and of what \<open>arg\<close> points to.\<close>

definition x86_operand_foreach :: "x86_insn_t \<Rightarrow> (x86_op_t \<Rightarrow> 'a \<Rightarrow> 'a) \<Rightarrow> 'a \<Rightarrow> u32 \<Rightarrow> 'a result" where
  "x86_operand_foreach insn func arg t =
    (case operands insn of
       Freed \<Rightarrow> Fail Undefined
     | Live ops \<Rightarrow> Ret (fold func (filter (operand_visited t) ops) arg))"

text \<open>The same loop with a callback that changes the operand it is called on.\<close>

definition x86_operand_foreach_op :: "x86_insn_t \<Rightarrow> (x86_op_t \<Rightarrow> x86_op_t) \<Rightarrow> u32 \<Rightarrow> x86_insn_t result" where
  "x86_operand_foreach_op insn func t =
    (case operands insn of
       Freed \<Rightarrow> Fail Undefined
     | Live ops \<Rightarrow> Ret (insn\<lparr>operands := Live (map (\<lambda>op. if operand_visited t op then func op else op) ops)\<rparr>))"

definition count_operand :: "x86_op_t \<Rightarrow> nat \<Rightarrow> nat" where
  "count_operand op count = count + 1"

definition x86_operand_count :: "x86_insn_t \<Rightarrow> u32 \<Rightarrow> nat result" where
  "x86_operand_count insn t =
    (if t = op_any then Ret (operand_count insn)
     else if t = op_explicit then Ret (explicit_count insn)
     else x86_operand_foreach insn count_operand 0 t)"

text \<open>The \<open>n\<close>-th node of the list; going past its end reads through NULL.\<close>

definition nth_operand :: "x86_insn_t \<Rightarrow> nat \<Rightarrow> x86_op_t result" where
  "nth_operand insn n =
    (case operands insn of
       Freed \<Rightarrow> Fail Undefined
     | Live ops \<Rightarrow> if n < length ops then Ret (ops ! n) else Fail Undefined)"

definition x86_operand_1st :: "x86_insn_t \<Rightarrow> x86_op_t option result" where
  "x86_operand_1st insn = (if explicit_count insn = 0 then Ret None else r_map Some (nth_operand insn 0))"

definition x86_operand_2nd :: "x86_insn_t \<Rightarrow> x86_op_t option result" where
  "x86_operand_2nd insn = (if explicit_count insn < 2 then Ret None else r_map Some (nth_operand insn 1))"

definition x86_operand_3rd :: "x86_insn_t \<Rightarrow> x86_op_t option result" where
  "x86_operand_3rd insn = (if explicit_count insn < 3 then Ret None else r_map Some (nth_operand insn 2))"

section \<open>Accessors\<close>

definition x86_insn_is_valid :: "x86_insn_t \<Rightarrow> bool" where
  "x86_insn_is_valid insn \<longleftrightarrow> insn_type insn \<noteq> insn_invalid \<and> insn_size insn > 0"

text \<open>\<open>relative_near\<close> is a \<open>char\<close>, \<open>relative_far\<close> a \<open>long\<close>; both are sign-extended.\<close>

definition relative_near :: "x86_op_t \<Rightarrow> int" where
  "relative_near op = sint (ucast (data_word op) :: u8)"

definition relative_far :: "x86_op_t \<Rightarrow> int" where
  "relative_far op = sint (ucast (data_word op) :: u32)"

fun first_relative :: "x86_op_t list \<Rightarrow> int" where
  "first_relative [] = 0"
| "first_relative (op # ops) =
    (if op_type op = op_relative_near then relative_near op
     else if op_type op = op_relative_far then relative_far op
     else first_relative ops)"

definition x86_get_rel_offset :: "x86_insn_t \<Rightarrow> int result" where
  "x86_get_rel_offset insn = (case operands insn of Freed \<Rightarrow> Fail Undefined | Live ops \<Rightarrow> Ret (first_relative ops))"

definition x86_get_branch_target :: "x86_insn_t \<Rightarrow> x86_op_t option result" where
  "x86_get_branch_target insn =
    (case operands insn of
       Freed \<Rightarrow> Fail Undefined
     | Live ops \<Rightarrow> Ret (List.find (\<lambda>op. op_access op AND op_execute \<noteq> 0) ops))"

definition x86_get_imm :: "x86_insn_t \<Rightarrow> x86_op_t option result" where
  "x86_get_imm insn =
    (case operands insn of
       Freed \<Rightarrow> Fail Undefined
     | Live ops \<Rightarrow> Ret (List.find (\<lambda>op. op_type op = op_immediate) ops))"

definition IS_PROPER_IMM :: "x86_op_t \<Rightarrow> bool" where
  "IS_PROPER_IMM op \<longleftrightarrow> op_type op = op_immediate \<and> op_flags op AND op_hardcode = 0"

fun x86_operand_size :: "x86_op_datatype \<Rightarrow> nat" where
  "x86_operand_size op_no_datatype = 4"
| "x86_operand_size op_byte = 1"
| "x86_operand_size op_word = 2"
| "x86_operand_size op_dword = 4"
| "x86_operand_size op_qword = 8"
| "x86_operand_size op_dqword = 16"
| "x86_operand_size op_sreal = 4"
| "x86_operand_size op_dreal = 8"
| "x86_operand_size op_extreal = 10"
| "x86_operand_size op_bcd = 10"
| "x86_operand_size op_ssimd = 16"
| "x86_operand_size op_dsimd = 16"
| "x86_operand_size op_sssimd = 4"
| "x86_operand_size op_sdsimd = 8"
| "x86_operand_size op_descr32 = 6"
| "x86_operand_size op_descr16 = 4"
| "x86_operand_size op_pdescr32 = 6"
| "x86_operand_size op_pdescr16 = 6"
| "x86_operand_size op_fpuenv = 28"
| "x86_operand_size op_fpregset = 512"

text \<open>The index into \<open>bytes\<close> of the immediate data, among the first three operands.\<close>

definition x86_get_raw_imm :: "x86_insn_t \<Rightarrow> int option result" where
  "x86_get_raw_imm insn =
    (case operands insn of
       Freed \<Rightarrow> Fail Undefined
     | Live ops \<Rightarrow>
         Ret (map_option (\<lambda>op. int (unat (insn_size insn)) - int (x86_operand_size (op_datatype op)))
           (List.find IS_PROPER_IMM (take 3 ops))))"

definition x86_set_insn_addr :: "x86_insn_t \<Rightarrow> u32 \<Rightarrow> x86_insn_t" where
  "x86_set_insn_addr insn a = insn\<lparr>addr := a\<rparr>"

definition x86_set_insn_offset :: "x86_insn_t \<Rightarrow> u32 \<Rightarrow> x86_insn_t" where
  "x86_set_insn_offset insn off = insn\<lparr>offset := off\<rparr>"

definition x86_set_insn_function :: "x86_insn_t \<Rightarrow> u32 \<Rightarrow> x86_insn_t" where
  "x86_set_insn_function insn func = insn\<lparr>insn_function := func\<rparr>"

definition x86_set_insn_block :: "x86_insn_t \<Rightarrow> u32 \<Rightarrow> x86_insn_t" where
  "x86_set_insn_block insn block = insn\<lparr>insn_block := block\<rparr>"

definition x86_tag_insn :: "x86_insn_t \<Rightarrow> x86_insn_t" where
  "x86_tag_insn insn = insn\<lparr>insn_tag := 1\<rparr>"

definition x86_untag_insn :: "x86_insn_t \<Rightarrow> x86_insn_t" where
  "x86_untag_insn insn = insn\<lparr>insn_tag := 0\<rparr>"

definition x86_insn_is_tagged :: "x86_insn_t \<Rightarrow> int" where
  "x86_insn_is_tagged insn = insn_tag insn"

section \<open>Operand lists are consistent\<close>

text \<open>The counters match the list.\<close>

definition oplist_ok :: "x86_insn_t \<Rightarrow> bool" where
  "oplist_ok insn \<longleftrightarrow> (\<exists>ops. operands insn = Live ops \<and> operand_count insn = length ops \<and>
     explicit_count insn \<le> length ops)"

text \<open>
  On an instruction whose counters match its operand list, adding an operand keeps that so, and the
  accessors never read through NULL: the k-th accessor returns the k-th operand of the list if it is
  explicit and NULL otherwise.
\<close>

lemma operand_accessors_safe:
  assumes "oplist_ok insn"
  shows "\<exists>ops. operands insn = Live ops \<and>
    (\<exists>insn'. x86_operand_new insn = Ret insn' \<and> oplist_ok insn' \<and> operands insn' = Live (ops @ [zero_op])) \<and>
    x86_operand_1st insn = Ret (if explicit_count insn > 0 then Some (ops ! 0) else None) \<and>
    x86_operand_2nd insn = Ret (if explicit_count insn > 1 then Some (ops ! 1) else None) \<and>
    x86_operand_3rd insn = Ret (if explicit_count insn > 2 then Some (ops ! 2) else None)"
proof -
  from assms obtain ops where ops: "operands insn = Live ops" "operand_count insn = length ops"
      "explicit_count insn \<le> length ops"
    unfolding oplist_ok_def by blast
  then show ?thesis
    by (cases ops) (auto simp: x86_operand_new_def x86_oplist_append_def oplist_ok_def x86_operand_1st_def
        x86_operand_2nd_def x86_operand_3rd_def nth_operand_def)
qed

lemma operand_accessors_safe_witness:
  "oplist_ok zero_insn \<and> (\<exists>insn'. x86_operand_new zero_insn = Ret insn' \<and> oplist_ok insn')"
proof -
  have "oplist_ok zero_insn" by (simp add: oplist_ok_def zero_insn_def)
  with operand_accessors_safe [OF this] show ?thesis by auto
qed

lemma low_bits:
  fixes acc :: u32
  assumes "acc < 0x10"
  shows "acc AND 0xF0 = 0" "acc AND 0x20 = 0" "acc AND 0x10 = 0"
proof -
  have "take_bit 4 acc = acc" using assms by (simp add: take_bit_eq_mod mod_word_less)
  moreover have "(mask 4 :: u32) = 0xF" by (simp add: mask_eq_exp_minus_1)
  ultimately have m: "acc = acc AND 0xF" by (simp add: take_bit_eq_mask)
  show "acc AND 0xF0 = 0" "acc AND 0x20 = 0" "acc AND 0x10 = 0"
    by (subst m, simp add: and.assoc)+
qed

lemma operand_visited_access:
  assumes "acc < 0x10" and "kind AND 0xF = 0"
  shows "operand_visited (kind OR acc) = operand_visited kind"
  using low_bits [OF assms(1)]
  by (simp add: fun_eq_iff operand_visited_def op_explicit_def op_implicit_def bit.conj_disj_distrib2)

text \<open>
  \<open>x86_operand_foreach\<close> masks the wrong half of its \<open>type\<close> argument: whatever access is asked for
  (the low four bits), the callback is invoked on the same operands as for no access at all.
\<close>

lemma foreach_ignores_access:
  assumes "acc < 0x10" and "kind AND 0xF = 0"
  shows "x86_operand_foreach insn func arg (kind OR acc) = x86_operand_foreach insn func arg kind"
  unfolding x86_operand_foreach_def operand_visited_access [OF assms] ..

lemma foreach_ignores_access_witness:
  "x86_operand_foreach zero_insn count_operand 0 (op_explicit OR op_dest) =
    x86_operand_foreach zero_insn count_operand 0 op_explicit"
  by (rule foreach_ignores_access) (simp_all add: op_explicit_def op_dest_def)

end
