(* ===== verification/Ia32Insn.thy ===== *)
theory Ia32Insn
  imports Libdis
begin

text \<open>
  The opcode definitions of libdisasm: the constants and structures of \<^verbatim>\<open>ia32_insn.h\<close> and the table indices of
  \<^verbatim>\<open>ia32_opcode_tables.h\<close>. Only the constants that the tables and the decoder use are here.
\<close>

section \<open>Constants\<close>

text \<open>Prefixes.\<close>

definition PREFIX_LOCK :: u32 where "PREFIX_LOCK = 0x0001"
definition PREFIX_REPNZ :: u32 where "PREFIX_REPNZ = 0x0002"
definition PREFIX_REPZ :: u32 where "PREFIX_REPZ = 0x0004"
definition PREFIX_OP_SIZE :: u32 where "PREFIX_OP_SIZE = 0x0010"
definition PREFIX_ADDR_SIZE :: u32 where "PREFIX_ADDR_SIZE = 0x0020"
definition PREFIX_CS :: u32 where "PREFIX_CS = 0x0100"
definition PREFIX_SS :: u32 where "PREFIX_SS = 0x0200"
definition PREFIX_DS :: u32 where "PREFIX_DS = 0x0300"
definition PREFIX_ES :: u32 where "PREFIX_ES = 0x0400"
definition PREFIX_FS :: u32 where "PREFIX_FS = 0x0500"
definition PREFIX_GS :: u32 where "PREFIX_GS = 0x0600"
definition PREFIX_TAKEN :: u32 where "PREFIX_TAKEN = 0x1000"
definition PREFIX_NOTTAKEN :: u32 where "PREFIX_NOTTAKEN = 0x2000"
definition PREFIX_REG_MASK :: u32 where "PREFIX_REG_MASK = 0x0F00"
definition BRANCH_HINT_MASK :: u32 where "BRANCH_HINT_MASK = 0x3000"
definition PREFIX_PRINT_MASK :: u32 where "PREFIX_PRINT_MASK = 0x000F"
definition PREFIX_MASK :: u32 where "PREFIX_MASK = 0xFFFF"

text \<open>Processors.\<close>

definition cpu_80386 :: u32 where "cpu_80386 = 0x0003"
definition cpu_80387 :: u32 where "cpu_80387 = 0x0004"
definition cpu_80486 :: u32 where "cpu_80486 = 0x0005"
definition cpu_PENTIUM :: u32 where "cpu_PENTIUM = 0x0006"
definition cpu_PENTPRO :: u32 where "cpu_PENTPRO = 0x0007"
definition cpu_PENTIUM2 :: u32 where "cpu_PENTIUM2 = 0x0008"
definition cpu_PENTIUM4 :: u32 where "cpu_PENTIUM4 = 0x000A"
definition cpu_K6 :: u32 where "cpu_K6 = 0x0010"
definition CPU_MODEL_MASK :: u32 where "CPU_MODEL_MASK = 0xFFFF"
definition isa_GP :: u32 where "isa_GP = 0x10000"
definition isa_FPU :: u32 where "isa_FPU = 0x20000"
definition isa_MMX :: u32 where "isa_MMX = 0x40000"
definition isa_3DNOW :: u32 where "isa_3DNOW = 0x80000"
definition ISA_SUBSET_MASK :: u32 where "ISA_SUBSET_MASK = 0xFFFF0000"

text \<open>Operands.\<close>

definition ARG_NONE :: u32 where "ARG_NONE = 0"
definition ADDRMETH_MASK :: u32 where "ADDRMETH_MASK = 0x00FF0000"
definition ADDRMETH_A :: u32 where "ADDRMETH_A = 0x00010000"
definition ADDRMETH_C :: u32 where "ADDRMETH_C = 0x00020000"
definition ADDRMETH_D :: u32 where "ADDRMETH_D = 0x00030000"
definition ADDRMETH_E :: u32 where "ADDRMETH_E = 0x00040000"
definition ADDRMETH_F :: u32 where "ADDRMETH_F = 0x00050000"
definition ADDRMETH_G :: u32 where "ADDRMETH_G = 0x00060000"
definition ADDRMETH_I :: u32 where "ADDRMETH_I = 0x00070000"
definition ADDRMETH_J :: u32 where "ADDRMETH_J = 0x00080000"
definition ADDRMETH_M :: u32 where "ADDRMETH_M = 0x00090000"
definition ADDRMETH_O :: u32 where "ADDRMETH_O = 0x000A0000"
definition ADDRMETH_P :: u32 where "ADDRMETH_P = 0x000B0000"
definition ADDRMETH_Q :: u32 where "ADDRMETH_Q = 0x000C0000"
definition ADDRMETH_R :: u32 where "ADDRMETH_R = 0x000D0000"
definition ADDRMETH_S :: u32 where "ADDRMETH_S = 0x000E0000"
definition ADDRMETH_T :: u32 where "ADDRMETH_T = 0x000F0000"
definition ADDRMETH_V :: u32 where "ADDRMETH_V = 0x00100000"
definition ADDRMETH_W :: u32 where "ADDRMETH_W = 0x00110000"
definition ADDRMETH_X :: u32 where "ADDRMETH_X = 0x00120000"
definition ADDRMETH_Y :: u32 where "ADDRMETH_Y = 0x00130000"
definition ADDRMETH_RR :: u32 where "ADDRMETH_RR = 0x00140000"
definition ADDRMETH_RS :: u32 where "ADDRMETH_RS = 0x00150000"
definition ADDRMETH_RT :: u32 where "ADDRMETH_RT = 0x00160000"
definition ADDRMETH_RF :: u32 where "ADDRMETH_RF = 0x00170000"
definition ADDRMETH_II :: u32 where "ADDRMETH_II = 0x00180000"
definition ADDRMETH_PP :: u32 where "ADDRMETH_PP = 0x000B0000"
definition ADDRMETH_VV :: u32 where "ADDRMETH_VV = 0x00100000"
definition OPTYPE_MASK :: u32 where "OPTYPE_MASK = 0xFF000000"
definition OPTYPE_a :: u32 where "OPTYPE_a = 0x01000000"
definition OPTYPE_b :: u32 where "OPTYPE_b = 0x02000000"
definition OPTYPE_c :: u32 where "OPTYPE_c = 0x03000000"
definition OPTYPE_d :: u32 where "OPTYPE_d = 0x04000000"
definition OPTYPE_dq :: u32 where "OPTYPE_dq = 0x05000000"
definition OPTYPE_p :: u32 where "OPTYPE_p = 0x06000000"
definition OPTYPE_pi :: u32 where "OPTYPE_pi = 0x07000000"
definition OPTYPE_ps :: u32 where "OPTYPE_ps = 0x08000000"
definition OPTYPE_q :: u32 where "OPTYPE_q = 0x09000000"
definition OPTYPE_s :: u32 where "OPTYPE_s = 0x0A000000"
definition OPTYPE_ss :: u32 where "OPTYPE_ss = 0x0B000000"
definition OPTYPE_si :: u32 where "OPTYPE_si = 0x0C000000"
definition OPTYPE_v :: u32 where "OPTYPE_v = 0x0D000000"
definition OPTYPE_w :: u32 where "OPTYPE_w = 0x0E000000"
definition OPTYPE_m :: u32 where "OPTYPE_m = 0x0F000000"
definition OPTYPE_fs :: u32 where "OPTYPE_fs = 0x10000000"
definition OPTYPE_fd :: u32 where "OPTYPE_fd = 0x20000000"
definition OPTYPE_fe :: u32 where "OPTYPE_fe = 0x30000000"
definition OPTYPE_fb :: u32 where "OPTYPE_fb = 0x40000000"
definition OPTYPE_fv :: u32 where "OPTYPE_fv = 0x50000000"
definition OPTYPE_fx :: u32 where "OPTYPE_fx = 0x60000000"
definition OPTYPE_fp :: u32 where "OPTYPE_fp = 0x70000000"
definition OPTYPE_sd :: u32 where "OPTYPE_sd = 0x80000000"
definition OPTYPE_pd :: u32 where "OPTYPE_pd = 0x90000000"

text \<open>Operand access and flags.\<close>

definition OP_R :: u32 where "OP_R = 0x001"
definition OP_W :: u32 where "OP_W = 0x002"
definition OP_X :: u32 where "OP_X = 0x004"
definition OP_PERM_MASK :: u32 where "OP_PERM_MASK = 0x0000007"
definition OP_SIGNED :: u32 where "OP_SIGNED = 0x010"
definition OP_FLAG_MASK :: u32 where "OP_FLAG_MASK = 0x0F0"

text \<open>Instruction types.\<close>

definition INS_NOTE_PREFIX :: u32 where "INS_NOTE_PREFIX = 0x10000000"
definition INS_NOTE_SUFFIX :: u32 where "INS_NOTE_SUFFIX = 0x20000000"
definition INS_NOTE_MASK :: u32 where "INS_NOTE_MASK = 0xFF00000"
definition INS_INVALID :: u32 where "INS_INVALID = 0"
definition INS_EXEC :: u32 where "INS_EXEC = 0x1000"
definition INS_ARITH :: u32 where "INS_ARITH = 0x2000"
definition INS_LOGIC :: u32 where "INS_LOGIC = 0x3000"
definition INS_STACK :: u32 where "INS_STACK = 0x4000"
definition INS_COND :: u32 where "INS_COND = 0x5000"
definition INS_LOAD :: u32 where "INS_LOAD = 0x6000"
definition INS_ARRAY :: u32 where "INS_ARRAY = 0x7000"
definition INS_BIT :: u32 where "INS_BIT = 0x8000"
definition INS_FLAG :: u32 where "INS_FLAG = 0x9000"
definition INS_FPU :: u32 where "INS_FPU = 0xA000"
definition INS_TRAPS :: u32 where "INS_TRAPS = 0xD000"
definition INS_SYSTEM :: u32 where "INS_SYSTEM = 0xE000"
definition INS_OTHER :: u32 where "INS_OTHER = 0xF000"
definition INS_GROUP_MASK :: u32 where "INS_GROUP_MASK = 0xF000"
definition INS_BRANCH :: u32 where "INS_BRANCH = INS_EXEC OR 0x01"
definition INS_BRANCHCC :: u32 where "INS_BRANCHCC = INS_EXEC OR 0x02"
definition INS_CALL :: u32 where "INS_CALL = INS_EXEC OR 0x03"
definition INS_RET :: u32 where "INS_RET = INS_EXEC OR 0x05"
definition INS_ADD :: u32 where "INS_ADD = INS_ARITH OR 0x01"
definition INS_SUB :: u32 where "INS_SUB = INS_ARITH OR 0x02"
definition INS_MUL :: u32 where "INS_MUL = INS_ARITH OR 0x03"
definition INS_DIV :: u32 where "INS_DIV = INS_ARITH OR 0x04"
definition INS_INC :: u32 where "INS_INC = INS_ARITH OR 0x05"
definition INS_DEC :: u32 where "INS_DEC = INS_ARITH OR 0x06"
definition INS_SHL :: u32 where "INS_SHL = INS_ARITH OR 0x07"
definition INS_SHR :: u32 where "INS_SHR = INS_ARITH OR 0x08"
definition INS_ROL :: u32 where "INS_ROL = INS_ARITH OR 0x09"
definition INS_ROR :: u32 where "INS_ROR = INS_ARITH OR 0x0A"
definition INS_MIN :: u32 where "INS_MIN = INS_ARITH OR 0x0B"
definition INS_MAX :: u32 where "INS_MAX = INS_ARITH OR 0x0C"
definition INS_AVG :: u32 where "INS_AVG = INS_ARITH OR 0x0D"
definition INS_AND :: u32 where "INS_AND = INS_LOGIC OR 0x01"
definition INS_OR :: u32 where "INS_OR = INS_LOGIC OR 0x02"
definition INS_XOR :: u32 where "INS_XOR = INS_LOGIC OR 0x03"
definition INS_NOT :: u32 where "INS_NOT = INS_LOGIC OR 0x04"
definition INS_NEG :: u32 where "INS_NEG = INS_LOGIC OR 0x05"
definition INS_PUSH :: u32 where "INS_PUSH = INS_STACK OR 0x01"
definition INS_POP :: u32 where "INS_POP = INS_STACK OR 0x02"
definition INS_PUSHREGS :: u32 where "INS_PUSHREGS = INS_STACK OR 0x03"
definition INS_POPREGS :: u32 where "INS_POPREGS = INS_STACK OR 0x04"
definition INS_PUSHFLAGS :: u32 where "INS_PUSHFLAGS = INS_STACK OR 0x05"
definition INS_POPFLAGS :: u32 where "INS_POPFLAGS = INS_STACK OR 0x06"
definition INS_ENTER :: u32 where "INS_ENTER = INS_STACK OR 0x07"
definition INS_LEAVE :: u32 where "INS_LEAVE = INS_STACK OR 0x08"
definition INS_TEST :: u32 where "INS_TEST = INS_COND OR 0x01"
definition INS_CMP :: u32 where "INS_CMP = INS_COND OR 0x02"
definition INS_MOV :: u32 where "INS_MOV = INS_LOAD OR 0x01"
definition INS_MOVCC :: u32 where "INS_MOVCC = INS_LOAD OR 0x02"
definition INS_XCHG :: u32 where "INS_XCHG = INS_LOAD OR 0x03"
definition INS_XCHGCC :: u32 where "INS_XCHGCC = INS_LOAD OR 0x04"
definition INS_CONV :: u32 where "INS_CONV = INS_LOAD OR 0x05"
definition INS_STRCMP :: u32 where "INS_STRCMP = INS_ARRAY OR 0x01"
definition INS_STRLOAD :: u32 where "INS_STRLOAD = INS_ARRAY OR 0x02"
definition INS_STRMOV :: u32 where "INS_STRMOV = INS_ARRAY OR 0x03"
definition INS_STRSTOR :: u32 where "INS_STRSTOR = INS_ARRAY OR 0x04"
definition INS_XLAT :: u32 where "INS_XLAT = INS_ARRAY OR 0x05"
definition INS_BITTEST :: u32 where "INS_BITTEST = INS_BIT OR 0x01"
definition INS_CLEARCF :: u32 where "INS_CLEARCF = INS_FLAG OR 0x01"
definition INS_CLEARDF :: u32 where "INS_CLEARDF = INS_FLAG OR 0x04"
definition INS_SETCF :: u32 where "INS_SETCF = INS_FLAG OR 0x07"
definition INS_SETDF :: u32 where "INS_SETDF = INS_FLAG OR 0x0A"
definition INS_TOGCF :: u32 where "INS_TOGCF = INS_FLAG OR 0x10"
definition INS_TRAP :: u32 where "INS_TRAP = INS_TRAPS OR 0x01"
definition INS_TRET :: u32 where "INS_TRET = INS_TRAPS OR 0x03"
definition INS_BOUNDS :: u32 where "INS_BOUNDS = INS_TRAPS OR 0x04"
definition INS_DEBUG :: u32 where "INS_DEBUG = INS_TRAPS OR 0x05"
definition INS_OFLOW :: u32 where "INS_OFLOW = INS_TRAPS OR 0x08"
definition INS_HALT :: u32 where "INS_HALT = INS_SYSTEM OR 0x01"
definition INS_IN :: u32 where "INS_IN = INS_SYSTEM OR 0x02"
definition INS_OUT :: u32 where "INS_OUT = INS_SYSTEM OR 0x03"
definition INS_CPUID :: u32 where "INS_CPUID = INS_SYSTEM OR 0x04"
definition INS_NOP :: u32 where "INS_NOP = INS_OTHER OR 0x01"
definition INS_BCDCONV :: u32 where "INS_BCDCONV = INS_OTHER OR 0x02"
definition INS_SZCONV :: u32 where "INS_SZCONV = INS_OTHER OR 0x03"
definition INS_UNKNOWN :: u32 where "INS_UNKNOWN = INS_OTHER OR 0x04"
definition INS_TYPE_MASK :: u32 where "INS_TYPE_MASK = 0xFFFF"

text \<open>Flags of the processor.\<close>

definition INS_TEST_CARRY :: u32 where "INS_TEST_CARRY = 0x01"
definition INS_TEST_ZERO :: u32 where "INS_TEST_ZERO = 0x02"
definition INS_TEST_OFLOW :: u32 where "INS_TEST_OFLOW = 0x04"
definition INS_TEST_SIGN :: u32 where "INS_TEST_SIGN = 0x10"
definition INS_TEST_PARITY :: u32 where "INS_TEST_PARITY = 0x20"
definition INS_TEST_OR :: u32 where "INS_TEST_OR = 0x40"
definition INS_TEST_NCARRY :: u32 where "INS_TEST_NCARRY = 0x100"
definition INS_TEST_NZERO :: u32 where "INS_TEST_NZERO = 0x200"
definition INS_TEST_NOFLOW :: u32 where "INS_TEST_NOFLOW = 0x400"
definition INS_TEST_NSIGN :: u32 where "INS_TEST_NSIGN = 0x100"
definition INS_TEST_NPARITY :: u32 where "INS_TEST_NPARITY = 0x2000"
definition INS_TEST_SFEQOF :: u32 where "INS_TEST_SFEQOF = 0x4000"
definition INS_TEST_SFNEOF :: u32 where "INS_TEST_SFNEOF = 0x8000"
definition INS_SET_CARRY :: u32 where "INS_SET_CARRY = 0x010000"
definition INS_SET_ZERO :: u32 where "INS_SET_ZERO = 0x020000"
definition INS_SET_OFLOW :: u32 where "INS_SET_OFLOW = 0x040000"
definition INS_SET_DIR :: u32 where "INS_SET_DIR = 0x080000"
definition INS_SET_SIGN :: u32 where "INS_SET_SIGN = 0x100000"
definition INS_SET_PARITY :: u32 where "INS_SET_PARITY = 0x200000"
definition INS_SET_NCARRY :: u32 where "INS_SET_NCARRY = 0x1000000"
definition INS_SET_NDIR :: u32 where "INS_SET_NDIR = 0x8000000"
definition INS_SET_ALL :: u32 where "INS_SET_ALL = INS_SET_CARRY OR INS_SET_ZERO OR INS_SET_OFLOW OR INS_SET_SIGN OR INS_SET_PARITY"
definition INS_TEST_MASK :: u32 where "INS_TEST_MASK = 0x0000FFFF"
definition INS_SET_MASK :: u32 where "INS_SET_MASK = 0xFFFF0000"

definition INVALID_INSN :: u32 where "INVALID_INSN = - 1"

definition CPU_MODEL :: "u32 \<Rightarrow> u32" where "CPU_MODEL cpu = cpu AND CPU_MODEL_MASK"
definition ISA_SUBSET :: "u32 \<Rightarrow> u32" where "ISA_SUBSET isa = isa AND ISA_SUBSET_MASK"
definition OP_PERM :: "u32 \<Rightarrow> u32" where "OP_PERM ty = ty AND OP_PERM_MASK"
definition OP_FLAGS :: "u32 \<Rightarrow> u32" where "OP_FLAGS ty = ty AND OP_FLAG_MASK"
definition INS_GROUP :: "u32 \<Rightarrow> u32" where "INS_GROUP ty = ty AND INS_GROUP_MASK"
definition INS_TYPE :: "u32 \<Rightarrow> u32" where "INS_TYPE ty = ty AND INS_TYPE_MASK"
definition INS_FLAGS_TEST :: "u32 \<Rightarrow> u32" where "INS_FLAGS_TEST x = x AND INS_TEST_MASK"
definition INS_FLAGS_SET :: "u32 \<Rightarrow> u32" where "INS_FLAGS_SET x = x AND INS_SET_MASK"

text \<open>The indices of the opcode tables.\<close>

definition idx_Main :: nat where "idx_Main = 0"
definition idx_66 :: nat where "idx_66 = 1"
definition idx_F2 :: nat where "idx_F2 = 2"
definition idx_F3 :: nat where "idx_F3 = 3"
definition idx_0F :: nat where "idx_0F = 4"
definition idx_660F :: nat where "idx_660F = 5"
definition idx_F20F :: nat where "idx_F20F = 6"
definition idx_F30F :: nat where "idx_F30F = 7"
definition idx_0F00 :: nat where "idx_0F00 = 8"
definition idx_0F01 :: nat where "idx_0F01 = 9"
definition idx_0F0111 :: nat where "idx_0F0111 = 10"
definition idx_0F12 :: nat where "idx_0F12 = 11"
definition idx_0F16 :: nat where "idx_0F16 = 12"
definition idx_0F18 :: nat where "idx_0F18 = 13"
definition idx_0F71 :: nat where "idx_0F71 = 14"
definition idx_660F71 :: nat where "idx_660F71 = 15"
definition idx_0F72 :: nat where "idx_0F72 = 16"
definition idx_660F72 :: nat where "idx_660F72 = 17"
definition idx_0F73 :: nat where "idx_0F73 = 18"
definition idx_660F73 :: nat where "idx_660F73 = 19"
definition idx_0FAE :: nat where "idx_0FAE = 20"
definition idx_0FBA :: nat where "idx_0FBA = 21"
definition idx_0FC7 :: nat where "idx_0FC7 = 22"
definition idx_0FB9 :: nat where "idx_0FB9 = 23"
definition idx_C6 :: nat where "idx_C6 = 24"
definition idx_C7 :: nat where "idx_C7 = 25"
definition idx_80 :: nat where "idx_80 = 26"
definition idx_81 :: nat where "idx_81 = 27"
definition idx_82 :: nat where "idx_82 = 28"
definition idx_83 :: nat where "idx_83 = 29"
definition idx_C0 :: nat where "idx_C0 = 30"
definition idx_C1 :: nat where "idx_C1 = 31"
definition idx_D0 :: nat where "idx_D0 = 32"
definition idx_D1 :: nat where "idx_D1 = 33"
definition idx_D2 :: nat where "idx_D2 = 34"
definition idx_D3 :: nat where "idx_D3 = 35"
definition idx_F6 :: nat where "idx_F6 = 36"
definition idx_F7 :: nat where "idx_F7 = 37"
definition idx_FE :: nat where "idx_FE = 38"
definition idx_FF :: nat where "idx_FF = 39"
definition idx_D8 :: nat where "idx_D8 = 40"
definition idx_D8C0 :: nat where "idx_D8C0 = 41"
definition idx_D9 :: nat where "idx_D9 = 42"
definition idx_D9C0 :: nat where "idx_D9C0 = 43"
definition idx_DA :: nat where "idx_DA = 44"
definition idx_DAC0 :: nat where "idx_DAC0 = 45"
definition idx_DB :: nat where "idx_DB = 46"
definition idx_DBC0 :: nat where "idx_DBC0 = 47"
definition idx_DC :: nat where "idx_DC = 48"
definition idx_DCC0 :: nat where "idx_DCC0 = 49"
definition idx_DD :: nat where "idx_DD = 50"
definition idx_DDC0 :: nat where "idx_DDC0 = 51"
definition idx_DE :: nat where "idx_DE = 52"
definition idx_DEC0 :: nat where "idx_DEC0 = 53"
definition idx_DF :: nat where "idx_DF = 54"
definition idx_DFC0 :: nat where "idx_DFC0 = 55"
definition idx_0F0F :: nat where "idx_0F0F = 56"

section \<open>Structures\<close>

record ia32_insn_t =
  i_table :: nat
  mnem_flag :: u32
  dest_flag :: u32
  src_flag :: u32
  aux_flag :: u32
  i_cpu :: u32
  i_mnemonic :: string
  i_dest :: u32
  i_src :: u32
  i_aux :: u32
  flags_effected :: u32
  implicit_ops :: u32

text \<open>The order of the members is that of the initialisers.\<close>

definition opcode ::
  "nat \<Rightarrow> u32 \<Rightarrow> u32 \<Rightarrow> u32 \<Rightarrow> u32 \<Rightarrow> u32 \<Rightarrow> string \<Rightarrow> u32 \<Rightarrow> u32 \<Rightarrow> u32 \<Rightarrow> u32 \<Rightarrow> u32 \<Rightarrow> ia32_insn_t" where
  "opcode tb mf df sf af cpu mn d s a fe im = \<lparr>i_table = tb, mnem_flag = mf, dest_flag = df, src_flag = sf, aux_flag = af,
    i_cpu = cpu, i_mnemonic = mn, i_dest = d, i_src = s, i_aux = a, flags_effected = fe, implicit_ops = im\<rparr>"

lemma opcode_table [simp]: "i_table (opcode tb mf df sf af cpu mn d s a fe im) = tb"
  by (simp add: opcode_def)

datatype ia32_tbl_type_id =
  tbl_opcode | tbl_prefix | tbl_suffix | tbl_extension | tbl_ext_ext | tbl_fpu | tbl_fpu_ext

record ia32_table_desc_t =
  t_table :: "ia32_insn_t list"
  t_type :: ia32_tbl_type_id
  t_shift :: nat
  t_mask :: u8
  t_minlim :: u8
  t_maxlim :: u8

end
