(* ===== verification/Ia32Tables.thy ===== *)
theory Ia32Tables
  imports Ia32Insn
begin

text \<open>
  The opcode tables of \<^verbatim>\<open>ia32_opcode_tables.c\<close>, row by row. A table of more than 64 rows is the concatenation of
  its parts; the number at the end of the name of a part is the index of its first row.
\<close>

definition tbl_Main_00 :: "ia32_insn_t list" where
  "tbl_Main_00 = [
    opcode 0 INS_ADD (ADDRMETH_E OR OPTYPE_b OR OP_W OR OP_R) (ADDRMETH_G OR OPTYPE_b OR OP_R) ARG_NONE (cpu_80386 OR isa_GP) ''add'' 0 0 0 INS_SET_ALL 0,
    opcode 0 INS_ADD (ADDRMETH_E OR OPTYPE_v OR OP_W OR OP_R) (ADDRMETH_G OR OPTYPE_v OR OP_R) ARG_NONE (cpu_80386 OR isa_GP) ''add'' 0 0 0 INS_SET_ALL 0,
    opcode 0 INS_ADD (ADDRMETH_G OR OPTYPE_b OR OP_W OR OP_R) (ADDRMETH_E OR OPTYPE_b OR OP_R) ARG_NONE (cpu_80386 OR isa_GP) ''add'' 0 0 0 INS_SET_ALL 0,
    opcode 0 INS_ADD (ADDRMETH_G OR OPTYPE_v OR OP_W OR OP_R) (ADDRMETH_E OR OPTYPE_v OR OP_R) ARG_NONE (cpu_80386 OR isa_GP) ''add'' 0 0 0 INS_SET_ALL 0,
    opcode 0 INS_ADD (ADDRMETH_RR OR OPTYPE_b OR OP_W OR OP_R) (ADDRMETH_I OR OPTYPE_b OR OP_SIGNED OR OP_R) ARG_NONE (cpu_80386 OR isa_GP) ''add'' 0 0 0 INS_SET_ALL 0,
    opcode 0 INS_ADD (ADDRMETH_RR OR OPTYPE_v OR OP_W OR OP_R) (ADDRMETH_I OR OPTYPE_v OR OP_SIGNED OR OP_R) ARG_NONE (cpu_80386 OR isa_GP) ''add'' 0 0 0 INS_SET_ALL 0,
    opcode 0 INS_PUSH (ADDRMETH_RS OR OPTYPE_w OR OP_R) ARG_NONE ARG_NONE (cpu_80386 OR isa_GP) ''push'' 0 0 0 0 0,
    opcode 0 INS_POP (ADDRMETH_RS OR OPTYPE_w OR OP_W) ARG_NONE ARG_NONE (cpu_80386 OR isa_GP) ''pop'' 0 0 0 0 33,
    opcode 0 INS_OR (ADDRMETH_E OR OPTYPE_b OR OP_W OR OP_R) (ADDRMETH_G OR OPTYPE_b OR OP_R) ARG_NONE (cpu_80386 OR isa_GP) ''or'' 0 0 0 INS_SET_ALL 0,
    opcode 0 INS_OR (ADDRMETH_E OR OPTYPE_v OR OP_W OR OP_R) (ADDRMETH_G OR OPTYPE_v OR OP_R) ARG_NONE (cpu_80386 OR isa_GP) ''or'' 0 0 0 INS_SET_ALL 0,
    opcode 0 INS_OR (ADDRMETH_G OR OPTYPE_b OR OP_W OR OP_R) (ADDRMETH_E OR OPTYPE_b OR OP_R) ARG_NONE (cpu_80386 OR isa_GP) ''or'' 0 0 0 INS_SET_ALL 0,
    opcode 0 INS_OR (ADDRMETH_G OR OPTYPE_v OR OP_W OR OP_R) (ADDRMETH_E OR OPTYPE_v OR OP_R) ARG_NONE (cpu_80386 OR isa_GP) ''or'' 0 0 0 INS_SET_ALL 0,
    opcode 0 INS_OR (ADDRMETH_RR OR OPTYPE_b OR OP_W OR OP_R) (ADDRMETH_I OR OPTYPE_b OR OP_R) ARG_NONE (cpu_80386 OR isa_GP) ''or'' 0 0 0 INS_SET_ALL 0,
    opcode 0 INS_OR (ADDRMETH_RR OR OPTYPE_v OR OP_W OR OP_R) (ADDRMETH_I OR OPTYPE_v OR OP_R) ARG_NONE (cpu_80386 OR isa_GP) ''or'' 0 0 0 INS_SET_ALL 0,
    opcode 0 INS_PUSH (ADDRMETH_RS OR OPTYPE_w OR OP_R) ARG_NONE ARG_NONE (cpu_80386 OR isa_GP) ''push'' 1 0 0 0 0,
    opcode idx_0F 0 ARG_NONE ARG_NONE ARG_NONE (cpu_80386 OR isa_GP) '''' 0 0 0 0 0,
    opcode 0 INS_ADD (ADDRMETH_E OR OPTYPE_b OR OP_W OR OP_R) (ADDRMETH_G OR OPTYPE_b OR OP_R) ARG_NONE (cpu_80386 OR isa_GP) ''adc'' 0 0 0 (INS_SET_ALL OR INS_TEST_CARRY) 0,
    opcode 0 INS_ADD (ADDRMETH_E OR OPTYPE_v OR OP_W OR OP_R) (ADDRMETH_G OR OPTYPE_v OR OP_R) ARG_NONE (cpu_80386 OR isa_GP) ''adc'' 0 0 0 (INS_SET_ALL OR INS_TEST_CARRY) 0,
    opcode 0 INS_ADD (ADDRMETH_G OR OPTYPE_b OR OP_W OR OP_R) (ADDRMETH_E OR OPTYPE_b OR OP_R) ARG_NONE (cpu_80386 OR isa_GP) ''adc'' 0 0 0 (INS_SET_ALL OR INS_TEST_CARRY) 0,
    opcode 0 INS_ADD (ADDRMETH_G OR OPTYPE_v OR OP_W OR OP_R) (ADDRMETH_E OR OPTYPE_v OR OP_R) ARG_NONE (cpu_80386 OR isa_GP) ''adc'' 0 0 0 (INS_SET_ALL OR INS_TEST_CARRY) 0,
    opcode 0 INS_ADD (ADDRMETH_RR OR OPTYPE_b OR OP_W OR OP_R) (ADDRMETH_I OR OPTYPE_b OR OP_SIGNED OR OP_R) ARG_NONE (cpu_80386 OR isa_GP) ''adc'' 0 0 0 (INS_SET_ALL OR INS_TEST_CARRY) 0,
    opcode 0 INS_ADD (ADDRMETH_RR OR OPTYPE_v OR OP_W OR OP_R) (ADDRMETH_I OR OPTYPE_v OR OP_SIGNED OR OP_R) ARG_NONE (cpu_80386 OR isa_GP) ''adc'' 0 0 0 (INS_SET_ALL OR INS_TEST_CARRY) 0,
    opcode 0 INS_PUSH (ADDRMETH_RS OR OPTYPE_w OR OP_R) ARG_NONE ARG_NONE (cpu_80386 OR isa_GP) ''push'' 2 0 0 0 0,
    opcode 0 INS_POP (ADDRMETH_RS OR OPTYPE_w OR OP_W) ARG_NONE ARG_NONE (cpu_80386 OR isa_GP) ''pop'' 2 0 0 0 33,
    opcode 0 INS_SUB (ADDRMETH_E OR OPTYPE_b OR OP_SIGNED OR OP_W OR OP_R) (ADDRMETH_G OR OPTYPE_b OR OP_SIGNED OR OP_R) ARG_NONE (cpu_80386 OR isa_GP) ''sbb'' 0 0 0 (INS_SET_ALL OR INS_TEST_CARRY) 0,
    opcode 0 INS_SUB (ADDRMETH_E OR OPTYPE_v OR OP_SIGNED OR OP_W OR OP_R) (ADDRMETH_G OR OPTYPE_v OR OP_SIGNED OR OP_R) ARG_NONE (cpu_80386 OR isa_GP) ''sbb'' 0 0 0 (INS_SET_ALL OR INS_TEST_CARRY) 0,
    opcode 0 INS_SUB (ADDRMETH_G OR OPTYPE_b OR OP_W OR OP_SIGNED OR OP_R) (ADDRMETH_E OR OPTYPE_b OR OP_SIGNED OR OP_R) ARG_NONE (cpu_80386 OR isa_GP) ''sbb'' 0 0 0 (INS_SET_ALL OR INS_TEST_CARRY) 0,
    opcode 0 INS_SUB (ADDRMETH_G OR OPTYPE_v OR OP_SIGNED OR OP_W OR OP_R) (ADDRMETH_E OR OPTYPE_v OR OP_SIGNED OR OP_R) ARG_NONE (cpu_80386 OR isa_GP) ''sbb'' 0 0 0 (INS_SET_ALL OR INS_TEST_CARRY) 0,
    opcode 0 INS_SUB (ADDRMETH_RR OR OPTYPE_b OR OP_SIGNED OR OP_W OR OP_R) (ADDRMETH_I OR OPTYPE_b OR OP_SIGNED OR OP_R) ARG_NONE (cpu_80386 OR isa_GP) ''sbb'' 0 0 0 (INS_SET_ALL OR INS_TEST_CARRY) 0,
    opcode 0 INS_SUB (ADDRMETH_RR OR OPTYPE_v OR OP_SIGNED OR OP_W OR OP_R) (ADDRMETH_I OR OPTYPE_v OR OP_SIGNED OR OP_R) ARG_NONE (cpu_80386 OR isa_GP) ''sbb'' 0 0 0 (INS_SET_ALL OR INS_TEST_CARRY) 0,
    opcode 0 INS_PUSH (ADDRMETH_RS OR OPTYPE_w OR OP_R) ARG_NONE ARG_NONE (cpu_80386 OR isa_GP) ''push'' 3 0 0 0 0,
    opcode 0 INS_POP (ADDRMETH_RS OR OPTYPE_w OR OP_W) ARG_NONE ARG_NONE (cpu_80386 OR isa_GP) ''pop'' 3 0 0 0 33,
    opcode 0 INS_AND (ADDRMETH_E OR OPTYPE_b OR OP_W OR OP_R) (ADDRMETH_G OR OPTYPE_b OR OP_R) ARG_NONE (cpu_80386 OR isa_GP) ''and'' 0 0 0 INS_SET_ALL 0,
    opcode 0 INS_AND (ADDRMETH_E OR OPTYPE_v OR OP_W OR OP_R) (ADDRMETH_G OR OPTYPE_v OR OP_R) ARG_NONE (cpu_80386 OR isa_GP) ''and'' 0 0 0 INS_SET_ALL 0,
    opcode 0 INS_AND (ADDRMETH_G OR OPTYPE_b OR OP_W OR OP_R) (ADDRMETH_E OR OPTYPE_b OR OP_R) ARG_NONE (cpu_80386 OR isa_GP) ''and'' 0 0 0 INS_SET_ALL 0,
    opcode 0 INS_AND (ADDRMETH_G OR OPTYPE_v OR OP_W OR OP_R) (ADDRMETH_E OR OPTYPE_v OR OP_R) ARG_NONE (cpu_80386 OR isa_GP) ''and'' 0 0 0 INS_SET_ALL 0,
    opcode 0 INS_AND (ADDRMETH_RR OR OPTYPE_b OR OP_W OR OP_R) (ADDRMETH_I OR OPTYPE_b OR OP_SIGNED OR OP_R) ARG_NONE (cpu_80386 OR isa_GP) ''and'' 0 0 0 INS_SET_ALL 0,
    opcode 0 INS_AND (ADDRMETH_RR OR OPTYPE_v OR OP_W OR OP_R) (ADDRMETH_I OR OPTYPE_v OR OP_R) ARG_NONE (cpu_80386 OR isa_GP) ''and'' 0 0 0 INS_SET_ALL 0,
    opcode 0 (INS_NOTE_PREFIX OR PREFIX_ES) ARG_NONE ARG_NONE ARG_NONE (cpu_80386 OR isa_GP) '''' 0 0 0 0 0,
    opcode 0 INS_BCDCONV ARG_NONE ARG_NONE ARG_NONE (cpu_80386 OR isa_GP) ''daa'' 0 0 0 (INS_SET_SIGN OR INS_SET_ZERO OR INS_SET_CARRY OR INS_SET_PARITY OR INS_TEST_CARRY) 12,
    opcode 0 INS_SUB (ADDRMETH_E OR OPTYPE_b OR OP_SIGNED OR OP_W OR OP_R) (ADDRMETH_G OR OPTYPE_b OR OP_SIGNED OR OP_R) ARG_NONE (cpu_80386 OR isa_GP) ''sub'' 0 0 0 INS_SET_ALL 0,
    opcode 0 INS_SUB (ADDRMETH_E OR OPTYPE_v OR OP_SIGNED OR OP_W OR OP_R) (ADDRMETH_G OR OPTYPE_v OR OP_SIGNED OR OP_R) ARG_NONE (cpu_80386 OR isa_GP) ''sub'' 0 0 0 INS_SET_ALL 0,
    opcode 0 INS_SUB (ADDRMETH_G OR OPTYPE_b OR OP_SIGNED OR OP_W OR OP_R) (ADDRMETH_E OR OPTYPE_b OR OP_SIGNED OR OP_R) ARG_NONE (cpu_80386 OR isa_GP) ''sub'' 0 0 0 INS_SET_ALL 0,
    opcode 0 INS_SUB (ADDRMETH_G OR OPTYPE_v OR OP_SIGNED OR OP_W OR OP_R) (ADDRMETH_E OR OPTYPE_v OR OP_SIGNED OR OP_R) ARG_NONE (cpu_80386 OR isa_GP) ''sub'' 0 0 0 INS_SET_ALL 0,
    opcode 0 INS_SUB (ADDRMETH_RR OR OPTYPE_b OR OP_SIGNED OR OP_W OR OP_R) (ADDRMETH_I OR OPTYPE_b OR OP_SIGNED OR OP_R) ARG_NONE (cpu_80386 OR isa_GP) ''sub'' 0 0 0 INS_SET_ALL 0,
    opcode 0 INS_SUB (ADDRMETH_RR OR OPTYPE_v OR OP_SIGNED OR OP_W OR OP_R) (ADDRMETH_I OR OPTYPE_v OR OP_SIGNED OR OP_R) ARG_NONE (cpu_80386 OR isa_GP) ''sub'' 0 0 0 INS_SET_ALL 0,
    opcode 0 (INS_NOTE_PREFIX OR PREFIX_CS OR PREFIX_NOTTAKEN) ARG_NONE ARG_NONE ARG_NONE (cpu_80386 OR isa_GP) '''' 0 0 0 0 0,
    opcode 0 INS_BCDCONV ARG_NONE ARG_NONE ARG_NONE (cpu_80386 OR isa_GP) ''das'' 0 0 0 (INS_SET_SIGN OR INS_SET_ZERO OR INS_SET_CARRY OR INS_SET_PARITY OR INS_TEST_CARRY) 0,
    opcode 0 INS_XOR (ADDRMETH_E OR OPTYPE_b OR OP_W OR OP_R) (ADDRMETH_G OR OPTYPE_b OR OP_R) ARG_NONE (cpu_80386 OR isa_GP) ''xor'' 0 0 0 INS_SET_ALL 0,
    opcode 0 INS_XOR (ADDRMETH_E OR OPTYPE_v OR OP_W OR OP_R) (ADDRMETH_G OR OPTYPE_v OR OP_R) ARG_NONE (cpu_80386 OR isa_GP) ''xor'' 0 0 0 INS_SET_ALL 0,
    opcode 0 INS_XOR (ADDRMETH_G OR OPTYPE_b OR OP_W OR OP_R) (ADDRMETH_E OR OPTYPE_b OR OP_R) ARG_NONE (cpu_80386 OR isa_GP) ''xor'' 0 0 0 INS_SET_ALL 0,
    opcode 0 INS_XOR (ADDRMETH_G OR OPTYPE_v OR OP_W OR OP_R) (ADDRMETH_E OR OPTYPE_v OR OP_R) ARG_NONE (cpu_80386 OR isa_GP) ''xor'' 0 0 0 INS_SET_ALL 0,
    opcode 0 INS_XOR (ADDRMETH_RR OR OPTYPE_b OR OP_W OR OP_R) (ADDRMETH_I OR OPTYPE_b OR OP_R) ARG_NONE (cpu_80386 OR isa_GP) ''xor'' 0 0 0 INS_SET_ALL 0,
    opcode 0 INS_XOR (ADDRMETH_RR OR OPTYPE_v OR OP_W OR OP_R) (ADDRMETH_I OR OPTYPE_v OR OP_R) ARG_NONE (cpu_80386 OR isa_GP) ''xor'' 0 0 0 INS_SET_ALL 0,
    opcode 0 (INS_NOTE_PREFIX OR PREFIX_SS) ARG_NONE ARG_NONE ARG_NONE (cpu_80386 OR isa_GP) '''' 0 0 0 0 0,
    opcode 0 INS_BCDCONV ARG_NONE ARG_NONE ARG_NONE (cpu_80386 OR isa_GP) ''aaa'' 0 0 0 INS_SET_CARRY 1,
    opcode 0 INS_CMP (ADDRMETH_E OR OPTYPE_b OR OP_R) (ADDRMETH_G OR OPTYPE_b OR OP_R) ARG_NONE (cpu_80386 OR isa_GP) ''cmp'' 0 0 0 INS_SET_ALL 0,
    opcode 0 INS_CMP (ADDRMETH_E OR OPTYPE_v OR OP_R) (ADDRMETH_G OR OPTYPE_v OR OP_R) ARG_NONE (cpu_80386 OR isa_GP) ''cmp'' 0 0 0 INS_SET_ALL 0,
    opcode 0 INS_CMP (ADDRMETH_G OR OPTYPE_b OR OP_R) (ADDRMETH_E OR OPTYPE_b OR OP_R) ARG_NONE (cpu_80386 OR isa_GP) ''cmp'' 0 0 0 INS_SET_ALL 0,
    opcode 0 INS_CMP (ADDRMETH_G OR OPTYPE_v OR OP_R) (ADDRMETH_E OR OPTYPE_v OR OP_R) ARG_NONE (cpu_80386 OR isa_GP) ''cmp'' 0 0 0 INS_SET_ALL 0,
    opcode 0 INS_CMP (ADDRMETH_RR OR OPTYPE_b OR OP_R) (ADDRMETH_I OR OPTYPE_b OR OP_SIGNED OR OP_R) ARG_NONE (cpu_80386 OR isa_GP) ''cmp'' 0 0 0 INS_SET_ALL 0,
    opcode 0 INS_CMP (ADDRMETH_RR OR OPTYPE_v OR OP_R) (ADDRMETH_I OR OPTYPE_v OR OP_SIGNED OR OP_R) ARG_NONE (cpu_80386 OR isa_GP) ''cmp'' 0 0 0 INS_SET_ALL 0,
    opcode 0 (INS_NOTE_PREFIX OR PREFIX_DS OR PREFIX_TAKEN) ARG_NONE ARG_NONE ARG_NONE (cpu_80386 OR isa_GP) '''' 0 0 0 0 0,
    opcode 0 INS_BCDCONV ARG_NONE ARG_NONE ARG_NONE (cpu_80386 OR isa_GP) ''aas'' 0 0 0 INS_SET_CARRY 0]"

definition tbl_Main_40 :: "ia32_insn_t list" where
  "tbl_Main_40 = [
    opcode 0 INS_INC (ADDRMETH_RR OR OPTYPE_v OR OP_R OR OP_W) ARG_NONE ARG_NONE (cpu_80386 OR isa_GP) ''inc'' 0 0 0 (INS_SET_OFLOW OR INS_SET_SIGN OR INS_SET_ZERO OR INS_SET_PARITY) 0,
    opcode 0 INS_INC (ADDRMETH_RR OR OPTYPE_v OR OP_R OR OP_W) ARG_NONE ARG_NONE (cpu_80386 OR isa_GP) ''inc'' 1 0 0 (INS_SET_OFLOW OR INS_SET_SIGN OR INS_SET_ZERO OR INS_SET_PARITY) 0,
    opcode 0 INS_INC (ADDRMETH_RR OR OPTYPE_v OR OP_R OR OP_W) ARG_NONE ARG_NONE (cpu_80386 OR isa_GP) ''inc'' 2 0 0 (INS_SET_OFLOW OR INS_SET_SIGN OR INS_SET_ZERO OR INS_SET_PARITY) 0,
    opcode 0 INS_INC (ADDRMETH_RR OR OPTYPE_v OR OP_R OR OP_W) ARG_NONE ARG_NONE (cpu_80386 OR isa_GP) ''inc'' 3 0 0 (INS_SET_OFLOW OR INS_SET_SIGN OR INS_SET_ZERO OR INS_SET_PARITY) 0,
    opcode 0 INS_INC (ADDRMETH_RR OR OPTYPE_v OR OP_R OR OP_W) ARG_NONE ARG_NONE (cpu_80386 OR isa_GP) ''inc'' 4 0 0 (INS_SET_OFLOW OR INS_SET_SIGN OR INS_SET_ZERO OR INS_SET_PARITY) 0,
    opcode 0 INS_INC (ADDRMETH_RR OR OPTYPE_v OR OP_R OR OP_W) ARG_NONE ARG_NONE (cpu_80386 OR isa_GP) ''inc'' 5 0 0 (INS_SET_OFLOW OR INS_SET_SIGN OR INS_SET_ZERO OR INS_SET_PARITY) 0,
    opcode 0 INS_INC (ADDRMETH_RR OR OPTYPE_v OR OP_R OR OP_W) ARG_NONE ARG_NONE (cpu_80386 OR isa_GP) ''inc'' 6 0 0 (INS_SET_OFLOW OR INS_SET_SIGN OR INS_SET_ZERO OR INS_SET_PARITY) 0,
    opcode 0 INS_INC (ADDRMETH_RR OR OPTYPE_v OR OP_R OR OP_W) ARG_NONE ARG_NONE (cpu_80386 OR isa_GP) ''inc'' 7 0 0 (INS_SET_OFLOW OR INS_SET_SIGN OR INS_SET_ZERO OR INS_SET_PARITY) 0,
    opcode 0 INS_DEC (ADDRMETH_RR OR OPTYPE_v OR OP_W OR OP_R) ARG_NONE ARG_NONE (cpu_80386 OR isa_GP) ''dec'' 0 0 0 (INS_SET_OFLOW OR INS_SET_SIGN OR INS_SET_ZERO OR INS_SET_PARITY) 0,
    opcode 0 INS_DEC (ADDRMETH_RR OR OPTYPE_v OR OP_W OR OP_R) ARG_NONE ARG_NONE (cpu_80386 OR isa_GP) ''dec'' 1 0 0 (INS_SET_OFLOW OR INS_SET_SIGN OR INS_SET_ZERO OR INS_SET_PARITY) 0,
    opcode 0 INS_DEC (ADDRMETH_RR OR OPTYPE_v OR OP_W OR OP_R) ARG_NONE ARG_NONE (cpu_80386 OR isa_GP) ''dec'' 2 0 0 (INS_SET_OFLOW OR INS_SET_SIGN OR INS_SET_ZERO OR INS_SET_PARITY) 0,
    opcode 0 INS_DEC (ADDRMETH_RR OR OPTYPE_v OR OP_W OR OP_R) ARG_NONE ARG_NONE (cpu_80386 OR isa_GP) ''dec'' 3 0 0 (INS_SET_OFLOW OR INS_SET_SIGN OR INS_SET_ZERO OR INS_SET_PARITY) 0,
    opcode 0 INS_DEC (ADDRMETH_RR OR OPTYPE_v OR OP_W OR OP_R) ARG_NONE ARG_NONE (cpu_80386 OR isa_GP) ''dec'' 4 0 0 (INS_SET_OFLOW OR INS_SET_SIGN OR INS_SET_ZERO OR INS_SET_PARITY) 0,
    opcode 0 INS_DEC (ADDRMETH_RR OR OPTYPE_v OR OP_W OR OP_R) ARG_NONE ARG_NONE (cpu_80386 OR isa_GP) ''dec'' 5 0 0 (INS_SET_OFLOW OR INS_SET_SIGN OR INS_SET_ZERO OR INS_SET_PARITY) 0,
    opcode 0 INS_DEC (ADDRMETH_RR OR OPTYPE_v OR OP_W OR OP_R) ARG_NONE ARG_NONE (cpu_80386 OR isa_GP) ''dec'' 6 0 0 (INS_SET_OFLOW OR INS_SET_SIGN OR INS_SET_ZERO OR INS_SET_PARITY) 0,
    opcode 0 INS_DEC (ADDRMETH_RR OR OPTYPE_v OR OP_W OR OP_R) ARG_NONE ARG_NONE (cpu_80386 OR isa_GP) ''dec'' 7 0 0 (INS_SET_OFLOW OR INS_SET_SIGN OR INS_SET_ZERO OR INS_SET_PARITY) 0,
    opcode 0 INS_PUSH (ADDRMETH_RR OR OPTYPE_v OR OP_R) ARG_NONE ARG_NONE (cpu_80386 OR isa_GP) ''push'' 0 0 0 0 0,
    opcode 0 INS_PUSH (ADDRMETH_RR OR OPTYPE_v OR OP_R) ARG_NONE ARG_NONE (cpu_80386 OR isa_GP) ''push'' 1 0 0 0 0,
    opcode 0 INS_PUSH (ADDRMETH_RR OR OPTYPE_v OR OP_R) ARG_NONE ARG_NONE (cpu_80386 OR isa_GP) ''push'' 2 0 0 0 0,
    opcode 0 INS_PUSH (ADDRMETH_RR OR OPTYPE_v OR OP_R) ARG_NONE ARG_NONE (cpu_80386 OR isa_GP) ''push'' 3 0 0 0 0,
    opcode 0 INS_PUSH (ADDRMETH_RR OR OPTYPE_v OR OP_R) ARG_NONE ARG_NONE (cpu_80386 OR isa_GP) ''push'' 4 0 0 0 0,
    opcode 0 INS_PUSH (ADDRMETH_RR OR OPTYPE_v OR OP_R) ARG_NONE ARG_NONE (cpu_80386 OR isa_GP) ''push'' 5 0 0 0 0,
    opcode 0 INS_PUSH (ADDRMETH_RR OR OPTYPE_v OR OP_R) ARG_NONE ARG_NONE (cpu_80386 OR isa_GP) ''push'' 6 0 0 0 0,
    opcode 0 INS_PUSH (ADDRMETH_RR OR OPTYPE_v OR OP_R) ARG_NONE ARG_NONE (cpu_80386 OR isa_GP) ''push'' 7 0 0 0 0,
    opcode 0 INS_POP (ADDRMETH_RR OR OPTYPE_v OR OP_W) ARG_NONE ARG_NONE (cpu_80386 OR isa_GP) ''pop'' 0 0 0 0 33,
    opcode 0 INS_POP (ADDRMETH_RR OR OPTYPE_v OR OP_W) ARG_NONE ARG_NONE (cpu_80386 OR isa_GP) ''pop'' 1 0 0 0 33,
    opcode 0 INS_POP (ADDRMETH_RR OR OPTYPE_v OR OP_W) ARG_NONE ARG_NONE (cpu_80386 OR isa_GP) ''pop'' 2 0 0 0 33,
    opcode 0 INS_POP (ADDRMETH_RR OR OPTYPE_v OR OP_W) ARG_NONE ARG_NONE (cpu_80386 OR isa_GP) ''pop'' 3 0 0 0 33,
    opcode 0 INS_POP (ADDRMETH_RR OR OPTYPE_v OR OP_W) ARG_NONE ARG_NONE (cpu_80386 OR isa_GP) ''pop'' 4 0 0 0 33,
    opcode 0 INS_POP (ADDRMETH_RR OR OPTYPE_v OR OP_W) ARG_NONE ARG_NONE (cpu_80386 OR isa_GP) ''pop'' 5 0 0 0 33,
    opcode 0 INS_POP (ADDRMETH_RR OR OPTYPE_v OR OP_W) ARG_NONE ARG_NONE (cpu_80386 OR isa_GP) ''pop'' 6 0 0 0 33,
    opcode 0 INS_POP (ADDRMETH_RR OR OPTYPE_v OR OP_W) ARG_NONE ARG_NONE (cpu_80386 OR isa_GP) ''pop'' 7 0 0 0 33,
    opcode 0 INS_PUSHREGS ARG_NONE ARG_NONE ARG_NONE (cpu_80386 OR isa_GP) ''pushad'' 0 0 0 0 36,
    opcode 0 INS_POPREGS ARG_NONE ARG_NONE ARG_NONE (cpu_80386 OR isa_GP) ''popad'' 0 0 0 0 34,
    opcode 0 INS_BOUNDS (ADDRMETH_G OR OPTYPE_v OR OP_R) (ADDRMETH_M OR OPTYPE_a OR OP_SIGNED OR OP_R) ARG_NONE (cpu_80386 OR isa_GP) ''bound'' 0 0 0 0 0,
    opcode 0 INS_SYSTEM (ADDRMETH_E OR OPTYPE_w OR OP_R) (ADDRMETH_G OR OPTYPE_w OR OP_R) ARG_NONE (cpu_80386 OR isa_GP) ''arpl'' 0 0 0 INS_SET_ZERO 0,
    opcode 0 (INS_NOTE_PREFIX OR PREFIX_FS) ARG_NONE ARG_NONE ARG_NONE (cpu_80386 OR isa_GP) '''' 0 0 0 0 0,
    opcode 0 (INS_NOTE_PREFIX OR PREFIX_GS) ARG_NONE ARG_NONE ARG_NONE (cpu_80386 OR isa_GP) '''' 0 0 0 0 0,
    opcode idx_66 (INS_NOTE_PREFIX OR PREFIX_OP_SIZE) ARG_NONE ARG_NONE ARG_NONE (cpu_80386 OR isa_GP) '''' 0 0 0 0 0,
    opcode 0 (INS_NOTE_PREFIX OR PREFIX_ADDR_SIZE) ARG_NONE ARG_NONE ARG_NONE (cpu_80386 OR isa_GP) '''' 0 0 0 0 0,
    opcode 0 INS_PUSH (ADDRMETH_I OR OPTYPE_v OR OP_R) ARG_NONE ARG_NONE (cpu_80386 OR isa_GP) ''push'' 0 0 0 0 0,
    opcode 0 INS_MUL (ADDRMETH_G OR OPTYPE_v OR OP_SIGNED OR OP_R OR OP_W) (ADDRMETH_E OR OPTYPE_v OR OP_SIGNED OR OP_R) (ADDRMETH_I OR OPTYPE_v OR OP_SIGNED OR OP_R) (cpu_80386 OR isa_GP) ''imul'' 0 0 0 (INS_SET_OFLOW OR INS_SET_CARRY) 22,
    opcode 0 INS_PUSH (ADDRMETH_I OR OPTYPE_b OR OP_SIGNED OR OP_R) ARG_NONE ARG_NONE (cpu_80386 OR isa_GP) ''push'' 0 0 0 0 0,
    opcode 0 INS_MUL (ADDRMETH_G OR OPTYPE_v OR OP_SIGNED OR OP_R OR OP_W) (ADDRMETH_E OR OPTYPE_v OR OP_SIGNED OR OP_R) (ADDRMETH_I OR OPTYPE_b OR OP_SIGNED OR OP_R) (cpu_80386 OR isa_GP) ''imul'' 0 0 0 (INS_SET_OFLOW OR INS_SET_CARRY) 22,
    opcode 0 INS_IN (ADDRMETH_Y OR OPTYPE_b OR OP_W) (ADDRMETH_RR OR OPTYPE_b OR OP_R) ARG_NONE (cpu_80386 OR isa_GP) ''insb'' 0 2 0 0 0,
    opcode 0 INS_IN (ADDRMETH_Y OR OPTYPE_v OR OP_W) (ADDRMETH_RR OR OPTYPE_v OR OP_R) ARG_NONE (cpu_80386 OR isa_GP) ''insd'' 0 2 0 0 0,
    opcode 0 INS_OUT (ADDRMETH_RR OR OPTYPE_b OR OP_R) (ADDRMETH_X OR OPTYPE_b OR OP_R) ARG_NONE (cpu_80386 OR isa_GP) ''outsb'' 2 0 0 0 0,
    opcode 0 INS_OUT (ADDRMETH_RR OR OPTYPE_v OR OP_R) (ADDRMETH_X OR OPTYPE_v OR OP_R) ARG_NONE (cpu_80386 OR isa_GP) ''outsb'' 2 0 0 0 0,
    opcode 0 INS_BRANCHCC (ADDRMETH_J OR OPTYPE_b OR OP_X) ARG_NONE ARG_NONE (cpu_80386 OR isa_GP) ''jo'' 0 0 0 INS_TEST_OFLOW 0,
    opcode 0 INS_BRANCHCC (ADDRMETH_J OR OPTYPE_b OR OP_X) ARG_NONE ARG_NONE (cpu_80386 OR isa_GP) ''jno'' 0 0 0 INS_TEST_NOFLOW 0,
    opcode 0 INS_BRANCHCC (ADDRMETH_J OR OPTYPE_b OR OP_X) ARG_NONE ARG_NONE (cpu_80386 OR isa_GP) ''jc'' 0 0 0 0 0,
    opcode 0 INS_BRANCHCC (ADDRMETH_J OR OPTYPE_b OR OP_X) ARG_NONE ARG_NONE (cpu_80386 OR isa_GP) ''jnc'' 0 0 0 0 0,
    opcode 0 INS_BRANCHCC (ADDRMETH_J OR OPTYPE_b OR OP_X) ARG_NONE ARG_NONE (cpu_80386 OR isa_GP) ''jz'' 0 0 0 0 0,
    opcode 0 INS_BRANCHCC (ADDRMETH_J OR OPTYPE_b OR OP_X) ARG_NONE ARG_NONE (cpu_80386 OR isa_GP) ''jnz'' 0 0 0 0 0,
    opcode 0 INS_BRANCHCC (ADDRMETH_J OR OPTYPE_b OR OP_X) ARG_NONE ARG_NONE (cpu_80386 OR isa_GP) ''jbe'' 0 0 0 (INS_TEST_CARRY OR INS_TEST_OR OR INS_TEST_ZERO) 0,
    opcode 0 INS_BRANCHCC (ADDRMETH_J OR OPTYPE_b OR OP_X) ARG_NONE ARG_NONE (cpu_80386 OR isa_GP) ''ja'' 0 0 0 (INS_TEST_NCARRY OR INS_TEST_NZERO) 0,
    opcode 0 INS_BRANCHCC (ADDRMETH_J OR OPTYPE_b OR OP_X) ARG_NONE ARG_NONE (cpu_80386 OR isa_GP) ''js'' 0 0 0 INS_TEST_SIGN 0,
    opcode 0 INS_BRANCHCC (ADDRMETH_J OR OPTYPE_b OR OP_X) ARG_NONE ARG_NONE (cpu_80386 OR isa_GP) ''jns'' 0 0 0 INS_TEST_NSIGN 0,
    opcode 0 INS_BRANCHCC (ADDRMETH_J OR OPTYPE_b OR OP_X) ARG_NONE ARG_NONE (cpu_80386 OR isa_GP) ''jpe'' 0 0 0 0 0,
    opcode 0 INS_BRANCHCC (ADDRMETH_J OR OPTYPE_b OR OP_X) ARG_NONE ARG_NONE (cpu_80386 OR isa_GP) ''jpo'' 0 0 0 0 0,
    opcode 0 INS_BRANCHCC (ADDRMETH_J OR OPTYPE_b OR OP_X) ARG_NONE ARG_NONE (cpu_80386 OR isa_GP) ''jl'' 0 0 0 INS_TEST_SFNEOF 0,
    opcode 0 INS_BRANCHCC (ADDRMETH_J OR OPTYPE_b OR OP_X) ARG_NONE ARG_NONE (cpu_80386 OR isa_GP) ''jge'' 0 0 0 INS_TEST_SFEQOF 0,
    opcode 0 INS_BRANCHCC (ADDRMETH_J OR OPTYPE_b OR OP_X) ARG_NONE ARG_NONE (cpu_80386 OR isa_GP) ''jle'' 0 0 0 (INS_TEST_ZERO OR INS_TEST_OR OR INS_TEST_SFNEOF) 0,
    opcode 0 INS_BRANCHCC (ADDRMETH_J OR OPTYPE_b OR OP_X) ARG_NONE ARG_NONE (cpu_80386 OR isa_GP) ''jg'' 0 0 0 (INS_TEST_NZERO OR INS_TEST_SFEQOF) 0]"

definition tbl_Main_80 :: "ia32_insn_t list" where
  "tbl_Main_80 = [
    opcode idx_80 0 (ADDRMETH_E OR OPTYPE_b) (ADDRMETH_I OR OPTYPE_b) ARG_NONE (cpu_80386 OR isa_GP) '''' 0 0 0 0 0,
    opcode idx_81 0 (ADDRMETH_E OR OPTYPE_v) (ADDRMETH_I OR OPTYPE_v) ARG_NONE (cpu_80386 OR isa_GP) '''' 0 0 0 0 0,
    opcode idx_82 0 (ADDRMETH_E OR OPTYPE_v) (ADDRMETH_I OR OPTYPE_b) ARG_NONE (cpu_80386 OR isa_GP) '''' 0 0 0 0 0,
    opcode idx_83 0 (ADDRMETH_E OR OPTYPE_v) (ADDRMETH_I OR OPTYPE_b) ARG_NONE (cpu_80386 OR isa_GP) '''' 0 0 0 0 0,
    opcode 0 INS_TEST (ADDRMETH_E OR OPTYPE_b OR OP_R) (ADDRMETH_G OR OPTYPE_b OR OP_R) ARG_NONE (cpu_80386 OR isa_GP) ''test'' 0 0 0 INS_SET_ALL 0,
    opcode 0 INS_TEST (ADDRMETH_E OR OPTYPE_v OR OP_R) (ADDRMETH_G OR OPTYPE_v OR OP_R) ARG_NONE (cpu_80386 OR isa_GP) ''test'' 0 0 0 INS_SET_ALL 0,
    opcode 0 INS_XCHG (ADDRMETH_E OR OPTYPE_b OR OP_W OR OP_R) (ADDRMETH_G OR OPTYPE_b OR OP_W OR OP_R) ARG_NONE (cpu_80386 OR isa_GP) ''xchg'' 0 0 0 0 0,
    opcode 0 INS_XCHG (ADDRMETH_E OR OPTYPE_v OR OP_W OR OP_R) (ADDRMETH_G OR OPTYPE_v OR OP_W OR OP_R) ARG_NONE (cpu_80386 OR isa_GP) ''xchg'' 0 0 0 0 0,
    opcode 0 INS_MOV (ADDRMETH_E OR OPTYPE_b OR OP_W) (ADDRMETH_G OR OPTYPE_b OR OP_R) ARG_NONE (cpu_80386 OR isa_GP) ''mov'' 0 0 0 0 0,
    opcode 0 INS_MOV (ADDRMETH_E OR OPTYPE_v OR OP_W) (ADDRMETH_G OR OPTYPE_v OR OP_R) ARG_NONE (cpu_80386 OR isa_GP) ''mov'' 0 0 0 0 0,
    opcode 0 INS_MOV (ADDRMETH_G OR OPTYPE_b OR OP_W) (ADDRMETH_E OR OPTYPE_b OR OP_R) ARG_NONE (cpu_80386 OR isa_GP) ''mov'' 0 0 0 0 0,
    opcode 0 INS_MOV (ADDRMETH_G OR OPTYPE_v OR OP_W) (ADDRMETH_E OR OPTYPE_v OR OP_R) ARG_NONE (cpu_80386 OR isa_GP) ''mov'' 0 0 0 0 0,
    opcode 0 INS_MOV (ADDRMETH_E OR OPTYPE_w OR OP_W) (ADDRMETH_S OR OPTYPE_w OR OP_R) ARG_NONE (cpu_80386 OR isa_GP) ''mov'' 0 0 0 0 0,
    opcode 0 INS_MOV (ADDRMETH_G OR OPTYPE_v OR OP_W) (ADDRMETH_M OR OPTYPE_m OR OP_R) ARG_NONE (cpu_80386 OR isa_GP) ''lea'' 0 0 0 0 0,
    opcode 0 INS_MOV (ADDRMETH_S OR OPTYPE_w OR OP_W) (ADDRMETH_E OR OPTYPE_w OR OP_R) ARG_NONE (cpu_80386 OR isa_GP) ''mov'' 0 0 0 0 0,
    opcode 0 INS_POP (ADDRMETH_E OR OPTYPE_v OR OP_W) ARG_NONE ARG_NONE (cpu_80386 OR isa_GP) ''pop'' 0 0 0 0 33,
    opcode 0 INS_NOP ARG_NONE ARG_NONE ARG_NONE (cpu_80386 OR isa_GP) ''nop'' 0 0 0 0 0,
    opcode 0 INS_XCHG (ADDRMETH_RR OR OPTYPE_v OR OP_W OR OP_R) (ADDRMETH_RR OR OPTYPE_v OR OP_W OR OP_R) ARG_NONE (cpu_80386 OR isa_GP) ''xchg'' 0 1 0 0 0,
    opcode 0 INS_XCHG (ADDRMETH_RR OR OPTYPE_v OR OP_W OR OP_R) (ADDRMETH_RR OR OPTYPE_v OR OP_W OR OP_R) ARG_NONE (cpu_80386 OR isa_GP) ''xchg'' 0 2 0 0 0,
    opcode 0 INS_XCHG (ADDRMETH_RR OR OPTYPE_v OR OP_W OR OP_R) (ADDRMETH_RR OR OPTYPE_v OR OP_W OR OP_R) ARG_NONE (cpu_80386 OR isa_GP) ''xchg'' 0 3 0 0 0,
    opcode 0 INS_XCHG (ADDRMETH_RR OR OPTYPE_v OR OP_W OR OP_R) (ADDRMETH_RR OR OPTYPE_v OR OP_W OR OP_R) ARG_NONE (cpu_80386 OR isa_GP) ''xchg'' 0 4 0 0 0,
    opcode 0 INS_XCHG (ADDRMETH_RR OR OPTYPE_v OR OP_W OR OP_R) (ADDRMETH_RR OR OPTYPE_v OR OP_W OR OP_R) ARG_NONE (cpu_80386 OR isa_GP) ''xchg'' 0 5 0 0 0,
    opcode 0 INS_XCHG (ADDRMETH_RR OR OPTYPE_v OR OP_W OR OP_R) (ADDRMETH_RR OR OPTYPE_v OR OP_W OR OP_R) ARG_NONE (cpu_80386 OR isa_GP) ''xchg'' 0 6 0 0 0,
    opcode 0 INS_XCHG (ADDRMETH_RR OR OPTYPE_v OR OP_W OR OP_R) (ADDRMETH_RR OR OPTYPE_v OR OP_W OR OP_R) ARG_NONE (cpu_80386 OR isa_GP) ''xchg'' 0 7 0 0 0,
    opcode 0 INS_SZCONV ARG_NONE ARG_NONE ARG_NONE (cpu_80386 OR isa_GP) ''cwde'' 0 0 0 0 5,
    opcode 0 INS_SZCONV ARG_NONE ARG_NONE ARG_NONE (cpu_80386 OR isa_GP) ''cdq'' 0 0 0 0 0,
    opcode 0 INS_CALL (ADDRMETH_A OR OPTYPE_p OR OP_X) ARG_NONE ARG_NONE (cpu_80386 OR isa_GP) ''callf'' 0 0 0 0 0,
    opcode 0 INS_SYSTEM ARG_NONE ARG_NONE ARG_NONE (cpu_80386 OR isa_GP) ''wait'' 0 0 0 0 0,
    opcode 0 INS_PUSHFLAGS ARG_NONE ARG_NONE ARG_NONE (cpu_80386 OR isa_GP) ''pushfd'' 0 0 0 0 37,
    opcode 0 INS_POPFLAGS ARG_NONE ARG_NONE ARG_NONE (cpu_80386 OR isa_GP) ''popfd'' 0 0 0 0 35,
    opcode 0 INS_MOV ARG_NONE ARG_NONE ARG_NONE (cpu_80386 OR isa_GP) ''sahf'' 0 0 0 (INS_SET_SIGN OR INS_SET_ZERO OR INS_SET_PARITY OR INS_SET_CARRY) 43,
    opcode 0 INS_MOV ARG_NONE ARG_NONE ARG_NONE (cpu_80386 OR isa_GP) ''lahf'' 0 0 0 0 24,
    opcode 0 INS_MOV (ADDRMETH_RR OR OPTYPE_b OR OP_W) (ADDRMETH_O OR OPTYPE_b OR OP_R) ARG_NONE (cpu_80386 OR isa_GP) ''mov'' 0 0 0 0 0,
    opcode 0 INS_MOV (ADDRMETH_RR OR OPTYPE_v OR OP_W) (ADDRMETH_O OR OPTYPE_v OR OP_R) ARG_NONE (cpu_80386 OR isa_GP) ''mov'' 0 0 0 0 0,
    opcode 0 INS_MOV (ADDRMETH_O OR OPTYPE_b OR OP_W) (ADDRMETH_RR OR OPTYPE_b OR OP_R) ARG_NONE (cpu_80386 OR isa_GP) ''mov'' 0 0 0 0 0,
    opcode 0 INS_MOV (ADDRMETH_O OR OPTYPE_v OR OP_W) (ADDRMETH_RR OR OPTYPE_v OR OP_R) ARG_NONE (cpu_80386 OR isa_GP) ''mov'' 0 0 0 0 0,
    opcode 0 INS_STRMOV (ADDRMETH_Y OR OPTYPE_b OR OP_W) (ADDRMETH_X OR OPTYPE_b OR OP_R) ARG_NONE (cpu_80386 OR isa_GP) ''movsb'' 0 0 0 0 0,
    opcode 0 INS_STRMOV (ADDRMETH_Y OR OPTYPE_v OR OP_W) (ADDRMETH_X OR OPTYPE_v OR OP_R) ARG_NONE (cpu_80386 OR isa_GP) ''movsd'' 0 0 0 0 0,
    opcode 0 INS_STRCMP (ADDRMETH_Y OR OPTYPE_b OR OP_R) (ADDRMETH_X OR OPTYPE_b OR OP_R) ARG_NONE (cpu_80386 OR isa_GP) ''cmpsb'' 0 0 0 0 0,
    opcode 0 INS_STRCMP (ADDRMETH_X OR OPTYPE_v OR OP_R) (ADDRMETH_Y OR OPTYPE_v OR OP_R) ARG_NONE (cpu_80386 OR isa_GP) ''cmpsd'' 0 0 0 0 0,
    opcode 0 INS_TEST (ADDRMETH_RR OR OPTYPE_b OR OP_R) (ADDRMETH_I OR OPTYPE_b OR OP_R) ARG_NONE (cpu_80386 OR isa_GP) ''test'' 0 0 0 INS_SET_ALL 0,
    opcode 0 INS_TEST (ADDRMETH_RR OR OPTYPE_v OR OP_R) (ADDRMETH_I OR OPTYPE_v OR OP_R) ARG_NONE (cpu_80386 OR isa_GP) ''test'' 0 0 0 INS_SET_ALL 0,
    opcode 0 INS_STRSTOR (ADDRMETH_Y OR OPTYPE_b OR OP_W) (ADDRMETH_RR OR OPTYPE_b OR OP_R) ARG_NONE (cpu_80386 OR isa_GP) ''stosb'' 0 0 0 0 0,
    opcode 0 INS_STRSTOR (ADDRMETH_Y OR OPTYPE_v OR OP_W) (ADDRMETH_RR OR OPTYPE_v OR OP_R) ARG_NONE (cpu_80386 OR isa_GP) ''stosd'' 0 0 0 0 0,
    opcode 0 INS_STRLOAD (ADDRMETH_RR OR OPTYPE_b OR OP_W) (ADDRMETH_X OR OPTYPE_b OR OP_R) ARG_NONE (cpu_80386 OR isa_GP) ''lodsb'' 0 0 0 0 0,
    opcode 0 INS_STRLOAD (ADDRMETH_RR OR OPTYPE_v OR OP_W) (ADDRMETH_X OR OPTYPE_v OR OP_R) ARG_NONE (cpu_80386 OR isa_GP) ''lodsd'' 0 0 0 0 0,
    opcode 0 INS_STRCMP (ADDRMETH_RR OR OPTYPE_b OR OP_R) (ADDRMETH_Y OR OPTYPE_b OR OP_R) ARG_NONE (cpu_80386 OR isa_GP) ''scasb'' 0 0 0 0 0,
    opcode 0 INS_STRCMP (ADDRMETH_RR OR OPTYPE_v OR OP_R) (ADDRMETH_Y OR OPTYPE_v OR OP_R) ARG_NONE (cpu_80386 OR isa_GP) ''scasd'' 0 0 0 0 0,
    opcode 0 INS_MOV (ADDRMETH_RR OR OPTYPE_b OR OP_W) (ADDRMETH_I OR OPTYPE_b OR OP_R) ARG_NONE (cpu_80386 OR isa_GP) ''mov'' 0 0 0 0 0,
    opcode 0 INS_MOV (ADDRMETH_RR OR OPTYPE_b OR OP_W) (ADDRMETH_I OR OPTYPE_b OR OP_R) ARG_NONE (cpu_80386 OR isa_GP) ''mov'' 1 0 0 0 0,
    opcode 0 INS_MOV (ADDRMETH_RR OR OPTYPE_b OR OP_W) (ADDRMETH_I OR OPTYPE_b OR OP_R) ARG_NONE (cpu_80386 OR isa_GP) ''mov'' 2 0 0 0 0,
    opcode 0 INS_MOV (ADDRMETH_RR OR OPTYPE_b OR OP_W) (ADDRMETH_I OR OPTYPE_b OR OP_R) ARG_NONE (cpu_80386 OR isa_GP) ''mov'' 3 0 0 0 0,
    opcode 0 INS_MOV (ADDRMETH_RR OR OPTYPE_b OR OP_W) (ADDRMETH_I OR OPTYPE_b OR OP_R) ARG_NONE (cpu_80386 OR isa_GP) ''mov'' 4 0 0 0 0,
    opcode 0 INS_MOV (ADDRMETH_RR OR OPTYPE_b OR OP_W) (ADDRMETH_I OR OPTYPE_b OR OP_R) ARG_NONE (cpu_80386 OR isa_GP) ''mov'' 5 0 0 0 0,
    opcode 0 INS_MOV (ADDRMETH_RR OR OPTYPE_b OR OP_W) (ADDRMETH_I OR OPTYPE_b OR OP_R) ARG_NONE (cpu_80386 OR isa_GP) ''mov'' 6 0 0 0 0,
    opcode 0 INS_MOV (ADDRMETH_RR OR OPTYPE_b OR OP_W) (ADDRMETH_I OR OPTYPE_b OR OP_R) ARG_NONE (cpu_80386 OR isa_GP) ''mov'' 7 0 0 0 0,
    opcode 0 INS_MOV (ADDRMETH_RR OR OPTYPE_v OR OP_W) (ADDRMETH_I OR OPTYPE_v OR OP_R) ARG_NONE (cpu_80386 OR isa_GP) ''mov'' 0 0 0 0 0,
    opcode 0 INS_MOV (ADDRMETH_RR OR OPTYPE_v OR OP_W) (ADDRMETH_I OR OPTYPE_v OR OP_R) ARG_NONE (cpu_80386 OR isa_GP) ''mov'' 1 0 0 0 0,
    opcode 0 INS_MOV (ADDRMETH_RR OR OPTYPE_v OR OP_W) (ADDRMETH_I OR OPTYPE_v OR OP_R) ARG_NONE (cpu_80386 OR isa_GP) ''mov'' 2 0 0 0 0,
    opcode 0 INS_MOV (ADDRMETH_RR OR OPTYPE_v OR OP_W) (ADDRMETH_I OR OPTYPE_v OR OP_R) ARG_NONE (cpu_80386 OR isa_GP) ''mov'' 3 0 0 0 0,
    opcode 0 INS_MOV (ADDRMETH_RR OR OPTYPE_v OR OP_W) (ADDRMETH_I OR OPTYPE_v OR OP_R) ARG_NONE (cpu_80386 OR isa_GP) ''mov'' 4 0 0 0 0,
    opcode 0 INS_MOV (ADDRMETH_RR OR OPTYPE_v OR OP_W) (ADDRMETH_I OR OPTYPE_v OR OP_R) ARG_NONE (cpu_80386 OR isa_GP) ''mov'' 5 0 0 0 0,
    opcode 0 INS_MOV (ADDRMETH_RR OR OPTYPE_v OR OP_W) (ADDRMETH_I OR OPTYPE_v OR OP_R) ARG_NONE (cpu_80386 OR isa_GP) ''mov'' 6 0 0 0 0,
    opcode 0 INS_MOV (ADDRMETH_RR OR OPTYPE_v OR OP_W) (ADDRMETH_I OR OPTYPE_v OR OP_R) ARG_NONE (cpu_80386 OR isa_GP) ''mov'' 7 0 0 0 0]"

definition tbl_Main_C0 :: "ia32_insn_t list" where
  "tbl_Main_C0 = [
    opcode idx_C0 0 (ADDRMETH_E OR OPTYPE_b) (ADDRMETH_I OR OPTYPE_b) ARG_NONE (cpu_80386 OR isa_GP) '''' 0 0 0 0 0,
    opcode idx_C1 0 (ADDRMETH_E OR OPTYPE_v) (ADDRMETH_I OR OPTYPE_b) ARG_NONE (cpu_80386 OR isa_GP) '''' 0 0 0 0 0,
    opcode 0 INS_RET (ADDRMETH_I OR OPTYPE_w OR OP_R) ARG_NONE ARG_NONE (cpu_80386 OR isa_GP) ''ret'' 0 0 0 0 0,
    opcode 0 INS_RET ARG_NONE ARG_NONE ARG_NONE (cpu_80386 OR isa_GP) ''ret'' 0 0 0 0 0,
    opcode 0 INS_MOV (ADDRMETH_G OR OPTYPE_v OR OP_W) (ADDRMETH_M OR OPTYPE_p OR OP_R) ARG_NONE (cpu_80386 OR isa_GP) ''les'' 0 0 0 0 0,
    opcode 0 INS_MOV (ADDRMETH_G OR OPTYPE_v OR OP_W) (ADDRMETH_M OR OPTYPE_p OR OP_R) ARG_NONE (cpu_80386 OR isa_GP) ''lds'' 0 0 0 0 0,
    opcode idx_C6 0 ARG_NONE ARG_NONE ARG_NONE (cpu_80386 OR isa_GP) '''' 0 0 0 0 0,
    opcode idx_C7 0 ARG_NONE ARG_NONE ARG_NONE (cpu_80386 OR isa_GP) '''' 0 0 0 0 0,
    opcode 0 INS_ENTER (ADDRMETH_I OR OPTYPE_w OR OP_R) (ADDRMETH_I OR OPTYPE_b OR OP_R) ARG_NONE (cpu_80386 OR isa_GP) ''enter'' 0 0 0 0 15,
    opcode 0 INS_LEAVE ARG_NONE ARG_NONE ARG_NONE (cpu_80386 OR isa_GP) ''leave'' 0 0 0 0 26,
    opcode 0 INS_RET (ADDRMETH_I OR OPTYPE_w OR OP_R) ARG_NONE ARG_NONE (cpu_80386 OR isa_GP) ''retf'' 0 0 0 0 0,
    opcode 0 INS_RET ARG_NONE ARG_NONE ARG_NONE (cpu_80386 OR isa_GP) ''retf'' 0 0 0 0 0,
    opcode 0 INS_DEBUG ARG_NONE ARG_NONE ARG_NONE (cpu_80386 OR isa_GP) ''int3'' 0 0 0 0 0,
    opcode 0 INS_TRAP (ADDRMETH_I OR OPTYPE_b OR OP_R) ARG_NONE ARG_NONE (cpu_80386 OR isa_GP) ''int'' 0 0 0 0 0,
    opcode 0 INS_OFLOW ARG_NONE ARG_NONE ARG_NONE (cpu_80386 OR isa_GP) ''into'' 0 0 0 INS_TEST_OFLOW 0,
    opcode 0 INS_TRET ARG_NONE ARG_NONE ARG_NONE (cpu_80386 OR isa_GP) ''iret'' 0 0 0 (INS_SET_ALL OR INS_SET_DIR) 0,
    opcode idx_D0 0 (ADDRMETH_E OR OPTYPE_b) ARG_NONE ARG_NONE (cpu_80386 OR isa_GP) '''' 0 1 0 0 0,
    opcode idx_D1 0 (ADDRMETH_E OR OPTYPE_v) ARG_NONE ARG_NONE (cpu_80386 OR isa_GP) '''' 0 1 0 0 0,
    opcode idx_D2 0 (ADDRMETH_E OR OPTYPE_b) ARG_NONE ARG_NONE (cpu_80386 OR isa_GP) '''' 0 1 0 0 0,
    opcode idx_D3 0 (ADDRMETH_E OR OPTYPE_v) ARG_NONE ARG_NONE (cpu_80386 OR isa_GP) '''' 0 1 0 0 0,
    opcode 0 INS_BCDCONV (ADDRMETH_I OR OPTYPE_b OR OP_R) ARG_NONE ARG_NONE (cpu_80386 OR isa_GP) ''aam'' 0 0 0 (INS_SET_SIGN OR INS_SET_ZERO OR INS_SET_PARITY) 0,
    opcode 0 INS_BCDCONV (ADDRMETH_I OR OPTYPE_b OR OP_R) ARG_NONE ARG_NONE (cpu_80386 OR isa_GP) ''aad'' 0 0 0 (INS_SET_SIGN OR INS_SET_ZERO OR INS_SET_PARITY) 2,
    opcode 0 INS_INVALID ARG_NONE ARG_NONE ARG_NONE (cpu_80386 OR isa_GP) '''' 0 0 0 0 0,
    opcode 0 INS_XLAT ARG_NONE ARG_NONE ARG_NONE (cpu_80386 OR isa_GP) ''xlat'' 0 0 0 0 53,
    opcode idx_D8 0 ARG_NONE ARG_NONE ARG_NONE (cpu_80386 OR isa_GP) '''' 0 0 0 0 0,
    opcode idx_D9 0 ARG_NONE ARG_NONE ARG_NONE (cpu_80386 OR isa_GP) '''' 0 0 0 0 0,
    opcode idx_DA 0 ARG_NONE ARG_NONE ARG_NONE (cpu_80386 OR isa_GP) '''' 0 0 0 0 0,
    opcode idx_DB 0 ARG_NONE ARG_NONE ARG_NONE (cpu_80386 OR isa_GP) '''' 0 0 0 0 0,
    opcode idx_DC 0 ARG_NONE ARG_NONE ARG_NONE (cpu_80386 OR isa_GP) '''' 0 0 0 0 0,
    opcode idx_DD 0 ARG_NONE ARG_NONE ARG_NONE (cpu_80386 OR isa_GP) '''' 0 0 0 0 0,
    opcode idx_DE 0 ARG_NONE ARG_NONE ARG_NONE (cpu_80386 OR isa_GP) '''' 0 0 0 0 0,
    opcode idx_DF 0 ARG_NONE ARG_NONE ARG_NONE (cpu_80386 OR isa_GP) '''' 0 0 0 0 0,
    opcode 0 INS_BRANCHCC (ADDRMETH_J OR OPTYPE_b OR OP_X) ARG_NONE ARG_NONE (cpu_80386 OR isa_GP) ''loopnz'' 0 0 0 0 0,
    opcode 0 INS_BRANCHCC (ADDRMETH_J OR OPTYPE_b OR OP_X) ARG_NONE ARG_NONE (cpu_80386 OR isa_GP) ''loopz'' 0 0 0 0 0,
    opcode 0 INS_BRANCH (ADDRMETH_J OR OPTYPE_b OR OP_X) ARG_NONE ARG_NONE (cpu_80386 OR isa_GP) ''loop'' 0 0 0 0 31,
    opcode 0 INS_BRANCHCC (ADDRMETH_J OR OPTYPE_b OR OP_X) ARG_NONE ARG_NONE (cpu_80386 OR isa_GP) ''jcxz'' 0 0 0 0 0,
    opcode 0 INS_IN (ADDRMETH_RR OR OPTYPE_b OR OP_W) (ADDRMETH_I OR OPTYPE_b OR OP_R) ARG_NONE (cpu_80386 OR isa_GP) ''in'' 0 0 0 0 0,
    opcode 0 INS_IN (ADDRMETH_RR OR OPTYPE_b OR OP_W) (ADDRMETH_I OR OPTYPE_b OR OP_R) ARG_NONE (cpu_80386 OR isa_GP) ''in'' 0 0 0 0 0,
    opcode 0 INS_OUT (ADDRMETH_I OR OPTYPE_b OR OP_R) (ADDRMETH_RR OR OPTYPE_b OR OP_R) ARG_NONE (cpu_80386 OR isa_GP) ''out'' 0 0 0 0 0,
    opcode 0 INS_OUT (ADDRMETH_I OR OPTYPE_b OR OP_R) (ADDRMETH_RR OR OPTYPE_b OR OP_R) ARG_NONE (cpu_80386 OR isa_GP) ''out'' 0 0 0 0 0,
    opcode 0 INS_CALL (ADDRMETH_J OR OPTYPE_v OR OP_X OR OP_SIGNED) ARG_NONE ARG_NONE (cpu_80386 OR isa_GP) ''call'' 0 0 0 0 3,
    opcode 0 INS_BRANCH (ADDRMETH_J OR OPTYPE_v OR OP_X OR OP_SIGNED) ARG_NONE ARG_NONE (cpu_80386 OR isa_GP) ''jmp'' 0 0 0 0 0,
    opcode 0 INS_BRANCH (ADDRMETH_A OR OPTYPE_p OR OP_X) ARG_NONE ARG_NONE (cpu_80386 OR isa_GP) ''jmp'' 0 0 0 0 0,
    opcode 0 INS_BRANCH (ADDRMETH_J OR OPTYPE_b OR OP_X OR OP_SIGNED) ARG_NONE ARG_NONE (cpu_80386 OR isa_GP) ''jmp'' 0 0 0 0 0,
    opcode 0 INS_IN (ADDRMETH_RR OR OPTYPE_b OR OP_W) (ADDRMETH_RR OR OPTYPE_w OR OP_R) ARG_NONE (cpu_80386 OR isa_GP) ''in'' 0 2 0 0 0,
    opcode 0 INS_IN (ADDRMETH_RR OR OPTYPE_v OR OP_W) (ADDRMETH_RR OR OPTYPE_w OR OP_R) ARG_NONE (cpu_80386 OR isa_GP) ''in'' 0 2 0 0 0,
    opcode 0 INS_OUT (ADDRMETH_RR OR OPTYPE_w OR OP_R) (ADDRMETH_RR OR OPTYPE_b OR OP_R) ARG_NONE (cpu_80386 OR isa_GP) ''out'' 2 0 0 0 0,
    opcode 0 INS_OUT (ADDRMETH_RR OR OPTYPE_w OR OP_R) (ADDRMETH_RR OR OPTYPE_v OR OP_R) ARG_NONE (cpu_80386 OR isa_GP) ''out'' 2 0 0 0 0,
    opcode 0 (INS_NOTE_PREFIX OR PREFIX_LOCK) ARG_NONE ARG_NONE ARG_NONE (cpu_80386 OR isa_GP) '''' 0 0 0 0 0,
    opcode 0 INS_INVALID ARG_NONE ARG_NONE ARG_NONE (cpu_80386 OR isa_GP) '''' 0 0 0 0 0,
    opcode idx_F2 (INS_NOTE_PREFIX OR PREFIX_REPNZ) ARG_NONE ARG_NONE ARG_NONE (cpu_80386 OR isa_GP) '''' 0 0 0 0 0,
    opcode idx_F3 (INS_NOTE_PREFIX OR PREFIX_REPZ) ARG_NONE ARG_NONE ARG_NONE (cpu_80386 OR isa_GP) '''' 0 0 0 0 0,
    opcode 0 INS_HALT ARG_NONE ARG_NONE ARG_NONE (cpu_80386 OR isa_GP) ''hlt'' 0 0 0 0 0,
    opcode 0 INS_TOGCF ARG_NONE ARG_NONE ARG_NONE (cpu_80386 OR isa_GP) ''cmc'' 0 0 0 INS_SET_CARRY 0,
    opcode idx_F6 0 (ADDRMETH_E OR OPTYPE_b) ARG_NONE ARG_NONE (cpu_80386 OR isa_GP) '''' 0 0 0 0 0,
    opcode idx_F7 0 (ADDRMETH_E OR OPTYPE_v) ARG_NONE ARG_NONE (cpu_80386 OR isa_GP) '''' 0 0 0 0 0,
    opcode 0 INS_CLEARCF ARG_NONE ARG_NONE ARG_NONE (cpu_80386 OR isa_GP) ''clc'' 0 0 0 INS_SET_NCARRY 0,
    opcode 0 INS_SETCF ARG_NONE ARG_NONE ARG_NONE (cpu_80386 OR isa_GP) ''stc'' 0 0 0 INS_SET_CARRY 0,
    opcode 0 INS_SYSTEM ARG_NONE ARG_NONE ARG_NONE (cpu_80386 OR isa_GP) ''cli'' 0 0 0 0 0,
    opcode 0 INS_SYSTEM ARG_NONE ARG_NONE ARG_NONE (cpu_80386 OR isa_GP) ''sti'' 0 0 0 0 0,
    opcode 0 INS_CLEARDF ARG_NONE ARG_NONE ARG_NONE (cpu_80386 OR isa_GP) ''cld'' 0 0 0 INS_SET_NDIR 0,
    opcode 0 INS_SETDF ARG_NONE ARG_NONE ARG_NONE (cpu_80386 OR isa_GP) ''std'' 0 0 0 INS_SET_DIR 0,
    opcode idx_FE 0 ARG_NONE ARG_NONE ARG_NONE (cpu_80386 OR isa_GP) '''' 0 0 0 0 0,
    opcode idx_FF 0 ARG_NONE ARG_NONE ARG_NONE (cpu_80386 OR isa_GP) '''' 0 0 0 0 0]"

definition tbl_Main :: "ia32_insn_t list" where
  "tbl_Main = tbl_Main_00 @ tbl_Main_40 @ tbl_Main_80 @ tbl_Main_C0"

definition tbl_66 :: "ia32_insn_t list" where
  "tbl_66 = [
    opcode idx_660F 0 ARG_NONE ARG_NONE ARG_NONE (cpu_80386 OR isa_GP) '''' 0 0 0 0 0]"

definition tbl_F2 :: "ia32_insn_t list" where
  "tbl_F2 = [
    opcode idx_F20F 0 ARG_NONE ARG_NONE ARG_NONE (cpu_80386 OR isa_GP) '''' 0 0 0 0 0]"

definition tbl_F3_00 :: "ia32_insn_t list" where
  "tbl_F3_00 = [
    opcode idx_F30F 0 ARG_NONE ARG_NONE ARG_NONE (cpu_80386 OR isa_GP) '''' 0 0 0 0 0,
    opcode 0 INS_INVALID ARG_NONE ARG_NONE ARG_NONE 0 '''' 0 0 0 0 0,
    opcode 0 INS_INVALID ARG_NONE ARG_NONE ARG_NONE 0 '''' 0 0 0 0 0,
    opcode 0 INS_INVALID ARG_NONE ARG_NONE ARG_NONE 0 '''' 0 0 0 0 0,
    opcode 0 INS_INVALID ARG_NONE ARG_NONE ARG_NONE 0 '''' 0 0 0 0 0,
    opcode 0 INS_INVALID ARG_NONE ARG_NONE ARG_NONE 0 '''' 0 0 0 0 0,
    opcode 0 INS_INVALID ARG_NONE ARG_NONE ARG_NONE 0 '''' 0 0 0 0 0,
    opcode 0 INS_INVALID ARG_NONE ARG_NONE ARG_NONE 0 '''' 0 0 0 0 0,
    opcode 0 INS_INVALID ARG_NONE ARG_NONE ARG_NONE 0 '''' 0 0 0 0 0,
    opcode 0 INS_INVALID ARG_NONE ARG_NONE ARG_NONE 0 '''' 0 0 0 0 0,
    opcode 0 INS_INVALID ARG_NONE ARG_NONE ARG_NONE 0 '''' 0 0 0 0 0,
    opcode 0 INS_INVALID ARG_NONE ARG_NONE ARG_NONE 0 '''' 0 0 0 0 0,
    opcode 0 INS_INVALID ARG_NONE ARG_NONE ARG_NONE 0 '''' 0 0 0 0 0,
    opcode 0 INS_INVALID ARG_NONE ARG_NONE ARG_NONE 0 '''' 0 0 0 0 0,
    opcode 0 INS_INVALID ARG_NONE ARG_NONE ARG_NONE 0 '''' 0 0 0 0 0,
    opcode 0 INS_INVALID ARG_NONE ARG_NONE ARG_NONE 0 '''' 0 0 0 0 0,
    opcode 0 INS_INVALID ARG_NONE ARG_NONE ARG_NONE 0 '''' 0 0 0 0 0,
    opcode 0 INS_INVALID ARG_NONE ARG_NONE ARG_NONE 0 '''' 0 0 0 0 0,
    opcode 0 INS_INVALID ARG_NONE ARG_NONE ARG_NONE 0 '''' 0 0 0 0 0,
    opcode 0 INS_INVALID ARG_NONE ARG_NONE ARG_NONE 0 '''' 0 0 0 0 0,
    opcode 0 INS_INVALID ARG_NONE ARG_NONE ARG_NONE 0 '''' 0 0 0 0 0,
    opcode 0 INS_INVALID ARG_NONE ARG_NONE ARG_NONE 0 '''' 0 0 0 0 0,
    opcode 0 INS_INVALID ARG_NONE ARG_NONE ARG_NONE 0 '''' 0 0 0 0 0,
    opcode 0 INS_INVALID ARG_NONE ARG_NONE ARG_NONE 0 '''' 0 0 0 0 0,
    opcode 0 INS_INVALID ARG_NONE ARG_NONE ARG_NONE 0 '''' 0 0 0 0 0,
    opcode 0 INS_INVALID ARG_NONE ARG_NONE ARG_NONE 0 '''' 0 0 0 0 0,
    opcode 0 INS_INVALID ARG_NONE ARG_NONE ARG_NONE 0 '''' 0 0 0 0 0,
    opcode 0 INS_INVALID ARG_NONE ARG_NONE ARG_NONE 0 '''' 0 0 0 0 0,
    opcode 0 INS_INVALID ARG_NONE ARG_NONE ARG_NONE 0 '''' 0 0 0 0 0,
    opcode 0 INS_INVALID ARG_NONE ARG_NONE ARG_NONE 0 '''' 0 0 0 0 0,
    opcode 0 INS_INVALID ARG_NONE ARG_NONE ARG_NONE 0 '''' 0 0 0 0 0,
    opcode 0 INS_INVALID ARG_NONE ARG_NONE ARG_NONE 0 '''' 0 0 0 0 0,
    opcode 0 INS_INVALID ARG_NONE ARG_NONE ARG_NONE 0 '''' 0 0 0 0 0,
    opcode 0 INS_INVALID ARG_NONE ARG_NONE ARG_NONE 0 '''' 0 0 0 0 0,
    opcode 0 INS_INVALID ARG_NONE ARG_NONE ARG_NONE 0 '''' 0 0 0 0 0,
    opcode 0 INS_INVALID ARG_NONE ARG_NONE ARG_NONE 0 '''' 0 0 0 0 0,
    opcode 0 INS_INVALID ARG_NONE ARG_NONE ARG_NONE 0 '''' 0 0 0 0 0,
    opcode 0 INS_INVALID ARG_NONE ARG_NONE ARG_NONE 0 '''' 0 0 0 0 0,
    opcode 0 INS_INVALID ARG_NONE ARG_NONE ARG_NONE 0 '''' 0 0 0 0 0,
    opcode 0 INS_INVALID ARG_NONE ARG_NONE ARG_NONE 0 '''' 0 0 0 0 0,
    opcode 0 INS_INVALID ARG_NONE ARG_NONE ARG_NONE 0 '''' 0 0 0 0 0,
    opcode 0 INS_INVALID ARG_NONE ARG_NONE ARG_NONE 0 '''' 0 0 0 0 0,
    opcode 0 INS_INVALID ARG_NONE ARG_NONE ARG_NONE 0 '''' 0 0 0 0 0,
    opcode 0 INS_INVALID ARG_NONE ARG_NONE ARG_NONE 0 '''' 0 0 0 0 0,
    opcode 0 INS_INVALID ARG_NONE ARG_NONE ARG_NONE 0 '''' 0 0 0 0 0,
    opcode 0 INS_INVALID ARG_NONE ARG_NONE ARG_NONE 0 '''' 0 0 0 0 0,
    opcode 0 INS_INVALID ARG_NONE ARG_NONE ARG_NONE 0 '''' 0 0 0 0 0,
    opcode 0 INS_INVALID ARG_NONE ARG_NONE ARG_NONE 0 '''' 0 0 0 0 0,
    opcode 0 INS_INVALID ARG_NONE ARG_NONE ARG_NONE 0 '''' 0 0 0 0 0,
    opcode 0 INS_INVALID ARG_NONE ARG_NONE ARG_NONE 0 '''' 0 0 0 0 0,
    opcode 0 INS_INVALID ARG_NONE ARG_NONE ARG_NONE 0 '''' 0 0 0 0 0,
    opcode 0 INS_INVALID ARG_NONE ARG_NONE ARG_NONE 0 '''' 0 0 0 0 0,
    opcode 0 INS_INVALID ARG_NONE ARG_NONE ARG_NONE 0 '''' 0 0 0 0 0,
    opcode 0 INS_INVALID ARG_NONE ARG_NONE ARG_NONE 0 '''' 0 0 0 0 0,
    opcode 0 INS_INVALID ARG_NONE ARG_NONE ARG_NONE 0 '''' 0 0 0 0 0,
    opcode 0 INS_INVALID ARG_NONE ARG_NONE ARG_NONE 0 '''' 0 0 0 0 0,
    opcode 0 INS_INVALID ARG_NONE ARG_NONE ARG_NONE 0 '''' 0 0 0 0 0,
    opcode 0 INS_INVALID ARG_NONE ARG_NONE ARG_NONE 0 '''' 0 0 0 0 0,
    opcode 0 INS_INVALID ARG_NONE ARG_NONE ARG_NONE 0 '''' 0 0 0 0 0,
    opcode 0 INS_INVALID ARG_NONE ARG_NONE ARG_NONE 0 '''' 0 0 0 0 0,
    opcode 0 INS_INVALID ARG_NONE ARG_NONE ARG_NONE 0 '''' 0 0 0 0 0,
    opcode 0 INS_INVALID ARG_NONE ARG_NONE ARG_NONE 0 '''' 0 0 0 0 0,
    opcode 0 INS_INVALID ARG_NONE ARG_NONE ARG_NONE 0 '''' 0 0 0 0 0,
    opcode 0 INS_INVALID ARG_NONE ARG_NONE ARG_NONE 0 '''' 0 0 0 0 0]"

definition tbl_F3_40 :: "ia32_insn_t list" where
  "tbl_F3_40 = [
    opcode 0 INS_INVALID ARG_NONE ARG_NONE ARG_NONE 0 '''' 0 0 0 0 0,
    opcode 0 INS_INVALID ARG_NONE ARG_NONE ARG_NONE 0 '''' 0 0 0 0 0,
    opcode 0 INS_INVALID ARG_NONE ARG_NONE ARG_NONE 0 '''' 0 0 0 0 0,
    opcode 0 INS_INVALID ARG_NONE ARG_NONE ARG_NONE 0 '''' 0 0 0 0 0,
    opcode 0 INS_INVALID ARG_NONE ARG_NONE ARG_NONE 0 '''' 0 0 0 0 0,
    opcode 0 INS_INVALID ARG_NONE ARG_NONE ARG_NONE 0 '''' 0 0 0 0 0,
    opcode 0 INS_INVALID ARG_NONE ARG_NONE ARG_NONE 0 '''' 0 0 0 0 0,
    opcode 0 INS_INVALID ARG_NONE ARG_NONE ARG_NONE 0 '''' 0 0 0 0 0,
    opcode 0 INS_INVALID ARG_NONE ARG_NONE ARG_NONE 0 '''' 0 0 0 0 0,
    opcode 0 INS_INVALID ARG_NONE ARG_NONE ARG_NONE 0 '''' 0 0 0 0 0,
    opcode 0 INS_INVALID ARG_NONE ARG_NONE ARG_NONE 0 '''' 0 0 0 0 0,
    opcode 0 INS_INVALID ARG_NONE ARG_NONE ARG_NONE 0 '''' 0 0 0 0 0,
    opcode 0 INS_INVALID ARG_NONE ARG_NONE ARG_NONE 0 '''' 0 0 0 0 0,
    opcode 0 INS_INVALID ARG_NONE ARG_NONE ARG_NONE 0 '''' 0 0 0 0 0,
    opcode 0 INS_INVALID ARG_NONE ARG_NONE ARG_NONE 0 '''' 0 0 0 0 0,
    opcode 0 INS_INVALID ARG_NONE ARG_NONE ARG_NONE 0 '''' 0 0 0 0 0,
    opcode 0 INS_INVALID ARG_NONE ARG_NONE ARG_NONE 0 '''' 0 0 0 0 0,
    opcode 0 INS_INVALID ARG_NONE ARG_NONE ARG_NONE 0 '''' 0 0 0 0 0,
    opcode 0 INS_INVALID ARG_NONE ARG_NONE ARG_NONE 0 '''' 0 0 0 0 0,
    opcode 0 INS_INVALID ARG_NONE ARG_NONE ARG_NONE 0 '''' 0 0 0 0 0,
    opcode 0 INS_INVALID ARG_NONE ARG_NONE ARG_NONE 0 '''' 0 0 0 0 0,
    opcode 0 INS_INVALID ARG_NONE ARG_NONE ARG_NONE 0 '''' 0 0 0 0 0,
    opcode 0 INS_INVALID ARG_NONE ARG_NONE ARG_NONE 0 '''' 0 0 0 0 0,
    opcode 0 INS_INVALID ARG_NONE ARG_NONE ARG_NONE 0 '''' 0 0 0 0 0,
    opcode 0 INS_INVALID ARG_NONE ARG_NONE ARG_NONE 0 '''' 0 0 0 0 0,
    opcode 0 INS_INVALID ARG_NONE ARG_NONE ARG_NONE 0 '''' 0 0 0 0 0,
    opcode 0 INS_INVALID ARG_NONE ARG_NONE ARG_NONE 0 '''' 0 0 0 0 0,
    opcode 0 INS_INVALID ARG_NONE ARG_NONE ARG_NONE 0 '''' 0 0 0 0 0,
    opcode 0 INS_INVALID ARG_NONE ARG_NONE ARG_NONE 0 '''' 0 0 0 0 0,
    opcode 0 INS_INVALID ARG_NONE ARG_NONE ARG_NONE 0 '''' 0 0 0 0 0,
    opcode 0 INS_INVALID ARG_NONE ARG_NONE ARG_NONE 0 '''' 0 0 0 0 0,
    opcode 0 INS_INVALID ARG_NONE ARG_NONE ARG_NONE 0 '''' 0 0 0 0 0,
    opcode 0 INS_INVALID ARG_NONE ARG_NONE ARG_NONE 0 '''' 0 0 0 0 0,
    opcode 0 INS_INVALID ARG_NONE ARG_NONE ARG_NONE 0 '''' 0 0 0 0 0,
    opcode 0 INS_INVALID ARG_NONE ARG_NONE ARG_NONE 0 '''' 0 0 0 0 0,
    opcode 0 INS_INVALID ARG_NONE ARG_NONE ARG_NONE 0 '''' 0 0 0 0 0,
    opcode 0 INS_INVALID ARG_NONE ARG_NONE ARG_NONE 0 '''' 0 0 0 0 0,
    opcode 0 INS_INVALID ARG_NONE ARG_NONE ARG_NONE 0 '''' 0 0 0 0 0,
    opcode 0 INS_INVALID ARG_NONE ARG_NONE ARG_NONE 0 '''' 0 0 0 0 0,
    opcode 0 INS_INVALID ARG_NONE ARG_NONE ARG_NONE 0 '''' 0 0 0 0 0,
    opcode 0 INS_INVALID ARG_NONE ARG_NONE ARG_NONE 0 '''' 0 0 0 0 0,
    opcode 0 INS_INVALID ARG_NONE ARG_NONE ARG_NONE 0 '''' 0 0 0 0 0,
    opcode 0 INS_INVALID ARG_NONE ARG_NONE ARG_NONE 0 '''' 0 0 0 0 0,
    opcode 0 INS_INVALID ARG_NONE ARG_NONE ARG_NONE 0 '''' 0 0 0 0 0,
    opcode 0 INS_INVALID ARG_NONE ARG_NONE ARG_NONE 0 '''' 0 0 0 0 0,
    opcode 0 INS_INVALID ARG_NONE ARG_NONE ARG_NONE 0 '''' 0 0 0 0 0,
    opcode 0 INS_INVALID ARG_NONE ARG_NONE ARG_NONE 0 '''' 0 0 0 0 0,
    opcode 0 INS_INVALID ARG_NONE ARG_NONE ARG_NONE 0 '''' 0 0 0 0 0,
    opcode 0 INS_INVALID ARG_NONE ARG_NONE ARG_NONE 0 '''' 0 0 0 0 0,
    opcode 0 INS_INVALID ARG_NONE ARG_NONE ARG_NONE 0 '''' 0 0 0 0 0,
    opcode 0 INS_INVALID ARG_NONE ARG_NONE ARG_NONE 0 '''' 0 0 0 0 0,
    opcode 0 INS_INVALID ARG_NONE ARG_NONE ARG_NONE 0 '''' 0 0 0 0 0,
    opcode 0 INS_INVALID ARG_NONE ARG_NONE ARG_NONE 0 '''' 0 0 0 0 0,
    opcode 0 INS_INVALID ARG_NONE ARG_NONE ARG_NONE 0 '''' 0 0 0 0 0,
    opcode 0 INS_INVALID ARG_NONE ARG_NONE ARG_NONE 0 '''' 0 0 0 0 0,
    opcode 0 INS_INVALID ARG_NONE ARG_NONE ARG_NONE 0 '''' 0 0 0 0 0,
    opcode 0 INS_INVALID ARG_NONE ARG_NONE ARG_NONE 0 '''' 0 0 0 0 0,
    opcode 0 INS_INVALID ARG_NONE ARG_NONE ARG_NONE 0 '''' 0 0 0 0 0,
    opcode 0 INS_INVALID ARG_NONE ARG_NONE ARG_NONE 0 '''' 0 0 0 0 0,
    opcode 0 INS_INVALID ARG_NONE ARG_NONE ARG_NONE 0 '''' 0 0 0 0 0,
    opcode 0 INS_INVALID ARG_NONE ARG_NONE ARG_NONE 0 '''' 0 0 0 0 0,
    opcode 0 INS_INVALID ARG_NONE ARG_NONE ARG_NONE 0 '''' 0 0 0 0 0,
    opcode 0 INS_INVALID ARG_NONE ARG_NONE ARG_NONE 0 '''' 0 0 0 0 0,
    opcode 0 INS_INVALID ARG_NONE ARG_NONE ARG_NONE 0 '''' 0 0 0 0 0]"

definition tbl_F3_80 :: "ia32_insn_t list" where
  "tbl_F3_80 = [
    opcode 0 INS_INVALID ARG_NONE ARG_NONE ARG_NONE 0 '''' 0 0 0 0 0,
    opcode 0 INS_SYSTEM ARG_NONE ARG_NONE ARG_NONE (cpu_PENTIUM4 OR isa_GP) ''pause'' 0 0 0 0 0]"

definition tbl_F3 :: "ia32_insn_t list" where
  "tbl_F3 = tbl_F3_00 @ tbl_F3_40 @ tbl_F3_80"

definition tbl_0F_00 :: "ia32_insn_t list" where
  "tbl_0F_00 = [
    opcode idx_0F00 0 ARG_NONE ARG_NONE ARG_NONE (cpu_80386 OR isa_GP) '''' 0 0 0 0 0,
    opcode idx_0F01 0 ARG_NONE ARG_NONE ARG_NONE (cpu_80386 OR isa_GP) '''' 0 0 0 0 0,
    opcode 0 INS_SYSTEM (ADDRMETH_G OR OPTYPE_v OR OP_W) (ADDRMETH_E OR OPTYPE_w OR OP_R) ARG_NONE (cpu_80386 OR isa_GP) ''lar'' 0 0 0 0 0,
    opcode 0 INS_SYSTEM (ADDRMETH_G OR OPTYPE_v OR OP_W) (ADDRMETH_E OR OPTYPE_w OR OP_R) ARG_NONE (cpu_80386 OR isa_GP) ''lsl'' 0 0 0 INS_SET_ZERO 0,
    opcode 0 INS_INVALID ARG_NONE ARG_NONE ARG_NONE 0 '''' 0 0 0 0 0,
    opcode 0 INS_INVALID ARG_NONE ARG_NONE ARG_NONE 0 '''' 0 0 0 0 0,
    opcode 0 INS_SYSTEM ARG_NONE ARG_NONE ARG_NONE (cpu_80386 OR isa_GP) ''clts'' 0 0 0 0 6,
    opcode 0 INS_INVALID ARG_NONE ARG_NONE ARG_NONE 0 '''' 0 0 0 0 0,
    opcode 0 INS_SYSTEM ARG_NONE ARG_NONE ARG_NONE (cpu_80486 OR isa_GP) ''invd'' 0 0 0 0 0,
    opcode 0 INS_SYSTEM ARG_NONE ARG_NONE ARG_NONE (cpu_80486 OR isa_GP) ''wbinvd'' 0 0 0 0 0,
    opcode 0 INS_INVALID ARG_NONE ARG_NONE ARG_NONE (cpu_80386 OR isa_GP) '''' 0 0 0 0 0,
    opcode 0 INS_UNKNOWN ARG_NONE ARG_NONE ARG_NONE (cpu_PENTPRO OR isa_GP) ''ud2'' 0 0 0 0 0,
    opcode 0 INS_INVALID ARG_NONE ARG_NONE ARG_NONE 0 '''' 0 0 0 0 0,
    opcode 0 INS_SYSTEM (ADDRMETH_M OR OPTYPE_b OR OP_R) ARG_NONE ARG_NONE (cpu_K6 OR isa_3DNOW) ''prefetchw'' 0 0 0 0 0,
    opcode 0 INS_SYSTEM ARG_NONE ARG_NONE ARG_NONE (cpu_K6 OR isa_3DNOW) ''femms'' 0 0 0 0 0,
    opcode idx_0F0F INS_NOTE_SUFFIX (ADDRMETH_P OR OPTYPE_pi OR OP_R OR OP_W) (ADDRMETH_Q OR OPTYPE_q OR OP_R) ARG_NONE (cpu_K6 OR isa_3DNOW) '''' 0 0 0 0 0,
    opcode 0 INS_MOV (ADDRMETH_V OR OPTYPE_ps OR OP_W) (ADDRMETH_W OR OPTYPE_ps OR OP_R) ARG_NONE (cpu_PENTIUM2 OR isa_GP) ''movups'' 0 0 0 0 0,
    opcode 0 INS_MOV (ADDRMETH_W OR OPTYPE_ps OR OP_W) (ADDRMETH_V OR OPTYPE_ps OR OP_R) ARG_NONE (cpu_PENTIUM2 OR isa_GP) ''movups'' 0 0 0 0 0,
    opcode idx_0F12 0 ARG_NONE ARG_NONE ARG_NONE (cpu_80386 OR isa_GP) '''' 0 0 0 0 0,
    opcode 0 INS_MOV (ADDRMETH_V OR OPTYPE_q OR OP_W) (ADDRMETH_W OR OPTYPE_q OR OP_R) ARG_NONE (cpu_PENTIUM2 OR isa_GP) ''movlps'' 0 0 0 0 0,
    opcode 0 INS_OTHER (ADDRMETH_V OR OPTYPE_ps OR OP_W) (ADDRMETH_W OR OPTYPE_q OR OP_R) ARG_NONE (cpu_PENTIUM2 OR isa_GP) ''unpcklps'' 0 0 0 0 0,
    opcode 0 INS_OTHER (ADDRMETH_V OR OPTYPE_ps OR OP_W) (ADDRMETH_W OR OPTYPE_q OR OP_R) ARG_NONE (cpu_PENTIUM2 OR isa_GP) ''unpckhps'' 0 0 0 0 0,
    opcode idx_0F16 0 ARG_NONE ARG_NONE ARG_NONE (cpu_80386 OR isa_GP) '''' 0 0 0 0 0,
    opcode 0 INS_OTHER (ADDRMETH_W OR OPTYPE_q OR OP_W) (ADDRMETH_V OR OPTYPE_q OR OP_R) ARG_NONE (cpu_PENTIUM2 OR isa_GP) ''movhps'' 0 0 0 0 0,
    opcode idx_0F18 0 ARG_NONE ARG_NONE ARG_NONE (cpu_80386 OR isa_GP) '''' 0 0 0 0 0,
    opcode 0 INS_INVALID ARG_NONE ARG_NONE ARG_NONE 0 '''' 0 0 0 0 0,
    opcode 0 INS_INVALID ARG_NONE ARG_NONE ARG_NONE 0 '''' 0 0 0 0 0,
    opcode 0 INS_INVALID ARG_NONE ARG_NONE ARG_NONE 0 '''' 0 0 0 0 0,
    opcode 0 INS_INVALID ARG_NONE ARG_NONE ARG_NONE 0 '''' 0 0 0 0 0,
    opcode 0 INS_INVALID ARG_NONE ARG_NONE ARG_NONE 0 '''' 0 0 0 0 0,
    opcode 0 INS_INVALID ARG_NONE ARG_NONE ARG_NONE 0 '''' 0 0 0 0 0,
    opcode 0 INS_INVALID ARG_NONE ARG_NONE ARG_NONE 0 '''' 0 0 0 0 0,
    opcode 0 INS_MOV (ADDRMETH_R OR OPTYPE_d OR OP_W) (ADDRMETH_C OR OPTYPE_d OR OP_R) ARG_NONE (cpu_80386 OR isa_GP) ''mov'' 0 0 0 0 0,
    opcode 0 INS_MOV (ADDRMETH_R OR OPTYPE_d OR OP_W) (ADDRMETH_D OR OPTYPE_d OR OP_R) ARG_NONE (cpu_80386 OR isa_GP) ''mov'' 0 0 0 0 0,
    opcode 0 INS_MOV (ADDRMETH_C OR OPTYPE_d OR OP_W) (ADDRMETH_R OR OPTYPE_d OR OP_R) ARG_NONE (cpu_80386 OR isa_GP) ''mov'' 0 0 0 0 0,
    opcode 0 INS_MOV (ADDRMETH_D OR OPTYPE_d OR OP_W) (ADDRMETH_R OR OPTYPE_d OR OP_R) ARG_NONE (cpu_80386 OR isa_GP) ''mov'' 0 0 0 0 0,
    opcode 0 INS_MOV (ADDRMETH_R OR OPTYPE_d OR OP_W) (ADDRMETH_T OR OPTYPE_d OR OP_R) ARG_NONE (cpu_80386 OR isa_GP) ''mov'' 0 0 0 0 0,
    opcode 0 INS_INVALID ARG_NONE ARG_NONE ARG_NONE 0 '''' 0 0 0 0 0,
    opcode 0 INS_MOV (ADDRMETH_T OR OPTYPE_d OR OP_W) (ADDRMETH_R OR OPTYPE_d OR OP_R) ARG_NONE (cpu_80386 OR isa_GP) ''mov'' 0 0 0 0 0,
    opcode 0 INS_INVALID ARG_NONE ARG_NONE ARG_NONE 0 '''' 0 0 0 0 0,
    opcode 0 INS_MOV (ADDRMETH_V OR OPTYPE_ps OR OP_W) (ADDRMETH_W OR OPTYPE_ps OR OP_R) ARG_NONE (cpu_PENTIUM2 OR isa_GP) ''movaps'' 0 0 0 0 0,
    opcode 0 INS_MOV (ADDRMETH_W OR OPTYPE_ps OR OP_W) (ADDRMETH_V OR OPTYPE_ps OR OP_R) ARG_NONE (cpu_PENTIUM2 OR isa_GP) ''movaps'' 0 0 0 0 0,
    opcode 0 INS_MOV (ADDRMETH_V OR OPTYPE_ps OR OP_W) (ADDRMETH_Q OR OPTYPE_q OR OP_R) ARG_NONE (cpu_PENTIUM2 OR isa_GP) ''cvtpi2ps'' 0 0 0 0 0,
    opcode 0 INS_MOV (ADDRMETH_W OR OPTYPE_ps OR OP_W) (ADDRMETH_V OR OPTYPE_ps OR OP_R) ARG_NONE (cpu_PENTIUM2 OR isa_GP) ''movntps'' 0 0 0 0 0,
    opcode 0 INS_MOV (ADDRMETH_P OR OPTYPE_q OR OP_W) (ADDRMETH_W OR OPTYPE_q OR OP_R) ARG_NONE (cpu_PENTIUM2 OR isa_GP) ''cvttps2pi'' 0 0 0 0 0,
    opcode 0 INS_MOV (ADDRMETH_P OR OPTYPE_q OR OP_W) (ADDRMETH_W OR OPTYPE_q OR OP_R) ARG_NONE (cpu_PENTIUM2 OR isa_GP) ''cvtps2pi'' 0 0 0 0 0,
    opcode 0 INS_OTHER (ADDRMETH_V OR OPTYPE_ss OR OP_W) (ADDRMETH_W OR OPTYPE_ss OR OP_R) ARG_NONE (cpu_PENTIUM2 OR isa_GP) ''ucomiss'' 0 0 0 INS_SET_ALL 0,
    opcode 0 INS_OTHER (ADDRMETH_V OR OPTYPE_ps OR OP_W) (ADDRMETH_W OR OPTYPE_ss OR OP_W) ARG_NONE (cpu_PENTIUM2 OR isa_GP) ''comiss'' 0 0 0 INS_SET_ALL 0,
    opcode 0 INS_SYSTEM ARG_NONE ARG_NONE ARG_NONE (cpu_PENTIUM OR isa_GP) ''wrmsr'' 0 0 0 0 52,
    opcode 0 INS_SYSTEM ARG_NONE ARG_NONE ARG_NONE (cpu_PENTIUM OR isa_GP) ''rdtsc'' 0 0 0 0 40,
    opcode 0 INS_SYSTEM ARG_NONE ARG_NONE ARG_NONE (cpu_PENTIUM OR isa_GP) ''rdmsr'' 0 0 0 0 38,
    opcode 0 INS_SYSTEM ARG_NONE ARG_NONE ARG_NONE (cpu_PENTPRO OR isa_GP) ''rdpmc'' 0 0 0 0 39,
    opcode 0 INS_SYSTEM ARG_NONE ARG_NONE ARG_NONE (cpu_PENTIUM2 OR isa_GP) ''sysenter'' 0 0 0 0 50,
    opcode 0 INS_SYSTEM ARG_NONE ARG_NONE ARG_NONE (cpu_PENTIUM2 OR isa_GP) ''sysexit'' 0 0 0 0 51,
    opcode 0 INS_INVALID ARG_NONE ARG_NONE ARG_NONE 0 '''' 0 0 0 0 0,
    opcode 0 INS_INVALID ARG_NONE ARG_NONE ARG_NONE 0 '''' 0 0 0 0 0,
    opcode 0 INS_INVALID ARG_NONE ARG_NONE ARG_NONE 0 '''' 0 0 0 0 0,
    opcode 0 INS_INVALID ARG_NONE ARG_NONE ARG_NONE 0 '''' 0 0 0 0 0,
    opcode 0 INS_INVALID ARG_NONE ARG_NONE ARG_NONE 0 '''' 0 0 0 0 0,
    opcode 0 INS_INVALID ARG_NONE ARG_NONE ARG_NONE 0 '''' 0 0 0 0 0,
    opcode 0 INS_INVALID ARG_NONE ARG_NONE ARG_NONE 0 '''' 0 0 0 0 0,
    opcode 0 INS_INVALID ARG_NONE ARG_NONE ARG_NONE 0 '''' 0 0 0 0 0,
    opcode 0 INS_INVALID ARG_NONE ARG_NONE ARG_NONE 0 '''' 0 0 0 0 0,
    opcode 0 INS_INVALID ARG_NONE ARG_NONE ARG_NONE 0 '''' 0 0 0 0 0]"

definition tbl_0F_40 :: "ia32_insn_t list" where
  "tbl_0F_40 = [
    opcode 0 INS_MOVCC (ADDRMETH_G OR OPTYPE_v OR OP_W) (ADDRMETH_E OR OPTYPE_v OR OP_R) ARG_NONE (cpu_PENTPRO OR isa_GP) ''cmovo'' 0 0 0 INS_TEST_OFLOW 0,
    opcode 0 INS_MOVCC (ADDRMETH_G OR OPTYPE_v OR OP_W) (ADDRMETH_E OR OPTYPE_v OR OP_R) ARG_NONE (cpu_PENTPRO OR isa_GP) ''cmovno'' 0 0 0 INS_TEST_NOFLOW 0,
    opcode 0 INS_MOVCC (ADDRMETH_G OR OPTYPE_v OR OP_W) (ADDRMETH_E OR OPTYPE_v OR OP_R) ARG_NONE (cpu_PENTPRO OR isa_GP) ''cmovc'' 0 0 0 0 0,
    opcode 0 INS_MOVCC (ADDRMETH_G OR OPTYPE_v OR OP_W) (ADDRMETH_E OR OPTYPE_v OR OP_R) ARG_NONE (cpu_PENTPRO OR isa_GP) ''cmovnc'' 0 0 0 0 0,
    opcode 0 INS_MOVCC (ADDRMETH_G OR OPTYPE_v OR OP_W) (ADDRMETH_E OR OPTYPE_v OR OP_R) ARG_NONE (cpu_PENTPRO OR isa_GP) ''cmovz'' 0 0 0 0 0,
    opcode 0 INS_MOVCC (ADDRMETH_G OR OPTYPE_v OR OP_W) (ADDRMETH_E OR OPTYPE_v OR OP_R) ARG_NONE (cpu_PENTPRO OR isa_GP) ''cmovnz'' 0 0 0 0 0,
    opcode 0 INS_MOVCC (ADDRMETH_G OR OPTYPE_v OR OP_W) (ADDRMETH_E OR OPTYPE_v OR OP_R) ARG_NONE (cpu_PENTPRO OR isa_GP) ''cmovbe'' 0 0 0 (INS_TEST_ZERO OR INS_TEST_CARRY) 0,
    opcode 0 INS_MOVCC (ADDRMETH_G OR OPTYPE_v OR OP_W) (ADDRMETH_E OR OPTYPE_v OR OP_R) ARG_NONE (cpu_PENTPRO OR isa_GP) ''cmova'' 0 0 0 (INS_TEST_NZERO OR INS_TEST_NCARRY) 0,
    opcode 0 INS_MOVCC (ADDRMETH_G OR OPTYPE_v OR OP_W) (ADDRMETH_E OR OPTYPE_v OR OP_R) ARG_NONE (cpu_PENTPRO OR isa_GP) ''cmovs'' 0 0 0 INS_TEST_SIGN 0,
    opcode 0 INS_MOVCC (ADDRMETH_G OR OPTYPE_v OR OP_W) (ADDRMETH_E OR OPTYPE_v OR OP_R) ARG_NONE (cpu_PENTPRO OR isa_GP) ''cmovns'' 0 0 0 INS_TEST_NSIGN 0,
    opcode 0 INS_MOVCC (ADDRMETH_G OR OPTYPE_v OR OP_W) (ADDRMETH_E OR OPTYPE_v OR OP_R) ARG_NONE (cpu_PENTPRO OR isa_GP) ''cmovp'' 0 0 0 0 0,
    opcode 0 INS_MOVCC (ADDRMETH_G OR OPTYPE_v OR OP_W) (ADDRMETH_E OR OPTYPE_v OR OP_R) ARG_NONE (cpu_PENTPRO OR isa_GP) ''cmovnp'' 0 0 0 0 0,
    opcode 0 INS_MOVCC (ADDRMETH_G OR OPTYPE_v OR OP_W) (ADDRMETH_E OR OPTYPE_v OR OP_R) ARG_NONE (cpu_PENTPRO OR isa_GP) ''cmovl'' 0 0 0 (INS_TEST_SIGN OR INS_TEST_OFLOW) 0,
    opcode 0 INS_MOVCC (ADDRMETH_G OR OPTYPE_v OR OP_W) (ADDRMETH_E OR OPTYPE_v OR OP_R) ARG_NONE (cpu_PENTPRO OR isa_GP) ''cmovge'' 0 0 0 (INS_TEST_SIGN OR INS_TEST_OFLOW) 0,
    opcode 0 INS_MOVCC (ADDRMETH_G OR OPTYPE_v OR OP_W) (ADDRMETH_E OR OPTYPE_v OR OP_R) ARG_NONE (cpu_PENTPRO OR isa_GP) ''cmovle'' 0 0 0 (INS_TEST_SIGN OR INS_TEST_OFLOW OR INS_TEST_ZERO) 0,
    opcode 0 INS_MOVCC (ADDRMETH_G OR OPTYPE_v OR OP_W) (ADDRMETH_E OR OPTYPE_v OR OP_R) ARG_NONE (cpu_PENTPRO OR isa_GP) ''cmovg'' 0 0 0 (INS_TEST_SIGN OR INS_TEST_OFLOW OR INS_TEST_NZERO) 0,
    opcode 0 INS_MOV (ADDRMETH_G OR OPTYPE_d OR OP_W) (ADDRMETH_W OR OPTYPE_ps OR OP_R) ARG_NONE (cpu_PENTIUM2 OR isa_GP) ''movmskps'' 0 0 0 0 0,
    opcode 0 INS_ARITH (ADDRMETH_V OR OPTYPE_ps OR OP_W) (ADDRMETH_W OR OPTYPE_ps OR OP_R) ARG_NONE (cpu_PENTIUM2 OR isa_GP) ''sqrtps'' 0 0 0 0 0,
    opcode 0 INS_ARITH (ADDRMETH_V OR OPTYPE_ps OR OP_W) (ADDRMETH_W OR OPTYPE_ps OR OP_R) ARG_NONE (cpu_PENTIUM2 OR isa_GP) ''rsqrtps'' 0 0 0 0 0,
    opcode 0 INS_OTHER (ADDRMETH_V OR OPTYPE_ps OR OP_W) (ADDRMETH_W OR OPTYPE_ps OR OP_R) ARG_NONE (cpu_PENTIUM2 OR isa_GP) ''rcpps'' 0 0 0 0 0,
    opcode 0 INS_AND (ADDRMETH_V OR OPTYPE_ps OR OP_W) (ADDRMETH_W OR OPTYPE_ps OR OP_R) ARG_NONE (cpu_PENTIUM2 OR isa_GP) ''andps'' 0 0 0 0 0,
    opcode 0 INS_AND (ADDRMETH_V OR OPTYPE_ps OR OP_W) (ADDRMETH_W OR OPTYPE_ps OR OP_R) ARG_NONE (cpu_PENTIUM2 OR isa_GP) ''andnps'' 0 0 0 0 0,
    opcode 0 INS_OR (ADDRMETH_V OR OPTYPE_ps OR OP_W) (ADDRMETH_W OR OPTYPE_ps OR OP_R) ARG_NONE (cpu_PENTIUM2 OR isa_GP) ''orps'' 0 0 0 0 0,
    opcode 0 INS_XOR (ADDRMETH_V OR OPTYPE_ps OR OP_W) (ADDRMETH_W OR OPTYPE_ps OR OP_R) ARG_NONE (cpu_PENTIUM2 OR isa_GP) ''xorps'' 0 0 0 0 0,
    opcode 0 INS_ADD (ADDRMETH_V OR OPTYPE_ps OR OP_W) (ADDRMETH_W OR OPTYPE_ps OR OP_R) ARG_NONE (cpu_PENTIUM2 OR isa_GP) ''addps'' 0 0 0 0 0,
    opcode 0 INS_MUL (ADDRMETH_V OR OPTYPE_ps OR OP_R) (ADDRMETH_W OR OPTYPE_ps OR OP_R) ARG_NONE (cpu_PENTIUM2 OR isa_GP) ''mulps'' 0 0 0 0 0,
    opcode 0 INS_MOV (ADDRMETH_V OR OPTYPE_pd) (ADDRMETH_W OR OPTYPE_q) ARG_NONE (cpu_PENTIUM4 OR isa_GP) ''cvtps2pd'' 0 0 0 0 0,
    opcode 0 INS_MOV (ADDRMETH_V OR OPTYPE_ps OR OP_W) (ADDRMETH_W OR OPTYPE_dq OR OP_R) ARG_NONE (cpu_PENTIUM4 OR isa_GP) ''cvtdq2ps'' 0 0 0 0 0,
    opcode 0 INS_SUB (ADDRMETH_V OR OPTYPE_ps OR OP_W) (ADDRMETH_W OR OPTYPE_ps OR OP_R) ARG_NONE (cpu_PENTIUM2 OR isa_GP) ''subps'' 0 0 0 0 0,
    opcode 0 INS_ARITH (ADDRMETH_V OR OPTYPE_ps OR OP_W) (ADDRMETH_W OR OPTYPE_ps OR OP_R) ARG_NONE (cpu_PENTIUM2 OR isa_GP) ''minps'' 0 0 0 0 0,
    opcode 0 INS_DIV (ADDRMETH_V OR OPTYPE_ps OR OP_W) (ADDRMETH_W OR OPTYPE_ps OR OP_R) ARG_NONE (cpu_PENTIUM2 OR isa_GP) ''divps'' 0 0 0 0 0,
    opcode 0 INS_ARITH (ADDRMETH_V OR OPTYPE_ps OR OP_W) (ADDRMETH_W OR OPTYPE_ps OR OP_R) ARG_NONE (cpu_PENTIUM2 OR isa_GP) ''maxps'' 0 0 0 0 0,
    opcode 0 INS_OTHER (ADDRMETH_P OR OPTYPE_q OR OP_W) (ADDRMETH_Q OR OPTYPE_d OR OP_R) ARG_NONE (cpu_PENTIUM OR isa_MMX) ''punpcklbw'' 0 0 0 0 0,
    opcode 0 INS_OTHER (ADDRMETH_P OR OPTYPE_q OR OP_W) (ADDRMETH_Q OR OPTYPE_d OR OP_R) ARG_NONE (cpu_PENTIUM OR isa_MMX) ''punpcklwd'' 0 0 0 0 0,
    opcode 0 INS_OTHER (ADDRMETH_P OR OPTYPE_q OR OP_W) (ADDRMETH_Q OR OPTYPE_d OR OP_R) ARG_NONE (cpu_PENTIUM OR isa_MMX) ''punpckldq'' 0 0 0 0 0,
    opcode 0 INS_OTHER (ADDRMETH_P OR OPTYPE_q OR OP_W) (ADDRMETH_Q OR OPTYPE_d OR OP_R) ARG_NONE (cpu_PENTIUM OR isa_MMX) ''packsswb'' 0 0 0 0 0,
    opcode 0 INS_OTHER (ADDRMETH_P OR OPTYPE_q OR OP_W) (ADDRMETH_Q OR OPTYPE_d OR OP_R) ARG_NONE (cpu_PENTIUM OR isa_MMX) ''pcmpgtb'' 0 0 0 0 0,
    opcode 0 INS_OTHER (ADDRMETH_P OR OPTYPE_q OR OP_W) (ADDRMETH_Q OR OPTYPE_d OR OP_R) ARG_NONE (cpu_PENTIUM OR isa_MMX) ''pcmpgtw'' 0 0 0 0 0,
    opcode 0 INS_OTHER (ADDRMETH_P OR OPTYPE_q OR OP_W) (ADDRMETH_Q OR OPTYPE_d OR OP_R) ARG_NONE (cpu_PENTIUM OR isa_MMX) ''pcmpgtd'' 0 0 0 0 0,
    opcode 0 INS_OTHER (ADDRMETH_P OR OPTYPE_q OR OP_W) (ADDRMETH_Q OR OPTYPE_d OR OP_R) ARG_NONE (cpu_PENTIUM OR isa_MMX) ''packuswb'' 0 0 0 0 0,
    opcode 0 INS_OTHER (ADDRMETH_P OR OPTYPE_q OR OP_W) (ADDRMETH_Q OR OPTYPE_d OR OP_R) ARG_NONE (cpu_PENTIUM OR isa_MMX) ''punpckhbw'' 0 0 0 0 0,
    opcode 0 INS_OTHER (ADDRMETH_P OR OPTYPE_q OR OP_W) (ADDRMETH_Q OR OPTYPE_d OR OP_R) ARG_NONE (cpu_PENTIUM OR isa_MMX) ''punpckhwd'' 0 0 0 0 0,
    opcode 0 INS_OTHER (ADDRMETH_P OR OPTYPE_q OR OP_W) (ADDRMETH_Q OR OPTYPE_d OR OP_R) ARG_NONE (cpu_PENTIUM OR isa_MMX) ''punpckhdq'' 0 0 0 0 0,
    opcode 0 INS_OTHER (ADDRMETH_P OR OPTYPE_q OR OP_W) (ADDRMETH_Q OR OPTYPE_d OR OP_R) ARG_NONE (cpu_PENTIUM OR isa_MMX) ''packssdw'' 0 0 0 0 0,
    opcode 0 INS_INVALID ARG_NONE ARG_NONE ARG_NONE 0 '''' 0 0 0 0 0,
    opcode 0 INS_INVALID ARG_NONE ARG_NONE ARG_NONE 0 '''' 0 0 0 0 0,
    opcode 0 INS_MOV (ADDRMETH_P OR OPTYPE_d OR OP_W) (ADDRMETH_E OR OPTYPE_d OR OP_R) ARG_NONE (cpu_PENTIUM OR isa_MMX) ''movd'' 0 0 0 0 0,
    opcode 0 INS_MOV (ADDRMETH_P OR OPTYPE_q OR OP_W) (ADDRMETH_Q OR OPTYPE_q OR OP_R) ARG_NONE (cpu_PENTIUM OR isa_MMX) ''movq'' 0 0 0 0 0,
    opcode 0 INS_MOV (ADDRMETH_P OR OPTYPE_q OR OP_W) (ADDRMETH_Q OR OPTYPE_q OR OP_R) (ADDRMETH_I OR OPTYPE_b OR OP_R) (cpu_PENTIUM2 OR isa_GP) ''pshufw'' 0 0 0 0 0,
    opcode idx_0F71 0 ARG_NONE ARG_NONE ARG_NONE (cpu_PENTIUM OR isa_MMX) '''' 0 0 0 0 0,
    opcode idx_0F72 0 ARG_NONE ARG_NONE ARG_NONE (cpu_PENTIUM OR isa_MMX) '''' 0 0 0 0 0,
    opcode idx_0F73 0 ARG_NONE ARG_NONE ARG_NONE (cpu_PENTIUM OR isa_MMX) '''' 0 0 0 0 0,
    opcode 0 INS_OTHER (ADDRMETH_P OR OPTYPE_q OR OP_W) (ADDRMETH_Q OR OPTYPE_q OR OP_R) ARG_NONE (cpu_PENTIUM OR isa_MMX) ''pcmpeqb'' 0 0 0 0 0,
    opcode 0 INS_CMP (ADDRMETH_P OR OPTYPE_q OR OP_W) (ADDRMETH_Q OR OPTYPE_q OR OP_R) ARG_NONE (cpu_PENTIUM OR isa_MMX) ''pcmpeqw'' 0 0 0 0 0,
    opcode 0 INS_CMP (ADDRMETH_P OR OPTYPE_q OR OP_W) (ADDRMETH_Q OR OPTYPE_q OR OP_R) ARG_NONE (cpu_PENTIUM OR isa_MMX) ''pcmpeqd'' 0 0 0 0 0,
    opcode 0 INS_OTHER ARG_NONE ARG_NONE ARG_NONE (cpu_PENTIUM OR isa_MMX) ''emms'' 0 0 0 0 0,
    opcode 0 INS_INVALID ARG_NONE ARG_NONE ARG_NONE 0 '''' 0 0 0 0 0,
    opcode 0 INS_INVALID ARG_NONE ARG_NONE ARG_NONE 0 '''' 0 0 0 0 0,
    opcode 0 INS_INVALID ARG_NONE ARG_NONE ARG_NONE 0 '''' 0 0 0 0 0,
    opcode 0 INS_INVALID ARG_NONE ARG_NONE ARG_NONE 0 '''' 0 0 0 0 0,
    opcode 0 INS_INVALID ARG_NONE ARG_NONE ARG_NONE 0 '''' 0 0 0 0 0,
    opcode 0 INS_INVALID ARG_NONE ARG_NONE ARG_NONE 0 '''' 0 0 0 0 0,
    opcode 0 INS_MOV (ADDRMETH_E OR OPTYPE_d OR OP_W) (ADDRMETH_P OR OPTYPE_d OR OP_R) ARG_NONE (cpu_PENTIUM OR isa_MMX) ''movd'' 0 0 0 0 0,
    opcode 0 INS_MOV (ADDRMETH_Q OR OPTYPE_q OR OP_W) (ADDRMETH_P OR OPTYPE_q OR OP_R) ARG_NONE (cpu_PENTIUM OR isa_MMX) ''movq'' 0 0 0 0 0]"

definition tbl_0F_80 :: "ia32_insn_t list" where
  "tbl_0F_80 = [
    opcode 0 INS_BRANCHCC (ADDRMETH_J OR OPTYPE_v OR OP_X OR OP_SIGNED) ARG_NONE ARG_NONE (cpu_80386 OR isa_GP) ''jo'' 0 0 0 INS_TEST_OFLOW 0,
    opcode 0 INS_BRANCHCC (ADDRMETH_J OR OPTYPE_v OR OP_X OR OP_SIGNED) ARG_NONE ARG_NONE (cpu_80386 OR isa_GP) ''jno'' 0 0 0 INS_TEST_NOFLOW 0,
    opcode 0 INS_BRANCHCC (ADDRMETH_J OR OPTYPE_v OR OP_X OR OP_SIGNED) ARG_NONE ARG_NONE (cpu_80386 OR isa_GP) ''jc'' 0 0 0 0 0,
    opcode 0 INS_BRANCHCC (ADDRMETH_J OR OPTYPE_v OR OP_X OR OP_SIGNED) ARG_NONE ARG_NONE (cpu_80386 OR isa_GP) ''jnc'' 0 0 0 0 0,
    opcode 0 INS_BRANCHCC (ADDRMETH_J OR OPTYPE_v OR OP_X OR OP_SIGNED) ARG_NONE ARG_NONE (cpu_80386 OR isa_GP) ''jz'' 0 0 0 0 0,
    opcode 0 INS_BRANCHCC (ADDRMETH_J OR OPTYPE_v OR OP_X OR OP_SIGNED) ARG_NONE ARG_NONE (cpu_80386 OR isa_GP) ''jnz'' 0 0 0 0 0,
    opcode 0 INS_BRANCHCC (ADDRMETH_J OR OPTYPE_v OR OP_X OR OP_SIGNED) ARG_NONE ARG_NONE (cpu_80386 OR isa_GP) ''jbe'' 0 0 0 (INS_TEST_CARRY OR INS_TEST_OR OR INS_TEST_ZERO) 0,
    opcode 0 INS_BRANCHCC (ADDRMETH_J OR OPTYPE_v OR OP_X OR OP_SIGNED) ARG_NONE ARG_NONE (cpu_80386 OR isa_GP) ''ja'' 0 0 0 (INS_TEST_NCARRY OR INS_TEST_NZERO) 0,
    opcode 0 INS_BRANCHCC (ADDRMETH_J OR OPTYPE_v OR OP_X OR OP_SIGNED) ARG_NONE ARG_NONE (cpu_80386 OR isa_GP) ''js'' 0 0 0 INS_TEST_SIGN 0,
    opcode 0 INS_BRANCHCC (ADDRMETH_J OR OPTYPE_v OR OP_X OR OP_SIGNED) ARG_NONE ARG_NONE (cpu_80386 OR isa_GP) ''jns'' 0 0 0 INS_TEST_NSIGN 0,
    opcode 0 INS_BRANCHCC (ADDRMETH_J OR OPTYPE_v OR OP_X OR OP_SIGNED) ARG_NONE ARG_NONE (cpu_80386 OR isa_GP) ''jpe'' 0 0 0 0 0,
    opcode 0 INS_BRANCHCC (ADDRMETH_J OR OPTYPE_v OR OP_X OR OP_SIGNED) ARG_NONE ARG_NONE (cpu_80386 OR isa_GP) ''jpo'' 0 0 0 0 0,
    opcode 0 INS_BRANCHCC (ADDRMETH_J OR OPTYPE_v OR OP_X OR OP_SIGNED) ARG_NONE ARG_NONE (cpu_80386 OR isa_GP) ''jl'' 0 0 0 INS_TEST_SFNEOF 0,
    opcode 0 INS_BRANCHCC (ADDRMETH_J OR OPTYPE_v OR OP_X OR OP_SIGNED) ARG_NONE ARG_NONE (cpu_80386 OR isa_GP) ''jge'' 0 0 0 INS_TEST_SFEQOF 0,
    opcode 0 INS_BRANCHCC (ADDRMETH_J OR OPTYPE_v OR OP_X OR OP_SIGNED) ARG_NONE ARG_NONE (cpu_80386 OR isa_GP) ''jle'' 0 0 0 (INS_TEST_ZERO OR INS_TEST_OR OR INS_TEST_SFNEOF) 0,
    opcode 0 INS_BRANCHCC (ADDRMETH_J OR OPTYPE_v OR OP_X OR OP_SIGNED) ARG_NONE ARG_NONE (cpu_80386 OR isa_GP) ''jg'' 0 0 0 (INS_TEST_NZERO OR INS_TEST_SFEQOF) 0,
    opcode 0 INS_MOVCC (ADDRMETH_E OR OPTYPE_b OR OP_W) ARG_NONE ARG_NONE (cpu_80386 OR isa_GP) ''seto'' 0 0 0 INS_TEST_OFLOW 0,
    opcode 0 INS_MOVCC (ADDRMETH_E OR OPTYPE_b OR OP_W) ARG_NONE ARG_NONE (cpu_80386 OR isa_GP) ''setno'' 0 0 0 INS_TEST_OFLOW 0,
    opcode 0 INS_MOVCC (ADDRMETH_E OR OPTYPE_b OR OP_W) ARG_NONE ARG_NONE (cpu_80386 OR isa_GP) ''setc'' 0 0 0 0 0,
    opcode 0 INS_MOVCC (ADDRMETH_E OR OPTYPE_b OR OP_W) ARG_NONE ARG_NONE (cpu_80386 OR isa_GP) ''setnc'' 0 0 0 0 0,
    opcode 0 INS_MOVCC (ADDRMETH_E OR OPTYPE_b OR OP_W) ARG_NONE ARG_NONE (cpu_80386 OR isa_GP) ''setz'' 0 0 0 0 0,
    opcode 0 INS_MOVCC (ADDRMETH_E OR OPTYPE_b OR OP_W) ARG_NONE ARG_NONE (cpu_80386 OR isa_GP) ''setnz'' 0 0 0 0 0,
    opcode 0 INS_MOVCC (ADDRMETH_E OR OPTYPE_b OR OP_W) ARG_NONE ARG_NONE (cpu_80386 OR isa_GP) ''setbe'' 0 0 0 (INS_TEST_CARRY OR INS_TEST_ZERO) 0,
    opcode 0 INS_MOVCC (ADDRMETH_E OR OPTYPE_b OR OP_W) ARG_NONE ARG_NONE (cpu_80386 OR isa_GP) ''seta'' 0 0 0 (INS_TEST_CARRY OR INS_TEST_ZERO) 0,
    opcode 0 INS_MOVCC (ADDRMETH_E OR OPTYPE_b OR OP_W) ARG_NONE ARG_NONE (cpu_80386 OR isa_GP) ''sets'' 0 0 0 INS_TEST_SIGN 0,
    opcode 0 INS_MOVCC (ADDRMETH_E OR OPTYPE_b OR OP_W) ARG_NONE ARG_NONE (cpu_80386 OR isa_GP) ''setns'' 0 0 0 INS_TEST_SIGN 0,
    opcode 0 INS_MOVCC (ADDRMETH_E OR OPTYPE_b OR OP_W) ARG_NONE ARG_NONE (cpu_80386 OR isa_GP) ''setpe'' 0 0 0 0 0,
    opcode 0 INS_MOVCC (ADDRMETH_E OR OPTYPE_b OR OP_W) ARG_NONE ARG_NONE (cpu_80386 OR isa_GP) ''setpo'' 0 0 0 0 0,
    opcode 0 INS_MOVCC (ADDRMETH_E OR OPTYPE_b OR OP_W) ARG_NONE ARG_NONE (cpu_80386 OR isa_GP) ''setl'' 0 0 0 (INS_TEST_SIGN OR INS_TEST_OFLOW) 0,
    opcode 0 INS_MOVCC (ADDRMETH_E OR OPTYPE_b OR OP_W) ARG_NONE ARG_NONE (cpu_80386 OR isa_GP) ''setge'' 0 0 0 (INS_TEST_SIGN OR INS_TEST_OFLOW) 0,
    opcode 0 INS_MOVCC (ADDRMETH_E OR OPTYPE_b OR OP_W) ARG_NONE ARG_NONE (cpu_80386 OR isa_GP) ''setle'' 0 0 0 (INS_TEST_SIGN OR INS_TEST_OFLOW OR INS_TEST_ZERO) 0,
    opcode 0 INS_MOVCC (ADDRMETH_E OR OPTYPE_b OR OP_W) ARG_NONE ARG_NONE (cpu_80386 OR isa_GP) ''setg'' 0 0 0 (INS_TEST_SIGN OR INS_TEST_OFLOW OR INS_TEST_ZERO) 0,
    opcode 0 INS_PUSH (ADDRMETH_RS OR OPTYPE_w OR OP_R) ARG_NONE ARG_NONE (cpu_80386 OR isa_GP) ''push'' 4 0 0 0 0,
    opcode 0 INS_POP (ADDRMETH_RS OR OPTYPE_w OR OP_W) ARG_NONE ARG_NONE (cpu_80386 OR isa_GP) ''pop'' 4 0 0 0 33,
    opcode 0 INS_CPUID ARG_NONE ARG_NONE ARG_NONE (cpu_PENTIUM OR isa_GP) ''cpuid'' 0 0 0 0 10,
    opcode 0 INS_BITTEST (ADDRMETH_E OR OPTYPE_v OR OP_R) (ADDRMETH_G OR OPTYPE_v OR OP_R) ARG_NONE (cpu_80386 OR isa_GP) ''bt'' 0 0 0 INS_SET_CARRY 0,
    opcode 0 INS_SHL (ADDRMETH_E OR OPTYPE_v OR OP_W OR OP_R) (ADDRMETH_G OR OPTYPE_v OR OP_R) (ADDRMETH_I OR OPTYPE_b OR OP_R) (cpu_80386 OR isa_GP) ''shld'' 0 0 0 (INS_SET_SIGN OR INS_SET_ZERO OR INS_SET_PARITY OR INS_SET_CARRY) 0,
    opcode 0 INS_SHL (ADDRMETH_E OR OPTYPE_v OR OP_W OR OP_R) (ADDRMETH_G OR OPTYPE_v OR OP_R) (ADDRMETH_I OR OP_R OR OPTYPE_b OR ADDRMETH_RR) (cpu_80386 OR isa_GP) ''shld'' 0 0 1 (INS_SET_SIGN OR INS_SET_ZERO OR INS_SET_PARITY OR INS_SET_CARRY) 0,
    opcode 0 INS_INVALID ARG_NONE ARG_NONE ARG_NONE 0 '''' 0 0 0 0 0,
    opcode 0 INS_INVALID ARG_NONE ARG_NONE ARG_NONE 0 '''' 0 0 0 0 0,
    opcode 0 INS_PUSH (ADDRMETH_RS OR OPTYPE_w OR OP_R) ARG_NONE ARG_NONE (cpu_80386 OR isa_GP) ''push'' 5 0 0 0 0,
    opcode 0 INS_POP (ADDRMETH_RS OR OPTYPE_w OR OP_W) ARG_NONE ARG_NONE (cpu_80386 OR isa_GP) ''pop'' 5 0 0 0 33,
    opcode 0 INS_SYSTEM ARG_NONE ARG_NONE ARG_NONE (cpu_80386 OR isa_GP) ''rsm'' 0 0 0 (INS_SET_ALL OR INS_SET_DIR) 42,
    opcode 0 INS_BITTEST (ADDRMETH_E OR OPTYPE_v OR OP_R) (ADDRMETH_G OR OPTYPE_v OR OP_R) ARG_NONE (cpu_80386 OR isa_GP) ''bts'' 0 0 0 INS_SET_CARRY 0,
    opcode 0 INS_SHR (ADDRMETH_E OR OPTYPE_v OR OP_W OR OP_R) (ADDRMETH_G OR OPTYPE_v OR OP_R) (ADDRMETH_I OR OPTYPE_b OR OP_R) (cpu_80386 OR isa_GP) ''shrd'' 0 0 0 (INS_SET_SIGN OR INS_SET_ZERO OR INS_SET_PARITY OR INS_SET_CARRY) 0,
    opcode 0 INS_SHR (ADDRMETH_E OR OPTYPE_v OR OP_W OR OP_R) (ADDRMETH_G OR OPTYPE_v OR OP_R) (ADDRMETH_I OR OP_R OR OPTYPE_b OR ADDRMETH_RR) (cpu_80386 OR isa_GP) ''shrd'' 0 0 1 (INS_SET_SIGN OR INS_SET_ZERO OR INS_SET_PARITY OR INS_SET_CARRY) 0,
    opcode idx_0FAE 0 ARG_NONE ARG_NONE ARG_NONE (cpu_PENTIUM2 OR isa_GP) '''' 0 0 0 0 0,
    opcode 0 INS_MUL (ADDRMETH_G OR OPTYPE_v OR OP_SIGNED OR OP_R OR OP_W) (ADDRMETH_E OR OPTYPE_v OR OP_SIGNED OR OP_R) ARG_NONE (cpu_80386 OR isa_GP) ''imul'' 0 0 0 (INS_SET_OFLOW OR INS_SET_CARRY) 22,
    opcode 0 INS_XCHGCC (ADDRMETH_E OR OPTYPE_b OR OP_W OR OP_R) (ADDRMETH_G OR OPTYPE_b OR OP_W) ARG_NONE (cpu_80486 OR isa_GP) ''cmpxchg'' 0 0 0 INS_SET_ALL 7,
    opcode 0 INS_XCHGCC (ADDRMETH_E OR OPTYPE_v OR OP_W OR OP_R) (ADDRMETH_G OR OPTYPE_v OR OP_W) ARG_NONE (cpu_80486 OR isa_GP) ''cmpxchg'' 0 0 0 INS_SET_ALL 7,
    opcode 0 INS_MOV (ADDRMETH_M OR OPTYPE_p OR OP_W) ARG_NONE ARG_NONE (cpu_80386 OR isa_GP) ''lss'' 0 0 0 0 0,
    opcode 0 INS_BITTEST (ADDRMETH_E OR OPTYPE_v OR OP_R) (ADDRMETH_G OR OPTYPE_v OR OP_R) ARG_NONE (cpu_80386 OR isa_GP) ''btr'' 0 0 0 INS_SET_CARRY 0,
    opcode 0 INS_MOV (ADDRMETH_M OR OPTYPE_p OR OP_W) ARG_NONE ARG_NONE (cpu_80386 OR isa_GP) ''lfs'' 0 0 0 0 0,
    opcode 0 INS_MOV (ADDRMETH_M OR OPTYPE_p OR OP_W) ARG_NONE ARG_NONE (cpu_80386 OR isa_GP) ''lgs'' 0 0 0 0 0,
    opcode 0 INS_MOV (ADDRMETH_G OR OPTYPE_v OR OP_W) (ADDRMETH_E OR OPTYPE_b OR OP_R) ARG_NONE (cpu_80386 OR isa_GP) ''movzx'' 0 0 0 0 0,
    opcode 0 INS_MOV (ADDRMETH_G OR OPTYPE_v OR OP_W) (ADDRMETH_E OR OPTYPE_w OR OP_R) ARG_NONE (cpu_80386 OR isa_GP) ''movzx'' 0 0 0 0 0,
    opcode 0 INS_INVALID ARG_NONE ARG_NONE ARG_NONE 0 '''' 0 0 0 0 0,
    opcode 0 INS_UNKNOWN ARG_NONE ARG_NONE ARG_NONE (cpu_80386 OR isa_GP) ''ud1'' 0 0 0 0 0,
    opcode idx_0FBA 0 ARG_NONE ARG_NONE ARG_NONE (cpu_80386 OR isa_GP) '''' 0 0 0 0 0,
    opcode 0 INS_BITTEST (ADDRMETH_E OR OPTYPE_v OR OP_R) (ADDRMETH_G OR OPTYPE_v OR OP_R) ARG_NONE (cpu_80386 OR isa_GP) ''btc'' 0 0 0 INS_SET_CARRY 0,
    opcode 0 INS_BITTEST (ADDRMETH_G OR OPTYPE_v OR OP_R OR OP_W) (ADDRMETH_E OR OPTYPE_v OR OP_R) ARG_NONE (cpu_80386 OR isa_GP) ''bsf'' 0 0 0 INS_SET_ZERO 0,
    opcode 0 INS_BITTEST (ADDRMETH_G OR OPTYPE_v OR OP_R OR OP_W) (ADDRMETH_E OR OPTYPE_v OR OP_R) ARG_NONE (cpu_80386 OR isa_GP) ''bsr'' 0 0 0 INS_SET_ZERO 0,
    opcode 0 INS_MOV (ADDRMETH_G OR OPTYPE_v OR OP_W) (ADDRMETH_E OR OPTYPE_b OR OP_R) ARG_NONE (cpu_80386 OR isa_GP) ''movsx'' 0 0 0 0 0,
    opcode 0 INS_MOV (ADDRMETH_G OR OPTYPE_v OR OP_W) (ADDRMETH_E OR OPTYPE_w OR OP_R) ARG_NONE (cpu_80386 OR isa_GP) ''movsx'' 0 0 0 0 0]"

definition tbl_0F_C0 :: "ia32_insn_t list" where
  "tbl_0F_C0 = [
    opcode 0 INS_ADD (ADDRMETH_E OR OPTYPE_b OR OP_W OR OP_R) (ADDRMETH_G OR OPTYPE_b OR OP_W) ARG_NONE (cpu_80486 OR isa_GP) ''xadd'' 0 0 0 INS_SET_ALL 0,
    opcode 0 INS_ADD (ADDRMETH_E OR OPTYPE_v OR OP_W OR OP_R) ARG_NONE ARG_NONE (cpu_80486 OR isa_GP) ''xadd'' 0 0 0 INS_SET_ALL 0,
    opcode 0 INS_CMP (ADDRMETH_V OR OPTYPE_ps OR OP_R) (ADDRMETH_W OR OPTYPE_ps OR OP_R) (ADDRMETH_I OR OPTYPE_b OR OP_R) (cpu_PENTIUM4 OR isa_GP) ''cmpps'' 0 0 0 0 0,
    opcode 0 INS_MOV (ADDRMETH_M OR OPTYPE_d OR OP_W) (ADDRMETH_G OR OPTYPE_d OR OP_R) ARG_NONE (cpu_PENTIUM4 OR isa_GP) ''movnti'' 0 0 0 0 0,
    opcode 0 INS_OTHER (ADDRMETH_P OR OPTYPE_q OR OP_W) (ADDRMETH_E OR OPTYPE_w OR OP_R) (ADDRMETH_I OR OPTYPE_b OR OP_R) (cpu_PENTIUM2 OR isa_GP) ''pinsrw'' 0 0 0 0 0,
    opcode 0 INS_OTHER (ADDRMETH_G OR OPTYPE_d OR OP_W) (ADDRMETH_Q OR OPTYPE_q OR OP_R) (ADDRMETH_I OR OPTYPE_b OR OP_R) (cpu_PENTIUM2 OR isa_GP) ''pextrw'' 0 0 0 0 0,
    opcode 0 INS_OTHER (ADDRMETH_V OR OPTYPE_ps OR OP_W) (ADDRMETH_W OR OPTYPE_ps OR OP_R) (ADDRMETH_I OR OPTYPE_b OR OP_R) (cpu_PENTIUM2 OR isa_GP) ''shufps'' 0 0 0 0 0,
    opcode 0 INS_XCHGCC (ADDRMETH_M OR OPTYPE_q OR OP_R OR OP_W) ARG_NONE ARG_NONE (cpu_PENTIUM OR isa_GP) ''cmpxchg8b'' 0 0 0 0 9,
    opcode 0 INS_XCHG (ADDRMETH_RR OR OPTYPE_d OR OP_W OR OP_R) ARG_NONE ARG_NONE (cpu_80486 OR isa_GP) ''bswap'' 0 0 0 0 0,
    opcode 0 INS_XCHG (ADDRMETH_RR OR OPTYPE_d OR OP_W OR OP_R) ARG_NONE ARG_NONE (cpu_80486 OR isa_GP) ''bswap'' 1 0 0 0 0,
    opcode 0 INS_XCHG (ADDRMETH_RR OR OPTYPE_d OR OP_W OR OP_R) ARG_NONE ARG_NONE (cpu_80486 OR isa_GP) ''bswap'' 2 0 0 0 0,
    opcode 0 INS_XCHG (ADDRMETH_RR OR OPTYPE_d OR OP_W OR OP_R) ARG_NONE ARG_NONE (cpu_80486 OR isa_GP) ''bswap'' 3 0 0 0 0,
    opcode 0 INS_XCHG (ADDRMETH_RR OR OPTYPE_d OR OP_W OR OP_R) ARG_NONE ARG_NONE (cpu_80486 OR isa_GP) ''bswap'' 4 0 0 0 0,
    opcode 0 INS_XCHG (ADDRMETH_RR OR OPTYPE_d OR OP_W OR OP_R) ARG_NONE ARG_NONE (cpu_80486 OR isa_GP) ''bswap'' 5 0 0 0 0,
    opcode 0 INS_XCHG (ADDRMETH_RR OR OPTYPE_d OR OP_W OR OP_R) ARG_NONE ARG_NONE (cpu_80486 OR isa_GP) ''bswap'' 6 0 0 0 0,
    opcode 0 INS_XCHG (ADDRMETH_RR OR OPTYPE_d OR OP_W OR OP_R) ARG_NONE ARG_NONE (cpu_80486 OR isa_GP) ''bswap'' 7 0 0 0 0,
    opcode 0 INS_INVALID ARG_NONE ARG_NONE ARG_NONE 0 '''' 0 0 0 0 0,
    opcode 0 INS_OTHER (ADDRMETH_P OR OPTYPE_q OR OP_W) (ADDRMETH_Q OR OPTYPE_q OR OP_R) ARG_NONE (cpu_PENTIUM OR isa_MMX) ''psrlw'' 0 0 0 0 0,
    opcode 0 INS_OTHER (ADDRMETH_P OR OPTYPE_q OR OP_W) (ADDRMETH_Q OR OPTYPE_q OR OP_R) ARG_NONE (cpu_PENTIUM OR isa_MMX) ''psrld'' 0 0 0 0 0,
    opcode 0 INS_OTHER (ADDRMETH_P OR OPTYPE_q OR OP_W) (ADDRMETH_Q OR OPTYPE_q OR OP_R) ARG_NONE (cpu_PENTIUM OR isa_MMX) ''psrlq'' 0 0 0 0 0,
    opcode 0 INS_ADD (ADDRMETH_P OR OPTYPE_q OR OP_R OR OP_W) (ADDRMETH_Q OR OPTYPE_q OR OP_R) ARG_NONE (cpu_PENTIUM4 OR isa_GP) ''paddq'' 0 0 0 0 0,
    opcode 0 INS_OTHER (ADDRMETH_P OR OPTYPE_q OR OP_W) (ADDRMETH_Q OR OPTYPE_q OR OP_R) ARG_NONE (cpu_PENTIUM OR isa_MMX) ''pmullw'' 0 0 0 0 0,
    opcode 0 INS_INVALID ARG_NONE ARG_NONE ARG_NONE 0 '''' 0 0 0 0 0,
    opcode 0 INS_OTHER (ADDRMETH_G OR OPTYPE_d OR OP_W) (ADDRMETH_Q OR OPTYPE_q OR OP_R) ARG_NONE (cpu_PENTIUM2 OR isa_GP) ''pmovmskb'' 0 0 0 0 0,
    opcode 0 INS_OTHER (ADDRMETH_P OR OPTYPE_q OR OP_W) (ADDRMETH_Q OR OPTYPE_q OR OP_R) ARG_NONE (cpu_PENTIUM OR isa_MMX) ''psubusb'' 0 0 0 0 0,
    opcode 0 INS_OTHER (ADDRMETH_P OR OPTYPE_q OR OP_W) (ADDRMETH_Q OR OPTYPE_q OR OP_R) ARG_NONE (cpu_PENTIUM OR isa_MMX) ''psubusw'' 0 0 0 0 0,
    opcode 0 INS_OTHER (ADDRMETH_P OR OPTYPE_q OR OP_W) (ADDRMETH_Q OR OPTYPE_q OR OP_R) ARG_NONE (cpu_PENTIUM2 OR isa_GP) ''pminub'' 0 0 0 0 0,
    opcode 0 INS_AND (ADDRMETH_P OR OPTYPE_q OR OP_W) (ADDRMETH_Q OR OPTYPE_q OR OP_R) ARG_NONE (cpu_PENTIUM OR isa_MMX) ''pand'' 0 0 0 0 0,
    opcode 0 INS_ADD (ADDRMETH_P OR OPTYPE_q OR OP_W) (ADDRMETH_Q OR OPTYPE_q OR OP_R) ARG_NONE (cpu_PENTIUM OR isa_MMX) ''paddusb'' 0 0 0 0 0,
    opcode 0 INS_ADD (ADDRMETH_P OR OPTYPE_q OR OP_W) (ADDRMETH_Q OR OPTYPE_q OR OP_R) ARG_NONE (cpu_PENTIUM OR isa_MMX) ''paddusw'' 0 0 0 0 0,
    opcode 0 INS_ARITH (ADDRMETH_P OR OPTYPE_q OR OP_W) (ADDRMETH_Q OR OPTYPE_q OR OP_R) ARG_NONE (cpu_PENTIUM2 OR isa_GP) ''pmaxub'' 0 0 0 0 0,
    opcode 0 INS_AND (ADDRMETH_P OR OPTYPE_q OR OP_W) (ADDRMETH_Q OR OPTYPE_q OR OP_R) ARG_NONE (cpu_PENTIUM OR isa_MMX) ''pandn'' 0 0 0 0 0,
    opcode 0 INS_OTHER (ADDRMETH_P OR OPTYPE_q OR OP_W) (ADDRMETH_Q OR OPTYPE_q OR OP_R) ARG_NONE (cpu_PENTIUM2 OR isa_GP) ''pavgb'' 0 0 0 0 0,
    opcode 0 INS_OTHER (ADDRMETH_P OR OPTYPE_q OR OP_W) (ADDRMETH_Q OR OPTYPE_q OR OP_R) ARG_NONE (cpu_PENTIUM OR isa_MMX) ''psraw'' 0 0 0 0 0,
    opcode 0 INS_OTHER (ADDRMETH_P OR OPTYPE_q OR OP_W) (ADDRMETH_Q OR OPTYPE_q OR OP_R) ARG_NONE (cpu_PENTIUM OR isa_MMX) ''psrad'' 0 0 0 0 0,
    opcode 0 INS_OTHER (ADDRMETH_P OR OPTYPE_q OR OP_W) (ADDRMETH_Q OR OPTYPE_q OR OP_R) ARG_NONE (cpu_PENTIUM2 OR isa_GP) ''pavgw'' 0 0 0 0 0,
    opcode 0 INS_MUL (ADDRMETH_P OR OPTYPE_q OR OP_W) (ADDRMETH_Q OR OPTYPE_q OR OP_R) ARG_NONE (cpu_PENTIUM2 OR isa_GP) ''pmulhuw'' 0 0 0 0 0,
    opcode 0 INS_MUL (ADDRMETH_P OR OPTYPE_q OR OP_W) (ADDRMETH_Q OR OPTYPE_q OR OP_R) ARG_NONE (cpu_PENTIUM OR isa_MMX) ''pmulhw'' 0 0 0 0 0,
    opcode 0 INS_INVALID ARG_NONE ARG_NONE ARG_NONE 0 '''' 0 0 0 0 0,
    opcode 0 INS_MOV (ADDRMETH_W OR OPTYPE_q OR OP_W) (ADDRMETH_V OR OPTYPE_q OR OP_R) ARG_NONE (cpu_PENTIUM2 OR isa_GP) ''movntq'' 0 0 0 0 0,
    opcode 0 INS_SUB (ADDRMETH_P OR OPTYPE_q OR OP_W) (ADDRMETH_Q OR OPTYPE_q OR OP_R) ARG_NONE (cpu_PENTIUM OR isa_MMX) ''psubsb'' 0 0 0 0 0,
    opcode 0 INS_SUB (ADDRMETH_P OR OPTYPE_q OR OP_W) (ADDRMETH_Q OR OPTYPE_q OR OP_R) ARG_NONE (cpu_PENTIUM OR isa_MMX) ''psubsw'' 0 0 0 0 0,
    opcode 0 INS_ARITH (ADDRMETH_P OR OPTYPE_q OR OP_W) (ADDRMETH_Q OR OPTYPE_q OR OP_R) ARG_NONE (cpu_PENTIUM2 OR isa_GP) ''pminsw'' 0 0 0 0 0,
    opcode 0 INS_OR (ADDRMETH_P OR OPTYPE_q OR OP_W) (ADDRMETH_Q OR OPTYPE_q OR OP_R) ARG_NONE (cpu_PENTIUM OR isa_MMX) ''por'' 0 0 0 0 0,
    opcode 0 INS_ADD (ADDRMETH_P OR OPTYPE_q OR OP_W) (ADDRMETH_Q OR OPTYPE_q OR OP_R) ARG_NONE (cpu_PENTIUM OR isa_MMX) ''paddsb'' 0 0 0 0 0,
    opcode 0 INS_ADD (ADDRMETH_P OR OPTYPE_q OR OP_W) (ADDRMETH_Q OR OPTYPE_q OR OP_R) ARG_NONE (cpu_PENTIUM OR isa_MMX) ''paddsw'' 0 0 0 0 0,
    opcode 0 INS_ARITH (ADDRMETH_P OR OPTYPE_q OR OP_W) (ADDRMETH_Q OR OPTYPE_q OR OP_R) ARG_NONE (cpu_PENTIUM2 OR isa_GP) ''pmaxsw'' 0 0 0 0 0,
    opcode 0 INS_XOR (ADDRMETH_P OR OPTYPE_q OR OP_W) (ADDRMETH_Q OR OPTYPE_q OR OP_R) ARG_NONE (cpu_PENTIUM OR isa_MMX) ''pxor'' 0 0 0 0 0,
    opcode 0 INS_INVALID ARG_NONE ARG_NONE ARG_NONE 0 '''' 0 0 0 0 0,
    opcode 0 INS_OTHER (ADDRMETH_P OR OPTYPE_q OR OP_W) (ADDRMETH_Q OR OPTYPE_q OR OP_R) ARG_NONE (cpu_PENTIUM OR isa_MMX) ''psllw'' 0 0 0 0 0,
    opcode 0 INS_OTHER (ADDRMETH_P OR OPTYPE_q OR OP_W) (ADDRMETH_Q OR OPTYPE_q OR OP_R) ARG_NONE (cpu_PENTIUM OR isa_MMX) ''pslld'' 0 0 0 0 0,
    opcode 0 INS_OTHER (ADDRMETH_P OR OPTYPE_q OR OP_W) (ADDRMETH_Q OR OPTYPE_q OR OP_R) ARG_NONE (cpu_PENTIUM OR isa_MMX) ''psllq'' 0 0 0 0 0,
    opcode 0 INS_MUL (ADDRMETH_P OR OPTYPE_q OR OP_R OR OP_W) (ADDRMETH_Q OR OPTYPE_q OR OP_R) ARG_NONE (cpu_PENTIUM4 OR isa_GP) ''pmuludq'' 0 0 0 0 0,
    opcode 0 INS_ADD (ADDRMETH_P OR OPTYPE_q OR OP_W) (ADDRMETH_Q OR OPTYPE_q OR OP_R) ARG_NONE (cpu_PENTIUM OR isa_MMX) ''pmaddwd'' 0 0 0 0 0,
    opcode 0 INS_OTHER (ADDRMETH_P OR OPTYPE_q OR OP_W) (ADDRMETH_Q OR OPTYPE_q OR OP_R) ARG_NONE (cpu_PENTIUM2 OR isa_GP) ''psadbw'' 0 0 0 0 0,
    opcode 0 INS_MOV (ADDRMETH_P OR OPTYPE_pi OR OP_W) (ADDRMETH_Q OR OPTYPE_pi OR OP_R) ARG_NONE (cpu_PENTIUM2 OR isa_GP) ''maskmovq'' 0 0 0 0 0,
    opcode 0 INS_SUB (ADDRMETH_P OR OPTYPE_q OR OP_W) (ADDRMETH_Q OR OPTYPE_q OR OP_R) ARG_NONE (cpu_PENTIUM OR isa_MMX) ''psubb'' 0 0 0 0 0,
    opcode 0 INS_SUB (ADDRMETH_P OR OPTYPE_q OR OP_W) (ADDRMETH_Q OR OPTYPE_q OR OP_R) ARG_NONE (cpu_PENTIUM OR isa_MMX) ''psubw'' 0 0 0 0 0,
    opcode 0 INS_SUB (ADDRMETH_P OR OPTYPE_q OR OP_W) (ADDRMETH_Q OR OPTYPE_q OR OP_R) ARG_NONE (cpu_PENTIUM OR isa_MMX) ''psubd'' 0 0 0 0 0,
    opcode 0 INS_SUB (ADDRMETH_P OR OPTYPE_q OR OP_R OR OP_W) (ADDRMETH_Q OR OPTYPE_q OR OP_R) ARG_NONE (cpu_PENTIUM4 OR isa_GP) ''psubq'' 0 0 0 0 0,
    opcode 0 INS_ADD (ADDRMETH_P OR OPTYPE_q OR OP_W) (ADDRMETH_Q OR OPTYPE_q OR OP_R) ARG_NONE (cpu_PENTIUM OR isa_MMX) ''paddb'' 0 0 0 0 0,
    opcode 0 INS_ADD (ADDRMETH_P OR OPTYPE_q OR OP_W) (ADDRMETH_Q OR OPTYPE_q OR OP_R) ARG_NONE (cpu_PENTIUM OR isa_MMX) ''paddw'' 0 0 0 0 0,
    opcode 0 INS_ADD (ADDRMETH_P OR OPTYPE_q OR OP_W) (ADDRMETH_Q OR OPTYPE_q OR OP_R) ARG_NONE (cpu_PENTIUM OR isa_MMX) ''paddd'' 0 0 0 0 0,
    opcode 0 INS_INVALID ARG_NONE ARG_NONE ARG_NONE 0 '''' 0 0 0 0 0]"

definition tbl_0F :: "ia32_insn_t list" where
  "tbl_0F = tbl_0F_00 @ tbl_0F_40 @ tbl_0F_80 @ tbl_0F_C0"

definition tbl_660F_00 :: "ia32_insn_t list" where
  "tbl_660F_00 = [
    opcode 0 INS_UNKNOWN (ADDRMETH_V OR OPTYPE_pd OR OP_R) (ADDRMETH_W OR OPTYPE_pd OR OP_R) ARG_NONE (cpu_PENTIUM4 OR isa_GP) ''movupd'' 0 0 0 0 0,
    opcode 0 INS_UNKNOWN (ADDRMETH_W OR OPTYPE_pd OR OP_R) (ADDRMETH_V OR OPTYPE_pd OR OP_R) ARG_NONE (cpu_PENTIUM4 OR isa_GP) ''movupd'' 0 0 0 0 0,
    opcode 0 INS_INVALID ARG_NONE ARG_NONE ARG_NONE (cpu_PENTIUM4 OR isa_GP) '''' 0 0 0 0 0,
    opcode 0 INS_UNKNOWN (ADDRMETH_M OR OPTYPE_q OR OP_R) (ADDRMETH_V OR OPTYPE_q OR OP_R) ARG_NONE (cpu_PENTIUM4 OR isa_GP) ''movlpd'' 0 0 0 0 0,
    opcode 0 INS_UNKNOWN (ADDRMETH_V OR OPTYPE_pd OR OP_R) (ADDRMETH_W OR OPTYPE_pd OR OP_R) ARG_NONE (cpu_PENTIUM4 OR isa_GP) ''unpcklpd'' 0 0 0 0 0,
    opcode 0 INS_UNKNOWN (ADDRMETH_V OR OPTYPE_pd OR OP_R) (ADDRMETH_W OR OPTYPE_pd OR OP_R) ARG_NONE (cpu_PENTIUM4 OR isa_GP) ''unpckhpd'' 0 0 0 0 0,
    opcode 0 INS_UNKNOWN (ADDRMETH_V OR OPTYPE_q OR OP_R) (ADDRMETH_M OR OPTYPE_q OR OP_R) ARG_NONE (cpu_PENTIUM4 OR isa_GP) ''movhpd'' 0 0 0 0 0,
    opcode 0 INS_UNKNOWN (ADDRMETH_M OR OPTYPE_q OR OP_R) (ADDRMETH_V OR OPTYPE_pd OR OP_R) ARG_NONE (cpu_PENTIUM4 OR isa_GP) ''movhpd'' 0 0 0 0 0,
    opcode 0 INS_INVALID ARG_NONE ARG_NONE ARG_NONE (cpu_PENTIUM4 OR isa_GP) '''' 0 0 0 0 0,
    opcode 0 INS_INVALID ARG_NONE ARG_NONE ARG_NONE (cpu_PENTIUM4 OR isa_GP) '''' 0 0 0 0 0,
    opcode 0 INS_INVALID ARG_NONE ARG_NONE ARG_NONE (cpu_PENTIUM4 OR isa_GP) '''' 0 0 0 0 0,
    opcode 0 INS_INVALID ARG_NONE ARG_NONE ARG_NONE (cpu_PENTIUM4 OR isa_GP) '''' 0 0 0 0 0,
    opcode 0 INS_INVALID ARG_NONE ARG_NONE ARG_NONE (cpu_PENTIUM4 OR isa_GP) '''' 0 0 0 0 0,
    opcode 0 INS_INVALID ARG_NONE ARG_NONE ARG_NONE (cpu_PENTIUM4 OR isa_GP) '''' 0 0 0 0 0,
    opcode 0 INS_INVALID ARG_NONE ARG_NONE ARG_NONE (cpu_PENTIUM4 OR isa_GP) '''' 0 0 0 0 0,
    opcode 0 INS_INVALID ARG_NONE ARG_NONE ARG_NONE (cpu_PENTIUM4 OR isa_GP) '''' 0 0 0 0 0,
    opcode 0 INS_INVALID ARG_NONE ARG_NONE ARG_NONE (cpu_PENTIUM4 OR isa_GP) '''' 0 0 0 0 0,
    opcode 0 INS_INVALID ARG_NONE ARG_NONE ARG_NONE (cpu_PENTIUM4 OR isa_GP) '''' 0 0 0 0 0,
    opcode 0 INS_INVALID ARG_NONE ARG_NONE ARG_NONE (cpu_PENTIUM4 OR isa_GP) '''' 0 0 0 0 0,
    opcode 0 INS_INVALID ARG_NONE ARG_NONE ARG_NONE (cpu_PENTIUM4 OR isa_GP) '''' 0 0 0 0 0,
    opcode 0 INS_INVALID ARG_NONE ARG_NONE ARG_NONE (cpu_PENTIUM4 OR isa_GP) '''' 0 0 0 0 0,
    opcode 0 INS_INVALID ARG_NONE ARG_NONE ARG_NONE (cpu_PENTIUM4 OR isa_GP) '''' 0 0 0 0 0,
    opcode 0 INS_INVALID ARG_NONE ARG_NONE ARG_NONE (cpu_PENTIUM4 OR isa_GP) '''' 0 0 0 0 0,
    opcode 0 INS_INVALID ARG_NONE ARG_NONE ARG_NONE (cpu_PENTIUM4 OR isa_GP) '''' 0 0 0 0 0,
    opcode 0 INS_UNKNOWN (ADDRMETH_V OR OPTYPE_pd OR OP_R) (ADDRMETH_W OR OPTYPE_pd OR OP_R) ARG_NONE (cpu_PENTIUM4 OR isa_GP) ''movapd'' 0 0 0 0 0,
    opcode 0 INS_UNKNOWN (ADDRMETH_W OR OPTYPE_pd OR OP_R) (ADDRMETH_V OR OPTYPE_pd OR OP_R) ARG_NONE (cpu_PENTIUM4 OR isa_GP) ''movapd'' 0 0 0 0 0,
    opcode 0 INS_UNKNOWN (ADDRMETH_V OR OPTYPE_pd OR OP_R) (ADDRMETH_Q OR OPTYPE_q OR OP_R) ARG_NONE (cpu_PENTIUM4 OR isa_GP) ''cvtpi2pd'' 0 0 0 0 0,
    opcode 0 INS_UNKNOWN (ADDRMETH_M OR OPTYPE_pd OR OP_R) (ADDRMETH_V OR OPTYPE_pd OR OP_R) ARG_NONE (cpu_PENTIUM4 OR isa_GP) ''movntpd'' 0 0 0 0 0,
    opcode 0 INS_UNKNOWN (ADDRMETH_P OR OPTYPE_q OR OP_R) (ADDRMETH_W OR OPTYPE_pd OR OP_R) ARG_NONE (cpu_PENTIUM4 OR isa_GP) ''cvttpd2pi'' 0 0 0 0 0,
    opcode 0 INS_UNKNOWN (ADDRMETH_P OR OPTYPE_q OR OP_R) (ADDRMETH_W OR OPTYPE_pd OR OP_R) ARG_NONE (cpu_PENTIUM4 OR isa_GP) ''cvtpd2pi'' 0 0 0 0 0,
    opcode 0 INS_UNKNOWN (ADDRMETH_V OR OPTYPE_sd OR OP_R) (ADDRMETH_W OR OPTYPE_sd OR OP_R) ARG_NONE (cpu_PENTIUM4 OR isa_GP) ''ucomisd'' 0 0 0 0 0,
    opcode 0 INS_UNKNOWN (ADDRMETH_V OR OPTYPE_sd OR OP_R) (ADDRMETH_W OR OPTYPE_sd OR OP_R) ARG_NONE (cpu_PENTIUM4 OR isa_GP) ''comisd'' 0 0 0 0 0,
    opcode 0 INS_INVALID ARG_NONE ARG_NONE ARG_NONE (cpu_PENTIUM4 OR isa_GP) '''' 0 0 0 0 0,
    opcode 0 INS_INVALID ARG_NONE ARG_NONE ARG_NONE (cpu_PENTIUM4 OR isa_GP) '''' 0 0 0 0 0,
    opcode 0 INS_INVALID ARG_NONE ARG_NONE ARG_NONE (cpu_PENTIUM4 OR isa_GP) '''' 0 0 0 0 0,
    opcode 0 INS_INVALID ARG_NONE ARG_NONE ARG_NONE (cpu_PENTIUM4 OR isa_GP) '''' 0 0 0 0 0,
    opcode 0 INS_INVALID ARG_NONE ARG_NONE ARG_NONE (cpu_PENTIUM4 OR isa_GP) '''' 0 0 0 0 0,
    opcode 0 INS_INVALID ARG_NONE ARG_NONE ARG_NONE (cpu_PENTIUM4 OR isa_GP) '''' 0 0 0 0 0,
    opcode 0 INS_INVALID ARG_NONE ARG_NONE ARG_NONE (cpu_PENTIUM4 OR isa_GP) '''' 0 0 0 0 0,
    opcode 0 INS_INVALID ARG_NONE ARG_NONE ARG_NONE (cpu_PENTIUM4 OR isa_GP) '''' 0 0 0 0 0,
    opcode 0 INS_INVALID ARG_NONE ARG_NONE ARG_NONE (cpu_PENTIUM4 OR isa_GP) '''' 0 0 0 0 0,
    opcode 0 INS_INVALID ARG_NONE ARG_NONE ARG_NONE (cpu_PENTIUM4 OR isa_GP) '''' 0 0 0 0 0,
    opcode 0 INS_INVALID ARG_NONE ARG_NONE ARG_NONE (cpu_PENTIUM4 OR isa_GP) '''' 0 0 0 0 0,
    opcode 0 INS_INVALID ARG_NONE ARG_NONE ARG_NONE (cpu_PENTIUM4 OR isa_GP) '''' 0 0 0 0 0,
    opcode 0 INS_INVALID ARG_NONE ARG_NONE ARG_NONE (cpu_PENTIUM4 OR isa_GP) '''' 0 0 0 0 0,
    opcode 0 INS_INVALID ARG_NONE ARG_NONE ARG_NONE (cpu_PENTIUM4 OR isa_GP) '''' 0 0 0 0 0,
    opcode 0 INS_INVALID ARG_NONE ARG_NONE ARG_NONE (cpu_PENTIUM4 OR isa_GP) '''' 0 0 0 0 0,
    opcode 0 INS_INVALID ARG_NONE ARG_NONE ARG_NONE (cpu_PENTIUM4 OR isa_GP) '''' 0 0 0 0 0,
    opcode 0 INS_INVALID ARG_NONE ARG_NONE ARG_NONE (cpu_PENTIUM4 OR isa_GP) '''' 0 0 0 0 0,
    opcode 0 INS_INVALID ARG_NONE ARG_NONE ARG_NONE (cpu_PENTIUM4 OR isa_GP) '''' 0 0 0 0 0,
    opcode 0 INS_INVALID ARG_NONE ARG_NONE ARG_NONE (cpu_PENTIUM4 OR isa_GP) '''' 0 0 0 0 0,
    opcode 0 INS_INVALID ARG_NONE ARG_NONE ARG_NONE (cpu_PENTIUM4 OR isa_GP) '''' 0 0 0 0 0,
    opcode 0 INS_INVALID ARG_NONE ARG_NONE ARG_NONE (cpu_PENTIUM4 OR isa_GP) '''' 0 0 0 0 0,
    opcode 0 INS_INVALID ARG_NONE ARG_NONE ARG_NONE (cpu_PENTIUM4 OR isa_GP) '''' 0 0 0 0 0,
    opcode 0 INS_INVALID ARG_NONE ARG_NONE ARG_NONE (cpu_PENTIUM4 OR isa_GP) '''' 0 0 0 0 0,
    opcode 0 INS_INVALID ARG_NONE ARG_NONE ARG_NONE (cpu_PENTIUM4 OR isa_GP) '''' 0 0 0 0 0,
    opcode 0 INS_INVALID ARG_NONE ARG_NONE ARG_NONE (cpu_PENTIUM4 OR isa_GP) '''' 0 0 0 0 0,
    opcode 0 INS_INVALID ARG_NONE ARG_NONE ARG_NONE (cpu_PENTIUM4 OR isa_GP) '''' 0 0 0 0 0,
    opcode 0 INS_INVALID ARG_NONE ARG_NONE ARG_NONE (cpu_PENTIUM4 OR isa_GP) '''' 0 0 0 0 0,
    opcode 0 INS_INVALID ARG_NONE ARG_NONE ARG_NONE (cpu_PENTIUM4 OR isa_GP) '''' 0 0 0 0 0,
    opcode 0 INS_INVALID ARG_NONE ARG_NONE ARG_NONE (cpu_PENTIUM4 OR isa_GP) '''' 0 0 0 0 0,
    opcode 0 INS_INVALID ARG_NONE ARG_NONE ARG_NONE (cpu_PENTIUM4 OR isa_GP) '''' 0 0 0 0 0,
    opcode 0 INS_INVALID ARG_NONE ARG_NONE ARG_NONE (cpu_PENTIUM4 OR isa_GP) '''' 0 0 0 0 0,
    opcode 0 INS_INVALID ARG_NONE ARG_NONE ARG_NONE (cpu_PENTIUM4 OR isa_GP) '''' 0 0 0 0 0]"

definition tbl_660F_40 :: "ia32_insn_t list" where
  "tbl_660F_40 = [
    opcode 0 INS_UNKNOWN (ADDRMETH_G OR OPTYPE_d OR OP_R) (ADDRMETH_W OR OPTYPE_pd OR OP_R) ARG_NONE (cpu_PENTIUM4 OR isa_GP) ''movmskpd'' 0 0 0 0 0,
    opcode 0 INS_UNKNOWN (ADDRMETH_V OR OPTYPE_pd OR OP_R) (ADDRMETH_W OR OPTYPE_pd OR OP_R) ARG_NONE (cpu_PENTIUM4 OR isa_GP) ''sqrtpd'' 0 0 0 0 0,
    opcode 0 INS_INVALID ARG_NONE ARG_NONE ARG_NONE (cpu_PENTIUM4 OR isa_GP) '''' 0 0 0 0 0,
    opcode 0 INS_INVALID ARG_NONE ARG_NONE ARG_NONE (cpu_PENTIUM4 OR isa_GP) '''' 0 0 0 0 0,
    opcode 0 INS_UNKNOWN (ADDRMETH_V OR OPTYPE_pd OR OP_R) (ADDRMETH_W OR OPTYPE_pd OR OP_R) ARG_NONE (cpu_PENTIUM4 OR isa_GP) ''andpd'' 0 0 0 0 0,
    opcode 0 INS_UNKNOWN (ADDRMETH_V OR OPTYPE_pd OR OP_R) (ADDRMETH_W OR OPTYPE_pd OR OP_R) ARG_NONE (cpu_PENTIUM4 OR isa_GP) ''andnpd'' 0 0 0 0 0,
    opcode 0 INS_UNKNOWN (ADDRMETH_V OR OPTYPE_pd OR OP_R) (ADDRMETH_W OR OPTYPE_pd OR OP_R) ARG_NONE (cpu_PENTIUM4 OR isa_GP) ''orpd'' 0 0 0 0 0,
    opcode 0 INS_UNKNOWN (ADDRMETH_V OR OPTYPE_pd OR OP_R) (ADDRMETH_W OR OPTYPE_pd OR OP_R) ARG_NONE (cpu_PENTIUM4 OR isa_GP) ''xorpd'' 0 0 0 0 0,
    opcode 0 INS_UNKNOWN (ADDRMETH_V OR OPTYPE_pd OR OP_R) (ADDRMETH_W OR OPTYPE_pd OR OP_R) ARG_NONE (cpu_PENTIUM4 OR isa_GP) ''addpd'' 0 0 0 0 0,
    opcode 0 INS_UNKNOWN (ADDRMETH_V OR OPTYPE_pd OR OP_R) (ADDRMETH_W OR OPTYPE_pd OR OP_R) ARG_NONE (cpu_PENTIUM4 OR isa_GP) ''mulpd'' 0 0 0 0 0,
    opcode 0 INS_UNKNOWN (ADDRMETH_V OR OPTYPE_ps OR OP_R) (ADDRMETH_W OR OPTYPE_pd OR OP_R) ARG_NONE (cpu_PENTIUM4 OR isa_GP) ''cvtpd2ps'' 0 0 0 0 0,
    opcode 0 INS_UNKNOWN (ADDRMETH_V OR OPTYPE_dq OR OP_R) (ADDRMETH_W OR OPTYPE_ps OR OP_R) ARG_NONE (cpu_PENTIUM4 OR isa_GP) ''cvtps2dq'' 0 0 0 0 0,
    opcode 0 INS_UNKNOWN (ADDRMETH_V OR OPTYPE_pd OR OP_R) (ADDRMETH_W OR OPTYPE_pd OR OP_R) ARG_NONE (cpu_PENTIUM4 OR isa_GP) ''subpd'' 0 0 0 0 0,
    opcode 0 INS_UNKNOWN (ADDRMETH_V OR OPTYPE_pd OR OP_R) (ADDRMETH_W OR OPTYPE_pd OR OP_R) ARG_NONE (cpu_PENTIUM4 OR isa_GP) ''minpd'' 0 0 0 0 0,
    opcode 0 INS_UNKNOWN (ADDRMETH_V OR OPTYPE_pd OR OP_R) (ADDRMETH_W OR OPTYPE_pd OR OP_R) ARG_NONE (cpu_PENTIUM4 OR isa_GP) ''divpd'' 0 0 0 0 0,
    opcode 0 INS_UNKNOWN (ADDRMETH_V OR OPTYPE_pd OR OP_R) (ADDRMETH_W OR OPTYPE_pd OR OP_R) ARG_NONE (cpu_PENTIUM4 OR isa_GP) ''maxpd'' 0 0 0 0 0,
    opcode 0 INS_UNKNOWN (ADDRMETH_V OR OPTYPE_dq OR OP_R) (ADDRMETH_W OR OPTYPE_dq OR OP_R) ARG_NONE (cpu_PENTIUM4 OR isa_GP) ''punpcklbw'' 0 0 0 0 0,
    opcode 0 INS_UNKNOWN (ADDRMETH_V OR OPTYPE_dq OR OP_R) (ADDRMETH_W OR OPTYPE_dq OR OP_R) ARG_NONE (cpu_PENTIUM4 OR isa_GP) ''punpcklwd'' 0 0 0 0 0,
    opcode 0 INS_UNKNOWN (ADDRMETH_V OR OPTYPE_dq OR OP_R) (ADDRMETH_W OR OPTYPE_dq OR OP_R) ARG_NONE (cpu_PENTIUM4 OR isa_GP) ''punpckldq'' 0 0 0 0 0,
    opcode 0 INS_UNKNOWN (ADDRMETH_V OR OPTYPE_dq OR OP_R) (ADDRMETH_W OR OPTYPE_dq OR OP_R) ARG_NONE (cpu_PENTIUM4 OR isa_GP) ''packsswb'' 0 0 0 0 0,
    opcode 0 INS_UNKNOWN (ADDRMETH_V OR OPTYPE_dq OR OP_R) (ADDRMETH_W OR OPTYPE_dq OR OP_R) ARG_NONE (cpu_PENTIUM4 OR isa_GP) ''pcmpgtb'' 0 0 0 0 0,
    opcode 0 INS_UNKNOWN (ADDRMETH_V OR OPTYPE_dq OR OP_R) (ADDRMETH_W OR OPTYPE_dq OR OP_R) ARG_NONE (cpu_PENTIUM4 OR isa_GP) ''pcmpgtw'' 0 0 0 0 0,
    opcode 0 INS_UNKNOWN (ADDRMETH_V OR OPTYPE_dq OR OP_R) (ADDRMETH_W OR OPTYPE_dq OR OP_R) ARG_NONE (cpu_PENTIUM4 OR isa_GP) ''pcmpgtd'' 0 0 0 0 0,
    opcode 0 INS_UNKNOWN (ADDRMETH_V OR OPTYPE_dq OR OP_R) (ADDRMETH_W OR OPTYPE_dq OR OP_R) ARG_NONE (cpu_PENTIUM4 OR isa_GP) ''packuswb'' 0 0 0 0 0,
    opcode 0 INS_UNKNOWN (ADDRMETH_V OR OPTYPE_dq OR OP_R) (ADDRMETH_Q OR OPTYPE_dq OR OP_R) ARG_NONE (cpu_PENTIUM4 OR isa_GP) ''punpckhbw'' 0 0 0 0 0,
    opcode 0 INS_UNKNOWN (ADDRMETH_V OR OPTYPE_dq OR OP_R) (ADDRMETH_Q OR OPTYPE_dq OR OP_R) ARG_NONE (cpu_PENTIUM4 OR isa_GP) ''punpckhwd'' 0 0 0 0 0,
    opcode 0 INS_UNKNOWN (ADDRMETH_V OR OPTYPE_dq OR OP_R) (ADDRMETH_Q OR OPTYPE_dq OR OP_R) ARG_NONE (cpu_PENTIUM4 OR isa_GP) ''punpckhdq'' 0 0 0 0 0,
    opcode 0 INS_UNKNOWN (ADDRMETH_V OR OPTYPE_dq OR OP_R) (ADDRMETH_Q OR OPTYPE_dq OR OP_R) ARG_NONE (cpu_PENTIUM4 OR isa_GP) ''packssdw'' 0 0 0 0 0,
    opcode 0 INS_UNKNOWN (ADDRMETH_V OR OPTYPE_dq OR OP_R) (ADDRMETH_W OR OPTYPE_dq OR OP_R) ARG_NONE (cpu_PENTIUM4 OR isa_GP) ''punpcklqdq'' 0 0 0 0 0,
    opcode 0 INS_UNKNOWN (ADDRMETH_V OR OPTYPE_dq OR OP_R) (ADDRMETH_W OR OPTYPE_dq OR OP_R) ARG_NONE (cpu_PENTIUM4 OR isa_GP) ''punpckhqdq'' 0 0 0 0 0,
    opcode 0 INS_UNKNOWN (ADDRMETH_V OR OPTYPE_d OR OP_R) (ADDRMETH_E OR OPTYPE_d OR OP_R) ARG_NONE (cpu_PENTIUM4 OR isa_GP) ''movd'' 0 0 0 0 0,
    opcode 0 INS_UNKNOWN (ADDRMETH_V OR OPTYPE_dq OR OP_R) (ADDRMETH_W OR OPTYPE_dq OR OP_R) ARG_NONE (cpu_PENTIUM4 OR isa_GP) ''movdqa'' 0 0 0 0 0,
    opcode 0 INS_UNKNOWN (ADDRMETH_V OR OPTYPE_dq OR OP_R) (ADDRMETH_W OR OPTYPE_dq OR OP_R) (ADDRMETH_I OR OPTYPE_b OR OP_R) (cpu_PENTIUM4 OR isa_GP) ''pshufd'' 0 0 0 0 0,
    opcode idx_660F71 INS_INVALID ARG_NONE ARG_NONE ARG_NONE (cpu_PENTIUM4 OR isa_GP) '''' 0 0 0 0 0,
    opcode idx_660F72 INS_INVALID ARG_NONE ARG_NONE ARG_NONE (cpu_PENTIUM4 OR isa_GP) '''' 0 0 0 0 0,
    opcode idx_660F73 INS_INVALID ARG_NONE ARG_NONE ARG_NONE (cpu_PENTIUM4 OR isa_GP) '''' 0 0 0 0 0,
    opcode 0 INS_UNKNOWN (ADDRMETH_V OR OPTYPE_dq OR OP_R) (ADDRMETH_W OR OPTYPE_dq OR OP_R) ARG_NONE (cpu_PENTIUM4 OR isa_GP) ''pcmpeqb'' 0 0 0 0 0,
    opcode 0 INS_UNKNOWN (ADDRMETH_V OR OPTYPE_dq OR OP_R) (ADDRMETH_W OR OPTYPE_dq OR OP_R) ARG_NONE (cpu_PENTIUM4 OR isa_GP) ''pcmpeqw'' 0 0 0 0 0,
    opcode 0 INS_UNKNOWN (ADDRMETH_V OR OPTYPE_dq OR OP_R) (ADDRMETH_W OR OPTYPE_dq OR OP_R) ARG_NONE (cpu_PENTIUM4 OR isa_GP) ''pcmpeqd'' 0 0 0 0 0,
    opcode 0 INS_INVALID ARG_NONE ARG_NONE ARG_NONE (cpu_PENTIUM4 OR isa_GP) '''' 0 0 0 0 0,
    opcode 0 INS_INVALID ARG_NONE ARG_NONE ARG_NONE (cpu_PENTIUM4 OR isa_GP) '''' 0 0 0 0 0,
    opcode 0 INS_INVALID ARG_NONE ARG_NONE ARG_NONE (cpu_PENTIUM4 OR isa_GP) '''' 0 0 0 0 0,
    opcode 0 INS_INVALID ARG_NONE ARG_NONE ARG_NONE (cpu_PENTIUM4 OR isa_GP) '''' 0 0 0 0 0,
    opcode 0 INS_INVALID ARG_NONE ARG_NONE ARG_NONE (cpu_PENTIUM4 OR isa_GP) '''' 0 0 0 0 0,
    opcode 0 INS_UNKNOWN (ADDRMETH_V OR OPTYPE_pd OR OP_R) (ADDRMETH_W OR OPTYPE_pd OR OP_R) ARG_NONE (cpu_PENTIUM4 OR isa_GP) ''haddpd'' 0 0 0 0 0,
    opcode 0 INS_UNKNOWN (ADDRMETH_V OR OPTYPE_pd OR OP_R) (ADDRMETH_W OR OPTYPE_pd OR OP_R) ARG_NONE (cpu_PENTIUM4 OR isa_GP) ''hsubpd'' 0 0 0 0 0,
    opcode 0 INS_UNKNOWN (ADDRMETH_E OR OPTYPE_d OR OP_R) (ADDRMETH_V OR OPTYPE_d OR OP_R) ARG_NONE (cpu_PENTIUM4 OR isa_GP) ''movd'' 0 0 0 0 0,
    opcode 0 INS_UNKNOWN (ADDRMETH_W OR OPTYPE_dq OR OP_R) (ADDRMETH_V OR OPTYPE_dq OR OP_R) ARG_NONE (cpu_PENTIUM4 OR isa_GP) ''movdqa'' 0 0 0 0 0,
    opcode 0 INS_INVALID ARG_NONE ARG_NONE ARG_NONE (cpu_PENTIUM4 OR isa_GP) '''' 0 0 0 0 0,
    opcode 0 INS_INVALID ARG_NONE ARG_NONE ARG_NONE (cpu_PENTIUM4 OR isa_GP) '''' 0 0 0 0 0,
    opcode 0 INS_INVALID ARG_NONE ARG_NONE ARG_NONE (cpu_PENTIUM4 OR isa_GP) '''' 0 0 0 0 0,
    opcode 0 INS_INVALID ARG_NONE ARG_NONE ARG_NONE (cpu_PENTIUM4 OR isa_GP) '''' 0 0 0 0 0,
    opcode 0 INS_INVALID ARG_NONE ARG_NONE ARG_NONE (cpu_PENTIUM4 OR isa_GP) '''' 0 0 0 0 0,
    opcode 0 INS_INVALID ARG_NONE ARG_NONE ARG_NONE (cpu_PENTIUM4 OR isa_GP) '''' 0 0 0 0 0,
    opcode 0 INS_INVALID ARG_NONE ARG_NONE ARG_NONE (cpu_PENTIUM4 OR isa_GP) '''' 0 0 0 0 0,
    opcode 0 INS_INVALID ARG_NONE ARG_NONE ARG_NONE (cpu_PENTIUM4 OR isa_GP) '''' 0 0 0 0 0,
    opcode 0 INS_INVALID ARG_NONE ARG_NONE ARG_NONE (cpu_PENTIUM4 OR isa_GP) '''' 0 0 0 0 0,
    opcode 0 INS_INVALID ARG_NONE ARG_NONE ARG_NONE (cpu_PENTIUM4 OR isa_GP) '''' 0 0 0 0 0,
    opcode 0 INS_INVALID ARG_NONE ARG_NONE ARG_NONE (cpu_PENTIUM4 OR isa_GP) '''' 0 0 0 0 0,
    opcode 0 INS_INVALID ARG_NONE ARG_NONE ARG_NONE (cpu_PENTIUM4 OR isa_GP) '''' 0 0 0 0 0,
    opcode 0 INS_INVALID ARG_NONE ARG_NONE ARG_NONE (cpu_PENTIUM4 OR isa_GP) '''' 0 0 0 0 0,
    opcode 0 INS_INVALID ARG_NONE ARG_NONE ARG_NONE (cpu_PENTIUM4 OR isa_GP) '''' 0 0 0 0 0,
    opcode 0 INS_INVALID ARG_NONE ARG_NONE ARG_NONE (cpu_PENTIUM4 OR isa_GP) '''' 0 0 0 0 0,
    opcode 0 INS_INVALID ARG_NONE ARG_NONE ARG_NONE (cpu_PENTIUM4 OR isa_GP) '''' 0 0 0 0 0]"

definition tbl_660F_80 :: "ia32_insn_t list" where
  "tbl_660F_80 = [
    opcode 0 INS_INVALID ARG_NONE ARG_NONE ARG_NONE (cpu_PENTIUM4 OR isa_GP) '''' 0 0 0 0 0,
    opcode 0 INS_INVALID ARG_NONE ARG_NONE ARG_NONE (cpu_PENTIUM4 OR isa_GP) '''' 0 0 0 0 0,
    opcode 0 INS_INVALID ARG_NONE ARG_NONE ARG_NONE (cpu_PENTIUM4 OR isa_GP) '''' 0 0 0 0 0,
    opcode 0 INS_INVALID ARG_NONE ARG_NONE ARG_NONE (cpu_PENTIUM4 OR isa_GP) '''' 0 0 0 0 0,
    opcode 0 INS_INVALID ARG_NONE ARG_NONE ARG_NONE (cpu_PENTIUM4 OR isa_GP) '''' 0 0 0 0 0,
    opcode 0 INS_INVALID ARG_NONE ARG_NONE ARG_NONE (cpu_PENTIUM4 OR isa_GP) '''' 0 0 0 0 0,
    opcode 0 INS_INVALID ARG_NONE ARG_NONE ARG_NONE (cpu_PENTIUM4 OR isa_GP) '''' 0 0 0 0 0,
    opcode 0 INS_INVALID ARG_NONE ARG_NONE ARG_NONE (cpu_PENTIUM4 OR isa_GP) '''' 0 0 0 0 0,
    opcode 0 INS_INVALID ARG_NONE ARG_NONE ARG_NONE (cpu_PENTIUM4 OR isa_GP) '''' 0 0 0 0 0,
    opcode 0 INS_INVALID ARG_NONE ARG_NONE ARG_NONE (cpu_PENTIUM4 OR isa_GP) '''' 0 0 0 0 0,
    opcode 0 INS_INVALID ARG_NONE ARG_NONE ARG_NONE (cpu_PENTIUM4 OR isa_GP) '''' 0 0 0 0 0,
    opcode 0 INS_INVALID ARG_NONE ARG_NONE ARG_NONE (cpu_PENTIUM4 OR isa_GP) '''' 0 0 0 0 0,
    opcode 0 INS_INVALID ARG_NONE ARG_NONE ARG_NONE (cpu_PENTIUM4 OR isa_GP) '''' 0 0 0 0 0,
    opcode 0 INS_INVALID ARG_NONE ARG_NONE ARG_NONE (cpu_PENTIUM4 OR isa_GP) '''' 0 0 0 0 0,
    opcode 0 INS_INVALID ARG_NONE ARG_NONE ARG_NONE (cpu_PENTIUM4 OR isa_GP) '''' 0 0 0 0 0,
    opcode 0 INS_INVALID ARG_NONE ARG_NONE ARG_NONE (cpu_PENTIUM4 OR isa_GP) '''' 0 0 0 0 0,
    opcode 0 INS_INVALID ARG_NONE ARG_NONE ARG_NONE (cpu_PENTIUM4 OR isa_GP) '''' 0 0 0 0 0,
    opcode 0 INS_INVALID ARG_NONE ARG_NONE ARG_NONE (cpu_PENTIUM4 OR isa_GP) '''' 0 0 0 0 0,
    opcode 0 INS_INVALID ARG_NONE ARG_NONE ARG_NONE (cpu_PENTIUM4 OR isa_GP) '''' 0 0 0 0 0,
    opcode 0 INS_INVALID ARG_NONE ARG_NONE ARG_NONE (cpu_PENTIUM4 OR isa_GP) '''' 0 0 0 0 0,
    opcode 0 INS_INVALID ARG_NONE ARG_NONE ARG_NONE (cpu_PENTIUM4 OR isa_GP) '''' 0 0 0 0 0,
    opcode 0 INS_INVALID ARG_NONE ARG_NONE ARG_NONE (cpu_PENTIUM4 OR isa_GP) '''' 0 0 0 0 0,
    opcode 0 INS_INVALID ARG_NONE ARG_NONE ARG_NONE (cpu_PENTIUM4 OR isa_GP) '''' 0 0 0 0 0,
    opcode 0 INS_INVALID ARG_NONE ARG_NONE ARG_NONE (cpu_PENTIUM4 OR isa_GP) '''' 0 0 0 0 0,
    opcode 0 INS_INVALID ARG_NONE ARG_NONE ARG_NONE (cpu_PENTIUM4 OR isa_GP) '''' 0 0 0 0 0,
    opcode 0 INS_INVALID ARG_NONE ARG_NONE ARG_NONE (cpu_PENTIUM4 OR isa_GP) '''' 0 0 0 0 0,
    opcode 0 INS_INVALID ARG_NONE ARG_NONE ARG_NONE (cpu_PENTIUM4 OR isa_GP) '''' 0 0 0 0 0,
    opcode 0 INS_INVALID ARG_NONE ARG_NONE ARG_NONE (cpu_PENTIUM4 OR isa_GP) '''' 0 0 0 0 0,
    opcode 0 INS_INVALID ARG_NONE ARG_NONE ARG_NONE (cpu_PENTIUM4 OR isa_GP) '''' 0 0 0 0 0,
    opcode 0 INS_INVALID ARG_NONE ARG_NONE ARG_NONE (cpu_PENTIUM4 OR isa_GP) '''' 0 0 0 0 0,
    opcode 0 INS_INVALID ARG_NONE ARG_NONE ARG_NONE (cpu_PENTIUM4 OR isa_GP) '''' 0 0 0 0 0,
    opcode 0 INS_INVALID ARG_NONE ARG_NONE ARG_NONE (cpu_PENTIUM4 OR isa_GP) '''' 0 0 0 0 0,
    opcode 0 INS_INVALID ARG_NONE ARG_NONE ARG_NONE (cpu_PENTIUM4 OR isa_GP) '''' 0 0 0 0 0,
    opcode 0 INS_INVALID ARG_NONE ARG_NONE ARG_NONE (cpu_PENTIUM4 OR isa_GP) '''' 0 0 0 0 0,
    opcode 0 INS_INVALID ARG_NONE ARG_NONE ARG_NONE (cpu_PENTIUM4 OR isa_GP) '''' 0 0 0 0 0,
    opcode 0 INS_INVALID ARG_NONE ARG_NONE ARG_NONE (cpu_PENTIUM4 OR isa_GP) '''' 0 0 0 0 0,
    opcode 0 INS_INVALID ARG_NONE ARG_NONE ARG_NONE (cpu_PENTIUM4 OR isa_GP) '''' 0 0 0 0 0,
    opcode 0 INS_INVALID ARG_NONE ARG_NONE ARG_NONE (cpu_PENTIUM4 OR isa_GP) '''' 0 0 0 0 0,
    opcode 0 INS_INVALID ARG_NONE ARG_NONE ARG_NONE (cpu_PENTIUM4 OR isa_GP) '''' 0 0 0 0 0,
    opcode 0 INS_INVALID ARG_NONE ARG_NONE ARG_NONE (cpu_PENTIUM4 OR isa_GP) '''' 0 0 0 0 0,
    opcode 0 INS_INVALID ARG_NONE ARG_NONE ARG_NONE (cpu_PENTIUM4 OR isa_GP) '''' 0 0 0 0 0,
    opcode 0 INS_INVALID ARG_NONE ARG_NONE ARG_NONE (cpu_PENTIUM4 OR isa_GP) '''' 0 0 0 0 0,
    opcode 0 INS_INVALID ARG_NONE ARG_NONE ARG_NONE (cpu_PENTIUM4 OR isa_GP) '''' 0 0 0 0 0,
    opcode 0 INS_INVALID ARG_NONE ARG_NONE ARG_NONE (cpu_PENTIUM4 OR isa_GP) '''' 0 0 0 0 0,
    opcode 0 INS_INVALID ARG_NONE ARG_NONE ARG_NONE (cpu_PENTIUM4 OR isa_GP) '''' 0 0 0 0 0,
    opcode 0 INS_INVALID ARG_NONE ARG_NONE ARG_NONE (cpu_PENTIUM4 OR isa_GP) '''' 0 0 0 0 0,
    opcode 0 INS_INVALID ARG_NONE ARG_NONE ARG_NONE (cpu_PENTIUM4 OR isa_GP) '''' 0 0 0 0 0,
    opcode 0 INS_INVALID ARG_NONE ARG_NONE ARG_NONE (cpu_PENTIUM4 OR isa_GP) '''' 0 0 0 0 0,
    opcode 0 INS_INVALID ARG_NONE ARG_NONE ARG_NONE (cpu_PENTIUM4 OR isa_GP) '''' 0 0 0 0 0,
    opcode 0 INS_INVALID ARG_NONE ARG_NONE ARG_NONE (cpu_PENTIUM4 OR isa_GP) '''' 0 0 0 0 0,
    opcode 0 INS_UNKNOWN (ADDRMETH_V OR OPTYPE_pd OR OP_R) (ADDRMETH_W OR OPTYPE_pd OR OP_R) (ADDRMETH_I OR OPTYPE_b OR OP_R) (cpu_PENTIUM4 OR isa_GP) ''cmppd'' 0 0 0 0 0,
    opcode 0 INS_INVALID ARG_NONE ARG_NONE ARG_NONE (cpu_PENTIUM4 OR isa_GP) '''' 0 0 0 0 0,
    opcode 0 INS_UNKNOWN (ADDRMETH_V OR OPTYPE_w OR OP_R) (ADDRMETH_E OR OPTYPE_w OR OP_R) (ADDRMETH_I OR OPTYPE_b OR OP_R) (cpu_PENTIUM4 OR isa_GP) ''pinsrw'' 0 0 0 0 0,
    opcode 0 INS_UNKNOWN (ADDRMETH_G OR OPTYPE_w OR OP_R) (ADDRMETH_W OR OPTYPE_w OR OP_R) (ADDRMETH_I OR OPTYPE_b OR OP_R) (cpu_PENTIUM4 OR isa_GP) ''pextrw'' 0 0 0 0 0,
    opcode 0 INS_UNKNOWN (ADDRMETH_V OR OPTYPE_pd OR OP_R) (ADDRMETH_W OR OPTYPE_pd OR OP_R) (ADDRMETH_I OR OPTYPE_b OR OP_R) (cpu_PENTIUM4 OR isa_GP) ''shufpd'' 0 0 0 0 0,
    opcode 0 INS_INVALID ARG_NONE ARG_NONE ARG_NONE (cpu_PENTIUM4 OR isa_GP) '''' 0 0 0 0 0,
    opcode 0 INS_INVALID ARG_NONE ARG_NONE ARG_NONE (cpu_PENTIUM4 OR isa_GP) '''' 0 0 0 0 0,
    opcode 0 INS_INVALID ARG_NONE ARG_NONE ARG_NONE (cpu_PENTIUM4 OR isa_GP) '''' 0 0 0 0 0,
    opcode 0 INS_INVALID ARG_NONE ARG_NONE ARG_NONE (cpu_PENTIUM4 OR isa_GP) '''' 0 0 0 0 0,
    opcode 0 INS_INVALID ARG_NONE ARG_NONE ARG_NONE (cpu_PENTIUM4 OR isa_GP) '''' 0 0 0 0 0,
    opcode 0 INS_INVALID ARG_NONE ARG_NONE ARG_NONE (cpu_PENTIUM4 OR isa_GP) '''' 0 0 0 0 0,
    opcode 0 INS_INVALID ARG_NONE ARG_NONE ARG_NONE (cpu_PENTIUM4 OR isa_GP) '''' 0 0 0 0 0,
    opcode 0 INS_INVALID ARG_NONE ARG_NONE ARG_NONE (cpu_PENTIUM4 OR isa_GP) '''' 0 0 0 0 0,
    opcode 0 INS_INVALID ARG_NONE ARG_NONE ARG_NONE (cpu_PENTIUM4 OR isa_GP) '''' 0 0 0 0 0]"

definition tbl_660F_C0 :: "ia32_insn_t list" where
  "tbl_660F_C0 = [
    opcode 0 INS_UNKNOWN (ADDRMETH_V OR OPTYPE_pd OR OP_R) (ADDRMETH_W OR OPTYPE_pd OR OP_R) ARG_NONE (cpu_PENTIUM4 OR isa_GP) ''addsubpd'' 0 0 0 0 0,
    opcode 0 INS_UNKNOWN (ADDRMETH_V OR OPTYPE_dq OR OP_R) (ADDRMETH_W OR OPTYPE_dq OR OP_R) ARG_NONE (cpu_PENTIUM4 OR isa_GP) ''psrlw'' 0 0 0 0 0,
    opcode 0 INS_UNKNOWN (ADDRMETH_V OR OPTYPE_dq OR OP_R) (ADDRMETH_W OR OPTYPE_dq OR OP_R) ARG_NONE (cpu_PENTIUM4 OR isa_GP) ''psrld'' 0 0 0 0 0,
    opcode 0 INS_UNKNOWN (ADDRMETH_V OR OPTYPE_dq OR OP_R) (ADDRMETH_W OR OPTYPE_dq OR OP_R) ARG_NONE (cpu_PENTIUM4 OR isa_GP) ''psrlq'' 0 0 0 0 0,
    opcode 0 INS_UNKNOWN (ADDRMETH_V OR OPTYPE_dq OR OP_R) (ADDRMETH_W OR OPTYPE_dq OR OP_R) ARG_NONE (cpu_PENTIUM4 OR isa_GP) ''paddq'' 0 0 0 0 0,
    opcode 0 INS_UNKNOWN (ADDRMETH_V OR OPTYPE_dq OR OP_R) (ADDRMETH_W OR OPTYPE_dq OR OP_R) ARG_NONE (cpu_PENTIUM4 OR isa_GP) ''pmullw'' 0 0 0 0 0,
    opcode 0 INS_UNKNOWN (ADDRMETH_W OR OPTYPE_q OR OP_R) (ADDRMETH_V OR OPTYPE_q OR OP_R) ARG_NONE (cpu_PENTIUM4 OR isa_GP) ''movq'' 0 0 0 0 0,
    opcode 0 INS_UNKNOWN (ADDRMETH_G OR OPTYPE_d OR OP_R) (ADDRMETH_W OR OPTYPE_dq OR OP_R) ARG_NONE (cpu_PENTIUM4 OR isa_GP) ''pmovmskb'' 0 0 0 0 0,
    opcode 0 INS_UNKNOWN (ADDRMETH_V OR OPTYPE_dq OR OP_R) (ADDRMETH_W OR OPTYPE_dq OR OP_R) ARG_NONE (cpu_PENTIUM4 OR isa_GP) ''psubusb'' 0 0 0 0 0,
    opcode 0 INS_UNKNOWN (ADDRMETH_V OR OPTYPE_dq OR OP_R) (ADDRMETH_W OR OPTYPE_dq OR OP_R) ARG_NONE (cpu_PENTIUM4 OR isa_GP) ''psubusw'' 0 0 0 0 0,
    opcode 0 INS_UNKNOWN (ADDRMETH_V OR OPTYPE_dq OR OP_R) (ADDRMETH_W OR OPTYPE_dq OR OP_R) ARG_NONE (cpu_PENTIUM4 OR isa_GP) ''pminub'' 0 0 0 0 0,
    opcode 0 INS_UNKNOWN (ADDRMETH_V OR OPTYPE_dq OR OP_R) (ADDRMETH_W OR OPTYPE_dq OR OP_R) ARG_NONE (cpu_PENTIUM4 OR isa_GP) ''pand'' 0 0 0 0 0,
    opcode 0 INS_UNKNOWN (ADDRMETH_V OR OPTYPE_dq OR OP_R) (ADDRMETH_W OR OPTYPE_dq OR OP_R) ARG_NONE (cpu_PENTIUM4 OR isa_GP) ''paddusb'' 0 0 0 0 0,
    opcode 0 INS_UNKNOWN (ADDRMETH_V OR OPTYPE_dq OR OP_R) (ADDRMETH_W OR OPTYPE_dq OR OP_R) ARG_NONE (cpu_PENTIUM4 OR isa_GP) ''paddusw'' 0 0 0 0 0,
    opcode 0 INS_UNKNOWN (ADDRMETH_V OR OPTYPE_dq OR OP_R) (ADDRMETH_W OR OPTYPE_dq OR OP_R) ARG_NONE (cpu_PENTIUM4 OR isa_GP) ''pmaxub'' 0 0 0 0 0,
    opcode 0 INS_UNKNOWN (ADDRMETH_V OR OPTYPE_dq OR OP_R) (ADDRMETH_W OR OPTYPE_dq OR OP_R) ARG_NONE (cpu_PENTIUM4 OR isa_GP) ''pandn'' 0 0 0 0 0,
    opcode 0 INS_UNKNOWN (ADDRMETH_V OR OPTYPE_dq OR OP_R) (ADDRMETH_W OR OPTYPE_dq OR OP_R) ARG_NONE (cpu_PENTIUM4 OR isa_GP) ''pavgb'' 0 0 0 0 0,
    opcode 0 INS_UNKNOWN (ADDRMETH_V OR OPTYPE_dq OR OP_R) (ADDRMETH_W OR OPTYPE_dq OR OP_R) ARG_NONE (cpu_PENTIUM4 OR isa_GP) ''psraw'' 0 0 0 0 0,
    opcode 0 INS_UNKNOWN (ADDRMETH_V OR OPTYPE_dq OR OP_R) (ADDRMETH_W OR OPTYPE_dq OR OP_R) ARG_NONE (cpu_PENTIUM4 OR isa_GP) ''psrad'' 0 0 0 0 0,
    opcode 0 INS_UNKNOWN (ADDRMETH_V OR OPTYPE_dq OR OP_R) (ADDRMETH_W OR OPTYPE_dq OR OP_R) ARG_NONE (cpu_PENTIUM4 OR isa_GP) ''pavgw'' 0 0 0 0 0,
    opcode 0 INS_UNKNOWN (ADDRMETH_V OR OPTYPE_dq OR OP_R) (ADDRMETH_W OR OPTYPE_dq OR OP_R) ARG_NONE (cpu_PENTIUM4 OR isa_GP) ''pmulhuw'' 0 0 0 0 0,
    opcode 0 INS_UNKNOWN (ADDRMETH_V OR OPTYPE_dq OR OP_R) (ADDRMETH_W OR OPTYPE_dq OR OP_R) ARG_NONE (cpu_PENTIUM4 OR isa_GP) ''pmulhw'' 0 0 0 0 0,
    opcode 0 INS_UNKNOWN (ADDRMETH_V OR OPTYPE_dq OR OP_R) (ADDRMETH_W OR OPTYPE_pd OR OP_R) ARG_NONE (cpu_PENTIUM4 OR isa_GP) ''cvttpd2dq'' 0 0 0 0 0,
    opcode 0 INS_UNKNOWN (ADDRMETH_M OR OPTYPE_dq OR OP_R) (ADDRMETH_V OR OPTYPE_dq OR OP_R) ARG_NONE (cpu_PENTIUM4 OR isa_GP) ''movntdq'' 0 0 0 0 0,
    opcode 0 INS_UNKNOWN (ADDRMETH_V OR OPTYPE_dq OR OP_R) (ADDRMETH_W OR OPTYPE_dq OR OP_R) ARG_NONE (cpu_PENTIUM4 OR isa_GP) ''psubsb'' 0 0 0 0 0,
    opcode 0 INS_UNKNOWN (ADDRMETH_V OR OPTYPE_dq OR OP_R) (ADDRMETH_W OR OPTYPE_dq OR OP_R) ARG_NONE (cpu_PENTIUM4 OR isa_GP) ''psubsw'' 0 0 0 0 0,
    opcode 0 INS_UNKNOWN (ADDRMETH_V OR OPTYPE_dq OR OP_R) (ADDRMETH_W OR OPTYPE_dq OR OP_R) ARG_NONE (cpu_PENTIUM4 OR isa_GP) ''pminsw'' 0 0 0 0 0,
    opcode 0 INS_UNKNOWN (ADDRMETH_V OR OPTYPE_dq OR OP_R) (ADDRMETH_W OR OPTYPE_dq OR OP_R) ARG_NONE (cpu_PENTIUM4 OR isa_GP) ''por'' 0 0 0 0 0,
    opcode 0 INS_UNKNOWN (ADDRMETH_V OR OPTYPE_dq OR OP_R) (ADDRMETH_W OR OPTYPE_dq OR OP_R) ARG_NONE (cpu_PENTIUM4 OR isa_GP) ''paddsb'' 0 0 0 0 0,
    opcode 0 INS_UNKNOWN (ADDRMETH_V OR OPTYPE_dq OR OP_R) (ADDRMETH_W OR OPTYPE_dq OR OP_R) ARG_NONE (cpu_PENTIUM4 OR isa_GP) ''paddsw'' 0 0 0 0 0,
    opcode 0 INS_UNKNOWN (ADDRMETH_V OR OPTYPE_dq OR OP_R) (ADDRMETH_W OR OPTYPE_dq OR OP_R) ARG_NONE (cpu_PENTIUM4 OR isa_GP) ''pmaxsw'' 0 0 0 0 0,
    opcode 0 INS_UNKNOWN (ADDRMETH_V OR OPTYPE_dq OR OP_R) (ADDRMETH_W OR OPTYPE_dq OR OP_R) ARG_NONE (cpu_PENTIUM4 OR isa_GP) ''pxor'' 0 0 0 0 0,
    opcode 0 INS_INVALID ARG_NONE ARG_NONE ARG_NONE (cpu_PENTIUM4 OR isa_GP) '''' 0 0 0 0 0,
    opcode 0 INS_UNKNOWN (ADDRMETH_V OR OPTYPE_dq OR OP_R) (ADDRMETH_W OR OPTYPE_dq OR OP_R) ARG_NONE (cpu_PENTIUM4 OR isa_GP) ''psllw'' 0 0 0 0 0,
    opcode 0 INS_UNKNOWN (ADDRMETH_V OR OPTYPE_dq OR OP_R) (ADDRMETH_W OR OPTYPE_dq OR OP_R) ARG_NONE (cpu_PENTIUM4 OR isa_GP) ''pslld'' 0 0 0 0 0,
    opcode 0 INS_UNKNOWN (ADDRMETH_V OR OPTYPE_dq OR OP_R) (ADDRMETH_W OR OPTYPE_dq OR OP_R) ARG_NONE (cpu_PENTIUM4 OR isa_GP) ''psllq'' 0 0 0 0 0,
    opcode 0 INS_UNKNOWN (ADDRMETH_V OR OPTYPE_dq OR OP_R) (ADDRMETH_W OR OPTYPE_dq OR OP_R) ARG_NONE (cpu_PENTIUM4 OR isa_GP) ''pmuludq'' 0 0 0 0 0,
    opcode 0 INS_UNKNOWN (ADDRMETH_V OR OPTYPE_dq OR OP_R) (ADDRMETH_W OR OPTYPE_dq OR OP_R) ARG_NONE (cpu_PENTIUM4 OR isa_GP) ''pmaddwd'' 0 0 0 0 0,
    opcode 0 INS_UNKNOWN (ADDRMETH_V OR OPTYPE_dq OR OP_R) (ADDRMETH_W OR OPTYPE_dq OR OP_R) ARG_NONE (cpu_PENTIUM4 OR isa_GP) ''psadbw'' 0 0 0 0 0,
    opcode 0 INS_UNKNOWN (ADDRMETH_V OR OPTYPE_dq OR OP_R) (ADDRMETH_W OR OPTYPE_dq OR OP_R) ARG_NONE (cpu_PENTIUM4 OR isa_GP) ''maskmovdqu'' 0 0 0 0 0,
    opcode 0 INS_UNKNOWN (ADDRMETH_V OR OPTYPE_dq OR OP_R) (ADDRMETH_W OR OPTYPE_dq OR OP_R) ARG_NONE (cpu_PENTIUM4 OR isa_GP) ''psubb'' 0 0 0 0 0,
    opcode 0 INS_UNKNOWN (ADDRMETH_V OR OPTYPE_dq OR OP_R) (ADDRMETH_W OR OPTYPE_dq OR OP_R) ARG_NONE (cpu_PENTIUM4 OR isa_GP) ''psubw'' 0 0 0 0 0,
    opcode 0 INS_UNKNOWN (ADDRMETH_V OR OPTYPE_dq OR OP_R) (ADDRMETH_W OR OPTYPE_dq OR OP_R) ARG_NONE (cpu_PENTIUM4 OR isa_GP) ''psubd'' 0 0 0 0 0,
    opcode 0 INS_UNKNOWN (ADDRMETH_V OR OPTYPE_dq OR OP_R) (ADDRMETH_W OR OPTYPE_dq OR OP_R) ARG_NONE (cpu_PENTIUM4 OR isa_GP) ''psubq'' 0 0 0 0 0,
    opcode 0 INS_UNKNOWN (ADDRMETH_V OR OPTYPE_dq OR OP_R) (ADDRMETH_W OR OPTYPE_dq OR OP_R) ARG_NONE (cpu_PENTIUM4 OR isa_GP) ''paddb'' 0 0 0 0 0,
    opcode 0 INS_UNKNOWN (ADDRMETH_V OR OPTYPE_dq OR OP_R) (ADDRMETH_W OR OPTYPE_dq OR OP_R) ARG_NONE (cpu_PENTIUM4 OR isa_GP) ''paddw'' 0 0 0 0 0,
    opcode 0 INS_UNKNOWN (ADDRMETH_V OR OPTYPE_dq OR OP_R) (ADDRMETH_W OR OPTYPE_dq OR OP_R) ARG_NONE (cpu_PENTIUM4 OR isa_GP) ''paddd'' 0 0 0 0 0,
    opcode 0 INS_INVALID ARG_NONE ARG_NONE ARG_NONE (cpu_PENTIUM4 OR isa_GP) '''' 0 0 0 0 0]"

definition tbl_660F :: "ia32_insn_t list" where
  "tbl_660F = tbl_660F_00 @ tbl_660F_40 @ tbl_660F_80 @ tbl_660F_C0"

definition tbl_F20F_00 :: "ia32_insn_t list" where
  "tbl_F20F_00 = [
    opcode 0 INS_UNKNOWN (ADDRMETH_V OR OPTYPE_sd OR OP_R) (ADDRMETH_W OR OPTYPE_sd OR OP_R) ARG_NONE (cpu_PENTIUM4 OR isa_GP) ''movsd'' 0 0 0 0 0,
    opcode 0 INS_UNKNOWN (ADDRMETH_W OR OPTYPE_sd OR OP_R) (ADDRMETH_V OR OPTYPE_sd OR OP_R) ARG_NONE (cpu_PENTIUM4 OR isa_GP) ''movsd'' 0 0 0 0 0,
    opcode 0 INS_UNKNOWN (ADDRMETH_V OR OPTYPE_q OR OP_R) (ADDRMETH_W OR OPTYPE_q OR OP_R) ARG_NONE (cpu_PENTIUM4 OR isa_GP) ''movddup'' 0 0 0 0 0,
    opcode 0 INS_INVALID ARG_NONE ARG_NONE ARG_NONE (cpu_PENTIUM4 OR isa_GP) '''' 0 0 0 0 0,
    opcode 0 INS_INVALID ARG_NONE ARG_NONE ARG_NONE (cpu_PENTIUM4 OR isa_GP) '''' 0 0 0 0 0,
    opcode 0 INS_INVALID ARG_NONE ARG_NONE ARG_NONE (cpu_PENTIUM4 OR isa_GP) '''' 0 0 0 0 0,
    opcode 0 INS_INVALID ARG_NONE ARG_NONE ARG_NONE (cpu_PENTIUM4 OR isa_GP) '''' 0 0 0 0 0,
    opcode 0 INS_INVALID ARG_NONE ARG_NONE ARG_NONE (cpu_PENTIUM4 OR isa_GP) '''' 0 0 0 0 0,
    opcode 0 INS_INVALID ARG_NONE ARG_NONE ARG_NONE (cpu_PENTIUM4 OR isa_GP) '''' 0 0 0 0 0,
    opcode 0 INS_INVALID ARG_NONE ARG_NONE ARG_NONE (cpu_PENTIUM4 OR isa_GP) '''' 0 0 0 0 0,
    opcode 0 INS_INVALID ARG_NONE ARG_NONE ARG_NONE (cpu_PENTIUM4 OR isa_GP) '''' 0 0 0 0 0,
    opcode 0 INS_INVALID ARG_NONE ARG_NONE ARG_NONE (cpu_PENTIUM4 OR isa_GP) '''' 0 0 0 0 0,
    opcode 0 INS_INVALID ARG_NONE ARG_NONE ARG_NONE (cpu_PENTIUM4 OR isa_GP) '''' 0 0 0 0 0,
    opcode 0 INS_INVALID ARG_NONE ARG_NONE ARG_NONE (cpu_PENTIUM4 OR isa_GP) '''' 0 0 0 0 0,
    opcode 0 INS_INVALID ARG_NONE ARG_NONE ARG_NONE (cpu_PENTIUM4 OR isa_GP) '''' 0 0 0 0 0,
    opcode 0 INS_INVALID ARG_NONE ARG_NONE ARG_NONE (cpu_PENTIUM4 OR isa_GP) '''' 0 0 0 0 0,
    opcode 0 INS_INVALID ARG_NONE ARG_NONE ARG_NONE (cpu_PENTIUM4 OR isa_GP) '''' 0 0 0 0 0,
    opcode 0 INS_INVALID ARG_NONE ARG_NONE ARG_NONE (cpu_PENTIUM4 OR isa_GP) '''' 0 0 0 0 0,
    opcode 0 INS_INVALID ARG_NONE ARG_NONE ARG_NONE (cpu_PENTIUM4 OR isa_GP) '''' 0 0 0 0 0,
    opcode 0 INS_INVALID ARG_NONE ARG_NONE ARG_NONE (cpu_PENTIUM4 OR isa_GP) '''' 0 0 0 0 0,
    opcode 0 INS_INVALID ARG_NONE ARG_NONE ARG_NONE (cpu_PENTIUM4 OR isa_GP) '''' 0 0 0 0 0,
    opcode 0 INS_INVALID ARG_NONE ARG_NONE ARG_NONE (cpu_PENTIUM4 OR isa_GP) '''' 0 0 0 0 0,
    opcode 0 INS_INVALID ARG_NONE ARG_NONE ARG_NONE (cpu_PENTIUM4 OR isa_GP) '''' 0 0 0 0 0,
    opcode 0 INS_INVALID ARG_NONE ARG_NONE ARG_NONE (cpu_PENTIUM4 OR isa_GP) '''' 0 0 0 0 0,
    opcode 0 INS_INVALID ARG_NONE ARG_NONE ARG_NONE (cpu_PENTIUM4 OR isa_GP) '''' 0 0 0 0 0,
    opcode 0 INS_INVALID ARG_NONE ARG_NONE ARG_NONE (cpu_PENTIUM4 OR isa_GP) '''' 0 0 0 0 0,
    opcode 0 INS_UNKNOWN (ADDRMETH_V OR OPTYPE_sd OR OP_R) (ADDRMETH_E OR OPTYPE_d OR OP_R) ARG_NONE (cpu_PENTIUM4 OR isa_GP) ''cvtsi2sd'' 0 0 0 0 0,
    opcode 0 INS_INVALID ARG_NONE ARG_NONE ARG_NONE (cpu_PENTIUM4 OR isa_GP) '''' 0 0 0 0 0,
    opcode 0 INS_UNKNOWN (ADDRMETH_G OR OPTYPE_d OR OP_R) (ADDRMETH_W OR OPTYPE_sd OR OP_R) ARG_NONE (cpu_PENTIUM4 OR isa_GP) ''cvttsd2si'' 0 0 0 0 0,
    opcode 0 INS_UNKNOWN (ADDRMETH_G OR OPTYPE_d OR OP_R) (ADDRMETH_W OR OPTYPE_sd OR OP_R) ARG_NONE (cpu_PENTIUM4 OR isa_GP) ''cvtsd2si'' 0 0 0 0 0,
    opcode 0 INS_INVALID ARG_NONE ARG_NONE ARG_NONE (cpu_PENTIUM4 OR isa_GP) '''' 0 0 0 0 0,
    opcode 0 INS_INVALID ARG_NONE ARG_NONE ARG_NONE (cpu_PENTIUM4 OR isa_GP) '''' 0 0 0 0 0,
    opcode 0 INS_INVALID ARG_NONE ARG_NONE ARG_NONE (cpu_PENTIUM4 OR isa_GP) '''' 0 0 0 0 0,
    opcode 0 INS_INVALID ARG_NONE ARG_NONE ARG_NONE (cpu_PENTIUM4 OR isa_GP) '''' 0 0 0 0 0,
    opcode 0 INS_INVALID ARG_NONE ARG_NONE ARG_NONE (cpu_PENTIUM4 OR isa_GP) '''' 0 0 0 0 0,
    opcode 0 INS_INVALID ARG_NONE ARG_NONE ARG_NONE (cpu_PENTIUM4 OR isa_GP) '''' 0 0 0 0 0,
    opcode 0 INS_INVALID ARG_NONE ARG_NONE ARG_NONE (cpu_PENTIUM4 OR isa_GP) '''' 0 0 0 0 0,
    opcode 0 INS_INVALID ARG_NONE ARG_NONE ARG_NONE (cpu_PENTIUM4 OR isa_GP) '''' 0 0 0 0 0,
    opcode 0 INS_INVALID ARG_NONE ARG_NONE ARG_NONE (cpu_PENTIUM4 OR isa_GP) '''' 0 0 0 0 0,
    opcode 0 INS_INVALID ARG_NONE ARG_NONE ARG_NONE (cpu_PENTIUM4 OR isa_GP) '''' 0 0 0 0 0,
    opcode 0 INS_INVALID ARG_NONE ARG_NONE ARG_NONE (cpu_PENTIUM4 OR isa_GP) '''' 0 0 0 0 0,
    opcode 0 INS_INVALID ARG_NONE ARG_NONE ARG_NONE (cpu_PENTIUM4 OR isa_GP) '''' 0 0 0 0 0,
    opcode 0 INS_INVALID ARG_NONE ARG_NONE ARG_NONE (cpu_PENTIUM4 OR isa_GP) '''' 0 0 0 0 0,
    opcode 0 INS_INVALID ARG_NONE ARG_NONE ARG_NONE (cpu_PENTIUM4 OR isa_GP) '''' 0 0 0 0 0,
    opcode 0 INS_INVALID ARG_NONE ARG_NONE ARG_NONE (cpu_PENTIUM4 OR isa_GP) '''' 0 0 0 0 0,
    opcode 0 INS_INVALID ARG_NONE ARG_NONE ARG_NONE (cpu_PENTIUM4 OR isa_GP) '''' 0 0 0 0 0,
    opcode 0 INS_INVALID ARG_NONE ARG_NONE ARG_NONE (cpu_PENTIUM4 OR isa_GP) '''' 0 0 0 0 0,
    opcode 0 INS_INVALID ARG_NONE ARG_NONE ARG_NONE (cpu_PENTIUM4 OR isa_GP) '''' 0 0 0 0 0,
    opcode 0 INS_INVALID ARG_NONE ARG_NONE ARG_NONE (cpu_PENTIUM4 OR isa_GP) '''' 0 0 0 0 0,
    opcode 0 INS_INVALID ARG_NONE ARG_NONE ARG_NONE (cpu_PENTIUM4 OR isa_GP) '''' 0 0 0 0 0,
    opcode 0 INS_INVALID ARG_NONE ARG_NONE ARG_NONE (cpu_PENTIUM4 OR isa_GP) '''' 0 0 0 0 0,
    opcode 0 INS_INVALID ARG_NONE ARG_NONE ARG_NONE (cpu_PENTIUM4 OR isa_GP) '''' 0 0 0 0 0,
    opcode 0 INS_INVALID ARG_NONE ARG_NONE ARG_NONE (cpu_PENTIUM4 OR isa_GP) '''' 0 0 0 0 0,
    opcode 0 INS_INVALID ARG_NONE ARG_NONE ARG_NONE (cpu_PENTIUM4 OR isa_GP) '''' 0 0 0 0 0,
    opcode 0 INS_INVALID ARG_NONE ARG_NONE ARG_NONE (cpu_PENTIUM4 OR isa_GP) '''' 0 0 0 0 0,
    opcode 0 INS_INVALID ARG_NONE ARG_NONE ARG_NONE (cpu_PENTIUM4 OR isa_GP) '''' 0 0 0 0 0,
    opcode 0 INS_INVALID ARG_NONE ARG_NONE ARG_NONE (cpu_PENTIUM4 OR isa_GP) '''' 0 0 0 0 0,
    opcode 0 INS_INVALID ARG_NONE ARG_NONE ARG_NONE (cpu_PENTIUM4 OR isa_GP) '''' 0 0 0 0 0,
    opcode 0 INS_INVALID ARG_NONE ARG_NONE ARG_NONE (cpu_PENTIUM4 OR isa_GP) '''' 0 0 0 0 0,
    opcode 0 INS_INVALID ARG_NONE ARG_NONE ARG_NONE (cpu_PENTIUM4 OR isa_GP) '''' 0 0 0 0 0,
    opcode 0 INS_INVALID ARG_NONE ARG_NONE ARG_NONE (cpu_PENTIUM4 OR isa_GP) '''' 0 0 0 0 0,
    opcode 0 INS_INVALID ARG_NONE ARG_NONE ARG_NONE (cpu_PENTIUM4 OR isa_GP) '''' 0 0 0 0 0,
    opcode 0 INS_INVALID ARG_NONE ARG_NONE ARG_NONE (cpu_PENTIUM4 OR isa_GP) '''' 0 0 0 0 0,
    opcode 0 INS_INVALID ARG_NONE ARG_NONE ARG_NONE (cpu_PENTIUM4 OR isa_GP) '''' 0 0 0 0 0]"

definition tbl_F20F_40 :: "ia32_insn_t list" where
  "tbl_F20F_40 = [
    opcode 0 INS_INVALID ARG_NONE ARG_NONE ARG_NONE (cpu_PENTIUM4 OR isa_GP) '''' 0 0 0 0 0,
    opcode 0 INS_UNKNOWN (ADDRMETH_V OR OPTYPE_sd OR OP_R) (ADDRMETH_W OR OPTYPE_sd OR OP_R) ARG_NONE (cpu_PENTIUM4 OR isa_GP) ''sqrtsd'' 0 0 0 0 0,
    opcode 0 INS_INVALID ARG_NONE ARG_NONE ARG_NONE (cpu_PENTIUM4 OR isa_GP) '''' 0 0 0 0 0,
    opcode 0 INS_INVALID ARG_NONE ARG_NONE ARG_NONE (cpu_PENTIUM4 OR isa_GP) '''' 0 0 0 0 0,
    opcode 0 INS_INVALID ARG_NONE ARG_NONE ARG_NONE (cpu_PENTIUM4 OR isa_GP) '''' 0 0 0 0 0,
    opcode 0 INS_INVALID ARG_NONE ARG_NONE ARG_NONE (cpu_PENTIUM4 OR isa_GP) '''' 0 0 0 0 0,
    opcode 0 INS_INVALID ARG_NONE ARG_NONE ARG_NONE (cpu_PENTIUM4 OR isa_GP) '''' 0 0 0 0 0,
    opcode 0 INS_INVALID ARG_NONE ARG_NONE ARG_NONE (cpu_PENTIUM4 OR isa_GP) '''' 0 0 0 0 0,
    opcode 0 INS_UNKNOWN (ADDRMETH_V OR OPTYPE_sd OR OP_R) (ADDRMETH_W OR OPTYPE_sd OR OP_R) ARG_NONE (cpu_PENTIUM4 OR isa_GP) ''addsd'' 0 0 0 0 0,
    opcode 0 INS_UNKNOWN (ADDRMETH_V OR OPTYPE_sd OR OP_R) (ADDRMETH_W OR OPTYPE_sd OR OP_R) ARG_NONE (cpu_PENTIUM4 OR isa_GP) ''mulsd'' 0 0 0 0 0,
    opcode 0 INS_UNKNOWN (ADDRMETH_V OR OPTYPE_ss OR OP_R) (ADDRMETH_W OR OPTYPE_sd OR OP_R) ARG_NONE (cpu_PENTIUM4 OR isa_GP) ''cvtsd2ss'' 0 0 0 0 0,
    opcode 0 INS_INVALID ARG_NONE ARG_NONE ARG_NONE (cpu_PENTIUM4 OR isa_GP) '''' 0 0 0 0 0,
    opcode 0 INS_UNKNOWN (ADDRMETH_V OR OPTYPE_sd OR OP_R) (ADDRMETH_W OR OPTYPE_sd OR OP_R) ARG_NONE (cpu_PENTIUM4 OR isa_GP) ''subsd'' 0 0 0 0 0,
    opcode 0 INS_UNKNOWN (ADDRMETH_V OR OPTYPE_sd OR OP_R) (ADDRMETH_W OR OPTYPE_sd OR OP_R) ARG_NONE (cpu_PENTIUM4 OR isa_GP) ''minsd'' 0 0 0 0 0,
    opcode 0 INS_UNKNOWN (ADDRMETH_V OR OPTYPE_sd OR OP_R) (ADDRMETH_W OR OPTYPE_sd OR OP_R) ARG_NONE (cpu_PENTIUM4 OR isa_GP) ''divsd'' 0 0 0 0 0,
    opcode 0 INS_UNKNOWN (ADDRMETH_V OR OPTYPE_sd OR OP_R) (ADDRMETH_W OR OPTYPE_sd OR OP_R) ARG_NONE (cpu_PENTIUM4 OR isa_GP) ''maxsd'' 0 0 0 0 0,
    opcode 0 INS_INVALID ARG_NONE ARG_NONE ARG_NONE (cpu_PENTIUM4 OR isa_GP) '''' 0 0 0 0 0,
    opcode 0 INS_INVALID ARG_NONE ARG_NONE ARG_NONE (cpu_PENTIUM4 OR isa_GP) '''' 0 0 0 0 0,
    opcode 0 INS_INVALID ARG_NONE ARG_NONE ARG_NONE (cpu_PENTIUM4 OR isa_GP) '''' 0 0 0 0 0,
    opcode 0 INS_INVALID ARG_NONE ARG_NONE ARG_NONE (cpu_PENTIUM4 OR isa_GP) '''' 0 0 0 0 0,
    opcode 0 INS_INVALID ARG_NONE ARG_NONE ARG_NONE (cpu_PENTIUM4 OR isa_GP) '''' 0 0 0 0 0,
    opcode 0 INS_INVALID ARG_NONE ARG_NONE ARG_NONE (cpu_PENTIUM4 OR isa_GP) '''' 0 0 0 0 0,
    opcode 0 INS_INVALID ARG_NONE ARG_NONE ARG_NONE (cpu_PENTIUM4 OR isa_GP) '''' 0 0 0 0 0,
    opcode 0 INS_INVALID ARG_NONE ARG_NONE ARG_NONE (cpu_PENTIUM4 OR isa_GP) '''' 0 0 0 0 0,
    opcode 0 INS_INVALID ARG_NONE ARG_NONE ARG_NONE (cpu_PENTIUM4 OR isa_GP) '''' 0 0 0 0 0,
    opcode 0 INS_INVALID ARG_NONE ARG_NONE ARG_NONE (cpu_PENTIUM4 OR isa_GP) '''' 0 0 0 0 0,
    opcode 0 INS_INVALID ARG_NONE ARG_NONE ARG_NONE (cpu_PENTIUM4 OR isa_GP) '''' 0 0 0 0 0,
    opcode 0 INS_INVALID ARG_NONE ARG_NONE ARG_NONE (cpu_PENTIUM4 OR isa_GP) '''' 0 0 0 0 0,
    opcode 0 INS_INVALID ARG_NONE ARG_NONE ARG_NONE (cpu_PENTIUM4 OR isa_GP) '''' 0 0 0 0 0,
    opcode 0 INS_INVALID ARG_NONE ARG_NONE ARG_NONE (cpu_PENTIUM4 OR isa_GP) '''' 0 0 0 0 0,
    opcode 0 INS_INVALID ARG_NONE ARG_NONE ARG_NONE (cpu_PENTIUM4 OR isa_GP) '''' 0 0 0 0 0,
    opcode 0 INS_INVALID ARG_NONE ARG_NONE ARG_NONE (cpu_PENTIUM4 OR isa_GP) '''' 0 0 0 0 0,
    opcode 0 INS_UNKNOWN (ADDRMETH_V OR OPTYPE_dq OR OP_R) (ADDRMETH_W OR OPTYPE_dq OR OP_R) (ADDRMETH_I OR OPTYPE_b OR OP_R) (cpu_PENTIUM4 OR isa_GP) ''pshuflw'' 0 0 0 0 0,
    opcode 0 INS_INVALID ARG_NONE ARG_NONE ARG_NONE (cpu_PENTIUM4 OR isa_GP) '''' 0 0 0 0 0,
    opcode 0 INS_INVALID ARG_NONE ARG_NONE ARG_NONE (cpu_PENTIUM4 OR isa_GP) '''' 0 0 0 0 0,
    opcode 0 INS_INVALID ARG_NONE ARG_NONE ARG_NONE (cpu_PENTIUM4 OR isa_GP) '''' 0 0 0 0 0,
    opcode 0 INS_INVALID ARG_NONE ARG_NONE ARG_NONE (cpu_PENTIUM4 OR isa_GP) '''' 0 0 0 0 0,
    opcode 0 INS_INVALID ARG_NONE ARG_NONE ARG_NONE (cpu_PENTIUM4 OR isa_GP) '''' 0 0 0 0 0,
    opcode 0 INS_INVALID ARG_NONE ARG_NONE ARG_NONE (cpu_PENTIUM4 OR isa_GP) '''' 0 0 0 0 0,
    opcode 0 INS_INVALID ARG_NONE ARG_NONE ARG_NONE (cpu_PENTIUM4 OR isa_GP) '''' 0 0 0 0 0,
    opcode 0 INS_INVALID ARG_NONE ARG_NONE ARG_NONE (cpu_PENTIUM4 OR isa_GP) '''' 0 0 0 0 0,
    opcode 0 INS_INVALID ARG_NONE ARG_NONE ARG_NONE (cpu_PENTIUM4 OR isa_GP) '''' 0 0 0 0 0,
    opcode 0 INS_INVALID ARG_NONE ARG_NONE ARG_NONE (cpu_PENTIUM4 OR isa_GP) '''' 0 0 0 0 0,
    opcode 0 INS_INVALID ARG_NONE ARG_NONE ARG_NONE (cpu_PENTIUM4 OR isa_GP) '''' 0 0 0 0 0,
    opcode 0 INS_UNKNOWN (ADDRMETH_V OR OPTYPE_ps OR OP_R) (ADDRMETH_W OR OPTYPE_ps OR OP_R) ARG_NONE (cpu_PENTIUM4 OR isa_GP) ''haddps'' 0 0 0 0 0,
    opcode 0 INS_UNKNOWN (ADDRMETH_V OR OPTYPE_ps OR OP_R) (ADDRMETH_W OR OPTYPE_ps OR OP_R) ARG_NONE (cpu_PENTIUM4 OR isa_GP) ''hsubps'' 0 0 0 0 0,
    opcode 0 INS_INVALID ARG_NONE ARG_NONE ARG_NONE (cpu_PENTIUM4 OR isa_GP) '''' 0 0 0 0 0,
    opcode 0 INS_INVALID ARG_NONE ARG_NONE ARG_NONE (cpu_PENTIUM4 OR isa_GP) '''' 0 0 0 0 0,
    opcode 0 INS_INVALID ARG_NONE ARG_NONE ARG_NONE (cpu_PENTIUM4 OR isa_GP) '''' 0 0 0 0 0,
    opcode 0 INS_INVALID ARG_NONE ARG_NONE ARG_NONE (cpu_PENTIUM4 OR isa_GP) '''' 0 0 0 0 0,
    opcode 0 INS_INVALID ARG_NONE ARG_NONE ARG_NONE (cpu_PENTIUM4 OR isa_GP) '''' 0 0 0 0 0,
    opcode 0 INS_INVALID ARG_NONE ARG_NONE ARG_NONE (cpu_PENTIUM4 OR isa_GP) '''' 0 0 0 0 0,
    opcode 0 INS_INVALID ARG_NONE ARG_NONE ARG_NONE (cpu_PENTIUM4 OR isa_GP) '''' 0 0 0 0 0,
    opcode 0 INS_INVALID ARG_NONE ARG_NONE ARG_NONE (cpu_PENTIUM4 OR isa_GP) '''' 0 0 0 0 0,
    opcode 0 INS_INVALID ARG_NONE ARG_NONE ARG_NONE (cpu_PENTIUM4 OR isa_GP) '''' 0 0 0 0 0,
    opcode 0 INS_INVALID ARG_NONE ARG_NONE ARG_NONE (cpu_PENTIUM4 OR isa_GP) '''' 0 0 0 0 0,
    opcode 0 INS_INVALID ARG_NONE ARG_NONE ARG_NONE (cpu_PENTIUM4 OR isa_GP) '''' 0 0 0 0 0,
    opcode 0 INS_INVALID ARG_NONE ARG_NONE ARG_NONE (cpu_PENTIUM4 OR isa_GP) '''' 0 0 0 0 0,
    opcode 0 INS_INVALID ARG_NONE ARG_NONE ARG_NONE (cpu_PENTIUM4 OR isa_GP) '''' 0 0 0 0 0,
    opcode 0 INS_INVALID ARG_NONE ARG_NONE ARG_NONE (cpu_PENTIUM4 OR isa_GP) '''' 0 0 0 0 0,
    opcode 0 INS_INVALID ARG_NONE ARG_NONE ARG_NONE (cpu_PENTIUM4 OR isa_GP) '''' 0 0 0 0 0,
    opcode 0 INS_INVALID ARG_NONE ARG_NONE ARG_NONE (cpu_PENTIUM4 OR isa_GP) '''' 0 0 0 0 0,
    opcode 0 INS_INVALID ARG_NONE ARG_NONE ARG_NONE (cpu_PENTIUM4 OR isa_GP) '''' 0 0 0 0 0,
    opcode 0 INS_INVALID ARG_NONE ARG_NONE ARG_NONE (cpu_PENTIUM4 OR isa_GP) '''' 0 0 0 0 0]"

definition tbl_F20F_80 :: "ia32_insn_t list" where
  "tbl_F20F_80 = [
    opcode 0 INS_INVALID ARG_NONE ARG_NONE ARG_NONE (cpu_PENTIUM4 OR isa_GP) '''' 0 0 0 0 0,
    opcode 0 INS_INVALID ARG_NONE ARG_NONE ARG_NONE (cpu_PENTIUM4 OR isa_GP) '''' 0 0 0 0 0,
    opcode 0 INS_INVALID ARG_NONE ARG_NONE ARG_NONE (cpu_PENTIUM4 OR isa_GP) '''' 0 0 0 0 0,
    opcode 0 INS_INVALID ARG_NONE ARG_NONE ARG_NONE (cpu_PENTIUM4 OR isa_GP) '''' 0 0 0 0 0,
    opcode 0 INS_INVALID ARG_NONE ARG_NONE ARG_NONE (cpu_PENTIUM4 OR isa_GP) '''' 0 0 0 0 0,
    opcode 0 INS_INVALID ARG_NONE ARG_NONE ARG_NONE (cpu_PENTIUM4 OR isa_GP) '''' 0 0 0 0 0,
    opcode 0 INS_INVALID ARG_NONE ARG_NONE ARG_NONE (cpu_PENTIUM4 OR isa_GP) '''' 0 0 0 0 0,
    opcode 0 INS_INVALID ARG_NONE ARG_NONE ARG_NONE (cpu_PENTIUM4 OR isa_GP) '''' 0 0 0 0 0,
    opcode 0 INS_INVALID ARG_NONE ARG_NONE ARG_NONE (cpu_PENTIUM4 OR isa_GP) '''' 0 0 0 0 0,
    opcode 0 INS_INVALID ARG_NONE ARG_NONE ARG_NONE (cpu_PENTIUM4 OR isa_GP) '''' 0 0 0 0 0,
    opcode 0 INS_INVALID ARG_NONE ARG_NONE ARG_NONE (cpu_PENTIUM4 OR isa_GP) '''' 0 0 0 0 0,
    opcode 0 INS_INVALID ARG_NONE ARG_NONE ARG_NONE (cpu_PENTIUM4 OR isa_GP) '''' 0 0 0 0 0,
    opcode 0 INS_INVALID ARG_NONE ARG_NONE ARG_NONE (cpu_PENTIUM4 OR isa_GP) '''' 0 0 0 0 0,
    opcode 0 INS_INVALID ARG_NONE ARG_NONE ARG_NONE (cpu_PENTIUM4 OR isa_GP) '''' 0 0 0 0 0,
    opcode 0 INS_INVALID ARG_NONE ARG_NONE ARG_NONE (cpu_PENTIUM4 OR isa_GP) '''' 0 0 0 0 0,
    opcode 0 INS_INVALID ARG_NONE ARG_NONE ARG_NONE (cpu_PENTIUM4 OR isa_GP) '''' 0 0 0 0 0,
    opcode 0 INS_INVALID ARG_NONE ARG_NONE ARG_NONE (cpu_PENTIUM4 OR isa_GP) '''' 0 0 0 0 0,
    opcode 0 INS_INVALID ARG_NONE ARG_NONE ARG_NONE (cpu_PENTIUM4 OR isa_GP) '''' 0 0 0 0 0,
    opcode 0 INS_INVALID ARG_NONE ARG_NONE ARG_NONE (cpu_PENTIUM4 OR isa_GP) '''' 0 0 0 0 0,
    opcode 0 INS_INVALID ARG_NONE ARG_NONE ARG_NONE (cpu_PENTIUM4 OR isa_GP) '''' 0 0 0 0 0,
    opcode 0 INS_INVALID ARG_NONE ARG_NONE ARG_NONE (cpu_PENTIUM4 OR isa_GP) '''' 0 0 0 0 0,
    opcode 0 INS_INVALID ARG_NONE ARG_NONE ARG_NONE (cpu_PENTIUM4 OR isa_GP) '''' 0 0 0 0 0,
    opcode 0 INS_INVALID ARG_NONE ARG_NONE ARG_NONE (cpu_PENTIUM4 OR isa_GP) '''' 0 0 0 0 0,
    opcode 0 INS_INVALID ARG_NONE ARG_NONE ARG_NONE (cpu_PENTIUM4 OR isa_GP) '''' 0 0 0 0 0,
    opcode 0 INS_INVALID ARG_NONE ARG_NONE ARG_NONE (cpu_PENTIUM4 OR isa_GP) '''' 0 0 0 0 0,
    opcode 0 INS_INVALID ARG_NONE ARG_NONE ARG_NONE (cpu_PENTIUM4 OR isa_GP) '''' 0 0 0 0 0,
    opcode 0 INS_INVALID ARG_NONE ARG_NONE ARG_NONE (cpu_PENTIUM4 OR isa_GP) '''' 0 0 0 0 0,
    opcode 0 INS_INVALID ARG_NONE ARG_NONE ARG_NONE (cpu_PENTIUM4 OR isa_GP) '''' 0 0 0 0 0,
    opcode 0 INS_INVALID ARG_NONE ARG_NONE ARG_NONE (cpu_PENTIUM4 OR isa_GP) '''' 0 0 0 0 0,
    opcode 0 INS_INVALID ARG_NONE ARG_NONE ARG_NONE (cpu_PENTIUM4 OR isa_GP) '''' 0 0 0 0 0,
    opcode 0 INS_INVALID ARG_NONE ARG_NONE ARG_NONE (cpu_PENTIUM4 OR isa_GP) '''' 0 0 0 0 0,
    opcode 0 INS_INVALID ARG_NONE ARG_NONE ARG_NONE (cpu_PENTIUM4 OR isa_GP) '''' 0 0 0 0 0,
    opcode 0 INS_INVALID ARG_NONE ARG_NONE ARG_NONE (cpu_PENTIUM4 OR isa_GP) '''' 0 0 0 0 0,
    opcode 0 INS_INVALID ARG_NONE ARG_NONE ARG_NONE (cpu_PENTIUM4 OR isa_GP) '''' 0 0 0 0 0,
    opcode 0 INS_INVALID ARG_NONE ARG_NONE ARG_NONE (cpu_PENTIUM4 OR isa_GP) '''' 0 0 0 0 0,
    opcode 0 INS_INVALID ARG_NONE ARG_NONE ARG_NONE (cpu_PENTIUM4 OR isa_GP) '''' 0 0 0 0 0,
    opcode 0 INS_INVALID ARG_NONE ARG_NONE ARG_NONE (cpu_PENTIUM4 OR isa_GP) '''' 0 0 0 0 0,
    opcode 0 INS_INVALID ARG_NONE ARG_NONE ARG_NONE (cpu_PENTIUM4 OR isa_GP) '''' 0 0 0 0 0,
    opcode 0 INS_INVALID ARG_NONE ARG_NONE ARG_NONE (cpu_PENTIUM4 OR isa_GP) '''' 0 0 0 0 0,
    opcode 0 INS_INVALID ARG_NONE ARG_NONE ARG_NONE (cpu_PENTIUM4 OR isa_GP) '''' 0 0 0 0 0,
    opcode 0 INS_INVALID ARG_NONE ARG_NONE ARG_NONE (cpu_PENTIUM4 OR isa_GP) '''' 0 0 0 0 0,
    opcode 0 INS_INVALID ARG_NONE ARG_NONE ARG_NONE (cpu_PENTIUM4 OR isa_GP) '''' 0 0 0 0 0,
    opcode 0 INS_INVALID ARG_NONE ARG_NONE ARG_NONE (cpu_PENTIUM4 OR isa_GP) '''' 0 0 0 0 0,
    opcode 0 INS_INVALID ARG_NONE ARG_NONE ARG_NONE (cpu_PENTIUM4 OR isa_GP) '''' 0 0 0 0 0,
    opcode 0 INS_INVALID ARG_NONE ARG_NONE ARG_NONE (cpu_PENTIUM4 OR isa_GP) '''' 0 0 0 0 0,
    opcode 0 INS_INVALID ARG_NONE ARG_NONE ARG_NONE (cpu_PENTIUM4 OR isa_GP) '''' 0 0 0 0 0,
    opcode 0 INS_INVALID ARG_NONE ARG_NONE ARG_NONE (cpu_PENTIUM4 OR isa_GP) '''' 0 0 0 0 0,
    opcode 0 INS_INVALID ARG_NONE ARG_NONE ARG_NONE (cpu_PENTIUM4 OR isa_GP) '''' 0 0 0 0 0,
    opcode 0 INS_INVALID ARG_NONE ARG_NONE ARG_NONE (cpu_PENTIUM4 OR isa_GP) '''' 0 0 0 0 0,
    opcode 0 INS_INVALID ARG_NONE ARG_NONE ARG_NONE (cpu_PENTIUM4 OR isa_GP) '''' 0 0 0 0 0,
    opcode 0 INS_UNKNOWN (ADDRMETH_V OR OPTYPE_sd OR OP_R) (ADDRMETH_W OR OPTYPE_sd OR OP_R) (ADDRMETH_I OR OPTYPE_b OR OP_R) (cpu_PENTIUM4 OR isa_GP) ''cmpsd'' 0 0 0 0 0,
    opcode 0 INS_INVALID ARG_NONE ARG_NONE ARG_NONE (cpu_PENTIUM4 OR isa_GP) '''' 0 0 0 0 0,
    opcode 0 INS_INVALID ARG_NONE ARG_NONE ARG_NONE (cpu_PENTIUM4 OR isa_GP) '''' 0 0 0 0 0,
    opcode 0 INS_INVALID ARG_NONE ARG_NONE ARG_NONE (cpu_PENTIUM4 OR isa_GP) '''' 0 0 0 0 0,
    opcode 0 INS_INVALID ARG_NONE ARG_NONE ARG_NONE (cpu_PENTIUM4 OR isa_GP) '''' 0 0 0 0 0,
    opcode 0 INS_INVALID ARG_NONE ARG_NONE ARG_NONE (cpu_PENTIUM4 OR isa_GP) '''' 0 0 0 0 0,
    opcode 0 INS_INVALID ARG_NONE ARG_NONE ARG_NONE (cpu_PENTIUM4 OR isa_GP) '''' 0 0 0 0 0,
    opcode 0 INS_INVALID ARG_NONE ARG_NONE ARG_NONE (cpu_PENTIUM4 OR isa_GP) '''' 0 0 0 0 0,
    opcode 0 INS_INVALID ARG_NONE ARG_NONE ARG_NONE (cpu_PENTIUM4 OR isa_GP) '''' 0 0 0 0 0,
    opcode 0 INS_INVALID ARG_NONE ARG_NONE ARG_NONE (cpu_PENTIUM4 OR isa_GP) '''' 0 0 0 0 0,
    opcode 0 INS_INVALID ARG_NONE ARG_NONE ARG_NONE (cpu_PENTIUM4 OR isa_GP) '''' 0 0 0 0 0,
    opcode 0 INS_INVALID ARG_NONE ARG_NONE ARG_NONE (cpu_PENTIUM4 OR isa_GP) '''' 0 0 0 0 0,
    opcode 0 INS_INVALID ARG_NONE ARG_NONE ARG_NONE (cpu_PENTIUM4 OR isa_GP) '''' 0 0 0 0 0,
    opcode 0 INS_INVALID ARG_NONE ARG_NONE ARG_NONE (cpu_PENTIUM4 OR isa_GP) '''' 0 0 0 0 0]"

definition tbl_F20F_C0 :: "ia32_insn_t list" where
  "tbl_F20F_C0 = [
    opcode 0 INS_UNKNOWN (ADDRMETH_V OR OPTYPE_ps OR OP_R) (ADDRMETH_W OR OPTYPE_ps OR OP_R) ARG_NONE (cpu_PENTIUM4 OR isa_GP) ''addsubps'' 0 0 0 0 0,
    opcode 0 INS_INVALID ARG_NONE ARG_NONE ARG_NONE (cpu_PENTIUM4 OR isa_GP) '''' 0 0 0 0 0,
    opcode 0 INS_INVALID ARG_NONE ARG_NONE ARG_NONE (cpu_PENTIUM4 OR isa_GP) '''' 0 0 0 0 0,
    opcode 0 INS_INVALID ARG_NONE ARG_NONE ARG_NONE (cpu_PENTIUM4 OR isa_GP) '''' 0 0 0 0 0,
    opcode 0 INS_INVALID ARG_NONE ARG_NONE ARG_NONE (cpu_PENTIUM4 OR isa_GP) '''' 0 0 0 0 0,
    opcode 0 INS_INVALID ARG_NONE ARG_NONE ARG_NONE (cpu_PENTIUM4 OR isa_GP) '''' 0 0 0 0 0,
    opcode 0 INS_UNKNOWN (ADDRMETH_P OR OPTYPE_q OR OP_R) (ADDRMETH_W OR OPTYPE_q OR OP_R) ARG_NONE (cpu_PENTIUM4 OR isa_GP) ''movdq2q'' 0 0 0 0 0,
    opcode 0 INS_INVALID ARG_NONE ARG_NONE ARG_NONE (cpu_PENTIUM4 OR isa_GP) '''' 0 0 0 0 0,
    opcode 0 INS_INVALID ARG_NONE ARG_NONE ARG_NONE (cpu_PENTIUM4 OR isa_GP) '''' 0 0 0 0 0,
    opcode 0 INS_INVALID ARG_NONE ARG_NONE ARG_NONE (cpu_PENTIUM4 OR isa_GP) '''' 0 0 0 0 0,
    opcode 0 INS_INVALID ARG_NONE ARG_NONE ARG_NONE (cpu_PENTIUM4 OR isa_GP) '''' 0 0 0 0 0,
    opcode 0 INS_INVALID ARG_NONE ARG_NONE ARG_NONE (cpu_PENTIUM4 OR isa_GP) '''' 0 0 0 0 0,
    opcode 0 INS_INVALID ARG_NONE ARG_NONE ARG_NONE (cpu_PENTIUM4 OR isa_GP) '''' 0 0 0 0 0,
    opcode 0 INS_INVALID ARG_NONE ARG_NONE ARG_NONE (cpu_PENTIUM4 OR isa_GP) '''' 0 0 0 0 0,
    opcode 0 INS_INVALID ARG_NONE ARG_NONE ARG_NONE (cpu_PENTIUM4 OR isa_GP) '''' 0 0 0 0 0,
    opcode 0 INS_INVALID ARG_NONE ARG_NONE ARG_NONE (cpu_PENTIUM4 OR isa_GP) '''' 0 0 0 0 0,
    opcode 0 INS_INVALID ARG_NONE ARG_NONE ARG_NONE (cpu_PENTIUM4 OR isa_GP) '''' 0 0 0 0 0,
    opcode 0 INS_INVALID ARG_NONE ARG_NONE ARG_NONE (cpu_PENTIUM4 OR isa_GP) '''' 0 0 0 0 0,
    opcode 0 INS_INVALID ARG_NONE ARG_NONE ARG_NONE (cpu_PENTIUM4 OR isa_GP) '''' 0 0 0 0 0,
    opcode 0 INS_INVALID ARG_NONE ARG_NONE ARG_NONE (cpu_PENTIUM4 OR isa_GP) '''' 0 0 0 0 0,
    opcode 0 INS_INVALID ARG_NONE ARG_NONE ARG_NONE (cpu_PENTIUM4 OR isa_GP) '''' 0 0 0 0 0,
    opcode 0 INS_INVALID ARG_NONE ARG_NONE ARG_NONE (cpu_PENTIUM4 OR isa_GP) '''' 0 0 0 0 0,
    opcode 0 INS_UNKNOWN (ADDRMETH_V OR OPTYPE_dq OR OP_R) (ADDRMETH_W OR OPTYPE_pd OR OP_R) ARG_NONE (cpu_PENTIUM4 OR isa_GP) ''cvtpd2dq'' 0 0 0 0 0,
    opcode 0 INS_INVALID ARG_NONE ARG_NONE ARG_NONE (cpu_PENTIUM4 OR isa_GP) '''' 0 0 0 0 0,
    opcode 0 INS_INVALID ARG_NONE ARG_NONE ARG_NONE (cpu_PENTIUM4 OR isa_GP) '''' 0 0 0 0 0,
    opcode 0 INS_INVALID ARG_NONE ARG_NONE ARG_NONE (cpu_PENTIUM4 OR isa_GP) '''' 0 0 0 0 0,
    opcode 0 INS_INVALID ARG_NONE ARG_NONE ARG_NONE (cpu_PENTIUM4 OR isa_GP) '''' 0 0 0 0 0,
    opcode 0 INS_INVALID ARG_NONE ARG_NONE ARG_NONE (cpu_PENTIUM4 OR isa_GP) '''' 0 0 0 0 0,
    opcode 0 INS_INVALID ARG_NONE ARG_NONE ARG_NONE (cpu_PENTIUM4 OR isa_GP) '''' 0 0 0 0 0,
    opcode 0 INS_INVALID ARG_NONE ARG_NONE ARG_NONE (cpu_PENTIUM4 OR isa_GP) '''' 0 0 0 0 0,
    opcode 0 INS_INVALID ARG_NONE ARG_NONE ARG_NONE (cpu_PENTIUM4 OR isa_GP) '''' 0 0 0 0 0,
    opcode 0 INS_INVALID ARG_NONE ARG_NONE ARG_NONE (cpu_PENTIUM4 OR isa_GP) '''' 0 0 0 0 0,
    opcode 0 INS_UNKNOWN (ADDRMETH_V OR OPTYPE_dq OR OP_R) (ADDRMETH_M OR OPTYPE_dq OR OP_R) ARG_NONE (cpu_PENTIUM4 OR isa_GP) ''lddqu'' 0 0 0 0 0,
    opcode 0 INS_INVALID ARG_NONE ARG_NONE ARG_NONE (cpu_PENTIUM4 OR isa_GP) '''' 0 0 0 0 0,
    opcode 0 INS_INVALID ARG_NONE ARG_NONE ARG_NONE (cpu_PENTIUM4 OR isa_GP) '''' 0 0 0 0 0,
    opcode 0 INS_INVALID ARG_NONE ARG_NONE ARG_NONE (cpu_PENTIUM4 OR isa_GP) '''' 0 0 0 0 0,
    opcode 0 INS_INVALID ARG_NONE ARG_NONE ARG_NONE (cpu_PENTIUM4 OR isa_GP) '''' 0 0 0 0 0,
    opcode 0 INS_INVALID ARG_NONE ARG_NONE ARG_NONE (cpu_PENTIUM4 OR isa_GP) '''' 0 0 0 0 0,
    opcode 0 INS_INVALID ARG_NONE ARG_NONE ARG_NONE (cpu_PENTIUM4 OR isa_GP) '''' 0 0 0 0 0,
    opcode 0 INS_INVALID ARG_NONE ARG_NONE ARG_NONE (cpu_PENTIUM4 OR isa_GP) '''' 0 0 0 0 0,
    opcode 0 INS_INVALID ARG_NONE ARG_NONE ARG_NONE (cpu_PENTIUM4 OR isa_GP) '''' 0 0 0 0 0,
    opcode 0 INS_INVALID ARG_NONE ARG_NONE ARG_NONE (cpu_PENTIUM4 OR isa_GP) '''' 0 0 0 0 0,
    opcode 0 INS_INVALID ARG_NONE ARG_NONE ARG_NONE (cpu_PENTIUM4 OR isa_GP) '''' 0 0 0 0 0,
    opcode 0 INS_INVALID ARG_NONE ARG_NONE ARG_NONE (cpu_PENTIUM4 OR isa_GP) '''' 0 0 0 0 0,
    opcode 0 INS_INVALID ARG_NONE ARG_NONE ARG_NONE (cpu_PENTIUM4 OR isa_GP) '''' 0 0 0 0 0,
    opcode 0 INS_INVALID ARG_NONE ARG_NONE ARG_NONE (cpu_PENTIUM4 OR isa_GP) '''' 0 0 0 0 0,
    opcode 0 INS_INVALID ARG_NONE ARG_NONE ARG_NONE (cpu_PENTIUM4 OR isa_GP) '''' 0 0 0 0 0,
    opcode 0 INS_INVALID ARG_NONE ARG_NONE ARG_NONE (cpu_PENTIUM4 OR isa_GP) '''' 0 0 0 0 0]"

definition tbl_F20F :: "ia32_insn_t list" where
  "tbl_F20F = tbl_F20F_00 @ tbl_F20F_40 @ tbl_F20F_80 @ tbl_F20F_C0"

definition tbl_F30F_00 :: "ia32_insn_t list" where
  "tbl_F30F_00 = [
    opcode 0 INS_UNKNOWN (ADDRMETH_V OR OPTYPE_ss OR OP_R) (ADDRMETH_W OR OPTYPE_ss OR OP_R) ARG_NONE (cpu_PENTIUM4 OR isa_GP) ''movss'' 0 0 0 0 0,
    opcode 0 INS_UNKNOWN (ADDRMETH_W OR OPTYPE_ss OR OP_R) (ADDRMETH_V OR OPTYPE_ss OR OP_R) ARG_NONE (cpu_PENTIUM4 OR isa_GP) ''movss'' 0 0 0 0 0,
    opcode 0 INS_UNKNOWN (ADDRMETH_V OR OPTYPE_ps OR OP_R) (ADDRMETH_W OR OPTYPE_ps OR OP_R) ARG_NONE (cpu_PENTIUM4 OR isa_GP) ''movsldup'' 0 0 0 0 0,
    opcode 0 INS_INVALID ARG_NONE ARG_NONE ARG_NONE (cpu_PENTIUM4 OR isa_GP) '''' 0 0 0 0 0,
    opcode 0 INS_INVALID ARG_NONE ARG_NONE ARG_NONE (cpu_PENTIUM4 OR isa_GP) '''' 0 0 0 0 0,
    opcode 0 INS_INVALID ARG_NONE ARG_NONE ARG_NONE (cpu_PENTIUM4 OR isa_GP) '''' 0 0 0 0 0,
    opcode 0 INS_UNKNOWN (ADDRMETH_V OR OPTYPE_ps OR OP_R) (ADDRMETH_W OR OPTYPE_ps OR OP_R) ARG_NONE (cpu_PENTIUM4 OR isa_GP) ''movshdup'' 0 0 0 0 0,
    opcode 0 INS_INVALID ARG_NONE ARG_NONE ARG_NONE (cpu_PENTIUM4 OR isa_GP) '''' 0 0 0 0 0,
    opcode 0 INS_INVALID ARG_NONE ARG_NONE ARG_NONE (cpu_PENTIUM4 OR isa_GP) '''' 0 0 0 0 0,
    opcode 0 INS_INVALID ARG_NONE ARG_NONE ARG_NONE (cpu_PENTIUM4 OR isa_GP) '''' 0 0 0 0 0,
    opcode 0 INS_INVALID ARG_NONE ARG_NONE ARG_NONE (cpu_PENTIUM4 OR isa_GP) '''' 0 0 0 0 0,
    opcode 0 INS_INVALID ARG_NONE ARG_NONE ARG_NONE (cpu_PENTIUM4 OR isa_GP) '''' 0 0 0 0 0,
    opcode 0 INS_INVALID ARG_NONE ARG_NONE ARG_NONE (cpu_PENTIUM4 OR isa_GP) '''' 0 0 0 0 0,
    opcode 0 INS_INVALID ARG_NONE ARG_NONE ARG_NONE (cpu_PENTIUM4 OR isa_GP) '''' 0 0 0 0 0,
    opcode 0 INS_INVALID ARG_NONE ARG_NONE ARG_NONE (cpu_PENTIUM4 OR isa_GP) '''' 0 0 0 0 0,
    opcode 0 INS_INVALID ARG_NONE ARG_NONE ARG_NONE (cpu_PENTIUM4 OR isa_GP) '''' 0 0 0 0 0,
    opcode 0 INS_INVALID ARG_NONE ARG_NONE ARG_NONE (cpu_PENTIUM4 OR isa_GP) '''' 0 0 0 0 0,
    opcode 0 INS_INVALID ARG_NONE ARG_NONE ARG_NONE (cpu_PENTIUM4 OR isa_GP) '''' 0 0 0 0 0,
    opcode 0 INS_INVALID ARG_NONE ARG_NONE ARG_NONE (cpu_PENTIUM4 OR isa_GP) '''' 0 0 0 0 0,
    opcode 0 INS_INVALID ARG_NONE ARG_NONE ARG_NONE (cpu_PENTIUM4 OR isa_GP) '''' 0 0 0 0 0,
    opcode 0 INS_INVALID ARG_NONE ARG_NONE ARG_NONE (cpu_PENTIUM4 OR isa_GP) '''' 0 0 0 0 0,
    opcode 0 INS_INVALID ARG_NONE ARG_NONE ARG_NONE (cpu_PENTIUM4 OR isa_GP) '''' 0 0 0 0 0,
    opcode 0 INS_INVALID ARG_NONE ARG_NONE ARG_NONE (cpu_PENTIUM4 OR isa_GP) '''' 0 0 0 0 0,
    opcode 0 INS_INVALID ARG_NONE ARG_NONE ARG_NONE (cpu_PENTIUM4 OR isa_GP) '''' 0 0 0 0 0,
    opcode 0 INS_INVALID ARG_NONE ARG_NONE ARG_NONE (cpu_PENTIUM4 OR isa_GP) '''' 0 0 0 0 0,
    opcode 0 INS_INVALID ARG_NONE ARG_NONE ARG_NONE (cpu_PENTIUM4 OR isa_GP) '''' 0 0 0 0 0,
    opcode 0 INS_UNKNOWN (ADDRMETH_V OR OPTYPE_ss OR OP_R) (ADDRMETH_E OR OPTYPE_d OR OP_R) ARG_NONE (cpu_PENTIUM4 OR isa_GP) ''cvtsi2ss'' 0 0 0 0 0,
    opcode 0 INS_INVALID ARG_NONE ARG_NONE ARG_NONE (cpu_PENTIUM4 OR isa_GP) '''' 0 0 0 0 0,
    opcode 0 INS_UNKNOWN (ADDRMETH_G OR OPTYPE_d OR OP_R) (ADDRMETH_W OR OPTYPE_ss OR OP_R) ARG_NONE (cpu_PENTIUM4 OR isa_GP) ''cvttss2si'' 0 0 0 0 0,
    opcode 0 INS_UNKNOWN (ADDRMETH_G OR OPTYPE_d OR OP_R) (ADDRMETH_W OR OPTYPE_ss OR OP_R) ARG_NONE (cpu_PENTIUM4 OR isa_GP) ''cvtss2si'' 0 0 0 0 0,
    opcode 0 INS_INVALID ARG_NONE ARG_NONE ARG_NONE (cpu_PENTIUM4 OR isa_GP) '''' 0 0 0 0 0,
    opcode 0 INS_INVALID ARG_NONE ARG_NONE ARG_NONE (cpu_PENTIUM4 OR isa_GP) '''' 0 0 0 0 0,
    opcode 0 INS_INVALID ARG_NONE ARG_NONE ARG_NONE (cpu_PENTIUM4 OR isa_GP) '''' 0 0 0 0 0,
    opcode 0 INS_INVALID ARG_NONE ARG_NONE ARG_NONE (cpu_PENTIUM4 OR isa_GP) '''' 0 0 0 0 0,
    opcode 0 INS_INVALID ARG_NONE ARG_NONE ARG_NONE (cpu_PENTIUM4 OR isa_GP) '''' 0 0 0 0 0,
    opcode 0 INS_INVALID ARG_NONE ARG_NONE ARG_NONE (cpu_PENTIUM4 OR isa_GP) '''' 0 0 0 0 0,
    opcode 0 INS_INVALID ARG_NONE ARG_NONE ARG_NONE (cpu_PENTIUM4 OR isa_GP) '''' 0 0 0 0 0,
    opcode 0 INS_INVALID ARG_NONE ARG_NONE ARG_NONE (cpu_PENTIUM4 OR isa_GP) '''' 0 0 0 0 0,
    opcode 0 INS_INVALID ARG_NONE ARG_NONE ARG_NONE (cpu_PENTIUM4 OR isa_GP) '''' 0 0 0 0 0,
    opcode 0 INS_INVALID ARG_NONE ARG_NONE ARG_NONE (cpu_PENTIUM4 OR isa_GP) '''' 0 0 0 0 0,
    opcode 0 INS_INVALID ARG_NONE ARG_NONE ARG_NONE (cpu_PENTIUM4 OR isa_GP) '''' 0 0 0 0 0,
    opcode 0 INS_INVALID ARG_NONE ARG_NONE ARG_NONE (cpu_PENTIUM4 OR isa_GP) '''' 0 0 0 0 0,
    opcode 0 INS_INVALID ARG_NONE ARG_NONE ARG_NONE (cpu_PENTIUM4 OR isa_GP) '''' 0 0 0 0 0,
    opcode 0 INS_INVALID ARG_NONE ARG_NONE ARG_NONE (cpu_PENTIUM4 OR isa_GP) '''' 0 0 0 0 0,
    opcode 0 INS_INVALID ARG_NONE ARG_NONE ARG_NONE (cpu_PENTIUM4 OR isa_GP) '''' 0 0 0 0 0,
    opcode 0 INS_INVALID ARG_NONE ARG_NONE ARG_NONE (cpu_PENTIUM4 OR isa_GP) '''' 0 0 0 0 0,
    opcode 0 INS_INVALID ARG_NONE ARG_NONE ARG_NONE (cpu_PENTIUM4 OR isa_GP) '''' 0 0 0 0 0,
    opcode 0 INS_INVALID ARG_NONE ARG_NONE ARG_NONE (cpu_PENTIUM4 OR isa_GP) '''' 0 0 0 0 0,
    opcode 0 INS_INVALID ARG_NONE ARG_NONE ARG_NONE (cpu_PENTIUM4 OR isa_GP) '''' 0 0 0 0 0,
    opcode 0 INS_INVALID ARG_NONE ARG_NONE ARG_NONE (cpu_PENTIUM4 OR isa_GP) '''' 0 0 0 0 0,
    opcode 0 INS_INVALID ARG_NONE ARG_NONE ARG_NONE (cpu_PENTIUM4 OR isa_GP) '''' 0 0 0 0 0,
    opcode 0 INS_INVALID ARG_NONE ARG_NONE ARG_NONE (cpu_PENTIUM4 OR isa_GP) '''' 0 0 0 0 0,
    opcode 0 INS_INVALID ARG_NONE ARG_NONE ARG_NONE (cpu_PENTIUM4 OR isa_GP) '''' 0 0 0 0 0,
    opcode 0 INS_INVALID ARG_NONE ARG_NONE ARG_NONE (cpu_PENTIUM4 OR isa_GP) '''' 0 0 0 0 0,
    opcode 0 INS_INVALID ARG_NONE ARG_NONE ARG_NONE (cpu_PENTIUM4 OR isa_GP) '''' 0 0 0 0 0,
    opcode 0 INS_INVALID ARG_NONE ARG_NONE ARG_NONE (cpu_PENTIUM4 OR isa_GP) '''' 0 0 0 0 0,
    opcode 0 INS_INVALID ARG_NONE ARG_NONE ARG_NONE (cpu_PENTIUM4 OR isa_GP) '''' 0 0 0 0 0,
    opcode 0 INS_INVALID ARG_NONE ARG_NONE ARG_NONE (cpu_PENTIUM4 OR isa_GP) '''' 0 0 0 0 0,
    opcode 0 INS_INVALID ARG_NONE ARG_NONE ARG_NONE (cpu_PENTIUM4 OR isa_GP) '''' 0 0 0 0 0,
    opcode 0 INS_INVALID ARG_NONE ARG_NONE ARG_NONE (cpu_PENTIUM4 OR isa_GP) '''' 0 0 0 0 0,
    opcode 0 INS_INVALID ARG_NONE ARG_NONE ARG_NONE (cpu_PENTIUM4 OR isa_GP) '''' 0 0 0 0 0,
    opcode 0 INS_INVALID ARG_NONE ARG_NONE ARG_NONE (cpu_PENTIUM4 OR isa_GP) '''' 0 0 0 0 0,
    opcode 0 INS_INVALID ARG_NONE ARG_NONE ARG_NONE (cpu_PENTIUM4 OR isa_GP) '''' 0 0 0 0 0,
    opcode 0 INS_INVALID ARG_NONE ARG_NONE ARG_NONE (cpu_PENTIUM4 OR isa_GP) '''' 0 0 0 0 0]"

definition tbl_F30F_40 :: "ia32_insn_t list" where
  "tbl_F30F_40 = [
    opcode 0 INS_INVALID ARG_NONE ARG_NONE ARG_NONE (cpu_PENTIUM4 OR isa_GP) '''' 0 0 0 0 0,
    opcode 0 INS_UNKNOWN (ADDRMETH_V OR OPTYPE_ss OR OP_R) (ADDRMETH_W OR OPTYPE_ss OR OP_R) ARG_NONE (cpu_PENTIUM4 OR isa_GP) ''sqrtss'' 0 0 0 0 0,
    opcode 0 INS_UNKNOWN (ADDRMETH_V OR OPTYPE_ss OR OP_R) (ADDRMETH_W OR OPTYPE_ss OR OP_R) ARG_NONE (cpu_PENTIUM4 OR isa_GP) ''rsqrtss'' 0 0 0 0 0,
    opcode 0 INS_UNKNOWN (ADDRMETH_V OR OPTYPE_ss OR OP_R) (ADDRMETH_W OR OPTYPE_ss OR OP_R) ARG_NONE (cpu_PENTIUM4 OR isa_GP) ''rcpss'' 0 0 0 0 0,
    opcode 0 INS_INVALID ARG_NONE ARG_NONE ARG_NONE (cpu_PENTIUM4 OR isa_GP) '''' 0 0 0 0 0,
    opcode 0 INS_INVALID ARG_NONE ARG_NONE ARG_NONE (cpu_PENTIUM4 OR isa_GP) '''' 0 0 0 0 0,
    opcode 0 INS_INVALID ARG_NONE ARG_NONE ARG_NONE (cpu_PENTIUM4 OR isa_GP) '''' 0 0 0 0 0,
    opcode 0 INS_INVALID ARG_NONE ARG_NONE ARG_NONE (cpu_PENTIUM4 OR isa_GP) '''' 0 0 0 0 0,
    opcode 0 INS_UNKNOWN (ADDRMETH_V OR OPTYPE_ss OR OP_R) (ADDRMETH_W OR OPTYPE_ss OR OP_R) ARG_NONE (cpu_PENTIUM4 OR isa_GP) ''addss'' 0 0 0 0 0,
    opcode 0 INS_UNKNOWN (ADDRMETH_V OR OPTYPE_ss OR OP_R) (ADDRMETH_W OR OPTYPE_ss OR OP_R) ARG_NONE (cpu_PENTIUM4 OR isa_GP) ''mulss'' 0 0 0 0 0,
    opcode 0 INS_UNKNOWN (ADDRMETH_V OR OPTYPE_sd OR OP_R) (ADDRMETH_W OR OPTYPE_ss OR OP_R) ARG_NONE (cpu_PENTIUM4 OR isa_GP) ''cvtss2sd'' 0 0 0 0 0,
    opcode 0 INS_UNKNOWN (ADDRMETH_V OR OPTYPE_dq OR OP_R) (ADDRMETH_W OR OPTYPE_ps OR OP_R) ARG_NONE (cpu_PENTIUM4 OR isa_GP) ''cvttps2dq'' 0 0 0 0 0,
    opcode 0 INS_UNKNOWN (ADDRMETH_V OR OPTYPE_ss OR OP_R) (ADDRMETH_W OR OPTYPE_ss OR OP_R) ARG_NONE (cpu_PENTIUM4 OR isa_GP) ''subss'' 0 0 0 0 0,
    opcode 0 INS_UNKNOWN (ADDRMETH_V OR OPTYPE_ss OR OP_R) (ADDRMETH_W OR OPTYPE_ss OR OP_R) ARG_NONE (cpu_PENTIUM4 OR isa_GP) ''minss'' 0 0 0 0 0,
    opcode 0 INS_UNKNOWN (ADDRMETH_V OR OPTYPE_ss OR OP_R) (ADDRMETH_W OR OPTYPE_ss OR OP_R) ARG_NONE (cpu_PENTIUM4 OR isa_GP) ''divss'' 0 0 0 0 0,
    opcode 0 INS_UNKNOWN (ADDRMETH_V OR OPTYPE_ss OR OP_R) (ADDRMETH_W OR OPTYPE_ss OR OP_R) ARG_NONE (cpu_PENTIUM4 OR isa_GP) ''maxss'' 0 0 0 0 0,
    opcode 0 INS_INVALID ARG_NONE ARG_NONE ARG_NONE (cpu_PENTIUM4 OR isa_GP) '''' 0 0 0 0 0,
    opcode 0 INS_INVALID ARG_NONE ARG_NONE ARG_NONE (cpu_PENTIUM4 OR isa_GP) '''' 0 0 0 0 0,
    opcode 0 INS_INVALID ARG_NONE ARG_NONE ARG_NONE (cpu_PENTIUM4 OR isa_GP) '''' 0 0 0 0 0,
    opcode 0 INS_INVALID ARG_NONE ARG_NONE ARG_NONE (cpu_PENTIUM4 OR isa_GP) '''' 0 0 0 0 0,
    opcode 0 INS_INVALID ARG_NONE ARG_NONE ARG_NONE (cpu_PENTIUM4 OR isa_GP) '''' 0 0 0 0 0,
    opcode 0 INS_INVALID ARG_NONE ARG_NONE ARG_NONE (cpu_PENTIUM4 OR isa_GP) '''' 0 0 0 0 0,
    opcode 0 INS_INVALID ARG_NONE ARG_NONE ARG_NONE (cpu_PENTIUM4 OR isa_GP) '''' 0 0 0 0 0,
    opcode 0 INS_INVALID ARG_NONE ARG_NONE ARG_NONE (cpu_PENTIUM4 OR isa_GP) '''' 0 0 0 0 0,
    opcode 0 INS_INVALID ARG_NONE ARG_NONE ARG_NONE (cpu_PENTIUM4 OR isa_GP) '''' 0 0 0 0 0,
    opcode 0 INS_INVALID ARG_NONE ARG_NONE ARG_NONE (cpu_PENTIUM4 OR isa_GP) '''' 0 0 0 0 0,
    opcode 0 INS_INVALID ARG_NONE ARG_NONE ARG_NONE (cpu_PENTIUM4 OR isa_GP) '''' 0 0 0 0 0,
    opcode 0 INS_INVALID ARG_NONE ARG_NONE ARG_NONE (cpu_PENTIUM4 OR isa_GP) '''' 0 0 0 0 0,
    opcode 0 INS_INVALID ARG_NONE ARG_NONE ARG_NONE (cpu_PENTIUM4 OR isa_GP) '''' 0 0 0 0 0,
    opcode 0 INS_INVALID ARG_NONE ARG_NONE ARG_NONE (cpu_PENTIUM4 OR isa_GP) '''' 0 0 0 0 0,
    opcode 0 INS_INVALID ARG_NONE ARG_NONE ARG_NONE (cpu_PENTIUM4 OR isa_GP) '''' 0 0 0 0 0,
    opcode 0 INS_UNKNOWN (ADDRMETH_V OR OPTYPE_dq OR OP_R) (ADDRMETH_W OR OPTYPE_dq OR OP_R) ARG_NONE (cpu_PENTIUM4 OR isa_GP) ''movdqu'' 0 0 0 0 0,
    opcode 0 INS_UNKNOWN (ADDRMETH_V OR OPTYPE_dq OR OP_R) (ADDRMETH_W OR OPTYPE_dq OR OP_R) (ADDRMETH_I OR OPTYPE_b OR OP_R) (cpu_PENTIUM4 OR isa_GP) ''pshufhw'' 0 0 0 0 0,
    opcode 0 INS_INVALID ARG_NONE ARG_NONE ARG_NONE (cpu_PENTIUM4 OR isa_GP) '''' 0 0 0 0 0,
    opcode 0 INS_INVALID ARG_NONE ARG_NONE ARG_NONE (cpu_PENTIUM4 OR isa_GP) '''' 0 0 0 0 0,
    opcode 0 INS_INVALID ARG_NONE ARG_NONE ARG_NONE (cpu_PENTIUM4 OR isa_GP) '''' 0 0 0 0 0,
    opcode 0 INS_INVALID ARG_NONE ARG_NONE ARG_NONE (cpu_PENTIUM4 OR isa_GP) '''' 0 0 0 0 0,
    opcode 0 INS_INVALID ARG_NONE ARG_NONE ARG_NONE (cpu_PENTIUM4 OR isa_GP) '''' 0 0 0 0 0,
    opcode 0 INS_INVALID ARG_NONE ARG_NONE ARG_NONE (cpu_PENTIUM4 OR isa_GP) '''' 0 0 0 0 0,
    opcode 0 INS_INVALID ARG_NONE ARG_NONE ARG_NONE (cpu_PENTIUM4 OR isa_GP) '''' 0 0 0 0 0,
    opcode 0 INS_INVALID ARG_NONE ARG_NONE ARG_NONE (cpu_PENTIUM4 OR isa_GP) '''' 0 0 0 0 0,
    opcode 0 INS_INVALID ARG_NONE ARG_NONE ARG_NONE (cpu_PENTIUM4 OR isa_GP) '''' 0 0 0 0 0,
    opcode 0 INS_INVALID ARG_NONE ARG_NONE ARG_NONE (cpu_PENTIUM4 OR isa_GP) '''' 0 0 0 0 0,
    opcode 0 INS_INVALID ARG_NONE ARG_NONE ARG_NONE (cpu_PENTIUM4 OR isa_GP) '''' 0 0 0 0 0,
    opcode 0 INS_INVALID ARG_NONE ARG_NONE ARG_NONE (cpu_PENTIUM4 OR isa_GP) '''' 0 0 0 0 0,
    opcode 0 INS_INVALID ARG_NONE ARG_NONE ARG_NONE (cpu_PENTIUM4 OR isa_GP) '''' 0 0 0 0 0,
    opcode 0 INS_UNKNOWN (ADDRMETH_V OR OPTYPE_q OR OP_R) (ADDRMETH_W OR OPTYPE_q OR OP_R) ARG_NONE (cpu_PENTIUM4 OR isa_GP) ''movq'' 0 0 0 0 0,
    opcode 0 INS_UNKNOWN (ADDRMETH_W OR OPTYPE_dq OR OP_R) (ADDRMETH_V OR OPTYPE_dq OR OP_R) ARG_NONE (cpu_PENTIUM4 OR isa_GP) ''movdqu'' 0 0 0 0 0,
    opcode 0 INS_INVALID ARG_NONE ARG_NONE ARG_NONE (cpu_PENTIUM4 OR isa_GP) '''' 0 0 0 0 0,
    opcode 0 INS_INVALID ARG_NONE ARG_NONE ARG_NONE (cpu_PENTIUM4 OR isa_GP) '''' 0 0 0 0 0,
    opcode 0 INS_INVALID ARG_NONE ARG_NONE ARG_NONE (cpu_PENTIUM4 OR isa_GP) '''' 0 0 0 0 0,
    opcode 0 INS_INVALID ARG_NONE ARG_NONE ARG_NONE (cpu_PENTIUM4 OR isa_GP) '''' 0 0 0 0 0,
    opcode 0 INS_INVALID ARG_NONE ARG_NONE ARG_NONE (cpu_PENTIUM4 OR isa_GP) '''' 0 0 0 0 0,
    opcode 0 INS_INVALID ARG_NONE ARG_NONE ARG_NONE (cpu_PENTIUM4 OR isa_GP) '''' 0 0 0 0 0,
    opcode 0 INS_INVALID ARG_NONE ARG_NONE ARG_NONE (cpu_PENTIUM4 OR isa_GP) '''' 0 0 0 0 0,
    opcode 0 INS_INVALID ARG_NONE ARG_NONE ARG_NONE (cpu_PENTIUM4 OR isa_GP) '''' 0 0 0 0 0,
    opcode 0 INS_INVALID ARG_NONE ARG_NONE ARG_NONE (cpu_PENTIUM4 OR isa_GP) '''' 0 0 0 0 0,
    opcode 0 INS_INVALID ARG_NONE ARG_NONE ARG_NONE (cpu_PENTIUM4 OR isa_GP) '''' 0 0 0 0 0,
    opcode 0 INS_INVALID ARG_NONE ARG_NONE ARG_NONE (cpu_PENTIUM4 OR isa_GP) '''' 0 0 0 0 0,
    opcode 0 INS_INVALID ARG_NONE ARG_NONE ARG_NONE (cpu_PENTIUM4 OR isa_GP) '''' 0 0 0 0 0,
    opcode 0 INS_INVALID ARG_NONE ARG_NONE ARG_NONE (cpu_PENTIUM4 OR isa_GP) '''' 0 0 0 0 0,
    opcode 0 INS_INVALID ARG_NONE ARG_NONE ARG_NONE (cpu_PENTIUM4 OR isa_GP) '''' 0 0 0 0 0,
    opcode 0 INS_INVALID ARG_NONE ARG_NONE ARG_NONE (cpu_PENTIUM4 OR isa_GP) '''' 0 0 0 0 0,
    opcode 0 INS_INVALID ARG_NONE ARG_NONE ARG_NONE (cpu_PENTIUM4 OR isa_GP) '''' 0 0 0 0 0]"

definition tbl_F30F_80 :: "ia32_insn_t list" where
  "tbl_F30F_80 = [
    opcode 0 INS_INVALID ARG_NONE ARG_NONE ARG_NONE (cpu_PENTIUM4 OR isa_GP) '''' 0 0 0 0 0,
    opcode 0 INS_INVALID ARG_NONE ARG_NONE ARG_NONE (cpu_PENTIUM4 OR isa_GP) '''' 0 0 0 0 0,
    opcode 0 INS_INVALID ARG_NONE ARG_NONE ARG_NONE (cpu_PENTIUM4 OR isa_GP) '''' 0 0 0 0 0,
    opcode 0 INS_INVALID ARG_NONE ARG_NONE ARG_NONE (cpu_PENTIUM4 OR isa_GP) '''' 0 0 0 0 0,
    opcode 0 INS_INVALID ARG_NONE ARG_NONE ARG_NONE (cpu_PENTIUM4 OR isa_GP) '''' 0 0 0 0 0,
    opcode 0 INS_INVALID ARG_NONE ARG_NONE ARG_NONE (cpu_PENTIUM4 OR isa_GP) '''' 0 0 0 0 0,
    opcode 0 INS_INVALID ARG_NONE ARG_NONE ARG_NONE (cpu_PENTIUM4 OR isa_GP) '''' 0 0 0 0 0,
    opcode 0 INS_INVALID ARG_NONE ARG_NONE ARG_NONE (cpu_PENTIUM4 OR isa_GP) '''' 0 0 0 0 0,
    opcode 0 INS_INVALID ARG_NONE ARG_NONE ARG_NONE (cpu_PENTIUM4 OR isa_GP) '''' 0 0 0 0 0,
    opcode 0 INS_INVALID ARG_NONE ARG_NONE ARG_NONE (cpu_PENTIUM4 OR isa_GP) '''' 0 0 0 0 0,
    opcode 0 INS_INVALID ARG_NONE ARG_NONE ARG_NONE (cpu_PENTIUM4 OR isa_GP) '''' 0 0 0 0 0,
    opcode 0 INS_INVALID ARG_NONE ARG_NONE ARG_NONE (cpu_PENTIUM4 OR isa_GP) '''' 0 0 0 0 0,
    opcode 0 INS_INVALID ARG_NONE ARG_NONE ARG_NONE (cpu_PENTIUM4 OR isa_GP) '''' 0 0 0 0 0,
    opcode 0 INS_INVALID ARG_NONE ARG_NONE ARG_NONE (cpu_PENTIUM4 OR isa_GP) '''' 0 0 0 0 0,
    opcode 0 INS_INVALID ARG_NONE ARG_NONE ARG_NONE (cpu_PENTIUM4 OR isa_GP) '''' 0 0 0 0 0,
    opcode 0 INS_INVALID ARG_NONE ARG_NONE ARG_NONE (cpu_PENTIUM4 OR isa_GP) '''' 0 0 0 0 0,
    opcode 0 INS_INVALID ARG_NONE ARG_NONE ARG_NONE (cpu_PENTIUM4 OR isa_GP) '''' 0 0 0 0 0,
    opcode 0 INS_INVALID ARG_NONE ARG_NONE ARG_NONE (cpu_PENTIUM4 OR isa_GP) '''' 0 0 0 0 0,
    opcode 0 INS_INVALID ARG_NONE ARG_NONE ARG_NONE (cpu_PENTIUM4 OR isa_GP) '''' 0 0 0 0 0,
    opcode 0 INS_INVALID ARG_NONE ARG_NONE ARG_NONE (cpu_PENTIUM4 OR isa_GP) '''' 0 0 0 0 0,
    opcode 0 INS_INVALID ARG_NONE ARG_NONE ARG_NONE (cpu_PENTIUM4 OR isa_GP) '''' 0 0 0 0 0,
    opcode 0 INS_INVALID ARG_NONE ARG_NONE ARG_NONE (cpu_PENTIUM4 OR isa_GP) '''' 0 0 0 0 0,
    opcode 0 INS_INVALID ARG_NONE ARG_NONE ARG_NONE (cpu_PENTIUM4 OR isa_GP) '''' 0 0 0 0 0,
    opcode 0 INS_INVALID ARG_NONE ARG_NONE ARG_NONE (cpu_PENTIUM4 OR isa_GP) '''' 0 0 0 0 0,
    opcode 0 INS_INVALID ARG_NONE ARG_NONE ARG_NONE (cpu_PENTIUM4 OR isa_GP) '''' 0 0 0 0 0,
    opcode 0 INS_INVALID ARG_NONE ARG_NONE ARG_NONE (cpu_PENTIUM4 OR isa_GP) '''' 0 0 0 0 0,
    opcode 0 INS_INVALID ARG_NONE ARG_NONE ARG_NONE (cpu_PENTIUM4 OR isa_GP) '''' 0 0 0 0 0,
    opcode 0 INS_INVALID ARG_NONE ARG_NONE ARG_NONE (cpu_PENTIUM4 OR isa_GP) '''' 0 0 0 0 0,
    opcode 0 INS_INVALID ARG_NONE ARG_NONE ARG_NONE (cpu_PENTIUM4 OR isa_GP) '''' 0 0 0 0 0,
    opcode 0 INS_INVALID ARG_NONE ARG_NONE ARG_NONE (cpu_PENTIUM4 OR isa_GP) '''' 0 0 0 0 0,
    opcode 0 INS_INVALID ARG_NONE ARG_NONE ARG_NONE (cpu_PENTIUM4 OR isa_GP) '''' 0 0 0 0 0,
    opcode 0 INS_INVALID ARG_NONE ARG_NONE ARG_NONE (cpu_PENTIUM4 OR isa_GP) '''' 0 0 0 0 0,
    opcode 0 INS_INVALID ARG_NONE ARG_NONE ARG_NONE (cpu_PENTIUM4 OR isa_GP) '''' 0 0 0 0 0,
    opcode 0 INS_INVALID ARG_NONE ARG_NONE ARG_NONE (cpu_PENTIUM4 OR isa_GP) '''' 0 0 0 0 0,
    opcode 0 INS_INVALID ARG_NONE ARG_NONE ARG_NONE (cpu_PENTIUM4 OR isa_GP) '''' 0 0 0 0 0,
    opcode 0 INS_INVALID ARG_NONE ARG_NONE ARG_NONE (cpu_PENTIUM4 OR isa_GP) '''' 0 0 0 0 0,
    opcode 0 INS_INVALID ARG_NONE ARG_NONE ARG_NONE (cpu_PENTIUM4 OR isa_GP) '''' 0 0 0 0 0,
    opcode 0 INS_INVALID ARG_NONE ARG_NONE ARG_NONE (cpu_PENTIUM4 OR isa_GP) '''' 0 0 0 0 0,
    opcode 0 INS_INVALID ARG_NONE ARG_NONE ARG_NONE (cpu_PENTIUM4 OR isa_GP) '''' 0 0 0 0 0,
    opcode 0 INS_INVALID ARG_NONE ARG_NONE ARG_NONE (cpu_PENTIUM4 OR isa_GP) '''' 0 0 0 0 0,
    opcode 0 INS_INVALID ARG_NONE ARG_NONE ARG_NONE (cpu_PENTIUM4 OR isa_GP) '''' 0 0 0 0 0,
    opcode 0 INS_INVALID ARG_NONE ARG_NONE ARG_NONE (cpu_PENTIUM4 OR isa_GP) '''' 0 0 0 0 0,
    opcode 0 INS_INVALID ARG_NONE ARG_NONE ARG_NONE (cpu_PENTIUM4 OR isa_GP) '''' 0 0 0 0 0,
    opcode 0 INS_INVALID ARG_NONE ARG_NONE ARG_NONE (cpu_PENTIUM4 OR isa_GP) '''' 0 0 0 0 0,
    opcode 0 INS_INVALID ARG_NONE ARG_NONE ARG_NONE (cpu_PENTIUM4 OR isa_GP) '''' 0 0 0 0 0,
    opcode 0 INS_INVALID ARG_NONE ARG_NONE ARG_NONE (cpu_PENTIUM4 OR isa_GP) '''' 0 0 0 0 0,
    opcode 0 INS_INVALID ARG_NONE ARG_NONE ARG_NONE (cpu_PENTIUM4 OR isa_GP) '''' 0 0 0 0 0,
    opcode 0 INS_INVALID ARG_NONE ARG_NONE ARG_NONE (cpu_PENTIUM4 OR isa_GP) '''' 0 0 0 0 0,
    opcode 0 INS_INVALID ARG_NONE ARG_NONE ARG_NONE (cpu_PENTIUM4 OR isa_GP) '''' 0 0 0 0 0,
    opcode 0 INS_INVALID ARG_NONE ARG_NONE ARG_NONE (cpu_PENTIUM4 OR isa_GP) '''' 0 0 0 0 0,
    opcode 0 INS_UNKNOWN (ADDRMETH_V OR OPTYPE_ss OR OP_R) (ADDRMETH_W OR OPTYPE_ss OR OP_R) (ADDRMETH_I OR OPTYPE_b OR OP_R) (cpu_PENTIUM4 OR isa_GP) ''cmpss'' 0 0 0 0 0,
    opcode 0 INS_INVALID ARG_NONE ARG_NONE ARG_NONE (cpu_PENTIUM4 OR isa_GP) '''' 0 0 0 0 0,
    opcode 0 INS_INVALID ARG_NONE ARG_NONE ARG_NONE (cpu_PENTIUM4 OR isa_GP) '''' 0 0 0 0 0,
    opcode 0 INS_INVALID ARG_NONE ARG_NONE ARG_NONE (cpu_PENTIUM4 OR isa_GP) '''' 0 0 0 0 0,
    opcode 0 INS_INVALID ARG_NONE ARG_NONE ARG_NONE (cpu_PENTIUM4 OR isa_GP) '''' 0 0 0 0 0,
    opcode 0 INS_INVALID ARG_NONE ARG_NONE ARG_NONE (cpu_PENTIUM4 OR isa_GP) '''' 0 0 0 0 0,
    opcode 0 INS_INVALID ARG_NONE ARG_NONE ARG_NONE (cpu_PENTIUM4 OR isa_GP) '''' 0 0 0 0 0,
    opcode 0 INS_INVALID ARG_NONE ARG_NONE ARG_NONE (cpu_PENTIUM4 OR isa_GP) '''' 0 0 0 0 0,
    opcode 0 INS_INVALID ARG_NONE ARG_NONE ARG_NONE (cpu_PENTIUM4 OR isa_GP) '''' 0 0 0 0 0,
    opcode 0 INS_INVALID ARG_NONE ARG_NONE ARG_NONE (cpu_PENTIUM4 OR isa_GP) '''' 0 0 0 0 0,
    opcode 0 INS_INVALID ARG_NONE ARG_NONE ARG_NONE (cpu_PENTIUM4 OR isa_GP) '''' 0 0 0 0 0,
    opcode 0 INS_INVALID ARG_NONE ARG_NONE ARG_NONE (cpu_PENTIUM4 OR isa_GP) '''' 0 0 0 0 0,
    opcode 0 INS_INVALID ARG_NONE ARG_NONE ARG_NONE (cpu_PENTIUM4 OR isa_GP) '''' 0 0 0 0 0,
    opcode 0 INS_INVALID ARG_NONE ARG_NONE ARG_NONE (cpu_PENTIUM4 OR isa_GP) '''' 0 0 0 0 0]"

definition tbl_F30F_C0 :: "ia32_insn_t list" where
  "tbl_F30F_C0 = [
    opcode 0 INS_INVALID ARG_NONE ARG_NONE ARG_NONE (cpu_PENTIUM4 OR isa_GP) '''' 0 0 0 0 0,
    opcode 0 INS_INVALID ARG_NONE ARG_NONE ARG_NONE (cpu_PENTIUM4 OR isa_GP) '''' 0 0 0 0 0,
    opcode 0 INS_INVALID ARG_NONE ARG_NONE ARG_NONE (cpu_PENTIUM4 OR isa_GP) '''' 0 0 0 0 0,
    opcode 0 INS_INVALID ARG_NONE ARG_NONE ARG_NONE (cpu_PENTIUM4 OR isa_GP) '''' 0 0 0 0 0,
    opcode 0 INS_INVALID ARG_NONE ARG_NONE ARG_NONE (cpu_PENTIUM4 OR isa_GP) '''' 0 0 0 0 0,
    opcode 0 INS_INVALID ARG_NONE ARG_NONE ARG_NONE (cpu_PENTIUM4 OR isa_GP) '''' 0 0 0 0 0,
    opcode 0 INS_UNKNOWN (ADDRMETH_V OR OPTYPE_dq OR OP_R) (ADDRMETH_Q OR OPTYPE_q OR OP_R) ARG_NONE (cpu_PENTIUM4 OR isa_GP) ''movq2dq'' 0 0 0 0 0,
    opcode 0 INS_INVALID ARG_NONE ARG_NONE ARG_NONE (cpu_PENTIUM4 OR isa_GP) '''' 0 0 0 0 0,
    opcode 0 INS_INVALID ARG_NONE ARG_NONE ARG_NONE (cpu_PENTIUM4 OR isa_GP) '''' 0 0 0 0 0,
    opcode 0 INS_INVALID ARG_NONE ARG_NONE ARG_NONE (cpu_PENTIUM4 OR isa_GP) '''' 0 0 0 0 0,
    opcode 0 INS_INVALID ARG_NONE ARG_NONE ARG_NONE (cpu_PENTIUM4 OR isa_GP) '''' 0 0 0 0 0,
    opcode 0 INS_INVALID ARG_NONE ARG_NONE ARG_NONE (cpu_PENTIUM4 OR isa_GP) '''' 0 0 0 0 0,
    opcode 0 INS_INVALID ARG_NONE ARG_NONE ARG_NONE (cpu_PENTIUM4 OR isa_GP) '''' 0 0 0 0 0,
    opcode 0 INS_INVALID ARG_NONE ARG_NONE ARG_NONE (cpu_PENTIUM4 OR isa_GP) '''' 0 0 0 0 0,
    opcode 0 INS_INVALID ARG_NONE ARG_NONE ARG_NONE (cpu_PENTIUM4 OR isa_GP) '''' 0 0 0 0 0,
    opcode 0 INS_INVALID ARG_NONE ARG_NONE ARG_NONE (cpu_PENTIUM4 OR isa_GP) '''' 0 0 0 0 0,
    opcode 0 INS_INVALID ARG_NONE ARG_NONE ARG_NONE (cpu_PENTIUM4 OR isa_GP) '''' 0 0 0 0 0,
    opcode 0 INS_INVALID ARG_NONE ARG_NONE ARG_NONE (cpu_PENTIUM4 OR isa_GP) '''' 0 0 0 0 0,
    opcode 0 INS_INVALID ARG_NONE ARG_NONE ARG_NONE (cpu_PENTIUM4 OR isa_GP) '''' 0 0 0 0 0,
    opcode 0 INS_INVALID ARG_NONE ARG_NONE ARG_NONE (cpu_PENTIUM4 OR isa_GP) '''' 0 0 0 0 0,
    opcode 0 INS_INVALID ARG_NONE ARG_NONE ARG_NONE (cpu_PENTIUM4 OR isa_GP) '''' 0 0 0 0 0,
    opcode 0 INS_INVALID ARG_NONE ARG_NONE ARG_NONE (cpu_PENTIUM4 OR isa_GP) '''' 0 0 0 0 0,
    opcode 0 INS_UNKNOWN (ADDRMETH_V OR OPTYPE_pd OR OP_R) (ADDRMETH_W OR OPTYPE_q OR OP_R) ARG_NONE (cpu_PENTIUM4 OR isa_GP) ''cvtdq2pd'' 0 0 0 0 0,
    opcode 0 INS_INVALID ARG_NONE ARG_NONE ARG_NONE (cpu_PENTIUM4 OR isa_GP) '''' 0 0 0 0 0,
    opcode 0 INS_INVALID ARG_NONE ARG_NONE ARG_NONE (cpu_PENTIUM4 OR isa_GP) '''' 0 0 0 0 0,
    opcode 0 INS_INVALID ARG_NONE ARG_NONE ARG_NONE (cpu_PENTIUM4 OR isa_GP) '''' 0 0 0 0 0,
    opcode 0 INS_INVALID ARG_NONE ARG_NONE ARG_NONE (cpu_PENTIUM4 OR isa_GP) '''' 0 0 0 0 0,
    opcode 0 INS_INVALID ARG_NONE ARG_NONE ARG_NONE (cpu_PENTIUM4 OR isa_GP) '''' 0 0 0 0 0,
    opcode 0 INS_INVALID ARG_NONE ARG_NONE ARG_NONE (cpu_PENTIUM4 OR isa_GP) '''' 0 0 0 0 0,
    opcode 0 INS_INVALID ARG_NONE ARG_NONE ARG_NONE (cpu_PENTIUM4 OR isa_GP) '''' 0 0 0 0 0,
    opcode 0 INS_INVALID ARG_NONE ARG_NONE ARG_NONE (cpu_PENTIUM4 OR isa_GP) '''' 0 0 0 0 0,
    opcode 0 INS_INVALID ARG_NONE ARG_NONE ARG_NONE (cpu_PENTIUM4 OR isa_GP) '''' 0 0 0 0 0,
    opcode 0 INS_INVALID ARG_NONE ARG_NONE ARG_NONE (cpu_PENTIUM4 OR isa_GP) '''' 0 0 0 0 0,
    opcode 0 INS_INVALID ARG_NONE ARG_NONE ARG_NONE (cpu_PENTIUM4 OR isa_GP) '''' 0 0 0 0 0,
    opcode 0 INS_INVALID ARG_NONE ARG_NONE ARG_NONE (cpu_PENTIUM4 OR isa_GP) '''' 0 0 0 0 0,
    opcode 0 INS_INVALID ARG_NONE ARG_NONE ARG_NONE (cpu_PENTIUM4 OR isa_GP) '''' 0 0 0 0 0,
    opcode 0 INS_INVALID ARG_NONE ARG_NONE ARG_NONE (cpu_PENTIUM4 OR isa_GP) '''' 0 0 0 0 0,
    opcode 0 INS_INVALID ARG_NONE ARG_NONE ARG_NONE (cpu_PENTIUM4 OR isa_GP) '''' 0 0 0 0 0,
    opcode 0 INS_INVALID ARG_NONE ARG_NONE ARG_NONE (cpu_PENTIUM4 OR isa_GP) '''' 0 0 0 0 0,
    opcode 0 INS_INVALID ARG_NONE ARG_NONE ARG_NONE (cpu_PENTIUM4 OR isa_GP) '''' 0 0 0 0 0,
    opcode 0 INS_INVALID ARG_NONE ARG_NONE ARG_NONE (cpu_PENTIUM4 OR isa_GP) '''' 0 0 0 0 0,
    opcode 0 INS_INVALID ARG_NONE ARG_NONE ARG_NONE (cpu_PENTIUM4 OR isa_GP) '''' 0 0 0 0 0,
    opcode 0 INS_INVALID ARG_NONE ARG_NONE ARG_NONE (cpu_PENTIUM4 OR isa_GP) '''' 0 0 0 0 0,
    opcode 0 INS_INVALID ARG_NONE ARG_NONE ARG_NONE (cpu_PENTIUM4 OR isa_GP) '''' 0 0 0 0 0,
    opcode 0 INS_INVALID ARG_NONE ARG_NONE ARG_NONE (cpu_PENTIUM4 OR isa_GP) '''' 0 0 0 0 0,
    opcode 0 INS_INVALID ARG_NONE ARG_NONE ARG_NONE (cpu_PENTIUM4 OR isa_GP) '''' 0 0 0 0 0,
    opcode 0 INS_INVALID ARG_NONE ARG_NONE ARG_NONE (cpu_PENTIUM4 OR isa_GP) '''' 0 0 0 0 0,
    opcode 0 INS_INVALID ARG_NONE ARG_NONE ARG_NONE (cpu_PENTIUM4 OR isa_GP) '''' 0 0 0 0 0]"

definition tbl_F30F :: "ia32_insn_t list" where
  "tbl_F30F = tbl_F30F_00 @ tbl_F30F_40 @ tbl_F30F_80 @ tbl_F30F_C0"

definition tbl_0F00 :: "ia32_insn_t list" where
  "tbl_0F00 = [
    opcode 0 INS_SYSTEM (ADDRMETH_E OR OPTYPE_w OR OP_R) ARG_NONE ARG_NONE (cpu_80386 OR isa_GP) ''sldt'' 0 0 0 0 46,
    opcode 0 INS_SYSTEM (ADDRMETH_E OR OPTYPE_w OR OP_W) ARG_NONE ARG_NONE (cpu_80386 OR isa_GP) ''str'' 0 0 0 0 49,
    opcode 0 INS_SYSTEM (ADDRMETH_E OR OPTYPE_w OR OP_W) ARG_NONE ARG_NONE (cpu_80386 OR isa_GP) ''lldt'' 0 0 0 0 29,
    opcode 0 INS_SYSTEM (ADDRMETH_E OR OPTYPE_w OR OP_W) ARG_NONE ARG_NONE (cpu_80386 OR isa_GP) ''ltr'' 0 0 0 0 32,
    opcode 0 INS_SYSTEM (ADDRMETH_E OR OPTYPE_w OR OP_R) ARG_NONE ARG_NONE (cpu_80386 OR isa_GP) ''verr'' 0 0 0 INS_SET_ZERO 0,
    opcode 0 INS_SYSTEM (ADDRMETH_E OR OPTYPE_w OR OP_R) ARG_NONE ARG_NONE (cpu_80386 OR isa_GP) ''verw'' 0 0 0 INS_SET_ZERO 0,
    opcode 0 INS_INVALID ARG_NONE ARG_NONE ARG_NONE 0 '''' 0 0 0 0 0,
    opcode 0 INS_INVALID ARG_NONE ARG_NONE ARG_NONE 0 '''' 0 0 0 0 0]"

definition tbl_0F01 :: "ia32_insn_t list" where
  "tbl_0F01 = [
    opcode 0 INS_SYSTEM (ADDRMETH_M OR OPTYPE_s OR OP_R) ARG_NONE ARG_NONE (cpu_80386 OR isa_GP) ''sgdt'' 0 0 0 0 44,
    opcode 0 INS_SYSTEM (ADDRMETH_M OR OPTYPE_s OR OP_R) ARG_NONE ARG_NONE (cpu_80386 OR isa_GP) ''sidt'' 0 0 0 0 45,
    opcode 0 INS_SYSTEM (ADDRMETH_M OR OPTYPE_s OR OP_W) ARG_NONE ARG_NONE (cpu_80386 OR isa_GP) ''lgdt'' 0 0 0 0 27,
    opcode 0 INS_SYSTEM (ADDRMETH_M OR OPTYPE_s OR OP_W) ARG_NONE ARG_NONE (cpu_80386 OR isa_GP) ''lidt'' 0 0 0 0 28,
    opcode 0 INS_SYSTEM (ADDRMETH_E OR OPTYPE_w OR OP_W) ARG_NONE ARG_NONE (cpu_80386 OR isa_GP) ''smsw'' 0 0 0 0 47,
    opcode 0 INS_INVALID ARG_NONE ARG_NONE ARG_NONE 0 '''' 0 0 0 0 0,
    opcode 0 INS_SYSTEM (ADDRMETH_E OR OPTYPE_w OR OP_W) ARG_NONE ARG_NONE (cpu_80386 OR isa_GP) ''lmsw'' 0 0 0 0 30,
    opcode 0 INS_SYSTEM (ADDRMETH_M OR OPTYPE_b OR OP_R) ARG_NONE ARG_NONE (cpu_80486 OR isa_GP) ''invlpg'' 0 0 0 0 0,
    opcode 0 INS_SYSTEM (ADDRMETH_M OR OPTYPE_s OR OP_R) ARG_NONE ARG_NONE (cpu_80386 OR isa_GP) ''sgdt'' 0 0 0 0 44,
    opcode 0 INS_SYSTEM (ADDRMETH_M OR OPTYPE_s OR OP_R) ARG_NONE ARG_NONE (cpu_80386 OR isa_GP) ''sidt'' 0 0 0 0 45,
    opcode 0 INS_SYSTEM (ADDRMETH_M OR OPTYPE_s OR OP_W) ARG_NONE ARG_NONE (cpu_80386 OR isa_GP) ''lgdt'' 0 0 0 0 27,
    opcode 0 INS_SYSTEM (ADDRMETH_M OR OPTYPE_s OR OP_W) ARG_NONE ARG_NONE (cpu_80386 OR isa_GP) ''lidt'' 0 0 0 0 28,
    opcode 0 INS_SYSTEM (ADDRMETH_E OR OPTYPE_w OR OP_W) ARG_NONE ARG_NONE (cpu_80386 OR isa_GP) ''smsw'' 0 0 0 0 47,
    opcode 0 INS_INVALID ARG_NONE ARG_NONE ARG_NONE 0 '''' 0 0 0 0 0,
    opcode 0 INS_SYSTEM (ADDRMETH_E OR OPTYPE_w OR OP_W) ARG_NONE ARG_NONE (cpu_80386 OR isa_GP) ''lmsw'' 0 0 0 0 30,
    opcode 0 INS_SYSTEM (ADDRMETH_M OR OPTYPE_b OR OP_R) ARG_NONE ARG_NONE (cpu_80486 OR isa_GP) ''invlpg'' 0 0 0 0 0,
    opcode 0 INS_SYSTEM (ADDRMETH_M OR OPTYPE_s OR OP_R) ARG_NONE ARG_NONE (cpu_80386 OR isa_GP) ''sgdt'' 0 0 0 0 44,
    opcode 0 INS_SYSTEM (ADDRMETH_M OR OPTYPE_s OR OP_R) ARG_NONE ARG_NONE (cpu_80386 OR isa_GP) ''sidt'' 0 0 0 0 45,
    opcode 0 INS_SYSTEM (ADDRMETH_M OR OPTYPE_s OR OP_W) ARG_NONE ARG_NONE (cpu_80386 OR isa_GP) ''lgdt'' 0 0 0 0 27,
    opcode 0 INS_SYSTEM (ADDRMETH_M OR OPTYPE_s OR OP_W) ARG_NONE ARG_NONE (cpu_80386 OR isa_GP) ''lidt'' 0 0 0 0 28,
    opcode 0 INS_SYSTEM (ADDRMETH_E OR OPTYPE_w OR OP_W) ARG_NONE ARG_NONE (cpu_80386 OR isa_GP) ''smsw'' 0 0 0 0 47,
    opcode 0 INS_INVALID ARG_NONE ARG_NONE ARG_NONE 0 '''' 0 0 0 0 0,
    opcode 0 INS_SYSTEM (ADDRMETH_E OR OPTYPE_w OR OP_W) ARG_NONE ARG_NONE (cpu_80386 OR isa_GP) ''lmsw'' 0 0 0 0 30,
    opcode 0 INS_SYSTEM (ADDRMETH_M OR OPTYPE_b OR OP_R) ARG_NONE ARG_NONE (cpu_80486 OR isa_GP) ''invlpg'' 0 0 0 0 0,
    opcode 0 INS_INVALID ARG_NONE ARG_NONE ARG_NONE 0 '''' 0 0 0 0 0,
    opcode idx_0F0111 0 ARG_NONE ARG_NONE ARG_NONE 0 '''' 0 0 0 0 0,
    opcode 0 INS_INVALID ARG_NONE ARG_NONE ARG_NONE 0 '''' 0 0 0 0 0,
    opcode 0 INS_INVALID ARG_NONE ARG_NONE ARG_NONE 0 '''' 0 0 0 0 0,
    opcode 0 INS_SYSTEM (ADDRMETH_E OR OPTYPE_w OR OP_W) ARG_NONE ARG_NONE (cpu_80386 OR isa_GP) ''smsw'' 0 0 0 0 47,
    opcode 0 INS_INVALID ARG_NONE ARG_NONE ARG_NONE 0 '''' 0 0 0 0 0,
    opcode 0 INS_SYSTEM (ADDRMETH_E OR OPTYPE_w OR OP_W) ARG_NONE ARG_NONE (cpu_80386 OR isa_GP) ''lmsw'' 0 0 0 0 30,
    opcode 0 INS_INVALID ARG_NONE ARG_NONE ARG_NONE 0 '''' 0 0 0 0 0]"

definition tbl_0F0111 :: "ia32_insn_t list" where
  "tbl_0F0111 = [
    opcode 0 INS_SYSTEM ARG_NONE ARG_NONE ARG_NONE (cpu_PENTIUM4 OR isa_GP) ''monitor'' 0 0 0 0 54,
    opcode 0 INS_SYSTEM ARG_NONE ARG_NONE ARG_NONE (cpu_PENTIUM4 OR isa_GP) ''mwait'' 0 0 0 0 55]"

definition tbl_0F12 :: "ia32_insn_t list" where
  "tbl_0F12 = [
    opcode 0 INS_MOV (ADDRMETH_W OR OPTYPE_q OR OP_W) (ADDRMETH_V OR OPTYPE_q OR OP_R) ARG_NONE (cpu_PENTIUM2 OR isa_GP) ''movlps'' 0 0 0 0 0,
    opcode 0 INS_MOV (ADDRMETH_W OR OPTYPE_q OR OP_W) (ADDRMETH_V OR OPTYPE_q OR OP_R) ARG_NONE (cpu_PENTIUM2 OR isa_GP) ''movlps'' 0 0 0 0 0,
    opcode 0 INS_MOV (ADDRMETH_W OR OPTYPE_q OR OP_W) (ADDRMETH_V OR OPTYPE_q OR OP_R) ARG_NONE (cpu_PENTIUM2 OR isa_GP) ''movlps'' 0 0 0 0 0,
    opcode 0 INS_MOV (ADDRMETH_V OR OPTYPE_ps OR OP_R OR OP_W) (ADDRMETH_V OR OPTYPE_ps OR OP_R) ARG_NONE (cpu_PENTIUM4 OR isa_GP) ''movhlps'' 0 0 0 0 0]"

definition tbl_0F16 :: "ia32_insn_t list" where
  "tbl_0F16 = [
    opcode 0 INS_OTHER (ADDRMETH_V OR OPTYPE_q OR OP_W) (ADDRMETH_W OR OPTYPE_q OR OP_R) ARG_NONE (cpu_PENTIUM2 OR isa_GP) ''movhps'' 0 0 0 0 0,
    opcode 0 INS_OTHER (ADDRMETH_V OR OPTYPE_q OR OP_W) (ADDRMETH_W OR OPTYPE_q OR OP_R) ARG_NONE (cpu_PENTIUM2 OR isa_GP) ''movhps'' 0 0 0 0 0,
    opcode 0 INS_OTHER (ADDRMETH_V OR OPTYPE_q OR OP_W) (ADDRMETH_W OR OPTYPE_q OR OP_R) ARG_NONE (cpu_PENTIUM2 OR isa_GP) ''movhps'' 0 0 0 0 0,
    opcode 0 INS_MOV (ADDRMETH_V OR OPTYPE_ps OR OP_R OR OP_W) (ADDRMETH_V OR OPTYPE_ps OR OP_R) ARG_NONE (cpu_PENTIUM4 OR isa_GP) ''movlhps'' 0 0 0 0 0]"

definition tbl_0F18 :: "ia32_insn_t list" where
  "tbl_0F18 = [
    opcode 0 INS_SYSTEM (OP_W OR OPTYPE_b OR ADDRMETH_M) ARG_NONE ARG_NONE (cpu_PENTIUM2 OR isa_GP) ''prefetchnta'' 0 0 0 0 0,
    opcode 0 INS_SYSTEM (ADDRMETH_RT OR OPTYPE_d OR OP_W) ARG_NONE ARG_NONE (cpu_PENTIUM2 OR isa_GP) ''prefetcht0'' 0 0 0 0 0,
    opcode 0 INS_SYSTEM (ADDRMETH_RT OR OPTYPE_d OR OP_W) ARG_NONE ARG_NONE (cpu_PENTIUM2 OR isa_GP) ''prefetcht1'' 1 0 0 0 0,
    opcode 0 INS_SYSTEM (ADDRMETH_RT OR OPTYPE_d OR OP_W) ARG_NONE ARG_NONE (cpu_PENTIUM2 OR isa_GP) ''prefetcht2'' 2 0 0 0 0,
    opcode 0 INS_INVALID ARG_NONE ARG_NONE ARG_NONE 0 '''' 0 0 0 0 0,
    opcode 0 INS_INVALID ARG_NONE ARG_NONE ARG_NONE 0 '''' 0 0 0 0 0,
    opcode 0 INS_INVALID ARG_NONE ARG_NONE ARG_NONE 0 '''' 0 0 0 0 0,
    opcode 0 INS_INVALID ARG_NONE ARG_NONE ARG_NONE 0 '''' 0 0 0 0 0,
    opcode 0 INS_SYSTEM (OP_W OR OPTYPE_b OR ADDRMETH_M) ARG_NONE ARG_NONE (cpu_PENTIUM2 OR isa_GP) ''prefetchnta'' 0 0 0 0 0,
    opcode 0 INS_SYSTEM (ADDRMETH_RT OR OPTYPE_d OR OP_W) ARG_NONE ARG_NONE (cpu_PENTIUM2 OR isa_GP) ''prefetcht0'' 0 0 0 0 0,
    opcode 0 INS_SYSTEM (ADDRMETH_RT OR OPTYPE_d OR OP_W) ARG_NONE ARG_NONE (cpu_PENTIUM2 OR isa_GP) ''prefetcht1'' 1 0 0 0 0,
    opcode 0 INS_SYSTEM (ADDRMETH_RT OR OPTYPE_d OR OP_W) ARG_NONE ARG_NONE (cpu_PENTIUM2 OR isa_GP) ''prefetcht2'' 2 0 0 0 0,
    opcode 0 INS_INVALID ARG_NONE ARG_NONE ARG_NONE 0 '''' 0 0 0 0 0,
    opcode 0 INS_INVALID ARG_NONE ARG_NONE ARG_NONE 0 '''' 0 0 0 0 0,
    opcode 0 INS_INVALID ARG_NONE ARG_NONE ARG_NONE 0 '''' 0 0 0 0 0,
    opcode 0 INS_INVALID ARG_NONE ARG_NONE ARG_NONE 0 '''' 0 0 0 0 0,
    opcode 0 INS_SYSTEM (OP_W OR OPTYPE_b OR ADDRMETH_M) ARG_NONE ARG_NONE (cpu_PENTIUM2 OR isa_GP) ''prefetchnta'' 0 0 0 0 0,
    opcode 0 INS_SYSTEM (ADDRMETH_RT OR OPTYPE_d OR OP_W) ARG_NONE ARG_NONE (cpu_PENTIUM2 OR isa_GP) ''prefetcht0'' 0 0 0 0 0,
    opcode 0 INS_SYSTEM (ADDRMETH_RT OR OPTYPE_d OR OP_W) ARG_NONE ARG_NONE (cpu_PENTIUM2 OR isa_GP) ''prefetcht1'' 1 0 0 0 0,
    opcode 0 INS_SYSTEM (ADDRMETH_RT OR OPTYPE_d OR OP_W) ARG_NONE ARG_NONE (cpu_PENTIUM2 OR isa_GP) ''prefetcht2'' 2 0 0 0 0]"

definition tbl_0F71 :: "ia32_insn_t list" where
  "tbl_0F71 = [
    opcode 0 INS_INVALID ARG_NONE ARG_NONE ARG_NONE 0 '''' 0 0 0 0 0,
    opcode 0 INS_INVALID ARG_NONE ARG_NONE ARG_NONE 0 '''' 0 0 0 0 0,
    opcode 0 INS_INVALID ARG_NONE ARG_NONE ARG_NONE 0 '''' 0 0 0 0 0,
    opcode 0 INS_INVALID ARG_NONE ARG_NONE ARG_NONE 0 '''' 0 0 0 0 0,
    opcode 0 INS_INVALID ARG_NONE ARG_NONE ARG_NONE 0 '''' 0 0 0 0 0,
    opcode 0 INS_INVALID ARG_NONE ARG_NONE ARG_NONE 0 '''' 0 0 0 0 0,
    opcode 0 INS_INVALID ARG_NONE ARG_NONE ARG_NONE 0 '''' 0 0 0 0 0,
    opcode 0 INS_INVALID ARG_NONE ARG_NONE ARG_NONE 0 '''' 0 0 0 0 0,
    opcode 0 INS_INVALID ARG_NONE ARG_NONE ARG_NONE 0 '''' 0 0 0 0 0,
    opcode 0 INS_INVALID ARG_NONE ARG_NONE ARG_NONE 0 '''' 0 0 0 0 0,
    opcode 0 INS_INVALID ARG_NONE ARG_NONE ARG_NONE 0 '''' 0 0 0 0 0,
    opcode 0 INS_INVALID ARG_NONE ARG_NONE ARG_NONE 0 '''' 0 0 0 0 0,
    opcode 0 INS_INVALID ARG_NONE ARG_NONE ARG_NONE 0 '''' 0 0 0 0 0,
    opcode 0 INS_INVALID ARG_NONE ARG_NONE ARG_NONE 0 '''' 0 0 0 0 0,
    opcode 0 INS_INVALID ARG_NONE ARG_NONE ARG_NONE 0 '''' 0 0 0 0 0,
    opcode 0 INS_INVALID ARG_NONE ARG_NONE ARG_NONE 0 '''' 0 0 0 0 0,
    opcode 0 INS_INVALID ARG_NONE ARG_NONE ARG_NONE 0 '''' 0 0 0 0 0,
    opcode 0 INS_INVALID ARG_NONE ARG_NONE ARG_NONE 0 '''' 0 0 0 0 0,
    opcode 0 INS_INVALID ARG_NONE ARG_NONE ARG_NONE 0 '''' 0 0 0 0 0,
    opcode 0 INS_INVALID ARG_NONE ARG_NONE ARG_NONE 0 '''' 0 0 0 0 0,
    opcode 0 INS_INVALID ARG_NONE ARG_NONE ARG_NONE 0 '''' 0 0 0 0 0,
    opcode 0 INS_INVALID ARG_NONE ARG_NONE ARG_NONE 0 '''' 0 0 0 0 0,
    opcode 0 INS_INVALID ARG_NONE ARG_NONE ARG_NONE 0 '''' 0 0 0 0 0,
    opcode 0 INS_INVALID ARG_NONE ARG_NONE ARG_NONE 0 '''' 0 0 0 0 0,
    opcode 0 INS_INVALID ARG_NONE ARG_NONE ARG_NONE 0 '''' 0 0 0 0 0,
    opcode 0 INS_INVALID ARG_NONE ARG_NONE ARG_NONE 0 '''' 0 0 0 0 0,
    opcode 0 INS_OTHER (ADDRMETH_P OR OPTYPE_q OR OP_W) (ADDRMETH_I OR OPTYPE_b OR OP_R) ARG_NONE (cpu_PENTIUM OR isa_MMX) ''psrlw'' 0 0 0 0 0,
    opcode 0 INS_INVALID ARG_NONE ARG_NONE ARG_NONE 0 '''' 0 0 0 0 0,
    opcode 0 INS_OTHER (ADDRMETH_P OR OPTYPE_q OR OP_W) (ADDRMETH_I OR OPTYPE_b OR OP_R) ARG_NONE (cpu_PENTIUM OR isa_MMX) ''psraw'' 0 0 0 0 0,
    opcode 0 INS_INVALID ARG_NONE ARG_NONE ARG_NONE 0 '''' 0 0 0 0 0,
    opcode 0 INS_OTHER (ADDRMETH_P OR OPTYPE_q OR OP_W) (ADDRMETH_I OR OPTYPE_b OR OP_R) ARG_NONE (cpu_PENTIUM OR isa_MMX) ''psllw'' 0 0 0 0 0,
    opcode 0 INS_INVALID ARG_NONE ARG_NONE ARG_NONE 0 '''' 0 0 0 0 0]"

definition tbl_660F71 :: "ia32_insn_t list" where
  "tbl_660F71 = [
    opcode 0 INS_INVALID ARG_NONE ARG_NONE ARG_NONE 0 '''' 0 0 0 0 0,
    opcode 0 INS_INVALID ARG_NONE ARG_NONE ARG_NONE 0 '''' 0 0 0 0 0,
    opcode 0 INS_INVALID ARG_NONE ARG_NONE ARG_NONE 0 '''' 0 0 0 0 0,
    opcode 0 INS_INVALID ARG_NONE ARG_NONE ARG_NONE 0 '''' 0 0 0 0 0,
    opcode 0 INS_INVALID ARG_NONE ARG_NONE ARG_NONE 0 '''' 0 0 0 0 0,
    opcode 0 INS_INVALID ARG_NONE ARG_NONE ARG_NONE 0 '''' 0 0 0 0 0,
    opcode 0 INS_INVALID ARG_NONE ARG_NONE ARG_NONE 0 '''' 0 0 0 0 0,
    opcode 0 INS_INVALID ARG_NONE ARG_NONE ARG_NONE 0 '''' 0 0 0 0 0,
    opcode 0 INS_INVALID ARG_NONE ARG_NONE ARG_NONE 0 '''' 0 0 0 0 0,
    opcode 0 INS_INVALID ARG_NONE ARG_NONE ARG_NONE 0 '''' 0 0 0 0 0,
    opcode 0 INS_INVALID ARG_NONE ARG_NONE ARG_NONE 0 '''' 0 0 0 0 0,
    opcode 0 INS_INVALID ARG_NONE ARG_NONE ARG_NONE 0 '''' 0 0 0 0 0,
    opcode 0 INS_INVALID ARG_NONE ARG_NONE ARG_NONE 0 '''' 0 0 0 0 0,
    opcode 0 INS_INVALID ARG_NONE ARG_NONE ARG_NONE 0 '''' 0 0 0 0 0,
    opcode 0 INS_INVALID ARG_NONE ARG_NONE ARG_NONE 0 '''' 0 0 0 0 0,
    opcode 0 INS_INVALID ARG_NONE ARG_NONE ARG_NONE 0 '''' 0 0 0 0 0,
    opcode 0 INS_INVALID ARG_NONE ARG_NONE ARG_NONE 0 '''' 0 0 0 0 0,
    opcode 0 INS_INVALID ARG_NONE ARG_NONE ARG_NONE 0 '''' 0 0 0 0 0,
    opcode 0 INS_INVALID ARG_NONE ARG_NONE ARG_NONE 0 '''' 0 0 0 0 0,
    opcode 0 INS_INVALID ARG_NONE ARG_NONE ARG_NONE 0 '''' 0 0 0 0 0,
    opcode 0 INS_INVALID ARG_NONE ARG_NONE ARG_NONE 0 '''' 0 0 0 0 0,
    opcode 0 INS_INVALID ARG_NONE ARG_NONE ARG_NONE 0 '''' 0 0 0 0 0,
    opcode 0 INS_INVALID ARG_NONE ARG_NONE ARG_NONE 0 '''' 0 0 0 0 0,
    opcode 0 INS_INVALID ARG_NONE ARG_NONE ARG_NONE 0 '''' 0 0 0 0 0,
    opcode 0 INS_INVALID ARG_NONE ARG_NONE ARG_NONE 0 '''' 0 0 0 0 0,
    opcode 0 INS_INVALID ARG_NONE ARG_NONE ARG_NONE 0 '''' 0 0 0 0 0,
    opcode 0 INS_OTHER (ADDRMETH_P OR OPTYPE_dq OR OP_W) (ADDRMETH_I OR OPTYPE_b OR OP_R) ARG_NONE (cpu_PENTIUM OR isa_MMX) ''psrlw'' 0 0 0 0 0,
    opcode 0 INS_INVALID ARG_NONE ARG_NONE ARG_NONE 0 '''' 0 0 0 0 0,
    opcode 0 INS_OTHER (ADDRMETH_P OR OPTYPE_dq OR OP_W) (ADDRMETH_I OR OPTYPE_b OR OP_R) ARG_NONE (cpu_PENTIUM OR isa_MMX) ''psraw'' 0 0 0 0 0,
    opcode 0 INS_INVALID ARG_NONE ARG_NONE ARG_NONE 0 '''' 0 0 0 0 0,
    opcode 0 INS_OTHER (ADDRMETH_P OR OPTYPE_dq OR OP_W) (ADDRMETH_I OR OPTYPE_b OR OP_R) ARG_NONE (cpu_PENTIUM OR isa_MMX) ''psllw'' 0 0 0 0 0,
    opcode 0 INS_INVALID ARG_NONE ARG_NONE ARG_NONE 0 '''' 0 0 0 0 0]"

definition tbl_0F72 :: "ia32_insn_t list" where
  "tbl_0F72 = [
    opcode 0 INS_INVALID ARG_NONE ARG_NONE ARG_NONE 0 '''' 0 0 0 0 0,
    opcode 0 INS_INVALID ARG_NONE ARG_NONE ARG_NONE 0 '''' 0 0 0 0 0,
    opcode 0 INS_INVALID ARG_NONE ARG_NONE ARG_NONE 0 '''' 0 0 0 0 0,
    opcode 0 INS_INVALID ARG_NONE ARG_NONE ARG_NONE 0 '''' 0 0 0 0 0,
    opcode 0 INS_INVALID ARG_NONE ARG_NONE ARG_NONE 0 '''' 0 0 0 0 0,
    opcode 0 INS_INVALID ARG_NONE ARG_NONE ARG_NONE 0 '''' 0 0 0 0 0,
    opcode 0 INS_INVALID ARG_NONE ARG_NONE ARG_NONE 0 '''' 0 0 0 0 0,
    opcode 0 INS_INVALID ARG_NONE ARG_NONE ARG_NONE 0 '''' 0 0 0 0 0,
    opcode 0 INS_INVALID ARG_NONE ARG_NONE ARG_NONE 0 '''' 0 0 0 0 0,
    opcode 0 INS_INVALID ARG_NONE ARG_NONE ARG_NONE 0 '''' 0 0 0 0 0,
    opcode 0 INS_INVALID ARG_NONE ARG_NONE ARG_NONE 0 '''' 0 0 0 0 0,
    opcode 0 INS_INVALID ARG_NONE ARG_NONE ARG_NONE 0 '''' 0 0 0 0 0,
    opcode 0 INS_INVALID ARG_NONE ARG_NONE ARG_NONE 0 '''' 0 0 0 0 0,
    opcode 0 INS_INVALID ARG_NONE ARG_NONE ARG_NONE 0 '''' 0 0 0 0 0,
    opcode 0 INS_INVALID ARG_NONE ARG_NONE ARG_NONE 0 '''' 0 0 0 0 0,
    opcode 0 INS_INVALID ARG_NONE ARG_NONE ARG_NONE 0 '''' 0 0 0 0 0,
    opcode 0 INS_INVALID ARG_NONE ARG_NONE ARG_NONE 0 '''' 0 0 0 0 0,
    opcode 0 INS_INVALID ARG_NONE ARG_NONE ARG_NONE 0 '''' 0 0 0 0 0,
    opcode 0 INS_INVALID ARG_NONE ARG_NONE ARG_NONE 0 '''' 0 0 0 0 0,
    opcode 0 INS_INVALID ARG_NONE ARG_NONE ARG_NONE 0 '''' 0 0 0 0 0,
    opcode 0 INS_INVALID ARG_NONE ARG_NONE ARG_NONE 0 '''' 0 0 0 0 0,
    opcode 0 INS_INVALID ARG_NONE ARG_NONE ARG_NONE 0 '''' 0 0 0 0 0,
    opcode 0 INS_INVALID ARG_NONE ARG_NONE ARG_NONE 0 '''' 0 0 0 0 0,
    opcode 0 INS_INVALID ARG_NONE ARG_NONE ARG_NONE 0 '''' 0 0 0 0 0,
    opcode 0 INS_INVALID ARG_NONE ARG_NONE ARG_NONE 0 '''' 0 0 0 0 0,
    opcode 0 INS_INVALID ARG_NONE ARG_NONE ARG_NONE 0 '''' 0 0 0 0 0,
    opcode 0 INS_OTHER (ADDRMETH_P OR OPTYPE_q OR OP_W) (ADDRMETH_I OR OPTYPE_b OR OP_R) ARG_NONE (cpu_PENTIUM OR isa_MMX) ''psrld'' 0 0 0 0 0,
    opcode 0 INS_INVALID ARG_NONE ARG_NONE ARG_NONE 0 '''' 0 0 0 0 0,
    opcode 0 INS_OTHER (ADDRMETH_P OR OPTYPE_q OR OP_W) (ADDRMETH_I OR OPTYPE_b OR OP_R) ARG_NONE (cpu_PENTIUM OR isa_MMX) ''psrad'' 0 0 0 0 0,
    opcode 0 INS_INVALID ARG_NONE ARG_NONE ARG_NONE 0 '''' 0 0 0 0 0,
    opcode 0 INS_OTHER (ADDRMETH_P OR OPTYPE_q OR OP_W) (ADDRMETH_I OR OPTYPE_b OR OP_R) ARG_NONE (cpu_PENTIUM OR isa_MMX) ''pslld'' 0 0 0 0 0,
    opcode 0 INS_INVALID ARG_NONE ARG_NONE ARG_NONE 0 '''' 0 0 0 0 0]"

definition tbl_660F72 :: "ia32_insn_t list" where
  "tbl_660F72 = [
    opcode 0 INS_INVALID ARG_NONE ARG_NONE ARG_NONE 0 '''' 0 0 0 0 0,
    opcode 0 INS_INVALID ARG_NONE ARG_NONE ARG_NONE 0 '''' 0 0 0 0 0,
    opcode 0 INS_INVALID ARG_NONE ARG_NONE ARG_NONE 0 '''' 0 0 0 0 0,
    opcode 0 INS_INVALID ARG_NONE ARG_NONE ARG_NONE 0 '''' 0 0 0 0 0,
    opcode 0 INS_INVALID ARG_NONE ARG_NONE ARG_NONE 0 '''' 0 0 0 0 0,
    opcode 0 INS_INVALID ARG_NONE ARG_NONE ARG_NONE 0 '''' 0 0 0 0 0,
    opcode 0 INS_INVALID ARG_NONE ARG_NONE ARG_NONE 0 '''' 0 0 0 0 0,
    opcode 0 INS_INVALID ARG_NONE ARG_NONE ARG_NONE 0 '''' 0 0 0 0 0,
    opcode 0 INS_INVALID ARG_NONE ARG_NONE ARG_NONE 0 '''' 0 0 0 0 0,
    opcode 0 INS_INVALID ARG_NONE ARG_NONE ARG_NONE 0 '''' 0 0 0 0 0,
    opcode 0 INS_INVALID ARG_NONE ARG_NONE ARG_NONE 0 '''' 0 0 0 0 0,
    opcode 0 INS_INVALID ARG_NONE ARG_NONE ARG_NONE 0 '''' 0 0 0 0 0,
    opcode 0 INS_INVALID ARG_NONE ARG_NONE ARG_NONE 0 '''' 0 0 0 0 0,
    opcode 0 INS_INVALID ARG_NONE ARG_NONE ARG_NONE 0 '''' 0 0 0 0 0,
    opcode 0 INS_INVALID ARG_NONE ARG_NONE ARG_NONE 0 '''' 0 0 0 0 0,
    opcode 0 INS_INVALID ARG_NONE ARG_NONE ARG_NONE 0 '''' 0 0 0 0 0,
    opcode 0 INS_INVALID ARG_NONE ARG_NONE ARG_NONE 0 '''' 0 0 0 0 0,
    opcode 0 INS_INVALID ARG_NONE ARG_NONE ARG_NONE 0 '''' 0 0 0 0 0,
    opcode 0 INS_INVALID ARG_NONE ARG_NONE ARG_NONE 0 '''' 0 0 0 0 0,
    opcode 0 INS_INVALID ARG_NONE ARG_NONE ARG_NONE 0 '''' 0 0 0 0 0,
    opcode 0 INS_INVALID ARG_NONE ARG_NONE ARG_NONE 0 '''' 0 0 0 0 0,
    opcode 0 INS_INVALID ARG_NONE ARG_NONE ARG_NONE 0 '''' 0 0 0 0 0,
    opcode 0 INS_INVALID ARG_NONE ARG_NONE ARG_NONE 0 '''' 0 0 0 0 0,
    opcode 0 INS_INVALID ARG_NONE ARG_NONE ARG_NONE 0 '''' 0 0 0 0 0,
    opcode 0 INS_INVALID ARG_NONE ARG_NONE ARG_NONE 0 '''' 0 0 0 0 0,
    opcode 0 INS_INVALID ARG_NONE ARG_NONE ARG_NONE 0 '''' 0 0 0 0 0,
    opcode 0 INS_OTHER (ADDRMETH_W OR OPTYPE_dq OR OP_W) (ADDRMETH_I OR OPTYPE_b OR OP_R) ARG_NONE (cpu_PENTIUM OR isa_MMX) ''psrld'' 0 0 0 0 0,
    opcode 0 INS_INVALID ARG_NONE ARG_NONE ARG_NONE 0 '''' 0 0 0 0 0,
    opcode 0 INS_OTHER (ADDRMETH_W OR OPTYPE_dq OR OP_W) (ADDRMETH_I OR OPTYPE_b OR OP_R) ARG_NONE (cpu_PENTIUM OR isa_MMX) ''psrad'' 0 0 0 0 0,
    opcode 0 INS_INVALID ARG_NONE ARG_NONE ARG_NONE 0 '''' 0 0 0 0 0,
    opcode 0 INS_OTHER (ADDRMETH_W OR OPTYPE_dq OR OP_W) (ADDRMETH_I OR OPTYPE_b OR OP_R) ARG_NONE (cpu_PENTIUM OR isa_MMX) ''pslld'' 0 0 0 0 0,
    opcode 0 INS_INVALID ARG_NONE ARG_NONE ARG_NONE 0 '''' 0 0 0 0 0]"

definition tbl_0F73 :: "ia32_insn_t list" where
  "tbl_0F73 = [
    opcode 0 INS_INVALID ARG_NONE ARG_NONE ARG_NONE 0 '''' 0 0 0 0 0,
    opcode 0 INS_INVALID ARG_NONE ARG_NONE ARG_NONE 0 '''' 0 0 0 0 0,
    opcode 0 INS_INVALID ARG_NONE ARG_NONE ARG_NONE 0 '''' 0 0 0 0 0,
    opcode 0 INS_INVALID ARG_NONE ARG_NONE ARG_NONE 0 '''' 0 0 0 0 0,
    opcode 0 INS_INVALID ARG_NONE ARG_NONE ARG_NONE 0 '''' 0 0 0 0 0,
    opcode 0 INS_INVALID ARG_NONE ARG_NONE ARG_NONE 0 '''' 0 0 0 0 0,
    opcode 0 INS_INVALID ARG_NONE ARG_NONE ARG_NONE 0 '''' 0 0 0 0 0,
    opcode 0 INS_INVALID ARG_NONE ARG_NONE ARG_NONE 0 '''' 0 0 0 0 0,
    opcode 0 INS_INVALID ARG_NONE ARG_NONE ARG_NONE 0 '''' 0 0 0 0 0,
    opcode 0 INS_INVALID ARG_NONE ARG_NONE ARG_NONE 0 '''' 0 0 0 0 0,
    opcode 0 INS_INVALID ARG_NONE ARG_NONE ARG_NONE 0 '''' 0 0 0 0 0,
    opcode 0 INS_INVALID ARG_NONE ARG_NONE ARG_NONE 0 '''' 0 0 0 0 0,
    opcode 0 INS_INVALID ARG_NONE ARG_NONE ARG_NONE 0 '''' 0 0 0 0 0,
    opcode 0 INS_INVALID ARG_NONE ARG_NONE ARG_NONE 0 '''' 0 0 0 0 0,
    opcode 0 INS_INVALID ARG_NONE ARG_NONE ARG_NONE 0 '''' 0 0 0 0 0,
    opcode 0 INS_INVALID ARG_NONE ARG_NONE ARG_NONE 0 '''' 0 0 0 0 0,
    opcode 0 INS_INVALID ARG_NONE ARG_NONE ARG_NONE 0 '''' 0 0 0 0 0,
    opcode 0 INS_INVALID ARG_NONE ARG_NONE ARG_NONE 0 '''' 0 0 0 0 0,
    opcode 0 INS_INVALID ARG_NONE ARG_NONE ARG_NONE 0 '''' 0 0 0 0 0,
    opcode 0 INS_INVALID ARG_NONE ARG_NONE ARG_NONE 0 '''' 0 0 0 0 0,
    opcode 0 INS_INVALID ARG_NONE ARG_NONE ARG_NONE 0 '''' 0 0 0 0 0,
    opcode 0 INS_INVALID ARG_NONE ARG_NONE ARG_NONE 0 '''' 0 0 0 0 0,
    opcode 0 INS_INVALID ARG_NONE ARG_NONE ARG_NONE 0 '''' 0 0 0 0 0,
    opcode 0 INS_INVALID ARG_NONE ARG_NONE ARG_NONE 0 '''' 0 0 0 0 0,
    opcode 0 INS_INVALID ARG_NONE ARG_NONE ARG_NONE 0 '''' 0 0 0 0 0,
    opcode 0 INS_INVALID ARG_NONE ARG_NONE ARG_NONE 0 '''' 0 0 0 0 0,
    opcode 0 INS_OTHER (ADDRMETH_P OR OPTYPE_q OR OP_W) (ADDRMETH_I OR OPTYPE_b OR OP_R) ARG_NONE (cpu_PENTIUM OR isa_MMX) ''psrlq'' 0 0 0 0 0,
    opcode 0 INS_INVALID ARG_NONE ARG_NONE ARG_NONE 0 '''' 0 0 0 0 0,
    opcode 0 INS_INVALID ARG_NONE ARG_NONE ARG_NONE 0 '''' 0 0 0 0 0,
    opcode 0 INS_INVALID ARG_NONE ARG_NONE ARG_NONE 0 '''' 0 0 0 0 0,
    opcode 0 INS_OTHER (ADDRMETH_P OR OPTYPE_q OR OP_W) (ADDRMETH_I OR OPTYPE_b OR OP_R) ARG_NONE (cpu_PENTIUM OR isa_MMX) ''psllq'' 0 0 0 0 0,
    opcode 0 INS_INVALID ARG_NONE ARG_NONE ARG_NONE 0 '''' 0 0 0 0 0]"

definition tbl_660F73 :: "ia32_insn_t list" where
  "tbl_660F73 = [
    opcode 0 INS_INVALID ARG_NONE ARG_NONE ARG_NONE 0 '''' 0 0 0 0 0,
    opcode 0 INS_INVALID ARG_NONE ARG_NONE ARG_NONE 0 '''' 0 0 0 0 0,
    opcode 0 INS_INVALID ARG_NONE ARG_NONE ARG_NONE 0 '''' 0 0 0 0 0,
    opcode 0 INS_INVALID ARG_NONE ARG_NONE ARG_NONE 0 '''' 0 0 0 0 0,
    opcode 0 INS_INVALID ARG_NONE ARG_NONE ARG_NONE 0 '''' 0 0 0 0 0,
    opcode 0 INS_INVALID ARG_NONE ARG_NONE ARG_NONE 0 '''' 0 0 0 0 0,
    opcode 0 INS_INVALID ARG_NONE ARG_NONE ARG_NONE 0 '''' 0 0 0 0 0,
    opcode 0 INS_INVALID ARG_NONE ARG_NONE ARG_NONE 0 '''' 0 0 0 0 0,
    opcode 0 INS_INVALID ARG_NONE ARG_NONE ARG_NONE 0 '''' 0 0 0 0 0,
    opcode 0 INS_INVALID ARG_NONE ARG_NONE ARG_NONE 0 '''' 0 0 0 0 0,
    opcode 0 INS_INVALID ARG_NONE ARG_NONE ARG_NONE 0 '''' 0 0 0 0 0,
    opcode 0 INS_INVALID ARG_NONE ARG_NONE ARG_NONE 0 '''' 0 0 0 0 0,
    opcode 0 INS_INVALID ARG_NONE ARG_NONE ARG_NONE 0 '''' 0 0 0 0 0,
    opcode 0 INS_INVALID ARG_NONE ARG_NONE ARG_NONE 0 '''' 0 0 0 0 0,
    opcode 0 INS_INVALID ARG_NONE ARG_NONE ARG_NONE 0 '''' 0 0 0 0 0,
    opcode 0 INS_INVALID ARG_NONE ARG_NONE ARG_NONE 0 '''' 0 0 0 0 0,
    opcode 0 INS_INVALID ARG_NONE ARG_NONE ARG_NONE 0 '''' 0 0 0 0 0,
    opcode 0 INS_INVALID ARG_NONE ARG_NONE ARG_NONE 0 '''' 0 0 0 0 0,
    opcode 0 INS_INVALID ARG_NONE ARG_NONE ARG_NONE 0 '''' 0 0 0 0 0,
    opcode 0 INS_INVALID ARG_NONE ARG_NONE ARG_NONE 0 '''' 0 0 0 0 0,
    opcode 0 INS_INVALID ARG_NONE ARG_NONE ARG_NONE 0 '''' 0 0 0 0 0,
    opcode 0 INS_INVALID ARG_NONE ARG_NONE ARG_NONE 0 '''' 0 0 0 0 0,
    opcode 0 INS_INVALID ARG_NONE ARG_NONE ARG_NONE 0 '''' 0 0 0 0 0,
    opcode 0 INS_INVALID ARG_NONE ARG_NONE ARG_NONE 0 '''' 0 0 0 0 0,
    opcode 0 INS_INVALID ARG_NONE ARG_NONE ARG_NONE 0 '''' 0 0 0 0 0,
    opcode 0 INS_INVALID ARG_NONE ARG_NONE ARG_NONE 0 '''' 0 0 0 0 0,
    opcode 0 INS_OTHER (ADDRMETH_W OR OPTYPE_dq OR OP_W) (ADDRMETH_I OR OPTYPE_b OR OP_R) ARG_NONE (cpu_PENTIUM OR isa_MMX) ''psrlq'' 0 0 0 0 0,
    opcode 0 INS_OTHER (ADDRMETH_W OR OPTYPE_dq OR OP_W) (ADDRMETH_I OR OPTYPE_b OR OP_R) ARG_NONE (cpu_PENTIUM OR isa_MMX) ''psrldq'' 0 0 0 0 0,
    opcode 0 INS_INVALID ARG_NONE ARG_NONE ARG_NONE 0 '''' 0 0 0 0 0,
    opcode 0 INS_INVALID ARG_NONE ARG_NONE ARG_NONE 0 '''' 0 0 0 0 0,
    opcode 0 INS_OTHER (ADDRMETH_W OR OPTYPE_dq OR OP_W) (ADDRMETH_I OR OPTYPE_b OR OP_R) ARG_NONE (cpu_PENTIUM OR isa_MMX) ''psllq'' 0 0 0 0 0,
    opcode 0 INS_OTHER (ADDRMETH_W OR OPTYPE_dq OR OP_W) (ADDRMETH_I OR OPTYPE_b OR OP_R) ARG_NONE (cpu_PENTIUM OR isa_MMX) ''pslldq'' 0 0 0 0 0]"

definition tbl_0FAE :: "ia32_insn_t list" where
  "tbl_0FAE = [
    opcode 0 INS_FPU (ADDRMETH_E OR OPTYPE_fx OR OP_W) ARG_NONE ARG_NONE (cpu_PENTIUM OR isa_MMX) ''fxsave'' 0 0 0 0 0,
    opcode 0 INS_FPU (ADDRMETH_E OR OPTYPE_fx OR OP_R) ARG_NONE ARG_NONE (cpu_PENTIUM OR isa_MMX) ''fxrstor'' 0 0 0 0 0,
    opcode 0 INS_SYSTEM (ADDRMETH_E OR OPTYPE_d OR OP_R) ARG_NONE ARG_NONE cpu_PENTIUM2 ''ldmxcsr'' 0 0 0 0 25,
    opcode 0 INS_SYSTEM (ADDRMETH_E OR OPTYPE_d OR OP_W) ARG_NONE ARG_NONE 0 ''stmxcsr'' cpu_PENTIUM2 0 0 0 48,
    opcode 0 INS_INVALID ARG_NONE ARG_NONE ARG_NONE 0 '''' 0 0 0 0 0,
    opcode 0 INS_INVALID ARG_NONE ARG_NONE ARG_NONE 0 '''' 0 0 0 0 0,
    opcode 0 INS_INVALID ARG_NONE ARG_NONE ARG_NONE 0 '''' 0 0 0 0 0,
    opcode 0 INS_SYSTEM (ADDRMETH_M OR OPTYPE_b OR OP_R) ARG_NONE ARG_NONE (cpu_PENTIUM4 OR isa_GP) ''clflush'' 0 0 0 0 0,
    opcode 0 INS_FPU (ADDRMETH_E OR OPTYPE_fx OR OP_W) ARG_NONE ARG_NONE (cpu_PENTIUM OR isa_MMX) ''fxsave'' 0 0 0 0 0,
    opcode 0 INS_FPU (ADDRMETH_E OR OPTYPE_fx OR OP_R) ARG_NONE ARG_NONE (cpu_PENTIUM OR isa_MMX) ''fxrstor'' 0 0 0 0 0,
    opcode 0 INS_SYSTEM (ADDRMETH_E OR OPTYPE_d OR OP_R) ARG_NONE ARG_NONE cpu_PENTIUM2 ''ldmxcsr'' 0 0 0 0 25,
    opcode 0 INS_SYSTEM (ADDRMETH_E OR OPTYPE_d OR OP_W) ARG_NONE ARG_NONE 0 ''stmxcsr'' cpu_PENTIUM2 0 0 0 48,
    opcode 0 INS_INVALID ARG_NONE ARG_NONE ARG_NONE 0 '''' 0 0 0 0 0,
    opcode 0 INS_INVALID ARG_NONE ARG_NONE ARG_NONE 0 '''' 0 0 0 0 0,
    opcode 0 INS_INVALID ARG_NONE ARG_NONE ARG_NONE 0 '''' 0 0 0 0 0,
    opcode 0 INS_SYSTEM (ADDRMETH_M OR OPTYPE_b OR OP_R) ARG_NONE ARG_NONE (cpu_PENTIUM4 OR isa_GP) ''clflush'' 0 0 0 0 0,
    opcode 0 INS_FPU (ADDRMETH_E OR OPTYPE_fx OR OP_W) ARG_NONE ARG_NONE (cpu_PENTIUM OR isa_MMX) ''fxsave'' 0 0 0 0 0,
    opcode 0 INS_FPU (ADDRMETH_E OR OPTYPE_fx OR OP_R) ARG_NONE ARG_NONE (cpu_PENTIUM OR isa_MMX) ''fxrstor'' 0 0 0 0 0,
    opcode 0 INS_SYSTEM (ADDRMETH_E OR OPTYPE_d OR OP_R) ARG_NONE ARG_NONE cpu_PENTIUM2 ''ldmxcsr'' 0 0 0 0 25,
    opcode 0 INS_SYSTEM (ADDRMETH_E OR OPTYPE_d OR OP_W) ARG_NONE ARG_NONE 0 ''stmxcsr'' cpu_PENTIUM2 0 0 0 48,
    opcode 0 INS_INVALID ARG_NONE ARG_NONE ARG_NONE 0 '''' 0 0 0 0 0,
    opcode 0 INS_INVALID ARG_NONE ARG_NONE ARG_NONE 0 '''' 0 0 0 0 0,
    opcode 0 INS_INVALID ARG_NONE ARG_NONE ARG_NONE 0 '''' 0 0 0 0 0,
    opcode 0 INS_SYSTEM (ADDRMETH_M OR OPTYPE_b OR OP_R) ARG_NONE ARG_NONE (cpu_PENTIUM4 OR isa_GP) ''clflush'' 0 0 0 0 0,
    opcode 0 INS_INVALID ARG_NONE ARG_NONE ARG_NONE 0 '''' 0 0 0 0 0,
    opcode 0 INS_INVALID ARG_NONE ARG_NONE ARG_NONE 0 '''' 0 0 0 0 0,
    opcode 0 INS_INVALID ARG_NONE ARG_NONE ARG_NONE 0 '''' 0 0 0 0 0,
    opcode 0 INS_INVALID ARG_NONE ARG_NONE ARG_NONE 0 '''' 0 0 0 0 0,
    opcode 0 INS_INVALID ARG_NONE ARG_NONE ARG_NONE 0 '''' 0 0 0 0 0,
    opcode 0 INS_SYSTEM ARG_NONE ARG_NONE ARG_NONE 0 ''lfence'' 0 0 0 0 0,
    opcode 0 INS_SYSTEM ARG_NONE ARG_NONE ARG_NONE 0 ''mfence'' 0 0 0 0 0,
    opcode 0 INS_SYSTEM ARG_NONE ARG_NONE ARG_NONE 0 ''sfence'' 0 0 0 0 0]"

definition tbl_0FBA :: "ia32_insn_t list" where
  "tbl_0FBA = [
    opcode 0 INS_BITTEST (ADDRMETH_E OR OPTYPE_v OR OP_R) (ADDRMETH_I OR OPTYPE_b OR OP_R) ARG_NONE (cpu_80386 OR isa_GP) ''bt'' 0 0 0 INS_SET_CARRY 0,
    opcode 0 INS_BITTEST (ADDRMETH_E OR OPTYPE_v OR OP_R) (ADDRMETH_I OR OPTYPE_b OR OP_R) ARG_NONE (cpu_80386 OR isa_GP) ''bts'' 0 0 0 INS_SET_CARRY 0,
    opcode 0 INS_BITTEST (ADDRMETH_E OR OPTYPE_v OR OP_R) (ADDRMETH_I OR OPTYPE_b OR OP_R) ARG_NONE (cpu_80386 OR isa_GP) ''btr'' 0 0 0 INS_SET_CARRY 0,
    opcode 0 INS_BITTEST (ADDRMETH_E OR OPTYPE_v OR OP_R) (ADDRMETH_I OR OPTYPE_b OR OP_R) ARG_NONE (cpu_80386 OR isa_GP) ''btc'' 0 0 0 INS_SET_CARRY 0]"

definition tbl_0FC7 :: "ia32_insn_t list" where
  "tbl_0FC7 = [
    opcode 0 INS_INVALID ARG_NONE ARG_NONE ARG_NONE 0 '''' 0 0 0 0 0,
    opcode 0 INS_XCHGCC (ADDRMETH_M OR OPTYPE_q OR OP_W) ARG_NONE ARG_NONE (cpu_PENTIUM OR isa_GP) ''cmpxch8b'' 0 0 0 0 0,
    opcode 0 INS_INVALID ARG_NONE ARG_NONE ARG_NONE 0 '''' 0 0 0 0 0,
    opcode 0 INS_INVALID ARG_NONE ARG_NONE ARG_NONE 0 '''' 0 0 0 0 0,
    opcode 0 INS_INVALID ARG_NONE ARG_NONE ARG_NONE 0 '''' 0 0 0 0 0,
    opcode 0 INS_INVALID ARG_NONE ARG_NONE ARG_NONE 0 '''' 0 0 0 0 0,
    opcode 0 INS_INVALID ARG_NONE ARG_NONE ARG_NONE 0 '''' 0 0 0 0 0,
    opcode 0 INS_INVALID ARG_NONE ARG_NONE ARG_NONE 0 '''' 0 0 0 0 0,
    opcode 0 INS_INVALID ARG_NONE ARG_NONE ARG_NONE 0 '''' 0 0 0 0 0,
    opcode 0 INS_XCHGCC (ADDRMETH_M OR OPTYPE_q OR OP_W) ARG_NONE ARG_NONE (cpu_PENTIUM OR isa_GP) ''cmpxch8b'' 0 0 0 0 0,
    opcode 0 INS_INVALID ARG_NONE ARG_NONE ARG_NONE 0 '''' 0 0 0 0 0,
    opcode 0 INS_INVALID ARG_NONE ARG_NONE ARG_NONE 0 '''' 0 0 0 0 0,
    opcode 0 INS_INVALID ARG_NONE ARG_NONE ARG_NONE 0 '''' 0 0 0 0 0,
    opcode 0 INS_INVALID ARG_NONE ARG_NONE ARG_NONE 0 '''' 0 0 0 0 0,
    opcode 0 INS_INVALID ARG_NONE ARG_NONE ARG_NONE 0 '''' 0 0 0 0 0,
    opcode 0 INS_INVALID ARG_NONE ARG_NONE ARG_NONE 0 '''' 0 0 0 0 0,
    opcode 0 INS_INVALID ARG_NONE ARG_NONE ARG_NONE 0 '''' 0 0 0 0 0,
    opcode 0 INS_XCHGCC (ADDRMETH_M OR OPTYPE_q OR OP_W) ARG_NONE ARG_NONE (cpu_PENTIUM OR isa_GP) ''cmpxch8b'' 0 0 0 0 0]"

definition tbl_0FB9 :: "ia32_insn_t list" where
  "tbl_0FB9 = [
    opcode 0 INS_SYSTEM ARG_NONE ARG_NONE ARG_NONE 0 ''fxsave'' 0 0 0 0 0]"

definition tbl_C6 :: "ia32_insn_t list" where
  "tbl_C6 = [
    opcode 0 INS_MOV (ADDRMETH_E OR OPTYPE_b OR OP_W) (ADDRMETH_I OR OPTYPE_b OR OP_R) ARG_NONE (cpu_80386 OR isa_GP) ''mov'' 0 0 0 0 0]"

definition tbl_C7 :: "ia32_insn_t list" where
  "tbl_C7 = [
    opcode 0 INS_MOV (ADDRMETH_E OR OPTYPE_v OR OP_W) (ADDRMETH_I OR OPTYPE_v OR OP_R) ARG_NONE (cpu_80386 OR isa_GP) ''mov'' 0 0 0 0 0]"

definition tbl_80 :: "ia32_insn_t list" where
  "tbl_80 = [
    opcode 0 INS_ADD (ADDRMETH_E OR OPTYPE_b OR OP_W OR OP_R) (ADDRMETH_I OR OPTYPE_b OR OP_SIGNED OR OP_R) ARG_NONE (cpu_80386 OR isa_GP) ''add'' 0 0 0 INS_SET_ALL 0,
    opcode 0 INS_OR (ADDRMETH_E OR OPTYPE_b OR OP_W OR OP_R) (ADDRMETH_I OR OPTYPE_b OR OP_R) ARG_NONE (cpu_80386 OR isa_GP) ''or'' 0 0 0 INS_SET_ALL 0,
    opcode 0 INS_ADD (ADDRMETH_E OR OPTYPE_b OR OP_W OR OP_R) (ADDRMETH_I OR OPTYPE_b OR OP_SIGNED OR OP_R) ARG_NONE (cpu_80386 OR isa_GP) ''adc'' 0 0 0 (INS_SET_ALL OR INS_TEST_CARRY) 0,
    opcode 0 INS_SUB (ADDRMETH_E OR OPTYPE_b OR OP_SIGNED OR OP_W OR OP_R) (ADDRMETH_I OR OPTYPE_b OR OP_SIGNED OR OP_R) ARG_NONE (cpu_80386 OR isa_GP) ''sbb'' 0 0 0 (INS_SET_ALL OR INS_TEST_CARRY) 0,
    opcode 0 INS_AND (ADDRMETH_E OR OPTYPE_b OR OP_W OR OP_R) (ADDRMETH_I OR OPTYPE_b OR OP_R) ARG_NONE (cpu_80386 OR isa_GP) ''and'' 0 0 0 INS_SET_ALL 0,
    opcode 0 INS_SUB (ADDRMETH_E OR OPTYPE_b OR OP_SIGNED OR OP_W OR OP_R) (ADDRMETH_I OR OPTYPE_b OR OP_SIGNED OR OP_R) ARG_NONE (cpu_80386 OR isa_GP) ''sub'' 0 0 0 INS_SET_ALL 0,
    opcode 0 INS_XOR (ADDRMETH_E OR OPTYPE_b OR OP_W OR OP_R) (ADDRMETH_I OR OPTYPE_b OR OP_R) ARG_NONE (cpu_80386 OR isa_GP) ''xor'' 0 0 0 INS_SET_ALL 0,
    opcode 0 INS_CMP (ADDRMETH_E OR OPTYPE_b OR OP_R) (ADDRMETH_I OR OPTYPE_b OR OP_SIGNED OR OP_R) ARG_NONE (cpu_80386 OR isa_GP) ''cmp'' 0 0 0 INS_SET_ALL 0]"

definition tbl_81 :: "ia32_insn_t list" where
  "tbl_81 = [
    opcode 0 INS_ADD (ADDRMETH_E OR OPTYPE_v OR OP_W OR OP_R) (ADDRMETH_I OR OPTYPE_v OR OP_SIGNED OR OP_R) ARG_NONE (cpu_80386 OR isa_GP) ''add'' 0 0 0 INS_SET_ALL 0,
    opcode 0 INS_OR (ADDRMETH_E OR OPTYPE_v OR OP_W OR OP_R) (ADDRMETH_I OR OPTYPE_v OR OP_R) ARG_NONE (cpu_80386 OR isa_GP) ''or'' 0 0 0 INS_SET_ALL 0,
    opcode 0 INS_ADD (ADDRMETH_E OR OPTYPE_v OR OP_W OR OP_R) (ADDRMETH_I OR OPTYPE_v OR OP_SIGNED OR OP_R) ARG_NONE (cpu_80386 OR isa_GP) ''adc'' 0 0 0 (INS_SET_ALL OR INS_TEST_CARRY) 0,
    opcode 0 INS_SUB (ADDRMETH_E OR OPTYPE_v OR OP_SIGNED OR OP_W OR OP_R) (ADDRMETH_I OR OPTYPE_v OR OP_SIGNED OR OP_R) ARG_NONE (cpu_80386 OR isa_GP) ''sbb'' 0 0 0 (INS_SET_ALL OR INS_TEST_CARRY) 0,
    opcode 0 INS_AND (ADDRMETH_E OR OPTYPE_v OR OP_W OR OP_R) (ADDRMETH_I OR OPTYPE_v OR OP_R) ARG_NONE (cpu_80386 OR isa_GP) ''and'' 0 0 0 INS_SET_ALL 0,
    opcode 0 INS_SUB (ADDRMETH_E OR OPTYPE_v OR OP_SIGNED OR OP_W OR OP_R) (ADDRMETH_I OR OPTYPE_v OR OP_SIGNED OR OP_R) ARG_NONE (cpu_80386 OR isa_GP) ''sub'' 0 0 0 INS_SET_ALL 0,
    opcode 0 INS_XOR (ADDRMETH_E OR OPTYPE_v OR OP_W OR OP_R) (ADDRMETH_I OR OPTYPE_v OR OP_R) ARG_NONE (cpu_80386 OR isa_GP) ''xor'' 0 0 0 INS_SET_ALL 0,
    opcode 0 INS_CMP (ADDRMETH_E OR OPTYPE_v OR OP_R) (ADDRMETH_I OR OPTYPE_v OR OP_SIGNED OR OP_R) ARG_NONE (cpu_80386 OR isa_GP) ''cmp'' 0 0 0 INS_SET_ALL 0]"

definition tbl_82 :: "ia32_insn_t list" where
  "tbl_82 = [
    opcode 0 INS_ADD (ADDRMETH_E OR OPTYPE_v OR OP_W OR OP_R) (ADDRMETH_I OR OPTYPE_b OR OP_SIGNED OR OP_R) ARG_NONE (cpu_80386 OR isa_GP) ''add'' 0 0 0 INS_SET_ALL 0,
    opcode 0 INS_OR (ADDRMETH_E OR OPTYPE_v OR OP_W OR OP_R) (ADDRMETH_I OR OPTYPE_b OR OP_R) ARG_NONE (cpu_80386 OR isa_GP) ''or'' 0 0 0 INS_SET_ALL 0,
    opcode 0 INS_ADD (ADDRMETH_E OR OPTYPE_v OR OP_W OR OP_R) (ADDRMETH_I OR OPTYPE_b OR OP_SIGNED OR OP_R) ARG_NONE (cpu_80386 OR isa_GP) ''adc'' 0 0 0 (INS_SET_ALL OR INS_TEST_CARRY) 0,
    opcode 0 INS_SUB (ADDRMETH_E OR OPTYPE_v OR OP_SIGNED OR OP_W OR OP_R) (ADDRMETH_I OR OPTYPE_b OR OP_SIGNED OR OP_R) ARG_NONE (cpu_80386 OR isa_GP) ''sbb'' 0 0 0 (INS_SET_ALL OR INS_TEST_CARRY) 0,
    opcode 0 INS_AND (ADDRMETH_E OR OPTYPE_v OR OP_W OR OP_R) (ADDRMETH_I OR OPTYPE_b OR OP_R) ARG_NONE (cpu_80386 OR isa_GP) ''and'' 0 0 0 INS_SET_ALL 0,
    opcode 0 INS_SUB (ADDRMETH_E OR OPTYPE_v OR OP_SIGNED OR OP_W OR OP_R) (ADDRMETH_I OR OPTYPE_b OR OP_SIGNED OR OP_R) ARG_NONE (cpu_80386 OR isa_GP) ''sub'' 0 0 0 INS_SET_ALL 0,
    opcode 0 INS_XOR (ADDRMETH_E OR OPTYPE_v OR OP_W OR OP_R) (ADDRMETH_I OR OPTYPE_b OR OP_R) ARG_NONE (cpu_80386 OR isa_GP) ''xor'' 0 0 0 INS_SET_ALL 0,
    opcode 0 INS_CMP (ADDRMETH_E OR OPTYPE_v OR OP_R) (ADDRMETH_I OR OPTYPE_b OR OP_SIGNED OR OP_R) ARG_NONE (cpu_80386 OR isa_GP) ''cmp'' 0 0 0 INS_SET_ALL 0]"

definition tbl_83 :: "ia32_insn_t list" where
  "tbl_83 = [
    opcode 0 INS_ADD (ADDRMETH_E OR OPTYPE_v OR OP_W OR OP_R) (ADDRMETH_I OR OPTYPE_b OR OP_SIGNED OR OP_R) ARG_NONE (cpu_80386 OR isa_GP) ''add'' 0 0 0 INS_SET_ALL 0,
    opcode 0 INS_OR (ADDRMETH_E OR OPTYPE_v OR OP_W OR OP_R) (ADDRMETH_I OR OPTYPE_b OR OP_R) ARG_NONE (cpu_80386 OR isa_GP) ''or'' 0 0 0 INS_SET_ALL 0,
    opcode 0 INS_ADD (ADDRMETH_E OR OPTYPE_v OR OP_W OR OP_R) (ADDRMETH_I OR OPTYPE_b OR OP_SIGNED OR OP_R) ARG_NONE (cpu_80386 OR isa_GP) ''adc'' 0 0 0 (INS_SET_ALL OR INS_TEST_CARRY) 0,
    opcode 0 INS_SUB (ADDRMETH_E OR OPTYPE_v OR OP_SIGNED OR OP_W OR OP_R) (ADDRMETH_I OR OPTYPE_b OR OP_SIGNED OR OP_R) ARG_NONE (cpu_80386 OR isa_GP) ''sbb'' 0 0 0 (INS_SET_ALL OR INS_TEST_CARRY) 0,
    opcode 0 INS_AND (ADDRMETH_E OR OPTYPE_v OR OP_W OR OP_R) (ADDRMETH_I OR OPTYPE_b OR OP_R) ARG_NONE (cpu_80386 OR isa_GP) ''and'' 0 0 0 INS_SET_ALL 0,
    opcode 0 INS_SUB (ADDRMETH_E OR OPTYPE_v OR OP_SIGNED OR OP_W OR OP_R) (ADDRMETH_I OR OPTYPE_b OR OP_SIGNED OR OP_R) ARG_NONE (cpu_80386 OR isa_GP) ''sub'' 0 0 0 INS_SET_ALL 0,
    opcode 0 INS_XOR (ADDRMETH_E OR OPTYPE_v OR OP_W OR OP_R) (ADDRMETH_I OR OPTYPE_b OR OP_R) ARG_NONE (cpu_80386 OR isa_GP) ''xor'' 0 0 0 INS_SET_ALL 0,
    opcode 0 INS_CMP (ADDRMETH_E OR OPTYPE_v OR OP_R) (ADDRMETH_I OR OPTYPE_b OR OP_SIGNED OR OP_R) ARG_NONE (cpu_80386 OR isa_GP) ''cmp'' 0 0 0 INS_SET_ALL 0]"

definition tbl_C0 :: "ia32_insn_t list" where
  "tbl_C0 = [
    opcode 0 INS_ROL (ADDRMETH_E OR OPTYPE_b OR OP_W OR OP_R) (ADDRMETH_I OR OPTYPE_b OR OP_R) ARG_NONE (cpu_80386 OR isa_GP) ''rol'' 0 0 0 (INS_SET_CARRY OR INS_SET_OFLOW) 0,
    opcode 0 INS_ROR (ADDRMETH_E OR OPTYPE_b OR OP_W OR OP_R) (ADDRMETH_I OR OPTYPE_b OR OP_R) ARG_NONE (cpu_80386 OR isa_GP) ''ror'' 0 0 0 (INS_SET_CARRY OR INS_SET_OFLOW) 0,
    opcode 0 INS_ROL (ADDRMETH_E OR OPTYPE_b OR OP_W OR OP_R) (ADDRMETH_I OR OPTYPE_b OR OP_R) ARG_NONE (cpu_80386 OR isa_GP) ''rcl'' 0 0 0 (INS_SET_CARRY OR INS_SET_OFLOW OR INS_TEST_CARRY) 0,
    opcode 0 INS_ROR (ADDRMETH_E OR OPTYPE_b OR OP_W OR OP_R) (ADDRMETH_I OR OPTYPE_b OR OP_R) ARG_NONE (cpu_80386 OR isa_GP) ''rcr'' 0 0 0 (INS_SET_CARRY OR INS_SET_OFLOW OR INS_TEST_CARRY) 0,
    opcode 0 INS_SHL (ADDRMETH_E OR OPTYPE_b OR OP_W OR OP_R) (ADDRMETH_I OR OPTYPE_b OR OP_R) ARG_NONE (cpu_80386 OR isa_GP) ''shl'' 0 0 0 INS_SET_ALL 0,
    opcode 0 INS_SHR (ADDRMETH_E OR OPTYPE_b OR OP_W OR OP_R) (ADDRMETH_I OR OPTYPE_b OR OP_R) ARG_NONE (cpu_80386 OR isa_GP) ''shr'' 0 0 0 INS_SET_ALL 0,
    opcode 0 INS_SHL (ADDRMETH_E OR OPTYPE_b OR OP_W OR OP_R) (ADDRMETH_I OR OPTYPE_b OR OP_R) ARG_NONE (cpu_80386 OR isa_GP) ''sal'' 0 0 0 INS_SET_ALL 0,
    opcode 0 INS_SHR (ADDRMETH_E OR OPTYPE_b OR OP_W OR OP_R) (ADDRMETH_I OR OPTYPE_b OR OP_R) ARG_NONE (cpu_80386 OR isa_GP) ''sar'' 0 0 0 INS_SET_ALL 0]"

definition tbl_C1 :: "ia32_insn_t list" where
  "tbl_C1 = [
    opcode 0 INS_ROL (ADDRMETH_E OR OPTYPE_v OR OP_W OR OP_R) (ADDRMETH_I OR OPTYPE_b OR OP_R) ARG_NONE (cpu_80386 OR isa_GP) ''rol'' 0 0 0 (INS_SET_CARRY OR INS_SET_OFLOW) 0,
    opcode 0 INS_ROR (ADDRMETH_E OR OPTYPE_v OR OP_W OR OP_R) (ADDRMETH_I OR OPTYPE_b OR OP_R) ARG_NONE (cpu_80386 OR isa_GP) ''ror'' 0 0 0 (INS_SET_CARRY OR INS_SET_OFLOW) 0,
    opcode 0 INS_ROL (ADDRMETH_E OR OPTYPE_v OR OP_W OR OP_R) (ADDRMETH_I OR OPTYPE_b OR OP_R) ARG_NONE (cpu_80386 OR isa_GP) ''rcl'' 0 0 0 (INS_SET_CARRY OR INS_SET_OFLOW OR INS_TEST_CARRY) 0,
    opcode 0 INS_ROR (ADDRMETH_E OR OPTYPE_v OR OP_W OR OP_R) (ADDRMETH_I OR OPTYPE_b OR OP_R) ARG_NONE (cpu_80386 OR isa_GP) ''rcr'' 0 0 0 (INS_SET_CARRY OR INS_SET_OFLOW OR INS_TEST_CARRY) 0,
    opcode 0 INS_SHL (ADDRMETH_E OR OPTYPE_v OR OP_W OR OP_R) (ADDRMETH_I OR OPTYPE_b OR OP_R) ARG_NONE (cpu_80386 OR isa_GP) ''shl'' 0 0 0 INS_SET_ALL 0,
    opcode 0 INS_SHR (ADDRMETH_E OR OPTYPE_v OR OP_W OR OP_R) (ADDRMETH_I OR OPTYPE_b OR OP_R) ARG_NONE (cpu_80386 OR isa_GP) ''shr'' 0 0 0 INS_SET_ALL 0,
    opcode 0 INS_SHL (ADDRMETH_E OR OPTYPE_v OR OP_W OR OP_R) (ADDRMETH_I OR OPTYPE_b OR OP_R) ARG_NONE (cpu_80386 OR isa_GP) ''sal'' 0 0 0 INS_SET_ALL 0,
    opcode 0 INS_SHR (ADDRMETH_E OR OPTYPE_v OR OP_W OR OP_R) (ADDRMETH_I OR OPTYPE_b OR OP_R) ARG_NONE (cpu_80386 OR isa_GP) ''sar'' 0 0 0 INS_SET_ALL 0]"

definition tbl_D0 :: "ia32_insn_t list" where
  "tbl_D0 = [
    opcode 0 INS_ROL (ADDRMETH_E OR OPTYPE_b OR OP_W OR OP_R) (ADDRMETH_II OR OPTYPE_b OR OP_R) ARG_NONE (cpu_80386 OR isa_GP) ''rol'' 0 1 0 (INS_SET_CARRY OR INS_SET_OFLOW) 0,
    opcode 0 INS_ROR (ADDRMETH_E OR OPTYPE_b OR OP_W OR OP_R) (ADDRMETH_II OR OPTYPE_b OR OP_R) ARG_NONE (cpu_80386 OR isa_GP) ''ror'' 0 1 0 (INS_SET_CARRY OR INS_SET_OFLOW) 0,
    opcode 0 INS_ROL (ADDRMETH_E OR OPTYPE_b OR OP_W OR OP_R) (ADDRMETH_II OR OPTYPE_b OR OP_R) ARG_NONE (cpu_80386 OR isa_GP) ''rcl'' 0 1 0 (INS_SET_CARRY OR INS_SET_OFLOW OR INS_TEST_CARRY) 0,
    opcode 0 INS_ROR (ADDRMETH_E OR OPTYPE_b OR OP_W OR OP_R) (ADDRMETH_II OR OPTYPE_b OR OP_R) ARG_NONE (cpu_80386 OR isa_GP) ''rcr'' 0 1 0 (INS_SET_CARRY OR INS_SET_OFLOW OR INS_TEST_CARRY) 0,
    opcode 0 INS_SHL (ADDRMETH_E OR OPTYPE_b OR OP_W OR OP_R) (ADDRMETH_II OR OPTYPE_b OR OP_R) ARG_NONE (cpu_80386 OR isa_GP) ''shl'' 0 1 0 INS_SET_ALL 0,
    opcode 0 INS_SHR (ADDRMETH_E OR OPTYPE_b OR OP_W OR OP_R) (ADDRMETH_II OR OPTYPE_b OR OP_R) ARG_NONE (cpu_80386 OR isa_GP) ''shr'' 0 1 0 INS_SET_ALL 0,
    opcode 0 INS_SHL (ADDRMETH_E OR OPTYPE_b OR OP_W OR OP_R) (ADDRMETH_II OR OPTYPE_b OR OP_R) ARG_NONE (cpu_80386 OR isa_GP) ''sal'' 0 1 0 INS_SET_ALL 0,
    opcode 0 INS_SHR (ADDRMETH_E OR OPTYPE_b OR OP_W OR OP_R) (ADDRMETH_II OR OPTYPE_b OR OP_R) ARG_NONE (cpu_80386 OR isa_GP) ''sar'' 0 1 0 INS_SET_ALL 0]"

definition tbl_D1 :: "ia32_insn_t list" where
  "tbl_D1 = [
    opcode 0 INS_ROL (ADDRMETH_E OR OPTYPE_v OR OP_W OR OP_R) (ADDRMETH_II OR OPTYPE_v OR OP_R) ARG_NONE (cpu_80386 OR isa_GP) ''rol'' 0 1 0 (INS_SET_CARRY OR INS_SET_OFLOW) 0,
    opcode 0 INS_ROR (ADDRMETH_E OR OPTYPE_v OR OP_W OR OP_R) (ADDRMETH_II OR OPTYPE_v OR OP_R) ARG_NONE (cpu_80386 OR isa_GP) ''ror'' 0 1 0 (INS_SET_CARRY OR INS_SET_OFLOW) 0,
    opcode 0 INS_ROL (ADDRMETH_E OR OPTYPE_v OR OP_W OR OP_R) (ADDRMETH_II OR OPTYPE_v OR OP_R) ARG_NONE (cpu_80386 OR isa_GP) ''rcl'' 0 1 0 (INS_SET_CARRY OR INS_SET_OFLOW OR INS_TEST_CARRY) 0,
    opcode 0 INS_ROR (ADDRMETH_E OR OPTYPE_v OR OP_W OR OP_R) (ADDRMETH_II OR OPTYPE_v OR OP_R) ARG_NONE (cpu_80386 OR isa_GP) ''rcr'' 0 1 0 (INS_SET_CARRY OR INS_SET_OFLOW OR INS_TEST_CARRY) 0,
    opcode 0 INS_SHL (ADDRMETH_E OR OPTYPE_v OR OP_W OR OP_R) (ADDRMETH_II OR OPTYPE_v OR OP_R) ARG_NONE (cpu_80386 OR isa_GP) ''shl'' 0 1 0 INS_SET_ALL 0,
    opcode 0 INS_SHR (ADDRMETH_E OR OPTYPE_v OR OP_W OR OP_R) (ADDRMETH_II OR OPTYPE_v OR OP_R) ARG_NONE (cpu_80386 OR isa_GP) ''shr'' 0 1 0 INS_SET_ALL 0,
    opcode 0 INS_SHL (ADDRMETH_E OR OPTYPE_v OR OP_W OR OP_R) (ADDRMETH_II OR OPTYPE_v OR OP_R) ARG_NONE (cpu_80386 OR isa_GP) ''sal'' 0 1 0 INS_SET_ALL 0,
    opcode 0 INS_SHR (ADDRMETH_E OR OPTYPE_v OR OP_W OR OP_R) (ADDRMETH_II OR OPTYPE_v OR OP_R) ARG_NONE (cpu_80386 OR isa_GP) ''sar'' 0 1 0 INS_SET_ALL 0]"

definition tbl_D2 :: "ia32_insn_t list" where
  "tbl_D2 = [
    opcode 0 INS_ROL (ADDRMETH_E OR OPTYPE_b OR OP_W OR OP_R) (ADDRMETH_RR OR OPTYPE_b OR OP_R) ARG_NONE (cpu_80386 OR isa_GP) ''rol'' 0 1 0 (INS_SET_CARRY OR INS_SET_OFLOW) 0,
    opcode 0 INS_ROR (ADDRMETH_E OR OPTYPE_b OR OP_W OR OP_R) (ADDRMETH_RR OR OPTYPE_b OR OP_R) ARG_NONE (cpu_80386 OR isa_GP) ''ror'' 0 1 0 (INS_SET_CARRY OR INS_SET_OFLOW) 0,
    opcode 0 INS_ROL (ADDRMETH_E OR OPTYPE_b OR OP_W OR OP_R) (ADDRMETH_RR OR OPTYPE_b OR OP_R) ARG_NONE (cpu_80386 OR isa_GP) ''rcl'' 0 1 0 (INS_SET_CARRY OR INS_SET_OFLOW OR INS_TEST_CARRY) 0,
    opcode 0 INS_ROR (ADDRMETH_E OR OPTYPE_b OR OP_W OR OP_R) (ADDRMETH_RR OR OPTYPE_b OR OP_R) ARG_NONE (cpu_80386 OR isa_GP) ''rcr'' 0 1 0 (INS_SET_CARRY OR INS_SET_OFLOW OR INS_TEST_CARRY) 0,
    opcode 0 INS_SHL (ADDRMETH_E OR OPTYPE_b OR OP_W OR OP_R) (ADDRMETH_RR OR OPTYPE_b OR OP_R) ARG_NONE (cpu_80386 OR isa_GP) ''shl'' 0 1 0 INS_SET_ALL 0,
    opcode 0 INS_SHR (ADDRMETH_E OR OPTYPE_b OR OP_W OR OP_R) (ADDRMETH_RR OR OPTYPE_b OR OP_R) ARG_NONE (cpu_80386 OR isa_GP) ''shr'' 0 1 0 INS_SET_ALL 0,
    opcode 0 INS_SHL (ADDRMETH_E OR OPTYPE_b OR OP_W OR OP_R) (ADDRMETH_RR OR OPTYPE_b OR OP_R) ARG_NONE (cpu_80386 OR isa_GP) ''sal'' 0 1 0 INS_SET_ALL 0,
    opcode 0 INS_SHR (ADDRMETH_E OR OPTYPE_b OR OP_W OR OP_R) (ADDRMETH_RR OR OPTYPE_b OR OP_R) ARG_NONE (cpu_80386 OR isa_GP) ''sar'' 0 1 0 INS_SET_ALL 0]"

definition tbl_D3 :: "ia32_insn_t list" where
  "tbl_D3 = [
    opcode 0 INS_ROL (ADDRMETH_E OR OPTYPE_v OR OP_W OR OP_R) (ADDRMETH_RR OR OPTYPE_b OR OP_R) ARG_NONE (cpu_80386 OR isa_GP) ''rol'' 0 1 0 (INS_SET_CARRY OR INS_SET_OFLOW) 0,
    opcode 0 INS_ROR (ADDRMETH_E OR OPTYPE_v OR OP_W OR OP_R) (ADDRMETH_RR OR OPTYPE_b OR OP_R) ARG_NONE (cpu_80386 OR isa_GP) ''ror'' 0 1 0 (INS_SET_CARRY OR INS_SET_OFLOW) 0,
    opcode 0 INS_ROL (ADDRMETH_E OR OPTYPE_v OR OP_W OR OP_R) (ADDRMETH_RR OR OPTYPE_b OR OP_R) ARG_NONE (cpu_80386 OR isa_GP) ''rcl'' 0 1 0 (INS_SET_CARRY OR INS_SET_OFLOW OR INS_TEST_CARRY) 0,
    opcode 0 INS_ROR (ADDRMETH_E OR OPTYPE_v OR OP_W OR OP_R) (ADDRMETH_RR OR OPTYPE_b OR OP_R) ARG_NONE (cpu_80386 OR isa_GP) ''rcr'' 0 1 0 (INS_SET_CARRY OR INS_SET_OFLOW OR INS_TEST_CARRY) 0,
    opcode 0 INS_SHL (ADDRMETH_E OR OPTYPE_v OR OP_W OR OP_R) (ADDRMETH_RR OR OPTYPE_b OR OP_R) ARG_NONE (cpu_80386 OR isa_GP) ''shl'' 0 1 0 INS_SET_ALL 0,
    opcode 0 INS_SHR (ADDRMETH_E OR OPTYPE_v OR OP_W OR OP_R) (ADDRMETH_RR OR OPTYPE_b OR OP_R) ARG_NONE (cpu_80386 OR isa_GP) ''shr'' 0 1 0 INS_SET_ALL 0,
    opcode 0 INS_SHL (ADDRMETH_E OR OPTYPE_v OR OP_W OR OP_R) (ADDRMETH_RR OR OPTYPE_b OR OP_R) ARG_NONE (cpu_80386 OR isa_GP) ''sal'' 0 1 0 INS_SET_ALL 0,
    opcode 0 INS_SHR (ADDRMETH_E OR OPTYPE_v OR OP_W OR OP_R) (ADDRMETH_RR OR OPTYPE_b OR OP_R) ARG_NONE (cpu_80386 OR isa_GP) ''sar'' 0 1 0 INS_SET_ALL 0]"

definition tbl_F6 :: "ia32_insn_t list" where
  "tbl_F6 = [
    opcode 0 INS_TEST (ADDRMETH_E OR OPTYPE_b OR OP_R) (ADDRMETH_I OR OPTYPE_b OR OP_SIGNED OR OP_R) ARG_NONE (cpu_80386 OR isa_GP) ''test'' 0 0 0 INS_SET_ALL 0,
    opcode 0 INS_TEST (ADDRMETH_E OR OPTYPE_b OR OP_R) (ADDRMETH_I OR OPTYPE_b OR OP_SIGNED OR OP_R) ARG_NONE (cpu_80386 OR isa_GP) ''test'' 0 0 0 INS_SET_ALL 0,
    opcode 0 INS_NOT (ADDRMETH_E OR OPTYPE_b OR OP_W OR OP_R) ARG_NONE ARG_NONE (cpu_80386 OR isa_GP) ''not'' 0 0 0 0 0,
    opcode 0 INS_NEG (ADDRMETH_E OR OPTYPE_b OR OP_W OR OP_R) ARG_NONE ARG_NONE (cpu_80386 OR isa_GP) ''neg'' 0 0 0 INS_SET_ALL 0,
    opcode 0 INS_MUL (OPTYPE_b OR ADDRMETH_RR OR OP_W OR OP_R) (ADDRMETH_E OR OPTYPE_b OR OP_R) ARG_NONE (cpu_80386 OR isa_GP) ''mul'' 0 0 0 (INS_SET_OFLOW OR INS_SET_CARRY) 23,
    opcode 0 INS_MUL (OPTYPE_b OR ADDRMETH_RR OR OP_W OR OP_SIGNED OR OP_R) (ADDRMETH_E OR OPTYPE_b OR OP_SIGNED OR OP_R) ARG_NONE (cpu_80386 OR isa_GP) ''imul'' 0 0 0 (INS_SET_OFLOW OR INS_SET_CARRY) 22,
    opcode 0 INS_DIV (ADDRMETH_RR OR OPTYPE_b OR OP_W OR OP_R) (ADDRMETH_E OR OPTYPE_b OR OP_R) ARG_NONE (cpu_80386 OR isa_GP) ''div'' 0 0 0 0 14,
    opcode 0 INS_DIV (ADDRMETH_RR OR OPTYPE_b OR OP_W OR OP_R) (ADDRMETH_E OR OPTYPE_b OR OP_R) ARG_NONE (cpu_80386 OR isa_GP) ''idiv'' 0 0 0 0 13]"

definition tbl_F7 :: "ia32_insn_t list" where
  "tbl_F7 = [
    opcode 0 INS_TEST (ADDRMETH_E OR OPTYPE_v OR OP_R) (ADDRMETH_I OR OPTYPE_v OR OP_SIGNED OR OP_R) ARG_NONE (cpu_80386 OR isa_GP) ''test'' 0 0 0 INS_SET_ALL 0,
    opcode 0 INS_TEST (ADDRMETH_E OR OPTYPE_v OR OP_R) (ADDRMETH_I OR OPTYPE_v OR OP_SIGNED OR OP_R) ARG_NONE (cpu_80386 OR isa_GP) ''test'' 0 0 0 INS_SET_ALL 0,
    opcode 0 INS_NOT (ADDRMETH_E OR OPTYPE_v OR OP_W OR OP_R) ARG_NONE ARG_NONE (cpu_80386 OR isa_GP) ''not'' 0 0 0 0 0,
    opcode 0 INS_NEG (ADDRMETH_E OR OPTYPE_v OR OP_W OR OP_R) ARG_NONE ARG_NONE (cpu_80386 OR isa_GP) ''neg'' 0 0 0 INS_SET_ALL 0,
    opcode 0 INS_MUL (ADDRMETH_RR OR OPTYPE_v OR OP_W OR OP_R) (ADDRMETH_E OR OPTYPE_v OR OP_R) ARG_NONE (cpu_80386 OR isa_GP) ''mul'' 0 0 0 (INS_SET_OFLOW OR INS_SET_CARRY) 23,
    opcode 0 INS_MUL (ADDRMETH_RR OR OPTYPE_v OR OP_SIGNED OR OP_W OR OP_R) (ADDRMETH_E OR OPTYPE_v OR OP_SIGNED OR OP_R) ARG_NONE (cpu_80386 OR isa_GP) ''imul'' 0 0 0 (INS_SET_OFLOW OR INS_SET_CARRY) 22,
    opcode 0 INS_DIV (ADDRMETH_RR OR OPTYPE_v OR OP_W OR OP_R) (ADDRMETH_E OR OPTYPE_v OR OP_R) ARG_NONE (cpu_80386 OR isa_GP) ''div'' 0 0 0 0 14,
    opcode 0 INS_DIV (ADDRMETH_RR OR OPTYPE_v OR OP_W OR OP_R) (ADDRMETH_E OR OPTYPE_v OR OP_R) ARG_NONE (cpu_80386 OR isa_GP) ''idiv'' 0 0 0 0 13]"

definition tbl_FE :: "ia32_insn_t list" where
  "tbl_FE = [
    opcode 0 INS_INC (ADDRMETH_E OR OPTYPE_b OR OP_W OR OP_R) ARG_NONE ARG_NONE (cpu_80386 OR isa_GP) ''inc'' 0 0 0 (INS_SET_OFLOW OR INS_SET_SIGN OR INS_SET_ZERO OR INS_SET_PARITY) 0,
    opcode 0 INS_DEC (ADDRMETH_E OR OPTYPE_b OR OP_W OR OP_R) ARG_NONE ARG_NONE (cpu_80386 OR isa_GP) ''dec'' 0 0 0 (INS_SET_OFLOW OR INS_SET_SIGN OR INS_SET_ZERO OR INS_SET_PARITY) 0]"

definition tbl_FF :: "ia32_insn_t list" where
  "tbl_FF = [
    opcode 0 INS_INC (ADDRMETH_E OR OPTYPE_v OR OP_W OR OP_R) ARG_NONE ARG_NONE (cpu_80386 OR isa_GP) ''inc'' 0 0 0 (INS_SET_OFLOW OR INS_SET_SIGN OR INS_SET_ZERO OR INS_SET_PARITY) 0,
    opcode 0 INS_DEC (ADDRMETH_E OR OPTYPE_v OR OP_W OR OP_R) ARG_NONE ARG_NONE (cpu_80386 OR isa_GP) ''dec'' 0 0 0 (INS_SET_OFLOW OR INS_SET_SIGN OR INS_SET_ZERO OR INS_SET_PARITY) 0,
    opcode 0 INS_CALL (ADDRMETH_E OR OPTYPE_v OR OP_X) ARG_NONE ARG_NONE (cpu_80386 OR isa_GP) ''call'' 0 0 0 0 3,
    opcode 0 INS_CALL (ADDRMETH_E OR OPTYPE_p OR OP_X) ARG_NONE ARG_NONE (cpu_80386 OR isa_GP) ''callf'' 0 0 0 0 0,
    opcode 0 INS_BRANCH (ADDRMETH_E OR OPTYPE_v OR OP_X) ARG_NONE ARG_NONE (cpu_80386 OR isa_GP) ''jmp'' 0 0 0 0 0,
    opcode 0 INS_BRANCH (ADDRMETH_E OR OPTYPE_p OR OP_X) ARG_NONE ARG_NONE (cpu_80386 OR isa_GP) ''jmp'' 0 0 0 0 0,
    opcode 0 INS_PUSH (ADDRMETH_E OR OPTYPE_v OR OP_R) ARG_NONE ARG_NONE (cpu_80386 OR isa_GP) ''push'' 0 0 0 0 0]"

definition tbl_D8 :: "ia32_insn_t list" where
  "tbl_D8 = [
    opcode 0 INS_FPU (ADDRMETH_M OR OPTYPE_fs OR OP_W) ARG_NONE ARG_NONE (cpu_80387 OR isa_FPU) ''fadd'' 0 0 0 0 0,
    opcode 0 INS_FPU (ADDRMETH_M OR OPTYPE_fs OR OP_W) ARG_NONE ARG_NONE (cpu_80387 OR isa_FPU) ''fmul'' 0 0 0 0 0,
    opcode 0 INS_FPU (ADDRMETH_M OR OPTYPE_fs OR OP_W) ARG_NONE ARG_NONE (cpu_80387 OR isa_FPU) ''fcom'' 0 0 0 (INS_SET_ZERO OR INS_SET_PARITY OR INS_SET_CARRY) 17,
    opcode 0 INS_FPU (ADDRMETH_M OR OPTYPE_fs OR OP_W) ARG_NONE ARG_NONE (cpu_80387 OR isa_FPU) ''fcomp'' 0 0 0 (INS_SET_ZERO OR INS_SET_PARITY OR INS_SET_CARRY) 0,
    opcode 0 INS_FPU (ADDRMETH_M OR OPTYPE_fs OR OP_W) ARG_NONE ARG_NONE (cpu_80387 OR isa_FPU) ''fsub'' 0 0 0 0 0,
    opcode 0 INS_FPU (ADDRMETH_M OR OPTYPE_fs OR OP_W) ARG_NONE ARG_NONE (cpu_80387 OR isa_FPU) ''fsubr'' 0 0 0 0 0,
    opcode 0 INS_FPU (ADDRMETH_M OR OPTYPE_fs OR OP_W) ARG_NONE ARG_NONE (cpu_80387 OR isa_FPU) ''fdiv'' 0 0 0 0 0,
    opcode 0 INS_FPU (ADDRMETH_M OR OPTYPE_fs OR OP_W) ARG_NONE ARG_NONE (cpu_80387 OR isa_FPU) ''fdivr'' 0 0 0 0 0]"

definition tbl_D8C0 :: "ia32_insn_t list" where
  "tbl_D8C0 = [
    opcode 0 INS_FPU (ADDRMETH_RF OR OPTYPE_fp OR OP_W) (ADDRMETH_RF OR OPTYPE_fp OR OP_R) ARG_NONE (cpu_80387 OR isa_FPU) ''fadd'' 0 0 0 0 0,
    opcode 0 INS_FPU (ADDRMETH_RF OR OPTYPE_fp OR OP_W) (ADDRMETH_RF OR OPTYPE_fp OR OP_R) ARG_NONE (cpu_80387 OR isa_FPU) ''fadd'' 0 1 0 0 0,
    opcode 0 INS_FPU (ADDRMETH_RF OR OPTYPE_fp OR OP_W) (ADDRMETH_RF OR OPTYPE_fp OR OP_R) ARG_NONE (cpu_80387 OR isa_FPU) ''fadd'' 0 2 0 0 0,
    opcode 0 INS_FPU (ADDRMETH_RF OR OPTYPE_fp OR OP_W) (ADDRMETH_RF OR OPTYPE_fp OR OP_R) ARG_NONE (cpu_80387 OR isa_FPU) ''fadd'' 0 3 0 0 0,
    opcode 0 INS_FPU (ADDRMETH_RF OR OPTYPE_fp OR OP_W) (ADDRMETH_RF OR OPTYPE_fp OR OP_R) ARG_NONE (cpu_80387 OR isa_FPU) ''fadd'' 0 4 0 0 0,
    opcode 0 INS_FPU (ADDRMETH_RF OR OPTYPE_fp OR OP_W) (ADDRMETH_RF OR OPTYPE_fp OR OP_R) ARG_NONE (cpu_80387 OR isa_FPU) ''fadd'' 0 5 0 0 0,
    opcode 0 INS_FPU (ADDRMETH_RF OR OPTYPE_fp OR OP_W) (ADDRMETH_RF OR OPTYPE_fp OR OP_R) ARG_NONE (cpu_80387 OR isa_FPU) ''fadd'' 0 6 0 0 0,
    opcode 0 INS_FPU (ADDRMETH_RF OR OPTYPE_fp OR OP_W) (ADDRMETH_RF OR OPTYPE_fp OR OP_R) ARG_NONE (cpu_80387 OR isa_FPU) ''fadd'' 0 7 0 0 0,
    opcode 0 INS_FPU (ADDRMETH_RF OR OPTYPE_fp OR OP_W) (ADDRMETH_RF OR OPTYPE_fp OR OP_R) ARG_NONE (cpu_80387 OR isa_FPU) ''fmul'' 0 0 0 0 0,
    opcode 0 INS_FPU (ADDRMETH_RF OR OPTYPE_fp OR OP_W) (ADDRMETH_RF OR OPTYPE_fp OR OP_R) ARG_NONE (cpu_80387 OR isa_FPU) ''fmul'' 0 1 0 0 0,
    opcode 0 INS_FPU (ADDRMETH_RF OR OPTYPE_fp OR OP_W) (ADDRMETH_RF OR OPTYPE_fp OR OP_R) ARG_NONE (cpu_80387 OR isa_FPU) ''fmul'' 0 2 0 0 0,
    opcode 0 INS_FPU (ADDRMETH_RF OR OPTYPE_fp OR OP_W) (ADDRMETH_RF OR OPTYPE_fp OR OP_R) ARG_NONE (cpu_80387 OR isa_FPU) ''fmul'' 0 3 0 0 0,
    opcode 0 INS_FPU (ADDRMETH_RF OR OPTYPE_fp OR OP_W) (ADDRMETH_RF OR OPTYPE_fp OR OP_R) ARG_NONE (cpu_80387 OR isa_FPU) ''fmul'' 0 4 0 0 0,
    opcode 0 INS_FPU (ADDRMETH_RF OR OPTYPE_fp OR OP_W) (ADDRMETH_RF OR OPTYPE_fp OR OP_R) ARG_NONE (cpu_80387 OR isa_FPU) ''fmul'' 0 5 0 0 0,
    opcode 0 INS_FPU (ADDRMETH_RF OR OPTYPE_fp OR OP_W) (ADDRMETH_RF OR OPTYPE_fp OR OP_R) ARG_NONE (cpu_80387 OR isa_FPU) ''fmul'' 0 6 0 0 0,
    opcode 0 INS_FPU (ADDRMETH_RF OR OPTYPE_fp OR OP_W) (ADDRMETH_RF OR OPTYPE_fp OR OP_R) ARG_NONE (cpu_80387 OR isa_FPU) ''fmul'' 0 7 0 0 0,
    opcode 0 INS_FPU (ADDRMETH_RF OR OPTYPE_fp OR OP_W) (ADDRMETH_RF OR OPTYPE_fp OR OP_R) ARG_NONE (cpu_80387 OR isa_FPU) ''fcom'' 0 0 0 (INS_SET_ZERO OR INS_SET_PARITY OR INS_SET_CARRY) 17,
    opcode 0 INS_FPU (ADDRMETH_RF OR OPTYPE_fp OR OP_W) (ADDRMETH_RF OR OPTYPE_fp OR OP_R) ARG_NONE (cpu_80387 OR isa_FPU) ''fcom'' 0 1 0 (INS_SET_ZERO OR INS_SET_PARITY OR INS_SET_CARRY) 17,
    opcode 0 INS_FPU (ADDRMETH_RF OR OPTYPE_fp OR OP_W) (ADDRMETH_RF OR OPTYPE_fp OR OP_R) ARG_NONE (cpu_80387 OR isa_FPU) ''fcom'' 0 2 0 (INS_SET_ZERO OR INS_SET_PARITY OR INS_SET_CARRY) 17,
    opcode 0 INS_FPU (ADDRMETH_RF OR OPTYPE_fp OR OP_W) (ADDRMETH_RF OR OPTYPE_fp OR OP_R) ARG_NONE (cpu_80387 OR isa_FPU) ''fcom'' 0 3 0 (INS_SET_ZERO OR INS_SET_PARITY OR INS_SET_CARRY) 17,
    opcode 0 INS_FPU (ADDRMETH_RF OR OPTYPE_fp OR OP_W) (ADDRMETH_RF OR OPTYPE_fp OR OP_R) ARG_NONE (cpu_80387 OR isa_FPU) ''fcom'' 0 4 0 (INS_SET_ZERO OR INS_SET_PARITY OR INS_SET_CARRY) 17,
    opcode 0 INS_FPU (ADDRMETH_RF OR OPTYPE_fp OR OP_W) (ADDRMETH_RF OR OPTYPE_fp OR OP_R) ARG_NONE (cpu_80387 OR isa_FPU) ''fcom'' 0 5 0 (INS_SET_ZERO OR INS_SET_PARITY OR INS_SET_CARRY) 17,
    opcode 0 INS_FPU (ADDRMETH_RF OR OPTYPE_fp OR OP_W) (ADDRMETH_RF OR OPTYPE_fp OR OP_R) ARG_NONE (cpu_80387 OR isa_FPU) ''fcom'' 0 6 0 (INS_SET_ZERO OR INS_SET_PARITY OR INS_SET_CARRY) 17,
    opcode 0 INS_FPU (ADDRMETH_RF OR OPTYPE_fp OR OP_W) (ADDRMETH_RF OR OPTYPE_fp OR OP_R) ARG_NONE (cpu_80387 OR isa_FPU) ''fcom'' 0 7 0 (INS_SET_ZERO OR INS_SET_PARITY OR INS_SET_CARRY) 17,
    opcode 0 INS_FPU (ADDRMETH_RF OR OPTYPE_fp OR OP_W) (ADDRMETH_RF OR OPTYPE_fp OR OP_R) ARG_NONE (cpu_80387 OR isa_FPU) ''fcomp'' 0 0 0 (INS_SET_ZERO OR INS_SET_PARITY OR INS_SET_CARRY) 0,
    opcode 0 INS_FPU (ADDRMETH_RF OR OPTYPE_fp OR OP_W) (ADDRMETH_RF OR OPTYPE_fp OR OP_R) ARG_NONE (cpu_80387 OR isa_FPU) ''fcomp'' 0 1 0 (INS_SET_ZERO OR INS_SET_PARITY OR INS_SET_CARRY) 0,
    opcode 0 INS_FPU (ADDRMETH_RF OR OPTYPE_fp OR OP_W) (ADDRMETH_RF OR OPTYPE_fp OR OP_R) ARG_NONE (cpu_80387 OR isa_FPU) ''fcomp'' 0 2 0 (INS_SET_ZERO OR INS_SET_PARITY OR INS_SET_CARRY) 0,
    opcode 0 INS_FPU (ADDRMETH_RF OR OPTYPE_fp OR OP_W) (ADDRMETH_RF OR OPTYPE_fp OR OP_R) ARG_NONE (cpu_80387 OR isa_FPU) ''fcomp'' 0 3 0 (INS_SET_ZERO OR INS_SET_PARITY OR INS_SET_CARRY) 0,
    opcode 0 INS_FPU (ADDRMETH_RF OR OPTYPE_fp OR OP_W) (ADDRMETH_RF OR OPTYPE_fp OR OP_R) ARG_NONE (cpu_80387 OR isa_FPU) ''fcomp'' 0 4 0 (INS_SET_ZERO OR INS_SET_PARITY OR INS_SET_CARRY) 0,
    opcode 0 INS_FPU (ADDRMETH_RF OR OPTYPE_fp OR OP_W) (ADDRMETH_RF OR OPTYPE_fp OR OP_R) ARG_NONE (cpu_80387 OR isa_FPU) ''fcomp'' 0 5 0 (INS_SET_ZERO OR INS_SET_PARITY OR INS_SET_CARRY) 0,
    opcode 0 INS_FPU (ADDRMETH_RF OR OPTYPE_fp OR OP_W) (ADDRMETH_RF OR OPTYPE_fp OR OP_R) ARG_NONE (cpu_80387 OR isa_FPU) ''fcomp'' 0 6 0 (INS_SET_ZERO OR INS_SET_PARITY OR INS_SET_CARRY) 0,
    opcode 0 INS_FPU (ADDRMETH_RF OR OPTYPE_fp OR OP_W) (ADDRMETH_RF OR OPTYPE_fp OR OP_R) ARG_NONE (cpu_80387 OR isa_FPU) ''fcomp'' 0 7 0 (INS_SET_ZERO OR INS_SET_PARITY OR INS_SET_CARRY) 0,
    opcode 0 INS_FPU (ADDRMETH_RF OR OPTYPE_fp OR OP_W) (ADDRMETH_RF OR OPTYPE_fp OR OP_R) ARG_NONE (cpu_80387 OR isa_FPU) ''fsub'' 0 0 0 0 0,
    opcode 0 INS_FPU (ADDRMETH_RF OR OPTYPE_fp OR OP_W) (ADDRMETH_RF OR OPTYPE_fp OR OP_R) ARG_NONE (cpu_80387 OR isa_FPU) ''fsub'' 0 1 0 0 0,
    opcode 0 INS_FPU (ADDRMETH_RF OR OPTYPE_fp OR OP_W) (ADDRMETH_RF OR OPTYPE_fp OR OP_R) ARG_NONE (cpu_80387 OR isa_FPU) ''fsub'' 0 2 0 0 0,
    opcode 0 INS_FPU (ADDRMETH_RF OR OPTYPE_fp OR OP_W) (ADDRMETH_RF OR OPTYPE_fp OR OP_R) ARG_NONE (cpu_80387 OR isa_FPU) ''fsub'' 0 3 0 0 0,
    opcode 0 INS_FPU (ADDRMETH_RF OR OPTYPE_fp OR OP_W) (ADDRMETH_RF OR OPTYPE_fp OR OP_R) ARG_NONE (cpu_80387 OR isa_FPU) ''fsub'' 0 4 0 0 0,
    opcode 0 INS_FPU (ADDRMETH_RF OR OPTYPE_fp OR OP_W) (ADDRMETH_RF OR OPTYPE_fp OR OP_R) ARG_NONE (cpu_80387 OR isa_FPU) ''fsub'' 0 5 0 0 0,
    opcode 0 INS_FPU (ADDRMETH_RF OR OPTYPE_fp OR OP_W) (ADDRMETH_RF OR OPTYPE_fp OR OP_R) ARG_NONE (cpu_80387 OR isa_FPU) ''fsub'' 0 6 0 0 0,
    opcode 0 INS_FPU (ADDRMETH_RF OR OPTYPE_fp OR OP_W) (ADDRMETH_RF OR OPTYPE_fp OR OP_R) ARG_NONE (cpu_80387 OR isa_FPU) ''fsub'' 0 7 0 0 0,
    opcode 0 INS_FPU (ADDRMETH_RF OR OPTYPE_fp OR OP_W) (ADDRMETH_RF OR OPTYPE_fp OR OP_R) ARG_NONE (cpu_80387 OR isa_FPU) ''fsubr'' 0 0 0 0 0,
    opcode 0 INS_FPU (ADDRMETH_RF OR OPTYPE_fp OR OP_W) (ADDRMETH_RF OR OPTYPE_fp OR OP_R) ARG_NONE (cpu_80387 OR isa_FPU) ''fsubr'' 0 1 0 0 0,
    opcode 0 INS_FPU (ADDRMETH_RF OR OPTYPE_fp OR OP_W) (ADDRMETH_RF OR OPTYPE_fp OR OP_R) ARG_NONE (cpu_80387 OR isa_FPU) ''fsubr'' 0 2 0 0 0,
    opcode 0 INS_FPU (ADDRMETH_RF OR OPTYPE_fp OR OP_W) (ADDRMETH_RF OR OPTYPE_fp OR OP_R) ARG_NONE (cpu_80387 OR isa_FPU) ''fsubr'' 0 3 0 0 0,
    opcode 0 INS_FPU (ADDRMETH_RF OR OPTYPE_fp OR OP_W) (ADDRMETH_RF OR OPTYPE_fp OR OP_R) ARG_NONE (cpu_80387 OR isa_FPU) ''fsubr'' 0 4 0 0 0,
    opcode 0 INS_FPU (ADDRMETH_RF OR OPTYPE_fp OR OP_W) (ADDRMETH_RF OR OPTYPE_fp OR OP_R) ARG_NONE (cpu_80387 OR isa_FPU) ''fsubr'' 0 5 0 0 0,
    opcode 0 INS_FPU (ADDRMETH_RF OR OPTYPE_fp OR OP_W) (ADDRMETH_RF OR OPTYPE_fp OR OP_R) ARG_NONE (cpu_80387 OR isa_FPU) ''fsubr'' 0 6 0 0 0,
    opcode 0 INS_FPU (ADDRMETH_RF OR OPTYPE_fp OR OP_W) (ADDRMETH_RF OR OPTYPE_fp OR OP_R) ARG_NONE (cpu_80387 OR isa_FPU) ''fsubr'' 0 7 0 0 0,
    opcode 0 INS_FPU (ADDRMETH_RF OR OPTYPE_fp OR OP_W) (ADDRMETH_RF OR OPTYPE_fp OR OP_R) ARG_NONE (cpu_80387 OR isa_FPU) ''fdiv'' 0 0 0 0 0,
    opcode 0 INS_FPU (ADDRMETH_RF OR OPTYPE_fp OR OP_W) (ADDRMETH_RF OR OPTYPE_fp OR OP_R) ARG_NONE (cpu_80387 OR isa_FPU) ''fdiv'' 0 1 0 0 0,
    opcode 0 INS_FPU (ADDRMETH_RF OR OPTYPE_fp OR OP_W) (ADDRMETH_RF OR OPTYPE_fp OR OP_R) ARG_NONE (cpu_80387 OR isa_FPU) ''fdiv'' 0 2 0 0 0,
    opcode 0 INS_FPU (ADDRMETH_RF OR OPTYPE_fp OR OP_W) (ADDRMETH_RF OR OPTYPE_fp OR OP_R) ARG_NONE (cpu_80387 OR isa_FPU) ''fdiv'' 0 3 0 0 0,
    opcode 0 INS_FPU (ADDRMETH_RF OR OPTYPE_fp OR OP_W) (ADDRMETH_RF OR OPTYPE_fp OR OP_R) ARG_NONE (cpu_80387 OR isa_FPU) ''fdiv'' 0 4 0 0 0,
    opcode 0 INS_FPU (ADDRMETH_RF OR OPTYPE_fp OR OP_W) (ADDRMETH_RF OR OPTYPE_fp OR OP_R) ARG_NONE (cpu_80387 OR isa_FPU) ''fdiv'' 0 5 0 0 0,
    opcode 0 INS_FPU (ADDRMETH_RF OR OPTYPE_fp OR OP_W) (ADDRMETH_RF OR OPTYPE_fp OR OP_R) ARG_NONE (cpu_80387 OR isa_FPU) ''fdiv'' 0 6 0 0 0,
    opcode 0 INS_FPU (ADDRMETH_RF OR OPTYPE_fp OR OP_W) (ADDRMETH_RF OR OPTYPE_fp OR OP_R) ARG_NONE (cpu_80387 OR isa_FPU) ''fdiv'' 0 7 0 0 0,
    opcode 0 INS_FPU (ADDRMETH_RF OR OPTYPE_fp OR OP_W) (ADDRMETH_RF OR OPTYPE_fp OR OP_R) ARG_NONE (cpu_80387 OR isa_FPU) ''fdivr'' 0 0 0 0 0,
    opcode 0 INS_FPU (ADDRMETH_RF OR OPTYPE_fp OR OP_W) (ADDRMETH_RF OR OPTYPE_fp OR OP_R) ARG_NONE (cpu_80387 OR isa_FPU) ''fdivr'' 0 1 0 0 0,
    opcode 0 INS_FPU (ADDRMETH_RF OR OPTYPE_fp OR OP_W) (ADDRMETH_RF OR OPTYPE_fp OR OP_R) ARG_NONE (cpu_80387 OR isa_FPU) ''fdivr'' 0 2 0 0 0,
    opcode 0 INS_FPU (ADDRMETH_RF OR OPTYPE_fp OR OP_W) (ADDRMETH_RF OR OPTYPE_fp OR OP_R) ARG_NONE (cpu_80387 OR isa_FPU) ''fdivr'' 0 3 0 0 0,
    opcode 0 INS_FPU (ADDRMETH_RF OR OPTYPE_fp OR OP_W) (ADDRMETH_RF OR OPTYPE_fp OR OP_R) ARG_NONE (cpu_80387 OR isa_FPU) ''fdivr'' 0 4 0 0 0,
    opcode 0 INS_FPU (ADDRMETH_RF OR OPTYPE_fp OR OP_W) (ADDRMETH_RF OR OPTYPE_fp OR OP_R) ARG_NONE (cpu_80387 OR isa_FPU) ''fdivr'' 0 5 0 0 0,
    opcode 0 INS_FPU (ADDRMETH_RF OR OPTYPE_fp OR OP_W) (ADDRMETH_RF OR OPTYPE_fp OR OP_R) ARG_NONE (cpu_80387 OR isa_FPU) ''fdivr'' 0 6 0 0 0,
    opcode 0 INS_FPU (ADDRMETH_RF OR OPTYPE_fp OR OP_W) (ADDRMETH_RF OR OPTYPE_fp OR OP_R) ARG_NONE (cpu_80387 OR isa_FPU) ''fdivr'' 0 7 0 0 0]"

definition tbl_D9 :: "ia32_insn_t list" where
  "tbl_D9 = [
    opcode 0 INS_FPU (ADDRMETH_M OR OPTYPE_fs OR OP_W) ARG_NONE ARG_NONE (cpu_80387 OR isa_FPU) ''fld'' 0 0 0 0 0,
    opcode 0 INS_INVALID ARG_NONE ARG_NONE ARG_NONE (cpu_80387 OR isa_FPU) '''' 0 0 0 0 0,
    opcode 0 INS_FPU (ADDRMETH_M OR OPTYPE_fs OR OP_W) ARG_NONE ARG_NONE (cpu_80387 OR isa_FPU) ''fst'' 0 0 0 0 0,
    opcode 0 INS_FPU (ADDRMETH_M OR OPTYPE_fs OR OP_W) ARG_NONE ARG_NONE (cpu_80387 OR isa_FPU) ''fstp'' 0 0 0 0 0,
    opcode 0 INS_FPU (ADDRMETH_M OR OPTYPE_fv OR OP_W) ARG_NONE ARG_NONE (cpu_80387 OR isa_FPU) ''fldenv'' 0 0 0 0 0,
    opcode 0 INS_FPU (ADDRMETH_M OR OPTYPE_w OR OP_W) ARG_NONE ARG_NONE (cpu_80387 OR isa_FPU) ''fldcw'' 0 0 0 0 0,
    opcode 0 INS_FPU (ADDRMETH_M OR OPTYPE_fv OR OP_W) ARG_NONE ARG_NONE (cpu_80387 OR isa_FPU) ''fnstenv'' 0 0 0 0 0,
    opcode 0 INS_FPU (ADDRMETH_M OR OPTYPE_w OR OP_W) ARG_NONE ARG_NONE (cpu_80387 OR isa_FPU) ''fnstcw'' 0 0 0 0 0]"

definition tbl_D9C0 :: "ia32_insn_t list" where
  "tbl_D9C0 = [
    opcode 0 INS_FPU (ADDRMETH_RF OR OPTYPE_fp OR OP_W) (ADDRMETH_RF OR OPTYPE_fp OR OP_R) ARG_NONE (cpu_80387 OR isa_FPU) ''fld'' 0 0 0 0 0,
    opcode 0 INS_FPU (ADDRMETH_RF OR OPTYPE_fp OR OP_W) (ADDRMETH_RF OR OPTYPE_fp OR OP_R) ARG_NONE (cpu_80387 OR isa_FPU) ''fld'' 0 1 0 0 0,
    opcode 0 INS_FPU (ADDRMETH_RF OR OPTYPE_fp OR OP_W) (ADDRMETH_RF OR OPTYPE_fp OR OP_R) ARG_NONE (cpu_80387 OR isa_FPU) ''fld'' 0 2 0 0 0,
    opcode 0 INS_FPU (ADDRMETH_RF OR OPTYPE_fp OR OP_W) (ADDRMETH_RF OR OPTYPE_fp OR OP_R) ARG_NONE (cpu_80387 OR isa_FPU) ''fld'' 0 3 0 0 0,
    opcode 0 INS_FPU (ADDRMETH_RF OR OPTYPE_fp OR OP_W) (ADDRMETH_RF OR OPTYPE_fp OR OP_R) ARG_NONE (cpu_80387 OR isa_FPU) ''fld'' 0 4 0 0 0,
    opcode 0 INS_FPU (ADDRMETH_RF OR OPTYPE_fp OR OP_W) (ADDRMETH_RF OR OPTYPE_fp OR OP_R) ARG_NONE (cpu_80387 OR isa_FPU) ''fld'' 0 5 0 0 0,
    opcode 0 INS_FPU (ADDRMETH_RF OR OPTYPE_fp OR OP_W) (ADDRMETH_RF OR OPTYPE_fp OR OP_R) ARG_NONE (cpu_80387 OR isa_FPU) ''fld'' 0 6 0 0 0,
    opcode 0 INS_FPU (ADDRMETH_RF OR OPTYPE_fp OR OP_W) (ADDRMETH_RF OR OPTYPE_fp OR OP_R) ARG_NONE (cpu_80387 OR isa_FPU) ''fld'' 0 7 0 0 0,
    opcode 0 INS_FPU (ADDRMETH_RF OR OPTYPE_fp OR OP_W) (ADDRMETH_RF OR OPTYPE_fp OR OP_R) ARG_NONE (cpu_80387 OR isa_FPU) ''fxch'' 0 0 0 0 0,
    opcode 0 INS_FPU (ADDRMETH_RF OR OPTYPE_fp OR OP_W) (ADDRMETH_RF OR OPTYPE_fp OR OP_R) ARG_NONE (cpu_80387 OR isa_FPU) ''fxch'' 0 1 0 0 0,
    opcode 0 INS_FPU (ADDRMETH_RF OR OPTYPE_fp OR OP_W) (ADDRMETH_RF OR OPTYPE_fp OR OP_R) ARG_NONE (cpu_80387 OR isa_FPU) ''fxch'' 0 2 0 0 0,
    opcode 0 INS_FPU (ADDRMETH_RF OR OPTYPE_fp OR OP_W) (ADDRMETH_RF OR OPTYPE_fp OR OP_R) ARG_NONE (cpu_80387 OR isa_FPU) ''fxch'' 0 3 0 0 0,
    opcode 0 INS_FPU (ADDRMETH_RF OR OPTYPE_fp OR OP_W) (ADDRMETH_RF OR OPTYPE_fp OR OP_R) ARG_NONE (cpu_80387 OR isa_FPU) ''fxch'' 0 4 0 0 0,
    opcode 0 INS_FPU (ADDRMETH_RF OR OPTYPE_fp OR OP_W) (ADDRMETH_RF OR OPTYPE_fp OR OP_R) ARG_NONE (cpu_80387 OR isa_FPU) ''fxch'' 0 5 0 0 0,
    opcode 0 INS_FPU (ADDRMETH_RF OR OPTYPE_fp OR OP_W) (ADDRMETH_RF OR OPTYPE_fp OR OP_R) ARG_NONE (cpu_80387 OR isa_FPU) ''fxch'' 0 6 0 0 0,
    opcode 0 INS_FPU (ADDRMETH_RF OR OPTYPE_fp OR OP_W) (ADDRMETH_RF OR OPTYPE_fp OR OP_R) ARG_NONE (cpu_80387 OR isa_FPU) ''fxch'' 0 7 0 0 0,
    opcode 0 INS_FPU ARG_NONE ARG_NONE ARG_NONE (cpu_80387 OR isa_FPU) ''fnop'' 0 0 0 0 0,
    opcode 0 INS_INVALID ARG_NONE ARG_NONE ARG_NONE (cpu_80387 OR isa_FPU) '''' 0 0 0 0 0,
    opcode 0 INS_INVALID ARG_NONE ARG_NONE ARG_NONE (cpu_80387 OR isa_FPU) '''' 0 0 0 0 0,
    opcode 0 INS_INVALID ARG_NONE ARG_NONE ARG_NONE (cpu_80387 OR isa_FPU) '''' 0 0 0 0 0,
    opcode 0 INS_INVALID ARG_NONE ARG_NONE ARG_NONE (cpu_80387 OR isa_FPU) '''' 0 0 0 0 0,
    opcode 0 INS_INVALID ARG_NONE ARG_NONE ARG_NONE (cpu_80387 OR isa_FPU) '''' 0 0 0 0 0,
    opcode 0 INS_INVALID ARG_NONE ARG_NONE ARG_NONE (cpu_80387 OR isa_FPU) '''' 0 0 0 0 0,
    opcode 0 INS_INVALID ARG_NONE ARG_NONE ARG_NONE (cpu_80387 OR isa_FPU) '''' 0 0 0 0 0,
    opcode 0 INS_INVALID ARG_NONE ARG_NONE ARG_NONE (cpu_80387 OR isa_FPU) '''' 0 0 0 0 0,
    opcode 0 INS_INVALID ARG_NONE ARG_NONE ARG_NONE (cpu_80387 OR isa_FPU) '''' 0 0 0 0 0,
    opcode 0 INS_INVALID ARG_NONE ARG_NONE ARG_NONE (cpu_80387 OR isa_FPU) '''' 0 0 0 0 0,
    opcode 0 INS_INVALID ARG_NONE ARG_NONE ARG_NONE (cpu_80387 OR isa_FPU) '''' 0 0 0 0 0,
    opcode 0 INS_INVALID ARG_NONE ARG_NONE ARG_NONE (cpu_80387 OR isa_FPU) '''' 0 0 0 0 0,
    opcode 0 INS_INVALID ARG_NONE ARG_NONE ARG_NONE (cpu_80387 OR isa_FPU) '''' 0 0 0 0 0,
    opcode 0 INS_INVALID ARG_NONE ARG_NONE ARG_NONE (cpu_80387 OR isa_FPU) '''' 0 0 0 0 0,
    opcode 0 INS_INVALID ARG_NONE ARG_NONE ARG_NONE (cpu_80387 OR isa_FPU) '''' 0 0 0 0 0,
    opcode 0 INS_FPU ARG_NONE ARG_NONE ARG_NONE (cpu_80387 OR isa_FPU) ''fchs'' 0 0 0 0 0,
    opcode 0 INS_FPU ARG_NONE ARG_NONE ARG_NONE (cpu_80387 OR isa_FPU) ''fabs'' 0 0 0 0 0,
    opcode 0 INS_INVALID ARG_NONE ARG_NONE ARG_NONE (cpu_80387 OR isa_FPU) '''' 0 0 0 0 0,
    opcode 0 INS_INVALID ARG_NONE ARG_NONE ARG_NONE (cpu_80387 OR isa_FPU) '''' 0 0 0 0 0,
    opcode 0 INS_FPU ARG_NONE ARG_NONE ARG_NONE (cpu_80387 OR isa_FPU) ''ftst'' 0 0 0 0 0,
    opcode 0 INS_FPU ARG_NONE ARG_NONE ARG_NONE (cpu_80387 OR isa_FPU) ''fxam'' 0 0 0 0 0,
    opcode 0 INS_INVALID ARG_NONE ARG_NONE ARG_NONE (cpu_80387 OR isa_FPU) '''' 0 0 0 0 0,
    opcode 0 INS_INVALID ARG_NONE ARG_NONE ARG_NONE (cpu_80387 OR isa_FPU) '''' 0 0 0 0 0,
    opcode 0 INS_FPU ARG_NONE ARG_NONE ARG_NONE (cpu_80387 OR isa_FPU) ''fld1'' 0 0 0 0 0,
    opcode 0 INS_FPU ARG_NONE ARG_NONE ARG_NONE (cpu_80387 OR isa_FPU) ''fldl2t'' 0 0 0 0 0,
    opcode 0 INS_FPU ARG_NONE ARG_NONE ARG_NONE (cpu_80387 OR isa_FPU) ''fldl2e'' 0 0 0 0 0,
    opcode 0 INS_FPU ARG_NONE ARG_NONE ARG_NONE (cpu_80387 OR isa_FPU) ''fldpi'' 0 0 0 0 0,
    opcode 0 INS_FPU ARG_NONE ARG_NONE ARG_NONE (cpu_80387 OR isa_FPU) ''fldlg2'' 0 0 0 0 0,
    opcode 0 INS_FPU ARG_NONE ARG_NONE ARG_NONE (cpu_80387 OR isa_FPU) ''fldln2'' 0 0 0 0 0,
    opcode 0 INS_FPU ARG_NONE ARG_NONE ARG_NONE (cpu_80387 OR isa_FPU) ''fldz'' 0 0 0 0 0,
    opcode 0 INS_INVALID ARG_NONE ARG_NONE ARG_NONE (cpu_80387 OR isa_FPU) '''' 0 0 0 0 0,
    opcode 0 INS_FPU ARG_NONE ARG_NONE ARG_NONE (cpu_80387 OR isa_FPU) ''f2xm1'' 0 0 0 0 16,
    opcode 0 INS_FPU ARG_NONE ARG_NONE ARG_NONE (cpu_80387 OR isa_FPU) ''fyl2x'' 0 0 0 0 0,
    opcode 0 INS_FPU ARG_NONE ARG_NONE ARG_NONE (cpu_80387 OR isa_FPU) ''fptan'' 0 0 0 0 0,
    opcode 0 INS_FPU ARG_NONE ARG_NONE ARG_NONE (cpu_80387 OR isa_FPU) ''fpatan'' 0 0 0 0 18,
    opcode 0 INS_FPU ARG_NONE ARG_NONE ARG_NONE (cpu_80387 OR isa_FPU) ''fxtract'' 0 0 0 0 0,
    opcode 0 INS_FPU ARG_NONE ARG_NONE ARG_NONE (cpu_80387 OR isa_FPU) ''fprem1'' 0 0 0 0 0,
    opcode 0 INS_FPU ARG_NONE ARG_NONE ARG_NONE (cpu_80387 OR isa_FPU) ''fdecstp'' 0 0 0 0 0,
    opcode 0 INS_FPU ARG_NONE ARG_NONE ARG_NONE (cpu_80387 OR isa_FPU) ''fincstp'' 0 0 0 0 0,
    opcode 0 INS_FPU ARG_NONE ARG_NONE ARG_NONE (cpu_80387 OR isa_FPU) ''fprem'' 0 0 0 0 19,
    opcode 0 INS_FPU ARG_NONE ARG_NONE ARG_NONE (cpu_80387 OR isa_FPU) ''fyl2xp1'' 0 0 0 0 0,
    opcode 0 INS_FPU ARG_NONE ARG_NONE ARG_NONE (cpu_80387 OR isa_FPU) ''fsqrt'' 0 0 0 0 0,
    opcode 0 INS_FPU ARG_NONE ARG_NONE ARG_NONE (cpu_80387 OR isa_FPU) ''fsincos'' 0 0 0 0 0,
    opcode 0 INS_FPU ARG_NONE ARG_NONE ARG_NONE (cpu_80387 OR isa_FPU) ''frndint'' 0 0 0 0 0,
    opcode 0 INS_FPU ARG_NONE ARG_NONE ARG_NONE (cpu_80387 OR isa_FPU) ''fscale'' 0 0 0 0 0,
    opcode 0 INS_FPU ARG_NONE ARG_NONE ARG_NONE (cpu_80387 OR isa_FPU) ''fsin'' 0 0 0 0 0,
    opcode 0 INS_FPU ARG_NONE ARG_NONE ARG_NONE (cpu_80387 OR isa_FPU) ''fcos'' 0 0 0 0 0]"

definition tbl_DA :: "ia32_insn_t list" where
  "tbl_DA = [
    opcode 0 INS_FPU (ADDRMETH_M OR OPTYPE_d OR OP_W) ARG_NONE ARG_NONE (cpu_80387 OR isa_FPU) ''fiadd'' 0 0 0 0 0,
    opcode 0 INS_FPU (ADDRMETH_M OR OPTYPE_d OR OP_W) ARG_NONE ARG_NONE (cpu_80387 OR isa_FPU) ''fimul'' 0 0 0 0 0,
    opcode 0 INS_FPU (ADDRMETH_M OR OPTYPE_d OR OP_W) ARG_NONE ARG_NONE (cpu_80387 OR isa_FPU) ''ficom'' 0 0 0 0 0,
    opcode 0 INS_FPU (ADDRMETH_M OR OPTYPE_d OR OP_W) ARG_NONE ARG_NONE (cpu_80387 OR isa_FPU) ''ficomp'' 0 0 0 0 0,
    opcode 0 INS_FPU (ADDRMETH_M OR OPTYPE_d OR OP_W) ARG_NONE ARG_NONE (cpu_80387 OR isa_FPU) ''fisub'' 0 0 0 0 0,
    opcode 0 INS_FPU (ADDRMETH_M OR OPTYPE_d OR OP_W) ARG_NONE ARG_NONE (cpu_80387 OR isa_FPU) ''fisubr'' 0 0 0 0 0,
    opcode 0 INS_FPU (ADDRMETH_M OR OPTYPE_d OR OP_W) ARG_NONE ARG_NONE (cpu_80387 OR isa_FPU) ''fidiv'' 0 0 0 0 0,
    opcode 0 INS_FPU (ADDRMETH_M OR OPTYPE_d OR OP_W) ARG_NONE ARG_NONE (cpu_80387 OR isa_FPU) ''fidivr'' 0 0 0 0 0]"

definition tbl_DAC0 :: "ia32_insn_t list" where
  "tbl_DAC0 = [
    opcode 0 INS_FPU (ADDRMETH_RF OR OPTYPE_fp OR OP_W) (ADDRMETH_RF OR OPTYPE_fp OR OP_R) ARG_NONE (cpu_PENTPRO OR isa_GP) ''fcmovb'' 0 0 0 INS_TEST_CARRY 0,
    opcode 0 INS_FPU (ADDRMETH_RF OR OPTYPE_fp OR OP_W) (ADDRMETH_RF OR OPTYPE_fp OR OP_R) ARG_NONE (cpu_PENTPRO OR isa_GP) ''fcmovb'' 0 1 0 INS_TEST_CARRY 0,
    opcode 0 INS_FPU (ADDRMETH_RF OR OPTYPE_fp OR OP_W) (ADDRMETH_RF OR OPTYPE_fp OR OP_R) ARG_NONE (cpu_PENTPRO OR isa_GP) ''fcmovb'' 0 2 0 INS_TEST_CARRY 0,
    opcode 0 INS_FPU (ADDRMETH_RF OR OPTYPE_fp OR OP_W) (ADDRMETH_RF OR OPTYPE_fp OR OP_R) ARG_NONE (cpu_PENTPRO OR isa_GP) ''fcmovb'' 0 3 0 INS_TEST_CARRY 0,
    opcode 0 INS_FPU (ADDRMETH_RF OR OPTYPE_fp OR OP_W) (ADDRMETH_RF OR OPTYPE_fp OR OP_R) ARG_NONE (cpu_PENTPRO OR isa_GP) ''fcmovb'' 0 4 0 INS_TEST_CARRY 0,
    opcode 0 INS_FPU (ADDRMETH_RF OR OPTYPE_fp OR OP_W) (ADDRMETH_RF OR OPTYPE_fp OR OP_R) ARG_NONE (cpu_PENTPRO OR isa_GP) ''fcmovb'' 0 5 0 INS_TEST_CARRY 0,
    opcode 0 INS_FPU (ADDRMETH_RF OR OPTYPE_fp OR OP_W) (ADDRMETH_RF OR OPTYPE_fp OR OP_R) ARG_NONE (cpu_PENTPRO OR isa_GP) ''fcmovb'' 0 6 0 INS_TEST_CARRY 0,
    opcode 0 INS_FPU (ADDRMETH_RF OR OPTYPE_fp OR OP_W) (ADDRMETH_RF OR OPTYPE_fp OR OP_R) ARG_NONE (cpu_PENTPRO OR isa_GP) ''fcmovb'' 0 7 0 INS_TEST_CARRY 0,
    opcode 0 INS_FPU (ADDRMETH_RF OR OPTYPE_fp OR OP_W) (ADDRMETH_RF OR OPTYPE_fp OR OP_R) ARG_NONE (cpu_PENTPRO OR isa_GP) ''fcmove'' 0 0 0 INS_TEST_ZERO 0,
    opcode 0 INS_FPU (ADDRMETH_RF OR OPTYPE_fp OR OP_W) (ADDRMETH_RF OR OPTYPE_fp OR OP_R) ARG_NONE (cpu_PENTPRO OR isa_GP) ''fcmove'' 0 1 0 INS_TEST_ZERO 0,
    opcode 0 INS_FPU (ADDRMETH_RF OR OPTYPE_fp OR OP_W) (ADDRMETH_RF OR OPTYPE_fp OR OP_R) ARG_NONE (cpu_PENTPRO OR isa_GP) ''fcmove'' 0 2 0 INS_TEST_ZERO 0,
    opcode 0 INS_FPU (ADDRMETH_RF OR OPTYPE_fp OR OP_W) (ADDRMETH_RF OR OPTYPE_fp OR OP_R) ARG_NONE (cpu_PENTPRO OR isa_GP) ''fcmove'' 0 3 0 INS_TEST_ZERO 0,
    opcode 0 INS_FPU (ADDRMETH_RF OR OPTYPE_fp OR OP_W) (ADDRMETH_RF OR OPTYPE_fp OR OP_R) ARG_NONE (cpu_PENTPRO OR isa_GP) ''fcmove'' 0 4 0 INS_TEST_ZERO 0,
    opcode 0 INS_FPU (ADDRMETH_RF OR OPTYPE_fp OR OP_W) (ADDRMETH_RF OR OPTYPE_fp OR OP_R) ARG_NONE (cpu_PENTPRO OR isa_GP) ''fcmove'' 0 5 0 INS_TEST_ZERO 0,
    opcode 0 INS_FPU (ADDRMETH_RF OR OPTYPE_fp OR OP_W) (ADDRMETH_RF OR OPTYPE_fp OR OP_R) ARG_NONE (cpu_PENTPRO OR isa_GP) ''fcmove'' 0 6 0 INS_TEST_ZERO 0,
    opcode 0 INS_FPU (ADDRMETH_RF OR OPTYPE_fp OR OP_W) (ADDRMETH_RF OR OPTYPE_fp OR OP_R) ARG_NONE (cpu_PENTPRO OR isa_GP) ''fcmove'' 0 7 0 INS_TEST_ZERO 0,
    opcode 0 INS_FPU (ADDRMETH_RF OR OPTYPE_fp OR OP_W) (ADDRMETH_RF OR OPTYPE_fp OR OP_R) ARG_NONE (cpu_PENTPRO OR isa_GP) ''fcmovbe'' 0 0 0 (INS_TEST_CARRY OR INS_TEST_ZERO) 0,
    opcode 0 INS_FPU (ADDRMETH_RF OR OPTYPE_fp OR OP_W) (ADDRMETH_RF OR OPTYPE_fp OR OP_R) ARG_NONE (cpu_PENTPRO OR isa_GP) ''fcmovbe'' 0 1 0 (INS_TEST_CARRY OR INS_TEST_ZERO) 0,
    opcode 0 INS_FPU (ADDRMETH_RF OR OPTYPE_fp OR OP_W) (ADDRMETH_RF OR OPTYPE_fp OR OP_R) ARG_NONE (cpu_PENTPRO OR isa_GP) ''fcmovbe'' 0 2 0 (INS_TEST_CARRY OR INS_TEST_ZERO) 0,
    opcode 0 INS_FPU (ADDRMETH_RF OR OPTYPE_fp OR OP_W) (ADDRMETH_RF OR OPTYPE_fp OR OP_R) ARG_NONE (cpu_PENTPRO OR isa_GP) ''fcmovbe'' 0 3 0 (INS_TEST_CARRY OR INS_TEST_ZERO) 0,
    opcode 0 INS_FPU (ADDRMETH_RF OR OPTYPE_fp OR OP_W) (ADDRMETH_RF OR OPTYPE_fp OR OP_R) ARG_NONE (cpu_PENTPRO OR isa_GP) ''fcmovbe'' 0 4 0 (INS_TEST_CARRY OR INS_TEST_ZERO) 0,
    opcode 0 INS_FPU (ADDRMETH_RF OR OPTYPE_fp OR OP_W) (ADDRMETH_RF OR OPTYPE_fp OR OP_R) ARG_NONE (cpu_PENTPRO OR isa_GP) ''fcmovbe'' 0 5 0 (INS_TEST_CARRY OR INS_TEST_ZERO) 0,
    opcode 0 INS_FPU (ADDRMETH_RF OR OPTYPE_fp OR OP_W) (ADDRMETH_RF OR OPTYPE_fp OR OP_R) ARG_NONE (cpu_PENTPRO OR isa_GP) ''fcmovbe'' 0 6 0 (INS_TEST_CARRY OR INS_TEST_ZERO) 0,
    opcode 0 INS_FPU (ADDRMETH_RF OR OPTYPE_fp OR OP_W) (ADDRMETH_RF OR OPTYPE_fp OR OP_R) ARG_NONE (cpu_PENTPRO OR isa_GP) ''fcmovbe'' 0 7 0 (INS_TEST_CARRY OR INS_TEST_ZERO) 0,
    opcode 0 INS_FPU (ADDRMETH_RF OR OPTYPE_fp OR OP_W) (ADDRMETH_RF OR OPTYPE_fp OR OP_R) ARG_NONE (cpu_PENTPRO OR isa_GP) ''fcmovu'' 0 0 0 INS_TEST_PARITY 0,
    opcode 0 INS_FPU (ADDRMETH_RF OR OPTYPE_fp OR OP_W) (ADDRMETH_RF OR OPTYPE_fp OR OP_R) ARG_NONE (cpu_PENTPRO OR isa_GP) ''fcmovu'' 0 1 0 INS_TEST_PARITY 0,
    opcode 0 INS_FPU (ADDRMETH_RF OR OPTYPE_fp OR OP_W) (ADDRMETH_RF OR OPTYPE_fp OR OP_R) ARG_NONE (cpu_PENTPRO OR isa_GP) ''fcmovu'' 0 2 0 INS_TEST_PARITY 0,
    opcode 0 INS_FPU (ADDRMETH_RF OR OPTYPE_fp OR OP_W) (ADDRMETH_RF OR OPTYPE_fp OR OP_R) ARG_NONE (cpu_PENTPRO OR isa_GP) ''fcmovu'' 0 3 0 INS_TEST_PARITY 0,
    opcode 0 INS_FPU (ADDRMETH_RF OR OPTYPE_fp OR OP_W) (ADDRMETH_RF OR OPTYPE_fp OR OP_R) ARG_NONE (cpu_PENTPRO OR isa_GP) ''fcmovu'' 0 4 0 INS_TEST_PARITY 0,
    opcode 0 INS_FPU (ADDRMETH_RF OR OPTYPE_fp OR OP_W) (ADDRMETH_RF OR OPTYPE_fp OR OP_R) ARG_NONE (cpu_PENTPRO OR isa_GP) ''fcmovu'' 0 5 0 INS_TEST_PARITY 0,
    opcode 0 INS_FPU (ADDRMETH_RF OR OPTYPE_fp OR OP_W) (ADDRMETH_RF OR OPTYPE_fp OR OP_R) ARG_NONE (cpu_PENTPRO OR isa_GP) ''fcmovu'' 0 6 0 INS_TEST_PARITY 0,
    opcode 0 INS_FPU (ADDRMETH_RF OR OPTYPE_fp OR OP_W) (ADDRMETH_RF OR OPTYPE_fp OR OP_R) ARG_NONE (cpu_PENTPRO OR isa_GP) ''fcmovu'' 0 7 0 INS_TEST_PARITY 0,
    opcode 0 INS_INVALID ARG_NONE ARG_NONE ARG_NONE (cpu_80387 OR isa_FPU) '''' 0 0 0 0 0,
    opcode 0 INS_INVALID ARG_NONE ARG_NONE ARG_NONE (cpu_80387 OR isa_FPU) '''' 0 0 0 0 0,
    opcode 0 INS_INVALID ARG_NONE ARG_NONE ARG_NONE (cpu_80387 OR isa_FPU) '''' 0 0 0 0 0,
    opcode 0 INS_INVALID ARG_NONE ARG_NONE ARG_NONE (cpu_80387 OR isa_FPU) '''' 0 0 0 0 0,
    opcode 0 INS_INVALID ARG_NONE ARG_NONE ARG_NONE (cpu_80387 OR isa_FPU) '''' 0 0 0 0 0,
    opcode 0 INS_INVALID ARG_NONE ARG_NONE ARG_NONE (cpu_80387 OR isa_FPU) '''' 0 0 0 0 0,
    opcode 0 INS_INVALID ARG_NONE ARG_NONE ARG_NONE (cpu_80387 OR isa_FPU) '''' 0 0 0 0 0,
    opcode 0 INS_INVALID ARG_NONE ARG_NONE ARG_NONE (cpu_80387 OR isa_FPU) '''' 0 0 0 0 0,
    opcode 0 INS_INVALID ARG_NONE ARG_NONE ARG_NONE (cpu_80387 OR isa_FPU) '''' 0 0 0 0 0,
    opcode 0 INS_FPU ARG_NONE ARG_NONE ARG_NONE (cpu_80387 OR isa_FPU) ''fucompp'' 0 0 0 0 21,
    opcode 0 INS_INVALID ARG_NONE ARG_NONE ARG_NONE (cpu_80387 OR isa_FPU) '''' 0 0 0 0 0,
    opcode 0 INS_INVALID ARG_NONE ARG_NONE ARG_NONE (cpu_80387 OR isa_FPU) '''' 0 0 0 0 0,
    opcode 0 INS_INVALID ARG_NONE ARG_NONE ARG_NONE (cpu_80387 OR isa_FPU) '''' 0 0 0 0 0,
    opcode 0 INS_INVALID ARG_NONE ARG_NONE ARG_NONE (cpu_80387 OR isa_FPU) '''' 0 0 0 0 0,
    opcode 0 INS_INVALID ARG_NONE ARG_NONE ARG_NONE (cpu_80387 OR isa_FPU) '''' 0 0 0 0 0,
    opcode 0 INS_INVALID ARG_NONE ARG_NONE ARG_NONE (cpu_80387 OR isa_FPU) '''' 0 0 0 0 0,
    opcode 0 INS_INVALID ARG_NONE ARG_NONE ARG_NONE (cpu_80387 OR isa_FPU) '''' 0 0 0 0 0,
    opcode 0 INS_INVALID ARG_NONE ARG_NONE ARG_NONE (cpu_80387 OR isa_FPU) '''' 0 0 0 0 0,
    opcode 0 INS_INVALID ARG_NONE ARG_NONE ARG_NONE (cpu_80387 OR isa_FPU) '''' 0 0 0 0 0,
    opcode 0 INS_INVALID ARG_NONE ARG_NONE ARG_NONE (cpu_80387 OR isa_FPU) '''' 0 0 0 0 0,
    opcode 0 INS_INVALID ARG_NONE ARG_NONE ARG_NONE (cpu_80387 OR isa_FPU) '''' 0 0 0 0 0,
    opcode 0 INS_INVALID ARG_NONE ARG_NONE ARG_NONE (cpu_80387 OR isa_FPU) '''' 0 0 0 0 0,
    opcode 0 INS_INVALID ARG_NONE ARG_NONE ARG_NONE (cpu_80387 OR isa_FPU) '''' 0 0 0 0 0,
    opcode 0 INS_INVALID ARG_NONE ARG_NONE ARG_NONE (cpu_80387 OR isa_FPU) '''' 0 0 0 0 0,
    opcode 0 INS_INVALID ARG_NONE ARG_NONE ARG_NONE (cpu_80387 OR isa_FPU) '''' 0 0 0 0 0,
    opcode 0 INS_INVALID ARG_NONE ARG_NONE ARG_NONE (cpu_80387 OR isa_FPU) '''' 0 0 0 0 0,
    opcode 0 INS_INVALID ARG_NONE ARG_NONE ARG_NONE (cpu_80387 OR isa_FPU) '''' 0 0 0 0 0,
    opcode 0 INS_INVALID ARG_NONE ARG_NONE ARG_NONE (cpu_80387 OR isa_FPU) '''' 0 0 0 0 0,
    opcode 0 INS_INVALID ARG_NONE ARG_NONE ARG_NONE (cpu_80387 OR isa_FPU) '''' 0 0 0 0 0,
    opcode 0 INS_INVALID ARG_NONE ARG_NONE ARG_NONE (cpu_80387 OR isa_FPU) '''' 0 0 0 0 0,
    opcode 0 INS_INVALID ARG_NONE ARG_NONE ARG_NONE (cpu_80387 OR isa_FPU) '''' 0 0 0 0 0,
    opcode 0 INS_INVALID ARG_NONE ARG_NONE ARG_NONE (cpu_80387 OR isa_FPU) '''' 0 0 0 0 0]"

definition tbl_DB :: "ia32_insn_t list" where
  "tbl_DB = [
    opcode 0 INS_FPU (ADDRMETH_M OR OPTYPE_d OR OP_W) ARG_NONE ARG_NONE (cpu_80387 OR isa_FPU) ''fild'' 0 0 0 0 0,
    opcode 0 INS_FPU (ADDRMETH_M OR OPTYPE_d OR OP_W) ARG_NONE ARG_NONE (cpu_PENTIUM4 OR isa_GP) ''fisttp'' 0 0 0 0 0,
    opcode 0 INS_FPU (ADDRMETH_M OR OPTYPE_d OR OP_W) ARG_NONE ARG_NONE (cpu_80387 OR isa_FPU) ''fist'' 0 0 0 0 0,
    opcode 0 INS_FPU (ADDRMETH_M OR OPTYPE_d OR OP_W) ARG_NONE ARG_NONE (cpu_80387 OR isa_FPU) ''fistp'' 0 0 0 0 0,
    opcode 0 INS_INVALID ARG_NONE ARG_NONE ARG_NONE (cpu_80387 OR isa_FPU) '''' 0 0 0 0 0,
    opcode 0 INS_FPU (ADDRMETH_M OR OPTYPE_fe OR OP_W) ARG_NONE ARG_NONE (cpu_80387 OR isa_FPU) ''fld'' 0 0 0 0 0,
    opcode 0 INS_INVALID ARG_NONE ARG_NONE ARG_NONE (cpu_80387 OR isa_FPU) '''' 0 0 0 0 0,
    opcode 0 INS_FPU (ADDRMETH_M OR OPTYPE_fe OR OP_W) ARG_NONE ARG_NONE (cpu_80387 OR isa_FPU) ''fstp'' 0 0 0 0 0]"

definition tbl_DBC0 :: "ia32_insn_t list" where
  "tbl_DBC0 = [
    opcode 0 INS_FPU (ADDRMETH_RF OR OPTYPE_fp OR OP_W) (ADDRMETH_RF OR OPTYPE_fp OR OP_R) ARG_NONE (cpu_80387 OR isa_FPU) ''fcmovnb'' 0 0 0 INS_TEST_NCARRY 0,
    opcode 0 INS_FPU (ADDRMETH_RF OR OPTYPE_fp OR OP_W) (ADDRMETH_RF OR OPTYPE_fp OR OP_R) ARG_NONE (cpu_80387 OR isa_FPU) ''fcmovnb'' 0 1 0 INS_TEST_NCARRY 0,
    opcode 0 INS_FPU (ADDRMETH_RF OR OPTYPE_fp OR OP_W) (ADDRMETH_RF OR OPTYPE_fp OR OP_R) ARG_NONE (cpu_80387 OR isa_FPU) ''fcmovnb'' 0 2 0 INS_TEST_NCARRY 0,
    opcode 0 INS_FPU (ADDRMETH_RF OR OPTYPE_fp OR OP_W) (ADDRMETH_RF OR OPTYPE_fp OR OP_R) ARG_NONE (cpu_80387 OR isa_FPU) ''fcmovnb'' 0 3 0 INS_TEST_NCARRY 0,
    opcode 0 INS_FPU (ADDRMETH_RF OR OPTYPE_fp OR OP_W) (ADDRMETH_RF OR OPTYPE_fp OR OP_R) ARG_NONE (cpu_80387 OR isa_FPU) ''fcmovnb'' 0 4 0 INS_TEST_NCARRY 0,
    opcode 0 INS_FPU (ADDRMETH_RF OR OPTYPE_fp OR OP_W) (ADDRMETH_RF OR OPTYPE_fp OR OP_R) ARG_NONE (cpu_80387 OR isa_FPU) ''fcmovnb'' 0 5 0 INS_TEST_NCARRY 0,
    opcode 0 INS_FPU (ADDRMETH_RF OR OPTYPE_fp OR OP_W) (ADDRMETH_RF OR OPTYPE_fp OR OP_R) ARG_NONE (cpu_80387 OR isa_FPU) ''fcmovnb'' 0 6 0 INS_TEST_NCARRY 0,
    opcode 0 INS_FPU (ADDRMETH_RF OR OPTYPE_fp OR OP_W) (ADDRMETH_RF OR OPTYPE_fp OR OP_R) ARG_NONE (cpu_80387 OR isa_FPU) ''fcmovnb'' 0 7 0 INS_TEST_NCARRY 0,
    opcode 0 INS_FPU (ADDRMETH_RF OR OPTYPE_fp OR OP_W) (ADDRMETH_RF OR OPTYPE_fp OR OP_R) ARG_NONE (cpu_80387 OR isa_FPU) ''fcmovne'' 0 0 0 INS_TEST_NZERO 0,
    opcode 0 INS_FPU (ADDRMETH_RF OR OPTYPE_fp OR OP_W) (ADDRMETH_RF OR OPTYPE_fp OR OP_R) ARG_NONE (cpu_80387 OR isa_FPU) ''fcmovne'' 0 1 0 INS_TEST_NZERO 0,
    opcode 0 INS_FPU (ADDRMETH_RF OR OPTYPE_fp OR OP_W) (ADDRMETH_RF OR OPTYPE_fp OR OP_R) ARG_NONE (cpu_80387 OR isa_FPU) ''fcmovne'' 0 2 0 INS_TEST_NZERO 0,
    opcode 0 INS_FPU (ADDRMETH_RF OR OPTYPE_fp OR OP_W) (ADDRMETH_RF OR OPTYPE_fp OR OP_R) ARG_NONE (cpu_80387 OR isa_FPU) ''fcmovne'' 0 3 0 INS_TEST_NZERO 0,
    opcode 0 INS_FPU (ADDRMETH_RF OR OPTYPE_fp OR OP_W) (ADDRMETH_RF OR OPTYPE_fp OR OP_R) ARG_NONE (cpu_80387 OR isa_FPU) ''fcmovne'' 0 4 0 INS_TEST_NZERO 0,
    opcode 0 INS_FPU (ADDRMETH_RF OR OPTYPE_fp OR OP_W) (ADDRMETH_RF OR OPTYPE_fp OR OP_R) ARG_NONE (cpu_80387 OR isa_FPU) ''fcmovne'' 0 5 0 INS_TEST_NZERO 0,
    opcode 0 INS_FPU (ADDRMETH_RF OR OPTYPE_fp OR OP_W) (ADDRMETH_RF OR OPTYPE_fp OR OP_R) ARG_NONE (cpu_80387 OR isa_FPU) ''fcmovne'' 0 6 0 INS_TEST_NZERO 0,
    opcode 0 INS_FPU (ADDRMETH_RF OR OPTYPE_fp OR OP_W) (ADDRMETH_RF OR OPTYPE_fp OR OP_R) ARG_NONE (cpu_80387 OR isa_FPU) ''fcmovne'' 0 7 0 INS_TEST_NZERO 0,
    opcode 0 INS_FPU (ADDRMETH_RF OR OPTYPE_fp OR OP_W) (ADDRMETH_RF OR OPTYPE_fp OR OP_R) ARG_NONE (cpu_80387 OR isa_FPU) ''fcmovnbe'' 0 0 0 (INS_TEST_NCARRY OR INS_TEST_NZERO) 0,
    opcode 0 INS_FPU (ADDRMETH_RF OR OPTYPE_fp OR OP_W) (ADDRMETH_RF OR OPTYPE_fp OR OP_R) ARG_NONE (cpu_80387 OR isa_FPU) ''fcmovnbe'' 0 1 0 (INS_TEST_NCARRY OR INS_TEST_NZERO) 0,
    opcode 0 INS_FPU (ADDRMETH_RF OR OPTYPE_fp OR OP_W) (ADDRMETH_RF OR OPTYPE_fp OR OP_R) ARG_NONE (cpu_80387 OR isa_FPU) ''fcmovnbe'' 0 2 0 (INS_TEST_NCARRY OR INS_TEST_NZERO) 0,
    opcode 0 INS_FPU (ADDRMETH_RF OR OPTYPE_fp OR OP_W) (ADDRMETH_RF OR OPTYPE_fp OR OP_R) ARG_NONE (cpu_80387 OR isa_FPU) ''fcmovnbe'' 0 3 0 (INS_TEST_NCARRY OR INS_TEST_NZERO) 0,
    opcode 0 INS_FPU (ADDRMETH_RF OR OPTYPE_fp OR OP_W) (ADDRMETH_RF OR OPTYPE_fp OR OP_R) ARG_NONE (cpu_80387 OR isa_FPU) ''fcmovnbe'' 0 4 0 (INS_TEST_NCARRY OR INS_TEST_NZERO) 0,
    opcode 0 INS_FPU (ADDRMETH_RF OR OPTYPE_fp OR OP_W) (ADDRMETH_RF OR OPTYPE_fp OR OP_R) ARG_NONE (cpu_80387 OR isa_FPU) ''fcmovnbe'' 0 5 0 (INS_TEST_NCARRY OR INS_TEST_NZERO) 0,
    opcode 0 INS_FPU (ADDRMETH_RF OR OPTYPE_fp OR OP_W) (ADDRMETH_RF OR OPTYPE_fp OR OP_R) ARG_NONE (cpu_80387 OR isa_FPU) ''fcmovnbe'' 0 6 0 (INS_TEST_NCARRY OR INS_TEST_NZERO) 0,
    opcode 0 INS_FPU (ADDRMETH_RF OR OPTYPE_fp OR OP_W) (ADDRMETH_RF OR OPTYPE_fp OR OP_R) ARG_NONE (cpu_80387 OR isa_FPU) ''fcmovnbe'' 0 7 0 (INS_TEST_NCARRY OR INS_TEST_NZERO) 0,
    opcode 0 INS_FPU (ADDRMETH_RF OR OPTYPE_fp OR OP_W) (ADDRMETH_RF OR OPTYPE_fp OR OP_R) ARG_NONE (cpu_80387 OR isa_FPU) ''fcmovnu'' 0 0 0 INS_TEST_NPARITY 0,
    opcode 0 INS_FPU (ADDRMETH_RF OR OPTYPE_fp OR OP_W) (ADDRMETH_RF OR OPTYPE_fp OR OP_R) ARG_NONE (cpu_80387 OR isa_FPU) ''fcmovnu'' 0 1 0 INS_TEST_NPARITY 0,
    opcode 0 INS_FPU (ADDRMETH_RF OR OPTYPE_fp OR OP_W) (ADDRMETH_RF OR OPTYPE_fp OR OP_R) ARG_NONE (cpu_80387 OR isa_FPU) ''fcmovnu'' 0 2 0 INS_TEST_NPARITY 0,
    opcode 0 INS_FPU (ADDRMETH_RF OR OPTYPE_fp OR OP_W) (ADDRMETH_RF OR OPTYPE_fp OR OP_R) ARG_NONE (cpu_80387 OR isa_FPU) ''fcmovnu'' 0 3 0 INS_TEST_NPARITY 0,
    opcode 0 INS_FPU (ADDRMETH_RF OR OPTYPE_fp OR OP_W) (ADDRMETH_RF OR OPTYPE_fp OR OP_R) ARG_NONE (cpu_80387 OR isa_FPU) ''fcmovnu'' 0 4 0 INS_TEST_NPARITY 0,
    opcode 0 INS_FPU (ADDRMETH_RF OR OPTYPE_fp OR OP_W) (ADDRMETH_RF OR OPTYPE_fp OR OP_R) ARG_NONE (cpu_80387 OR isa_FPU) ''fcmovnu'' 0 5 0 INS_TEST_NPARITY 0,
    opcode 0 INS_FPU (ADDRMETH_RF OR OPTYPE_fp OR OP_W) (ADDRMETH_RF OR OPTYPE_fp OR OP_R) ARG_NONE (cpu_80387 OR isa_FPU) ''fcmovnu'' 0 6 0 INS_TEST_NPARITY 0,
    opcode 0 INS_FPU (ADDRMETH_RF OR OPTYPE_fp OR OP_W) (ADDRMETH_RF OR OPTYPE_fp OR OP_R) ARG_NONE (cpu_80387 OR isa_FPU) ''fcmovnu'' 0 7 0 INS_TEST_NPARITY 0,
    opcode 0 INS_INVALID ARG_NONE ARG_NONE ARG_NONE (cpu_80387 OR isa_FPU) '''' 0 0 0 0 0,
    opcode 0 INS_INVALID ARG_NONE ARG_NONE ARG_NONE (cpu_80387 OR isa_FPU) '''' 0 0 0 0 0,
    opcode 0 INS_FPU ARG_NONE ARG_NONE ARG_NONE (cpu_80387 OR isa_FPU) ''fnclex'' 0 0 0 0 0,
    opcode 0 INS_FPU ARG_NONE ARG_NONE ARG_NONE (cpu_80387 OR isa_FPU) ''fninit'' 0 0 0 0 0,
    opcode 0 INS_INVALID ARG_NONE ARG_NONE ARG_NONE (cpu_80387 OR isa_FPU) '''' 0 0 0 0 0,
    opcode 0 INS_INVALID ARG_NONE ARG_NONE ARG_NONE (cpu_80387 OR isa_FPU) '''' 0 0 0 0 0,
    opcode 0 INS_INVALID ARG_NONE ARG_NONE ARG_NONE (cpu_80387 OR isa_FPU) '''' 0 0 0 0 0,
    opcode 0 INS_INVALID ARG_NONE ARG_NONE ARG_NONE (cpu_80387 OR isa_FPU) '''' 0 0 0 0 0,
    opcode 0 INS_FPU (ADDRMETH_RF OR OPTYPE_fp OR OP_W) (ADDRMETH_RF OR OPTYPE_fp OR OP_R) ARG_NONE (cpu_80387 OR isa_FPU) ''fucomi'' 0 0 0 0 0,
    opcode 0 INS_FPU (ADDRMETH_RF OR OPTYPE_fp OR OP_W) (ADDRMETH_RF OR OPTYPE_fp OR OP_R) ARG_NONE (cpu_80387 OR isa_FPU) ''fucomi'' 0 1 0 0 0,
    opcode 0 INS_FPU (ADDRMETH_RF OR OPTYPE_fp OR OP_W) (ADDRMETH_RF OR OPTYPE_fp OR OP_R) ARG_NONE (cpu_80387 OR isa_FPU) ''fucomi'' 0 2 0 0 0,
    opcode 0 INS_FPU (ADDRMETH_RF OR OPTYPE_fp OR OP_W) (ADDRMETH_RF OR OPTYPE_fp OR OP_R) ARG_NONE (cpu_80387 OR isa_FPU) ''fucomi'' 0 3 0 0 0,
    opcode 0 INS_FPU (ADDRMETH_RF OR OPTYPE_fp OR OP_W) (ADDRMETH_RF OR OPTYPE_fp OR OP_R) ARG_NONE (cpu_80387 OR isa_FPU) ''fucomi'' 0 4 0 0 0,
    opcode 0 INS_FPU (ADDRMETH_RF OR OPTYPE_fp OR OP_W) (ADDRMETH_RF OR OPTYPE_fp OR OP_R) ARG_NONE (cpu_80387 OR isa_FPU) ''fucomi'' 0 5 0 0 0,
    opcode 0 INS_FPU (ADDRMETH_RF OR OPTYPE_fp OR OP_W) (ADDRMETH_RF OR OPTYPE_fp OR OP_R) ARG_NONE (cpu_80387 OR isa_FPU) ''fucomi'' 0 6 0 0 0,
    opcode 0 INS_FPU (ADDRMETH_RF OR OPTYPE_fp OR OP_W) (ADDRMETH_RF OR OPTYPE_fp OR OP_R) ARG_NONE (cpu_80387 OR isa_FPU) ''fucomi'' 0 7 0 0 0,
    opcode 0 INS_FPU (ADDRMETH_RF OR OPTYPE_fp OR OP_W) (ADDRMETH_RF OR OPTYPE_fp OR OP_R) ARG_NONE (cpu_PENTPRO OR isa_GP) ''fcomi'' 0 0 0 (INS_SET_ZERO OR INS_SET_PARITY OR INS_SET_CARRY) 0,
    opcode 0 INS_FPU (ADDRMETH_RF OR OPTYPE_fp OR OP_W) (ADDRMETH_RF OR OPTYPE_fp OR OP_R) ARG_NONE (cpu_PENTPRO OR isa_GP) ''fcomi'' 0 1 0 (INS_SET_ZERO OR INS_SET_PARITY OR INS_SET_CARRY) 0,
    opcode 0 INS_FPU (ADDRMETH_RF OR OPTYPE_fp OR OP_W) (ADDRMETH_RF OR OPTYPE_fp OR OP_R) ARG_NONE (cpu_PENTPRO OR isa_GP) ''fcomi'' 0 2 0 (INS_SET_ZERO OR INS_SET_PARITY OR INS_SET_CARRY) 0,
    opcode 0 INS_FPU (ADDRMETH_RF OR OPTYPE_fp OR OP_W) (ADDRMETH_RF OR OPTYPE_fp OR OP_R) ARG_NONE (cpu_PENTPRO OR isa_GP) ''fcomi'' 0 3 0 (INS_SET_ZERO OR INS_SET_PARITY OR INS_SET_CARRY) 0,
    opcode 0 INS_FPU (ADDRMETH_RF OR OPTYPE_fp OR OP_W) (ADDRMETH_RF OR OPTYPE_fp OR OP_R) ARG_NONE (cpu_PENTPRO OR isa_GP) ''fcomi'' 0 4 0 (INS_SET_ZERO OR INS_SET_PARITY OR INS_SET_CARRY) 0,
    opcode 0 INS_FPU (ADDRMETH_RF OR OPTYPE_fp OR OP_W) (ADDRMETH_RF OR OPTYPE_fp OR OP_R) ARG_NONE (cpu_PENTPRO OR isa_GP) ''fcomi'' 0 5 0 (INS_SET_ZERO OR INS_SET_PARITY OR INS_SET_CARRY) 0,
    opcode 0 INS_FPU (ADDRMETH_RF OR OPTYPE_fp OR OP_W) (ADDRMETH_RF OR OPTYPE_fp OR OP_R) ARG_NONE (cpu_PENTPRO OR isa_GP) ''fcomi'' 0 6 0 (INS_SET_ZERO OR INS_SET_PARITY OR INS_SET_CARRY) 0,
    opcode 0 INS_FPU (ADDRMETH_RF OR OPTYPE_fp OR OP_W) (ADDRMETH_RF OR OPTYPE_fp OR OP_R) ARG_NONE (cpu_PENTPRO OR isa_GP) ''fcomi'' 0 7 0 (INS_SET_ZERO OR INS_SET_PARITY OR INS_SET_CARRY) 0,
    opcode 0 INS_INVALID ARG_NONE ARG_NONE ARG_NONE (cpu_80387 OR isa_FPU) '''' 0 0 0 0 0,
    opcode 0 INS_INVALID ARG_NONE ARG_NONE ARG_NONE (cpu_80387 OR isa_FPU) '''' 0 0 0 0 0,
    opcode 0 INS_INVALID ARG_NONE ARG_NONE ARG_NONE (cpu_80387 OR isa_FPU) '''' 0 0 0 0 0,
    opcode 0 INS_INVALID ARG_NONE ARG_NONE ARG_NONE (cpu_80387 OR isa_FPU) '''' 0 0 0 0 0,
    opcode 0 INS_INVALID ARG_NONE ARG_NONE ARG_NONE (cpu_80387 OR isa_FPU) '''' 0 0 0 0 0,
    opcode 0 INS_INVALID ARG_NONE ARG_NONE ARG_NONE (cpu_80387 OR isa_FPU) '''' 0 0 0 0 0,
    opcode 0 INS_INVALID ARG_NONE ARG_NONE ARG_NONE (cpu_80387 OR isa_FPU) '''' 0 0 0 0 0,
    opcode 0 INS_INVALID ARG_NONE ARG_NONE ARG_NONE (cpu_80387 OR isa_FPU) '''' 0 0 0 0 0]"

definition tbl_DC :: "ia32_insn_t list" where
  "tbl_DC = [
    opcode 0 INS_FPU (ADDRMETH_M OR OPTYPE_fd OR OP_W) ARG_NONE ARG_NONE (cpu_80387 OR isa_FPU) ''fadd'' 0 0 0 0 0,
    opcode 0 INS_FPU (ADDRMETH_M OR OPTYPE_fd OR OP_W) ARG_NONE ARG_NONE (cpu_80387 OR isa_FPU) ''fmul'' 0 0 0 0 0,
    opcode 0 INS_FPU (ADDRMETH_M OR OPTYPE_fd OR OP_W) ARG_NONE ARG_NONE (cpu_80387 OR isa_FPU) ''fcom'' 0 0 0 (INS_SET_ZERO OR INS_SET_PARITY OR INS_SET_CARRY) 17,
    opcode 0 INS_FPU (ADDRMETH_M OR OPTYPE_fd OR OP_W) ARG_NONE ARG_NONE (cpu_80387 OR isa_FPU) ''fcomp'' 0 0 0 (INS_SET_ZERO OR INS_SET_PARITY OR INS_SET_CARRY) 0,
    opcode 0 INS_FPU (ADDRMETH_M OR OPTYPE_fd OR OP_W) ARG_NONE ARG_NONE (cpu_80387 OR isa_FPU) ''fsub'' 0 0 0 0 0,
    opcode 0 INS_FPU (ADDRMETH_M OR OPTYPE_fd OR OP_W) ARG_NONE ARG_NONE (cpu_80387 OR isa_FPU) ''fsubr'' 0 0 0 0 0,
    opcode 0 INS_FPU (ADDRMETH_M OR OPTYPE_fd OR OP_W) ARG_NONE ARG_NONE (cpu_80387 OR isa_FPU) ''fdiv'' 0 0 0 0 0,
    opcode 0 INS_FPU (ADDRMETH_M OR OPTYPE_fd OR OP_W) ARG_NONE ARG_NONE (cpu_80387 OR isa_FPU) ''fdivr'' 0 0 0 0 0]"

definition tbl_DCC0 :: "ia32_insn_t list" where
  "tbl_DCC0 = [
    opcode 0 INS_FPU (ADDRMETH_RF OR OPTYPE_fp OR OP_W) (ADDRMETH_RF OR OPTYPE_fp OR OP_R) ARG_NONE (cpu_80387 OR isa_FPU) ''fadd'' 0 0 0 0 0,
    opcode 0 INS_FPU (ADDRMETH_RF OR OPTYPE_fp OR OP_W) (ADDRMETH_RF OR OPTYPE_fp OR OP_R) ARG_NONE (cpu_80387 OR isa_FPU) ''fadd'' 1 0 0 0 0,
    opcode 0 INS_FPU (ADDRMETH_RF OR OPTYPE_fp OR OP_W) (ADDRMETH_RF OR OPTYPE_fp OR OP_R) ARG_NONE (cpu_80387 OR isa_FPU) ''fadd'' 2 0 0 0 0,
    opcode 0 INS_FPU (ADDRMETH_RF OR OPTYPE_fp OR OP_W) (ADDRMETH_RF OR OPTYPE_fp OR OP_R) ARG_NONE (cpu_80387 OR isa_FPU) ''fadd'' 3 0 0 0 0,
    opcode 0 INS_FPU (ADDRMETH_RF OR OPTYPE_fp OR OP_W) (ADDRMETH_RF OR OPTYPE_fp OR OP_R) ARG_NONE (cpu_80387 OR isa_FPU) ''fadd'' 4 0 0 0 0,
    opcode 0 INS_FPU (ADDRMETH_RF OR OPTYPE_fp OR OP_W) (ADDRMETH_RF OR OPTYPE_fp OR OP_R) ARG_NONE (cpu_80387 OR isa_FPU) ''fadd'' 5 0 0 0 0,
    opcode 0 INS_FPU (ADDRMETH_RF OR OPTYPE_fp OR OP_W) (ADDRMETH_RF OR OPTYPE_fp OR OP_R) ARG_NONE (cpu_80387 OR isa_FPU) ''fadd'' 6 0 0 0 0,
    opcode 0 INS_FPU (ADDRMETH_RF OR OPTYPE_fp OR OP_W) (ADDRMETH_RF OR OPTYPE_fp OR OP_R) ARG_NONE (cpu_80387 OR isa_FPU) ''fadd'' 7 0 0 0 0,
    opcode 0 INS_FPU (ADDRMETH_RF OR OPTYPE_fp OR OP_W) (ADDRMETH_RF OR OPTYPE_fp OR OP_R) ARG_NONE (cpu_80387 OR isa_FPU) ''fmul'' 0 0 0 0 0,
    opcode 0 INS_FPU (ADDRMETH_RF OR OPTYPE_fp OR OP_W) (ADDRMETH_RF OR OPTYPE_fp OR OP_R) ARG_NONE (cpu_80387 OR isa_FPU) ''fmul'' 1 0 0 0 0,
    opcode 0 INS_FPU (ADDRMETH_RF OR OPTYPE_fp OR OP_W) (ADDRMETH_RF OR OPTYPE_fp OR OP_R) ARG_NONE (cpu_80387 OR isa_FPU) ''fmul'' 2 0 0 0 0,
    opcode 0 INS_FPU (ADDRMETH_RF OR OPTYPE_fp OR OP_W) (ADDRMETH_RF OR OPTYPE_fp OR OP_R) ARG_NONE (cpu_80387 OR isa_FPU) ''fmul'' 3 0 0 0 0,
    opcode 0 INS_FPU (ADDRMETH_RF OR OPTYPE_fp OR OP_W) (ADDRMETH_RF OR OPTYPE_fp OR OP_R) ARG_NONE (cpu_80387 OR isa_FPU) ''fmul'' 4 0 0 0 0,
    opcode 0 INS_FPU (ADDRMETH_RF OR OPTYPE_fp OR OP_W) (ADDRMETH_RF OR OPTYPE_fp OR OP_R) ARG_NONE (cpu_80387 OR isa_FPU) ''fmul'' 5 0 0 0 0,
    opcode 0 INS_FPU (ADDRMETH_RF OR OPTYPE_fp OR OP_W) (ADDRMETH_RF OR OPTYPE_fp OR OP_R) ARG_NONE (cpu_80387 OR isa_FPU) ''fmul'' 6 0 0 0 0,
    opcode 0 INS_FPU (ADDRMETH_RF OR OPTYPE_fp OR OP_W) (ADDRMETH_RF OR OPTYPE_fp OR OP_R) ARG_NONE (cpu_80387 OR isa_FPU) ''fmul'' 7 0 0 0 0,
    opcode 0 INS_INVALID ARG_NONE ARG_NONE ARG_NONE (cpu_80387 OR isa_FPU) '''' 0 0 0 0 0,
    opcode 0 INS_INVALID ARG_NONE ARG_NONE ARG_NONE (cpu_80387 OR isa_FPU) '''' 0 0 0 0 0,
    opcode 0 INS_INVALID ARG_NONE ARG_NONE ARG_NONE (cpu_80387 OR isa_FPU) '''' 0 0 0 0 0,
    opcode 0 INS_INVALID ARG_NONE ARG_NONE ARG_NONE (cpu_80387 OR isa_FPU) '''' 0 0 0 0 0,
    opcode 0 INS_INVALID ARG_NONE ARG_NONE ARG_NONE (cpu_80387 OR isa_FPU) '''' 0 0 0 0 0,
    opcode 0 INS_INVALID ARG_NONE ARG_NONE ARG_NONE (cpu_80387 OR isa_FPU) '''' 0 0 0 0 0,
    opcode 0 INS_INVALID ARG_NONE ARG_NONE ARG_NONE (cpu_80387 OR isa_FPU) '''' 0 0 0 0 0,
    opcode 0 INS_INVALID ARG_NONE ARG_NONE ARG_NONE (cpu_80387 OR isa_FPU) '''' 0 0 0 0 0,
    opcode 0 INS_INVALID ARG_NONE ARG_NONE ARG_NONE (cpu_80387 OR isa_FPU) '''' 0 0 0 0 0,
    opcode 0 INS_INVALID ARG_NONE ARG_NONE ARG_NONE (cpu_80387 OR isa_FPU) '''' 0 0 0 0 0,
    opcode 0 INS_INVALID ARG_NONE ARG_NONE ARG_NONE (cpu_80387 OR isa_FPU) '''' 0 0 0 0 0,
    opcode 0 INS_INVALID ARG_NONE ARG_NONE ARG_NONE (cpu_80387 OR isa_FPU) '''' 0 0 0 0 0,
    opcode 0 INS_INVALID ARG_NONE ARG_NONE ARG_NONE (cpu_80387 OR isa_FPU) '''' 0 0 0 0 0,
    opcode 0 INS_INVALID ARG_NONE ARG_NONE ARG_NONE (cpu_80387 OR isa_FPU) '''' 0 0 0 0 0,
    opcode 0 INS_INVALID ARG_NONE ARG_NONE ARG_NONE (cpu_80387 OR isa_FPU) '''' 0 0 0 0 0,
    opcode 0 INS_INVALID ARG_NONE ARG_NONE ARG_NONE (cpu_80387 OR isa_FPU) '''' 0 0 0 0 0,
    opcode 0 INS_FPU (ADDRMETH_RF OR OPTYPE_fp OR OP_W) (ADDRMETH_RF OR OPTYPE_fp OR OP_R) ARG_NONE (cpu_80387 OR isa_FPU) ''fsubr'' 0 0 0 0 0,
    opcode 0 INS_FPU (ADDRMETH_RF OR OPTYPE_fp OR OP_W) (ADDRMETH_RF OR OPTYPE_fp OR OP_R) ARG_NONE (cpu_80387 OR isa_FPU) ''fsubr'' 1 0 0 0 0,
    opcode 0 INS_FPU (ADDRMETH_RF OR OPTYPE_fp OR OP_W) (ADDRMETH_RF OR OPTYPE_fp OR OP_R) ARG_NONE (cpu_80387 OR isa_FPU) ''fsubr'' 2 0 0 0 0,
    opcode 0 INS_FPU (ADDRMETH_RF OR OPTYPE_fp OR OP_W) (ADDRMETH_RF OR OPTYPE_fp OR OP_R) ARG_NONE (cpu_80387 OR isa_FPU) ''fsubr'' 3 0 0 0 0,
    opcode 0 INS_FPU (ADDRMETH_RF OR OPTYPE_fp OR OP_W) (ADDRMETH_RF OR OPTYPE_fp OR OP_R) ARG_NONE (cpu_80387 OR isa_FPU) ''fsubr'' 4 0 0 0 0,
    opcode 0 INS_FPU (ADDRMETH_RF OR OPTYPE_fp OR OP_W) (ADDRMETH_RF OR OPTYPE_fp OR OP_R) ARG_NONE (cpu_80387 OR isa_FPU) ''fsubr'' 5 0 0 0 0,
    opcode 0 INS_FPU (ADDRMETH_RF OR OPTYPE_fp OR OP_W) (ADDRMETH_RF OR OPTYPE_fp OR OP_R) ARG_NONE (cpu_80387 OR isa_FPU) ''fsubr'' 6 0 0 0 0,
    opcode 0 INS_FPU (ADDRMETH_RF OR OPTYPE_fp OR OP_W) (ADDRMETH_RF OR OPTYPE_fp OR OP_R) ARG_NONE (cpu_80387 OR isa_FPU) ''fsubr'' 7 0 0 0 0,
    opcode 0 INS_FPU (ADDRMETH_RF OR OPTYPE_fp OR OP_W) (ADDRMETH_RF OR OPTYPE_fp OR OP_R) ARG_NONE (cpu_80387 OR isa_FPU) ''fsub'' 0 0 0 0 0,
    opcode 0 INS_FPU (ADDRMETH_RF OR OPTYPE_fp OR OP_W) (ADDRMETH_RF OR OPTYPE_fp OR OP_R) ARG_NONE (cpu_80387 OR isa_FPU) ''fsub'' 1 0 0 0 0,
    opcode 0 INS_FPU (ADDRMETH_RF OR OPTYPE_fp OR OP_W) (ADDRMETH_RF OR OPTYPE_fp OR OP_R) ARG_NONE (cpu_80387 OR isa_FPU) ''fsub'' 2 0 0 0 0,
    opcode 0 INS_FPU (ADDRMETH_RF OR OPTYPE_fp OR OP_W) (ADDRMETH_RF OR OPTYPE_fp OR OP_R) ARG_NONE (cpu_80387 OR isa_FPU) ''fsub'' 3 0 0 0 0,
    opcode 0 INS_FPU (ADDRMETH_RF OR OPTYPE_fp OR OP_W) (ADDRMETH_RF OR OPTYPE_fp OR OP_R) ARG_NONE (cpu_80387 OR isa_FPU) ''fsub'' 4 0 0 0 0,
    opcode 0 INS_FPU (ADDRMETH_RF OR OPTYPE_fp OR OP_W) (ADDRMETH_RF OR OPTYPE_fp OR OP_R) ARG_NONE (cpu_80387 OR isa_FPU) ''fsub'' 5 0 0 0 0,
    opcode 0 INS_FPU (ADDRMETH_RF OR OPTYPE_fp OR OP_W) (ADDRMETH_RF OR OPTYPE_fp OR OP_R) ARG_NONE (cpu_80387 OR isa_FPU) ''fsub'' 6 0 0 0 0,
    opcode 0 INS_FPU (ADDRMETH_RF OR OPTYPE_fp OR OP_W) (ADDRMETH_RF OR OPTYPE_fp OR OP_R) ARG_NONE (cpu_80387 OR isa_FPU) ''fsub'' 7 0 0 0 0,
    opcode 0 INS_FPU (ADDRMETH_RF OR OPTYPE_fp OR OP_W) (ADDRMETH_RF OR OPTYPE_fp OR OP_R) ARG_NONE (cpu_80387 OR isa_FPU) ''fdivr'' 0 0 0 0 0,
    opcode 0 INS_FPU (ADDRMETH_RF OR OPTYPE_fp OR OP_W) (ADDRMETH_RF OR OPTYPE_fp OR OP_R) ARG_NONE (cpu_80387 OR isa_FPU) ''fdivr'' 1 0 0 0 0,
    opcode 0 INS_FPU (ADDRMETH_RF OR OPTYPE_fp OR OP_W) (ADDRMETH_RF OR OPTYPE_fp OR OP_R) ARG_NONE (cpu_80387 OR isa_FPU) ''fdivr'' 2 0 0 0 0,
    opcode 0 INS_FPU (ADDRMETH_RF OR OPTYPE_fp OR OP_W) (ADDRMETH_RF OR OPTYPE_fp OR OP_R) ARG_NONE (cpu_80387 OR isa_FPU) ''fdivr'' 3 0 0 0 0,
    opcode 0 INS_FPU (ADDRMETH_RF OR OPTYPE_fp OR OP_W) (ADDRMETH_RF OR OPTYPE_fp OR OP_R) ARG_NONE (cpu_80387 OR isa_FPU) ''fdivr'' 4 0 0 0 0,
    opcode 0 INS_FPU (ADDRMETH_RF OR OPTYPE_fp OR OP_W) (ADDRMETH_RF OR OPTYPE_fp OR OP_R) ARG_NONE (cpu_80387 OR isa_FPU) ''fdivr'' 5 0 0 0 0,
    opcode 0 INS_FPU (ADDRMETH_RF OR OPTYPE_fp OR OP_W) (ADDRMETH_RF OR OPTYPE_fp OR OP_R) ARG_NONE (cpu_80387 OR isa_FPU) ''fdivr'' 6 0 0 0 0,
    opcode 0 INS_FPU (ADDRMETH_RF OR OPTYPE_fp OR OP_W) (ADDRMETH_RF OR OPTYPE_fp OR OP_R) ARG_NONE (cpu_80387 OR isa_FPU) ''fdivr'' 7 0 0 0 0,
    opcode 0 INS_FPU (ADDRMETH_RF OR OPTYPE_fp OR OP_W) (ADDRMETH_RF OR OPTYPE_fp OR OP_R) ARG_NONE (cpu_80387 OR isa_FPU) ''fdiv'' 0 0 0 0 0,
    opcode 0 INS_FPU (ADDRMETH_RF OR OPTYPE_fp OR OP_W) (ADDRMETH_RF OR OPTYPE_fp OR OP_R) ARG_NONE (cpu_80387 OR isa_FPU) ''fdiv'' 1 0 0 0 0,
    opcode 0 INS_FPU (ADDRMETH_RF OR OPTYPE_fp OR OP_W) (ADDRMETH_RF OR OPTYPE_fp OR OP_R) ARG_NONE (cpu_80387 OR isa_FPU) ''fdiv'' 2 0 0 0 0,
    opcode 0 INS_FPU (ADDRMETH_RF OR OPTYPE_fp OR OP_W) (ADDRMETH_RF OR OPTYPE_fp OR OP_R) ARG_NONE (cpu_80387 OR isa_FPU) ''fdiv'' 3 0 0 0 0,
    opcode 0 INS_FPU (ADDRMETH_RF OR OPTYPE_fp OR OP_W) (ADDRMETH_RF OR OPTYPE_fp OR OP_R) ARG_NONE (cpu_80387 OR isa_FPU) ''fdiv'' 4 0 0 0 0,
    opcode 0 INS_FPU (ADDRMETH_RF OR OPTYPE_fp OR OP_W) (ADDRMETH_RF OR OPTYPE_fp OR OP_R) ARG_NONE (cpu_80387 OR isa_FPU) ''fdiv'' 5 0 0 0 0,
    opcode 0 INS_FPU (ADDRMETH_RF OR OPTYPE_fp OR OP_W) (ADDRMETH_RF OR OPTYPE_fp OR OP_R) ARG_NONE (cpu_80387 OR isa_FPU) ''fdiv'' 6 0 0 0 0,
    opcode 0 INS_FPU (ADDRMETH_RF OR OPTYPE_fp OR OP_W) (ADDRMETH_RF OR OPTYPE_fp OR OP_R) ARG_NONE (cpu_80387 OR isa_FPU) ''fdiv'' 7 0 0 0 0]"

definition tbl_DD :: "ia32_insn_t list" where
  "tbl_DD = [
    opcode 0 INS_FPU (ADDRMETH_M OR OPTYPE_fd OR OP_W) ARG_NONE ARG_NONE (cpu_80387 OR isa_FPU) ''fld'' 0 0 0 0 0,
    opcode 0 INS_FPU (ADDRMETH_M OR OPTYPE_q OR OP_W) ARG_NONE ARG_NONE (cpu_PENTIUM4 OR isa_GP) ''fisttp'' 0 0 0 0 0,
    opcode 0 INS_FPU (ADDRMETH_M OR OPTYPE_fd OR OP_W) ARG_NONE ARG_NONE (cpu_80387 OR isa_FPU) ''fst'' 0 0 0 0 0,
    opcode 0 INS_FPU (ADDRMETH_M OR OPTYPE_fd OR OP_W) ARG_NONE ARG_NONE (cpu_80387 OR isa_FPU) ''fstp'' 0 0 0 0 0,
    opcode 0 INS_FPU (ADDRMETH_M OR OPTYPE_fv OR OP_W) ARG_NONE ARG_NONE (cpu_80387 OR isa_FPU) ''frstor'' 0 0 0 0 0,
    opcode 0 INS_INVALID ARG_NONE ARG_NONE ARG_NONE (cpu_80387 OR isa_FPU) '''' 0 0 0 0 0,
    opcode 0 INS_FPU (ADDRMETH_M OR OPTYPE_fv OR OP_W) ARG_NONE ARG_NONE (cpu_80387 OR isa_FPU) ''fnsave'' 0 0 0 0 0,
    opcode 0 INS_FPU (ADDRMETH_M OR OPTYPE_w OR OP_W) ARG_NONE ARG_NONE (cpu_80387 OR isa_FPU) ''fnstsw'' 0 0 0 0 0]"

definition tbl_DDC0 :: "ia32_insn_t list" where
  "tbl_DDC0 = [
    opcode 0 INS_FPU (ADDRMETH_RF OR OPTYPE_fp OR OP_W) ARG_NONE ARG_NONE (cpu_80387 OR isa_FPU) ''ffree'' 0 0 0 0 0,
    opcode 0 INS_FPU (ADDRMETH_RF OR OPTYPE_fp OR OP_W) ARG_NONE ARG_NONE (cpu_80387 OR isa_FPU) ''ffree'' 1 0 0 0 0,
    opcode 0 INS_FPU (ADDRMETH_RF OR OPTYPE_fp OR OP_W) ARG_NONE ARG_NONE (cpu_80387 OR isa_FPU) ''ffree'' 2 0 0 0 0,
    opcode 0 INS_FPU (ADDRMETH_RF OR OPTYPE_fp OR OP_W) ARG_NONE ARG_NONE (cpu_80387 OR isa_FPU) ''ffree'' 3 0 0 0 0,
    opcode 0 INS_FPU (ADDRMETH_RF OR OPTYPE_fp OR OP_W) ARG_NONE ARG_NONE (cpu_80387 OR isa_FPU) ''ffree'' 4 0 0 0 0,
    opcode 0 INS_FPU (ADDRMETH_RF OR OPTYPE_fp OR OP_W) ARG_NONE ARG_NONE (cpu_80387 OR isa_FPU) ''ffree'' 5 0 0 0 0,
    opcode 0 INS_FPU (ADDRMETH_RF OR OPTYPE_fp OR OP_W) ARG_NONE ARG_NONE (cpu_80387 OR isa_FPU) ''ffree'' 6 0 0 0 0,
    opcode 0 INS_FPU (ADDRMETH_RF OR OPTYPE_fp OR OP_W) ARG_NONE ARG_NONE (cpu_80387 OR isa_FPU) ''ffree'' 7 0 0 0 0,
    opcode 0 INS_INVALID ARG_NONE ARG_NONE ARG_NONE (cpu_80387 OR isa_FPU) '''' 0 0 0 0 0,
    opcode 0 INS_INVALID ARG_NONE ARG_NONE ARG_NONE (cpu_80387 OR isa_FPU) '''' 0 0 0 0 0,
    opcode 0 INS_INVALID ARG_NONE ARG_NONE ARG_NONE (cpu_80387 OR isa_FPU) '''' 0 0 0 0 0,
    opcode 0 INS_INVALID ARG_NONE ARG_NONE ARG_NONE (cpu_80387 OR isa_FPU) '''' 0 0 0 0 0,
    opcode 0 INS_INVALID ARG_NONE ARG_NONE ARG_NONE (cpu_80387 OR isa_FPU) '''' 0 0 0 0 0,
    opcode 0 INS_INVALID ARG_NONE ARG_NONE ARG_NONE (cpu_80387 OR isa_FPU) '''' 0 0 0 0 0,
    opcode 0 INS_INVALID ARG_NONE ARG_NONE ARG_NONE (cpu_80387 OR isa_FPU) '''' 0 0 0 0 0,
    opcode 0 INS_INVALID ARG_NONE ARG_NONE ARG_NONE (cpu_80387 OR isa_FPU) '''' 0 0 0 0 0,
    opcode 0 INS_FPU (ADDRMETH_RF OR OPTYPE_fp OR OP_W) ARG_NONE ARG_NONE (cpu_80387 OR isa_FPU) ''fst'' 0 0 0 0 0,
    opcode 0 INS_FPU (ADDRMETH_RF OR OPTYPE_fp OR OP_W) ARG_NONE ARG_NONE (cpu_80387 OR isa_FPU) ''fst'' 1 0 0 0 0,
    opcode 0 INS_FPU (ADDRMETH_RF OR OPTYPE_fp OR OP_W) ARG_NONE ARG_NONE (cpu_80387 OR isa_FPU) ''fst'' 2 0 0 0 0,
    opcode 0 INS_FPU (ADDRMETH_RF OR OPTYPE_fp OR OP_W) ARG_NONE ARG_NONE (cpu_80387 OR isa_FPU) ''fst'' 3 0 0 0 0,
    opcode 0 INS_FPU (ADDRMETH_RF OR OPTYPE_fp OR OP_W) ARG_NONE ARG_NONE (cpu_80387 OR isa_FPU) ''fst'' 4 0 0 0 0,
    opcode 0 INS_FPU (ADDRMETH_RF OR OPTYPE_fp OR OP_W) ARG_NONE ARG_NONE (cpu_80387 OR isa_FPU) ''fst'' 5 0 0 0 0,
    opcode 0 INS_FPU (ADDRMETH_RF OR OPTYPE_fp OR OP_W) ARG_NONE ARG_NONE (cpu_80387 OR isa_FPU) ''fst'' 6 0 0 0 0,
    opcode 0 INS_FPU (ADDRMETH_RF OR OPTYPE_fp OR OP_W) ARG_NONE ARG_NONE (cpu_80387 OR isa_FPU) ''fst'' 7 0 0 0 0,
    opcode 0 INS_FPU (ADDRMETH_RF OR OPTYPE_fp OR OP_W) ARG_NONE ARG_NONE (cpu_80387 OR isa_FPU) ''fstp'' 0 0 0 0 0,
    opcode 0 INS_FPU (ADDRMETH_RF OR OPTYPE_fp OR OP_W) ARG_NONE ARG_NONE (cpu_80387 OR isa_FPU) ''fstp'' 1 0 0 0 0,
    opcode 0 INS_FPU (ADDRMETH_RF OR OPTYPE_fp OR OP_W) ARG_NONE ARG_NONE (cpu_80387 OR isa_FPU) ''fstp'' 2 0 0 0 0,
    opcode 0 INS_FPU (ADDRMETH_RF OR OPTYPE_fp OR OP_W) ARG_NONE ARG_NONE (cpu_80387 OR isa_FPU) ''fstp'' 3 0 0 0 0,
    opcode 0 INS_FPU (ADDRMETH_RF OR OPTYPE_fp OR OP_W) ARG_NONE ARG_NONE (cpu_80387 OR isa_FPU) ''fstp'' 4 0 0 0 0,
    opcode 0 INS_FPU (ADDRMETH_RF OR OPTYPE_fp OR OP_W) ARG_NONE ARG_NONE (cpu_80387 OR isa_FPU) ''fstp'' 5 0 0 0 0,
    opcode 0 INS_FPU (ADDRMETH_RF OR OPTYPE_fp OR OP_W) ARG_NONE ARG_NONE (cpu_80387 OR isa_FPU) ''fstp'' 6 0 0 0 0,
    opcode 0 INS_FPU (ADDRMETH_RF OR OPTYPE_fp OR OP_W) ARG_NONE ARG_NONE (cpu_80387 OR isa_FPU) ''fstp'' 7 0 0 0 0,
    opcode 0 INS_FPU (ADDRMETH_RF OR OPTYPE_fp OR OP_W) (ADDRMETH_RF OR OPTYPE_fp OR OP_R) ARG_NONE (cpu_80387 OR isa_FPU) ''fucom'' 0 0 0 0 0,
    opcode 0 INS_FPU (ADDRMETH_RF OR OPTYPE_fp OR OP_W) (ADDRMETH_RF OR OPTYPE_fp OR OP_R) ARG_NONE (cpu_80387 OR isa_FPU) ''fucom'' 1 0 0 0 0,
    opcode 0 INS_FPU (ADDRMETH_RF OR OPTYPE_fp OR OP_W) (ADDRMETH_RF OR OPTYPE_fp OR OP_R) ARG_NONE (cpu_80387 OR isa_FPU) ''fucom'' 2 0 0 0 0,
    opcode 0 INS_FPU (ADDRMETH_RF OR OPTYPE_fp OR OP_W) (ADDRMETH_RF OR OPTYPE_fp OR OP_R) ARG_NONE (cpu_80387 OR isa_FPU) ''fucom'' 3 0 0 0 0,
    opcode 0 INS_FPU (ADDRMETH_RF OR OPTYPE_fp OR OP_W) (ADDRMETH_RF OR OPTYPE_fp OR OP_R) ARG_NONE (cpu_80387 OR isa_FPU) ''fucom'' 4 0 0 0 0,
    opcode 0 INS_FPU (ADDRMETH_RF OR OPTYPE_fp OR OP_W) (ADDRMETH_RF OR OPTYPE_fp OR OP_R) ARG_NONE (cpu_80387 OR isa_FPU) ''fucom'' 5 0 0 0 0,
    opcode 0 INS_FPU (ADDRMETH_RF OR OPTYPE_fp OR OP_W) (ADDRMETH_RF OR OPTYPE_fp OR OP_R) ARG_NONE (cpu_80387 OR isa_FPU) ''fucom'' 6 0 0 0 0,
    opcode 0 INS_FPU (ADDRMETH_RF OR OPTYPE_fp OR OP_W) (ADDRMETH_RF OR OPTYPE_fp OR OP_R) ARG_NONE (cpu_80387 OR isa_FPU) ''fucom'' 7 0 0 0 0,
    opcode 0 INS_FPU (ADDRMETH_RF OR OPTYPE_fp OR OP_W) (ADDRMETH_RF OR OPTYPE_fp OR OP_R) ARG_NONE (cpu_80387 OR isa_FPU) ''fucomp'' 0 0 0 0 0,
    opcode 0 INS_FPU (ADDRMETH_RF OR OPTYPE_fp OR OP_W) (ADDRMETH_RF OR OPTYPE_fp OR OP_R) ARG_NONE (cpu_80387 OR isa_FPU) ''fucomp'' 1 0 0 0 0,
    opcode 0 INS_FPU (ADDRMETH_RF OR OPTYPE_fp OR OP_W) (ADDRMETH_RF OR OPTYPE_fp OR OP_R) ARG_NONE (cpu_80387 OR isa_FPU) ''fucomp'' 2 0 0 0 0,
    opcode 0 INS_FPU (ADDRMETH_RF OR OPTYPE_fp OR OP_W) (ADDRMETH_RF OR OPTYPE_fp OR OP_R) ARG_NONE (cpu_80387 OR isa_FPU) ''fucomp'' 3 0 0 0 0,
    opcode 0 INS_FPU (ADDRMETH_RF OR OPTYPE_fp OR OP_W) (ADDRMETH_RF OR OPTYPE_fp OR OP_R) ARG_NONE (cpu_80387 OR isa_FPU) ''fucomp'' 4 0 0 0 0,
    opcode 0 INS_FPU (ADDRMETH_RF OR OPTYPE_fp OR OP_W) (ADDRMETH_RF OR OPTYPE_fp OR OP_R) ARG_NONE (cpu_80387 OR isa_FPU) ''fucomp'' 5 0 0 0 0,
    opcode 0 INS_FPU (ADDRMETH_RF OR OPTYPE_fp OR OP_W) (ADDRMETH_RF OR OPTYPE_fp OR OP_R) ARG_NONE (cpu_80387 OR isa_FPU) ''fucomp'' 6 0 0 0 0,
    opcode 0 INS_FPU (ADDRMETH_RF OR OPTYPE_fp OR OP_W) (ADDRMETH_RF OR OPTYPE_fp OR OP_R) ARG_NONE (cpu_80387 OR isa_FPU) ''fucomp'' 7 0 0 0 0,
    opcode 0 INS_INVALID ARG_NONE ARG_NONE ARG_NONE (cpu_80387 OR isa_FPU) '''' 0 0 0 0 0,
    opcode 0 INS_INVALID ARG_NONE ARG_NONE ARG_NONE (cpu_80387 OR isa_FPU) '''' 0 0 0 0 0,
    opcode 0 INS_INVALID ARG_NONE ARG_NONE ARG_NONE (cpu_80387 OR isa_FPU) '''' 0 0 0 0 0,
    opcode 0 INS_INVALID ARG_NONE ARG_NONE ARG_NONE (cpu_80387 OR isa_FPU) '''' 0 0 0 0 0,
    opcode 0 INS_INVALID ARG_NONE ARG_NONE ARG_NONE (cpu_80387 OR isa_FPU) '''' 0 0 0 0 0,
    opcode 0 INS_INVALID ARG_NONE ARG_NONE ARG_NONE (cpu_80387 OR isa_FPU) '''' 0 0 0 0 0,
    opcode 0 INS_INVALID ARG_NONE ARG_NONE ARG_NONE (cpu_80387 OR isa_FPU) '''' 0 0 0 0 0,
    opcode 0 INS_INVALID ARG_NONE ARG_NONE ARG_NONE (cpu_80387 OR isa_FPU) '''' 0 0 0 0 0,
    opcode 0 INS_INVALID ARG_NONE ARG_NONE ARG_NONE (cpu_80387 OR isa_FPU) '''' 0 0 0 0 0,
    opcode 0 INS_INVALID ARG_NONE ARG_NONE ARG_NONE (cpu_80387 OR isa_FPU) '''' 0 0 0 0 0,
    opcode 0 INS_INVALID ARG_NONE ARG_NONE ARG_NONE (cpu_80387 OR isa_FPU) '''' 0 0 0 0 0,
    opcode 0 INS_INVALID ARG_NONE ARG_NONE ARG_NONE (cpu_80387 OR isa_FPU) '''' 0 0 0 0 0,
    opcode 0 INS_INVALID ARG_NONE ARG_NONE ARG_NONE (cpu_80387 OR isa_FPU) '''' 0 0 0 0 0,
    opcode 0 INS_INVALID ARG_NONE ARG_NONE ARG_NONE (cpu_80387 OR isa_FPU) '''' 0 0 0 0 0,
    opcode 0 INS_INVALID ARG_NONE ARG_NONE ARG_NONE (cpu_80387 OR isa_FPU) '''' 0 0 0 0 0,
    opcode 0 INS_INVALID ARG_NONE ARG_NONE ARG_NONE (cpu_80387 OR isa_FPU) '''' 0 0 0 0 0]"

definition tbl_DE :: "ia32_insn_t list" where
  "tbl_DE = [
    opcode 0 INS_FPU (ADDRMETH_M OR OPTYPE_w OR OP_W) ARG_NONE ARG_NONE (cpu_80387 OR isa_FPU) ''fiadd'' 0 0 0 0 0,
    opcode 0 INS_FPU (ADDRMETH_M OR OPTYPE_w OR OP_W) ARG_NONE ARG_NONE (cpu_80387 OR isa_FPU) ''fimul'' 0 0 0 0 0,
    opcode 0 INS_FPU (ADDRMETH_M OR OPTYPE_w OR OP_W) ARG_NONE ARG_NONE (cpu_80387 OR isa_FPU) ''ficom'' 0 0 0 0 0,
    opcode 0 INS_FPU (ADDRMETH_M OR OPTYPE_w OR OP_W) ARG_NONE ARG_NONE (cpu_80387 OR isa_FPU) ''ficomp'' 0 0 0 0 0,
    opcode 0 INS_FPU (ADDRMETH_M OR OPTYPE_w OR OP_W) ARG_NONE ARG_NONE (cpu_80387 OR isa_FPU) ''fisub'' 0 0 0 0 0,
    opcode 0 INS_FPU (ADDRMETH_M OR OPTYPE_w OR OP_W) ARG_NONE ARG_NONE (cpu_80387 OR isa_FPU) ''fisubr'' 0 0 0 0 0,
    opcode 0 INS_FPU (ADDRMETH_M OR OPTYPE_w OR OP_W) ARG_NONE ARG_NONE (cpu_80387 OR isa_FPU) ''fidiv'' 0 0 0 0 0,
    opcode 0 INS_FPU (ADDRMETH_M OR OPTYPE_w OR OP_W) ARG_NONE ARG_NONE (cpu_80387 OR isa_FPU) ''fidivr'' 0 0 0 0 0]"

definition tbl_DEC0 :: "ia32_insn_t list" where
  "tbl_DEC0 = [
    opcode 0 INS_FPU (ADDRMETH_RF OR OPTYPE_fp OR OP_W) (ADDRMETH_RF OR OPTYPE_fp OR OP_R) ARG_NONE (cpu_80387 OR isa_FPU) ''faddp'' 0 0 0 0 20,
    opcode 0 INS_FPU (ADDRMETH_RF OR OPTYPE_fp OR OP_W) (ADDRMETH_RF OR OPTYPE_fp OR OP_R) ARG_NONE (cpu_80387 OR isa_FPU) ''faddp'' 1 0 0 0 20,
    opcode 0 INS_FPU (ADDRMETH_RF OR OPTYPE_fp OR OP_W) (ADDRMETH_RF OR OPTYPE_fp OR OP_R) ARG_NONE (cpu_80387 OR isa_FPU) ''faddp'' 2 0 0 0 20,
    opcode 0 INS_FPU (ADDRMETH_RF OR OPTYPE_fp OR OP_W) (ADDRMETH_RF OR OPTYPE_fp OR OP_R) ARG_NONE (cpu_80387 OR isa_FPU) ''faddp'' 3 0 0 0 20,
    opcode 0 INS_FPU (ADDRMETH_RF OR OPTYPE_fp OR OP_W) (ADDRMETH_RF OR OPTYPE_fp OR OP_R) ARG_NONE (cpu_80387 OR isa_FPU) ''faddp'' 4 0 0 0 20,
    opcode 0 INS_FPU (ADDRMETH_RF OR OPTYPE_fp OR OP_W) (ADDRMETH_RF OR OPTYPE_fp OR OP_R) ARG_NONE (cpu_80387 OR isa_FPU) ''faddp'' 5 0 0 0 20,
    opcode 0 INS_FPU (ADDRMETH_RF OR OPTYPE_fp OR OP_W) (ADDRMETH_RF OR OPTYPE_fp OR OP_R) ARG_NONE (cpu_80387 OR isa_FPU) ''faddp'' 6 0 0 0 20,
    opcode 0 INS_FPU (ADDRMETH_RF OR OPTYPE_fp OR OP_W) (ADDRMETH_RF OR OPTYPE_fp OR OP_R) ARG_NONE (cpu_80387 OR isa_FPU) ''faddp'' 7 0 0 0 20,
    opcode 0 INS_FPU (ADDRMETH_RF OR OPTYPE_fp OR OP_W) (ADDRMETH_RF OR OPTYPE_fp OR OP_R) ARG_NONE (cpu_80387 OR isa_FPU) ''fmulp'' 0 0 0 0 0,
    opcode 0 INS_FPU (ADDRMETH_RF OR OPTYPE_fp OR OP_W) (ADDRMETH_RF OR OPTYPE_fp OR OP_R) ARG_NONE (cpu_80387 OR isa_FPU) ''fmulp'' 1 0 0 0 0,
    opcode 0 INS_FPU (ADDRMETH_RF OR OPTYPE_fp OR OP_W) (ADDRMETH_RF OR OPTYPE_fp OR OP_R) ARG_NONE (cpu_80387 OR isa_FPU) ''fmulp'' 2 0 0 0 0,
    opcode 0 INS_FPU (ADDRMETH_RF OR OPTYPE_fp OR OP_W) (ADDRMETH_RF OR OPTYPE_fp OR OP_R) ARG_NONE (cpu_80387 OR isa_FPU) ''fmulp'' 3 0 0 0 0,
    opcode 0 INS_FPU (ADDRMETH_RF OR OPTYPE_fp OR OP_W) (ADDRMETH_RF OR OPTYPE_fp OR OP_R) ARG_NONE (cpu_80387 OR isa_FPU) ''fmulp'' 4 0 0 0 0,
    opcode 0 INS_FPU (ADDRMETH_RF OR OPTYPE_fp OR OP_W) (ADDRMETH_RF OR OPTYPE_fp OR OP_R) ARG_NONE (cpu_80387 OR isa_FPU) ''fmulp'' 5 0 0 0 0,
    opcode 0 INS_FPU (ADDRMETH_RF OR OPTYPE_fp OR OP_W) (ADDRMETH_RF OR OPTYPE_fp OR OP_R) ARG_NONE (cpu_80387 OR isa_FPU) ''fmulp'' 6 0 0 0 0,
    opcode 0 INS_FPU (ADDRMETH_RF OR OPTYPE_fp OR OP_W) (ADDRMETH_RF OR OPTYPE_fp OR OP_R) ARG_NONE (cpu_80387 OR isa_FPU) ''fmulp'' 7 0 0 0 0,
    opcode 0 INS_INVALID ARG_NONE ARG_NONE ARG_NONE (cpu_80387 OR isa_FPU) '''' 0 0 0 0 0,
    opcode 0 INS_INVALID ARG_NONE ARG_NONE ARG_NONE (cpu_80387 OR isa_FPU) '''' 0 0 0 0 0,
    opcode 0 INS_INVALID ARG_NONE ARG_NONE ARG_NONE (cpu_80387 OR isa_FPU) '''' 0 0 0 0 0,
    opcode 0 INS_INVALID ARG_NONE ARG_NONE ARG_NONE (cpu_80387 OR isa_FPU) '''' 0 0 0 0 0,
    opcode 0 INS_INVALID ARG_NONE ARG_NONE ARG_NONE (cpu_80387 OR isa_FPU) '''' 0 0 0 0 0,
    opcode 0 INS_INVALID ARG_NONE ARG_NONE ARG_NONE (cpu_80387 OR isa_FPU) '''' 0 0 0 0 0,
    opcode 0 INS_INVALID ARG_NONE ARG_NONE ARG_NONE (cpu_80387 OR isa_FPU) '''' 0 0 0 0 0,
    opcode 0 INS_INVALID ARG_NONE ARG_NONE ARG_NONE (cpu_80387 OR isa_FPU) '''' 0 0 0 0 0,
    opcode 0 INS_INVALID ARG_NONE ARG_NONE ARG_NONE (cpu_80387 OR isa_FPU) '''' 0 0 0 0 0,
    opcode 0 INS_FPU ARG_NONE ARG_NONE ARG_NONE (cpu_80387 OR isa_FPU) ''fcompp'' 0 0 0 0 0,
    opcode 0 INS_INVALID ARG_NONE ARG_NONE ARG_NONE (cpu_80387 OR isa_FPU) '''' 0 0 0 0 0,
    opcode 0 INS_INVALID ARG_NONE ARG_NONE ARG_NONE (cpu_80387 OR isa_FPU) '''' 0 0 0 0 0,
    opcode 0 INS_INVALID ARG_NONE ARG_NONE ARG_NONE (cpu_80387 OR isa_FPU) '''' 0 0 0 0 0,
    opcode 0 INS_INVALID ARG_NONE ARG_NONE ARG_NONE (cpu_80387 OR isa_FPU) '''' 0 0 0 0 0,
    opcode 0 INS_INVALID ARG_NONE ARG_NONE ARG_NONE (cpu_80387 OR isa_FPU) '''' 0 0 0 0 0,
    opcode 0 INS_INVALID ARG_NONE ARG_NONE ARG_NONE (cpu_80387 OR isa_FPU) '''' 0 0 0 0 0,
    opcode 0 INS_FPU (ADDRMETH_RF OR OPTYPE_fp OR OP_W) (ADDRMETH_RF OR OPTYPE_fp OR OP_R) ARG_NONE (cpu_80387 OR isa_FPU) ''fsubrp'' 0 0 0 0 0,
    opcode 0 INS_FPU (ADDRMETH_RF OR OPTYPE_fp OR OP_W) (ADDRMETH_RF OR OPTYPE_fp OR OP_R) ARG_NONE (cpu_80387 OR isa_FPU) ''fsubrp'' 1 0 0 0 0,
    opcode 0 INS_FPU (ADDRMETH_RF OR OPTYPE_fp OR OP_W) (ADDRMETH_RF OR OPTYPE_fp OR OP_R) ARG_NONE (cpu_80387 OR isa_FPU) ''fsubrp'' 2 0 0 0 0,
    opcode 0 INS_FPU (ADDRMETH_RF OR OPTYPE_fp OR OP_W) (ADDRMETH_RF OR OPTYPE_fp OR OP_R) ARG_NONE (cpu_80387 OR isa_FPU) ''fsubrp'' 3 0 0 0 0,
    opcode 0 INS_FPU (ADDRMETH_RF OR OPTYPE_fp OR OP_W) (ADDRMETH_RF OR OPTYPE_fp OR OP_R) ARG_NONE (cpu_80387 OR isa_FPU) ''fsubrp'' 4 0 0 0 0,
    opcode 0 INS_FPU (ADDRMETH_RF OR OPTYPE_fp OR OP_W) (ADDRMETH_RF OR OPTYPE_fp OR OP_R) ARG_NONE (cpu_80387 OR isa_FPU) ''fsubrp'' 5 0 0 0 0,
    opcode 0 INS_FPU (ADDRMETH_RF OR OPTYPE_fp OR OP_W) (ADDRMETH_RF OR OPTYPE_fp OR OP_R) ARG_NONE (cpu_80387 OR isa_FPU) ''fsubrp'' 6 0 0 0 0,
    opcode 0 INS_FPU (ADDRMETH_RF OR OPTYPE_fp OR OP_W) (ADDRMETH_RF OR OPTYPE_fp OR OP_R) ARG_NONE (cpu_80387 OR isa_FPU) ''fsubrp'' 7 0 0 0 0,
    opcode 0 INS_FPU (ADDRMETH_RF OR OPTYPE_fp OR OP_W) (ADDRMETH_RF OR OPTYPE_fp OR OP_R) ARG_NONE (cpu_80387 OR isa_FPU) ''fsubp'' 0 0 0 0 0,
    opcode 0 INS_FPU (ADDRMETH_RF OR OPTYPE_fp OR OP_W) (ADDRMETH_RF OR OPTYPE_fp OR OP_R) ARG_NONE (cpu_80387 OR isa_FPU) ''fsubp'' 1 0 0 0 0,
    opcode 0 INS_FPU (ADDRMETH_RF OR OPTYPE_fp OR OP_W) (ADDRMETH_RF OR OPTYPE_fp OR OP_R) ARG_NONE (cpu_80387 OR isa_FPU) ''fsubp'' 2 0 0 0 0,
    opcode 0 INS_FPU (ADDRMETH_RF OR OPTYPE_fp OR OP_W) (ADDRMETH_RF OR OPTYPE_fp OR OP_R) ARG_NONE (cpu_80387 OR isa_FPU) ''fsubp'' 3 0 0 0 0,
    opcode 0 INS_FPU (ADDRMETH_RF OR OPTYPE_fp OR OP_W) (ADDRMETH_RF OR OPTYPE_fp OR OP_R) ARG_NONE (cpu_80387 OR isa_FPU) ''fsubp'' 4 0 0 0 0,
    opcode 0 INS_FPU (ADDRMETH_RF OR OPTYPE_fp OR OP_W) (ADDRMETH_RF OR OPTYPE_fp OR OP_R) ARG_NONE (cpu_80387 OR isa_FPU) ''fsubp'' 5 0 0 0 0,
    opcode 0 INS_FPU (ADDRMETH_RF OR OPTYPE_fp OR OP_W) (ADDRMETH_RF OR OPTYPE_fp OR OP_R) ARG_NONE (cpu_80387 OR isa_FPU) ''fsubp'' 6 0 0 0 0,
    opcode 0 INS_FPU (ADDRMETH_RF OR OPTYPE_fp OR OP_W) (ADDRMETH_RF OR OPTYPE_fp OR OP_R) ARG_NONE (cpu_80387 OR isa_FPU) ''fsubp'' 7 0 0 0 0,
    opcode 0 INS_FPU (ADDRMETH_RF OR OPTYPE_fp OR OP_W) (ADDRMETH_RF OR OPTYPE_fp OR OP_R) ARG_NONE (cpu_80387 OR isa_FPU) ''fdivrp'' 0 0 0 0 0,
    opcode 0 INS_FPU (ADDRMETH_RF OR OPTYPE_fp OR OP_W) (ADDRMETH_RF OR OPTYPE_fp OR OP_R) ARG_NONE (cpu_80387 OR isa_FPU) ''fdivrp'' 1 0 0 0 0,
    opcode 0 INS_FPU (ADDRMETH_RF OR OPTYPE_fp OR OP_W) (ADDRMETH_RF OR OPTYPE_fp OR OP_R) ARG_NONE (cpu_80387 OR isa_FPU) ''fdivrp'' 2 0 0 0 0,
    opcode 0 INS_FPU (ADDRMETH_RF OR OPTYPE_fp OR OP_W) (ADDRMETH_RF OR OPTYPE_fp OR OP_R) ARG_NONE (cpu_80387 OR isa_FPU) ''fdivrp'' 3 0 0 0 0,
    opcode 0 INS_FPU (ADDRMETH_RF OR OPTYPE_fp OR OP_W) (ADDRMETH_RF OR OPTYPE_fp OR OP_R) ARG_NONE (cpu_80387 OR isa_FPU) ''fdivrp'' 4 0 0 0 0,
    opcode 0 INS_FPU (ADDRMETH_RF OR OPTYPE_fp OR OP_W) (ADDRMETH_RF OR OPTYPE_fp OR OP_R) ARG_NONE (cpu_80387 OR isa_FPU) ''fdivrp'' 5 0 0 0 0,
    opcode 0 INS_FPU (ADDRMETH_RF OR OPTYPE_fp OR OP_W) (ADDRMETH_RF OR OPTYPE_fp OR OP_R) ARG_NONE (cpu_80387 OR isa_FPU) ''fdivrp'' 6 0 0 0 0,
    opcode 0 INS_FPU (ADDRMETH_RF OR OPTYPE_fp OR OP_W) (ADDRMETH_RF OR OPTYPE_fp OR OP_R) ARG_NONE (cpu_80387 OR isa_FPU) ''fdivrp'' 7 0 0 0 0,
    opcode 0 INS_FPU (ADDRMETH_RF OR OPTYPE_fp OR OP_W) (ADDRMETH_RF OR OPTYPE_fp OR OP_R) ARG_NONE (cpu_80387 OR isa_FPU) ''fdivp'' 0 0 0 0 0,
    opcode 0 INS_FPU (ADDRMETH_RF OR OPTYPE_fp OR OP_W) (ADDRMETH_RF OR OPTYPE_fp OR OP_R) ARG_NONE (cpu_80387 OR isa_FPU) ''fdivp'' 1 0 0 0 0,
    opcode 0 INS_FPU (ADDRMETH_RF OR OPTYPE_fp OR OP_W) (ADDRMETH_RF OR OPTYPE_fp OR OP_R) ARG_NONE (cpu_80387 OR isa_FPU) ''fdivp'' 2 0 0 0 0,
    opcode 0 INS_FPU (ADDRMETH_RF OR OPTYPE_fp OR OP_W) (ADDRMETH_RF OR OPTYPE_fp OR OP_R) ARG_NONE (cpu_80387 OR isa_FPU) ''fdivp'' 3 0 0 0 0,
    opcode 0 INS_FPU (ADDRMETH_RF OR OPTYPE_fp OR OP_W) (ADDRMETH_RF OR OPTYPE_fp OR OP_R) ARG_NONE (cpu_80387 OR isa_FPU) ''fdivp'' 4 0 0 0 0,
    opcode 0 INS_FPU (ADDRMETH_RF OR OPTYPE_fp OR OP_W) (ADDRMETH_RF OR OPTYPE_fp OR OP_R) ARG_NONE (cpu_80387 OR isa_FPU) ''fdivp'' 5 0 0 0 0,
    opcode 0 INS_FPU (ADDRMETH_RF OR OPTYPE_fp OR OP_W) (ADDRMETH_RF OR OPTYPE_fp OR OP_R) ARG_NONE (cpu_80387 OR isa_FPU) ''fdivp'' 6 0 0 0 0,
    opcode 0 INS_FPU (ADDRMETH_RF OR OPTYPE_fp OR OP_W) (ADDRMETH_RF OR OPTYPE_fp OR OP_R) ARG_NONE (cpu_80387 OR isa_FPU) ''fdivp'' 7 0 0 0 0]"

definition tbl_DF :: "ia32_insn_t list" where
  "tbl_DF = [
    opcode 0 INS_FPU (ADDRMETH_M OR OPTYPE_w OR OP_W) ARG_NONE ARG_NONE (cpu_80387 OR isa_FPU) ''fild'' 0 0 0 0 0,
    opcode 0 INS_FPU (ADDRMETH_M OR OPTYPE_w OR OP_W) ARG_NONE ARG_NONE (cpu_PENTIUM4 OR isa_GP) ''fisttp'' 0 0 0 0 0,
    opcode 0 INS_FPU (ADDRMETH_M OR OPTYPE_w OR OP_W) ARG_NONE ARG_NONE (cpu_80387 OR isa_FPU) ''fist'' 0 0 0 0 0,
    opcode 0 INS_FPU (ADDRMETH_M OR OPTYPE_w OR OP_W) ARG_NONE ARG_NONE (cpu_80387 OR isa_FPU) ''fistp'' 0 0 0 0 0,
    opcode 0 INS_FPU (ADDRMETH_M OR OPTYPE_fb OR OP_W) ARG_NONE ARG_NONE (cpu_80387 OR isa_FPU) ''fbld'' 0 0 0 0 0,
    opcode 0 INS_FPU (ADDRMETH_M OR OPTYPE_q OR OP_W) ARG_NONE ARG_NONE (cpu_80387 OR isa_FPU) ''fild'' 0 0 0 0 0,
    opcode 0 INS_FPU (ADDRMETH_M OR OPTYPE_fb OR OP_W) ARG_NONE ARG_NONE (cpu_80387 OR isa_FPU) ''fbstp'' 0 0 0 0 0,
    opcode 0 INS_FPU (ADDRMETH_M OR OPTYPE_q OR OP_W) ARG_NONE ARG_NONE (cpu_80387 OR isa_FPU) ''fistp'' 0 0 0 0 0]"

definition tbl_DFC0 :: "ia32_insn_t list" where
  "tbl_DFC0 = [
    opcode 0 INS_INVALID ARG_NONE ARG_NONE ARG_NONE (cpu_80387 OR isa_FPU) '''' 0 0 0 0 0,
    opcode 0 INS_INVALID ARG_NONE ARG_NONE ARG_NONE (cpu_80387 OR isa_FPU) '''' 0 0 0 0 0,
    opcode 0 INS_INVALID ARG_NONE ARG_NONE ARG_NONE (cpu_80387 OR isa_FPU) '''' 0 0 0 0 0,
    opcode 0 INS_INVALID ARG_NONE ARG_NONE ARG_NONE (cpu_80387 OR isa_FPU) '''' 0 0 0 0 0,
    opcode 0 INS_INVALID ARG_NONE ARG_NONE ARG_NONE (cpu_80387 OR isa_FPU) '''' 0 0 0 0 0,
    opcode 0 INS_INVALID ARG_NONE ARG_NONE ARG_NONE (cpu_80387 OR isa_FPU) '''' 0 0 0 0 0,
    opcode 0 INS_INVALID ARG_NONE ARG_NONE ARG_NONE (cpu_80387 OR isa_FPU) '''' 0 0 0 0 0,
    opcode 0 INS_INVALID ARG_NONE ARG_NONE ARG_NONE (cpu_80387 OR isa_FPU) '''' 0 0 0 0 0,
    opcode 0 INS_INVALID ARG_NONE ARG_NONE ARG_NONE (cpu_80387 OR isa_FPU) '''' 0 0 0 0 0,
    opcode 0 INS_INVALID ARG_NONE ARG_NONE ARG_NONE (cpu_80387 OR isa_FPU) '''' 0 0 0 0 0,
    opcode 0 INS_INVALID ARG_NONE ARG_NONE ARG_NONE (cpu_80387 OR isa_FPU) '''' 0 0 0 0 0,
    opcode 0 INS_INVALID ARG_NONE ARG_NONE ARG_NONE (cpu_80387 OR isa_FPU) '''' 0 0 0 0 0,
    opcode 0 INS_INVALID ARG_NONE ARG_NONE ARG_NONE (cpu_80387 OR isa_FPU) '''' 0 0 0 0 0,
    opcode 0 INS_INVALID ARG_NONE ARG_NONE ARG_NONE (cpu_80387 OR isa_FPU) '''' 0 0 0 0 0,
    opcode 0 INS_INVALID ARG_NONE ARG_NONE ARG_NONE (cpu_80387 OR isa_FPU) '''' 0 0 0 0 0,
    opcode 0 INS_INVALID ARG_NONE ARG_NONE ARG_NONE (cpu_80387 OR isa_FPU) '''' 0 0 0 0 0,
    opcode 0 INS_INVALID ARG_NONE ARG_NONE ARG_NONE (cpu_80387 OR isa_FPU) '''' 0 0 0 0 0,
    opcode 0 INS_INVALID ARG_NONE ARG_NONE ARG_NONE (cpu_80387 OR isa_FPU) '''' 0 0 0 0 0,
    opcode 0 INS_INVALID ARG_NONE ARG_NONE ARG_NONE (cpu_80387 OR isa_FPU) '''' 0 0 0 0 0,
    opcode 0 INS_INVALID ARG_NONE ARG_NONE ARG_NONE (cpu_80387 OR isa_FPU) '''' 0 0 0 0 0,
    opcode 0 INS_INVALID ARG_NONE ARG_NONE ARG_NONE (cpu_80387 OR isa_FPU) '''' 0 0 0 0 0,
    opcode 0 INS_INVALID ARG_NONE ARG_NONE ARG_NONE (cpu_80387 OR isa_FPU) '''' 0 0 0 0 0,
    opcode 0 INS_INVALID ARG_NONE ARG_NONE ARG_NONE (cpu_80387 OR isa_FPU) '''' 0 0 0 0 0,
    opcode 0 INS_INVALID ARG_NONE ARG_NONE ARG_NONE (cpu_80387 OR isa_FPU) '''' 0 0 0 0 0,
    opcode 0 INS_INVALID ARG_NONE ARG_NONE ARG_NONE (cpu_80387 OR isa_FPU) '''' 0 0 0 0 0,
    opcode 0 INS_INVALID ARG_NONE ARG_NONE ARG_NONE (cpu_80387 OR isa_FPU) '''' 0 0 0 0 0,
    opcode 0 INS_INVALID ARG_NONE ARG_NONE ARG_NONE (cpu_80387 OR isa_FPU) '''' 0 0 0 0 0,
    opcode 0 INS_INVALID ARG_NONE ARG_NONE ARG_NONE (cpu_80387 OR isa_FPU) '''' 0 0 0 0 0,
    opcode 0 INS_INVALID ARG_NONE ARG_NONE ARG_NONE (cpu_80387 OR isa_FPU) '''' 0 0 0 0 0,
    opcode 0 INS_INVALID ARG_NONE ARG_NONE ARG_NONE (cpu_80387 OR isa_FPU) '''' 0 0 0 0 0,
    opcode 0 INS_INVALID ARG_NONE ARG_NONE ARG_NONE (cpu_80387 OR isa_FPU) '''' 0 0 0 0 0,
    opcode 0 INS_INVALID ARG_NONE ARG_NONE ARG_NONE (cpu_80387 OR isa_FPU) '''' 0 0 0 0 0,
    opcode 0 INS_FPU (ADDRMETH_RR OR OPTYPE_w OR OP_R) ARG_NONE ARG_NONE (cpu_80387 OR isa_FPU) ''fnstsw'' 0 0 0 0 0,
    opcode 0 INS_INVALID ARG_NONE ARG_NONE ARG_NONE (cpu_80387 OR isa_FPU) '''' 0 0 0 0 0,
    opcode 0 INS_INVALID ARG_NONE ARG_NONE ARG_NONE (cpu_80387 OR isa_FPU) '''' 0 0 0 0 0,
    opcode 0 INS_INVALID ARG_NONE ARG_NONE ARG_NONE (cpu_80387 OR isa_FPU) '''' 0 0 0 0 0,
    opcode 0 INS_INVALID ARG_NONE ARG_NONE ARG_NONE (cpu_80387 OR isa_FPU) '''' 0 0 0 0 0,
    opcode 0 INS_INVALID ARG_NONE ARG_NONE ARG_NONE (cpu_80387 OR isa_FPU) '''' 0 0 0 0 0,
    opcode 0 INS_INVALID ARG_NONE ARG_NONE ARG_NONE (cpu_80387 OR isa_FPU) '''' 0 0 0 0 0,
    opcode 0 INS_INVALID ARG_NONE ARG_NONE ARG_NONE (cpu_80387 OR isa_FPU) '''' 0 0 0 0 0,
    opcode 0 INS_FPU (ADDRMETH_RF OR OPTYPE_fp OR OP_W) (ADDRMETH_RF OR OPTYPE_fp OR OP_R) ARG_NONE (cpu_80387 OR isa_FPU) ''fucomip'' 0 0 0 0 0,
    opcode 0 INS_FPU (ADDRMETH_RF OR OPTYPE_fp OR OP_W) (ADDRMETH_RF OR OPTYPE_fp OR OP_R) ARG_NONE (cpu_80387 OR isa_FPU) ''fucomip'' 0 1 0 0 0,
    opcode 0 INS_FPU (ADDRMETH_RF OR OPTYPE_fp OR OP_W) (ADDRMETH_RF OR OPTYPE_fp OR OP_R) ARG_NONE (cpu_80387 OR isa_FPU) ''fucomip'' 0 2 0 0 0,
    opcode 0 INS_FPU (ADDRMETH_RF OR OPTYPE_fp OR OP_W) (ADDRMETH_RF OR OPTYPE_fp OR OP_R) ARG_NONE (cpu_80387 OR isa_FPU) ''fucomip'' 0 3 0 0 0,
    opcode 0 INS_FPU (ADDRMETH_RF OR OPTYPE_fp OR OP_W) (ADDRMETH_RF OR OPTYPE_fp OR OP_R) ARG_NONE (cpu_80387 OR isa_FPU) ''fucomip'' 0 4 0 0 0,
    opcode 0 INS_FPU (ADDRMETH_RF OR OPTYPE_fp OR OP_W) (ADDRMETH_RF OR OPTYPE_fp OR OP_R) ARG_NONE (cpu_80387 OR isa_FPU) ''fucomip'' 0 5 0 0 0,
    opcode 0 INS_FPU (ADDRMETH_RF OR OPTYPE_fp OR OP_W) (ADDRMETH_RF OR OPTYPE_fp OR OP_R) ARG_NONE (cpu_80387 OR isa_FPU) ''fucomip'' 0 6 0 0 0,
    opcode 0 INS_FPU (ADDRMETH_RF OR OPTYPE_fp OR OP_W) (ADDRMETH_RF OR OPTYPE_fp OR OP_R) ARG_NONE (cpu_80387 OR isa_FPU) ''fucomip'' 0 7 0 0 0,
    opcode 0 INS_FPU (ADDRMETH_RF OR OPTYPE_fp OR OP_W) (ADDRMETH_RF OR OPTYPE_fp OR OP_R) ARG_NONE (cpu_80387 OR isa_FPU) ''fcomip'' 0 0 0 (INS_SET_ZERO OR INS_SET_PARITY OR INS_SET_CARRY) 0,
    opcode 0 INS_FPU (ADDRMETH_RF OR OPTYPE_fp OR OP_W) (ADDRMETH_RF OR OPTYPE_fp OR OP_R) ARG_NONE (cpu_80387 OR isa_FPU) ''fcomip'' 0 1 0 (INS_SET_ZERO OR INS_SET_PARITY OR INS_SET_CARRY) 0,
    opcode 0 INS_FPU (ADDRMETH_RF OR OPTYPE_fp OR OP_W) (ADDRMETH_RF OR OPTYPE_fp OR OP_R) ARG_NONE (cpu_80387 OR isa_FPU) ''fcomip'' 0 2 0 (INS_SET_ZERO OR INS_SET_PARITY OR INS_SET_CARRY) 0,
    opcode 0 INS_FPU (ADDRMETH_RF OR OPTYPE_fp OR OP_W) (ADDRMETH_RF OR OPTYPE_fp OR OP_R) ARG_NONE (cpu_80387 OR isa_FPU) ''fcomip'' 0 3 0 (INS_SET_ZERO OR INS_SET_PARITY OR INS_SET_CARRY) 0,
    opcode 0 INS_FPU (ADDRMETH_RF OR OPTYPE_fp OR OP_W) (ADDRMETH_RF OR OPTYPE_fp OR OP_R) ARG_NONE (cpu_80387 OR isa_FPU) ''fcomip'' 0 4 0 (INS_SET_ZERO OR INS_SET_PARITY OR INS_SET_CARRY) 0,
    opcode 0 INS_FPU (ADDRMETH_RF OR OPTYPE_fp OR OP_W) (ADDRMETH_RF OR OPTYPE_fp OR OP_R) ARG_NONE (cpu_80387 OR isa_FPU) ''fcomip'' 0 5 0 (INS_SET_ZERO OR INS_SET_PARITY OR INS_SET_CARRY) 0,
    opcode 0 INS_FPU (ADDRMETH_RF OR OPTYPE_fp OR OP_W) (ADDRMETH_RF OR OPTYPE_fp OR OP_R) ARG_NONE (cpu_80387 OR isa_FPU) ''fcomip'' 0 6 0 (INS_SET_ZERO OR INS_SET_PARITY OR INS_SET_CARRY) 0,
    opcode 0 INS_FPU (ADDRMETH_RF OR OPTYPE_fp OR OP_W) (ADDRMETH_RF OR OPTYPE_fp OR OP_R) ARG_NONE (cpu_80387 OR isa_FPU) ''fcomip'' 0 7 0 (INS_SET_ZERO OR INS_SET_PARITY OR INS_SET_CARRY) 0,
    opcode 0 INS_INVALID ARG_NONE ARG_NONE ARG_NONE (cpu_80387 OR isa_FPU) '''' 0 0 0 0 0,
    opcode 0 INS_INVALID ARG_NONE ARG_NONE ARG_NONE (cpu_80387 OR isa_FPU) '''' 0 0 0 0 0,
    opcode 0 INS_INVALID ARG_NONE ARG_NONE ARG_NONE (cpu_80387 OR isa_FPU) '''' 0 0 0 0 0,
    opcode 0 INS_INVALID ARG_NONE ARG_NONE ARG_NONE (cpu_80387 OR isa_FPU) '''' 0 0 0 0 0,
    opcode 0 INS_INVALID ARG_NONE ARG_NONE ARG_NONE (cpu_80387 OR isa_FPU) '''' 0 0 0 0 0,
    opcode 0 INS_INVALID ARG_NONE ARG_NONE ARG_NONE (cpu_80387 OR isa_FPU) '''' 0 0 0 0 0,
    opcode 0 INS_INVALID ARG_NONE ARG_NONE ARG_NONE (cpu_80387 OR isa_FPU) '''' 0 0 0 0 0,
    opcode 0 INS_INVALID ARG_NONE ARG_NONE ARG_NONE (cpu_80387 OR isa_FPU) '''' 0 0 0 0 0]"

definition tbl_0F0F_00 :: "ia32_insn_t list" where
  "tbl_0F0F_00 = [
    opcode 0 INS_INVALID ARG_NONE ARG_NONE ARG_NONE (cpu_K6 OR isa_3DNOW) '''' 0 0 0 0 0,
    opcode 0 INS_INVALID ARG_NONE ARG_NONE ARG_NONE (cpu_K6 OR isa_3DNOW) '''' 0 0 0 0 0,
    opcode 0 INS_INVALID ARG_NONE ARG_NONE ARG_NONE (cpu_K6 OR isa_3DNOW) '''' 0 0 0 0 0,
    opcode 0 INS_INVALID ARG_NONE ARG_NONE ARG_NONE (cpu_K6 OR isa_3DNOW) '''' 0 0 0 0 0,
    opcode 0 INS_INVALID ARG_NONE ARG_NONE ARG_NONE (cpu_K6 OR isa_3DNOW) '''' 0 0 0 0 0,
    opcode 0 INS_INVALID ARG_NONE ARG_NONE ARG_NONE (cpu_K6 OR isa_3DNOW) '''' 0 0 0 0 0,
    opcode 0 INS_INVALID ARG_NONE ARG_NONE ARG_NONE (cpu_K6 OR isa_3DNOW) '''' 0 0 0 0 0,
    opcode 0 INS_INVALID ARG_NONE ARG_NONE ARG_NONE (cpu_K6 OR isa_3DNOW) '''' 0 0 0 0 0,
    opcode 0 INS_INVALID ARG_NONE ARG_NONE ARG_NONE (cpu_K6 OR isa_3DNOW) '''' 0 0 0 0 0,
    opcode 0 INS_INVALID ARG_NONE ARG_NONE ARG_NONE (cpu_K6 OR isa_3DNOW) '''' 0 0 0 0 0,
    opcode 0 INS_INVALID ARG_NONE ARG_NONE ARG_NONE (cpu_K6 OR isa_3DNOW) '''' 0 0 0 0 0,
    opcode 0 INS_INVALID ARG_NONE ARG_NONE ARG_NONE (cpu_K6 OR isa_3DNOW) '''' 0 0 0 0 0,
    opcode 0 INS_INVALID ARG_NONE ARG_NONE ARG_NONE (cpu_K6 OR isa_3DNOW) '''' 0 0 0 0 0,
    opcode 0 INS_CONV (ADDRMETH_P OR OPTYPE_pi OR OP_R OR OP_W) (ADDRMETH_Q OR OPTYPE_q OR OP_R) ARG_NONE (cpu_K6 OR isa_3DNOW) ''pi2fd'' 0 0 0 0 0,
    opcode 0 INS_INVALID ARG_NONE ARG_NONE ARG_NONE (cpu_K6 OR isa_3DNOW) '''' 0 0 0 0 0,
    opcode 0 INS_INVALID ARG_NONE ARG_NONE ARG_NONE (cpu_K6 OR isa_3DNOW) '''' 0 0 0 0 0,
    opcode 0 INS_INVALID ARG_NONE ARG_NONE ARG_NONE (cpu_K6 OR isa_3DNOW) '''' 0 0 0 0 0,
    opcode 0 INS_INVALID ARG_NONE ARG_NONE ARG_NONE (cpu_K6 OR isa_3DNOW) '''' 0 0 0 0 0,
    opcode 0 INS_INVALID ARG_NONE ARG_NONE ARG_NONE (cpu_K6 OR isa_3DNOW) '''' 0 0 0 0 0,
    opcode 0 INS_INVALID ARG_NONE ARG_NONE ARG_NONE (cpu_K6 OR isa_3DNOW) '''' 0 0 0 0 0,
    opcode 0 INS_INVALID ARG_NONE ARG_NONE ARG_NONE (cpu_K6 OR isa_3DNOW) '''' 0 0 0 0 0,
    opcode 0 INS_INVALID ARG_NONE ARG_NONE ARG_NONE (cpu_K6 OR isa_3DNOW) '''' 0 0 0 0 0,
    opcode 0 INS_INVALID ARG_NONE ARG_NONE ARG_NONE (cpu_K6 OR isa_3DNOW) '''' 0 0 0 0 0,
    opcode 0 INS_INVALID ARG_NONE ARG_NONE ARG_NONE (cpu_K6 OR isa_3DNOW) '''' 0 0 0 0 0,
    opcode 0 INS_INVALID ARG_NONE ARG_NONE ARG_NONE (cpu_K6 OR isa_3DNOW) '''' 0 0 0 0 0,
    opcode 0 INS_INVALID ARG_NONE ARG_NONE ARG_NONE (cpu_K6 OR isa_3DNOW) '''' 0 0 0 0 0,
    opcode 0 INS_INVALID ARG_NONE ARG_NONE ARG_NONE (cpu_K6 OR isa_3DNOW) '''' 0 0 0 0 0,
    opcode 0 INS_INVALID ARG_NONE ARG_NONE ARG_NONE (cpu_K6 OR isa_3DNOW) '''' 0 0 0 0 0,
    opcode 0 INS_INVALID ARG_NONE ARG_NONE ARG_NONE (cpu_K6 OR isa_3DNOW) '''' 0 0 0 0 0,
    opcode 0 INS_CONV (ADDRMETH_P OR OPTYPE_pi OR OP_R OR OP_W) (ADDRMETH_Q OR OPTYPE_q OR OP_R) ARG_NONE (cpu_K6 OR isa_3DNOW) ''pf2id'' 0 0 0 0 0,
    opcode 0 INS_INVALID ARG_NONE ARG_NONE ARG_NONE (cpu_K6 OR isa_3DNOW) '''' 0 0 0 0 0,
    opcode 0 INS_INVALID ARG_NONE ARG_NONE ARG_NONE (cpu_K6 OR isa_3DNOW) '''' 0 0 0 0 0,
    opcode 0 INS_INVALID ARG_NONE ARG_NONE ARG_NONE (cpu_K6 OR isa_3DNOW) '''' 0 0 0 0 0,
    opcode 0 INS_INVALID ARG_NONE ARG_NONE ARG_NONE (cpu_K6 OR isa_3DNOW) '''' 0 0 0 0 0,
    opcode 0 INS_INVALID ARG_NONE ARG_NONE ARG_NONE (cpu_K6 OR isa_3DNOW) '''' 0 0 0 0 0,
    opcode 0 INS_INVALID ARG_NONE ARG_NONE ARG_NONE (cpu_K6 OR isa_3DNOW) '''' 0 0 0 0 0,
    opcode 0 INS_INVALID ARG_NONE ARG_NONE ARG_NONE (cpu_K6 OR isa_3DNOW) '''' 0 0 0 0 0,
    opcode 0 INS_INVALID ARG_NONE ARG_NONE ARG_NONE (cpu_K6 OR isa_3DNOW) '''' 0 0 0 0 0,
    opcode 0 INS_INVALID ARG_NONE ARG_NONE ARG_NONE (cpu_K6 OR isa_3DNOW) '''' 0 0 0 0 0,
    opcode 0 INS_INVALID ARG_NONE ARG_NONE ARG_NONE (cpu_K6 OR isa_3DNOW) '''' 0 0 0 0 0,
    opcode 0 INS_INVALID ARG_NONE ARG_NONE ARG_NONE (cpu_K6 OR isa_3DNOW) '''' 0 0 0 0 0,
    opcode 0 INS_INVALID ARG_NONE ARG_NONE ARG_NONE (cpu_K6 OR isa_3DNOW) '''' 0 0 0 0 0,
    opcode 0 INS_INVALID ARG_NONE ARG_NONE ARG_NONE (cpu_K6 OR isa_3DNOW) '''' 0 0 0 0 0,
    opcode 0 INS_INVALID ARG_NONE ARG_NONE ARG_NONE (cpu_K6 OR isa_3DNOW) '''' 0 0 0 0 0,
    opcode 0 INS_INVALID ARG_NONE ARG_NONE ARG_NONE (cpu_K6 OR isa_3DNOW) '''' 0 0 0 0 0,
    opcode 0 INS_INVALID ARG_NONE ARG_NONE ARG_NONE (cpu_K6 OR isa_3DNOW) '''' 0 0 0 0 0,
    opcode 0 INS_INVALID ARG_NONE ARG_NONE ARG_NONE (cpu_K6 OR isa_3DNOW) '''' 0 0 0 0 0,
    opcode 0 INS_INVALID ARG_NONE ARG_NONE ARG_NONE (cpu_K6 OR isa_3DNOW) '''' 0 0 0 0 0,
    opcode 0 INS_INVALID ARG_NONE ARG_NONE ARG_NONE (cpu_K6 OR isa_3DNOW) '''' 0 0 0 0 0,
    opcode 0 INS_INVALID ARG_NONE ARG_NONE ARG_NONE (cpu_K6 OR isa_3DNOW) '''' 0 0 0 0 0,
    opcode 0 INS_INVALID ARG_NONE ARG_NONE ARG_NONE (cpu_K6 OR isa_3DNOW) '''' 0 0 0 0 0,
    opcode 0 INS_INVALID ARG_NONE ARG_NONE ARG_NONE (cpu_K6 OR isa_3DNOW) '''' 0 0 0 0 0,
    opcode 0 INS_INVALID ARG_NONE ARG_NONE ARG_NONE (cpu_K6 OR isa_3DNOW) '''' 0 0 0 0 0,
    opcode 0 INS_INVALID ARG_NONE ARG_NONE ARG_NONE (cpu_K6 OR isa_3DNOW) '''' 0 0 0 0 0,
    opcode 0 INS_INVALID ARG_NONE ARG_NONE ARG_NONE (cpu_K6 OR isa_3DNOW) '''' 0 0 0 0 0,
    opcode 0 INS_INVALID ARG_NONE ARG_NONE ARG_NONE (cpu_K6 OR isa_3DNOW) '''' 0 0 0 0 0,
    opcode 0 INS_INVALID ARG_NONE ARG_NONE ARG_NONE (cpu_K6 OR isa_3DNOW) '''' 0 0 0 0 0,
    opcode 0 INS_INVALID ARG_NONE ARG_NONE ARG_NONE (cpu_K6 OR isa_3DNOW) '''' 0 0 0 0 0,
    opcode 0 INS_INVALID ARG_NONE ARG_NONE ARG_NONE (cpu_K6 OR isa_3DNOW) '''' 0 0 0 0 0,
    opcode 0 INS_INVALID ARG_NONE ARG_NONE ARG_NONE (cpu_K6 OR isa_3DNOW) '''' 0 0 0 0 0,
    opcode 0 INS_INVALID ARG_NONE ARG_NONE ARG_NONE (cpu_K6 OR isa_3DNOW) '''' 0 0 0 0 0,
    opcode 0 INS_INVALID ARG_NONE ARG_NONE ARG_NONE (cpu_K6 OR isa_3DNOW) '''' 0 0 0 0 0,
    opcode 0 INS_INVALID ARG_NONE ARG_NONE ARG_NONE (cpu_K6 OR isa_3DNOW) '''' 0 0 0 0 0,
    opcode 0 INS_INVALID ARG_NONE ARG_NONE ARG_NONE (cpu_K6 OR isa_3DNOW) '''' 0 0 0 0 0]"

definition tbl_0F0F_40 :: "ia32_insn_t list" where
  "tbl_0F0F_40 = [
    opcode 0 INS_INVALID ARG_NONE ARG_NONE ARG_NONE (cpu_K6 OR isa_3DNOW) '''' 0 0 0 0 0,
    opcode 0 INS_INVALID ARG_NONE ARG_NONE ARG_NONE (cpu_K6 OR isa_3DNOW) '''' 0 0 0 0 0,
    opcode 0 INS_INVALID ARG_NONE ARG_NONE ARG_NONE (cpu_K6 OR isa_3DNOW) '''' 0 0 0 0 0,
    opcode 0 INS_INVALID ARG_NONE ARG_NONE ARG_NONE (cpu_K6 OR isa_3DNOW) '''' 0 0 0 0 0,
    opcode 0 INS_INVALID ARG_NONE ARG_NONE ARG_NONE (cpu_K6 OR isa_3DNOW) '''' 0 0 0 0 0,
    opcode 0 INS_INVALID ARG_NONE ARG_NONE ARG_NONE (cpu_K6 OR isa_3DNOW) '''' 0 0 0 0 0,
    opcode 0 INS_INVALID ARG_NONE ARG_NONE ARG_NONE (cpu_K6 OR isa_3DNOW) '''' 0 0 0 0 0,
    opcode 0 INS_INVALID ARG_NONE ARG_NONE ARG_NONE (cpu_K6 OR isa_3DNOW) '''' 0 0 0 0 0,
    opcode 0 INS_INVALID ARG_NONE ARG_NONE ARG_NONE (cpu_K6 OR isa_3DNOW) '''' 0 0 0 0 0,
    opcode 0 INS_INVALID ARG_NONE ARG_NONE ARG_NONE (cpu_K6 OR isa_3DNOW) '''' 0 0 0 0 0,
    opcode 0 INS_INVALID ARG_NONE ARG_NONE ARG_NONE (cpu_K6 OR isa_3DNOW) '''' 0 0 0 0 0,
    opcode 0 INS_INVALID ARG_NONE ARG_NONE ARG_NONE (cpu_K6 OR isa_3DNOW) '''' 0 0 0 0 0,
    opcode 0 INS_INVALID ARG_NONE ARG_NONE ARG_NONE (cpu_K6 OR isa_3DNOW) '''' 0 0 0 0 0,
    opcode 0 INS_INVALID ARG_NONE ARG_NONE ARG_NONE (cpu_K6 OR isa_3DNOW) '''' 0 0 0 0 0,
    opcode 0 INS_INVALID ARG_NONE ARG_NONE ARG_NONE (cpu_K6 OR isa_3DNOW) '''' 0 0 0 0 0,
    opcode 0 INS_INVALID ARG_NONE ARG_NONE ARG_NONE (cpu_K6 OR isa_3DNOW) '''' 0 0 0 0 0,
    opcode 0 INS_INVALID ARG_NONE ARG_NONE ARG_NONE (cpu_K6 OR isa_3DNOW) '''' 0 0 0 0 0,
    opcode 0 INS_INVALID ARG_NONE ARG_NONE ARG_NONE (cpu_K6 OR isa_3DNOW) '''' 0 0 0 0 0,
    opcode 0 INS_INVALID ARG_NONE ARG_NONE ARG_NONE (cpu_K6 OR isa_3DNOW) '''' 0 0 0 0 0,
    opcode 0 INS_INVALID ARG_NONE ARG_NONE ARG_NONE (cpu_K6 OR isa_3DNOW) '''' 0 0 0 0 0,
    opcode 0 INS_INVALID ARG_NONE ARG_NONE ARG_NONE (cpu_K6 OR isa_3DNOW) '''' 0 0 0 0 0,
    opcode 0 INS_INVALID ARG_NONE ARG_NONE ARG_NONE (cpu_K6 OR isa_3DNOW) '''' 0 0 0 0 0,
    opcode 0 INS_INVALID ARG_NONE ARG_NONE ARG_NONE (cpu_K6 OR isa_3DNOW) '''' 0 0 0 0 0,
    opcode 0 INS_INVALID ARG_NONE ARG_NONE ARG_NONE (cpu_K6 OR isa_3DNOW) '''' 0 0 0 0 0,
    opcode 0 INS_INVALID ARG_NONE ARG_NONE ARG_NONE (cpu_K6 OR isa_3DNOW) '''' 0 0 0 0 0,
    opcode 0 INS_INVALID ARG_NONE ARG_NONE ARG_NONE (cpu_K6 OR isa_3DNOW) '''' 0 0 0 0 0,
    opcode 0 INS_INVALID ARG_NONE ARG_NONE ARG_NONE (cpu_K6 OR isa_3DNOW) '''' 0 0 0 0 0,
    opcode 0 INS_INVALID ARG_NONE ARG_NONE ARG_NONE (cpu_K6 OR isa_3DNOW) '''' 0 0 0 0 0,
    opcode 0 INS_INVALID ARG_NONE ARG_NONE ARG_NONE (cpu_K6 OR isa_3DNOW) '''' 0 0 0 0 0,
    opcode 0 INS_INVALID ARG_NONE ARG_NONE ARG_NONE (cpu_K6 OR isa_3DNOW) '''' 0 0 0 0 0,
    opcode 0 INS_INVALID ARG_NONE ARG_NONE ARG_NONE (cpu_K6 OR isa_3DNOW) '''' 0 0 0 0 0,
    opcode 0 INS_INVALID ARG_NONE ARG_NONE ARG_NONE (cpu_K6 OR isa_3DNOW) '''' 0 0 0 0 0,
    opcode 0 INS_INVALID ARG_NONE ARG_NONE ARG_NONE (cpu_K6 OR isa_3DNOW) '''' 0 0 0 0 0,
    opcode 0 INS_INVALID ARG_NONE ARG_NONE ARG_NONE (cpu_K6 OR isa_3DNOW) '''' 0 0 0 0 0,
    opcode 0 INS_INVALID ARG_NONE ARG_NONE ARG_NONE (cpu_K6 OR isa_3DNOW) '''' 0 0 0 0 0,
    opcode 0 INS_INVALID ARG_NONE ARG_NONE ARG_NONE (cpu_K6 OR isa_3DNOW) '''' 0 0 0 0 0,
    opcode 0 INS_INVALID ARG_NONE ARG_NONE ARG_NONE (cpu_K6 OR isa_3DNOW) '''' 0 0 0 0 0,
    opcode 0 INS_INVALID ARG_NONE ARG_NONE ARG_NONE (cpu_K6 OR isa_3DNOW) '''' 0 0 0 0 0,
    opcode 0 INS_INVALID ARG_NONE ARG_NONE ARG_NONE (cpu_K6 OR isa_3DNOW) '''' 0 0 0 0 0,
    opcode 0 INS_INVALID ARG_NONE ARG_NONE ARG_NONE (cpu_K6 OR isa_3DNOW) '''' 0 0 0 0 0,
    opcode 0 INS_INVALID ARG_NONE ARG_NONE ARG_NONE (cpu_K6 OR isa_3DNOW) '''' 0 0 0 0 0,
    opcode 0 INS_INVALID ARG_NONE ARG_NONE ARG_NONE (cpu_K6 OR isa_3DNOW) '''' 0 0 0 0 0,
    opcode 0 INS_INVALID ARG_NONE ARG_NONE ARG_NONE (cpu_K6 OR isa_3DNOW) '''' 0 0 0 0 0,
    opcode 0 INS_INVALID ARG_NONE ARG_NONE ARG_NONE (cpu_K6 OR isa_3DNOW) '''' 0 0 0 0 0,
    opcode 0 INS_INVALID ARG_NONE ARG_NONE ARG_NONE (cpu_K6 OR isa_3DNOW) '''' 0 0 0 0 0,
    opcode 0 INS_INVALID ARG_NONE ARG_NONE ARG_NONE (cpu_K6 OR isa_3DNOW) '''' 0 0 0 0 0,
    opcode 0 INS_INVALID ARG_NONE ARG_NONE ARG_NONE (cpu_K6 OR isa_3DNOW) '''' 0 0 0 0 0,
    opcode 0 INS_INVALID ARG_NONE ARG_NONE ARG_NONE (cpu_K6 OR isa_3DNOW) '''' 0 0 0 0 0,
    opcode 0 INS_INVALID ARG_NONE ARG_NONE ARG_NONE (cpu_K6 OR isa_3DNOW) '''' 0 0 0 0 0,
    opcode 0 INS_INVALID ARG_NONE ARG_NONE ARG_NONE (cpu_K6 OR isa_3DNOW) '''' 0 0 0 0 0,
    opcode 0 INS_INVALID ARG_NONE ARG_NONE ARG_NONE (cpu_K6 OR isa_3DNOW) '''' 0 0 0 0 0,
    opcode 0 INS_INVALID ARG_NONE ARG_NONE ARG_NONE (cpu_K6 OR isa_3DNOW) '''' 0 0 0 0 0,
    opcode 0 INS_INVALID ARG_NONE ARG_NONE ARG_NONE (cpu_K6 OR isa_3DNOW) '''' 0 0 0 0 0,
    opcode 0 INS_INVALID ARG_NONE ARG_NONE ARG_NONE (cpu_K6 OR isa_3DNOW) '''' 0 0 0 0 0,
    opcode 0 INS_INVALID ARG_NONE ARG_NONE ARG_NONE (cpu_K6 OR isa_3DNOW) '''' 0 0 0 0 0,
    opcode 0 INS_INVALID ARG_NONE ARG_NONE ARG_NONE (cpu_K6 OR isa_3DNOW) '''' 0 0 0 0 0,
    opcode 0 INS_INVALID ARG_NONE ARG_NONE ARG_NONE (cpu_K6 OR isa_3DNOW) '''' 0 0 0 0 0,
    opcode 0 INS_INVALID ARG_NONE ARG_NONE ARG_NONE (cpu_K6 OR isa_3DNOW) '''' 0 0 0 0 0,
    opcode 0 INS_INVALID ARG_NONE ARG_NONE ARG_NONE (cpu_K6 OR isa_3DNOW) '''' 0 0 0 0 0,
    opcode 0 INS_INVALID ARG_NONE ARG_NONE ARG_NONE (cpu_K6 OR isa_3DNOW) '''' 0 0 0 0 0,
    opcode 0 INS_INVALID ARG_NONE ARG_NONE ARG_NONE (cpu_K6 OR isa_3DNOW) '''' 0 0 0 0 0,
    opcode 0 INS_INVALID ARG_NONE ARG_NONE ARG_NONE (cpu_K6 OR isa_3DNOW) '''' 0 0 0 0 0,
    opcode 0 INS_INVALID ARG_NONE ARG_NONE ARG_NONE (cpu_K6 OR isa_3DNOW) '''' 0 0 0 0 0,
    opcode 0 INS_INVALID ARG_NONE ARG_NONE ARG_NONE (cpu_K6 OR isa_3DNOW) '''' 0 0 0 0 0]"

definition tbl_0F0F_80 :: "ia32_insn_t list" where
  "tbl_0F0F_80 = [
    opcode 0 INS_INVALID ARG_NONE ARG_NONE ARG_NONE (cpu_K6 OR isa_3DNOW) '''' 0 0 0 0 0,
    opcode 0 INS_INVALID ARG_NONE ARG_NONE ARG_NONE (cpu_K6 OR isa_3DNOW) '''' 0 0 0 0 0,
    opcode 0 INS_INVALID ARG_NONE ARG_NONE ARG_NONE (cpu_K6 OR isa_3DNOW) '''' 0 0 0 0 0,
    opcode 0 INS_INVALID ARG_NONE ARG_NONE ARG_NONE (cpu_K6 OR isa_3DNOW) '''' 0 0 0 0 0,
    opcode 0 INS_INVALID ARG_NONE ARG_NONE ARG_NONE (cpu_K6 OR isa_3DNOW) '''' 0 0 0 0 0,
    opcode 0 INS_INVALID ARG_NONE ARG_NONE ARG_NONE (cpu_K6 OR isa_3DNOW) '''' 0 0 0 0 0,
    opcode 0 INS_INVALID ARG_NONE ARG_NONE ARG_NONE (cpu_K6 OR isa_3DNOW) '''' 0 0 0 0 0,
    opcode 0 INS_INVALID ARG_NONE ARG_NONE ARG_NONE (cpu_K6 OR isa_3DNOW) '''' 0 0 0 0 0,
    opcode 0 INS_INVALID ARG_NONE ARG_NONE ARG_NONE (cpu_K6 OR isa_3DNOW) '''' 0 0 0 0 0,
    opcode 0 INS_INVALID ARG_NONE ARG_NONE ARG_NONE (cpu_K6 OR isa_3DNOW) '''' 0 0 0 0 0,
    opcode 0 INS_INVALID ARG_NONE ARG_NONE ARG_NONE (cpu_K6 OR isa_3DNOW) '''' 0 0 0 0 0,
    opcode 0 INS_INVALID ARG_NONE ARG_NONE ARG_NONE (cpu_K6 OR isa_3DNOW) '''' 0 0 0 0 0,
    opcode 0 INS_INVALID ARG_NONE ARG_NONE ARG_NONE (cpu_K6 OR isa_3DNOW) '''' 0 0 0 0 0,
    opcode 0 INS_INVALID ARG_NONE ARG_NONE ARG_NONE (cpu_K6 OR isa_3DNOW) '''' 0 0 0 0 0,
    opcode 0 INS_INVALID ARG_NONE ARG_NONE ARG_NONE (cpu_K6 OR isa_3DNOW) '''' 0 0 0 0 0,
    opcode 0 INS_INVALID ARG_NONE ARG_NONE ARG_NONE (cpu_K6 OR isa_3DNOW) '''' 0 0 0 0 0,
    opcode 0 INS_CMP (ADDRMETH_P OR OPTYPE_pi OR OP_R OR OP_W) (ADDRMETH_Q OR OPTYPE_q OR OP_R) ARG_NONE (cpu_K6 OR isa_3DNOW) ''pfcmpge'' 0 0 0 0 0,
    opcode 0 INS_INVALID ARG_NONE ARG_NONE ARG_NONE (cpu_K6 OR isa_3DNOW) '''' 0 0 0 0 0,
    opcode 0 INS_INVALID ARG_NONE ARG_NONE ARG_NONE (cpu_K6 OR isa_3DNOW) '''' 0 0 0 0 0,
    opcode 0 INS_INVALID ARG_NONE ARG_NONE ARG_NONE (cpu_K6 OR isa_3DNOW) '''' 0 0 0 0 0,
    opcode 0 INS_MIN (ADDRMETH_P OR OPTYPE_pi OR OP_R OR OP_W) (ADDRMETH_Q OR OPTYPE_q OR OP_R) ARG_NONE (cpu_K6 OR isa_3DNOW) ''pfmin'' 0 0 0 0 0,
    opcode 0 INS_INVALID ARG_NONE ARG_NONE ARG_NONE (cpu_K6 OR isa_3DNOW) '''' 0 0 0 0 0,
    opcode 0 INS_ARITH (ADDRMETH_P OR OPTYPE_pi OR OP_R OR OP_W) (ADDRMETH_Q OR OPTYPE_q OR OP_R) ARG_NONE (cpu_K6 OR isa_3DNOW) ''pfrcp'' 0 0 0 0 0,
    opcode 0 INS_ARITH (ADDRMETH_P OR OPTYPE_pi OR OP_R OR OP_W) (ADDRMETH_Q OR OPTYPE_q OR OP_R) ARG_NONE (cpu_K6 OR isa_3DNOW) ''pfrsqrt'' 0 0 0 0 0,
    opcode 0 INS_INVALID ARG_NONE ARG_NONE ARG_NONE (cpu_K6 OR isa_3DNOW) '''' 0 0 0 0 0,
    opcode 0 INS_INVALID ARG_NONE ARG_NONE ARG_NONE (cpu_K6 OR isa_3DNOW) '''' 0 0 0 0 0,
    opcode 0 INS_SUB (ADDRMETH_P OR OPTYPE_pi OR OP_R OR OP_W) (ADDRMETH_Q OR OPTYPE_q OR OP_R) ARG_NONE (cpu_K6 OR isa_3DNOW) ''pfsub'' 0 0 0 0 0,
    opcode 0 INS_INVALID ARG_NONE ARG_NONE ARG_NONE (cpu_K6 OR isa_3DNOW) '''' 0 0 0 0 0,
    opcode 0 INS_INVALID ARG_NONE ARG_NONE ARG_NONE (cpu_K6 OR isa_3DNOW) '''' 0 0 0 0 0,
    opcode 0 INS_INVALID ARG_NONE ARG_NONE ARG_NONE (cpu_K6 OR isa_3DNOW) '''' 0 0 0 0 0,
    opcode 0 INS_ADD (ADDRMETH_P OR OPTYPE_pi OR OP_R OR OP_W) (ADDRMETH_Q OR OPTYPE_q OR OP_R) ARG_NONE (cpu_K6 OR isa_3DNOW) ''pfadd'' 0 0 0 0 0,
    opcode 0 INS_INVALID ARG_NONE ARG_NONE ARG_NONE (cpu_K6 OR isa_3DNOW) '''' 0 0 0 0 0,
    opcode 0 INS_CMP (ADDRMETH_P OR OPTYPE_pi OR OP_R OR OP_W) (ADDRMETH_Q OR OPTYPE_q OR OP_R) ARG_NONE (cpu_K6 OR isa_3DNOW) ''pfcmpgt'' 0 0 0 0 0,
    opcode 0 INS_INVALID ARG_NONE ARG_NONE ARG_NONE (cpu_K6 OR isa_3DNOW) '''' 0 0 0 0 0,
    opcode 0 INS_INVALID ARG_NONE ARG_NONE ARG_NONE (cpu_K6 OR isa_3DNOW) '''' 0 0 0 0 0,
    opcode 0 INS_INVALID ARG_NONE ARG_NONE ARG_NONE (cpu_K6 OR isa_3DNOW) '''' 0 0 0 0 0,
    opcode 0 INS_MAX (ADDRMETH_P OR OPTYPE_pi OR OP_R OR OP_W) (ADDRMETH_Q OR OPTYPE_q OR OP_R) ARG_NONE (cpu_K6 OR isa_3DNOW) ''pfmax'' 0 0 0 0 0,
    opcode 0 INS_INVALID ARG_NONE ARG_NONE ARG_NONE (cpu_K6 OR isa_3DNOW) '''' 0 0 0 0 0,
    opcode 0 INS_ARITH (ADDRMETH_P OR OPTYPE_pi OR OP_R OR OP_W) (ADDRMETH_Q OR OPTYPE_q OR OP_R) ARG_NONE (cpu_K6 OR isa_3DNOW) ''pfrcpit1'' 0 0 0 0 0,
    opcode 0 INS_ARITH (ADDRMETH_P OR OPTYPE_pi OR OP_R OR OP_W) (ADDRMETH_Q OR OPTYPE_q OR OP_R) ARG_NONE (cpu_K6 OR isa_3DNOW) ''pfrsqit1'' 0 0 0 0 0,
    opcode 0 INS_INVALID ARG_NONE ARG_NONE ARG_NONE (cpu_K6 OR isa_3DNOW) '''' 0 0 0 0 0,
    opcode 0 INS_INVALID ARG_NONE ARG_NONE ARG_NONE (cpu_K6 OR isa_3DNOW) '''' 0 0 0 0 0,
    opcode 0 INS_SUB (ADDRMETH_P OR OPTYPE_pi OR OP_R OR OP_W) (ADDRMETH_Q OR OPTYPE_q OR OP_R) ARG_NONE (cpu_K6 OR isa_3DNOW) ''pfsubr'' 0 0 0 0 0,
    opcode 0 INS_INVALID ARG_NONE ARG_NONE ARG_NONE (cpu_K6 OR isa_3DNOW) '''' 0 0 0 0 0,
    opcode 0 INS_INVALID ARG_NONE ARG_NONE ARG_NONE (cpu_K6 OR isa_3DNOW) '''' 0 0 0 0 0,
    opcode 0 INS_INVALID ARG_NONE ARG_NONE ARG_NONE (cpu_K6 OR isa_3DNOW) '''' 0 0 0 0 0,
    opcode 0 INS_ADD (ADDRMETH_P OR OPTYPE_pi OR OP_R OR OP_W) (ADDRMETH_Q OR OPTYPE_q OR OP_R) ARG_NONE (cpu_K6 OR isa_3DNOW) ''pfacc'' 0 0 0 0 0,
    opcode 0 INS_INVALID ARG_NONE ARG_NONE ARG_NONE (cpu_K6 OR isa_3DNOW) '''' 0 0 0 0 0,
    opcode 0 INS_CMP (ADDRMETH_P OR OPTYPE_pi OR OP_R OR OP_W) (ADDRMETH_Q OR OPTYPE_q OR OP_R) ARG_NONE (cpu_K6 OR isa_3DNOW) ''pfcmpeq'' 0 0 0 0 0,
    opcode 0 INS_INVALID ARG_NONE ARG_NONE ARG_NONE (cpu_K6 OR isa_3DNOW) '''' 0 0 0 0 0,
    opcode 0 INS_INVALID ARG_NONE ARG_NONE ARG_NONE (cpu_K6 OR isa_3DNOW) '''' 0 0 0 0 0,
    opcode 0 INS_INVALID ARG_NONE ARG_NONE ARG_NONE (cpu_K6 OR isa_3DNOW) '''' 0 0 0 0 0,
    opcode 0 INS_MUL (ADDRMETH_P OR OPTYPE_pi OR OP_R OR OP_W) (ADDRMETH_Q OR OPTYPE_q OR OP_R) ARG_NONE (cpu_K6 OR isa_3DNOW) ''pfmul'' 0 0 0 0 0,
    opcode 0 INS_INVALID ARG_NONE ARG_NONE ARG_NONE (cpu_K6 OR isa_3DNOW) '''' 0 0 0 0 0,
    opcode 0 INS_ARITH (ADDRMETH_P OR OPTYPE_pi OR OP_R OR OP_W) (ADDRMETH_Q OR OPTYPE_q OR OP_R) ARG_NONE (cpu_K6 OR isa_3DNOW) ''pfrcpit2'' 0 0 0 0 0,
    opcode 0 INS_MUL (ADDRMETH_P OR OPTYPE_pi OR OP_R OR OP_W) (ADDRMETH_Q OR OPTYPE_q OR OP_R) ARG_NONE (cpu_K6 OR isa_3DNOW) ''pmulhrw'' 0 0 0 0 0,
    opcode 0 INS_INVALID ARG_NONE ARG_NONE ARG_NONE (cpu_K6 OR isa_3DNOW) '''' 0 0 0 0 0,
    opcode 0 INS_INVALID ARG_NONE ARG_NONE ARG_NONE (cpu_K6 OR isa_3DNOW) '''' 0 0 0 0 0,
    opcode 0 INS_INVALID ARG_NONE ARG_NONE ARG_NONE (cpu_K6 OR isa_3DNOW) '''' 0 0 0 0 0,
    opcode 0 INS_INVALID ARG_NONE ARG_NONE ARG_NONE (cpu_K6 OR isa_3DNOW) '''' 0 0 0 0 0,
    opcode 0 INS_INVALID ARG_NONE ARG_NONE ARG_NONE (cpu_K6 OR isa_3DNOW) '''' 0 0 0 0 0,
    opcode 0 INS_INVALID ARG_NONE ARG_NONE ARG_NONE (cpu_K6 OR isa_3DNOW) '''' 0 0 0 0 0,
    opcode 0 INS_INVALID ARG_NONE ARG_NONE ARG_NONE (cpu_K6 OR isa_3DNOW) '''' 0 0 0 0 0,
    opcode 0 INS_AVG (ADDRMETH_P OR OPTYPE_pi OR OP_R OR OP_W) (ADDRMETH_Q OR OPTYPE_q OR OP_R) ARG_NONE (cpu_K6 OR isa_3DNOW) ''pavgusb'' 0 0 0 0 0]"

definition tbl_0F0F :: "ia32_insn_t list" where
  "tbl_0F0F = tbl_0F0F_00 @ tbl_0F0F_40 @ tbl_0F0F_80"

section \<open>The table of tables\<close>

definition table_desc :: "ia32_insn_t list \<Rightarrow> ia32_tbl_type_id \<Rightarrow> nat \<Rightarrow> u8 \<Rightarrow> u8 \<Rightarrow> u8 \<Rightarrow> ia32_table_desc_t" where
  "table_desc tb ty sh m lo hi = \<lparr>t_table = tb, t_type = ty, t_shift = sh, t_mask = m, t_minlim = lo, t_maxlim = hi\<rparr>"

definition ia32_tables :: "ia32_table_desc_t list" where
  "ia32_tables =
    [table_desc tbl_Main tbl_opcode 0 0xFF 0x00 0xFF,
     table_desc tbl_66 tbl_prefix 0 0xFF 0x0F 0x0F,
     table_desc tbl_F2 tbl_prefix 0 0xFF 0x0F 0x0F,
     table_desc tbl_F3 tbl_prefix 0 0xFF 0x0F 0x90,
     table_desc tbl_0F tbl_opcode 0 0xFF 0x00 0xFF,
     table_desc tbl_660F tbl_prefix 0 0xFF 0x10 0xFF,
     table_desc tbl_F20F tbl_prefix 0 0xFF 0x10 0xFF,
     table_desc tbl_F30F tbl_prefix 0 0xFF 0x10 0xFF,
     table_desc tbl_0F00 tbl_extension 3 0x07 0x00 0x07,
     table_desc tbl_0F01 tbl_extension 3 0x1F 0x00 0x1F,
     table_desc tbl_0F0111 tbl_ext_ext 0 0x01 0x00 0x01,
     table_desc tbl_0F12 tbl_extension 6 0x03 0x00 0x03,
     table_desc tbl_0F16 tbl_extension 6 0x03 0x00 0x03,
     table_desc tbl_0F18 tbl_extension 3 0x1F 0x00 0x13,
     table_desc tbl_0F71 tbl_extension 3 0x1F 0x00 0x1F,
     table_desc tbl_660F71 tbl_extension 3 0x1F 0x00 0x1F,
     table_desc tbl_0F72 tbl_extension 3 0x1F 0x00 0x1F,
     table_desc tbl_660F72 tbl_extension 3 0x1F 0x00 0x1F,
     table_desc tbl_0F73 tbl_extension 0 0x00 0x00 0x00,
     table_desc tbl_660F73 tbl_extension 3 0x1F 0x00 0x1F,
     table_desc tbl_0FAE tbl_extension 3 0x1F 0x00 0x1F,
     table_desc tbl_0FBA tbl_extension 3 0x07 0x04 0x07,
     table_desc tbl_0FC7 tbl_extension 3 0x1F 0x00 0x11,
     table_desc tbl_0FB9 tbl_extension 3 0x07 0x00 0x00,
     table_desc tbl_C6 tbl_extension 3 0x07 0x00 0x00,
     table_desc tbl_C7 tbl_extension 3 0x07 0x00 0x00,
     table_desc tbl_80 tbl_extension 3 0x07 0x00 0x07,
     table_desc tbl_81 tbl_extension 3 0x07 0x00 0x07,
     table_desc tbl_82 tbl_extension 3 0x07 0x00 0x07,
     table_desc tbl_83 tbl_extension 3 0x07 0x00 0x07,
     table_desc tbl_C0 tbl_extension 3 0x07 0x00 0x07,
     table_desc tbl_C1 tbl_extension 3 0x07 0x00 0x07,
     table_desc tbl_D0 tbl_extension 3 0x07 0x00 0x07,
     table_desc tbl_D1 tbl_extension 3 0x07 0x00 0x07,
     table_desc tbl_D2 tbl_extension 3 0x07 0x00 0x07,
     table_desc tbl_D3 tbl_extension 3 0x07 0x00 0x07,
     table_desc tbl_F6 tbl_extension 3 0x07 0x00 0x07,
     table_desc tbl_F7 tbl_extension 3 0x07 0x00 0x07,
     table_desc tbl_FE tbl_extension 3 0x07 0x00 0x01,
     table_desc tbl_FF tbl_extension 3 0x07 0x00 0x06,
     table_desc tbl_D8 tbl_fpu 3 0x07 0x00 0xB0,
     table_desc tbl_D8C0 tbl_fpu_ext 0 0xFF 0xC0 0xFF,
     table_desc tbl_D9 tbl_fpu 3 0x07 0x00 0xB0,
     table_desc tbl_D9C0 tbl_fpu_ext 0 0xFF 0xC0 0xFF,
     table_desc tbl_DA tbl_fpu 3 0x07 0x00 0xB0,
     table_desc tbl_DAC0 tbl_fpu_ext 0 0xFF 0xC0 0xFF,
     table_desc tbl_DB tbl_fpu 3 0x07 0x00 0xB0,
     table_desc tbl_DBC0 tbl_fpu_ext 0 0xFF 0xC0 0xFF,
     table_desc tbl_DC tbl_fpu 3 0x07 0x00 0xB0,
     table_desc tbl_DCC0 tbl_fpu_ext 0 0xFF 0xC0 0xFF,
     table_desc tbl_DD tbl_fpu 3 0x07 0x00 0xB0,
     table_desc tbl_DDC0 tbl_fpu_ext 0 0xFF 0xC0 0xFF,
     table_desc tbl_DE tbl_fpu 3 0x07 0x00 0xB0,
     table_desc tbl_DEC0 tbl_fpu_ext 0 0xFF 0xC0 0xFF,
     table_desc tbl_DF tbl_fpu 3 0x07 0x00 0xB0,
     table_desc tbl_DFC0 tbl_fpu_ext 0 0xFF 0xC0 0xFF,
     table_desc tbl_0F0F tbl_suffix 0 0xFF 0x00 0xBF]"

end
