(* ===== verification/Ia32Reg.thy ===== *)
theory Ia32Reg
  imports Libdis
begin

text \<open>
  The register table of libdisasm, \<^verbatim>\<open>ia32_reg.c\<close> and \<^verbatim>\<open>ia32_reg.h\<close>: size, use and name of every register
  of the processor, and for the registers that are a part of another one, which one and how far it is
  shifted. The constants \<open>rt_\<dots>\<close> are the values of \<open>enum x86_reg_type\<close>.
\<close>

section \<open>Model\<close>

definition rt_gen :: u32 where "rt_gen = 0x1"
definition rt_in :: u32 where "rt_in = 0x2"
definition rt_out :: u32 where "rt_out = 0x4"
definition rt_local :: u32 where "rt_local = 0x8"
definition rt_fpu :: u32 where "rt_fpu = 0x10"
definition rt_seg :: u32 where "rt_seg = 0x20"
definition rt_simd :: u32 where "rt_simd = 0x40"
definition rt_sys :: u32 where "rt_sys = 0x80"
definition rt_sp :: u32 where "rt_sp = 0x100"
definition rt_fp :: u32 where "rt_fp = 0x200"
definition rt_pc :: u32 where "rt_pc = 0x400"
definition rt_retaddr :: u32 where "rt_retaddr = 0x800"
definition rt_cond :: u32 where "rt_cond = 0x1000"
definition rt_zero :: u32 where "rt_zero = 0x2000"
definition rt_ret :: u32 where "rt_ret = 0x4000"
definition rt_src :: u32 where "rt_src = 0x10000"
definition rt_dest :: u32 where "rt_dest = 0x20000"
definition rt_count :: u32 where "rt_count = 0x40000"

definition REG_DWORD_OFFSET :: nat where "REG_DWORD_OFFSET = 1"
definition REG_ECX_INDEX :: nat where "REG_ECX_INDEX = 2"
definition REG_ESP_INDEX :: nat where "REG_ESP_INDEX = 5"
definition REG_EBP_INDEX :: nat where "REG_EBP_INDEX = 6"
definition REG_ESI_INDEX :: nat where "REG_ESI_INDEX = 7"
definition REG_EDI_INDEX :: nat where "REG_EDI_INDEX = 8"
definition REG_WORD_OFFSET :: nat where "REG_WORD_OFFSET = 9"
definition REG_BYTE_OFFSET :: nat where "REG_BYTE_OFFSET = 17"
definition REG_MMX_OFFSET :: nat where "REG_MMX_OFFSET = 25"
definition REG_SIMD_OFFSET :: nat where "REG_SIMD_OFFSET = 33"
definition REG_DEBUG_OFFSET :: nat where "REG_DEBUG_OFFSET = 41"
definition REG_CTRL_OFFSET :: nat where "REG_CTRL_OFFSET = 49"
definition REG_TEST_OFFSET :: nat where "REG_TEST_OFFSET = 57"
definition REG_SEG_OFFSET :: nat where "REG_SEG_OFFSET = 65"
definition REG_LDTR_INDEX :: nat where "REG_LDTR_INDEX = 71"
definition REG_GDTR_INDEX :: nat where "REG_GDTR_INDEX = 72"
definition REG_FPU_OFFSET :: nat where "REG_FPU_OFFSET = 73"
definition REG_FLAGS_INDEX :: nat where "REG_FLAGS_INDEX = 81"
definition REG_FPCTRL_INDEX :: nat where "REG_FPCTRL_INDEX = 82"
definition REG_FPSTATUS_INDEX :: nat where "REG_FPSTATUS_INDEX = 83"
definition REG_FPTAG_INDEX :: nat where "REG_FPTAG_INDEX = 84"
definition REG_EIP_INDEX :: nat where "REG_EIP_INDEX = 85"
definition REG_IP_INDEX :: nat where "REG_IP_INDEX = 86"
definition REG_IDTR_INDEX :: nat where "REG_IDTR_INDEX = 87"
definition REG_MXCSG_INDEX :: nat where "REG_MXCSG_INDEX = 88"
definition REG_TR_INDEX :: nat where "REG_TR_INDEX = 89"
definition REG_CSMSR_INDEX :: nat where "REG_CSMSR_INDEX = 90"
definition REG_ESPMSR_INDEX :: nat where "REG_ESPMSR_INDEX = 91"
definition REG_EIPMSR_INDEX :: nat where "REG_EIPMSR_INDEX = 92"

definition REG_DWORD_SIZE :: u32 where "REG_DWORD_SIZE = 4"
definition REG_WORD_SIZE :: u32 where "REG_WORD_SIZE = 2"
definition REG_BYTE_SIZE :: u32 where "REG_BYTE_SIZE = 1"
definition REG_MMX_SIZE :: u32 where "REG_MMX_SIZE = 8"
definition REG_SIMD_SIZE :: u32 where "REG_SIMD_SIZE = 16"
definition REG_DEBUG_SIZE :: u32 where "REG_DEBUG_SIZE = 4"
definition REG_CTRL_SIZE :: u32 where "REG_CTRL_SIZE = 4"
definition REG_TEST_SIZE :: u32 where "REG_TEST_SIZE = 4"
definition REG_SEG_SIZE :: u32 where "REG_SEG_SIZE = 2"
definition REG_FPU_SIZE :: u32 where "REG_FPU_SIZE = 10"
definition REG_FLAGS_SIZE :: u32 where "REG_FLAGS_SIZE = 4"
definition REG_FPCTRL_SIZE :: u32 where "REG_FPCTRL_SIZE = 2"
definition REG_FPSTATUS_SIZE :: u32 where "REG_FPSTATUS_SIZE = 2"
definition REG_FPTAG_SIZE :: u32 where "REG_FPTAG_SIZE = 2"
definition REG_EIP_SIZE :: u32 where "REG_EIP_SIZE = 4"
definition REG_IP_SIZE :: u32 where "REG_IP_SIZE = 2"

text \<open>Identifier of the aliased register and the number of bits it is shifted by.\<close>

definition ia32_reg_aliases :: "(nat \<times> u32) list" where
  "ia32_reg_aliases =
    [(0, 0), (REG_DWORD_OFFSET, 0), (REG_DWORD_OFFSET, 8), (REG_DWORD_OFFSET, 0),
     (REG_DWORD_OFFSET + 1, 0), (REG_DWORD_OFFSET + 1, 8), (REG_DWORD_OFFSET + 1, 0), (REG_DWORD_OFFSET + 2, 0),
     (REG_DWORD_OFFSET + 2, 8), (REG_DWORD_OFFSET + 2, 0), (REG_DWORD_OFFSET + 3, 0), (REG_DWORD_OFFSET + 3, 8),
     (REG_DWORD_OFFSET + 3, 0), (REG_DWORD_OFFSET + 4, 0), (REG_DWORD_OFFSET + 5, 0), (REG_DWORD_OFFSET + 6, 0),
     (REG_DWORD_OFFSET + 7, 0), (REG_EIP_INDEX, 0), (REG_FPU_OFFSET, 0), (REG_FPU_OFFSET + 1, 0),
     (REG_FPU_OFFSET + 2, 0), (REG_FPU_OFFSET + 3, 0), (REG_FPU_OFFSET + 4, 0), (REG_FPU_OFFSET + 5, 0),
     (REG_FPU_OFFSET + 6, 0), (REG_FPU_OFFSET + 7, 0)]"

record reg_row =
  row_size :: u32
  row_type :: u32
  row_alias :: nat
  row_mnemonic :: string

definition row :: "u32 \<Rightarrow> u32 \<Rightarrow> nat \<Rightarrow> string \<Rightarrow> reg_row" where
  "row sz ty al nm = \<lparr>row_size = sz, row_type = ty, row_alias = al, row_mnemonic = nm\<rparr>"

definition ia32_reg_table :: "reg_row list" where
  "ia32_reg_table =
    [row 0 0 0 '''',
     row REG_DWORD_SIZE (rt_gen OR rt_ret) 0 ''eax'',
     row REG_DWORD_SIZE (rt_gen OR rt_count) 0 ''ecx'',
     row REG_DWORD_SIZE rt_gen 0 ''edx'',
     row REG_DWORD_SIZE rt_gen 0 ''ebx'',
     row REG_DWORD_SIZE (rt_gen OR rt_sp) 0 ''esp'',
     row REG_DWORD_SIZE (rt_gen OR rt_fp) 0 ''ebp'',
     row REG_DWORD_SIZE (rt_gen OR rt_src) 0 ''esi'',
     row REG_DWORD_SIZE (rt_gen OR rt_dest) 0 ''edi'',
     row REG_WORD_SIZE (rt_gen OR rt_ret) 3 ''ax'',
     row REG_WORD_SIZE (rt_gen OR rt_count) 6 ''cx'',
     row REG_WORD_SIZE rt_gen 9 ''dx'',
     row REG_WORD_SIZE rt_gen 12 ''bx'',
     row REG_WORD_SIZE (rt_gen OR rt_sp) 13 ''sp'',
     row REG_WORD_SIZE (rt_gen OR rt_fp) 14 ''bp'',
     row REG_WORD_SIZE (rt_gen OR rt_src) 15 ''si'',
     row REG_WORD_SIZE (rt_gen OR rt_dest) 16 ''di'',
     row REG_BYTE_SIZE rt_gen 1 ''al'',
     row REG_BYTE_SIZE rt_gen 4 ''cl'',
     row REG_BYTE_SIZE rt_gen 7 ''dl'',
     row REG_BYTE_SIZE rt_gen 10 ''bl'',
     row REG_BYTE_SIZE rt_gen 2 ''ah'',
     row REG_BYTE_SIZE rt_gen 5 ''ch'',
     row REG_BYTE_SIZE rt_gen 8 ''dh'',
     row REG_BYTE_SIZE rt_gen 11 ''bh'',
     row REG_MMX_SIZE rt_simd 18 ''mm0'',
     row REG_MMX_SIZE rt_simd 19 ''mm1'',
     row REG_MMX_SIZE rt_simd 20 ''mm2'',
     row REG_MMX_SIZE rt_simd 21 ''mm3'',
     row REG_MMX_SIZE rt_simd 22 ''mm4'',
     row REG_MMX_SIZE rt_simd 23 ''mm5'',
     row REG_MMX_SIZE rt_simd 24 ''mm6'',
     row REG_MMX_SIZE rt_simd 25 ''mm7'',
     row REG_SIMD_SIZE rt_simd 0 ''xmm0'',
     row REG_SIMD_SIZE rt_simd 0 ''xmm1'',
     row REG_SIMD_SIZE rt_simd 0 ''xmm2'',
     row REG_SIMD_SIZE rt_simd 0 ''xmm3'',
     row REG_SIMD_SIZE rt_simd 0 ''xmm4'',
     row REG_SIMD_SIZE rt_simd 0 ''xmm5'',
     row REG_SIMD_SIZE rt_simd 0 ''xmm6'',
     row REG_SIMD_SIZE rt_simd 0 ''xmm7'',
     row REG_DEBUG_SIZE rt_sys 0 ''dr0'',
     row REG_DEBUG_SIZE rt_sys 0 ''dr1'',
     row REG_DEBUG_SIZE rt_sys 0 ''dr2'',
     row REG_DEBUG_SIZE rt_sys 0 ''dr3'',
     row REG_DEBUG_SIZE rt_sys 0 ''dr4'',
     row REG_DEBUG_SIZE rt_sys 0 ''dr5'',
     row REG_DEBUG_SIZE rt_sys 0 ''dr6'',
     row REG_DEBUG_SIZE rt_sys 0 ''dr7'',
     row REG_CTRL_SIZE rt_sys 0 ''cr0'',
     row REG_CTRL_SIZE rt_sys 0 ''cr1'',
     row REG_CTRL_SIZE rt_sys 0 ''cr2'',
     row REG_CTRL_SIZE rt_sys 0 ''cr3'',
     row REG_CTRL_SIZE rt_sys 0 ''cr4'',
     row REG_CTRL_SIZE rt_sys 0 ''cr5'',
     row REG_CTRL_SIZE rt_sys 0 ''cr6'',
     row REG_CTRL_SIZE rt_sys 0 ''cr7'',
     row REG_TEST_SIZE rt_sys 0 ''tr0'',
     row REG_TEST_SIZE rt_sys 0 ''tr1'',
     row REG_TEST_SIZE rt_sys 0 ''tr2'',
     row REG_TEST_SIZE rt_sys 0 ''tr3'',
     row REG_TEST_SIZE rt_sys 0 ''tr4'',
     row REG_TEST_SIZE rt_sys 0 ''tr5'',
     row REG_TEST_SIZE rt_sys 0 ''tr6'',
     row REG_TEST_SIZE rt_sys 0 ''tr7'',
     row REG_SEG_SIZE rt_seg 0 ''es'',
     row REG_SEG_SIZE rt_seg 0 ''cs'',
     row REG_SEG_SIZE rt_seg 0 ''ss'',
     row REG_SEG_SIZE rt_seg 0 ''ds'',
     row REG_SEG_SIZE rt_seg 0 ''fs'',
     row REG_SEG_SIZE rt_seg 0 ''ds'',
     row REG_DWORD_SIZE rt_sys 0 ''ldtr'',
     row REG_DWORD_SIZE rt_sys 0 ''gdtr'',
     row REG_FPU_SIZE rt_fpu 0 ''st(0)'',
     row REG_FPU_SIZE rt_fpu 0 ''st(1)'',
     row REG_FPU_SIZE rt_fpu 0 ''st(2)'',
     row REG_FPU_SIZE rt_fpu 0 ''st(3)'',
     row REG_FPU_SIZE rt_fpu 0 ''st(4)'',
     row REG_FPU_SIZE rt_fpu 0 ''st(5)'',
     row REG_FPU_SIZE rt_fpu 0 ''st(6)'',
     row REG_FPU_SIZE rt_fpu 0 ''st(7)'',
     row REG_FLAGS_SIZE rt_cond 0 ''eflags'',
     row REG_FPCTRL_SIZE (rt_fpu OR rt_sys) 0 ''fpctrl'',
     row REG_FPSTATUS_SIZE (rt_fpu OR rt_sys) 0 ''fpstat'',
     row REG_FPTAG_SIZE (rt_fpu OR rt_sys) 0 ''fptag'',
     row REG_EIP_SIZE rt_pc 0 ''eip'',
     row REG_IP_SIZE rt_pc 17 ''ip'',
     row REG_DWORD_SIZE rt_sys 0 ''idtr'',
     row REG_DWORD_SIZE (rt_sys OR rt_simd) 0 ''mxcsr'',
     row (16 + 64) rt_sys 0 ''tr'',
     row REG_DWORD_SIZE rt_sys 0 ''cs_msr'',
     row REG_DWORD_SIZE rt_sys 0 ''esp_msr'',
     row REG_DWORD_SIZE rt_sys 0 ''eip_msr'',
     row 0 0 0 '''']"

definition NUM_X86_REGS :: nat where "NUM_X86_REGS = 92"
definition sz_regtable :: nat where "sz_regtable = NUM_X86_REGS + 1"

text \<open>An identifier out of range leaves the structure as it is.\<close>

definition ia32_handle_register :: "x86_reg_t \<Rightarrow> nat \<Rightarrow> x86_reg_t" where
  "ia32_handle_register reg regid =
    (if regid = 0 \<or> regid > sz_regtable then reg
     else
       (let r = ia32_reg_table ! regid;
            reg1 = zero_reg\<lparr>reg_name := take MAX_REGNAME (row_mnemonic r), reg_type := row_type r, reg_size := row_size r\<rparr>;
            alias = row_alias r;
            reg2 = (if alias \<noteq> 0 then reg1\<lparr>reg_alias := of_nat (fst (ia32_reg_aliases ! alias)),
              reg_shift := snd (ia32_reg_aliases ! alias)\<rparr> else reg1)
        in reg2\<lparr>reg_id := of_nat regid\<rparr>))"

section \<open>The tables\<close>

text \<open>What the table must say of one register, given the register it is a part of.\<close>

definition alias_ok :: "nat \<Rightarrow> bool" where
  "alias_ok n =
    (let r = ia32_handle_register zero_reg n; b = ia32_handle_register zero_reg (unat (reg_alias r)) in
     reg_id r = of_nat n \<and> reg_name r \<noteq> [] \<and> length (reg_name r) < MAX_REGNAME \<and> reg_size r \<noteq> 0 \<and>
     (reg_alias r = 0 \<or>
       unat (reg_alias r) \<le> NUM_X86_REGS \<and> reg_alias b = 0 \<and>
       unat (reg_shift r) + 8 * unat (reg_size r) \<le> 8 * unat (reg_size b)))"

lemma all_alias_ok: "list_all alias_ok [1..<93]"
  by code_simp

text \<open>
  Every register of the table has its number, a name that fits the array with its NUL and a size. A
  register that is a part of another one names a register that is not itself a part, and its bits,
  after the shift, lie inside of that register.
\<close>

lemma register_aliases:
  assumes "1 \<le> n" and "n \<le> NUM_X86_REGS" and "r = ia32_handle_register reg n"
  shows "reg_id r = of_nat n \<and> reg_name r \<noteq> [] \<and> length (reg_name r) < MAX_REGNAME \<and> reg_size r \<noteq> 0 \<and>
    (reg_alias r \<noteq> 0 \<longrightarrow>
      (let b = ia32_handle_register reg (unat (reg_alias r)) in
       reg_alias b = 0 \<and> unat (reg_shift r) + 8 * unat (reg_size r) \<le> 8 * unat (reg_size b)))"
proof -
  have raw: "ia32_handle_register reg k = ia32_handle_register zero_reg k" if "1 \<le> k" "k \<le> NUM_X86_REGS" for k
    using that by (simp add: ia32_handle_register_def sz_regtable_def Let_def)
  from assms all_alias_ok have "alias_ok n" by (auto simp: list_all_iff NUM_X86_REGS_def)
  moreover have "1 \<le> unat (reg_alias r)" if "reg_alias r \<noteq> 0"
    using that by (simp add: unat_gt_0 Suc_le_eq)
  ultimately show ?thesis
    using raw [OF assms(1,2)] raw [of "unat (reg_alias r)"] assms(3) by (auto simp: alias_ok_def Let_def)
qed

text \<open>
  The segment register \<open>gs\<close> is missing: no register of the table has that name, and its place, after
  \<open>fs\<close>, holds a second \<open>ds\<close>.
\<close>

lemma register_gs_missing:
  "\<not> list_ex (\<lambda>n. reg_name (ia32_handle_register reg n) = ''gs'') [1..<NUM_X86_REGS + 1] \<and>
   reg_name (ia32_handle_register reg (REG_SEG_OFFSET + 4)) = ''fs'' \<and>
   reg_name (ia32_handle_register reg (REG_SEG_OFFSET + 5)) = ''ds''"
proof -
  have raw: "ia32_handle_register reg k = ia32_handle_register zero_reg k" if "1 \<le> k" "k \<le> NUM_X86_REGS" for k
    using that by (simp add: ia32_handle_register_def sz_regtable_def Let_def)
  have "list_all (\<lambda>n. reg_name (ia32_handle_register zero_reg n) \<noteq> ''gs'') [1..<93]"
      "reg_name (ia32_handle_register zero_reg 69) = ''fs''" "reg_name (ia32_handle_register zero_reg 70) = ''ds''"
    by code_simp+
  with raw [of 69] raw [of 70] show ?thesis
    by (auto simp: list_all_iff list_ex_iff NUM_X86_REGS_def REG_SEG_OFFSET_def raw)
qed

end
