(* ===== verification/Ia32Implicit.thy ===== *)
theory Ia32Implicit
  imports Ia32Insn Ia32Reg
begin

text \<open>
  The implicit operands of \<^verbatim>\<open>ia32_implicit.c\<close>: the lists of registers that an instruction uses without naming them,
  and the function that appends them to an instruction. A list of the source ends with an element of type 0,
  which is left out here.
\<close>

section \<open>The lists\<close>

definition list_aaa :: "(u32 \<times> nat) list" where
  "list_aaa = [(OP_R OR OP_W, REG_BYTE_OFFSET)]"

definition list_aad :: "(u32 \<times> nat) list" where
  "list_aad = [(OP_R OR OP_W, REG_WORD_OFFSET)]"

definition list_call :: "(u32 \<times> nat) list" where
  "list_call = [(OP_R OR OP_W, REG_EIP_INDEX), (OP_R OR OP_W, REG_ESP_INDEX)]"

definition list_cbw :: "(u32 \<times> nat) list" where
  "list_cbw = [(OP_R OR OP_W, REG_WORD_OFFSET), (OP_R, REG_BYTE_OFFSET)]"

definition list_cwde :: "(u32 \<times> nat) list" where
  "list_cwde = [(OP_R OR OP_W, REG_DWORD_OFFSET), (OP_R, REG_WORD_OFFSET)]"

definition list_clts :: "(u32 \<times> nat) list" where
  "list_clts = [(OP_R OR OP_W, REG_CTRL_OFFSET)]"

definition list_cmpxchg :: "(u32 \<times> nat) list" where
  "list_cmpxchg = [(OP_R OR OP_W, REG_BYTE_OFFSET)]"

definition list_cmpxchgb :: "(u32 \<times> nat) list" where
  "list_cmpxchgb = [(OP_R OR OP_W, REG_DWORD_OFFSET)]"

definition list_cmpxchg8b :: "(u32 \<times> nat) list" where
  "list_cmpxchg8b = [(OP_R OR OP_W, REG_DWORD_OFFSET), (OP_R OR OP_W, REG_DWORD_OFFSET + 2), (OP_R, REG_DWORD_OFFSET + 1), (OP_R, REG_DWORD_OFFSET + 3)]"

definition list_cpuid :: "(u32 \<times> nat) list" where
  "list_cpuid = [(OP_R OR OP_W, REG_DWORD_OFFSET), (OP_W, REG_DWORD_OFFSET + 1), (OP_W, REG_DWORD_OFFSET + 2), (OP_W, REG_DWORD_OFFSET + 3)]"

definition list_cwd :: "(u32 \<times> nat) list" where
  "list_cwd = [(OP_R OR OP_W, REG_DWORD_OFFSET), (OP_W, REG_DWORD_OFFSET + 2)]"

definition list_daa :: "(u32 \<times> nat) list" where
  "list_daa = [(OP_R OR OP_W, REG_BYTE_OFFSET)]"

definition list_idiv :: "(u32 \<times> nat) list" where
  "list_idiv = [(OP_R, REG_DWORD_OFFSET), (OP_W, REG_BYTE_OFFSET), (OP_W, REG_BYTE_OFFSET + 4)]"

definition list_div :: "(u32 \<times> nat) list" where
  "list_div = [(OP_R OR OP_W, REG_DWORD_OFFSET + 2), (OP_R OR OP_W, REG_DWORD_OFFSET)]"

definition list_enter :: "(u32 \<times> nat) list" where
  "list_enter = [(OP_R OR OP_W, REG_DWORD_OFFSET + 4), (OP_R, REG_DWORD_OFFSET + 5)]"

definition list_f2xm1 :: "(u32 \<times> nat) list" where
  "list_f2xm1 = [(OP_R OR OP_W, REG_FPU_OFFSET)]"

definition list_fcom :: "(u32 \<times> nat) list" where
  "list_fcom = [(OP_R, REG_FPU_OFFSET)]"

definition list_fpatan :: "(u32 \<times> nat) list" where
  "list_fpatan = [(OP_R, REG_FPU_OFFSET)]"

definition list_fprem :: "(u32 \<times> nat) list" where
  "list_fprem = [(OP_R OR OP_W, REG_FPU_OFFSET), (OP_R, REG_FPU_OFFSET + 1)]"

definition list_faddp :: "(u32 \<times> nat) list" where
  "list_faddp = [(OP_R, REG_FPU_OFFSET), (OP_R OR OP_W, REG_FPU_OFFSET + 1)]"

definition list_fucompp :: "(u32 \<times> nat) list" where
  "list_fucompp = [(OP_R, REG_FPU_OFFSET), (OP_R, REG_FPU_OFFSET + 1)]"

definition list_imul :: "(u32 \<times> nat) list" where
  "list_imul = [(OP_R, REG_BYTE_OFFSET), (OP_W, REG_WORD_OFFSET)]"

definition list_mul :: "(u32 \<times> nat) list" where
  "list_mul = [(OP_R OR OP_W, REG_DWORD_OFFSET), (OP_W, REG_DWORD_OFFSET + 2)]"

definition list_lahf :: "(u32 \<times> nat) list" where
  "list_lahf = [(OP_R, REG_FLAGS_INDEX), (OP_W, REG_BYTE_OFFSET + 4)]"

definition list_ldmxcsr :: "(u32 \<times> nat) list" where
  "list_ldmxcsr = [(OP_W, REG_MXCSG_INDEX)]"

definition list_leave :: "(u32 \<times> nat) list" where
  "list_leave = [(OP_R OR OP_W, REG_ESP_INDEX), (OP_W, REG_DWORD_OFFSET + 5)]"

definition list_lgdt :: "(u32 \<times> nat) list" where
  "list_lgdt = [(OP_W, REG_GDTR_INDEX)]"

definition list_lidt :: "(u32 \<times> nat) list" where
  "list_lidt = [(OP_W, REG_IDTR_INDEX)]"

definition list_lldt :: "(u32 \<times> nat) list" where
  "list_lldt = [(OP_W, REG_LDTR_INDEX)]"

definition list_lmsw :: "(u32 \<times> nat) list" where
  "list_lmsw = [(OP_W, REG_CTRL_OFFSET)]"

definition list_loop :: "(u32 \<times> nat) list" where
  "list_loop = [(OP_R OR OP_W, REG_DWORD_OFFSET + 1)]"

definition list_ltr :: "(u32 \<times> nat) list" where
  "list_ltr = [(OP_W, REG_TR_INDEX)]"

definition list_pop :: "(u32 \<times> nat) list" where
  "list_pop = [(OP_R OR OP_W, REG_ESP_INDEX)]"

definition list_popad :: "(u32 \<times> nat) list" where
  "list_popad = [(OP_R OR OP_W, REG_ESP_INDEX), (OP_W, REG_DWORD_OFFSET + 7), (OP_W, REG_DWORD_OFFSET + 6), (OP_W, REG_DWORD_OFFSET + 5), (OP_W, REG_DWORD_OFFSET + 3), (OP_W, REG_DWORD_OFFSET + 2), (OP_W, REG_DWORD_OFFSET + 1), (OP_W, REG_DWORD_OFFSET)]"

definition list_popfd :: "(u32 \<times> nat) list" where
  "list_popfd = [(OP_R OR OP_W, REG_ESP_INDEX), (OP_W, REG_FLAGS_INDEX)]"

definition list_pushad :: "(u32 \<times> nat) list" where
  "list_pushad = [(OP_R OR OP_W, REG_ESP_INDEX), (OP_R, REG_DWORD_OFFSET), (OP_R, REG_DWORD_OFFSET + 1), (OP_R, REG_DWORD_OFFSET + 2), (OP_R, REG_DWORD_OFFSET + 3), (OP_R, REG_DWORD_OFFSET + 5), (OP_R, REG_DWORD_OFFSET + 6), (OP_R, REG_DWORD_OFFSET + 7)]"

definition list_pushfd :: "(u32 \<times> nat) list" where
  "list_pushfd = [(OP_R OR OP_W, REG_ESP_INDEX), (OP_R, REG_FLAGS_INDEX)]"

definition list_rdmsr :: "(u32 \<times> nat) list" where
  "list_rdmsr = [(OP_R, REG_DWORD_OFFSET + 1), (OP_W, REG_DWORD_OFFSET + 2), (OP_W, REG_DWORD_OFFSET)]"

definition list_rdpmc :: "(u32 \<times> nat) list" where
  "list_rdpmc = [(OP_R, REG_DWORD_OFFSET + 1), (OP_W, REG_DWORD_OFFSET + 2), (OP_W, REG_DWORD_OFFSET)]"

definition list_rdtsc :: "(u32 \<times> nat) list" where
  "list_rdtsc = [(OP_R OR OP_W, REG_DWORD_OFFSET + 2), (OP_R OR OP_W, REG_DWORD_OFFSET)]"

definition list_rep :: "(u32 \<times> nat) list" where
  "list_rep = [(OP_R OR OP_W, REG_DWORD_OFFSET + 1)]"

definition list_rsm :: "(u32 \<times> nat) list" where
  "list_rsm = [(OP_R, REG_CTRL_OFFSET + 4), (OP_R, REG_CTRL_OFFSET)]"

definition list_sahf :: "(u32 \<times> nat) list" where
  "list_sahf = [(OP_R, REG_DWORD_OFFSET)]"

definition list_sgdt :: "(u32 \<times> nat) list" where
  "list_sgdt = [(OP_R, REG_DWORD_OFFSET)]"

definition list_sidt :: "(u32 \<times> nat) list" where
  "list_sidt = [(OP_R, REG_DWORD_OFFSET)]"

definition list_sldt :: "(u32 \<times> nat) list" where
  "list_sldt = [(OP_R, REG_DWORD_OFFSET)]"

definition list_smsw :: "(u32 \<times> nat) list" where
  "list_smsw = [(OP_R, REG_DWORD_OFFSET)]"

definition list_stmxcsr :: "(u32 \<times> nat) list" where
  "list_stmxcsr = [(OP_R, REG_DWORD_OFFSET)]"

definition list_str :: "(u32 \<times> nat) list" where
  "list_str = [(OP_R, REG_DWORD_OFFSET)]"

definition list_sysenter :: "(u32 \<times> nat) list" where
  "list_sysenter = [(OP_R, REG_DWORD_OFFSET)]"

definition list_sysexit :: "(u32 \<times> nat) list" where
  "list_sysexit = [(OP_R, REG_DWORD_OFFSET)]"

definition list_wrmsr :: "(u32 \<times> nat) list" where
  "list_wrmsr = [(OP_R, REG_DWORD_OFFSET)]"

definition list_xlat :: "(u32 \<times> nat) list" where
  "list_xlat = [(OP_R, REG_DWORD_OFFSET)]"

definition list_monitor :: "(u32 \<times> nat) list" where
  "list_monitor = [(OP_R, REG_DWORD_OFFSET)]"

definition list_mwait :: "(u32 \<times> nat) list" where
  "list_mwait = [(OP_R, REG_DWORD_OFFSET)]"

definition op_implicit_list :: "(u32 \<times> nat) list option list" where
  "op_implicit_list =
    [None, Some list_aaa, Some list_aad, Some list_call, Some list_cbw, Some list_cwde, Some list_clts,
     Some list_cmpxchg, Some list_cmpxchgb, Some list_cmpxchg8b, Some list_cpuid, Some list_cwd, Some list_daa,
     Some list_idiv, Some list_div, Some list_enter, Some list_f2xm1, Some list_fcom, Some list_fpatan,
     Some list_fprem, Some list_faddp, Some list_fucompp, Some list_imul, Some list_mul, Some list_lahf,
     Some list_ldmxcsr, Some list_leave, Some list_lgdt, Some list_lidt, Some list_lldt, Some list_lmsw,
     Some list_loop, Some list_ltr, Some list_pop, Some list_popad, Some list_popfd, Some list_pushad,
     Some list_pushfd, Some list_rdmsr, Some list_rdpmc, Some list_rdtsc, Some list_rep, Some list_rsm,
     Some list_sahf, Some list_sgdt, Some list_sidt, Some list_sldt, Some list_smsw, Some list_stmxcsr,
     Some list_str, Some list_sysenter, Some list_sysexit, Some list_wrmsr, Some list_xlat, Some list_monitor,
     Some list_mwait, None]"

definition LAST_IMPL_IDX :: u32 where "LAST_IMPL_IDX = 55"
definition IDX_IMPLICIT_REP :: u32 where "IDX_IMPLICIT_REP = 42"

section \<open>Appending them\<close>

definition handle_impl_reg :: "x86_op_t \<Rightarrow> nat \<Rightarrow> x86_op_t" where
  "handle_impl_reg op val =
    (let reg = ia32_handle_register (data_reg op) val; op1 = op\<lparr>op_type := op_register, data_reg := reg\<rparr> in
     if reg_size reg = 1 then op1\<lparr>op_datatype := op_byte\<rparr>
     else if reg_size reg = 2 then op1\<lparr>op_datatype := op_word\<rparr>
     else if reg_size reg = 4 then op1\<lparr>op_datatype := op_dword\<rparr>
     else if reg_size reg = 8 then op1\<lparr>op_datatype := op_qword\<rparr>
     else if reg_size reg = 10 then op1\<lparr>op_datatype := op_extreal\<rparr>
     else if reg_size reg = 16 then op1\<lparr>op_datatype := op_dqword\<rparr>
     else op1)"

definition implicit_op :: "u32 \<Rightarrow> nat \<Rightarrow> x86_op_t" where
  "implicit_op ty operand =
    (let op = handle_impl_reg (zero_op\<lparr>op_access := OP_PERM ty, op_flags := drop_bit 12 (OP_FLAGS ty)\<rparr>) operand in
     op\<lparr>op_flags := op_flags op OR op_implied\<rparr>)"

fun append_implicit :: "(u32 \<times> nat) list \<Rightarrow> x86_insn_t \<Rightarrow> x86_insn_t result" where
  "append_implicit [] insn = Ret insn"
| "append_implicit ((ty, operand) # ls) insn =
    r_bind (x86_oplist_append insn (implicit_op ty operand)) (\<lambda>insn1.
      append_implicit ls (insn1\<lparr>explicit_count := explicit_count insn1 - 1\<rparr>))"

definition ia32_insn_implicit_ops :: "x86_insn_t \<Rightarrow> u32 \<Rightarrow> x86_insn_t result" where
  "ia32_insn_implicit_ops insn impl_idx =
    (if impl_idx = 0 \<or> impl_idx > LAST_IMPL_IDX then Ret insn
     else
       (case op_implicit_list ! unat impl_idx of
          None \<Rightarrow> Fail Undefined
        | Some ls \<Rightarrow> append_implicit ls insn))"

end
