(* ===== verification/Ia32Operand.thy ===== *)
theory Ia32Operand
  imports Ia32Implicit
begin

text \<open>
  Decoding of the explicit operands: the immediate values of \<^verbatim>\<open>x86_imm.c\<close>, the ModR/M and SIB bytes of
  \<^verbatim>\<open>ia32_modrm.c\<close> and the operand descriptions of \<^verbatim>\<open>ia32_operand.c\<close>.

  A pointer into the instruction is the list of the bytes from there on, and \<open>buf_len\<close> is kept beside it, since the
  source does its own arithmetic on it: it is an unsigned 32-bit number and wraps below 0. \<open>++buf\<close> is \<open>drop 1\<close>.
\<close>

section \<open>Immediate values\<close>

text \<open>
  A value of \<open>n\<close> bytes replaces the low bytes of the destination and leaves the others. Both functions copy the
  same bytes; no caller looks at their result.
\<close>

definition store_low :: "nat \<Rightarrow> 64 word \<Rightarrow> 64 word \<Rightarrow> 64 word" where
  "store_low n dest val = (dest AND NOT (mask n)) OR (val AND mask n)"

definition x86_imm_sized :: "u8 list \<Rightarrow> u32 \<Rightarrow> 64 word \<Rightarrow> u32 \<Rightarrow> 64 word result" where
  "x86_imm_sized buf buf_len dest sz =
    (if sz > buf_len then Ret dest
     else if sz = 1 then r_map (\<lambda>b. store_low 8 dest (ucast b)) (byte_at buf 0)
     else if sz = 2 then r_map (\<lambda>h. store_low 16 dest (ucast h)) (half_at buf 0)
     else if sz = 6 \<or> sz = 8 then r_map (\<lambda>q. store_low 64 dest q) (quad_at buf 0)
     else r_map (\<lambda>w. store_low 32 dest (ucast w)) (word_at buf 0))"

definition x86_imm_signsized :: "u8 list \<Rightarrow> u32 \<Rightarrow> 64 word \<Rightarrow> u32 \<Rightarrow> 64 word result" where
  "x86_imm_signsized buf buf_len dest sz = x86_imm_sized buf buf_len dest sz"

text \<open>The displacement is a \<open>long\<close>; its destination is the member \<open>disp\<close>, for which sizes up to 4 are used.\<close>

definition imm_disp :: "u8 list \<Rightarrow> u32 \<Rightarrow> x86_ea_t \<Rightarrow> u32 \<Rightarrow> x86_ea_t result" where
  "imm_disp buf buf_len ea sz =
    r_map (\<lambda>v. let d = ucast v in ea\<lparr>ea_disp := d, ea_disp_size := ucast sz, ea_disp_sign := (if sint d < 0 then 1 else 0)\<rparr>)
      (x86_imm_signsized buf buf_len (ucast (ea_disp ea)) sz)"

section \<open>ModR/M and SIB\<close>

definition MODRM_RM_SIB :: nat where "MODRM_RM_SIB = 4"
definition MODRM_RM_NOREG :: nat where "MODRM_RM_NOREG = 5"
definition MODRM_MOD_NODISP :: nat where "MODRM_MOD_NODISP = 0"
definition MODRM_MOD_DISP8 :: nat where "MODRM_MOD_DISP8 = 1"
definition MODRM_MOD_NOEA :: nat where "MODRM_MOD_NOEA = 3"
definition MOD16_MOD_NODISP :: nat where "MOD16_MOD_NODISP = 0"
definition MOD16_MOD_DISP8 :: nat where "MOD16_MOD_DISP8 = 1"
definition MOD16_MOD_DISP16 :: nat where "MOD16_MOD_DISP16 = 2"
definition MOD16_RM_BXSI :: nat where "MOD16_RM_BXSI = 0"
definition MOD16_RM_BXDI :: nat where "MOD16_RM_BXDI = 1"
definition MOD16_RM_BPSI :: nat where "MOD16_RM_BPSI = 2"
definition MOD16_RM_BPDI :: nat where "MOD16_RM_BPDI = 3"
definition MOD16_RM_SI :: nat where "MOD16_RM_SI = 4"
definition MOD16_RM_DI :: nat where "MOD16_RM_DI = 5"
definition MOD16_RM_BP :: nat where "MOD16_RM_BP = 6"
definition MOD16_RM_BX :: nat where "MOD16_RM_BX = 7"
definition SIB_INDEX_NONE :: nat where "SIB_INDEX_NONE = 4"
definition SIB_BASE_EBP :: nat where "SIB_BASE_EBP = 5"

record modRM_byte =
  mr_mod :: nat
  mr_reg :: nat
  mr_rm :: nat

definition byte_decode :: "u8 \<Rightarrow> modRM_byte" where
  "byte_decode b = \<lparr>mr_mod = unat (drop_bit 6 b), mr_reg = unat (drop_bit 3 (b AND 56)), mr_rm = unat (b AND 7)\<rparr>"

text \<open>The members of \<open>SIB_byte\<close> are filled through a cast: \<open>scale\<close> is \<open>mod\<close>, \<open>index\<close> is \<open>reg\<close>, \<open>base\<close> is \<open>rm\<close>.\<close>

definition sib_decode :: "u8 list \<Rightarrow> u32 \<Rightarrow> x86_ea_t \<Rightarrow> nat \<Rightarrow> (u32 \<times> x86_ea_t) result" where
  "sib_decode buf buf_len ea md =
    (if buf_len < 1 then Ret (0, ea)
     else
       r_bind (byte_at buf 0) (\<lambda>b.
         let sib = byte_decode b; scale = mr_mod sib; ix = mr_reg sib; base = mr_rm sib in
         r_bind (if base = SIB_BASE_EBP \<and> md = 0
                 then r_map (\<lambda>ea1. (5, ea1)) (imm_disp (drop 1 buf) buf_len ea 4)
                 else Ret (1, ea\<lparr>ea_base := ia32_handle_register (ea_base ea) (base + 1)\<rparr>)) (\<lambda>(n, ea1).
           let ea2 = ea1\<lparr>ea_scale := push_bit scale 1\<rparr> in
           Ret (n, if ix \<noteq> SIB_INDEX_NONE
             then ea2\<lparr>ea_index := ia32_handle_register (ea_index ea2) (ix + 1)\<rparr> else ea2))))"

definition set_base :: "nat \<Rightarrow> x86_ea_t \<Rightarrow> x86_ea_t" where
  "set_base r ea = ea\<lparr>ea_base := ia32_handle_register (ea_base ea) r\<rparr>"

definition set_index :: "nat \<Rightarrow> x86_ea_t \<Rightarrow> x86_ea_t" where
  "set_index r ea = ea\<lparr>ea_index := ia32_handle_register (ea_index ea) r\<rparr>"

definition add_flags :: "u32 \<Rightarrow> x86_op_t \<Rightarrow> x86_op_t" where
  "add_flags fl op = op\<lparr>op_flags := op_flags op OR fl\<rparr>"

definition upd_ea :: "(x86_ea_t \<Rightarrow> x86_ea_t) \<Rightarrow> x86_op_t \<Rightarrow> x86_op_t" where
  "upd_ea f op = op\<lparr>data_expression := f (data_expression op)\<rparr>"

text \<open>The registers of a 16-bit address; the case \<open>MOD16_RM_BXDI\<close> has no \<open>break\<close>.\<close>

definition modrm16_regs :: "modRM_byte \<Rightarrow> x86_op_t \<Rightarrow> x86_op_t" where
  "modrm16_regs modrm op =
    (let rm = mr_rm modrm; w = REG_WORD_OFFSET;
         bpsi = (\<lambda>op. upd_ea (set_index (w + 6)) (upd_ea (set_base (w + 5)) (add_flags op_ss_seg op))) in
     if rm = MOD16_RM_BXSI then upd_ea (set_index (w + 6)) (upd_ea (set_base (w + 3)) op)
     else if rm = MOD16_RM_BXDI then bpsi (upd_ea (set_index (w + 7)) (upd_ea (set_base (w + 3)) op))
     else if rm = MOD16_RM_BPSI then bpsi op
     else if rm = MOD16_RM_BPDI then upd_ea (set_index (w + 7)) (upd_ea (set_base (w + 5)) (add_flags op_ss_seg op))
     else if rm = MOD16_RM_SI then upd_ea (set_base (w + 6)) op
     else if rm = MOD16_RM_DI then upd_ea (set_base (w + 7)) op
     else if rm = MOD16_RM_BP then
       (if mr_mod modrm \<noteq> MOD16_MOD_NODISP then upd_ea (set_base (w + 5)) (add_flags op_ss_seg op) else op)
     else if rm = MOD16_RM_BX then upd_ea (set_base (w + 3)) op
     else op)"

definition modrm_decode16 :: "u8 list \<Rightarrow> u32 \<Rightarrow> x86_op_t \<Rightarrow> modRM_byte \<Rightarrow> (u32 \<times> x86_op_t) result" where
  "modrm_decode16 buf buf_len op modrm =
    (let op1 = modrm16_regs modrm op; buf1 = drop 1 buf; len1 = buf_len - 1; ea = data_expression op1 in
     if mr_mod modrm = MOD16_MOD_DISP8 then r_map (\<lambda>ea1. (2, op1\<lparr>data_expression := ea1\<rparr>)) (imm_disp buf1 len1 ea 1)
     else if mr_mod modrm = MOD16_MOD_DISP16 then r_map (\<lambda>ea1. (3, op1\<lparr>data_expression := ea1\<rparr>)) (imm_disp buf1 len1 ea 2)
     else Ret (1, op1))"

text \<open>The address of the 32-bit modes; the number counts the bytes after the ModR/M byte.\<close>

definition modrm_ea32 :: "u8 list \<Rightarrow> u32 \<Rightarrow> modRM_byte \<Rightarrow> u8 \<Rightarrow> x86_ea_t \<Rightarrow> (u32 \<times> x86_ea_t) result" where
  "modrm_ea32 buf buf_len modrm asize ea =
    (if mr_mod modrm = MODRM_MOD_NODISP then
       (if mr_rm modrm = MODRM_RM_NOREG then r_map (\<lambda>ea1. (4, ea1)) (imm_disp buf buf_len ea 4)
        else if mr_rm modrm = MODRM_RM_SIB then sib_decode buf buf_len ea (mr_mod modrm)
        else Ret (0, set_base (mr_rm modrm + 1) ea))
     else
       r_bind (if mr_rm modrm = MODRM_RM_SIB
               then r_map (\<lambda>(n, ea1). (n, ea1, drop 1 buf, buf_len - 1)) (sib_decode buf buf_len ea (mr_mod modrm))
               else Ret (0, set_base (mr_rm modrm + 1) ea, buf, buf_len)) (\<lambda>(n, ea1, buf1, len1).
         if mr_mod modrm = MODRM_MOD_DISP8 then r_map (\<lambda>ea2. (n + 1, ea2)) (imm_disp buf1 len1 ea1 1)
         else r_map (\<lambda>ea2. (n + 4, ea2)) (imm_disp buf1 len1 ea1 (ucast asize))))"

definition ia32_modrm_decode :: "u8 list \<Rightarrow> u32 \<Rightarrow> x86_op_t \<Rightarrow> x86_insn_t \<Rightarrow> nat \<Rightarrow> (u32 \<times> x86_op_t) result" where
  "ia32_modrm_decode buf buf_len op insn gen_regs =
    r_bind (byte_at buf 0) (\<lambda>b.
      let modrm = byte_decode b in
      if mr_mod modrm = MODRM_MOD_NOEA
      then Ret (1, op\<lparr>op_type := op_register, data_reg := ia32_handle_register (data_reg op) (mr_rm modrm + gen_regs)\<rparr>)
      else
        (let op1 = add_flags op_pointer (op\<lparr>op_type := op_expression\<rparr>) in
         if addr_size insn = 2 then modrm_decode16 buf buf_len op1 modrm
         else r_map (\<lambda>(n, ea). (1 + n, op1\<lparr>data_expression := ea\<rparr>))
           (modrm_ea32 (drop 1 buf) (buf_len - 1) modrm (addr_size insn) (data_expression op1))))"

definition ia32_reg_decode :: "u8 \<Rightarrow> x86_op_t \<Rightarrow> nat \<Rightarrow> x86_op_t" where
  "ia32_reg_decode b op gen_regs =
    op\<lparr>op_type := op_register, data_reg := ia32_handle_register (data_reg op) (mr_reg (byte_decode b) + gen_regs)\<rparr>"

section \<open>Operands\<close>

text \<open>Segment overrides.\<close>

definition apply_seg :: "x86_op_t \<Rightarrow> u32 \<Rightarrow> x86_op_t" where
  "apply_seg op prefixes =
    (let seg = prefixes AND PREFIX_REG_MASK in
     if prefixes = 0 then op
     else if seg = PREFIX_CS then add_flags op_cs_seg op
     else if seg = PREFIX_SS then add_flags op_ss_seg op
     else if seg = PREFIX_DS then add_flags op_ds_seg op
     else if seg = PREFIX_ES then add_flags op_es_seg op
     else if seg = PREFIX_FS then add_flags op_fs_seg op
     else if seg = PREFIX_GS then add_flags op_gs_seg op
     else op)"

definition hard_reg :: "x86_op_t \<Rightarrow> u32 \<Rightarrow> x86_op_t" where
  "hard_reg op r = (let op1 = add_flags op_hardcode (op\<lparr>op_type := op_register\<rparr>) in
    op1\<lparr>data_reg := ia32_handle_register (data_reg op1) (unat r)\<rparr>)"

definition string_ea :: "u32 \<Rightarrow> nat \<Rightarrow> x86_op_t \<Rightarrow> x86_op_t" where
  "string_ea seg r op = upd_ea (set_base r)
    (add_flags (seg OR op_pointer OR op_string) (add_flags op_hardcode (op\<lparr>op_type := op_expression\<rparr>)))"

text \<open>A number in the instruction: it is stored in the operand, and its size is the number of bytes.\<close>

definition number_op :: "u8 list \<Rightarrow> u32 \<Rightarrow> u32 \<Rightarrow> x86_op_t \<Rightarrow> (u32 \<times> x86_op_t) result" where
  "number_op buf buf_len sz op = r_map (\<lambda>v. (sz, op\<lparr>data_word := v\<rparr>)) (x86_imm_sized buf buf_len (data_word op) sz)"

definition decode_operand_value ::
  "u8 list \<Rightarrow> u32 \<Rightarrow> x86_op_t \<Rightarrow> x86_insn_t \<Rightarrow> u32 \<Rightarrow> u32 \<Rightarrow> u32 \<Rightarrow> u8 \<Rightarrow> nat \<Rightarrow> (u32 \<times> x86_op_t) result" where
  "decode_operand_value buf buf_len op insn addr_meth op_size op_value modrm gen_regs =
    (let asize = ucast (addr_size insn) in
     if addr_meth = ADDRMETH_E \<or> addr_meth = ADDRMETH_M \<or> addr_meth = ADDRMETH_R
     then ia32_modrm_decode buf buf_len op insn gen_regs
     else if addr_meth = ADDRMETH_Q then ia32_modrm_decode buf buf_len op insn REG_MMX_OFFSET
     else if addr_meth = ADDRMETH_W then ia32_modrm_decode buf buf_len op insn REG_SIMD_OFFSET
     else if addr_meth = ADDRMETH_C then Ret (0, ia32_reg_decode modrm op REG_CTRL_OFFSET)
     else if addr_meth = ADDRMETH_D then Ret (0, ia32_reg_decode modrm op REG_DEBUG_OFFSET)
     else if addr_meth = ADDRMETH_G then Ret (0, ia32_reg_decode modrm op gen_regs)
     else if addr_meth = ADDRMETH_P then Ret (0, ia32_reg_decode modrm op REG_MMX_OFFSET)
     else if addr_meth = ADDRMETH_S then Ret (0, ia32_reg_decode modrm op REG_SEG_OFFSET)
     else if addr_meth = ADDRMETH_T then Ret (0, ia32_reg_decode modrm op REG_TEST_OFFSET)
     else if addr_meth = ADDRMETH_V then Ret (0, ia32_reg_decode modrm op REG_SIMD_OFFSET)
     else if addr_meth = ADDRMETH_A then number_op buf buf_len asize (op\<lparr>op_type := op_offset\<rparr>)
     else if addr_meth = ADDRMETH_I then number_op buf buf_len op_size (op\<lparr>op_type := op_immediate\<rparr>)
     else if addr_meth = ADDRMETH_J then
       (let op1 = add_flags op_signed op in
        if op_size = 1 then number_op buf buf_len 1 (op1\<lparr>op_type := op_relative_near\<rparr>)
        else number_op buf buf_len op_size (op1\<lparr>op_type := op_relative_far\<rparr>))
     else if addr_meth = ADDRMETH_O then number_op buf buf_len asize (add_flags op_pointer (op\<lparr>op_type := op_offset\<rparr>))
     else if addr_meth = ADDRMETH_F then Ret (0, hard_reg op (of_nat REG_FLAGS_INDEX))
     else if addr_meth = ADDRMETH_X then Ret (0, string_ea op_ds_seg (REG_DWORD_OFFSET + 6) op)
     else if addr_meth = ADDRMETH_Y then Ret (0, string_ea op_es_seg (REG_DWORD_OFFSET + 7) op)
     else if addr_meth = ADDRMETH_RR then Ret (0, hard_reg op (op_value + of_nat gen_regs))
     else if addr_meth = ADDRMETH_RS then Ret (0, hard_reg op (op_value + of_nat REG_SEG_OFFSET))
     else if addr_meth = ADDRMETH_RF then Ret (0, hard_reg op (op_value + of_nat REG_FPU_OFFSET))
     else if addr_meth = ADDRMETH_RT then Ret (0, hard_reg op (op_value + of_nat REG_TEST_OFFSET))
     else if addr_meth = ADDRMETH_II then
       Ret (0, add_flags op_hardcode (op\<lparr>op_type := op_immediate, data_word := store_low 32 (data_word op) (ucast op_value)\<rparr>))
     else Ret (0, op\<lparr>op_type := op_unused\<rparr>))"

text \<open>The size in the instruction and the data type of the operand.\<close>

definition decode_operand_size :: "u32 \<Rightarrow> x86_insn_t \<Rightarrow> u32 \<times> x86_op_datatype" where
  "decode_operand_size ot insn =
    (let osz = insn_op_size insn; asz = addr_size insn in
     if ot = OPTYPE_c then (let sz = (if osz = 4 then 2 else 1) in (sz, if sz = 4 then op_word else op_byte))
     else if ot = OPTYPE_a then (let sz = (if osz = 4 then 8 else 4) in (sz, if sz = 4 then op_word else op_dword))
     else if ot = OPTYPE_v then (let sz = (if osz = 4 then 4 else 2) in (sz, if sz = 4 then op_dword else op_word))
     else if ot = OPTYPE_p then (let sz = (if asz = 4 then 6 else 4) in (sz, if sz = 4 then op_descr32 else op_descr16))
     else if ot = OPTYPE_b then (1, op_byte)
     else if ot = OPTYPE_w then (2, op_word)
     else if ot = OPTYPE_d then (4, op_dword)
     else if ot = OPTYPE_s then (6, if asz = 4 then op_pdescr32 else op_pdescr16)
     else if ot = OPTYPE_q then (8, op_word)
     else if ot = OPTYPE_dq then (16, op_dqword)
     else if ot = OPTYPE_ps then (16, op_ssimd)
     else if ot = OPTYPE_pd then (16, op_dsimd)
     else if ot = OPTYPE_ss then (16, op_sssimd)
     else if ot = OPTYPE_sd then (16, op_sdsimd)
     else if ot = OPTYPE_pi then (8, op_qword)
     else if ot = OPTYPE_si then (4, op_dword)
     else if ot = OPTYPE_fs then (4, op_sreal)
     else if ot = OPTYPE_fd then (4, op_dreal)
     else if ot = OPTYPE_fe then (4, op_extreal)
     else if ot = OPTYPE_fb then (4, op_bcd)
     else if ot = OPTYPE_fv then (4, op_fpuenv)
     else if ot = OPTYPE_fx then (4, op_fpregset)
     else if ot = OPTYPE_m then (ucast asz, op_word)
     else (ucast osz, if osz = 4 then op_dword else op_word))"

text \<open>
  The operand is appended to the list before it is filled. The access and the flags are read from \<open>op_type\<close>, the
  operand flags after masking with \<open>OPTYPE_MASK\<close>.
\<close>

definition ia32_decode_operand ::
  "u8 list \<Rightarrow> u32 \<Rightarrow> x86_insn_t \<Rightarrow> u32 \<Rightarrow> u32 \<Rightarrow> u32 \<Rightarrow> u8 \<Rightarrow> (u32 \<times> x86_insn_t) result" where
  "ia32_decode_operand buf buf_len insn raw_op raw_flags prefixes modrm =
    (let addr_meth = raw_flags AND ADDRMETH_MASK; ot = raw_flags AND OPTYPE_MASK in
     if raw_flags = ARG_NONE then Ret (0, insn)
     else
       (let (op_size, dt) = decode_operand_size ot insn;
            op = zero_op\<lparr>op_access := OP_PERM ot, op_flags := drop_bit 12 (OP_FLAGS ot), op_datatype := dt\<rparr>;
            gen_regs = (if op_size = 1 then REG_BYTE_OFFSET else if op_size = 2 then REG_WORD_OFFSET else REG_DWORD_OFFSET) in
        r_bind (decode_operand_value buf buf_len op insn addr_meth op_size raw_op modrm gen_regs) (\<lambda>(n, op1).
          let op2 = (if op_type op1 = op_expression \<or> op_type op1 = op_offset then apply_seg op1 prefixes else op1) in
          r_map (Pair n) (x86_oplist_append insn op2))))"

end
