(* ===== verification/Ia32Decode.thy ===== *)
theory Ia32Decode
  imports Ia32Tables Ia32Operand
begin

text \<open>
  The decoder of \<^verbatim>\<open>ia32_insn.c\<close>: the lookup of the opcode in the tables, the decoding of the operands and the
  description of the instruction. The options of the library, the global \<open>ia32_settings.options\<close>, are an argument.
\<close>

section \<open>What an instruction does to the stack\<close>

definition IS_SP :: "x86_op_t \<Rightarrow> bool" where
  "IS_SP op \<longleftrightarrow> op_type op = op_register \<and>
    (reg_id (data_reg op) = of_nat REG_ESP_INDEX \<or> reg_alias (data_reg op) = of_nat REG_ESP_INDEX)"

definition IS_IMM :: "x86_op_t \<Rightarrow> bool" where
  "IS_IMM op \<longleftrightarrow> op_type op = op_immediate"

definition long_from_operand :: "x86_op_t \<Rightarrow> u32" where
  "long_from_operand op =
    (if \<not> IS_IMM op then 0
     else if op_datatype op = op_byte then scast (ucast (data_word op) :: u8)
     else if op_datatype op = op_word then scast (ucast (data_word op) :: u16)
     else if op_datatype op = op_qword then ucast (data_word op)
     else if op_datatype op = op_dword then ucast (data_word op)
     else 0)"

text \<open>Following the pointer to the second operand when there is none is undefined.\<close>

definition stack_mod_by :: "x86_insn_t \<Rightarrow> x86_op_t \<Rightarrow> x86_op_t option \<Rightarrow> x86_insn_t result" where
  "stack_mod_by insn dest src =
    (let ty = insn_type insn; asz = ucast (addr_size insn);
         modified = (\<lambda>v. Ret (insn\<lparr>stack_mod := 1, stack_mod_val := v\<rparr>)) in
     if ty = insn_call \<or> ty = insn_callcc \<or> ty = insn_push then modified (- asz)
     else if ty = insn_return then modified asz
     else if ty = insn_pop then (if IS_SP dest then Ret (insn\<lparr>stack_mod := 1\<rparr>) else modified (ucast (insn_op_size insn)))
     else if ty = insn_enter \<or> ty = insn_leave \<or> ty = insn_pushregs \<or> ty = insn_popregs \<or> ty = insn_pushflags
       \<or> ty = insn_popflags then modified 0
     else if ty = insn_add \<and> IS_SP dest then (case src of None \<Rightarrow> Fail Undefined | Some op \<Rightarrow> modified (long_from_operand op))
     else if ty = insn_sub \<and> IS_SP dest then (case src of None \<Rightarrow> Fail Undefined | Some op \<Rightarrow> modified (- long_from_operand op))
     else if (ty = insn_inc \<or> ty = insn_dec) \<and> IS_SP dest then modified 1
     else if (ty = insn_mov \<or> ty = insn_movcc \<or> ty = insn_xchg \<or> ty = insn_xchgcc \<or> ty = insn_mul \<or> ty = insn_div
       \<or> ty = insn_shl \<or> ty = insn_shr \<or> ty = insn_rol \<or> ty = insn_ror \<or> ty = insn_and \<or> ty = insn_or \<or> ty = insn_not
       \<or> ty = insn_neg \<or> ty = insn_xor) \<and> IS_SP dest then Ret (insn\<lparr>stack_mod := 1\<rparr>)
     else Ret insn)"

definition ia32_stack_mod :: "x86_insn_t \<Rightarrow> x86_insn_t result" where
  "ia32_stack_mod insn =
    (case operands insn of
       Freed \<Rightarrow> Fail Undefined
     | Live [] \<Rightarrow> Ret insn
     | Live (dest # ops) \<Rightarrow>
         r_map (\<lambda>insn1. if mnemonic insn1 = ''enter'' \<or> mnemonic insn1 = ''leave'' then insn1\<lparr>stack_mod := 1\<rparr> else insn1)
           (stack_mod_by (insn\<lparr>stack_mod := 0, stack_mod_val := 0\<rparr>) dest
             (case ops of [] \<Rightarrow> None | src # _ \<Rightarrow> Some src)))"

section \<open>Metadata\<close>

definition ia32_handle_cpu :: "x86_insn_t \<Rightarrow> u32 \<Rightarrow> x86_insn_t" where
  "ia32_handle_cpu insn cpu = insn\<lparr>insn_cpu := CPU_MODEL cpu, insn_isa := drop_bit 16 (ISA_SUBSET cpu)\<rparr>"

definition ia32_handle_mnemtype :: "x86_insn_t \<Rightarrow> u32 \<Rightarrow> x86_insn_t" where
  "ia32_handle_mnemtype insn mnemtype =
    (let ty = mnemtype AND NOT INS_NOTE_MASK in
     insn\<lparr>insn_group := drop_bit 12 (INS_GROUP ty), insn_type := INS_TYPE ty,
       insn_note := drop_bit 20 (mnemtype AND 0xF00000)\<rparr>)"

definition tested_flags :: "u32 \<Rightarrow> u32" where
  "tested_flags eflags =
    (let flags = INS_FLAGS_TEST eflags in
     if flags AND INS_TEST_OR \<noteq> 0 then
       (let flags1 = flags AND NOT INS_TEST_OR in
        if flags1 AND INS_TEST_ZERO \<noteq> 0 then
          (let flags2 = flags1 AND NOT INS_TEST_ZERO in
           if flags2 AND INS_TEST_CARRY \<noteq> 0 then (flags2 AND NOT INS_TEST_CARRY) OR insn_carry_or_zero_set
           else if flags2 AND INS_TEST_SFNEOF \<noteq> 0 then (flags2 AND NOT INS_TEST_SFNEOF) OR insn_zero_set_or_sign_ne_oflow
           else flags2)
        else flags1)
     else flags)"

definition ia32_handle_eflags :: "x86_insn_t \<Rightarrow> u32 \<Rightarrow> x86_insn_t" where
  "ia32_handle_eflags insn eflags =
    insn\<lparr>flags_tested := tested_flags eflags, flags_set := drop_bit 16 (INS_FLAGS_SET eflags)\<rparr>"

definition strncat :: "string \<Rightarrow> string \<Rightarrow> nat \<Rightarrow> string" where
  "strncat dest src n = dest @ take n src"

definition add_prefix_string :: "string \<Rightarrow> x86_insn_t \<Rightarrow> x86_insn_t" where
  "add_prefix_string str insn = insn\<lparr>prefix_string := strncat (prefix_string insn) str (32 - length (prefix_string insn))\<rparr>"

definition ia32_handle_prefix :: "x86_insn_t \<Rightarrow> u32 \<Rightarrow> x86_insn_t" where
  "ia32_handle_prefix insn prefixes =
    (let p = prefixes AND PREFIX_MASK; p1 = (if p AND PREFIX_PRINT_MASK = 0 then insn_no_prefix else p);
         insn1 = insn\<lparr>insn_prefix := p1\<rparr>;
         insn2 = (if p1 AND PREFIX_LOCK \<noteq> 0 then add_prefix_string ''lock '' insn1 else insn1) in
     if p1 AND PREFIX_REPNZ \<noteq> 0 then add_prefix_string ''repnz '' insn2
     else if p1 AND PREFIX_REPZ \<noteq> 0 then add_prefix_string ''repz '' insn2
     else insn2)"

definition reg_32_to_16 :: "x86_op_t \<Rightarrow> x86_op_t" where
  "reg_32_to_16 op =
    (if op_type op = op_register \<and> reg_size (data_reg op) = 4 \<and> reg_type (data_reg op) AND rt_gen \<noteq> 0
     then op\<lparr>data_reg := ia32_handle_register (data_reg op) (unat (reg_id (data_reg op) + 8))\<rparr> else op)"

definition handle_insn_metadata :: "x86_insn_t \<Rightarrow> ia32_insn_t \<Rightarrow> x86_insn_t result" where
  "handle_insn_metadata insn raw_insn =
    ia32_stack_mod (ia32_handle_cpu (ia32_handle_eflags (ia32_handle_mnemtype insn (mnem_flag raw_insn))
      (flags_effected raw_insn)) (i_cpu raw_insn))"

section \<open>Decoding an instruction\<close>

definition GET_BYTE :: "u8 list \<Rightarrow> u32 \<Rightarrow> u8 result" where
  "GET_BYTE buf buf_len = (if buf_len \<noteq> 0 then byte_at buf 0 else Ret 0)"

definition set_sizes :: "u32 \<Rightarrow> u32 \<Rightarrow> x86_insn_t \<Rightarrow> x86_insn_t" where
  "set_sizes options prefixes insn =
    (let po = prefixes AND PREFIX_OP_SIZE \<noteq> 0; pa = prefixes AND PREFIX_ADDR_SIZE \<noteq> 0 in
     if options AND opt_16_bit \<noteq> 0 then insn\<lparr>insn_op_size := (if po then 4 else 2), addr_size := (if pa then 4 else 2)\<rparr>
     else insn\<lparr>insn_op_size := (if po then 2 else 4), addr_size := (if pa then 2 else 4)\<rparr>)"

text \<open>The three explicit operands; \<open>buf\<close> advances by the size of each.\<close>

definition decode_operands ::
  "u8 list \<Rightarrow> u32 \<Rightarrow> ia32_insn_t \<Rightarrow> x86_insn_t \<Rightarrow> u32 \<Rightarrow> u8 \<Rightarrow> (u32 \<times> x86_insn_t) result" where
  "decode_operands buf buf_len raw_insn insn prefixes modrm =
    r_bind (ia32_decode_operand buf buf_len insn (i_dest raw_insn) (dest_flag raw_insn) prefixes modrm) (\<lambda>(n1, insn1).
      let buf1 = drop (unat n1) buf; len1 = buf_len - n1 in
      r_bind (ia32_decode_operand buf1 len1 insn1 (i_src raw_insn) (src_flag raw_insn) prefixes modrm) (\<lambda>(n2, insn2).
        let buf2 = drop (unat n2) buf1; len2 = len1 - n2 in
        r_map (\<lambda>(n3, insn3). (n1 + n2 + n3, insn3))
          (ia32_decode_operand buf2 len2 insn2 (i_aux raw_insn) (aux_flag raw_insn) prefixes modrm)))"

definition ia32_decode_insn ::
  "u32 \<Rightarrow> u8 list \<Rightarrow> u32 \<Rightarrow> ia32_insn_t \<Rightarrow> x86_insn_t \<Rightarrow> u32 \<Rightarrow> (u32 \<times> x86_insn_t) result" where
  "ia32_decode_insn options buf buf_len raw_insn insn prefixes =
    (if mnem_flag raw_insn = INS_INVALID then Ret (0, insn)
     else
       (let insn1 = ia32_handle_prefix ((set_sizes options prefixes insn)\<lparr>mnemonic := take 16 (i_mnemonic raw_insn)\<rparr>) prefixes in
        r_bind (handle_insn_metadata insn1 raw_insn) (\<lambda>insn2.
        r_bind (GET_BYTE buf buf_len) (\<lambda>modrm.
        r_bind (decode_operands buf buf_len raw_insn insn2 prefixes modrm) (\<lambda>(n, insn3).
        r_bind (ia32_insn_implicit_ops insn3 (implicit_ops raw_insn)) (\<lambda>insn4.
        r_bind (if prefixes AND PREFIX_REPZ \<noteq> 0 \<or> prefixes * PREFIX_REPNZ \<noteq> 0
                then ia32_insn_implicit_ops insn4 IDX_IMPLICIT_REP else Ret insn4) (\<lambda>insn5.
        r_map (Pair n)
          (if insn_op_size insn5 = 2 then x86_operand_foreach_op insn5 reg_32_to_16 op_any else Ret insn5))))))))"

section \<open>Looking up the opcode\<close>

definition USES_MOD_RM :: "u32 \<Rightarrow> bool" where
  "USES_MOD_RM flag \<longleftrightarrow> flag = ADDRMETH_E \<or> flag = ADDRMETH_M \<or> flag = ADDRMETH_Q \<or> flag = ADDRMETH_W \<or> flag = ADDRMETH_R"

definition uses_modrm_flag :: "u32 \<Rightarrow> bool" where
  "uses_modrm_flag flag \<longleftrightarrow> flag \<noteq> ARG_NONE \<and> USES_MOD_RM (flag AND ADDRMETH_MASK)"

text \<open>Reading past the end of an array is undefined.\<close>

definition table_at :: "nat \<Rightarrow> ia32_table_desc_t result" where
  "table_at t = (if t < length ia32_tables then Ret (ia32_tables ! t) else Fail Undefined)"

definition row_at :: "ia32_table_desc_t \<Rightarrow> nat \<Rightarrow> ia32_insn_t result" where
  "row_at d n = (if n < length (t_table d) then Ret (t_table d ! n) else Fail Undefined)"

text \<open>The table and the row for a byte; \<open>None\<close> is \<open>return INVALID_INSN\<close>.\<close>

definition table_desc_for :: "nat \<Rightarrow> u8 \<Rightarrow> ia32_table_desc_t result" where
  "table_desc_for table op =
    r_bind (table_at table) (\<lambda>d. if t_type d = tbl_fpu \<and> op > t_maxlim d then table_at (table + 1) else Ret d)"

definition table_row :: "ia32_table_desc_t \<Rightarrow> u8 \<Rightarrow> ia32_insn_t option result" where
  "table_row d op =
    (let op1 = drop_bit (t_shift d) op AND t_mask d in
     if op1 > t_maxlim d \<or> t_minlim d > op1 then Ret None
     else r_map Some (row_at d (unat (op1 - t_minlim d))))"

definition row_prefix :: "ia32_insn_t \<Rightarrow> u32" where
  "row_prefix raw_insn =
    (if mnem_flag raw_insn AND INS_NOTE_PREFIX \<noteq> 0 then mnem_flag raw_insn AND PREFIX_MASK else 0)"

text \<open>Whether the row escapes to another table, and whether that table looks at the same byte again.\<close>

definition escapes :: "ia32_insn_t \<Rightarrow> u32 \<Rightarrow> bool result" where
  "escapes raw_insn prefixes =
    r_and (Ret (i_table raw_insn \<noteq> 0))
      (r_map (\<lambda>d. t_type d \<noteq> tbl_suffix \<and> (row_prefix raw_insn = 0 \<or> prefixes = 0)) (table_at (i_table raw_insn)))"

definition same_byte :: "ia32_table_desc_t \<Rightarrow> bool" where
  "same_byte d \<longleftrightarrow> t_type d = tbl_ext_ext \<or> t_type d = tbl_fpu_ext"

text \<open>The branch hints share the bytes of two segment overrides.\<close>

definition branch_hint :: "u32 \<Rightarrow> ia32_insn_t \<Rightarrow> u32" where
  "branch_hint prefix raw_insn =
    (if prefix AND BRANCH_HINT_MASK \<noteq> 0 then
       (if INS_GROUP (mnem_flag raw_insn) = INS_EXEC then prefix AND NOT PREFIX_REG_MASK
        else prefix AND NOT BRANCH_HINT_MASK)
     else prefix)"

text \<open>The number of bytes that the lookup in this table adds.\<close>

definition row_size_of :: "ia32_table_desc_t \<Rightarrow> ia32_insn_t \<Rightarrow> u32" where
  "row_size_of d raw_insn =
    (if t_type d = tbl_ext_ext then 0
     else if (t_type d = tbl_extension \<or> t_type d = tbl_fpu_ext \<or> t_type d = tbl_fpu) \<and>
       (uses_modrm_flag (dest_flag raw_insn) \<or> uses_modrm_flag (src_flag raw_insn)) then 0
     else 1)"

definition deref :: "'a option \<Rightarrow> 'a result" where
  "deref p = (case p of None \<Rightarrow> Fail Undefined | Some x \<Rightarrow> Ret x)"

text \<open>
  A table that looks at the same byte again has no row that escapes to another table: the lookup ends because
  every other escape consumes a byte.
\<close>

definition plain_rows :: "ia32_insn_t list \<Rightarrow> bool" where
  "plain_rows rows = list_all (\<lambda>r. i_table r = 0) rows"

lemma ext_tables_plain:
  "plain_rows tbl_0F0111" "plain_rows tbl_D8C0" "plain_rows tbl_D9C0" "plain_rows tbl_DAC0" "plain_rows tbl_DBC0" "plain_rows tbl_DCC0" "plain_rows tbl_DDC0" "plain_rows tbl_DEC0" "plain_rows tbl_DFC0"
  by (simp_all add: plain_rows_def tbl_0F0111_def tbl_D8C0_def tbl_D9C0_def tbl_DAC0_def tbl_DBC0_def tbl_DCC0_def tbl_DDC0_def tbl_DEC0_def tbl_DFC0_def)

lemma same_byte_tables: "list_all (\<lambda>d. same_byte d \<longrightarrow> plain_rows (t_table d)) ia32_tables"
  by (simp add: ia32_tables_def table_desc_def same_byte_def ext_tables_plain)

definition lookup_rank :: "nat \<Rightarrow> nat" where
  "lookup_rank t = (case table_at t of Ret d \<Rightarrow> if same_byte d then 0 else 1 | Fail e \<Rightarrow> 1)"

lemma escape_rank:
  assumes "table_desc_for table op = Ret d" and "table_row d op = Ret (Some ri)" and "escapes ri prefixes = Ret True"
    and "table_at (i_table ri) = Ret sub" and "same_byte sub"
  shows "lookup_rank (i_table ri) < lookup_rank table"
proof -
  obtain d0 where d0: "table_at table = Ret d0" using assms(1) by (auto simp: table_desc_for_def result_simps)
  have "\<not> same_byte d0"
  proof
    assume sb: "same_byte d0"
    with d0 assms(1) have "d = d0" by (auto simp: table_desc_for_def same_byte_def)
    with assms(2) have "ri \<in> set (t_table d0)"
      by (auto simp: table_row_def row_at_def Let_def result_simps split: if_splits)
    moreover have "plain_rows (t_table d0)"
      using same_byte_tables d0 sb by (auto simp: list_all_iff table_at_def split: if_splits)
    ultimately have "i_table ri = 0" by (simp add: plain_rows_def list_all_iff)
    with assms(3) show False by (simp add: escapes_def)
  qed
  with d0 assms(4,5) show ?thesis by (simp add: lookup_rank_def)
qed

text \<open>
  The pointer \<open>*raw_insn\<close> is null before the first ri was found. The result is the size, the ri and the prefixes.
\<close>

function ia32_table_lookup ::
  "u8 list \<Rightarrow> u32 \<Rightarrow> nat \<Rightarrow> ia32_insn_t option \<Rightarrow> u32 \<Rightarrow> (u32 \<times> ia32_insn_t option \<times> u32) result" where
  "ia32_table_lookup buf buf_len table raw_insn prefixes =
    r_bind (byte_at buf 0) (\<lambda>b.
    let op = (if buf_len = 0 then 0 else b) in
    r_bind (table_desc_for table op) (\<lambda>d.
    r_bind (table_row d op) (\<lambda>r. case r of
      None \<Rightarrow> Ret (INVALID_INSN, raw_insn, prefixes)
    | Some ri \<Rightarrow>
        r_bind (escapes ri prefixes) (\<lambda>esc.
        r_bind (if esc then
            r_bind (table_at (i_table ri)) (\<lambda>sub.
              if same_byte sub then ia32_table_lookup buf buf_len (i_table ri) (Some ri) prefixes
              else ia32_table_lookup (drop 1 buf) (buf_len - 1) (i_table ri) (Some ri) prefixes)
          else Ret (0, Some ri, prefixes)) (\<lambda>(sub_size, raw1, prefixes1).
        r_bind (if esc then
            r_map (\<lambda>r1. row_prefix ri \<noteq> 0 \<and> (sub_size = INVALID_INSN \<or> INS_TYPE (mnem_flag r1) = INS_INVALID)) (deref raw1)
          else Ret (row_prefix ri \<noteq> 0)) (\<lambda>recurse_table.
        r_bind (if recurse_table then
            r_bind (ia32_table_lookup (drop 1 buf) (buf_len - 1) table raw1 prefixes1) (\<lambda>(n, raw2, prefixes2).
              r_map (\<lambda>r2. (n, raw2, prefixes2 OR branch_hint (row_prefix ri) r2)) (deref raw2))
          else Ret (sub_size, raw1, prefixes1)) (\<lambda>(sub_size2, raw2, prefixes2).
        r_map (\<lambda>r2. (row_size_of d r2 + sub_size2, raw2, prefixes2)) (deref raw2))))))))"
  by pat_completeness auto
termination
proof (relation "measures [\<lambda>(buf, buf_len, table, raw, p). length buf, \<lambda>(buf, buf_len, table, raw, p). lookup_rank table]", goal_cases)
  case 1
  then show ?case by simp
next
  case 2
  then show ?case by (auto intro: escape_rank)
qed (auto simp: byte_at_def split: if_splits)

declare ia32_table_lookup.simps [simp del]

section \<open>Disassembling\<close>

text \<open>
  The variable \<open>size\<close> is read before it is set; \<open>junk\<close> is what it holds. The byte read there is not used. The pointer
  \<open>sfx_insn\<close> is not set either: it is null here until a row was found, and following it is undefined.
\<close>

definition handle_insn_suffix :: "u32 \<Rightarrow> u8 list \<Rightarrow> u32 \<Rightarrow> ia32_insn_t \<Rightarrow> x86_insn_t \<Rightarrow> (u32 \<times> x86_insn_t) result" where
  "handle_insn_suffix junk buf buf_len raw_insn insn =
    r_bind (GET_BYTE (drop (unat junk) buf) (buf_len - junk)) (\<lambda>op.
    r_bind (ia32_table_lookup buf buf_len (i_table raw_insn) None 0) (\<lambda>(n, sfx, prefixes).
    if n = 0 then Ret (0, insn)
    else
      r_bind (deref sfx) (\<lambda>sfx_insn.
      if mnem_flag sfx_insn = INS_INVALID then Ret (0, insn)
      else r_map (Pair 1) (handle_insn_metadata (insn\<lparr>mnemonic := take 16 (i_mnemonic sfx_insn)\<rparr>) sfx_insn))))"

definition MAKE_INVALID :: "x86_insn_t \<Rightarrow> x86_insn_t result" where
  "MAKE_INVALID insn =
    r_map (\<lambda>insn1. insn1\<lparr>insn_size := 0, insn_group := insn_none, insn_type := insn_invalid\<rparr>)
      (x86_oplist_free (insn\<lparr>mnemonic := ''invalid''\<rparr>))"

definition four_nulls :: "u8 list \<Rightarrow> bool result" where
  "four_nulls buf = r_and (r_map (\<lambda>b. b = 0) (byte_at buf 0)) (r_and (r_map (\<lambda>b. b = 0) (byte_at buf 1))
    (r_and (r_map (\<lambda>b. b = 0) (byte_at buf 2)) (r_map (\<lambda>b. b = 0) (byte_at buf 3))))"

definition ia32_disasm_addr :: "u32 \<Rightarrow> u32 \<Rightarrow> u8 list \<Rightarrow> u32 \<Rightarrow> (u32 \<times> x86_insn_t) result" where
  "ia32_disasm_addr options junk buf buf_len =
    r_bind (r_and (Ret (options AND opt_ignore_nulls \<noteq> 0 \<and> buf_len > 3)) (four_nulls buf)) (\<lambda>nulls.
    if nulls then Ret (0, zero_insn)
    else
      r_bind (ia32_table_lookup buf buf_len idx_Main None 0) (\<lambda>(n, raw, prefixes).
      if n = INVALID_INSN \<or> n > buf_len then r_map (Pair 0) (MAKE_INVALID zero_insn)
      else
        r_bind (deref raw) (\<lambda>raw_insn.
        r_bind (ia32_decode_insn options (drop (unat n) buf) (buf_len - n) raw_insn zero_insn prefixes) (\<lambda>(k, insn).
        let sz = n + k in
        if mnem_flag raw_insn AND INS_NOTE_SUFFIX \<noteq> 0 then
          r_bind (handle_insn_suffix junk (drop (unat sz) buf) (buf_len - sz) raw_insn insn) (\<lambda>(sfx_size, insn1).
            if sfx_size = 0 then r_map (Pair 0) (MAKE_INVALID insn1) else Ret (sz + sfx_size, insn1))
        else Ret (sz, insn)))))"

end
