(* ===== verification/X86Disasm.thy ===== *)
theory X86Disasm
  imports Ia32Decode
begin

text \<open>
  The entry points of libdisasm, \<^verbatim>\<open>x86_disasm.c\<close>. What the loops do to the outside is a list of events, in their order: the
  callback invoked on an instruction, or \<open>x86_report_error\<close> with the report code and its argument.
\<close>

section \<open>One instruction\<close>

datatype x86_report_codes = report_disasm_bounds | report_insn_bounds | report_invalid_insn | report_unknown

text \<open>
  The result: the number of bytes, the structure and what was reported. The structure is left as it was
  when the offset lies outside of the buffer. \<open>memcpy\<close> of more than \<open>MAX_INSN_SIZE\<close> bytes overruns the array \<open>bytes\<close>, and
  it must not read past the bytes that are there, which may be fewer than \<open>buf_len\<close> says.
\<close>

record disasm_result =
  d_size :: u32
  d_insn :: x86_insn_t
  d_report :: "(x86_report_codes \<times> u32) option"

definition x86_disasm ::
  "u32 \<Rightarrow> u32 \<Rightarrow> u8 list \<Rightarrow> u32 \<Rightarrow> u32 \<Rightarrow> u32 \<Rightarrow> x86_insn_t \<Rightarrow> disasm_result result" where
  "x86_disasm options junk buf buf_len buf_rva off insn =
    (let rva = buf_rva + off; len = buf_len - off in
     if buf_len = 0 then Ret \<lparr>d_size = 0, d_insn = insn, d_report = None\<rparr>
     else if off \<ge> buf_len then Ret \<lparr>d_size = 0, d_insn = insn, d_report = Some (report_disasm_bounds, rva)\<rparr>
     else
       r_bind (ia32_disasm_addr options junk (drop (unat off) buf) len) (\<lambda>(n, insn1).
       if n = 0 then Ret \<lparr>d_size = 0, d_insn = insn1, d_report = Some (report_invalid_insn, rva)\<rparr>
       else if sint n > sint len then Ret \<lparr>d_size = 0, d_insn = insn1, d_report = Some (report_insn_bounds, rva)\<rparr>
       else if unat n > MAX_INSN_SIZE \<or> unat off + unat n > length buf then Fail Undefined
       else Ret \<lparr>d_size = n,
         d_insn = insn1\<lparr>addr := rva, offset := off, insn_size := ucast n,
           insn_bytes := take (unat n) (drop (unat off) buf) @ drop (unat n) (insn_bytes insn1)\<rparr>,
         d_report = None\<rparr>))"

datatype x86_event = Callback x86_insn_t | Reported "x86_report_codes \<times> u32"

text \<open>What one turn of the loops does: the report of \<open>x86_disasm\<close>, or the callback.\<close>

definition disasm_events :: "disasm_result \<Rightarrow> x86_event list" where
  "disasm_events r =
    (case d_report r of None \<Rightarrow> [] | Some e \<Rightarrow> [Reported e]) @ (if d_size r \<noteq> 0 then [Callback (d_insn r)] else [])"

text \<open>The instructions that the callback saw. Their number is the \<open>count\<close> that the loops return.\<close>

fun callbacks :: "x86_event list \<Rightarrow> x86_insn_t list" where
  "callbacks [] = []"
| "callbacks (Callback insn # es) = insn # callbacks es"
| "callbacks (Reported e # es) = callbacks es"

section \<open>A range of bytes\<close>

text \<open>The numbers of the loop are natural numbers; \<open>offset + len\<close>, the length of the buffer, fits 31 bits.\<close>

function range_loop ::
  "u32 \<Rightarrow> u32 \<Rightarrow> u8 list \<Rightarrow> u32 \<Rightarrow> nat \<Rightarrow> nat \<Rightarrow> nat \<Rightarrow> x86_insn_t \<Rightarrow> x86_event list result" where
  "range_loop options junk buf buf_rva off len bytes insn =
    (if bytes < len then
       r_bind (x86_disasm options junk buf (of_nat (len + off)) buf_rva (of_nat (off + bytes)) insn) (\<lambda>r.
         r_map (\<lambda>es. disasm_events r @ es)
           (if d_size r \<noteq> 0
            then range_loop options junk buf buf_rva off len (bytes + unat (d_size r)) (d_insn r)
            else range_loop options junk buf buf_rva off len (bytes + 1) (d_insn r)))
     else Ret [])"
  by pat_completeness auto
termination
  by (relation "measure (\<lambda>(options, junk, buf, rva, off, len, bytes, insn). len - bytes)")
    (auto simp: unat_gt_0 intro!: diff_less_mono2)

declare range_loop.simps [simp del]

definition x86_disasm_range ::
  "u32 \<Rightarrow> u32 \<Rightarrow> u8 list \<Rightarrow> u32 \<Rightarrow> nat \<Rightarrow> nat \<Rightarrow> x86_insn_t \<Rightarrow> (nat \<times> x86_event list) result" where
  "x86_disasm_range options junk buf buf_rva off len insn =
    r_map (\<lambda>es. (length (callbacks es), es)) (range_loop options junk buf buf_rva off len 0 insn)"

section \<open>Following the flow of control\<close>

definition follow_insn_dest :: "x86_insn_t \<Rightarrow> bool" where
  "follow_insn_dest insn \<longleftrightarrow> insn_type insn = insn_jmp \<or> insn_type insn = insn_jcc \<or> insn_type insn = insn_call
    \<or> insn_type insn = insn_callcc"

definition insn_doesnt_return :: "x86_insn_t \<Rightarrow> bool" where
  "insn_doesnt_return insn \<longleftrightarrow> insn_type insn = insn_jmp \<or> insn_type insn = insn_return"

definition internal_resolver :: "x86_op_t \<Rightarrow> x86_insn_t \<Rightarrow> u32" where
  "internal_resolver op insn =
    (if x86_optype_is_address (op_type op) then ucast (data_word op)
     else if op_type op = op_relative_near then addr insn + ucast (insn_size insn) + of_int (relative_near op)
     else if op_type op = op_relative_far then addr insn + ucast (insn_size insn) + of_int (relative_far op)
     else - 1)"

text \<open>
  Where to go from an instruction: \<open>None\<close> if it does not transfer control or the target is not in the buffer, which is
  reported. The resolver of the caller reads through the pointer, and so does the internal one.
\<close>

definition next_offset ::
  "(x86_op_t option \<Rightarrow> x86_insn_t \<Rightarrow> u32 result) option \<Rightarrow> u32 \<Rightarrow> u32 \<Rightarrow> x86_insn_t \<Rightarrow> (u32 option \<times> x86_event list) result" where
  "next_offset resolver buf_len buf_rva insn =
    (if \<not> follow_insn_dest insn then Ret (None, [])
     else
       r_bind (x86_operand_1st insn) (\<lambda>op.
       r_bind (case resolver of
           Some f \<Rightarrow> f op insn
         | None \<Rightarrow> r_map (\<lambda>x. internal_resolver x insn) (deref op)) (\<lambda>next_addr.
       Ret (if next_addr = - 1 then (None, [])
         else if next_addr - buf_rva < buf_len then (Some (next_addr - buf_rva), [])
         else (None, [Reported (report_disasm_bounds, next_addr)])))))"

text \<open>
  The recursion need not end: \<open>None\<close> is a call that never returns. \<open>raw\<close> is what the local structure of a new call holds.
\<close>

partial_function (option) forward_loop ::
  "u32 \<Rightarrow> u32 \<Rightarrow> x86_insn_t \<Rightarrow> u8 list \<Rightarrow> u32 \<Rightarrow> u32 \<Rightarrow> (x86_op_t option \<Rightarrow> x86_insn_t \<Rightarrow> u32 result) option \<Rightarrow> u32 \<Rightarrow> nat
    \<Rightarrow> x86_insn_t \<Rightarrow> x86_event list result option" where
  "forward_loop options junk raw buf buf_len buf_rva resolver off bytes insn =
    (if bytes < unat buf_len then
       (case x86_disasm options junk buf buf_len buf_rva (off + of_nat bytes) insn of
          Fail e \<Rightarrow> Some (Fail e)
        | Ret r \<Rightarrow>
            let insn1 = d_insn r; here = disasm_events r;
                bytes1 = (if d_size r \<noteq> 0 then bytes + unat (d_size r) else bytes + 1) in
            (case next_offset resolver buf_len buf_rva insn1 of
               Fail e \<Rightarrow> Some (Fail e)
             | Ret (target, reports) \<Rightarrow>
                 Option.bind (case target of
                     None \<Rightarrow> Some (Ret reports)
                   | Some t \<Rightarrow> forward_loop options junk raw buf buf_len buf_rva resolver t 0 raw) (\<lambda>there.
                 (case there of
                    Fail e \<Rightarrow> Some (Fail e)
                  | Ret es \<Rightarrow>
                      if insn_doesnt_return insn1 then Some (Ret (here @ es))
                      else Option.bind (forward_loop options junk raw buf buf_len buf_rva resolver off bytes1 insn1)
                        (\<lambda>rest. Some (r_map (\<lambda>fs. here @ es @ fs) rest))))))
     else Some (Ret []))"

definition x86_disasm_forward ::
  "u32 \<Rightarrow> u32 \<Rightarrow> x86_insn_t \<Rightarrow> u8 list \<Rightarrow> u32 \<Rightarrow> u32 \<Rightarrow> u32 \<Rightarrow> (x86_op_t option \<Rightarrow> x86_insn_t \<Rightarrow> u32 result) option
    \<Rightarrow> (nat \<times> x86_event list) result option" where
  "x86_disasm_forward options junk raw buf buf_len buf_rva off resolver =
    map_option (r_map (\<lambda>es. (length (callbacks es), es)))
      (forward_loop options junk raw buf buf_len buf_rva resolver off 0 raw)"

end
