(* ===== verification/Ia32Lookup.thy ===== *)
theory Ia32Lookup
  imports Ia32Decode
begin

text \<open>
  Facts about the opcode tables and the lookup in them.
\<close>

section \<open>The main table\<close>

definition main_desc :: ia32_table_desc_t where
  "main_desc = table_desc tbl_Main tbl_opcode 0 0xFF 0 0xFF"

lemma table_desc_simps [simp]:
  "t_table (table_desc tb ty sh m lo hi) = tb" "t_type (table_desc tb ty sh m lo hi) = ty"
  "t_shift (table_desc tb ty sh m lo hi) = sh" "t_mask (table_desc tb ty sh m lo hi) = m"
  "t_minlim (table_desc tb ty sh m lo hi) = lo" "t_maxlim (table_desc tb ty sh m lo hi) = hi"
  by (simp_all add: table_desc_def)

lemma table_at_main: "table_at idx_Main = Ret main_desc"
  by (simp add: table_at_def ia32_tables_def idx_Main_def main_desc_def)

lemma length_tbl_Main: "length tbl_Main = 256"
  by (simp add: tbl_Main_def tbl_Main_00_def tbl_Main_40_def tbl_Main_80_def tbl_Main_C0_def)

lemma byte_full: "b AND 0xFF = b" "b \<le> 0xFF" "\<not> 0xFF < b" for b :: u8
proof -
  have m: "(0xFF :: u8) = - 1" by simp
  show "b AND 0xFF = b" "b \<le> 0xFF" "\<not> 0xFF < b" unfolding m by (simp_all add: word_order.extremum not_less)
qed

lemma unat_byte: "unat (b :: u8) < 256"
  by (rule order_less_le_trans [OF unsigned_less]) simp

lemma main_row: "table_desc_for idx_Main b = Ret main_desc" "table_row main_desc b = Ret (Some (tbl_Main ! unat b))"
proof -
  show "table_desc_for idx_Main b = Ret main_desc"
    by (simp add: table_desc_for_def table_at_main main_desc_def)
  show "table_row main_desc b = Ret (Some (tbl_Main ! unat b))"
    using unat_byte [of b] by (simp add: table_row_def main_desc_def byte_full row_at_def length_tbl_Main)
qed

lemma row_size_main: "row_size_of main_desc ri = 1"
  by (simp add: row_size_of_def main_desc_def)

text \<open>An opcode of one byte.\<close>

lemma lookup_plain:
  assumes "tbl_Main ! unat b = ri" and "i_table ri = 0" and "row_prefix ri = 0" and "buf_len \<noteq> 0"
  shows "ia32_table_lookup (b # bs) buf_len idx_Main raw p = Ret (1, Some ri, p)"
  using assms by (subst ia32_table_lookup.simps) (simp add: byte_at_def main_row escapes_def deref_def row_size_main)

text \<open>A prefix that selects no other table.\<close>

lemma lookup_prefix:
  assumes "tbl_Main ! unat b = ri" and "i_table ri = 0" and "row_prefix ri \<noteq> 0" and "buf_len \<noteq> 0"
    and "ia32_table_lookup bs (buf_len - 1) idx_Main (Some ri) p = Ret (n, Some r2, p2)"
  shows "ia32_table_lookup (b # bs) buf_len idx_Main raw p = Ret (1 + n, Some r2, p2 OR branch_hint (row_prefix ri) r2)"
  using assms by (subst ia32_table_lookup.simps)
    (simp add: byte_at_def main_row escapes_def deref_def row_size_main)

section \<open>Prefixes\<close>

definition row_CS :: ia32_insn_t where "row_CS = tbl_Main ! 0x2E"
definition row_NOP :: ia32_insn_t where "row_NOP = tbl_Main ! 0x90"

lemma row_NOP_eq: "row_NOP = opcode 0 INS_NOP ARG_NONE ARG_NONE ARG_NONE (cpu_80386 OR isa_GP) ''nop'' 0 0 0 0 0"
  by (simp add: row_NOP_def tbl_Main_def tbl_Main_00_def tbl_Main_40_def tbl_Main_80_def nth_append)

lemma row_CS_eq: "row_CS = opcode 0 (INS_NOTE_PREFIX OR PREFIX_CS OR PREFIX_NOTTAKEN) ARG_NONE ARG_NONE ARG_NONE
    (cpu_80386 OR isa_GP) [] 0 0 0 0 0"
  by (simp add: row_CS_def tbl_Main_def tbl_Main_00_def nth_append)

section \<open>The tables are well formed\<close>

text \<open>
  How many bytes a lookup that starts in a table may look at, prefixes apart, and how many an escape to a table
  may look at from the byte of the escape on. An escape to a suffix table does not take place during the lookup.
\<close>

definition bytes_needed :: "nat list" where
  "bytes_needed = [4, 3, 2, 2, 2, 2, 1, 1, 1, 1, 1, 1, 1, 1, 1, 1, 1, 1, 1, 1, 1, 1, 1, 1, 1, 1, 1, 1, 1, 1, 1, 1, 1, 1, 1, 1, 1, 1, 1, 1, 1, 1, 1, 1, 1, 1, 1, 1, 1, 1, 1, 1, 1, 1, 1, 1, 1]"

definition step_needed :: "nat \<Rightarrow> nat" where
  "step_needed t =
    (let d = ia32_tables ! t in
     if t_type d = tbl_suffix then 0 else if same_byte d then bytes_needed ! t else bytes_needed ! t + 1)"

definition subs_ok :: "nat \<Rightarrow> ia32_insn_t list \<Rightarrow> bool" where
  "subs_ok k rows = list_all (\<lambda>r. i_table r = 0 \<or> i_table r < 57 \<and> step_needed (i_table r) \<le> k) rows"

definition rows_ok :: "nat \<Rightarrow> ia32_insn_t list \<Rightarrow> bool" where
  "rows_ok k rows = list_all (\<lambda>r. mnem_flag r AND INS_NOTE_PREFIX = 0 \<and>
    (i_table r = 0 \<or> i_table r < 57 \<and> step_needed (i_table r) \<le> k)) rows"

text \<open>Every index that the shift, the mask and the limits let through is an index of the table.\<close>

definition desc_ok :: "ia32_table_desc_t \<Rightarrow> bool" where
  "desc_ok d \<longleftrightarrow> min (unat (t_mask d)) (unat (t_maxlim d)) < unat (t_minlim d) + length (t_table d)"

lemma opcode_mnem [simp]: "mnem_flag (opcode tb mf df sf af cpu mn d s a fe im) = mf"
  by (simp add: opcode_def)

lemma row_steps:
  "idx_66 < 57 \<and> step_needed idx_66 = 4"
  "idx_F2 < 57 \<and> step_needed idx_F2 = 3"
  "idx_F3 < 57 \<and> step_needed idx_F3 = 3"
  "idx_0F < 57 \<and> step_needed idx_0F = 3"
  "idx_660F < 57 \<and> step_needed idx_660F = 3"
  "idx_F20F < 57 \<and> step_needed idx_F20F = 2"
  "idx_F30F < 57 \<and> step_needed idx_F30F = 2"
  "idx_0F00 < 57 \<and> step_needed idx_0F00 = 2"
  "idx_0F01 < 57 \<and> step_needed idx_0F01 = 2"
  "idx_0F0111 < 57 \<and> step_needed idx_0F0111 = 1"
  "idx_0F12 < 57 \<and> step_needed idx_0F12 = 2"
  "idx_0F16 < 57 \<and> step_needed idx_0F16 = 2"
  "idx_0F18 < 57 \<and> step_needed idx_0F18 = 2"
  "idx_0F71 < 57 \<and> step_needed idx_0F71 = 2"
  "idx_660F71 < 57 \<and> step_needed idx_660F71 = 2"
  "idx_0F72 < 57 \<and> step_needed idx_0F72 = 2"
  "idx_660F72 < 57 \<and> step_needed idx_660F72 = 2"
  "idx_0F73 < 57 \<and> step_needed idx_0F73 = 2"
  "idx_660F73 < 57 \<and> step_needed idx_660F73 = 2"
  "idx_0FAE < 57 \<and> step_needed idx_0FAE = 2"
  "idx_0FBA < 57 \<and> step_needed idx_0FBA = 2"
  "idx_C6 < 57 \<and> step_needed idx_C6 = 2"
  "idx_C7 < 57 \<and> step_needed idx_C7 = 2"
  "idx_80 < 57 \<and> step_needed idx_80 = 2"
  "idx_81 < 57 \<and> step_needed idx_81 = 2"
  "idx_82 < 57 \<and> step_needed idx_82 = 2"
  "idx_83 < 57 \<and> step_needed idx_83 = 2"
  "idx_C0 < 57 \<and> step_needed idx_C0 = 2"
  "idx_C1 < 57 \<and> step_needed idx_C1 = 2"
  "idx_D0 < 57 \<and> step_needed idx_D0 = 2"
  "idx_D1 < 57 \<and> step_needed idx_D1 = 2"
  "idx_D2 < 57 \<and> step_needed idx_D2 = 2"
  "idx_D3 < 57 \<and> step_needed idx_D3 = 2"
  "idx_F6 < 57 \<and> step_needed idx_F6 = 2"
  "idx_F7 < 57 \<and> step_needed idx_F7 = 2"
  "idx_FE < 57 \<and> step_needed idx_FE = 2"
  "idx_FF < 57 \<and> step_needed idx_FF = 2"
  "idx_D8 < 57 \<and> step_needed idx_D8 = 2"
  "idx_D9 < 57 \<and> step_needed idx_D9 = 2"
  "idx_DA < 57 \<and> step_needed idx_DA = 2"
  "idx_DB < 57 \<and> step_needed idx_DB = 2"
  "idx_DC < 57 \<and> step_needed idx_DC = 2"
  "idx_DD < 57 \<and> step_needed idx_DD = 2"
  "idx_DE < 57 \<and> step_needed idx_DE = 2"
  "idx_DF < 57 \<and> step_needed idx_DF = 2"
  "idx_0F0F < 57 \<and> step_needed idx_0F0F = 0"
  by (simp_all add: step_needed_def ia32_tables_def bytes_needed_def same_byte_def idx_66_def idx_F2_def idx_F3_def idx_0F_def idx_660F_def idx_F20F_def idx_F30F_def idx_0F00_def idx_0F01_def idx_0F0111_def idx_0F12_def idx_0F16_def idx_0F18_def idx_0F71_def idx_660F71_def idx_0F72_def idx_660F72_def idx_0F73_def idx_660F73_def idx_0FAE_def idx_0FBA_def idx_C6_def idx_C7_def idx_80_def idx_81_def idx_82_def idx_83_def idx_C0_def idx_C1_def idx_D0_def idx_D1_def idx_D2_def idx_D3_def idx_F6_def idx_F7_def idx_FE_def idx_FF_def idx_D8_def idx_D9_def idx_DA_def idx_DB_def idx_DC_def idx_DD_def idx_DE_def idx_DF_def idx_0F0F_def)

lemma not_prefix:
  "INS_ADD AND INS_NOTE_PREFIX = 0"
  "INS_AND AND INS_NOTE_PREFIX = 0"
  "INS_ARITH AND INS_NOTE_PREFIX = 0"
  "INS_AVG AND INS_NOTE_PREFIX = 0"
  "INS_BITTEST AND INS_NOTE_PREFIX = 0"
  "INS_BRANCH AND INS_NOTE_PREFIX = 0"
  "INS_BRANCHCC AND INS_NOTE_PREFIX = 0"
  "INS_CALL AND INS_NOTE_PREFIX = 0"
  "INS_CMP AND INS_NOTE_PREFIX = 0"
  "INS_CONV AND INS_NOTE_PREFIX = 0"
  "INS_CPUID AND INS_NOTE_PREFIX = 0"
  "INS_DEC AND INS_NOTE_PREFIX = 0"
  "INS_DIV AND INS_NOTE_PREFIX = 0"
  "INS_FPU AND INS_NOTE_PREFIX = 0"
  "INS_INC AND INS_NOTE_PREFIX = 0"
  "INS_INVALID AND INS_NOTE_PREFIX = 0"
  "INS_MAX AND INS_NOTE_PREFIX = 0"
  "INS_MIN AND INS_NOTE_PREFIX = 0"
  "INS_MOV AND INS_NOTE_PREFIX = 0"
  "INS_MOVCC AND INS_NOTE_PREFIX = 0"
  "INS_MUL AND INS_NOTE_PREFIX = 0"
  "INS_NEG AND INS_NOTE_PREFIX = 0"
  "INS_NOT AND INS_NOTE_PREFIX = 0"
  "INS_NOTE_SUFFIX AND INS_NOTE_PREFIX = 0"
  "INS_OR AND INS_NOTE_PREFIX = 0"
  "INS_OTHER AND INS_NOTE_PREFIX = 0"
  "INS_POP AND INS_NOTE_PREFIX = 0"
  "INS_PUSH AND INS_NOTE_PREFIX = 0"
  "INS_ROL AND INS_NOTE_PREFIX = 0"
  "INS_ROR AND INS_NOTE_PREFIX = 0"
  "INS_SHL AND INS_NOTE_PREFIX = 0"
  "INS_SHR AND INS_NOTE_PREFIX = 0"
  "INS_SUB AND INS_NOTE_PREFIX = 0"
  "INS_SYSTEM AND INS_NOTE_PREFIX = 0"
  "INS_TEST AND INS_NOTE_PREFIX = 0"
  "INS_UNKNOWN AND INS_NOTE_PREFIX = 0"
  "INS_XCHG AND INS_NOTE_PREFIX = 0"
  "INS_XCHGCC AND INS_NOTE_PREFIX = 0"
  "INS_XOR AND INS_NOTE_PREFIX = 0"
  by (simp_all add: INS_NOTE_PREFIX_def INS_ADD_def INS_AND_def INS_ARITH_def INS_AVG_def INS_BITTEST_def INS_BIT_def INS_BRANCHCC_def INS_BRANCH_def INS_CALL_def INS_CMP_def INS_COND_def INS_CONV_def INS_CPUID_def INS_DEC_def INS_DIV_def INS_EXEC_def INS_FPU_def INS_INC_def INS_INVALID_def INS_LOAD_def INS_LOGIC_def INS_MAX_def INS_MIN_def INS_MOVCC_def INS_MOV_def INS_MUL_def INS_NEG_def INS_NOTE_SUFFIX_def INS_NOT_def INS_OR_def INS_OTHER_def INS_POP_def INS_PUSH_def INS_ROL_def INS_ROR_def INS_SHL_def INS_SHR_def INS_STACK_def INS_SUB_def INS_SYSTEM_def INS_TEST_def INS_UNKNOWN_def INS_XCHGCC_def INS_XCHG_def INS_XOR_def)

lemma len_tbl_66: "length tbl_66 = 1"
  by (simp add: tbl_66_def)

lemma len_tbl_F2: "length tbl_F2 = 1"
  by (simp add: tbl_F2_def)

lemma len_tbl_F3: "length tbl_F3 = 130"
  by (simp add: tbl_F3_00_def tbl_F3_40_def tbl_F3_80_def tbl_F3_def)

lemma len_tbl_0F: "length tbl_0F = 256"
  by (simp add: tbl_0F_00_def tbl_0F_40_def tbl_0F_80_def tbl_0F_C0_def tbl_0F_def)

lemma len_tbl_660F: "length tbl_660F = 240"
  by (simp add: tbl_660F_00_def tbl_660F_40_def tbl_660F_80_def tbl_660F_C0_def tbl_660F_def)

lemma len_tbl_F20F: "length tbl_F20F = 240"
  by (simp add: tbl_F20F_00_def tbl_F20F_40_def tbl_F20F_80_def tbl_F20F_C0_def tbl_F20F_def)

lemma len_tbl_F30F: "length tbl_F30F = 240"
  by (simp add: tbl_F30F_00_def tbl_F30F_40_def tbl_F30F_80_def tbl_F30F_C0_def tbl_F30F_def)

lemma len_tbl_0F00: "length tbl_0F00 = 8"
  by (simp add: tbl_0F00_def)

lemma len_tbl_0F01: "length tbl_0F01 = 32"
  by (simp add: tbl_0F01_def)

lemma len_tbl_0F0111: "length tbl_0F0111 = 2"
  by (simp add: tbl_0F0111_def)

lemma len_tbl_0F12: "length tbl_0F12 = 4"
  by (simp add: tbl_0F12_def)

lemma len_tbl_0F16: "length tbl_0F16 = 4"
  by (simp add: tbl_0F16_def)

lemma len_tbl_0F18: "length tbl_0F18 = 20"
  by (simp add: tbl_0F18_def)

lemma len_tbl_0F71: "length tbl_0F71 = 32"
  by (simp add: tbl_0F71_def)

lemma len_tbl_660F71: "length tbl_660F71 = 32"
  by (simp add: tbl_660F71_def)

lemma len_tbl_0F72: "length tbl_0F72 = 32"
  by (simp add: tbl_0F72_def)

lemma len_tbl_660F72: "length tbl_660F72 = 32"
  by (simp add: tbl_660F72_def)

lemma len_tbl_0F73: "length tbl_0F73 = 32"
  by (simp add: tbl_0F73_def)

lemma len_tbl_660F73: "length tbl_660F73 = 32"
  by (simp add: tbl_660F73_def)

lemma len_tbl_0FAE: "length tbl_0FAE = 32"
  by (simp add: tbl_0FAE_def)

lemma len_tbl_0FBA: "length tbl_0FBA = 4"
  by (simp add: tbl_0FBA_def)

lemma len_tbl_0FC7: "length tbl_0FC7 = 18"
  by (simp add: tbl_0FC7_def)

lemma len_tbl_0FB9: "length tbl_0FB9 = 1"
  by (simp add: tbl_0FB9_def)

lemma len_tbl_C6: "length tbl_C6 = 1"
  by (simp add: tbl_C6_def)

lemma len_tbl_C7: "length tbl_C7 = 1"
  by (simp add: tbl_C7_def)

lemma len_tbl_80: "length tbl_80 = 8"
  by (simp add: tbl_80_def)

lemma len_tbl_81: "length tbl_81 = 8"
  by (simp add: tbl_81_def)

lemma len_tbl_82: "length tbl_82 = 8"
  by (simp add: tbl_82_def)

lemma len_tbl_83: "length tbl_83 = 8"
  by (simp add: tbl_83_def)

lemma len_tbl_C0: "length tbl_C0 = 8"
  by (simp add: tbl_C0_def)

lemma len_tbl_C1: "length tbl_C1 = 8"
  by (simp add: tbl_C1_def)

lemma len_tbl_D0: "length tbl_D0 = 8"
  by (simp add: tbl_D0_def)

lemma len_tbl_D1: "length tbl_D1 = 8"
  by (simp add: tbl_D1_def)

lemma len_tbl_D2: "length tbl_D2 = 8"
  by (simp add: tbl_D2_def)

lemma len_tbl_D3: "length tbl_D3 = 8"
  by (simp add: tbl_D3_def)

lemma len_tbl_F6: "length tbl_F6 = 8"
  by (simp add: tbl_F6_def)

lemma len_tbl_F7: "length tbl_F7 = 8"
  by (simp add: tbl_F7_def)

lemma len_tbl_FE: "length tbl_FE = 2"
  by (simp add: tbl_FE_def)

lemma len_tbl_FF: "length tbl_FF = 7"
  by (simp add: tbl_FF_def)

lemma len_tbl_D8: "length tbl_D8 = 8"
  by (simp add: tbl_D8_def)

lemma len_tbl_D8C0: "length tbl_D8C0 = 64"
  by (simp add: tbl_D8C0_def)

lemma len_tbl_D9: "length tbl_D9 = 8"
  by (simp add: tbl_D9_def)

lemma len_tbl_D9C0: "length tbl_D9C0 = 64"
  by (simp add: tbl_D9C0_def)

lemma len_tbl_DA: "length tbl_DA = 8"
  by (simp add: tbl_DA_def)

lemma len_tbl_DAC0: "length tbl_DAC0 = 64"
  by (simp add: tbl_DAC0_def)

lemma len_tbl_DB: "length tbl_DB = 8"
  by (simp add: tbl_DB_def)

lemma len_tbl_DBC0: "length tbl_DBC0 = 64"
  by (simp add: tbl_DBC0_def)

lemma len_tbl_DC: "length tbl_DC = 8"
  by (simp add: tbl_DC_def)

lemma len_tbl_DCC0: "length tbl_DCC0 = 64"
  by (simp add: tbl_DCC0_def)

lemma len_tbl_DD: "length tbl_DD = 8"
  by (simp add: tbl_DD_def)

lemma len_tbl_DDC0: "length tbl_DDC0 = 64"
  by (simp add: tbl_DDC0_def)

lemma len_tbl_DE: "length tbl_DE = 8"
  by (simp add: tbl_DE_def)

lemma len_tbl_DEC0: "length tbl_DEC0 = 64"
  by (simp add: tbl_DEC0_def)

lemma len_tbl_DF: "length tbl_DF = 8"
  by (simp add: tbl_DF_def)

lemma len_tbl_DFC0: "length tbl_DFC0 = 64"
  by (simp add: tbl_DFC0_def)

lemma len_tbl_0F0F: "length tbl_0F0F = 192"
  by (simp add: tbl_0F0F_00_def tbl_0F0F_40_def tbl_0F0F_80_def tbl_0F0F_def)

lemma rows_tbl_Main: "subs_ok 4 tbl_Main"
  by (simp add: subs_ok_def tbl_Main_00_def tbl_Main_40_def tbl_Main_80_def tbl_Main_C0_def tbl_Main_def row_steps)

lemma rows_tbl_66: "rows_ok 3 tbl_66"
  by (simp add: rows_ok_def tbl_66_def row_steps not_prefix)

lemma rows_tbl_F2: "rows_ok 2 tbl_F2"
  by (simp add: rows_ok_def tbl_F2_def row_steps not_prefix)

lemma rows_tbl_F3: "rows_ok 2 tbl_F3"
  by (simp add: rows_ok_def tbl_F3_00_def tbl_F3_40_def tbl_F3_80_def tbl_F3_def row_steps not_prefix)

lemma rows_tbl_0F: "rows_ok 2 tbl_0F"
  by (simp add: rows_ok_def tbl_0F_00_def tbl_0F_40_def tbl_0F_80_def tbl_0F_C0_def tbl_0F_def row_steps not_prefix)

lemma rows_tbl_660F: "rows_ok 2 tbl_660F"
  by (simp add: rows_ok_def tbl_660F_00_def tbl_660F_40_def tbl_660F_80_def tbl_660F_C0_def tbl_660F_def row_steps not_prefix)

lemma rows_tbl_F20F: "rows_ok 1 tbl_F20F"
  by (simp add: rows_ok_def tbl_F20F_00_def tbl_F20F_40_def tbl_F20F_80_def tbl_F20F_C0_def tbl_F20F_def row_steps not_prefix)

lemma rows_tbl_F30F: "rows_ok 1 tbl_F30F"
  by (simp add: rows_ok_def tbl_F30F_00_def tbl_F30F_40_def tbl_F30F_80_def tbl_F30F_C0_def tbl_F30F_def row_steps not_prefix)

lemma rows_tbl_0F00: "rows_ok 1 tbl_0F00"
  by (simp add: rows_ok_def tbl_0F00_def row_steps not_prefix)

lemma rows_tbl_0F01: "rows_ok 1 tbl_0F01"
  by (simp add: rows_ok_def tbl_0F01_def row_steps not_prefix)

lemma rows_tbl_0F0111: "rows_ok 1 tbl_0F0111"
  by (simp add: rows_ok_def tbl_0F0111_def row_steps not_prefix)

lemma rows_tbl_0F12: "rows_ok 1 tbl_0F12"
  by (simp add: rows_ok_def tbl_0F12_def row_steps not_prefix)

lemma rows_tbl_0F16: "rows_ok 1 tbl_0F16"
  by (simp add: rows_ok_def tbl_0F16_def row_steps not_prefix)

lemma rows_tbl_0F18: "rows_ok 1 tbl_0F18"
  by (simp add: rows_ok_def tbl_0F18_def row_steps not_prefix)

lemma rows_tbl_0F71: "rows_ok 1 tbl_0F71"
  by (simp add: rows_ok_def tbl_0F71_def row_steps not_prefix)

lemma rows_tbl_660F71: "rows_ok 1 tbl_660F71"
  by (simp add: rows_ok_def tbl_660F71_def row_steps not_prefix)

lemma rows_tbl_0F72: "rows_ok 1 tbl_0F72"
  by (simp add: rows_ok_def tbl_0F72_def row_steps not_prefix)

lemma rows_tbl_660F72: "rows_ok 1 tbl_660F72"
  by (simp add: rows_ok_def tbl_660F72_def row_steps not_prefix)

lemma rows_tbl_0F73: "rows_ok 1 tbl_0F73"
  by (simp add: rows_ok_def tbl_0F73_def row_steps not_prefix)

lemma rows_tbl_660F73: "rows_ok 1 tbl_660F73"
  by (simp add: rows_ok_def tbl_660F73_def row_steps not_prefix)

lemma rows_tbl_0FAE: "rows_ok 1 tbl_0FAE"
  by (simp add: rows_ok_def tbl_0FAE_def row_steps not_prefix)

lemma rows_tbl_0FBA: "rows_ok 1 tbl_0FBA"
  by (simp add: rows_ok_def tbl_0FBA_def row_steps not_prefix)

lemma rows_tbl_0FC7: "rows_ok 1 tbl_0FC7"
  by (simp add: rows_ok_def tbl_0FC7_def row_steps not_prefix)

lemma rows_tbl_0FB9: "rows_ok 1 tbl_0FB9"
  by (simp add: rows_ok_def tbl_0FB9_def row_steps not_prefix)

lemma rows_tbl_C6: "rows_ok 1 tbl_C6"
  by (simp add: rows_ok_def tbl_C6_def row_steps not_prefix)

lemma rows_tbl_C7: "rows_ok 1 tbl_C7"
  by (simp add: rows_ok_def tbl_C7_def row_steps not_prefix)

lemma rows_tbl_80: "rows_ok 1 tbl_80"
  by (simp add: rows_ok_def tbl_80_def row_steps not_prefix)

lemma rows_tbl_81: "rows_ok 1 tbl_81"
  by (simp add: rows_ok_def tbl_81_def row_steps not_prefix)

lemma rows_tbl_82: "rows_ok 1 tbl_82"
  by (simp add: rows_ok_def tbl_82_def row_steps not_prefix)

lemma rows_tbl_83: "rows_ok 1 tbl_83"
  by (simp add: rows_ok_def tbl_83_def row_steps not_prefix)

lemma rows_tbl_C0: "rows_ok 1 tbl_C0"
  by (simp add: rows_ok_def tbl_C0_def row_steps not_prefix)

lemma rows_tbl_C1: "rows_ok 1 tbl_C1"
  by (simp add: rows_ok_def tbl_C1_def row_steps not_prefix)

lemma rows_tbl_D0: "rows_ok 1 tbl_D0"
  by (simp add: rows_ok_def tbl_D0_def row_steps not_prefix)

lemma rows_tbl_D1: "rows_ok 1 tbl_D1"
  by (simp add: rows_ok_def tbl_D1_def row_steps not_prefix)

lemma rows_tbl_D2: "rows_ok 1 tbl_D2"
  by (simp add: rows_ok_def tbl_D2_def row_steps not_prefix)

lemma rows_tbl_D3: "rows_ok 1 tbl_D3"
  by (simp add: rows_ok_def tbl_D3_def row_steps not_prefix)

lemma rows_tbl_F6: "rows_ok 1 tbl_F6"
  by (simp add: rows_ok_def tbl_F6_def row_steps not_prefix)

lemma rows_tbl_F7: "rows_ok 1 tbl_F7"
  by (simp add: rows_ok_def tbl_F7_def row_steps not_prefix)

lemma rows_tbl_FE: "rows_ok 1 tbl_FE"
  by (simp add: rows_ok_def tbl_FE_def row_steps not_prefix)

lemma rows_tbl_FF: "rows_ok 1 tbl_FF"
  by (simp add: rows_ok_def tbl_FF_def row_steps not_prefix)

lemma rows_tbl_D8: "rows_ok 1 tbl_D8"
  by (simp add: rows_ok_def tbl_D8_def row_steps not_prefix)

lemma rows_tbl_D8C0: "rows_ok 1 tbl_D8C0"
  by (simp add: rows_ok_def tbl_D8C0_def row_steps not_prefix)

lemma rows_tbl_D9: "rows_ok 1 tbl_D9"
  by (simp add: rows_ok_def tbl_D9_def row_steps not_prefix)

lemma rows_tbl_D9C0: "rows_ok 1 tbl_D9C0"
  by (simp add: rows_ok_def tbl_D9C0_def row_steps not_prefix)

lemma rows_tbl_DA: "rows_ok 1 tbl_DA"
  by (simp add: rows_ok_def tbl_DA_def row_steps not_prefix)

lemma rows_tbl_DAC0: "rows_ok 1 tbl_DAC0"
  by (simp add: rows_ok_def tbl_DAC0_def row_steps not_prefix)

lemma rows_tbl_DB: "rows_ok 1 tbl_DB"
  by (simp add: rows_ok_def tbl_DB_def row_steps not_prefix)

lemma rows_tbl_DBC0: "rows_ok 1 tbl_DBC0"
  by (simp add: rows_ok_def tbl_DBC0_def row_steps not_prefix)

lemma rows_tbl_DC: "rows_ok 1 tbl_DC"
  by (simp add: rows_ok_def tbl_DC_def row_steps not_prefix)

lemma rows_tbl_DCC0: "rows_ok 1 tbl_DCC0"
  by (simp add: rows_ok_def tbl_DCC0_def row_steps not_prefix)

lemma rows_tbl_DD: "rows_ok 1 tbl_DD"
  by (simp add: rows_ok_def tbl_DD_def row_steps not_prefix)

lemma rows_tbl_DDC0: "rows_ok 1 tbl_DDC0"
  by (simp add: rows_ok_def tbl_DDC0_def row_steps not_prefix)

lemma rows_tbl_DE: "rows_ok 1 tbl_DE"
  by (simp add: rows_ok_def tbl_DE_def row_steps not_prefix)

lemma rows_tbl_DEC0: "rows_ok 1 tbl_DEC0"
  by (simp add: rows_ok_def tbl_DEC0_def row_steps not_prefix)

lemma rows_tbl_DF: "rows_ok 1 tbl_DF"
  by (simp add: rows_ok_def tbl_DF_def row_steps not_prefix)

lemma rows_tbl_DFC0: "rows_ok 1 tbl_DFC0"
  by (simp add: rows_ok_def tbl_DFC0_def row_steps not_prefix)

lemma rows_tbl_0F0F: "rows_ok 1 tbl_0F0F"
  by (simp add: rows_ok_def tbl_0F0F_00_def tbl_0F0F_40_def tbl_0F0F_80_def tbl_0F0F_def row_steps not_prefix)

lemma tables_rows: "list_all2 (\<lambda>k d. rows_ok k (t_table d)) (tl bytes_needed) (tl ia32_tables)"
  by (simp add: bytes_needed_def ia32_tables_def
    rows_tbl_66 rows_tbl_F2 rows_tbl_F3 rows_tbl_0F rows_tbl_660F rows_tbl_F20F rows_tbl_F30F rows_tbl_0F00 rows_tbl_0F01 rows_tbl_0F0111 rows_tbl_0F12 rows_tbl_0F16 rows_tbl_0F18 rows_tbl_0F71 rows_tbl_660F71 rows_tbl_0F72 rows_tbl_660F72 rows_tbl_0F73 rows_tbl_660F73 rows_tbl_0FAE rows_tbl_0FBA rows_tbl_0FC7 rows_tbl_0FB9 rows_tbl_C6 rows_tbl_C7 rows_tbl_80 rows_tbl_81 rows_tbl_82 rows_tbl_83 rows_tbl_C0 rows_tbl_C1 rows_tbl_D0 rows_tbl_D1 rows_tbl_D2 rows_tbl_D3 rows_tbl_F6 rows_tbl_F7 rows_tbl_FE rows_tbl_FF rows_tbl_D8 rows_tbl_D8C0 rows_tbl_D9 rows_tbl_D9C0 rows_tbl_DA rows_tbl_DAC0 rows_tbl_DB rows_tbl_DBC0 rows_tbl_DC rows_tbl_DCC0 rows_tbl_DD rows_tbl_DDC0 rows_tbl_DE rows_tbl_DEC0 rows_tbl_DF rows_tbl_DFC0 rows_tbl_0F0F del: One_nat_def)

lemma tables_desc_ok: "list_all desc_ok ia32_tables"
  by (simp add: desc_ok_def ia32_tables_def min_def length_tbl_Main
    len_tbl_66 len_tbl_F2 len_tbl_F3 len_tbl_0F len_tbl_660F len_tbl_F20F len_tbl_F30F len_tbl_0F00 len_tbl_0F01 len_tbl_0F0111 len_tbl_0F12 len_tbl_0F16 len_tbl_0F18 len_tbl_0F71 len_tbl_660F71 len_tbl_0F72 len_tbl_660F72 len_tbl_0F73 len_tbl_660F73 len_tbl_0FAE len_tbl_0FBA len_tbl_0FC7 len_tbl_0FB9 len_tbl_C6 len_tbl_C7 len_tbl_80 len_tbl_81 len_tbl_82 len_tbl_83 len_tbl_C0 len_tbl_C1 len_tbl_D0 len_tbl_D1 len_tbl_D2 len_tbl_D3 len_tbl_F6 len_tbl_F7 len_tbl_FE len_tbl_FF len_tbl_D8 len_tbl_D8C0 len_tbl_D9 len_tbl_D9C0 len_tbl_DA len_tbl_DAC0 len_tbl_DB len_tbl_DBC0 len_tbl_DC len_tbl_DCC0 len_tbl_DD len_tbl_DDC0 len_tbl_DE len_tbl_DEC0 len_tbl_DF len_tbl_DFC0 len_tbl_0F0F)

lemma length_tables: "length ia32_tables = 57"
  by (simp add: ia32_tables_def)

end
