(* ===== verification/Ia32Search.thy ===== *)
theory Ia32Search
  imports Ia32Lookup
begin

text \<open>
  The lookup of an opcode ends and stays inside of the tables.
\<close>

lemma byte_at_0: "byte_at (b # bs) 0 = Ret b"
  by (simp add: byte_at_def)

lemma of_nat_nz: "0 < n \<Longrightarrow> n < 2 ^ 32 \<Longrightarrow> (of_nat n :: u32) \<noteq> 0"
proof
  assume "0 < n" "n < 2 ^ 32" and "(of_nat n :: u32) = 0"
  then have "unat (of_nat n :: u32) = 0" by simp
  with \<open>0 < n\<close> \<open>n < 2 ^ 32\<close> show False by (simp add: unat_of_nat take_bit_nat_eq_self)
qed

lemma word_and_le: "unat (a AND m :: u8) \<le> unat m"
proof -
  have "uint (a AND m) \<le> uint m" by (simp add: unsigned_and_eq AND_upper2)
  then have "a AND m \<le> m" by (simp add: word_le_def)
  then show ?thesis by (simp add: word_le_nat_alt)
qed

lemma table_row_returns:
  assumes "d \<in> set ia32_tables"
  shows "table_row d op = Ret None \<or> (\<exists>ri. table_row d op = Ret (Some ri) \<and> ri \<in> set (t_table d))"
proof -
  let ?op = "drop_bit (t_shift d) op AND t_mask d"
  show ?thesis
  proof (cases "?op > t_maxlim d \<or> t_minlim d > ?op")
    case True
    then show ?thesis by (simp add: table_row_def Let_def)
  next
    case False
    then have le: "t_minlim d \<le> ?op" "unat ?op \<le> unat (t_maxlim d)" by (simp_all add: not_less word_le_nat_alt)
    have "unat ?op \<le> unat (t_mask d)" by (rule word_and_le)
    moreover have "desc_ok d" using tables_desc_ok assms by (simp add: list_all_iff)
    ultimately have "unat ?op < unat (t_minlim d) + length (t_table d)" using le(2) by (simp add: desc_ok_def)
    then have "unat (?op - t_minlim d) < length (t_table d)" using le(1) by (simp add: unat_sub word_le_nat_alt)
    then show ?thesis using False by (auto simp: table_row_def row_at_def Let_def)
  qed
qed

lemma table_at_less: "t < 57 \<Longrightarrow> table_at t = Ret (ia32_tables ! t)"
  by (simp add: table_at_def length_tables)

lemma rows_ok_table:
  assumes "t < 57" and "t \<noteq> 0"
  shows "rows_ok (bytes_needed ! t) (t_table (ia32_tables ! t))"
proof -
  have "rows_ok (tl bytes_needed ! (t - 1)) (t_table (tl ia32_tables ! (t - 1)))"
    using assms by (intro list_all2_nthD [OF tables_rows]) (simp add: bytes_needed_def)
  moreover have "tl bytes_needed ! (t - 1) = bytes_needed ! t" "tl ia32_tables ! (t - 1) = ia32_tables ! t"
    using assms by (simp_all add: nth_tl bytes_needed_def length_tables)
  ultimately show ?thesis by simp
qed

definition table_types :: "ia32_tbl_type_id list" where
  "table_types = [tbl_opcode, tbl_prefix, tbl_prefix, tbl_prefix, tbl_opcode, tbl_prefix, tbl_prefix, tbl_prefix, tbl_extension,
    tbl_extension, tbl_ext_ext, tbl_extension, tbl_extension, tbl_extension, tbl_extension, tbl_extension, tbl_extension, tbl_extension,
    tbl_extension, tbl_extension, tbl_extension, tbl_extension, tbl_extension, tbl_extension, tbl_extension, tbl_extension, tbl_extension,
    tbl_extension, tbl_extension, tbl_extension, tbl_extension, tbl_extension, tbl_extension, tbl_extension, tbl_extension, tbl_extension,
    tbl_extension, tbl_extension, tbl_extension, tbl_extension, tbl_fpu, tbl_fpu_ext, tbl_fpu, tbl_fpu_ext, tbl_fpu,
    tbl_fpu_ext, tbl_fpu, tbl_fpu_ext, tbl_fpu, tbl_fpu_ext, tbl_fpu, tbl_fpu_ext, tbl_fpu, tbl_fpu_ext,
    tbl_fpu, tbl_fpu_ext, tbl_suffix]"

lemma table_types: "map t_type ia32_tables = table_types"
  by (simp add: ia32_tables_def table_types_def)

lemma fpu_types: "list_all (\<lambda>t. table_types ! t = tbl_fpu \<longrightarrow> t + 1 < 57 \<and> bytes_needed ! (t + 1) = bytes_needed ! t) [0..<57]"
  by code_simp

lemma fpu_next:
  assumes "t < 57" and "t_type (ia32_tables ! t) = tbl_fpu"
  shows "t + 1 < 57 \<and> bytes_needed ! (t + 1) = bytes_needed ! t"
proof -
  have "table_types ! t = map t_type ia32_tables ! t" by (simp only: table_types)
  also have "\<dots> = tbl_fpu" using assms by (simp add: length_tables)
  finally have ty: "table_types ! t = tbl_fpu" .
  have "t \<in> set [0..<57]" using assms(1) by (simp only: set_upt atLeastLessThan_iff le0 simp_thms)
  from bspec [OF fpu_types [unfolded list_all_iff] this] ty show ?thesis by (rule mp)
qed

lemma bytes_pos: "u < 57 \<Longrightarrow> 0 < bytes_needed ! u"
proof -
  have "list_all (\<lambda>k. 0 < k) bytes_needed" and "length bytes_needed = 57" by (simp_all add: bytes_needed_def)
  then show "u < 57 \<Longrightarrow> 0 < bytes_needed ! u" by (simp add: list_all_length)
qed

text \<open>The table that a byte is looked up in, other than the main table.\<close>

lemma table_desc_for_sub:
  assumes "t < 57" and "t \<noteq> 0"
  shows "\<exists>d. table_desc_for t op = Ret d \<and> d \<in> set ia32_tables \<and> rows_ok (bytes_needed ! t) (t_table d)"
proof (cases "t_type (ia32_tables ! t) = tbl_fpu \<and> op > t_maxlim (ia32_tables ! t)")
  case True
  then have t: "t + 1 < 57" "bytes_needed ! (t + 1) = bytes_needed ! t"
    using fpu_next [OF assms(1)] by simp_all
  then have "rows_ok (bytes_needed ! t) (t_table (ia32_tables ! (t + 1)))"
    using rows_ok_table [of "t + 1"] by simp
  with True t assms show ?thesis by (simp add: table_desc_for_def table_at_less length_tables)
next
  case False
  with assms rows_ok_table [OF assms] show ?thesis
    by (auto simp: table_desc_for_def table_at_less length_tables)
qed

text \<open>One step of the lookup in a table without prefixes.\<close>

lemma lookup_sub_step:
  assumes "t < 57" and "t \<noteq> 0" and "bytes_needed ! t \<le> length buf" and "0 < length buf"
    and sub: "\<And>u buf' len' r. u < 57 \<Longrightarrow> u \<noteq> 0 \<Longrightarrow> bytes_needed ! u \<le> length buf' \<Longrightarrow> 0 < length buf' \<Longrightarrow>
      same_byte (ia32_tables ! u) \<and> \<not> same_byte (ia32_tables ! t) \<and> length buf' = length buf \<or> length buf' < length buf \<Longrightarrow>
      \<exists>n r' p'. ia32_table_lookup buf' len' u (Some r) p = Ret (n, Some r', p')"
  shows "\<exists>n r' p'. ia32_table_lookup buf buf_len t (Some r) p = Ret (n, Some r', p')"
proof -
  obtain b bs where buf: "buf = b # bs" using assms(4) by (cases buf) auto
  let ?op = "if buf_len = 0 then 0 else b"
  obtain d where d: "table_desc_for t ?op = Ret d" "d \<in> set ia32_tables" "rows_ok (bytes_needed ! t) (t_table d)"
    using table_desc_for_sub [OF assms(1,2)] by blast
  from table_row_returns [OF d(2), of ?op] show ?thesis
  proof
    assume "table_row d ?op = Ret None"
    with d(1) show ?thesis by (subst ia32_table_lookup.simps) (simp add: buf byte_at_def)
  next
    assume "\<exists>ri. table_row d ?op = Ret (Some ri) \<and> ri \<in> set (t_table d)"
    then obtain ri where ri: "table_row d ?op = Ret (Some ri)" "ri \<in> set (t_table d)" by blast
    have np: "row_prefix ri = 0"
      using d(3) ri(2) by (auto simp: rows_ok_def list_all_iff row_prefix_def)
    have ok: "i_table ri = 0 \<or> i_table ri < 57 \<and> step_needed (i_table ri) \<le> bytes_needed ! t"
      using d(3) ri(2) by (auto simp: rows_ok_def list_all_iff)
    let ?u = "i_table ri"
    show ?thesis
    proof (cases "?u = 0 \<or> t_type (ia32_tables ! ?u) = tbl_suffix")
      case True
      then have "escapes ri p = Ret False" using ok by (auto simp: escapes_def table_at_less)
      with d(1) ri(1) np show ?thesis by (subst ia32_table_lookup.simps) (simp add: buf byte_at_def deref_def)
    next
      case False
      then have u: "?u < 57" "?u \<noteq> 0" "step_needed ?u \<le> bytes_needed ! t" using ok by auto
      then have esc: "escapes ri p = Ret True" using False np by (simp add: escapes_def table_at_less)
      let ?same = "same_byte (ia32_tables ! ?u)"
      let ?buf = "if ?same then buf else bs" and ?len = "if ?same then buf_len else buf_len - 1"
      have need: "bytes_needed ! ?u \<le> length ?buf" "0 < bytes_needed ! ?u"
        using u assms(3) False by (auto simp: step_needed_def Let_def buf bytes_pos)
      have "?same \<and> \<not> same_byte (ia32_tables ! t) \<and> length ?buf = length buf \<or> length ?buf < length buf"
        using escape_rank [OF d(1) ri(1) esc table_at_less [OF u(1)]] assms(1) u(1)
        by (auto simp: buf lookup_rank_def table_at_less)
      then obtain n r' p' where "ia32_table_lookup ?buf ?len ?u (Some ri) p = Ret (n, Some r', p')"
        using sub [OF u(1,2) need(1)] need by fastforce
      then have l: "(if ?same then ia32_table_lookup buf buf_len ?u (Some ri) p
          else ia32_table_lookup (drop 1 buf) (buf_len - 1) ?u (Some ri) p) = Ret (n, Some r', p')"
        by (simp add: buf split: if_splits)
      have "ia32_table_lookup buf buf_len t (Some r) p = Ret (row_size_of d r' + n, Some r', p')"
        using d(1) ri(1) by (subst ia32_table_lookup.simps)
          (simp only: buf byte_at_0 Let_def np esc table_at_less [OF u(1)] l [unfolded buf] r_bind.simps option.case
            if_True if_False prod.case deref_def r_map_simps simp_thms)
      then show ?thesis by blast
    qed
  qed
qed

lemma lookup_sub:
  assumes "t < 57" and "t \<noteq> 0" and "bytes_needed ! t \<le> length buf"
  shows "\<exists>n r' p'. ia32_table_lookup buf buf_len t (Some r) p = Ret (n, Some r', p')"
  using assms
proof (induction "2 * length buf + (if same_byte (ia32_tables ! t) then 0 else 1 :: nat)" arbitrary: buf buf_len t r p
    rule: less_induct)
  case less
  show ?case
  proof (rule lookup_sub_step [OF less.prems])
    show "0 < length buf" using bytes_pos [OF less.prems(1)] less.prems(3) by linarith
  next
    fix u :: nat and buf' :: "u8 list" and len' :: u32 and r
    assume u: "u < 57" "u \<noteq> 0" "bytes_needed ! u \<le> length buf'"
      and d: "same_byte (ia32_tables ! u) \<and> \<not> same_byte (ia32_tables ! t) \<and> length buf' = length buf \<or> length buf' < length buf"
    from d have "2 * length buf' + (if same_byte (ia32_tables ! u) then 0 else 1 :: nat) <
        2 * length buf + (if same_byte (ia32_tables ! t) then 0 else 1)" by auto
    from less.hyps [OF this u] show "\<exists>n r' p'. ia32_table_lookup buf' len' u (Some r) p = Ret (n, Some r', p')" .
  qed
qed

text \<open>The main table, where the prefixes are.\<close>

definition is_prefix :: "u8 \<Rightarrow> bool" where
  "is_prefix b \<longleftrightarrow> row_prefix (tbl_Main ! unat b) \<noteq> 0"

lemma main_sub:
  assumes "3 \<le> length bs" and "ri = tbl_Main ! unat b"
  shows "\<exists>esc n r1 p1. escapes ri p = Ret esc \<and> (if esc then
      r_bind (table_at (i_table ri)) (\<lambda>sub.
        if same_byte sub then ia32_table_lookup (b # bs) buf_len (i_table ri) (Some ri) p
        else ia32_table_lookup bs (buf_len - 1) (i_table ri) (Some ri) p)
    else Ret (0, Some ri, p)) = Ret (n, Some r1, p1)"
proof -
  have "ri \<in> set tbl_Main" using assms(2) unat_byte [of b] by (simp add: length_tbl_Main)
  with rows_tbl_Main have ok: "i_table ri = 0 \<or> i_table ri < 57 \<and> step_needed (i_table ri) \<le> 4"
    by (simp add: subs_ok_def list_all_iff)
  let ?u = "i_table ri"
  show ?thesis
  proof (cases "escapes ri p = Ret True")
    case True
    then have u: "?u \<noteq> 0" "?u < 57" "step_needed ?u \<le> 4" using ok by (auto simp: escapes_def split: if_splits)
    from True u have ns: "t_type (ia32_tables ! ?u) \<noteq> tbl_suffix" by (auto simp: escapes_def table_at_less)
    show ?thesis
    proof (cases "same_byte (ia32_tables ! ?u)")
      case same: True
      then have "bytes_needed ! ?u \<le> length (b # bs)" using u(3) ns assms(1) by (simp add: step_needed_def)
      from lookup_sub [OF u(2,1) this, of buf_len ri p] obtain n r1 p1 where
        "ia32_table_lookup (b # bs) buf_len ?u (Some ri) p = Ret (n, Some r1, p1)" by blast
      with same True u(2) show ?thesis
        by (intro exI [of _ True] exI [of _ n] exI [of _ r1] exI [of _ p1]) (simp add: table_at_less)
    next
      case False
      then have "bytes_needed ! ?u \<le> length bs" using u(3) ns assms(1) by (simp add: step_needed_def)
      from lookup_sub [OF u(2,1) this, of "buf_len - 1" ri p] obtain n r1 p1 where
        "ia32_table_lookup bs (buf_len - 1) ?u (Some ri) p = Ret (n, Some r1, p1)" by blast
      with False True u(2) show ?thesis
        by (intro exI [of _ True] exI [of _ n] exI [of _ r1] exI [of _ p1]) (simp add: table_at_less)
    qed
  next
    case False
    then have "escapes ri p = Ret False" using ok by (auto simp: escapes_def table_at_less)
    then show ?thesis by (intro exI [of _ False]) simp
  qed
qed

lemma main_step:
  assumes "buf_len \<noteq> 0" and "3 \<le> length bs"
    and rec: "\<And>raw p. is_prefix b \<Longrightarrow> \<exists>n r' p'. ia32_table_lookup bs (buf_len - 1) idx_Main (Some raw) p = Ret (n, Some r', p')"
  shows "\<exists>n r' p'. ia32_table_lookup (b # bs) buf_len idx_Main raw p = Ret (n, Some r', p')"
proof -
  define ri where "ri = tbl_Main ! unat b"
  obtain esc n r1 p1 where e: "escapes ri p = Ret esc" and sub: "(if esc then
      r_bind (table_at (i_table ri)) (\<lambda>sub.
        if same_byte sub then ia32_table_lookup (b # bs) buf_len (i_table ri) (Some ri) p
        else ia32_table_lookup bs (buf_len - 1) (i_table ri) (Some ri) p)
    else Ret (0, Some ri, p)) = Ret (n, Some r1, p1)"
    using main_sub [OF assms(2) ri_def] by blast
  define again where "again = (if esc then row_prefix ri \<noteq> 0 \<and> (n = INVALID_INSN \<or> INS_TYPE (mnem_flag r1) = INS_INVALID)
    else row_prefix ri \<noteq> 0)"
  have again_r: "(if esc then Ret (row_prefix ri \<noteq> 0 \<and> (n = INVALID_INSN \<or> INS_TYPE (mnem_flag r1) = INS_INVALID))
      else Ret (row_prefix ri \<noteq> 0)) = Ret again" by (simp add: again_def)
  obtain n2 r2 p2 where last: "(if again then
      r_bind (ia32_table_lookup bs (buf_len - 1) idx_Main (Some r1) p1) (\<lambda>(n, raw2, prefixes2).
        r_map (\<lambda>r2. (n, raw2, prefixes2 OR branch_hint (row_prefix ri) r2)) (deref raw2))
    else Ret (n, Some r1, p1)) = Ret (n2, Some r2, p2)"
  proof (cases again)
    case True
    then have "is_prefix b" by (auto simp: again_def is_prefix_def ri_def split: if_splits)
    from rec [OF this, of r1 p1] obtain n' r' p' where
      "ia32_table_lookup bs (buf_len - 1) idx_Main (Some r1) p1 = Ret (n', Some r', p')" by blast
    with True that show thesis by (simp add: deref_def)
  next
    case False
    with that show thesis by simp
  qed
  have "ia32_table_lookup (b # bs) buf_len idx_Main raw p = Ret (1 + n2, Some r2, p2)"
    by (subst ia32_table_lookup.simps)
      (simp only: byte_at_0 Let_def assms(1) if_False if_True r_bind.simps main_row ri_def [symmetric] option.case e drop_0 drop_Suc_Cons
        One_nat_def sub prod.case deref_def r_map_simps again_r last [unfolded One_nat_def deref_def] row_size_main)
  then show ?thesis by blast
qed

text \<open>
  C24. The search for an opcode ends and stays inside of the tables: on a buffer of less than \<open>2 ^ 32\<close> bytes in which
  the first byte that is not a prefix is followed by three more, it returns, with a size and a row of the tables.
\<close>

theorem ia32_table_lookup_returns:
  assumes "length buf < 2 ^ 32" and "k + 4 \<le> length buf" and "\<not> is_prefix (buf ! k)"
  shows "\<exists>n ri p. ia32_table_lookup buf (of_nat (length buf)) idx_Main None 0 = Ret (n, Some ri, p)"
proof -
  have "\<exists>n ri p'. ia32_table_lookup buf (of_nat (length buf)) idx_Main raw p = Ret (n, Some ri, p')" for raw p
    using assms
  proof (induction k arbitrary: buf raw p)
    case 0
    then obtain b bs where buf: "buf = b # bs" "3 \<le> length bs" "\<not> is_prefix b" by (cases buf) auto
    have "(of_nat (length buf) :: u32) \<noteq> 0" using 0 by (intro of_nat_nz) auto
    then show ?case unfolding buf(1) using buf(2,3) by (intro main_step) simp_all
  next
    case (Suc k)
    then obtain b bs where buf: "buf = b # bs" "3 \<le> length bs" by (cases buf) auto
    have nz: "(of_nat (length buf) :: u32) \<noteq> 0" using Suc.prems by (intro of_nat_nz) auto
    have len: "(of_nat (length (b # bs)) :: u32) - 1 = of_nat (length bs)" by simp
    have "\<exists>n r' p'. ia32_table_lookup bs (of_nat (length bs)) idx_Main (Some raw) p = Ret (n, Some r', p')" for raw p
      using Suc.prems buf by (intro Suc.IH) auto
    with nz buf(2) show ?case unfolding buf(1) by (intro main_step) (simp_all only: len not_False_eq_True)
  qed
  then show ?thesis .
qed

lemma nop_not_prefix: "\<not> is_prefix 0x90"
  by (simp add: is_prefix_def row_NOP_def [symmetric] row_NOP_eq row_prefix_def INS_NOP_def INS_OTHER_def
      INS_NOTE_PREFIX_def)

theorem ia32_table_lookup_returns_witness:
  "\<not> is_prefix ([0x2E, 0x66, 0x90, 0, 0, 0] ! 2) \<and>
   (\<exists>n ri p. ia32_table_lookup [0x2E, 0x66, 0x90, 0, 0, 0] (of_nat 6) idx_Main None 0 = Ret (n, Some ri, p))"
  using ia32_table_lookup_returns [of "[0x2E, 0x66, 0x90, 0, 0, 0]" 2] nop_not_prefix by simp

end
