(* ===== verification/X86Facts.thy ===== *)
theory X86Facts
  imports X86Disasm Ia32Search
begin

text \<open>
  Properties of the disassembler: what every decoded instruction looks like, and what it does with particular
  instructions.
\<close>

section \<open>What every decoded instruction looks like\<close>

text \<open>Filling an operand does not change its access.\<close>

lemma add_flags_access [simp]: "op_access (add_flags fl op) = op_access op"
  by (simp add: add_flags_def)

lemma upd_ea_access [simp]: "op_access (upd_ea f op) = op_access op"
  by (simp add: upd_ea_def)

lemma apply_seg_access [simp]: "op_access (apply_seg op p) = op_access op"
  by (simp add: apply_seg_def Let_def)

lemma modrm16_access [simp]: "op_access (modrm16_regs m op) = op_access op"
  by (simp add: modrm16_regs_def Let_def)

lemma modrm_decode_access: "ia32_modrm_decode buf len op insn g = Ret (n, op1) \<Longrightarrow> op_access op1 = op_access op"
  by (auto simp: ia32_modrm_decode_def modrm_decode16_def Let_def result_simps split: if_splits)

lemma number_op_access: "number_op buf len sz op = Ret (n, op1) \<Longrightarrow> op_access op1 = op_access op"
  by (auto simp: number_op_def result_simps)

lemma reg_decode_access [simp]: "op_access (ia32_reg_decode b op g) = op_access op"
  by (simp add: ia32_reg_decode_def)

lemma hard_reg_access [simp]: "op_access (hard_reg op r) = op_access op"
  by (simp add: hard_reg_def Let_def)

lemma string_ea_access [simp]: "op_access (string_ea seg r op) = op_access op"
  by (simp add: string_ea_def)

lemma operand_value_access:
  "decode_operand_value buf len op insn meth sz v modrm g = Ret (n, op1) \<Longrightarrow> op_access op1 = op_access op"
  unfolding decode_operand_value_def Let_def
  by (auto split: if_splits dest!: modrm_decode_access number_op_access)

lemma OP_PERM_masked: "OP_PERM (x AND OPTYPE_MASK) = 0"
  by (simp add: OP_PERM_def OPTYPE_MASK_def OP_PERM_MASK_def and.assoc)

text \<open>No operand is executed, and the counters match the list.\<close>

definition ops_plain :: "x86_insn_t \<Rightarrow> bool" where
  "ops_plain insn \<longleftrightarrow> (\<exists>ops. operands insn = Live ops \<and> list_all (\<lambda>op. op_access op AND op_execute = 0) ops \<and>
    operand_count insn = length ops \<and> explicit_count insn \<le> length ops)"

definition no_operands :: "x86_insn_t \<Rightarrow> bool" where
  "no_operands insn \<longleftrightarrow> operands insn = Live [] \<and> operand_count insn = 0 \<and> explicit_count insn = 0"

lemma no_operands_plain: "no_operands insn \<Longrightarrow> ops_plain insn"
  by (simp add: no_operands_def ops_plain_def)

lemma ops_plain_append:
  assumes "ops_plain insn" and "op_access op AND op_execute = 0"
  shows "\<exists>insn1. x86_oplist_append insn op = Ret insn1 \<and> ops_plain insn1 \<and> stack_mod insn1 = stack_mod insn
    \<and> stack_mod_val insn1 = stack_mod_val insn"
  using assms by (auto simp: ops_plain_def x86_oplist_append_def split: list.splits)

lemma decode_operand_plain:
  assumes "ia32_decode_operand buf len insn raw fl p m = Ret (n, insn1)" and "ops_plain insn"
  shows "ops_plain insn1 \<and> stack_mod insn1 = stack_mod insn \<and> stack_mod_val insn1 = stack_mod_val insn"
proof (cases "fl = ARG_NONE")
  case True
  with assms show ?thesis by (simp add: ia32_decode_operand_def)
next
  case False
  obtain sz dt where sz: "decode_operand_size (fl AND OPTYPE_MASK) insn = (sz, dt)" by (rule prod.exhaust)
  from assms(1) False sz obtain op op2 g where
    v: "decode_operand_value buf len (zero_op\<lparr>op_access := 0, op_flags := drop_bit 12 (OP_FLAGS (fl AND OPTYPE_MASK)), op_datatype := dt\<rparr>)
      insn (fl AND ADDRMETH_MASK) sz raw m g = Ret (n, op)" and
    a: "x86_oplist_append insn op2 = Ret insn1" "op_access op2 = op_access op"
    by (auto simp: ia32_decode_operand_def OP_PERM_masked Let_def result_simps)
  from operand_value_access [OF v] a(2) have "op_access op2 = 0" by simp
  with ops_plain_append [OF assms(2), of op2] a(1) show ?thesis by auto
qed

lemma decode_operands_plain:
  assumes "decode_operands buf len ri insn p m = Ret (n, insn1)" and "ops_plain insn"
  shows "ops_plain insn1 \<and> stack_mod insn1 = stack_mod insn \<and> stack_mod_val insn1 = stack_mod_val insn"
  using assms unfolding decode_operands_def Let_def
  by (auto simp: result_simps dest!: decode_operand_plain)

text \<open>The implicit operands.\<close>

lemma handle_impl_reg_access [simp]: "op_access (handle_impl_reg op v) = op_access op"
  by (simp add: handle_impl_reg_def Let_def)

lemma implicit_op_access [simp]: "op_access (implicit_op ty r) = OP_PERM ty"
  by (simp add: implicit_op_def Let_def)

lemma implicit_lists: "list_all (\<lambda>l. case l of None \<Rightarrow> True | Some ls \<Rightarrow>
    list_all (\<lambda>(ty, r). OP_PERM ty AND op_execute = 0) ls) op_implicit_list"
  by code_simp

lemma append_implicit_plain:
  assumes "list_all (\<lambda>(ty, r). OP_PERM ty AND op_execute = 0) ls" and "append_implicit ls insn = Ret insn1" and "ops_plain insn"
  shows "ops_plain insn1 \<and> stack_mod insn1 = stack_mod insn \<and> stack_mod_val insn1 = stack_mod_val insn"
  using assms
proof (induction ls arbitrary: insn)
  case Nil
  then show ?case by simp
next
  case (Cons l ls)
  obtain ty r where l: "l = (ty, r)" by (rule prod.exhaust)
  obtain insn2 where i: "x86_oplist_append insn (implicit_op ty r) = Ret insn2" "ops_plain insn2"
    "stack_mod insn2 = stack_mod insn" "stack_mod_val insn2 = stack_mod_val insn"
    using ops_plain_append [OF Cons.prems(3), of "implicit_op ty r"] Cons.prems(1) l by auto
  then have "ops_plain (insn2\<lparr>explicit_count := explicit_count insn2 - 1\<rparr>)" by (auto simp: ops_plain_def)
  with Cons.IH [of "insn2\<lparr>explicit_count := explicit_count insn2 - 1\<rparr>"] Cons.prems l i show ?case by simp
qed

lemma implicit_ops_plain:
  assumes "ia32_insn_implicit_ops insn idx = Ret insn1" and "ops_plain insn"
  shows "ops_plain insn1 \<and> stack_mod insn1 = stack_mod insn \<and> stack_mod_val insn1 = stack_mod_val insn"
proof (cases "idx = 0 \<or> idx > LAST_IMPL_IDX")
  case True
  with assms show ?thesis by (simp add: ia32_insn_implicit_ops_def)
next
  case False
  then have "unat idx < length op_implicit_list"
    by (simp add: LAST_IMPL_IDX_def op_implicit_list_def word_less_nat_alt not_less)
  then have "case op_implicit_list ! unat idx of None \<Rightarrow> True | Some ls \<Rightarrow> list_all (\<lambda>(ty, r). OP_PERM ty AND op_execute = 0) ls"
    using implicit_lists by (simp add: list_all_length)
  with assms False show ?thesis
    by (auto simp: ia32_insn_implicit_ops_def split: option.splits dest: append_implicit_plain)
qed

lemma foreach_reg_plain:
  assumes "x86_operand_foreach_op insn reg_32_to_16 t = Ret insn1" and "ops_plain insn"
  shows "ops_plain insn1 \<and> stack_mod insn1 = stack_mod insn \<and> stack_mod_val insn1 = stack_mod_val insn"
  using assms by (auto simp: x86_operand_foreach_op_def ops_plain_def list_all_iff reg_32_to_16_def)

lemma metadata_plain:
  assumes "handle_insn_metadata insn ri = Ret insn1" and "no_operands insn"
  shows "no_operands insn1 \<and> stack_mod insn1 = stack_mod insn \<and> stack_mod_val insn1 = stack_mod_val insn"
  using assms by (auto simp: handle_insn_metadata_def ia32_stack_mod_def ia32_handle_cpu_def ia32_handle_eflags_def
      ia32_handle_mnemtype_def Let_def no_operands_def)

lemma prepared_plain:
  "no_operands (ia32_handle_prefix ((set_sizes opts p insn)\<lparr>mnemonic := mn\<rparr>) p) \<longleftrightarrow> no_operands insn"
  "operands (ia32_handle_prefix ((set_sizes opts p insn)\<lparr>mnemonic := mn\<rparr>) p) = operands insn"
  "stack_mod (ia32_handle_prefix ((set_sizes opts p insn)\<lparr>mnemonic := mn\<rparr>) p) = stack_mod insn"
  "stack_mod_val (ia32_handle_prefix ((set_sizes opts p insn)\<lparr>mnemonic := mn\<rparr>) p) = stack_mod_val insn"
  by (simp_all add: ia32_handle_prefix_def set_sizes_def add_prefix_string_def Let_def no_operands_def)

lemma decode_insn_plain:
  assumes "ia32_decode_insn opts buf len ri insn p = Ret (n, insn1)" and "no_operands insn"
  shows "ops_plain insn1 \<and> stack_mod insn1 = stack_mod insn \<and> stack_mod_val insn1 = stack_mod_val insn"
proof (cases "mnem_flag ri = INS_INVALID")
  case True
  with assms show ?thesis by (simp add: ia32_decode_insn_def no_operands_plain)
next
  case False
  let ?i1 = "ia32_handle_prefix ((set_sizes opts p insn)\<lparr>mnemonic := take 16 (i_mnemonic ri)\<rparr>) p"
  from assms(1) False obtain i2 m i3 i4 i5 where
    i2: "handle_insn_metadata ?i1 ri = Ret i2" and i3: "decode_operands buf len ri i2 p m = Ret (n, i3)" and
    i4: "ia32_insn_implicit_ops i3 (implicit_ops ri) = Ret i4" and
    i5': "(if p AND PREFIX_REPZ \<noteq> 0 \<or> p * PREFIX_REPNZ \<noteq> 0 then ia32_insn_implicit_ops i4 IDX_IMPLICIT_REP else Ret i4) = Ret i5" and
    i6': "(if insn_op_size i5 = 2 then x86_operand_foreach_op i5 reg_32_to_16 op_any else Ret i5) = Ret insn1"
    by (simp only: ia32_decode_insn_def Let_def if_False result_simps split_paired_Ex prod.case prod.inject) blast
  from i5' have i5: "i5 = i4 \<or> ia32_insn_implicit_ops i4 IDX_IMPLICIT_REP = Ret i5" by (simp split: if_splits)
  from i6' have i6: "insn1 = i5 \<or> x86_operand_foreach_op i5 reg_32_to_16 op_any = Ret insn1" by (simp split: if_splits)
  have "no_operands ?i1" using assms(2) by (simp add: prepared_plain)
  from metadata_plain [OF i2 this] have 2: "ops_plain i2" "stack_mod i2 = stack_mod insn" "stack_mod_val i2 = stack_mod_val insn"
    by (simp_all add: no_operands_plain prepared_plain)
  from decode_operands_plain [OF i3 2(1)] implicit_ops_plain [OF i4] have
    "ops_plain i4 \<and> stack_mod i4 = stack_mod i2 \<and> stack_mod_val i4 = stack_mod_val i2" by simp
  with i5 implicit_ops_plain [of i4 IDX_IMPLICIT_REP i5] have
    "ops_plain i5 \<and> stack_mod i5 = stack_mod i2 \<and> stack_mod_val i5 = stack_mod_val i2" by auto
  with i6 foreach_reg_plain [of i5 op_any insn1] 2(2,3) show ?thesis by auto
qed

definition same_operands :: "x86_insn_t \<Rightarrow> x86_insn_t \<Rightarrow> bool" where
  "same_operands insn insn1 \<longleftrightarrow> operands insn1 = operands insn \<and> operand_count insn1 = operand_count insn
    \<and> explicit_count insn1 = explicit_count insn"

lemma same_operands_plain: "same_operands insn insn1 \<Longrightarrow> ops_plain insn \<Longrightarrow> ops_plain insn1"
  by (auto simp: same_operands_def ops_plain_def)

lemma stack_mod_by_operands: "stack_mod_by insn dest src = Ret insn1 \<Longrightarrow> same_operands insn insn1"
  by (auto simp: stack_mod_by_def same_operands_def Let_def split: if_splits option.splits)

lemma metadata_operands:
  assumes "handle_insn_metadata insn ri = Ret insn1"
  shows "same_operands insn insn1"
  using assms by (auto simp: handle_insn_metadata_def ia32_stack_mod_def ia32_handle_cpu_def ia32_handle_eflags_def
      ia32_handle_mnemtype_def Let_def result_simps same_operands_def split: x86_oplist.splits list.splits dest!: stack_mod_by_operands)

lemma suffix_operands:
  assumes "handle_insn_suffix junk buf len ri insn = Ret (k, insn1)"
  shows "same_operands insn insn1"
  using assms by (auto simp: handle_insn_suffix_def same_operands_def result_simps split: if_splits dest!: metadata_operands)

lemma disasm_addr_plain:
  assumes "ia32_disasm_addr opts junk buf len = Ret (n, insn)" and "n \<noteq> 0"
  shows "ops_plain insn"
proof -
  from assms obtain m raw p where l: "ia32_table_lookup buf len idx_Main None 0 = Ret (m, raw, p)"
    and r: "(if m = INVALID_INSN \<or> m > len then r_map (Pair 0) (MAKE_INVALID zero_insn)
      else
        r_bind (deref raw) (\<lambda>ri.
        r_bind (ia32_decode_insn opts (drop (unat m) buf) (len - m) ri zero_insn p) (\<lambda>(k, insn).
        let sz = m + k in
        if mnem_flag ri AND INS_NOTE_SUFFIX \<noteq> 0 then
          r_bind (handle_insn_suffix junk (drop (unat sz) buf) (len - sz) ri insn) (\<lambda>(sfx_size, insn1).
            if sfx_size = 0 then r_map (Pair 0) (MAKE_INVALID insn1) else Ret (sz + sfx_size, insn1))
        else Ret (sz, insn)))) = Ret (n, insn)"
    by (auto simp: ia32_disasm_addr_def result_simps split: if_splits)
  from r assms(2) obtain ri k insn2 where
    d: "ia32_decode_insn opts (drop (unat m) buf) (len - m) ri zero_insn p = Ret (k, insn2)"
    and s: "(if mnem_flag ri AND INS_NOTE_SUFFIX \<noteq> 0 then
          r_bind (handle_insn_suffix junk (drop (unat (m + k)) buf) (len - (m + k)) ri insn2) (\<lambda>(sfx_size, insn1).
            if sfx_size = 0 then r_map (Pair 0) (MAKE_INVALID insn1) else Ret (m + k + sfx_size, insn1))
        else Ret (m + k, insn2)) = Ret (n, insn)"
    by (auto simp: result_simps Let_def split: if_splits)
  have "ops_plain insn2" using decode_insn_plain [OF d] by (simp add: zero_insn_def no_operands_def)
  moreover have "same_operands insn2 insn"
  proof (cases "mnem_flag ri AND INS_NOTE_SUFFIX \<noteq> 0")
    case True
    with s obtain j insn3 where h: "handle_insn_suffix junk (drop (unat (m + k)) buf) (len - (m + k)) ri insn2 = Ret (j, insn3)"
      and r: "(if j = 0 then r_map (Pair 0) (MAKE_INVALID insn3) else Ret (m + k + j, insn3)) = Ret (n, insn)"
      by (simp only: if_True not_False_eq_True r_bind_eq_Ret split_paired_Ex prod.case) blast
    from r assms(2) have "insn3 = insn" by (auto simp: r_map_eq_Ret split: if_splits)
    with suffix_operands [OF h] show ?thesis by simp
  next
    case False
    with s show ?thesis by (simp add: same_operands_def)
  qed
  ultimately show ?thesis using same_operands_plain by blast
qed

lemma x86_disasm_plain:
  assumes "x86_disasm options junk buf buf_len rva off insn = Ret r" and "d_size r \<noteq> 0"
  shows "ops_plain (d_insn r)"
proof -
  from assms obtain n insn1 where d: "ia32_disasm_addr options junk (drop (unat off) buf) (buf_len - off) = Ret (n, insn1)"
    and "n \<noteq> 0" and ops: "same_operands insn1 (d_insn r)"
    by (auto simp: x86_disasm_def Let_def result_simps same_operands_def split: if_splits)
  then have "ops_plain insn1" by (intro disasm_addr_plain)
  with ops show ?thesis by (rule same_operands_plain)
qed

section \<open>Opcodes of one byte\<close>

text \<open>The structure of an instruction without prefixes, before its operands are decoded.\<close>

definition fresh_insn :: "u32 \<Rightarrow> ia32_insn_t \<Rightarrow> x86_insn_t" where
  "fresh_insn opts ri = ia32_handle_cpu (ia32_handle_eflags (ia32_handle_mnemtype
    (ia32_handle_prefix ((set_sizes opts 0 zero_insn)\<lparr>mnemonic := take 16 (i_mnemonic ri)\<rparr>) 0)
    (mnem_flag ri)) (flags_effected ri)) (i_cpu ri)"

lemma fresh_insn_simps [simp]:
  "operands (fresh_insn opts ri) = Live []"
  "insn_type (fresh_insn opts ri) = INS_TYPE (mnem_flag ri AND NOT INS_NOTE_MASK)"
  "insn_op_size (fresh_insn opts ri) = (if opts AND opt_16_bit \<noteq> 0 then 2 else 4)"
  "addr_size (fresh_insn opts ri) = (if opts AND opt_16_bit \<noteq> 0 then 2 else 4)"
  by (simp_all add: fresh_insn_def ia32_handle_cpu_def ia32_handle_eflags_def ia32_handle_mnemtype_def ia32_handle_prefix_def
      set_sizes_def Let_def zero_insn_def insn_no_prefix_def)

lemma decode_insn_fresh:
  assumes "mnem_flag ri \<noteq> INS_INVALID" and "GET_BYTE buf len = Ret m"
    and "decode_operands buf len ri (fresh_insn opts ri) 0 m = Ret (n, insn1)"
    and "ia32_insn_implicit_ops insn1 (implicit_ops ri) = Ret insn2"
  shows "ia32_decode_insn opts buf len ri zero_insn 0 =
    r_map (Pair n) (if insn_op_size insn2 = 2 then x86_operand_foreach_op insn2 reg_32_to_16 op_any else Ret insn2)"
proof -
  let ?i1 = "ia32_handle_prefix ((set_sizes opts 0 zero_insn)\<lparr>mnemonic := take 16 (i_mnemonic ri)\<rparr>) 0"
  have "operands ?i1 = Live []" by (simp add: prepared_plain) (simp add: zero_insn_def)
  then have "handle_insn_metadata ?i1 ri = Ret (fresh_insn opts ri)"
    by (simp add: handle_insn_metadata_def ia32_stack_mod_def fresh_insn_def ia32_handle_cpu_def ia32_handle_eflags_def
        ia32_handle_mnemtype_def Let_def)
  with assms show ?thesis by (simp add: ia32_decode_insn_def Let_def)
qed

lemma disasm_addr_opcode:
  assumes "tbl_Main ! unat b = ri" and "i_table ri = 0" and "row_prefix ri = 0" and "mnem_flag ri AND INS_NOTE_SUFFIX = 0"
    and "b \<noteq> 0" and "len \<noteq> 0" and "ia32_decode_insn opts bs (len - 1) ri zero_insn 0 = Ret (k, insn)"
  shows "ia32_disasm_addr opts junk (b # bs) len = Ret (1 + k, insn)"
proof -
  have nn: "r_and (Ret c) (four_nulls (b # bs)) = Ret False" for c
    using assms(5) by (simp add: four_nulls_def byte_at_def)
  have len: "\<not> len < 1" using assms(6) by (simp add: word_less_1)
  have "ia32_table_lookup (b # bs) len idx_Main None 0 = Ret (1, Some ri, 0)"
    using assms(1-3,6) by (rule lookup_plain)
  then show ?thesis
    unfolding ia32_disasm_addr_def nn r_bind.simps if_False
    using len assms(4,7) by (simp add: INVALID_INSN_def deref_def)
qed

subsection \<open>A short jump\<close>

definition row_JMP :: ia32_insn_t where "row_JMP = tbl_Main ! 0xEB"

lemma row_JMP_eq: "row_JMP = opcode 0 INS_BRANCH (ADDRMETH_J OR OPTYPE_b OR OP_X OR OP_SIGNED) ARG_NONE ARG_NONE
    (cpu_80386 OR isa_GP) ''jmp'' 0 0 0 0 0"
  by (simp add: row_JMP_def tbl_Main_def tbl_Main_00_def tbl_Main_40_def tbl_Main_80_def tbl_Main_C0_def nth_append)

lemma row_JMP_simps:
  "i_table row_JMP = 0" "row_prefix row_JMP = 0" "mnem_flag row_JMP AND INS_NOTE_SUFFIX = 0" "mnem_flag row_JMP \<noteq> INS_INVALID"
  "INS_TYPE (mnem_flag row_JMP AND NOT INS_NOTE_MASK) = insn_jmp" "implicit_ops row_JMP = 0"
  by (simp_all add: row_JMP_eq row_prefix_def opcode_def INS_BRANCH_def INS_EXEC_def INS_NOTE_SUFFIX_def INS_NOTE_PREFIX_def INS_INVALID_def
      INS_TYPE_def INS_TYPE_MASK_def INS_NOTE_MASK_def insn_jmp_def INS_GROUP_MASK_def)

text \<open>The operand: a signed displacement of one byte.\<close>

definition jmp_op :: "u8 \<Rightarrow> x86_op_t" where
  "jmp_op d = zero_op\<lparr>op_type := op_relative_near, op_datatype := op_byte, op_flags := op_signed, data_word := ucast d\<rparr>"

lemma store_low_zero: "store_low 8 0 (ucast (b :: u8)) = ucast b" "store_low 32 0 (ucast (w :: u32)) = ucast w"
  by (rule bit_word_eqI, auto simp: store_low_def bit_simps dest: bit_imp_le_length)+

lemma decode_jmp_operand:
  assumes "1 \<le> len" and "operands insn = Live []"
  shows "decode_operands (d # bs) len row_JMP insn 0 m =
    Ret (1, insn\<lparr>operand_count := 1, explicit_count := 1, operands := Live [jmp_op d]\<rparr>)"
proof -
  have nz: "len \<noteq> 0" using assms(1) by auto
  have v: "decode_operand_value (d # bs) len op insn2 ADDRMETH_J 1 op_value m g =
      Ret (1, (add_flags op_signed op)\<lparr>op_type := op_relative_near, data_word := store_low 8 (data_word op) (ucast d)\<rparr>)"
    for op insn2 op_value g
    using nz by (simp add: decode_operand_value_def number_op_def x86_imm_sized_def byte_at_def add_flags_def ADDRMETH_J_def
        ADDRMETH_E_def ADDRMETH_M_def ADDRMETH_R_def ADDRMETH_Q_def ADDRMETH_W_def ADDRMETH_C_def ADDRMETH_D_def ADDRMETH_G_def
        ADDRMETH_P_def ADDRMETH_S_def ADDRMETH_T_def ADDRMETH_V_def ADDRMETH_A_def ADDRMETH_I_def)
  have fl: "dest_flag row_JMP AND ADDRMETH_MASK = ADDRMETH_J" "dest_flag row_JMP AND OPTYPE_MASK = OPTYPE_b" "dest_flag row_JMP \<noteq> ARG_NONE"
    by (simp_all add: row_JMP_eq opcode_def ARG_NONE_def ADDRMETH_MASK_def ADDRMETH_J_def OPTYPE_MASK_def OPTYPE_b_def OP_X_def OP_SIGNED_def)
  have sz: "decode_operand_size OPTYPE_b insn = (1, op_byte)"
    by (simp add: decode_operand_size_def OPTYPE_b_def OPTYPE_c_def OPTYPE_a_def OPTYPE_v_def OPTYPE_p_def)
  have pm: "OP_PERM OPTYPE_b = 0" "OP_FLAGS OPTYPE_b = 0"
    by (simp_all add: OP_PERM_def OP_FLAGS_def OPTYPE_b_def OP_PERM_MASK_def OP_FLAG_MASK_def)
  have "ia32_decode_operand (d # bs) len insn (i_dest row_JMP) (dest_flag row_JMP) 0 m =
      Ret (1, insn\<lparr>operand_count := 1, explicit_count := 1, operands := Live [jmp_op d]\<rparr>)"
    using assms(2) by (simp add: ia32_decode_operand_def fl sz v Let_def x86_oplist_append_def jmp_op_def add_flags_def zero_op_def
        store_low_zero pm)
  then show ?thesis
    by (simp add: decode_operands_def ia32_decode_operand_def row_JMP_eq opcode_def ARG_NONE_def)
qed

definition jmp_insn :: "u32 \<Rightarrow> u8 \<Rightarrow> x86_insn_t" where
  "jmp_insn opts d = (fresh_insn opts row_JMP)\<lparr>operand_count := 1, explicit_count := 1, operands := Live [jmp_op d]\<rparr>"

lemma disasm_addr_jmp:
  assumes "2 \<le> unat len"
  shows "ia32_disasm_addr opts junk (0xEB # d # bs) len = Ret (2, jmp_insn opts d)"
proof -
  have nz: "len \<noteq> 0" using assms by auto
  then have "unat (len - 1) = unat len - 1" by (rule unat_minus_one)
  with assms have len: "1 \<le> len - 1" "len - 1 \<noteq> 0" by (auto simp: word_le_nat_alt)
  have "decode_operands (d # bs) (len - 1) row_JMP (fresh_insn opts row_JMP) 0 d = Ret (1, jmp_insn opts d)"
    using decode_jmp_operand [OF len(1), of "fresh_insn opts row_JMP" d bs d] by (simp add: jmp_insn_def)
  then have dec: "ia32_decode_insn opts (d # bs) (len - 1) row_JMP zero_insn 0 =
    r_map (Pair 1) (if insn_op_size (jmp_insn opts d) = 2 then x86_operand_foreach_op (jmp_insn opts d) reg_32_to_16 op_any
      else Ret (jmp_insn opts d))"
    using len(2) by (intro decode_insn_fresh) (simp_all add: row_JMP_simps GET_BYTE_def byte_at_def ia32_insn_implicit_ops_def)
  have "x86_operand_foreach_op (jmp_insn opts d) reg_32_to_16 op_any = Ret (jmp_insn opts d)"
    by (simp add: x86_operand_foreach_op_def jmp_insn_def reg_32_to_16_def jmp_op_def)
  with dec have "ia32_decode_insn opts (d # bs) (len - 1) row_JMP zero_insn 0 = Ret (1, jmp_insn opts d)" by (simp split: if_splits)
  then have "ia32_disasm_addr opts junk (0xEB # d # bs) len = Ret (1 + 1, jmp_insn opts d)"
    by (intro disasm_addr_opcode [of _ row_JMP] nz) (simp_all add: row_JMP_simps, simp add: row_JMP_def)
  then show ?thesis by simp
qed

lemma x86_disasm_jmp:
  assumes "2 \<le> unat len" and "unat len < 2 ^ 31"
  shows "x86_disasm opts junk (0xEB # d # bs) len rva 0 insn = Ret \<lparr>d_size = 2,
    d_insn = (jmp_insn opts d)\<lparr>addr := rva, offset := 0, insn_size := 2,
      insn_bytes := [0xEB, d] @ drop 2 (insn_bytes (jmp_insn opts d))\<rparr>, d_report = None\<rparr>"
proof -
  have "len \<noteq> 0" "\<not> sint len < 2"
    using assms sint_small [OF assms(2)] by (force, linarith)
  with assms(1) show ?thesis by (simp add: x86_disasm_def Let_def disasm_addr_jmp MAX_INSN_SIZE_def)
qed

subsection \<open>A push\<close>

lemma push_decoded:
  "\<exists>n insn. ia32_decode_insn 0 [] 0 (tbl_Main ! 0x50) zero_insn 0 = Ret (n, insn) \<and> insn_type insn = insn_push"
proof -
  have r: "tbl_Main ! 0x50 = opcode 0 INS_PUSH (ADDRMETH_RR OR OPTYPE_v OR OP_R) ARG_NONE ARG_NONE (cpu_80386 OR isa_GP) ''push'' 0 0 0 0 0"
  by (simp add: tbl_Main_def tbl_Main_00_def tbl_Main_40_def nth_append)
  have "case ia32_decode_insn 0 [] 0 (opcode 0 INS_PUSH (ADDRMETH_RR OR OPTYPE_v OR OP_R) ARG_NONE ARG_NONE (cpu_80386 OR isa_GP) ''push'' 0 0 0 0 0) zero_insn 0 of Ret (n, insn) \<Rightarrow> insn_type insn = insn_push | _ \<Rightarrow> False"
    by code_simp
  then show ?thesis unfolding r by (auto split: result.splits prod.splits)
qed

section \<open>Branch targets and the stack\<close>

text \<open>
  C23. The target of a branch is never found: for every instruction that \<open>x86_disasm\<close> returns, whatever the bytes
  and the options are, \<open>x86_get_branch_target\<close> returns NULL. It looks for an operand with execute access, and the
  decoder takes the access of an operand from bits that it has masked out before.
\<close>

theorem no_branch_target:
  assumes "x86_disasm options junk buf buf_len rva off insn = Ret r" and "d_size r \<noteq> 0"
  shows "x86_get_branch_target (d_insn r) = Ret None"
  using x86_disasm_plain [OF assms]
  by (auto simp: ops_plain_def x86_get_branch_target_def find_None_iff list_all_iff)

theorem no_branch_target_witness:
  "\<exists>r. x86_disasm 0 0 [0xEB, 0xFE] 2 0 0 zero_insn = Ret r \<and> d_size r \<noteq> 0 \<and> insn_type (d_insn r) = insn_jmp \<and>
    x86_get_branch_target (d_insn r) = Ret None"
proof -
  obtain r where r: "x86_disasm 0 0 [0xEB, 0xFE] 2 0 0 zero_insn = Ret r" "d_size r \<noteq> 0" "insn_type (d_insn r) = insn_jmp"
    using x86_disasm_jmp [of 2 0 0 "0xFE" "[]" 0 zero_insn] by (simp add: jmp_insn_def row_JMP_simps)
  with no_branch_target [OF r(1,2)] show ?thesis by blast
qed

text \<open>
  C35. The effect on the stack is never computed: decoding an instruction leaves \<open>stack_mod\<close> and \<open>stack_mod_val\<close> at 0,
  since they are computed from the operands before these are decoded.
\<close>

theorem stack_mod_unset:
  assumes "ia32_decode_insn options buf buf_len raw_insn zero_insn prefixes = Ret (n, insn)"
  shows "stack_mod insn = 0 \<and> stack_mod_val insn = 0"
  using decode_insn_plain [OF assms] by (simp add: zero_insn_def no_operands_def)

theorem stack_mod_unset_witness:
  "\<exists>n insn. ia32_decode_insn 0 [] 0 (tbl_Main ! 0x50) zero_insn 0 = Ret (n, insn) \<and> insn_type insn = insn_push \<and>
    stack_mod insn = 0 \<and> stack_mod_val insn = 0"
  using push_decoded stack_mod_unset [of 0 "[]" 0 "tbl_Main ! 0x50" 0] by blast

section \<open>Too many prefixes\<close>

lemma CS_prefix: "i_table row_CS = 0" "row_prefix row_CS = 0x2100"
  by (simp_all add: row_CS_eq row_prefix_def INS_NOTE_PREFIX_def PREFIX_CS_def PREFIX_NOTTAKEN_def PREFIX_MASK_def)

lemma NOP_row: "i_table row_NOP = 0" "row_prefix row_NOP = 0" "branch_hint 0x2100 row_NOP = 0x100"
  by (simp_all add: row_NOP_eq row_prefix_def branch_hint_def INS_NOP_def INS_OTHER_def INS_NOTE_PREFIX_def BRANCH_HINT_MASK_def
      INS_GROUP_def INS_GROUP_MASK_def INS_EXEC_def)

lemma lookup_CS_prefixes:
  assumes "n < unat len"
  shows "ia32_table_lookup (replicate n 0x2E @ 0x90 # bs) len idx_Main raw p =
    Ret (1 + of_nat n, Some row_NOP, if n = 0 then p else p OR 0x100)"
  using assms
proof (induction n arbitrary: len raw p)
  case 0
  then have "len \<noteq> 0" by auto
  with NOP_row show ?case by (simp add: lookup_plain [of _ row_NOP] row_NOP_def)
next
  case (Suc n)
  then have nz: "len \<noteq> 0" by auto
  with Suc.prems have "n < unat (len - 1)" by (simp add: unat_minus_one)
  from Suc.IH [OF this, of "Some row_CS" p]
  have "ia32_table_lookup (0x2E # replicate n 0x2E @ 0x90 # bs) len idx_Main raw p =
      Ret (1 + (1 + of_nat n), Some row_NOP, (if n = 0 then p else p OR 0x100) OR branch_hint (row_prefix row_CS) row_NOP)"
    by (intro lookup_prefix [OF _ _ _ nz]) (simp_all add: CS_prefix, simp add: row_CS_def)
  then show ?case by (simp add: CS_prefix NOP_row or.assoc)
qed

lemma decode_NOP: "\<exists>insn. ia32_decode_insn opts [] 0 row_NOP zero_insn p = Ret (0, insn)"
proof -
  let ?i1 = "ia32_handle_prefix ((set_sizes opts p zero_insn)\<lparr>mnemonic := take 16 (i_mnemonic row_NOP)\<rparr>) p"
  have o1: "operands ?i1 = Live []" by (simp add: prepared_plain) (simp add: zero_insn_def)
  then obtain i2 where i2: "handle_insn_metadata ?i1 row_NOP = Ret i2" "operands i2 = Live []"
    by (auto simp: handle_insn_metadata_def ia32_stack_mod_def ia32_handle_cpu_def ia32_handle_eflags_def ia32_handle_mnemtype_def
        Let_def)
  have d: "decode_operands [] 0 row_NOP i2 p 0 = Ret (0, i2)"
    by (simp add: decode_operands_def ia32_decode_operand_def row_NOP_eq opcode_def ARG_NONE_def)
  have g: "GET_BYTE [] 0 = Ret 0" by (simp add: GET_BYTE_def)
  have im: "ia32_insn_implicit_ops i2 (implicit_ops row_NOP) = Ret i2"
    by (simp add: ia32_insn_implicit_ops_def row_NOP_eq opcode_def)
  obtain i4 where i4: "ia32_insn_implicit_ops i2 IDX_IMPLICIT_REP = Ret i4" "\<exists>ops. operands i4 = Live ops"
    using i2(2) by (auto simp: ia32_insn_implicit_ops_def IDX_IMPLICIT_REP_def LAST_IMPL_IDX_def op_implicit_list_def
        list_rsm_def x86_oplist_append_def)
  define i5 where "i5 = (if p AND PREFIX_REPZ \<noteq> 0 \<or> p * PREFIX_REPNZ \<noteq> 0 then i4 else i2)"
  have i5: "(if p AND PREFIX_REPZ \<noteq> 0 \<or> p * PREFIX_REPNZ \<noteq> 0 then ia32_insn_implicit_ops i2 IDX_IMPLICIT_REP
      else Ret i2) = Ret i5" "\<exists>ops. operands i5 = Live ops" using i2(2) i4 by (auto simp: i5_def)
  then obtain ops where "operands i5 = Live ops" by blast
  then have "\<exists>i6. (if insn_op_size i5 = 2 then x86_operand_foreach_op i5 reg_32_to_16 op_any else Ret i5) = Ret i6"
    by (simp add: x86_operand_foreach_op_def)
  then obtain i6 where i6: "(if insn_op_size i5 = 2 then x86_operand_foreach_op i5 reg_32_to_16 op_any else Ret i5) = Ret i6" ..
  have "mnem_flag row_NOP \<noteq> INS_INVALID" by (simp add: row_NOP_eq INS_NOP_def INS_OTHER_def INS_INVALID_def)
  then have "ia32_decode_insn opts [] 0 row_NOP zero_insn p = Ret (0, i6)"
    by (simp only: ia32_decode_insn_def Let_def if_False i2 g d im i5 i6 r_bind.simps r_map_simps prod.case)
  then show ?thesis ..
qed

text \<open>
  C26. The array for the bytes of an instruction is overrun: the number of prefixes of an instruction is not
  limited, and \<open>x86_disasm\<close> copies the whole instruction into an array of 20 bytes. Shown for 20 or more \<open>CS\<close> prefixes
  before a \<open>nop\<close>, with every setting of the options.
\<close>

theorem prefixes_overrun_bytes:
  assumes "20 \<le> n" and "n + 1 < 2 ^ 31"
  shows "x86_disasm options junk (replicate n 0x2E @ [0x90]) (of_nat (n + 1)) rva 0 insn = Fail Undefined"
proof -
  define len :: u32 where "len = of_nat (n + 1)"
  let ?buf = "replicate n 0x2E @ [0x90 :: u8]"
  have "unat len = n + 1" using assms(2) unfolding len_def by (simp only: unat_of_nat) (simp add: take_bit_nat_eq_self)
  note len = this
  have "n < unat len" by (simp add: len)
  from lookup_CS_prefixes [OF this, of "[]" None 0] assms(1)
  have look: "ia32_table_lookup ?buf len idx_Main None 0 = Ret (len, Some row_NOP, 0x100)" by (simp add: len_def)
  obtain insn1 where dec: "ia32_decode_insn options [] 0 row_NOP zero_insn 0x100 = Ret (0, insn1)" using decode_NOP by blast
  have nosfx: "mnem_flag row_NOP AND INS_NOTE_SUFFIX = 0"
    by (simp add: row_NOP_eq INS_NOP_def INS_OTHER_def INS_NOTE_SUFFIX_def)
  have inv: "len \<noteq> INVALID_INSN" proof
    assume "len = INVALID_INSN"
    then have "unat (len + 1) = 0" by (simp add: INVALID_INSN_def)
    moreover have "unat (len + 1) = n + 2" using len assms(2) by (simp add: unat_word_ariths)
    ultimately show False by simp
  qed
  have nn: "r_and (Ret c) (four_nulls ?buf) = Ret False" for c
    using assms(1) by (cases n) (simp_all add: four_nulls_def byte_at_def)
  have "ia32_disasm_addr options junk ?buf len = Ret (len, insn1)"
    unfolding ia32_disasm_addr_def nn r_bind.simps if_False look prod.case
    using len inv dec nosfx by (simp add: deref_def)
  moreover have "len \<noteq> 0" using len by force
  ultimately show ?thesis
    using len assms unfolding len_def [symmetric] by (simp add: x86_disasm_def Let_def MAX_INSN_SIZE_def)
qed

theorem prefixes_overrun_bytes_witness:
  "(20 :: nat) \<le> 20 \<and> x86_disasm 0 0 (replicate 20 0x2E @ [0x90]) 21 0 0 zero_insn = Fail Undefined"
  using prefixes_overrun_bytes [of 20 0 0 0 zero_insn] by simp

section \<open>Sequential disassembly\<close>

text \<open>The instructions lie one after the other in a range of the buffer.\<close>

fun tiles :: "nat \<Rightarrow> nat \<Rightarrow> x86_insn_t list \<Rightarrow> bool" where
  "tiles lo hi [] = True"
| "tiles lo hi (i # is) =
    (lo \<le> unat (offset i) \<and> 0 < unat (insn_size i) \<and> unat (offset i) + unat (insn_size i) \<le> hi \<and>
     tiles (unat (offset i) + unat (insn_size i)) hi is)"

lemma tiles_mono: "tiles lo hi is \<Longrightarrow> lo' \<le> lo \<Longrightarrow> tiles lo' hi is"
  by (cases "is") auto

lemma x86_disasm_fits:
  assumes "x86_disasm opts junk buf (of_nat len) rva (of_nat off) insn = Ret r" and "d_size r \<noteq> 0" and "len < 2 ^ 31"
    and "off < 2 ^ 31"
  shows "off + unat (d_size r) \<le> len \<and> unat (offset (d_insn r)) = off \<and> unat (insn_size (d_insn r)) = unat (d_size r)"
proof -
  have len: "unat (of_nat len :: u32) = len" and off: "unat (of_nat off :: u32) = off"
    using assms(3,4) by (simp_all add: unat_of_nat take_bit_nat_eq_self)
  have le: "of_nat off < (of_nat len :: u32)" and f: "unat (d_size r) \<le> 20" "offset (d_insn r) = of_nat off"
    "insn_size (d_insn r) = ucast (d_size r)" "\<not> sint (d_size r) > sint (of_nat len - of_nat off :: u32)"
    using assms(1,2) by (auto simp: x86_disasm_def Let_def result_simps MAX_INSN_SIZE_def not_less split: if_splits)
  then have d: "unat (of_nat len - of_nat off :: u32) = len - off" using len off by (simp add: unat_sub)
  have "sint (of_nat len - of_nat off :: u32) = int (len - off)" using sint_small [of "of_nat len - of_nat off"] d assms(3) by simp
  moreover have "sint (d_size r) = int (unat (d_size r))" using f(1) by (intro sint_small) simp
  ultimately have "unat (d_size r) \<le> len - off" using f(4) by (simp only: not_less of_nat_le_iff)
  moreover have "off < len" using le len off by (simp add: word_less_nat_alt)
  moreover have "unat (insn_size (d_insn r)) = unat (d_size r)"
    using f(1) by (simp add: f(3) unsigned_ucast_eq take_bit_nat_eq_self)
  ultimately show ?thesis by (simp add: f(2) off)
qed

lemma callbacks_turn:
  "callbacks (disasm_events r @ es) = (if d_size r \<noteq> 0 then [d_insn r] else []) @ callbacks es"
  by (simp add: disasm_events_def split: option.split)

lemma range_loop_tiles:
  assumes "\<forall>k < len. \<forall>insn. \<exists>r. x86_disasm opts junk buf (of_nat (len + off)) rva (of_nat (off + k)) insn = Ret r"
    and "off + len < 2 ^ 31"
  shows "\<exists>es. range_loop opts junk buf rva off len bytes insn = Ret es \<and> tiles (off + bytes) (off + len) (callbacks es)
    \<and> length (callbacks es) \<le> len - bytes"
  using assms
proof (induction opts junk buf rva off len bytes insn rule: range_loop.induct)
  case (1 opts junk buf rva off len bytes insn)
  show ?case
  proof (cases "bytes < len")
    case False
    then show ?thesis by (simp add: range_loop.simps)
  next
    case True
    with "1.prems"(1) obtain r where r: "x86_disasm opts junk buf (of_nat (len + off)) rva (of_nat (off + bytes)) insn = Ret r" by blast
    have fits: "d_size r \<noteq> 0 \<Longrightarrow> off + bytes + unat (d_size r) \<le> len + off \<and> unat (offset (d_insn r)) = off + bytes
        \<and> unat (insn_size (d_insn r)) = unat (d_size r)"
      using x86_disasm_fits [OF r] "1.prems"(2) True by simp
    show ?thesis
    proof (cases "d_size r = 0")
      case zero: True
      from "1.IH"(2) [OF True r] zero "1.prems" obtain es where
        "range_loop opts junk buf rva off len (bytes + 1) (d_insn r) = Ret es"
        "tiles (off + (bytes + 1)) (off + len) (callbacks es)" "length (callbacks es) \<le> len - (bytes + 1)" by auto
      with True r zero show ?thesis
        by (subst range_loop.simps) (auto simp: callbacks_turn elim: tiles_mono)
    next
      case False
      then have pos: "0 < unat (d_size r)" by (simp add: unat_gt_0)
      from "1.IH"(1) [OF True r] False "1.prems" obtain es where
        "range_loop opts junk buf rva off len (bytes + unat (d_size r)) (d_insn r) = Ret es"
        "tiles (off + (bytes + unat (d_size r))) (off + len) (callbacks es)"
        "length (callbacks es) \<le> len - (bytes + unat (d_size r))" by auto
      with True r False fits pos show ?thesis
        by (subst range_loop.simps) (auto simp: callbacks_turn ac_simps)
    qed
  qed
qed

text \<open>
  C25. \<open>x86_disasm_range\<close> ends and invokes the callback at most once per byte, as often as the number it returns says; the
  instructions it hands to the callback follow each other without overlap inside the range asked for. This is for
  buffers where no single call of \<open>x86_disasm\<close> at an offset of the range leaves an array, and for ranges that end
  before \<open>2 ^ 31\<close>.
\<close>

theorem x86_disasm_range_tiles:
  assumes "\<forall>k < len. \<forall>insn. \<exists>r. x86_disasm opts junk buf (of_nat (len + off)) rva (of_nat (off + k)) insn = Ret r"
    and "off + len < 2 ^ 31"
  shows "\<exists>n es. x86_disasm_range opts junk buf rva off len insn = Ret (n, es) \<and> n = length (callbacks es) \<and> n \<le> len \<and>
    tiles off (off + len) (callbacks es)"
  using range_loop_tiles [OF assms, of 0 insn] by (auto simp: x86_disasm_range_def)

theorem x86_disasm_range_tiles_witness:
  "\<exists>n es. x86_disasm_range 0 0 [0xEB, 0x90] 0 0 2 zero_insn = Ret (n, es) \<and> n = length (callbacks es) \<and> n \<le> 2 \<and>
    tiles 0 (0 + 2) (callbacks es)"
proof (rule x86_disasm_range_tiles [of 2 0 0 "[0xEB, 0x90]" 0 0])
  have 0: "\<exists>r. x86_disasm 0 0 [0xEB, 0x90] 2 0 0 insn = Ret r" for insn
    using x86_disasm_jmp [of 2 0 0 "0x90" "[]" 0 insn] by simp
  obtain i where "ia32_decode_insn 0 [] 0 row_NOP zero_insn 0 = Ret (0, i)" using decode_NOP by blast
  then have "ia32_disasm_addr 0 0 [0x90] 1 = Ret (1 + 0, i)"
    by (intro disasm_addr_opcode [of _ row_NOP])
      (simp_all add: row_NOP_def [symmetric] NOP_row, simp_all add: row_NOP_eq INS_NOP_def INS_OTHER_def INS_NOTE_SUFFIX_def)
  then have 1: "\<exists>r. x86_disasm 0 0 [0xEB, 0x90] 2 0 1 insn = Ret r" for insn
    by (simp add: x86_disasm_def Let_def MAX_INSN_SIZE_def)
  show "\<forall>k < 2. \<forall>insn. \<exists>r. x86_disasm 0 0 [0xEB, 0x90] (of_nat (2 + 0)) 0 (of_nat (0 + k)) insn = Ret r"
    using 0 1 by (simp add: less_2_cases_iff)
qed simp

end
