(* ===== verification/X86Format.thy ===== *)
theory X86Format
  imports Libdis Printf
begin

text \<open>
  Printing instructions, \<^verbatim>\<open>x86_format.c\<close>. Text is appended to an array by the macros \<open>STRNCAT\<close> and \<open>STRNCATF\<close>, which also
  count down the variable \<open>len\<close> with the space that is left. The state of a writer is the text so far and \<open>len\<close>; the size
  \<open>cap\<close> of the array is an argument. A function that appends several pieces is the list of the pieces.
\<close>

section \<open>Bounded concatenation\<close>

definition MAX_OP_STRING :: nat where "MAX_OP_STRING = 32"
definition MAX_OP_RAW_STRING :: nat where "MAX_OP_RAW_STRING = 64"
definition MAX_OP_XML_STRING :: nat where "MAX_OP_XML_STRING = 256"

type_synonym sbuf = "string \<times> int"

text \<open>
  \<open>strncat\<close> takes the bound as an unsigned number, so that a negative one is none. Writing outside of the array is
  undefined. A terminating 0 inside of the text cuts it off there.
\<close>

definition STRNCAT :: "nat \<Rightarrow> string \<Rightarrow> sbuf \<Rightarrow> sbuf result" where
  "STRNCAT cap str b =
    (case b of (buf, len) \<Rightarrow>
     if len = 0 then Ret b
     else
       (let n = len - 1; joined = buf @ (if n < 0 then str else take (nat n) str); p = int (length buf) + n in
        if length joined \<ge> cap then Fail Undefined
        else if n \<le> int (length str) then
          (if p < 0 \<or> p \<ge> int cap then Fail Undefined else Ret (take (nat p) joined, 0))
        else Ret (joined, len - int (length str))))"

fun STRNCATS :: "nat \<Rightarrow> string list \<Rightarrow> sbuf \<Rightarrow> sbuf result" where
  "STRNCATS cap [] b = Ret b"
| "STRNCATS cap (s # ss) b = r_bind (STRNCAT cap s b) (STRNCATS cap ss)"

text \<open>The piece that \<open>STRNCATF\<close> appends was formatted into an array of \<open>MAX_OP_STRING\<close> characters by \<open>snprintf\<close>.\<close>

definition STRNCATF :: "string \<Rightarrow> string" where
  "STRNCATF text1 = take (MAX_OP_STRING - 1) text1"

definition tabs :: "nat \<Rightarrow> string" where "tabs n = replicate n (CHR 0x09)"
definition nl :: string where "nl = [CHR 0x0A]"
definition quote :: string where "quote = [CHR 0x22]"

definition quoted :: "string \<Rightarrow> string \<Rightarrow> string \<Rightarrow> string" where
  "quoted pre s post = pre @ quote @ s @ quote @ post"

definition fmt_02X :: "nat \<Rightarrow> string" where "fmt_02X n = pad_left (CHR ''0'') 2 (fmt_X n)"
definition fmt_04X :: "nat \<Rightarrow> string" where "fmt_04X n = pad_left (CHR ''0'') 4 (fmt_X n)"
definition fmt_x08X :: "u32 \<Rightarrow> string" where "fmt_x08X w = ''0x'' @ fmt_08X w"

section \<open>Operands\<close>

datatype x86_asm_format = unknown_syntax | native_syntax | intel_syntax | att_syntax | xml_syntax | raw_syntax

definition PRINT_DISPLACEMENT :: "x86_ea_t \<Rightarrow> string list" where
  "PRINT_DISPLACEMENT ea =
    (if ea_disp_size ea = 0 then []
     else if sint (ea_disp_size ea) > 1 \<and> ea_disp_sign ea = 0 then [STRNCATF (''0x'' @ fmt_X (unat (ea_disp ea)))]
     else [STRNCATF (fmt_d (sint (ea_disp ea)))])"

definition format_insn_prefix_str :: "u32 \<Rightarrow> string list" where
  "format_insn_prefix_str prefix =
    (if prefix AND 1 \<noteq> 0 then [''repz ''] else []) @ (if prefix AND 2 \<noteq> 0 then [''repnz ''] else []) @
    (if prefix AND 4 \<noteq> 0 then [''lock ''] else []) @ (if prefix AND 8 \<noteq> 0 then [''branch delay ''] else [])"

definition get_operand_data_str :: "x86_op_t \<Rightarrow> string" where
  "get_operand_data_str op =
    (let v = data_word op; b = (ucast v :: u8); h = (ucast v :: u16); w = (ucast v :: u32) in
     if op_flags op AND op_signed \<noteq> 0 then
       (case op_datatype op of op_byte \<Rightarrow> fmt_d (sint b) | op_word \<Rightarrow> fmt_d (sint h) | op_qword \<Rightarrow> fmt_d (sint v)
        | _ \<Rightarrow> fmt_d (sint w))
     else
       (case op_datatype op of op_byte \<Rightarrow> ''0x'' @ fmt_02X (unat b) | op_word \<Rightarrow> ''0x'' @ fmt_04X (unat h)
        | op_qword \<Rightarrow> ''0x'' @ pad_left (CHR ''0'') 8 (fmt_X (unat v)) | _ \<Rightarrow> fmt_x08X w))"

definition operand_regtypes :: "(string \<times> u32) list" where
  "operand_regtypes =
    [(''reg_gen'', 0x00001), (''reg_in'', 0x00002), (''reg_out'', 0x00004), (''reg_local'', 0x00008),
     (''reg_fpu'', 0x00010), (''reg_seg'', 0x00020), (''reg_simd'', 0x00040), (''reg_sys'', 0x00080), (''reg_sp'', 0x00100),
     (''reg_fp'', 0x00200), (''reg_pc'', 0x00400), (''reg_retaddr'', 0x00800), (''reg_cond'', 0x01000),
     (''reg_zero'', 0x02000), (''reg_ret'', 0x04000), (''reg_src'', 0x10000), (''reg_dest'', 0x20000),
     (''reg_count'', 0x40000)]"

fun spaced :: "string list \<Rightarrow> string list" where
  "spaced [] = []"
| "spaced [s] = [s]"
| "spaced (s # ss) = s # '' '' # spaced ss"

definition get_operand_regtype_str :: "u32 \<Rightarrow> nat \<Rightarrow> string result" where
  "get_operand_regtype_str regtype len =
    r_map fst (STRNCATS len (spaced (map fst (filter (\<lambda>(name, v). regtype AND v \<noteq> 0) operand_regtypes))) ([], int len))"

text \<open>A register of an address in the XML format.\<close>

definition xml_ea_register :: "string \<Rightarrow> x86_reg_t \<Rightarrow> string list result" where
  "xml_ea_register tag reg =
    (if reg_name reg = [] then Ret []
     else
       r_map (\<lambda>str. [tabs 3 @ ''<'' @ tag @ ''>'' @ nl, tabs 4 @ ''<register '',
         STRNCATF (quoted ''name='' (reg_name reg) '' ''), STRNCATF (quoted ''type='' str '' ''),
         STRNCATF (''size='' @ fmt_d (sint (reg_size reg)) @ ''/>'' @ nl), tabs 3 @ ''</'' @ tag @ ''>'' @ nl])
         (get_operand_regtype_str (reg_type reg) MAX_OP_STRING))"

definition expr_pieces_xml :: "x86_ea_t \<Rightarrow> string list result" where
  "expr_pieces_xml ea =
    r_bind (xml_ea_register ''base'' (ea_base ea)) (\<lambda>base.
    r_map (\<lambda>ix. base @ ix @
      [tabs 3 @ ''<scale>'' @ nl, tabs 4 @ ''<immediate '',
       STRNCATF (quoted ''value='' (fmt_d (sint (ea_scale ea))) (''/>'' @ nl)), tabs 3 @ ''</scale>'' @ nl] @
      (if ea_disp_size ea = 0 then []
       else
         [tabs 3 @ ''<displacement>'' @ nl] @
         (if sint (ea_disp_size ea) > 1 \<and> ea_disp_sign ea = 0
          then [tabs 4 @ ''<address '', STRNCATF (quoted ''value='' (''0x'' @ fmt_X (unat (ea_disp ea))) (''/>'' @ nl))]
          else [tabs 4 @ ''<immediate '', STRNCATF (''value='' @ fmt_d (sint (ea_disp ea)) @ ''/>'' @ nl)]) @
         [tabs 3 @ ''</displacement>'' @ nl]))
      (xml_ea_register ''index'' (ea_index ea)))"

definition expr_pieces_att :: "x86_ea_t \<Rightarrow> string list" where
  "expr_pieces_att ea =
    (let base = reg_name (ea_base ea); ix = reg_name (ea_index ea); scale = fmt_d (sint (ea_scale ea)) in
     PRINT_DISPLACEMENT ea @ [''(''] @ (if base \<noteq> [] then [STRNCATF (''%'' @ base)] else []) @
     (if ix \<noteq> [] then [STRNCATF ('',%'' @ ix)] @ (if ea_scale ea > 1 then [STRNCATF ('','' @ scale)] else []) else []) @
     (if base = [] \<and> ix = [] then [STRNCATF ('','' @ scale)] else []) @ ['')''])"

definition expr_pieces_raw :: "x86_ea_t \<Rightarrow> string list" where
  "expr_pieces_raw ea =
    PRINT_DISPLACEMENT ea @ [''('', STRNCATF (reg_name (ea_base ea) @ '',''), STRNCATF (reg_name (ea_index ea) @ '',''),
      STRNCATF (fmt_d (sint (ea_scale ea))), '')'']"

definition expr_pieces_native :: "x86_ea_t \<Rightarrow> string list" where
  "expr_pieces_native ea =
    (let base = reg_name (ea_base ea); ix = reg_name (ea_index ea); plus = ea_disp_size ea \<noteq> 0 \<and> ea_disp_sign ea = 0 in
     [''[''] @
     (if base \<noteq> [] then [base] @ (if ix \<noteq> [] \<or> plus then [''+''] else []) else []) @
     (if ix \<noteq> []
      then [ix] @ (if ea_scale ea > 1 then [STRNCATF (''*'' @ fmt_d (sint (ea_scale ea)))] else []) @ (if plus then [''+''] else [])
      else []) @
     (if ea_disp_size ea \<noteq> 0 \<or> (ix = [] \<and> base = []) then PRINT_DISPLACEMENT ea else []) @ ['']''])"

text \<open>
  The function returns the length of the whole text, which its callers take off their \<open>len\<close>; the space that is
  left inside of \<open>format_expr\<close> is not passed back.
\<close>

definition format_expr :: "nat \<Rightarrow> x86_ea_t \<Rightarrow> sbuf \<Rightarrow> x86_asm_format \<Rightarrow> sbuf result" where
  "format_expr cap ea b format =
    r_bind (if format = att_syntax then Ret (expr_pieces_att ea)
            else if format = xml_syntax then expr_pieces_xml ea
            else if format = raw_syntax then Ret (expr_pieces_raw ea)
            else Ret (expr_pieces_native ea)) (\<lambda>ps.
      r_map (\<lambda>(text1, l). (text1, snd b - int (length text1))) (STRNCATS cap ps b))"

definition seg_name :: "u32 \<Rightarrow> string" where
  "seg_name flags =
    (let s = flags AND 0xF00 in
     if s = op_es_seg then ''es'' else if s = op_cs_seg then ''cs'' else if s = op_ss_seg then ''ss''
     else if s = op_ds_seg then ''ds'' else if s = op_fs_seg then ''fs'' else if s = op_gs_seg then ''gs'' else [])"

definition format_seg :: "x86_op_t \<Rightarrow> x86_asm_format \<Rightarrow> string list" where
  "format_seg op format =
    (let reg = seg_name (op_flags op) in
     if op_flags op = 0 \<or> (op_type op \<noteq> op_absolute \<and> op_type op \<noteq> op_offset \<and> op_type op \<noteq> op_expression) \<or> reg = [] then []
     else if format = xml_syntax then [tabs 3 @ ''<segment '', STRNCATF (quoted ''value='' reg (''/>'' @ nl))]
     else if format = att_syntax then [STRNCATF (''%'' @ reg @ '':'')]
     else [STRNCATF (reg @ '':'')])"

definition get_operand_datatype_str :: "x86_op_t \<Rightarrow> string" where
  "get_operand_datatype_str op =
    (if op_flags op AND op_signed \<noteq> 0 then
       (case op_datatype op of op_byte \<Rightarrow> ''sbyte'' | op_word \<Rightarrow> ''sword'' | op_qword \<Rightarrow> ''sqword'' | op_dqword \<Rightarrow> ''sdqword''
        | _ \<Rightarrow> ''sdword'')
     else
       (case op_datatype op of op_byte \<Rightarrow> ''byte'' | op_word \<Rightarrow> ''word'' | op_qword \<Rightarrow> ''qword'' | op_dqword \<Rightarrow> ''dqword''
        | op_sreal \<Rightarrow> ''sreal'' | op_dreal \<Rightarrow> ''dreal'' | op_extreal \<Rightarrow> ''extreal'' | op_bcd \<Rightarrow> ''bcd'' | op_ssimd \<Rightarrow> ''ssimd''
        | op_dsimd \<Rightarrow> ''dsimd'' | op_sssimd \<Rightarrow> ''sssimd'' | op_sdsimd \<Rightarrow> ''sdsimd'' | op_descr32 \<Rightarrow> ''descr32''
        | op_descr16 \<Rightarrow> ''descr16'' | op_pdescr32 \<Rightarrow> ''pdescr32'' | op_pdescr16 \<Rightarrow> ''pdescr16'' | op_fpuenv \<Rightarrow> ''fpu_env''
        | op_fpregset \<Rightarrow> ''fp_reg_set'' | _ \<Rightarrow> ''dword''))"

text \<open>The address a relative operand stands for.\<close>

definition near_target :: "x86_op_t \<Rightarrow> x86_insn_t \<Rightarrow> u32" where
  "near_target op insn = of_int (relative_near op) + addr insn + ucast (insn_size insn)"

definition far_target :: "x86_op_t \<Rightarrow> x86_insn_t \<Rightarrow> u32" where
  "far_target op insn =
    (if op_datatype op = op_word then scast (ucast (data_word op) :: u16) else ucast (data_word op))
    + addr insn + ucast (insn_size insn)"

definition sdword :: "x86_op_t \<Rightarrow> u32" where "sdword op = ucast (data_word op)"

definition format_operand_native :: "nat \<Rightarrow> x86_op_t \<Rightarrow> x86_insn_t \<Rightarrow> sbuf \<Rightarrow> sbuf result" where
  "format_operand_native cap op insn b =
    (case op_type op of
       op_register \<Rightarrow> STRNCATS cap [reg_name (data_reg op)] b
     | op_immediate \<Rightarrow> STRNCATS cap [get_operand_data_str op] b
     | op_relative_near \<Rightarrow> STRNCATS cap [STRNCATF (fmt_x08X (near_target op insn))] b
     | op_relative_far \<Rightarrow> STRNCATS cap [STRNCATF (fmt_x08X (far_target op insn))] b
     | op_absolute \<Rightarrow> STRNCATS cap (format_seg op native_syntax @ [STRNCATF (fmt_x08X (sdword op))]) b
     | op_offset \<Rightarrow> STRNCATS cap (format_seg op native_syntax @ [STRNCATF (fmt_x08X (sdword op))]) b
     | op_expression \<Rightarrow>
         r_bind (STRNCATS cap (format_seg op native_syntax) b) (\<lambda>b1. format_expr cap (data_expression op) b1 native_syntax)
     | op_unused \<Rightarrow> Ret b
     | op_unknown \<Rightarrow> Ret b)"

definition format_operand_att :: "nat \<Rightarrow> x86_op_t \<Rightarrow> x86_insn_t \<Rightarrow> sbuf \<Rightarrow> sbuf result" where
  "format_operand_att cap op insn b =
    (let star = (if insn_type insn = insn_jmp \<or> insn_type insn = insn_call then [''*''] else []) in
     case op_type op of
       op_register \<Rightarrow> STRNCATS cap [STRNCATF (''%'' @ reg_name (data_reg op))] b
     | op_immediate \<Rightarrow> STRNCATS cap [STRNCATF (''$'' @ get_operand_data_str op)] b
     | op_relative_near \<Rightarrow> STRNCATS cap [STRNCATF (fmt_x08X (near_target op insn))] b
     | op_relative_far \<Rightarrow> STRNCATS cap [STRNCATF (fmt_x08X (far_target op insn))] b
     | op_absolute \<Rightarrow> STRNCATS cap (star @ format_seg op att_syntax @ [STRNCATF (fmt_x08X (sdword op))]) b
     | op_offset \<Rightarrow> STRNCATS cap (star @ format_seg op att_syntax @ [STRNCATF (fmt_x08X (sdword op))]) b
     | op_expression \<Rightarrow>
         r_bind (STRNCATS cap (format_seg op att_syntax) b) (\<lambda>b1. format_expr cap (data_expression op) b1 att_syntax)
     | op_unused \<Rightarrow> Ret b
     | op_unknown \<Rightarrow> Ret b)"

definition format_operand_xml :: "nat \<Rightarrow> x86_op_t \<Rightarrow> x86_insn_t \<Rightarrow> sbuf \<Rightarrow> sbuf result" where
  "format_operand_xml cap op insn b =
    (let end1 = ''/>'' @ nl in
     case op_type op of
       op_register \<Rightarrow>
         r_bind (get_operand_regtype_str (reg_type (data_reg op)) MAX_OP_STRING) (\<lambda>str.
           STRNCATS cap [tabs 2 @ ''<register '', STRNCATF (quoted ''name='' (reg_name (data_reg op)) '' ''),
             STRNCATF (quoted ''type='' str '' ''), STRNCATF (''size='' @ fmt_d (sint (reg_size (data_reg op))) @ end1)] b)
     | op_immediate \<Rightarrow>
         STRNCATS cap [tabs 2 @ ''<immediate '', STRNCATF (quoted ''type='' (get_operand_datatype_str op) '' ''),
           STRNCATF (quoted ''value='' (get_operand_data_str op) end1)] b
     | op_relative_near \<Rightarrow>
         STRNCATS cap [tabs 2 @ ''<relative_offset '', STRNCATF (quoted ''value='' (fmt_x08X (near_target op insn)) end1)] b
     | op_relative_far \<Rightarrow>
         STRNCATS cap [tabs 2 @ ''<relative_offset '', STRNCATF (quoted ''value='' (fmt_x08X (far_target op insn)) end1)] b
     | op_absolute \<Rightarrow>
         STRNCATS cap ([STRNCATF (quoted (tabs 2 @ ''<absolute_address value='') (fmt_x08X (sdword op)) (''>'' @ nl))] @
           format_seg op xml_syntax @ [tabs 2 @ ''</absolute_address>'' @ nl]) b
     | op_expression \<Rightarrow>
         r_bind (STRNCATS cap ([tabs 2 @ ''<address_expression>'' @ nl] @ format_seg op xml_syntax) b) (\<lambda>b1.
         r_bind (format_expr cap (data_expression op) b1 xml_syntax)
           (STRNCATS cap [tabs 2 @ ''</address_expression>'' @ nl]))
     | op_offset \<Rightarrow>
         STRNCATS cap ([tabs 2 @ ''<segment_offset>'' @ nl] @ format_seg op xml_syntax @ [tabs 3 @ ''<address '',
           STRNCATF (quoted ''value='' (fmt_x08X (sdword op)) end1), tabs 2 @ ''</segment_offset>'' @ nl]) b
     | op_unused \<Rightarrow> Ret b
     | op_unknown \<Rightarrow> Ret b)"

definition format_operand_raw :: "nat \<Rightarrow> x86_op_t \<Rightarrow> x86_insn_t \<Rightarrow> sbuf \<Rightarrow> sbuf result" where
  "format_operand_raw cap op insn b =
    (let dt = STRNCATF (get_operand_datatype_str op @ ''|'') in
     case op_type op of
       op_register \<Rightarrow>
         r_bind (get_operand_regtype_str (reg_type (data_reg op)) MAX_OP_RAW_STRING) (\<lambda>str.
           STRNCATS cap [''reg|'', dt, STRNCATF (reg_name (data_reg op) @ '':''), STRNCATF (str @ '':''),
             STRNCATF (fmt_d (sint (reg_size (data_reg op))) @ ''|'')] b)
     | op_immediate \<Rightarrow> STRNCATS cap [''immediate|'', dt, STRNCATF (get_operand_data_str op @ ''|'')] b
     | op_relative_near \<Rightarrow> STRNCATS cap [''relative|'', dt, STRNCATF (fmt_08X (near_target op insn) @ ''|'')] b
     | op_relative_far \<Rightarrow> STRNCATS cap [''relative|'', dt,
         STRNCATF (fmt_08X (far_target op insn) @ (if op_datatype op = op_word then [] else ''|''))] b
     | op_absolute \<Rightarrow>
         STRNCATS cap ([''absolute_address|'', dt] @ format_seg op native_syntax @ [STRNCATF (fmt_08X (sdword op) @ ''|'')]) b
     | op_expression \<Rightarrow>
         r_bind (STRNCATS cap ([''address_expression|'', dt] @ format_seg op native_syntax) b) (\<lambda>b1.
         r_bind (format_expr cap (data_expression op) b1 raw_syntax) (STRNCATS cap [''|'']))
     | op_offset \<Rightarrow>
         STRNCATS cap ([''segment_offset|'', dt] @ format_seg op xml_syntax @ [STRNCATF (fmt_08X (sdword op) @ ''|'')]) b
     | op_unused \<Rightarrow> Ret b
     | op_unknown \<Rightarrow> Ret b)"

text \<open>The operand is not NULL and \<open>len\<close> not 0, which all callers see to. The result is the text in the array.\<close>

definition x86_format_operand :: "x86_op_t \<Rightarrow> x86_insn_t \<Rightarrow> nat \<Rightarrow> x86_asm_format \<Rightarrow> string result" where
  "x86_format_operand op insn len format =
    r_map fst (case format of
       att_syntax \<Rightarrow> format_operand_att len op insn ([], int len)
     | xml_syntax \<Rightarrow> format_operand_xml len op insn ([], int len)
     | raw_syntax \<Rightarrow> format_operand_raw len op insn ([], int len)
     | _ \<Rightarrow> format_operand_native len op insn ([], int len))"

section \<open>Instructions\<close>

definition insn_flags :: "(string \<times> u32) list" where
  "insn_flags =
    [(''carry_set '', 0x0001), (''zero_set '', 0x0002), (''oflow_set '', 0x0004), (''dir_set '', 0x0008),
     (''sign_set '', 0x0010), (''parity_set '', 0x0020), (''carry_or_zero_set '', 0x0040),
     (''zero_set_or_sign_ne_oflow '', 0x0080), (''carry_clear '', 0x0100), (''zero_clear '', 0x0200),
     (''oflow_clear '', 0x0400), (''dir_clear '', 0x0800), (''sign_clear '', 0x1000), (''parity_clear '', 0x2000),
     (''sign_eq_oflow '', 0x4000), (''sign_ne_oflow '', 0x8000)]"

definition format_insn_eflags_str :: "u32 \<Rightarrow> string list" where
  "format_insn_eflags_str flags = map fst (filter (\<lambda>(name, v). flags AND v \<noteq> 0) insn_flags)"

text \<open>The three tables are indexed up to and including their length; an entry that is NULL cannot be printed.\<close>

definition string_entry :: "string option list \<Rightarrow> u32 \<Rightarrow> string result" where
  "string_entry ss n =
    (if unat n < length ss then (case ss ! unat n of None \<Rightarrow> Fail Undefined | Some s \<Rightarrow> Ret s) else Fail Undefined)"

definition group_types :: "string option list" where
  "group_types = map Some [[], ''controlflow'', ''arithmetic'', ''logic'', ''stack'', ''comparison'', ''move'', ''string'',
    ''bit_manip'', ''flag_manip'', ''fpu'', [], [], ''interrupt'', ''system'', ''other'']"

definition get_insn_group_str :: "u32 \<Rightarrow> string result" where
  "get_insn_group_str gp = (if gp > 16 then Ret [] else string_entry group_types gp)"

definition insn_types :: "(string \<times> u32) list" where
  "insn_types =
    [(''jmp'', 0x1001), (''jcc'', 0x1002), (''call'', 0x1003), (''callcc'', 0x1004), (''return'', 0x1005),
     (''loop'', 0x1006), (''add'', 0x2001), (''sub'', 0x2002), (''mul'', 0x2003), (''div'', 0x2004), (''inc'', 0x2005),
     (''dec'', 0x2006), (''shl'', 0x2007), (''shr'', 0x2008), (''rol'', 0x2009), (''ror'', 0x200A), (''and'', 0x3001),
     (''or'', 0x3002), (''xor'', 0x3003), (''not'', 0x3004), (''neg'', 0x3005), (''push'', 0x4001), (''pop'', 0x4002),
     (''pushregs'', 0x4003), (''popregs'', 0x4004), (''pushflags'', 0x4005), (''popflags'', 0x4006), (''enter'', 0x4007),
     (''leave'', 0x4008), (''test'', 0x5001), (''cmp'', 0x5002), (''mov'', 0x6001), (''movcc'', 0x6002), (''xchg'', 0x6003),
     (''xchgcc'', 0x6004), (''strcmp'', 0x7001), (''strload'', 0x7002), (''strmov'', 0x7003), (''strstore'', 0x7004),
     (''translate'', 0x7005), (''bittest'', 0x8001), (''bitset'', 0x8002), (''bitclear'', 0x8003),
     (''clear_carry'', 0x9001), (''clear_zero'', 0x9002), (''clear_oflow'', 0x9003), (''clear_dir'', 0x9004),
     (''clear_sign'', 0x9005), (''clear_parity'', 0x9006), (''set_carry'', 0x9007), (''set_zero'', 0x9008),
     (''set_oflow'', 0x9009), (''set_dir'', 0x900A), (''set_sign'', 0x900B), (''set_parity'', 0x900C),
     (''tog_carry'', 0x9010), (''tog_zero'', 0x9020), (''tog_oflow'', 0x9030), (''tog_dir'', 0x9040),
     (''tog_sign'', 0x9050), (''tog_parity'', 0x9060), (''fmov'', 0xA001), (''fmovcc'', 0xA002), (''fneg'', 0xA003),
     (''fabs'', 0xA004), (''fadd'', 0xA005), (''fsub'', 0xA006), (''fmul'', 0xA007), (''fdiv'', 0xA008),
     (''fsqrt'', 0xA009), (''fcmp'', 0xA00A), (''fcos'', 0xA00C), (''fldpi'', 0xA00D), (''fldz'', 0xA00E),
     (''ftan'', 0xA00F), (''fsine'', 0xA010), (''fsys'', 0xA020), (''int'', 0xD001), (''intcc'', 0xD002),
     (''iret'', 0xD003), (''bound'', 0xD004), (''debug'', 0xD005), (''trace'', 0xD006), (''invalid_op'', 0xD007),
     (''oflow'', 0xD008), (''halt'', 0xE001), (''in'', 0xE002), (''out'', 0xE003), (''cpuid'', 0xE004), (''nop'', 0xF001),
     (''bcdconv'', 0xF002), (''szconv'', 0xF003)]"

definition get_insn_type_str :: "u32 \<Rightarrow> string" where
  "get_insn_type_str ty = (case List.find (\<lambda>(name, v). v = ty) insn_types of None \<Rightarrow> [] | Some (name, v) \<Rightarrow> name)"

definition intel_cpus :: "string option list" where
  "intel_cpus = map Some [[], ''8086'', ''80286'', ''80386'', ''80387'', ''80486'', ''Pentium'', ''Pentium Pro'', ''Pentium 2'',
    ''Pentium 3'', ''Pentium 4'']"

definition get_insn_cpu_str :: "u32 \<Rightarrow> string result" where
  "get_insn_cpu_str cpu =
    (if cpu \<le> 11 then string_entry intel_cpus cpu
     else Ret (if cpu = 16 then ''K6'' else if cpu = 32 then ''K7'' else if cpu = 48 then ''Athlon'' else []))"

definition isa_subsets :: "string option list" where
  "isa_subsets = [None, Some ''General Purpose'', Some ''Floating Point'', Some ''FPU Management'', Some ''MMX'', Some ''SSE'',
    Some ''SSE2'', Some ''SSE3'', Some ''3DNow!'', Some ''System'']"

definition get_insn_isa_str :: "u32 \<Rightarrow> string result" where
  "get_insn_isa_str isa = (if isa > 10 then Ret [] else string_entry isa_subsets isa)"

definition is_imm_jmp :: "x86_op_t \<Rightarrow> bool" where
  "is_imm_jmp op \<longleftrightarrow> op_type op = op_absolute \<or> op_type op = op_immediate \<or> op_type op = op_offset"

definition is_memory_op :: "x86_op_t \<Rightarrow> bool" where
  "is_memory_op op \<longleftrightarrow> op_type op = op_absolute \<or> op_type op = op_expression \<or> op_type op = op_offset"

definition the_operand :: "x86_op_t option \<Rightarrow> x86_op_t result" where
  "the_operand p = (case p of None \<Rightarrow> Fail Undefined | Some op \<Rightarrow> Ret op)"

text \<open>The size of the memory operand among the first two, 0 if there is none.\<close>

definition memory_operand :: "bool \<Rightarrow> x86_op_t option result \<Rightarrow> nat option result" where
  "memory_operand present operand =
    (if present
     then r_bind operand (\<lambda>p. r_map (\<lambda>op. if is_memory_op op then Some (x86_operand_size (op_datatype op)) else None) (the_operand p))
     else Ret None)"

definition memory_op_size :: "x86_insn_t \<Rightarrow> nat result" where
  "memory_op_size insn =
    r_bind (x86_operand_count insn op_explicit) (\<lambda>n.
    r_bind (memory_operand (n > 0) (x86_operand_1st insn)) (\<lambda>m1.
      case m1 of
        Some sz \<Rightarrow> Ret sz
      | None \<Rightarrow> r_map (\<lambda>m2. case m2 of Some sz \<Rightarrow> sz | None \<Rightarrow> 0) (memory_operand (n > 1) (x86_operand_2nd insn))))"

definition format_att_mnemonic :: "x86_insn_t \<Rightarrow> nat \<Rightarrow> string result" where
  "format_att_mnemonic insn len =
    r_bind (if mnemonic insn = ''callf'' then Ret [''lcall'']
            else if insn_type insn = insn_jmp \<or> insn_type insn = insn_call then
              r_bind (x86_operand_1st insn) (\<lambda>p. r_map (\<lambda>op.
                (if \<not> is_imm_jmp op \<or> op_datatype op \<noteq> op_byte then [''l''] else []) @ [mnemonic insn]) (the_operand p))
            else
              r_map (\<lambda>sz. [mnemonic insn, if sz = 1 then ''b'' else if sz = 2 then ''w'' else if sz = 4 then ''l''
                else if sz = 8 then ''q'' else []]) (memory_op_size insn)) (\<lambda>ps.
      r_map fst (STRNCATS len ps ([], int len)))"

definition x86_format_mnemonic :: "x86_insn_t \<Rightarrow> nat \<Rightarrow> x86_asm_format \<Rightarrow> string result" where
  "x86_format_mnemonic insn len format =
    r_bind (if format = att_syntax then format_att_mnemonic insn MAX_OP_STRING else Ret (mnemonic insn)) (\<lambda>str.
      r_map fst (STRNCATS len [prefix_string insn, str] ([], int len)))"

definition format_insn_note :: "x86_insn_t \<Rightarrow> string result" where
  "format_insn_note insn =
    r_map (\<lambda>b. STRNCATF (fst b @ ''|''))
      (STRNCATS 32 ((if insn_note insn AND 1 \<noteq> 0 then [''Ring0 ''] else []) @ (if insn_note insn AND 2 \<noteq> 0 then [''SMM ''] else []) @
        (if insn_note insn AND 4 \<noteq> 0 then [''Serialize ''] else [])) ([], 32))"

definition format_op_raw :: "nat \<Rightarrow> x86_insn_t \<Rightarrow> int \<Rightarrow> x86_op_t \<Rightarrow> string result \<Rightarrow> string result" where
  "format_op_raw cap insn len op buf = r_bind buf (\<lambda>text1. r_map fst (format_operand_raw cap op insn (text1, len)))"

text \<open>The bytes of the instruction.\<close>

definition byte_pieces :: "x86_insn_t \<Rightarrow> string list result" where
  "byte_pieces insn =
    (if unat (insn_size insn) > length (insn_bytes insn) then Fail Undefined
     else Ret (map (\<lambda>c. STRNCATF (fmt_02X (unat c) @ '' '')) (take (unat (insn_size insn)) (insn_bytes insn))))"

definition format_raw_insn :: "nat \<Rightarrow> x86_insn_t \<Rightarrow> string result" where
  "format_raw_insn len insn =
    r_bind (get_insn_group_str (insn_group insn)) (\<lambda>group.
    r_bind (get_insn_cpu_str (insn_cpu insn)) (\<lambda>cpu.
    r_bind (get_insn_isa_str (insn_isa insn)) (\<lambda>isa.
    r_bind (format_insn_note insn) (\<lambda>note.
    r_bind (byte_pieces insn) (\<lambda>bytes.
    r_bind (STRNCATS len
      ([STRNCATF (fmt_x08X (addr insn) @ ''|''), STRNCATF (fmt_x08X (offset insn) @ ''|''),
        STRNCATF (fmt_d (uint (insn_size insn)) @ ''|'')] @ bytes @ [''|''] @
       format_insn_prefix_str (insn_prefix insn) @
       [STRNCATF (''|'' @ prefix_string insn @ ''|''), STRNCATF (group @ ''|''), STRNCATF (get_insn_type_str (insn_type insn) @ ''|''),
        STRNCATF (mnemonic insn @ ''|''), STRNCATF (cpu @ ''|''), STRNCATF (isa @ ''|''), note] @
       format_insn_eflags_str (flags_set insn) @ [''|''] @ format_insn_eflags_str (flags_tested insn) @
       [''|'', STRNCATF (fmt_d (uint (stack_mod insn)) @ ''|''), STRNCATF (fmt_d (sint (stack_mod_val insn)) @ ''|'')])
      ([], int len)) (\<lambda>(text1, l).
    r_bind (x86_operand_foreach insn (format_op_raw len insn l) (Ret text1) op_any) (\<lambda>r. r)))))))"

text \<open>An operand of an instruction, and what is printed around it.\<close>

definition operand_pieces ::
  "x86_insn_t \<Rightarrow> nat \<Rightarrow> x86_asm_format \<Rightarrow> x86_op_t option result \<Rightarrow> (string \<Rightarrow> string list) \<Rightarrow> string list result" where
  "operand_pieces insn len format operand f =
    r_bind operand (\<lambda>p. case p of None \<Rightarrow> Ret [] | Some op \<Rightarrow> r_map f (x86_format_operand op insn len format))"

definition format_xml_insn :: "nat \<Rightarrow> x86_insn_t \<Rightarrow> string result" where
  "format_xml_insn len insn =
    (let op = (\<lambda>name s. [tabs 1 @ ''<operand name='' @ name @ ''>'' @ nl, s, tabs 1 @ ''</operand>'' @ nl]);
         flags = (\<lambda>kind fl. [tabs 1 @ ''<flags type='' @ kind @ ''>'' @ nl, tabs 2 @ ''<flag name='' @ quote] @
           format_insn_eflags_str fl @ [quote @ ''/>'' @ nl @ tabs 1 @ ''</flags>'' @ nl]) in
     r_bind (get_insn_group_str (insn_group insn)) (\<lambda>group.
     r_bind (byte_pieces insn) (\<lambda>bytes.
     r_bind (operand_pieces insn MAX_OP_XML_STRING xml_syntax (x86_operand_1st insn) (op ''dest'')) (\<lambda>p1.
     r_bind (operand_pieces insn MAX_OP_XML_STRING xml_syntax (x86_operand_2nd insn) (op ''src'')) (\<lambda>p2.
     r_bind (operand_pieces insn MAX_OP_XML_STRING xml_syntax (x86_operand_3rd insn) (op ''imm'')) (\<lambda>p3.
     r_map fst (STRNCATS len
       ([''<x86_insn>'' @ nl, STRNCATF (quoted (tabs 1 @ ''<address rva='') (fmt_x08X (addr insn)) '' ''),
         STRNCATF (quoted ''offset='' (fmt_x08X (offset insn)) '' ''),
         STRNCATF (''size='' @ fmt_d (uint (insn_size insn)) @ '' bytes='' @ quote)] @ bytes @ [quote @ ''/>'' @ nl] @
        [tabs 1 @ ''<prefix type='' @ quote] @ format_insn_prefix_str (insn_prefix insn) @
        [STRNCATF (quote @ quoted '' string='' (prefix_string insn) (''/>'' @ nl)),
         STRNCATF (quoted (tabs 1 @ ''<mnemonic group='') group '' ''),
         STRNCATF (quoted ''type='' (get_insn_type_str (insn_type insn)) '' ''),
         STRNCATF (quoted ''string='' (mnemonic insn) (''/>'' @ nl))] @
        flags ''set'' (flags_set insn) @ flags ''tested'' (flags_tested insn) @ p1 @ p2 @ p3 @ [''</x86_insn>'' @ nl])
       ([], int len))))))))"

text \<open>The result is the text in the array of \<open>len\<close> characters; the function returns its length.\<close>

definition x86_format_insn :: "x86_insn_t \<Rightarrow> nat \<Rightarrow> x86_asm_format \<Rightarrow> string result" where
  "x86_format_insn insn len format =
    (let op = operand_pieces insn MAX_OP_STRING format in
     if format = intel_syntax then
       r_bind (op (x86_operand_1st insn) (\<lambda>s. [s])) (\<lambda>p1.
       r_bind (op (x86_operand_2nd insn) (\<lambda>s. ['', '', s])) (\<lambda>p2.
       r_bind (op (x86_operand_3rd insn) (\<lambda>s. ['', '', s])) (\<lambda>p3.
       r_map fst (STRNCATS len ([prefix_string insn, mnemonic insn, tabs 1] @ p1 @ p2 @ p3) ([], int len)))))
     else if format = att_syntax then
       r_bind (format_att_mnemonic insn MAX_OP_STRING) (\<lambda>mn.
       r_bind (op (x86_operand_2nd insn) (\<lambda>s. [s, '', ''])) (\<lambda>p2.
       r_bind (op (x86_operand_1st insn) (\<lambda>s. [s])) (\<lambda>p1.
       r_bind (op (x86_operand_3rd insn) (\<lambda>s. ['', '', s])) (\<lambda>p3.
       r_map fst (STRNCATS len ([prefix_string insn, STRNCATF (mn @ tabs 1)] @ p2 @ p1 @ p3) ([], int len))))))
     else if format = raw_syntax then format_raw_insn len insn
     else if format = xml_syntax then format_xml_insn len insn
     else
       r_bind (byte_pieces insn) (\<lambda>bytes.
       r_bind (op (x86_operand_1st insn) (\<lambda>s. [STRNCATF (s @ tabs 1)])) (\<lambda>p1.
       r_bind (op (x86_operand_2nd insn) (\<lambda>s. [STRNCATF (s @ tabs 1)])) (\<lambda>p2.
       r_bind (op (x86_operand_3rd insn) (\<lambda>s. [s])) (\<lambda>p3.
       r_map fst (STRNCATS len ([STRNCATF (fmt_08X (addr insn) @ tabs 1)] @ bytes @
         [tabs 1, prefix_string insn, mnemonic insn, tabs 1] @ p1 @ p2 @ p3) ([], int len)))))))"

definition x86_format_header :: "nat \<Rightarrow> x86_asm_format \<Rightarrow> string" where
  "x86_format_header len format =
    take (len - 1) (case format of
       att_syntax \<Rightarrow> ''MNEMONIC'' @ tabs 1 @ ''SRC, DEST, IMM''
     | intel_syntax \<Rightarrow> ''MNEMONIC'' @ tabs 1 @ ''DEST, SRC, IMM''
     | native_syntax \<Rightarrow> ''ADDRESS'' @ tabs 1 @ ''BYTES'' @ tabs 1 @ ''MNEMONIC'' @ tabs 1 @ ''DEST'' @ tabs 1 @ ''SRC'' @ tabs 1 @ ''IMM''
     | raw_syntax \<Rightarrow> ''ADDRESS|OFFSET|SIZE|BYTES|PREFIX|PREFIX_STRING|GROUP|TYPE|NOTES|MNEMONIC|CPU|ISA|FLAGS_SET|FLAGS_TESTED|'' @
         ''STACK_MOD|STACK_MOD_VAL[|OP_TYPE|OP_DATATYPE|OP_ACCESS|OP_FLAGS|OP]*''
     | xml_syntax \<Rightarrow> ''<x86_insn><address rva= offset= size= bytes=/><prefix type= string=/>'' @
         ''<mnemonic group= type= string= cpu= isa= note= /><flags type=set><flag name=></flags><stack_mod val= >'' @
         ''<flags type=tested><flag name=></flags><operand name=><register name= type= size=/><immediate type= value=/>'' @
         ''<relative_offset value=/><absolute_address value=><segment value=/></absolute_address>'' @
         ''<address_expression><segment value=/><base><register name= type= size=/></base>'' @
         ''<index><register name= type= size=/></index><scale><immediate value=/></scale>'' @
         ''<displacement><immediate value=/><address value=/></displacement></address_expression>'' @
         ''<segment_offset><address value=/></segment_offset></operand></x86_insn>''
     | unknown_syntax \<Rightarrow> [])"

section \<open>The text is cut off at the end of the array\<close>

text \<open>The space that is left is what the array has beyond the text; it is 0 when the text fills the array.\<close>

definition space_ok :: "nat \<Rightarrow> sbuf \<Rightarrow> bool" where
  "space_ok cap b \<longleftrightarrow>
    (0 < snd b \<and> int (length (fst b)) + snd b = int cap) \<or> (snd b = 0 \<and> 0 < cap \<and> length (fst b) = cap - 1)"

lemma space_ok_start: "0 < cap \<Longrightarrow> space_ok cap ([], int cap)"
  by (simp add: space_ok_def)

lemma STRNCAT_text:
  assumes "space_ok cap b"
  shows "\<exists>l. STRNCAT cap s b = Ret (take (cap - 1) (fst b @ s), l) \<and> space_ok cap (take (cap - 1) (fst b @ s), l)"
proof -
  obtain buf len where b: "b = (buf, len)" by (rule prod.exhaust)
  consider "len = 0" "0 < cap" "length buf = cap - 1" | "0 < len" "int (length buf) + len = int cap"
    using assms unfolding space_ok_def b by auto
  then show ?thesis
  proof cases
    case 1
    then show ?thesis by (simp add: STRNCAT_def b space_ok_def)
  next
    case 2
    define n where "n = nat (len - 1)"
    then have "len = int n + 1" "length buf + n + 1 = cap" using 2 by auto
    note 2 = this
    show ?thesis
    proof (cases "n \<le> length s")
      case True
      with 2 show ?thesis by (auto simp: STRNCAT_def b space_ok_def Let_def nat_int_add)
    next
      case False
      with 2 show ?thesis by (auto simp: STRNCAT_def b space_ok_def Let_def)
    qed
  qed
qed

lemma take_take_append: "take n (take n xs @ ys) = take n (xs @ ys)"
  by (cases "length xs \<le> n") simp_all

lemma STRNCATS_text:
  assumes "space_ok cap b"
  shows "\<exists>l. STRNCATS cap ss b = Ret (take (cap - 1) (fst b @ concat ss), l) \<and> space_ok cap (take (cap - 1) (fst b @ concat ss), l)"
  using assms
proof (induction ss arbitrary: b)
  case Nil
  then show ?case by (cases b) (auto simp: space_ok_def intro!: exI [of _ "snd b"])
next
  case (Cons s ss)
  obtain l where l: "STRNCAT cap s b = Ret (take (cap - 1) (fst b @ s), l)" "space_ok cap (take (cap - 1) (fst b @ s), l)"
    using STRNCAT_text [OF Cons.prems] by blast
  have "take (cap - 1) (take (cap - 1) (fst b @ s) @ concat ss) = take (cap - 1) (fst b @ concat (s # ss))"
    by (simp only: take_take_append concat.simps append_assoc)
  with Cons.IH [OF l(2)] l(1) show ?case by simp
qed

lemma STRNCATS_append: "STRNCATS cap (ss @ ts) b = r_bind (STRNCATS cap ss b) (STRNCATS cap ts)"
proof (induction ss arbitrary: b)
  case (Cons s ss)
  then show ?case by (cases "STRNCAT cap s b") simp_all
qed simp

lemma STRNCATS_fresh: "0 < len \<Longrightarrow> r_map fst (STRNCATS len ss ([], int len)) = Ret (take (len - 1) (concat ss))"
  using STRNCATS_text [OF space_ok_start, of len ss] by auto

section \<open>The Intel format\<close>

text \<open>The text of an operand.\<close>

definition operand_text :: "x86_op_t \<Rightarrow> x86_insn_t \<Rightarrow> string" where
  "operand_text op insn =
    (case op_type op of
       op_register \<Rightarrow> reg_name (data_reg op)
     | op_immediate \<Rightarrow> get_operand_data_str op
     | op_relative_near \<Rightarrow> fmt_x08X (near_target op insn)
     | op_relative_far \<Rightarrow> fmt_x08X (far_target op insn)
     | op_absolute \<Rightarrow> concat (format_seg op native_syntax) @ fmt_x08X (sdword op)
     | op_offset \<Rightarrow> concat (format_seg op native_syntax) @ fmt_x08X (sdword op)
     | op_expression \<Rightarrow> concat (format_seg op native_syntax) @ concat (expr_pieces_native (data_expression op))
     | _ \<Rightarrow> [])"

lemma length_fmt_x08X: "length (fmt_x08X w) = 10"
proof -
  have "unat w < 16 ^ 8" using unsigned_less [of w] by simp
  then have "length (fmt_X (unat w)) \<le> 8" unfolding fmt_X_def by (simp add: length_digits)
  then show ?thesis by (simp add: fmt_x08X_def fmt_08X_def pad_left_def)
qed

lemma STRNCATF_x08X [simp]: "STRNCATF (fmt_x08X w) = fmt_x08X w"
  by (simp add: STRNCATF_def MAX_OP_STRING_def length_fmt_x08X)

lemma format_native_expression:
  "r_map fst (r_bind (STRNCATS cap ps b) (\<lambda>b1. format_expr cap ea b1 native_syntax)) =
    r_map fst (STRNCATS cap (ps @ expr_pieces_native ea) b)"
proof (cases "STRNCATS cap ps b")
  case (Ret b1)
  then show ?thesis
    by (cases "STRNCATS cap (expr_pieces_native ea) b1") (auto simp: format_expr_def STRNCATS_append split: prod.splits)
qed (simp add: STRNCATS_append)

lemma format_operand_intel:
  assumes "0 < len"
  shows "x86_format_operand op insn len intel_syntax = Ret (take (len - 1) (operand_text op insn))"
proof (cases "op_type op")
  case op_expression
  then show ?thesis
    by (simp only: x86_format_operand_def format_operand_native_def x86_asm_format.case x86_op_type.case format_native_expression
        STRNCATS_fresh [OF assms] operand_text_def concat_append)
qed (simp_all only: x86_format_operand_def format_operand_native_def x86_asm_format.case x86_op_type.case
      STRNCATS_fresh [OF assms] operand_text_def concat_append concat.simps append_Nil2 STRNCATF_x08X r_map_simps fst_conv take_Nil)

fun join :: "string \<Rightarrow> string list \<Rightarrow> string" where
  "join sep [] = []"
| "join sep [s] = s"
| "join sep (s # ss) = s @ sep @ join sep ss"

definition intel_text :: "x86_insn_t \<Rightarrow> x86_op_t list \<Rightarrow> string" where
  "intel_text insn ops =
    prefix_string insn @ mnemonic insn @ tabs 1 @ join '', '' (map (\<lambda>op. take (MAX_OP_STRING - 1) (operand_text op insn)) ops)"

lemma intel_pieces:
  "operand_pieces insn MAX_OP_STRING intel_syntax (Ret None) f = Ret []"
  "operand_pieces insn MAX_OP_STRING intel_syntax (Ret (Some op)) f = Ret (f (take (MAX_OP_STRING - 1) (operand_text op insn)))"
  by (simp_all add: operand_pieces_def format_operand_intel MAX_OP_STRING_def)

lemma operand_accessors:
  assumes "operands insn = Live ops" and "explicit_count insn \<le> length ops"
  shows "x86_operand_1st insn = Ret (if 0 < explicit_count insn then Some (ops ! 0) else None)"
    "x86_operand_2nd insn = Ret (if 1 < explicit_count insn then Some (ops ! 1) else None)"
    "x86_operand_3rd insn = Ret (if 2 < explicit_count insn then Some (ops ! 2) else None)"
  using assms by (auto simp: x86_operand_1st_def x86_operand_2nd_def x86_operand_3rd_def nth_operand_def)

lemma format_intel_operands:
  assumes "x86_operand_1st insn = Ret o1" and "x86_operand_2nd insn = Ret o2" and "x86_operand_3rd insn = Ret o3" and "0 < len"
  shows "x86_format_insn insn len intel_syntax = Ret (take (len - 1) (prefix_string insn @ mnemonic insn @ tabs 1 @
    (case o1 of None \<Rightarrow> [] | Some op \<Rightarrow> take (MAX_OP_STRING - 1) (operand_text op insn)) @
    (case o2 of None \<Rightarrow> [] | Some op \<Rightarrow> '', '' @ take (MAX_OP_STRING - 1) (operand_text op insn)) @
    (case o3 of None \<Rightarrow> [] | Some op \<Rightarrow> '', '' @ take (MAX_OP_STRING - 1) (operand_text op insn))))"
  by (cases o1; cases o2; cases o3)
    (simp_all only: x86_format_insn_def Let_def simp_thms if_True assms intel_pieces r_bind.simps STRNCATS_fresh [OF assms(4)]
      option.case concat.simps concat_append append_assoc append_Nil append_Nil2)

lemma x86_format_insn_intel:
  assumes "operands insn = Live ops" and "explicit_count insn \<le> length ops" and "0 < len"
  shows "x86_format_insn insn len intel_syntax = Ret (take (len - 1) (intel_text insn (take 3 (take (explicit_count insn) ops))))"
proof -
  define xs where "xs = take (explicit_count insn) ops"
  have n: "explicit_count insn = length xs" using assms(2) by (simp add: xs_def)
  have nth: "i < length xs \<Longrightarrow> ops ! i = xs ! i" for i by (simp add: xs_def)
  define T where "T = (\<lambda>op. take (MAX_OP_STRING - 1) (operand_text op insn))"
  consider "xs = []" | a where "xs = [a]" | a b where "xs = [a, b]" | a b c ys where "xs = a # b # c # ys"
    by (metis list.exhaust)
  then have "(case if 0 < explicit_count insn then Some (ops ! 0) else None of None \<Rightarrow> [] | Some op \<Rightarrow> T op) @
      (case if 1 < explicit_count insn then Some (ops ! 1) else None of None \<Rightarrow> [] | Some op \<Rightarrow> '', '' @ T op) @
      (case if 2 < explicit_count insn then Some (ops ! 2) else None of None \<Rightarrow> [] | Some op \<Rightarrow> '', '' @ T op) = join '', '' (map T (take 3 xs))"
    unfolding n by cases (simp_all add: nth)
  then show ?thesis
    using format_intel_operands [OF operand_accessors [OF assms(1,2)] assms(3)]
    unfolding intel_text_def by (simp only: T_def xs_def)
qed

section \<open>The XML format overruns its array\<close>

text \<open>The closing tag, written with a \<open>len\<close> from which the text before the address was taken off twice.\<close>

lemma STRNCAT_closing:
  assumes "length s = 24" and "length t < 256" and "0 < L" and "L \<le> 233"
  shows "STRNCAT 256 s (t, L - int (length t)) = Fail Undefined \<longleftrightarrow> L < int (length t) \<and> 232 \<le> length t"
proof -
  consider "int (length t) < L" | "int (length t) = L" | "L < int (length t)" by linarith
  then show ?thesis
  proof cases
    case 1
    with assms show ?thesis by (auto simp: STRNCAT_def Let_def min_def)
  next
    case 3
    with assms show ?thesis by (simp add: STRNCAT_def Let_def)
  qed (simp add: STRNCAT_def)
qed

text \<open>A segment override is printed before the address, in 25 characters.\<close>

lemma length_seg_name: "seg_name f \<noteq> [] \<Longrightarrow> length (seg_name f) = 2"
  by (auto simp: seg_name_def Let_def split: if_split_asm)

lemma length_format_seg:
  assumes "op_type op = op_expression"
  shows "length (concat (format_seg op xml_syntax)) = (if seg_name (op_flags op) = [] then 0 else 25)"
proof -
  have "seg_name 0 = []"
    by (simp add: seg_name_def op_es_seg_def op_cs_seg_def op_ss_seg_def op_ds_seg_def op_fs_seg_def op_gs_seg_def)
  with assms length_seg_name [of "op_flags op"] show ?thesis
    by (auto simp: format_seg_def Let_def STRNCATF_def MAX_OP_STRING_def quoted_def quote_def nl_def tabs_def)
qed

lemma STRNCATS_room: "int (length (concat ss)) + 1 < l \<Longrightarrow> length b + length (concat ss) < cap \<Longrightarrow>
    STRNCATS cap ss (b, l) = Ret (b @ concat ss, l - int (length (concat ss)))"
proof (induction ss arbitrary: b l)
  case (Cons s ss)
  then have "STRNCAT cap s (b, l) = Ret (b @ s, l - int (length s))"
    by (simp add: STRNCAT_def Let_def)
  with Cons show ?case by simp
qed simp

lemma xml_expression:
  assumes "op_type op = op_expression" and "expr_pieces_xml (data_expression op) = Ret ps"
  shows "x86_format_operand op insn MAX_OP_XML_STRING xml_syntax = Fail Undefined \<longleftrightarrow>
    (if seg_name (op_flags op) = [] then 210 else 183) < length (concat ps)"
proof -
  define head where "head = tabs 2 @ ''<address_expression>'' @ nl"
  define closing where "closing = tabs 2 @ ''</address_expression>'' @ nl"
  define before where "before = head @ concat (format_seg op xml_syntax)"
  define L where "L = 256 - int (length before)"
  define t where "t = take 255 (before @ concat ps)"
  have lens: "length before = (if seg_name (op_flags op) = [] then 23 else 48)" "length closing = 24"
    by (simp_all add: before_def head_def closing_def tabs_def nl_def length_format_seg [OF assms(1)])
  have c: "concat ([head] @ format_seg op xml_syntax) = before" by (simp add: before_def)
  have b: "STRNCATS 256 ([head] @ format_seg op xml_syntax) ([], 256) = Ret (before, L)"
    using STRNCATS_room [of "[head] @ format_seg op xml_syntax" 256 "[]" 256] lens(1) unfolding c L_def by (simp split: if_splits)
  have "space_ok 256 (before, L)" by (simp add: space_ok_def lens L_def)
  from STRNCATS_text [OF this, of ps] obtain l where "STRNCATS 256 ps (before, L) = Ret (t, l)" by (auto simp: t_def)
  then have e: "format_expr 256 (data_expression op) (before, L) xml_syntax = Ret (t, L - int (length t))"
    by (simp add: format_expr_def assms(2))
  have "x86_format_operand op insn MAX_OP_XML_STRING xml_syntax = r_map fst (r_bind (STRNCAT 256 closing (t, L - int (length t))) (STRNCATS 256 []))"
    by (simp only: x86_format_operand_def format_operand_xml_def Let_def assms(1) x86_asm_format.case x86_op_type.case
        MAX_OP_XML_STRING_def head_def [symmetric] closing_def [symmetric] of_nat_numeral b e r_bind.simps STRNCATS.simps(2))
  moreover have "r_map fst (r_bind (STRNCAT 256 closing (t, L - int (length t))) (STRNCATS 256 [])) = Fail Undefined \<longleftrightarrow>
      STRNCAT 256 closing (t, L - int (length t)) = Fail Undefined"
    by (cases "STRNCAT 256 closing (t, L - int (length t))") simp_all
  moreover have "STRNCAT 256 closing (t, L - int (length t)) = Fail Undefined \<longleftrightarrow> L < int (length t) \<and> 232 \<le> length t"
    by (rule STRNCAT_closing) (auto simp: t_def L_def lens)
  moreover have "L < int (length t) \<and> 232 \<le> length t \<longleftrightarrow> (if seg_name (op_flags op) = [] then 210 else 183) < length (concat ps)"
    unfolding t_def L_def by (auto simp: lens)
  ultimately show ?thesis by simp
qed

end
