(* ===== verification/ElfLoader.thy ===== *)
theory ElfLoader
  imports Bytes "HOL-Library.AList"
begin

text \<open>
  The ELF loader of \<^verbatim>\<open>udcompiler\<close>: \<^verbatim>\<open>src/tools/udcompiler/ElfBinaryLoader.cpp\<close> and \<^verbatim>\<open>.h\<close>, the structures of
  \<^verbatim>\<open>ElfSpec.h\<close> and the interface \<^verbatim>\<open>LoaderBase.h\<close>.

  The file is a list of bytes, and a header is read where \<open>reinterpret_cast\<close> points, byte by byte, least
  significant first (the tool runs on x86, where \<open>size_t\<close> has 32 bits). \<open>vector::operator[]\<close> does not check
  its argument: an index outside of the vector is \<open>Fail Undefined\<close>. \<open>unsigned\<close> arithmetic wraps at 32 bits.
  The loader compares an entry size with \<open>sizeof(m_collSectionHeaders)\<close>, the size of a \<open>std::vector\<close> object,
  which depends on the compiler: it is the parameter \<open>sizeof_vector\<close>.
\<close>

section \<open>Structures\<close>

datatype eArchType = ARCH_TYPE_UNKNOWN | ARCH_TYPE_X86 | ARCH_TYPE_MIPS32

definition EI_MAG0 :: nat where "EI_MAG0 = 0"
definition EI_MAG1 :: nat where "EI_MAG1 = 1"
definition EI_MAG2 :: nat where "EI_MAG2 = 2"
definition EI_MAG3 :: nat where "EI_MAG3 = 3"
definition EI_NIDENT :: nat where "EI_NIDENT = 16"
definition SHN_UNDEF :: u16 where "SHN_UNDEF = 0"
definition SHT_STRTAB :: u32 where "SHT_STRTAB = 3"
definition SHT_NOBITS :: u32 where "SHT_NOBITS = 8"

record Elf32_Ehdr =
  e_ident :: "u8 list"
  e_type :: u16
  e_machine :: u16
  e_version :: u32
  e_entry :: u32
  e_phoff :: u32
  e_shoff :: u32
  e_flags :: u32
  e_ehsize :: u16
  e_phentsize :: u16
  e_phnum :: u16
  e_shentsize :: u16
  e_shnum :: u16
  e_shstrndx :: u16

record Elf32_Shdr =
  sh_name :: u32
  sh_type :: u32
  sh_flags :: u32
  sh_addr :: u32
  sh_offset :: u32
  sh_size :: u32
  sh_link :: u32
  sh_info :: u32
  sh_addralign :: u32
  sh_entsize :: u32

definition sizeof_Ehdr :: nat where "sizeof_Ehdr = 52"
definition sizeof_Shdr :: nat where "sizeof_Shdr = 40"

text \<open>Reading the headers.\<close>

definition read_Shdr :: "u8 list \<Rightarrow> nat \<Rightarrow> Elf32_Shdr result" where
  "read_Shdr bs n =
    r_bind (word_at bs n) (\<lambda>name. r_bind (word_at bs (n + 4)) (\<lambda>ty. r_bind (word_at bs (n + 8)) (\<lambda>fl.
    r_bind (word_at bs (n + 12)) (\<lambda>ad. r_bind (word_at bs (n + 16)) (\<lambda>off. r_bind (word_at bs (n + 20)) (\<lambda>sz.
    r_bind (word_at bs (n + 24)) (\<lambda>ln. r_bind (word_at bs (n + 28)) (\<lambda>inf. r_bind (word_at bs (n + 32)) (\<lambda>al.
    r_bind (word_at bs (n + 36)) (\<lambda>es.
      Ret \<lparr>sh_name = name, sh_type = ty, sh_flags = fl, sh_addr = ad, sh_offset = off, sh_size = sz, sh_link = ln,
        sh_info = inf, sh_addralign = al, sh_entsize = es\<rparr>))))))))))"

definition read_Ehdr :: "u8 list \<Rightarrow> Elf32_Ehdr result" where
  "read_Ehdr bs =
    r_bind (half_at bs 16) (\<lambda>ty. r_bind (half_at bs 18) (\<lambda>ma. r_bind (word_at bs 20) (\<lambda>ve. r_bind (word_at bs 24) (\<lambda>en.
    r_bind (word_at bs 28) (\<lambda>po. r_bind (word_at bs 32) (\<lambda>so. r_bind (word_at bs 36) (\<lambda>fl. r_bind (half_at bs 40) (\<lambda>es.
    r_bind (half_at bs 42) (\<lambda>pe. r_bind (half_at bs 44) (\<lambda>pn. r_bind (half_at bs 46) (\<lambda>se. r_bind (half_at bs 48) (\<lambda>sn.
    r_bind (half_at bs 50) (\<lambda>sx.
      Ret \<lparr>e_ident = take EI_NIDENT bs, e_type = ty, e_machine = ma, e_version = ve, e_entry = en, e_phoff = po,
        e_shoff = so, e_flags = fl, e_ehsize = es, e_phentsize = pe, e_phnum = pn, e_shentsize = se, e_shnum = sn,
        e_shstrndx = sx\<rparr>)))))))))))))"

section \<open>The classes\<close>

record ElfSectionHeader =
  m_aSectionHeader :: Elf32_Shdr
  m_collStringTable :: "(nat \<times> string) list"

definition ElfSectionHeader_new :: "Elf32_Shdr \<Rightarrow> ElfSectionHeader" where
  "ElfSectionHeader_new aRawSectionHeader = \<lparr>m_aSectionHeader = aRawSectionHeader, m_collStringTable = []\<rparr>"

definition clearStrings :: "ElfSectionHeader \<Rightarrow> ElfSectionHeader" where
  "clearStrings h = h\<lparr>m_collStringTable := []\<rparr>"

definition getNumStrings :: "ElfSectionHeader \<Rightarrow> nat" where
  "getNumStrings h = length (m_collStringTable h)"

definition addString :: "nat \<Rightarrow> string \<Rightarrow> ElfSectionHeader \<Rightarrow> ElfSectionHeader" where
  "addString uOffset strContent h = h\<lparr>m_collStringTable := AList.update uOffset strContent (m_collStringTable h)\<rparr>"

definition getString :: "ElfSectionHeader \<Rightarrow> nat \<Rightarrow> string option" where
  "getString h uOffset = map_of (m_collStringTable h) uOffset"

record ElfBinaryLoader =
  m_collBinaryData :: "u8 list"
  m_collSectionHeaders :: "ElfSectionHeader list"
  m_enArchType :: eArchType
  m_bHaveStringTable :: bool
  m_uStringTableSectionIdx :: u32

text \<open>The index is not initialised; \<open>raw\<close> is what the storage holds.\<close>

definition ElfBinaryLoader_new :: "u32 \<Rightarrow> ElfBinaryLoader" where
  "ElfBinaryLoader_new raw = \<lparr>m_collBinaryData = [], m_collSectionHeaders = [], m_enArchType = ARCH_TYPE_UNKNOWN,
    m_bHaveStringTable = False, m_uStringTableSectionIdx = raw\<rparr>"

definition header_at :: "ElfBinaryLoader \<Rightarrow> nat \<Rightarrow> ElfSectionHeader result" where
  "header_at l n = (if n < length (m_collSectionHeaders l) then Ret (m_collSectionHeaders l ! n) else Fail Undefined)"

text \<open>A NUL-terminated string in the data.\<close>

fun c_string :: "u8 list \<Rightarrow> string result" where
  "c_string [] = Fail Undefined"
| "c_string (b # bs) = (if b = 0 then Ret [] else r_map (Cons (char_of (unat b))) (c_string bs))"

definition string_at :: "u8 list \<Rightarrow> nat \<Rightarrow> string result" where
  "string_at bs n = c_string (drop n bs)"

function read_strings :: "u8 list \<Rightarrow> u32 \<Rightarrow> nat \<Rightarrow> nat \<Rightarrow> ElfSectionHeader \<Rightarrow> ElfSectionHeader result" where
  "read_strings bs off sz uOffset h =
    (if uOffset < sz then
       r_bind (string_at bs (unat (off + of_nat uOffset))) (\<lambda>strContent.
         read_strings bs off sz (uOffset + length strContent + 1) (addString uOffset strContent h))
     else Ret h)"
  by pat_completeness auto
termination
  by (relation "measure (\<lambda>(bs, off, sz, n, h). sz - n)") auto

declare read_strings.simps [simp del]

text \<open>
  \<open>uOffset\<close> is a natural number: the string at \<open>sh_offset + uOffset\<close> ends inside the data, which is shorter than
  \<open>2 ^ 32\<close> bytes, so the source's \<open>size_t\<close> does not wrap.
\<close>

text \<open>The result of the functions that return \<open>bool\<close> and change the object is the pair of both.\<close>

definition readStringTable :: "u8 list \<Rightarrow> ElfSectionHeader \<Rightarrow> (ElfSectionHeader \<times> bool) result" where
  "readStringTable bs aSectionHeader =
    (let h = clearStrings aSectionHeader; aHeader = m_aSectionHeader h in
     if sh_type aHeader \<noteq> SHT_STRTAB then Ret (h, False)
     else
       r_bind (r_or (r_map (\<lambda>b. b \<noteq> 0) (byte_at bs (unat (sh_offset aHeader))))
           (r_map (\<lambda>b. b \<noteq> 0) (byte_at bs (unat (sh_offset aHeader + sh_size aHeader - 1))))) (\<lambda>bad.
         if bad then Ret (h, False)
         else r_map (\<lambda>h'. (h', True)) (read_strings bs (sh_offset aHeader) (unat (sh_size aHeader)) 0 h)))"

text \<open>One section header: \<open>None\<close> is \<open>return false\<close>.\<close>

definition parse_section :: "u8 list \<Rightarrow> nat \<Rightarrow> ElfSectionHeader option result" where
  "parse_section bs n =
    r_bind (word_at bs (n + 4)) (\<lambda>ty.
      r_bind (r_and (Ret (ty = SHT_NOBITS))
          (r_bind (word_at bs (n + 16)) (\<lambda>off. r_map (\<lambda>sz. unat (off + sz) > length bs) (word_at bs (n + 20))))) (\<lambda>bad.
        if bad then Ret None
        else r_bind (read_Shdr bs n) (\<lambda>sh.
          if ty = SHT_STRTAB then
            r_map (\<lambda>(h, ok). if ok then Some h else None) (readStringTable bs (ElfSectionHeader_new sh))
          else Ret (Some (ElfSectionHeader_new sh)))))"

fun parse_sections :: "u8 list \<Rightarrow> u32 \<Rightarrow> u32 \<Rightarrow> nat \<Rightarrow> nat \<Rightarrow> ElfSectionHeader list \<Rightarrow> (ElfSectionHeader list \<times> bool) result" where
  "parse_sections bs uOffset uNumBytesPerSection uIdx 0 coll = Ret (coll, True)"
| "parse_sections bs uOffset uNumBytesPerSection uIdx (Suc n) coll =
    r_bind (parse_section bs (unat (uOffset + of_nat uIdx * uNumBytesPerSection))) (\<lambda>r. case r of
      None \<Rightarrow> Ret (coll, False)
    | Some h \<Rightarrow> parse_sections bs uOffset uNumBytesPerSection (uIdx + 1) n (coll @ [h]))"

definition parseSectionHeaders ::
  "nat \<Rightarrow> ElfBinaryLoader \<Rightarrow> u32 \<Rightarrow> u32 \<Rightarrow> u32 \<Rightarrow> (ElfBinaryLoader \<times> bool) result" where
  "parseSectionHeaders sizeof_vector l uOffset uNumSections uNumBytesPerSection =
    (let l1 = l\<lparr>m_collSectionHeaders := []\<rparr> in
     if uOffset = 0 \<or> uNumSections = 0 then Ret (l1, True)
     else if uNumBytesPerSection = 0 then Ret (l1, False)
     else if unat uNumBytesPerSection < sizeof_vector then Ret (l1, False)
     else if unat (uOffset + uNumSections * uNumBytesPerSection) > length (m_collBinaryData l1) then Ret (l1, False)
     else r_map (\<lambda>(coll, ok). (l1\<lparr>m_collSectionHeaders := coll\<rparr>, ok))
       (parse_sections (m_collBinaryData l1) uOffset uNumBytesPerSection 0 (unat uNumSections) []))"

text \<open>The names of the remaining sections; the string table section is looked at for each of them.\<close>

fun names_found :: "ElfBinaryLoader \<Rightarrow> ElfSectionHeader list \<Rightarrow> bool result" where
  "names_found l [] = Ret True"
| "names_found l (h # hs) =
    r_bind (header_at l (unat (m_uStringTableSectionIdx l))) (\<lambda>strtab.
      (let name = sh_name (m_aSectionHeader h) in
       if name \<noteq> 0 \<and> (\<not> m_bHaveStringTable l \<or> getString strtab (unat name) = None) then Ret False
       else names_found l hs))"

definition postProcessSectionHeaders :: "ElfBinaryLoader \<Rightarrow> bool result" where
  "postProcessSectionHeaders l = names_found l (m_collSectionHeaders l)"

definition elf_magic :: "Elf32_Ehdr \<Rightarrow> bool" where
  "elf_magic h \<longleftrightarrow> e_ident h ! EI_MAG0 = 0x7F \<and> e_ident h ! EI_MAG1 = 0x45 \<and> e_ident h ! EI_MAG2 = 0x4C
    \<and> e_ident h ! EI_MAG3 = 0x46"

definition arch_of :: "u16 \<Rightarrow> eArchType option" where
  "arch_of machine = (if machine = 3 then Some ARCH_TYPE_X86 else if machine = 8 then Some ARCH_TYPE_MIPS32 else None)"

definition parseElfHeader :: "nat \<Rightarrow> ElfBinaryLoader \<Rightarrow> (ElfBinaryLoader \<times> bool) result" where
  "parseElfHeader sizeof_vector l =
    (if length (m_collBinaryData l) < sizeof_Ehdr then Ret (l, False)
     else
       r_bind (read_Ehdr (m_collBinaryData l)) (\<lambda>h.
         if \<not> elf_magic h then Ret (l, False)
         else
           (case arch_of (e_machine h) of
              None \<Rightarrow> Ret (l, False)
            | Some arch \<Rightarrow>
                r_bind (parseSectionHeaders sizeof_vector (l\<lparr>m_enArchType := arch\<rparr>) (e_shoff h) (ucast (e_shnum h))
                    (ucast (e_shentsize h))) (\<lambda>(l1, ok).
                  if \<not> ok then Ret (l1, False)
                  else if e_shstrndx h \<noteq> SHN_UNDEF \<and> unat (e_shstrndx h) > length (m_collSectionHeaders l1)
                  then Ret (l1, False)
                  else
                    (let l2 = l1\<lparr>m_bHaveStringTable := (e_shstrndx h \<noteq> SHN_UNDEF),
                       m_uStringTableSectionIdx := ucast (e_shstrndx h)\<rparr> in
                     r_map (\<lambda>b. (l2, b)) (postProcessSectionHeaders l2))))))"

text \<open>
  \<open>None\<close> is a file that cannot be opened; otherwise the size \<open>ftell\<close> reports and the bytes \<open>fread\<close> delivers,
  which may be fewer. The vector is resized first and then overwritten from its start.
\<close>

definition resize :: "nat \<Rightarrow> u8 list \<Rightarrow> u8 list" where
  "resize n bs = take n bs @ replicate (n - length bs) 0"

definition fread_into :: "u8 list \<Rightarrow> u8 list \<Rightarrow> u8 list" where
  "fread_into buf got = take (length buf) got @ drop (length got) buf"

definition loadFile :: "nat \<Rightarrow> (nat \<times> u8 list) option \<Rightarrow> ElfBinaryLoader \<Rightarrow> (ElfBinaryLoader \<times> bool) result" where
  "loadFile sizeof_vector pFileHandle l =
    (case pFileHandle of
       None \<Rightarrow> Ret (l, False)
     | Some (uFileSize, got) \<Rightarrow>
         if uFileSize = 0 then Ret (l, False)
         else
           (let l1 = l\<lparr>m_collBinaryData := fread_into (resize uFileSize (m_collBinaryData l)) got\<rparr> in
            if min uFileSize (length got) \<noteq> uFileSize then Ret (l1, False)
            else parseElfHeader sizeof_vector l1))"

definition getStringTableEntry :: "ElfBinaryLoader \<Rightarrow> u32 \<Rightarrow> string result" where
  "getStringTableEntry l uOffset =
    (if \<not> m_bHaveStringTable l then Ret []
     else r_map (\<lambda>h. case getString h (unat uOffset) of Some s \<Rightarrow> s | None \<Rightarrow> [])
       (header_at l (unat (m_uStringTableSectionIdx l))))"

text \<open>The copy loop of \<open>getCodeSectionByName\<close>.\<close>

fun copy_bytes :: "u8 list \<Rightarrow> u32 \<Rightarrow> nat \<Rightarrow> nat \<Rightarrow> u8 list result" where
  "copy_bytes bs off uIdx 0 = Ret []"
| "copy_bytes bs off uIdx (Suc n) =
    r_bind (byte_at bs (unat (off + of_nat uIdx))) (\<lambda>b. r_map (Cons b) (copy_bytes bs off (uIdx + 1) n))"

fun find_section :: "ElfBinaryLoader \<Rightarrow> string \<Rightarrow> ElfSectionHeader list \<Rightarrow> u8 list option result" where
  "find_section l strName [] = Ret None"
| "find_section l strName (h # hs) =
    (let aHeader = m_aSectionHeader h in
     r_bind (getStringTableEntry l (sh_name aHeader)) (\<lambda>name.
       if name = strName then
         r_map Some (copy_bytes (m_collBinaryData l) (sh_offset aHeader) 0 (unat (sh_size aHeader)))
       else find_section l strName hs))"

text \<open>\<open>None\<close> is \<open>return false\<close>, with the destination unchanged.\<close>

definition getCodeSectionByName :: "ElfBinaryLoader \<Rightarrow> string \<Rightarrow> u8 list option result" where
  "getCodeSectionByName l strName = find_section l strName (m_collSectionHeaders l)"

definition getCodeSectionByAddress :: "ElfBinaryLoader \<Rightarrow> u32 \<Rightarrow> u8 list \<Rightarrow> u8 list \<times> bool" where
  "getCodeSectionByAddress l uAddress collData = (collData, True)"

definition getMainCodeSection :: "ElfBinaryLoader \<Rightarrow> u8 list option result" where
  "getMainCodeSection l = getCodeSectionByName l ''.text''"

section \<open>String tables\<close>

definition c_chars :: "u8 list \<Rightarrow> string" where
  "c_chars bs = map (\<lambda>b. char_of (unat b)) (takeWhile (\<lambda>b. b \<noteq> 0) bs)"

lemma c_string_eq: "c_string bs = (if 0 \<in> set bs then Ret (c_chars bs) else Fail Undefined)"
  by (induction bs) (auto simp: c_chars_def)

text \<open>What a string table means: the string at an offset where one starts.\<close>

definition string_start :: "u8 list \<Rightarrow> nat \<Rightarrow> nat \<Rightarrow> bool" where
  "string_start bs off n \<longleftrightarrow> n = 0 \<or> bs ! (off + n - 1) = 0"

definition table_string :: "u8 list \<Rightarrow> Elf32_Shdr \<Rightarrow> nat \<Rightarrow> string option" where
  "table_string bs sh n =
    (if n < unat (sh_size sh) \<and> string_start bs (unat (sh_offset sh)) n
     then Some (c_chars (drop (unat (sh_offset sh) + n) bs)) else None)"

definition strtab_ok :: "u8 list \<Rightarrow> Elf32_Shdr \<Rightarrow> bool" where
  "strtab_ok bs sh \<longleftrightarrow> sh_type sh = SHT_STRTAB \<and> 0 < unat (sh_size sh) \<and>
    unat (sh_offset sh) + unat (sh_size sh) \<le> length bs \<and>
    bs ! unat (sh_offset sh) = 0 \<and> bs ! (unat (sh_offset sh) + unat (sh_size sh) - 1) = 0"

lemma unat_add_of_nat: "unat (off :: u32) + n < 2 ^ 32 \<Longrightarrow> unat (off + of_nat n) = unat off + n"
  by (simp add: unat_word_ariths unat_of_nat take_bit_nat_eq_self)

lemma unat_add_less: "unat (a :: u32) + unat b < 2 ^ 32 \<Longrightarrow> unat (a + b) = unat a + unat b"
  using unat_add_of_nat [of a "unat b"] by simp

lemma unat_half: "unat (ucast (x :: u16) :: u32) = unat x"
proof -
  have "unat x < 2 ^ 16" by (rule order_less_le_trans [OF unsigned_less]) simp
  then show ?thesis by (simp add: unsigned_ucast_eq take_bit_nat_eq_self)
qed

lemma getString_addString [simp]:
  "getString (addString n str h) m = (if m = n then Some str else getString h m)"
  by (simp add: getString_def addString_def update_conv')

lemma addString_header [simp]: "m_aSectionHeader (addString n str h) = m_aSectionHeader h"
  by (simp add: addString_def)

text \<open>The string that starts at position \<open>p\<close>, when a NUL follows at \<open>q\<close>.\<close>

lemma c_string_ends:
  fixes bs :: "u8 list"
  assumes "p \<le> q" and "q < length bs" and "bs ! q = 0"
  obtains k where "string_at bs p = Ret (c_chars (drop p bs))" and "length (c_chars (drop p bs)) = k"
    and "p + k \<le> q" and "bs ! (p + k) = 0" and "\<And>j. j < k \<Longrightarrow> bs ! (p + j) \<noteq> 0"
proof -
  let ?t = "takeWhile (\<lambda>b. b \<noteq> 0) (drop p bs)"
  have at: "drop p bs ! (q - p) = 0" and qp: "q - p < length (drop p bs)"
    using assms by simp_all
  have *: "0 \<in> set (drop p bs)"
    by (rule subst [OF at, of "\<lambda>b. b \<in> set (drop p bs)"]) (rule nth_mem [OF qp])
  have le: "length ?t \<le> q - p"
  proof (rule ccontr)
    assume "\<not> length ?t \<le> q - p"
    then have "q - p < length ?t" by simp
    then have "?t ! (q - p) \<noteq> 0" using nth_mem set_takeWhileD by fastforce
    with \<open>q - p < length ?t\<close> at show False by (simp add: takeWhile_nth)
  qed
  have end0: "drop p bs ! length ?t = 0"
    using nth_length_takeWhile [of "\<lambda>b. b \<noteq> 0" "drop p bs"] le qp by fastforce
  have before: "bs ! (p + j) \<noteq> 0" if "j < length ?t" for j
  proof -
    have "?t ! j \<noteq> 0" using that nth_mem set_takeWhileD by fastforce
    with that show ?thesis using assms by (simp add: takeWhile_nth)
  qed
  show thesis
  proof (rule that)
    show "string_at bs p = Ret (c_chars (drop p bs))" using * by (simp add: string_at_def c_string_eq)
    show "length (c_chars (drop p bs)) = length ?t" by (simp add: c_chars_def)
    show "p + length ?t \<le> q" using le assms(1) by simp
    show "bs ! (p + length ?t) = 0" using end0 assms by simp
    show "bs ! (p + j) \<noteq> 0" if "j < length ?t" for j using that by (rule before)
  qed
qed

lemma read_strings_table:
  assumes "unat off + sz \<le> length bs" and "length bs < 2 ^ 32" and "0 < sz"
    and "bs ! (unat off + sz - 1) = 0" and "n \<le> sz" and "string_start bs (unat off) n"
  shows "\<exists>h'. read_strings bs off sz n h = Ret h' \<and> m_aSectionHeader h' = m_aSectionHeader h \<and>
    (\<forall>m. getString h' m =
      (if n \<le> m \<and> m < sz \<and> string_start bs (unat off) m then Some (c_chars (drop (unat off + m) bs))
       else getString h m))"
  using assms
proof (induction bs off sz n h rule: read_strings.induct)
  case (1 bs off sz n h)
  show ?case
  proof (cases "n < sz")
    case False
    then have "read_strings bs off sz n h = Ret h" by (subst read_strings.simps) simp
    with False show ?thesis by auto
  next
    case True
    have u: "unat (off + of_nat n) = unat off + n"
      using True "1.prems" by (intro unat_add_of_nat) simp
    let ?s = "c_chars (drop (unat off + n) bs)"
    have le: "unat off + n \<le> unat off + sz - 1" and lt: "unat off + sz - 1 < length bs"
      using True "1.prems"(1,3) by linarith+
    obtain k where str: "string_at bs (unat off + n) = Ret ?s" and k: "length ?s = k"
      and kle: "unat off + n + k \<le> unat off + sz - 1" and z: "bs ! (unat off + n + k) = 0"
      and nz: "\<And>j. j < k \<Longrightarrow> bs ! (unat off + n + j) \<noteq> 0"
      using c_string_ends [OF le lt "1.prems"(4)] by metis
    have st: "string_start bs (unat off) (n + k + 1)"
      using z by (simp add: string_start_def add.assoc)
    have "n + k + 1 \<le> sz" using kle "1.prems"(3) by linarith
    then obtain h' where h': "read_strings bs off sz (n + k + 1) (addString n ?s h) = Ret h'"
      "m_aSectionHeader h' = m_aSectionHeader h"
      and g: "\<And>m. getString h' m = (if n + k + 1 \<le> m \<and> m < sz \<and> string_start bs (unat off) m
          then Some (c_chars (drop (unat off + m) bs)) else if m = n then Some ?s else getString h m)"
      using "1.IH" [OF True str [folded u], unfolded u k, OF "1.prems"(1-4)] st by auto
    have between: "\<not> string_start bs (unat off) m" if "n < m" "m < n + k + 1" for m
    proof -
      have "m - 1 - n < k" and "unat off + n + (m - 1 - n) = unat off + m - 1" using that by linarith+
      with nz [of "m - 1 - n"] that show ?thesis by (simp add: string_start_def)
    qed
    have "getString h' m = (if n \<le> m \<and> m < sz \<and> string_start bs (unat off) m
        then Some (c_chars (drop (unat off + m) bs)) else getString h m)" for m
      using between [of m] True "1.prems"(6) by (cases m n rule: linorder_cases) (auto simp: g)
    moreover have "read_strings bs off sz n h = Ret h'"
      using True str k h'(1) by (subst read_strings.simps) (simp add: u)
    ultimately show ?thesis using h'(2) by blast
  qed
qed

lemma readStringTable_table:
  assumes "strtab_ok bs (m_aSectionHeader h)" and "length bs < 2 ^ 32"
  shows "\<exists>h'. readStringTable bs h = Ret (h', True) \<and> m_aSectionHeader h' = m_aSectionHeader h \<and>
    (\<forall>n. getString h' n = table_string bs (m_aSectionHeader h) n)"
proof -
  let ?sh = "m_aSectionHeader h"
  let ?off = "unat (sh_offset ?sh)" and ?sz = "unat (sh_size ?sh)"
  note ok = assms(1) [unfolded strtab_ok_def]
  have "unat (sh_offset ?sh + sh_size ?sh - 1) = ?off + ?sz - 1"
  proof -
    have *: "sh_offset ?sh + sh_size ?sh - 1 = sh_offset ?sh + of_nat (?sz - 1)"
      using ok by (simp add: of_nat_diff)
    have "?off + (?sz - 1) < 2 ^ 32" using ok assms(2) by linarith
    then have "unat (sh_offset ?sh + of_nat (?sz - 1)) = ?off + (?sz - 1)" by (rule unat_add_of_nat)
    then show ?thesis unfolding * using ok by simp
  qed
  moreover have "?off < length bs" and "?off + ?sz - 1 < length bs" using ok by linarith+
  ultimately have bytes: "byte_at bs ?off = Ret 0" "byte_at bs (unat (sh_offset ?sh + sh_size ?sh - 1)) = Ret 0"
    using ok by (simp_all add: byte_at_def)
  obtain h' where h': "read_strings bs (sh_offset ?sh) ?sz 0 (clearStrings h) = Ret h'"
    "m_aSectionHeader h' = m_aSectionHeader (clearStrings h)"
    and g: "\<And>n. getString h' n = (if 0 \<le> n \<and> n < ?sz \<and> string_start bs ?off n
      then Some (c_chars (drop (?off + n) bs)) else getString (clearStrings h) n)"
    using read_strings_table [of "sh_offset ?sh" ?sz bs 0 "clearStrings h"] ok assms(2)
    by (auto simp: string_start_def)
  have "getString h' n = table_string bs ?sh n" for n
    unfolding g table_string_def by (simp add: getString_def clearStrings_def)
  moreover have "m_aSectionHeader h' = ?sh" using h'(2) by (simp add: clearStrings_def)
  moreover have "readStringTable bs h = Ret (h', True)"
    using h'(1) ok bytes by (simp add: readStringTable_def clearStrings_def Let_def)
  ultimately show ?thesis by blast
qed

text \<open>
  C37. Reading a string table that lies in the file, with a NUL as its first and its last byte, returns: it
  keeps the header and then finds, at exactly the offsets of the table where a string starts, the
  characters up to the next NUL. An offset into the middle of a string is not found, although the format
  allows names to share a tail.
\<close>

theorem readStringTable_strings:
  assumes "strtab_ok bs (m_aSectionHeader h)" and "length bs < 2 ^ 32"
  shows "\<exists>h'. readStringTable bs h = Ret (h', True) \<and> m_aSectionHeader h' = m_aSectionHeader h \<and>
    (\<forall>n. getString h' n =
      (let off = unat (sh_offset (m_aSectionHeader h)) in
       if n < unat (sh_size (m_aSectionHeader h)) \<and> (n = 0 \<or> bs ! (off + n - 1) = 0)
       then Some (map (\<lambda>b. char_of (unat b)) (takeWhile (\<lambda>b. b \<noteq> 0) (drop (off + n) bs))) else None))"
  using readStringTable_table [OF assms] by (simp only: table_string_def string_start_def c_chars_def Let_def)

section \<open>Loading a file\<close>

lemma read_Shdr_fields:
  assumes "read_Shdr bs n = Ret sh"
  shows "word_at bs (n + 4) = Ret (sh_type sh)" "word_at bs (n + 16) = Ret (sh_offset sh)"
    "word_at bs (n + 20) = Ret (sh_size sh)"
  using assms by (auto simp: read_Shdr_def result_simps)

text \<open>
  A section the loader accepts: it lies in the file (the source asks this of \<open>SHT_NOBITS\<close> sections only, the one
  kind that has no bytes in the file), and a string table is well formed.
\<close>

definition section_ok :: "u8 list \<Rightarrow> Elf32_Shdr \<Rightarrow> bool" where
  "section_ok bs sh \<longleftrightarrow> unat (sh_offset sh) + unat (sh_size sh) \<le> length bs \<and>
    (sh_type sh = SHT_STRTAB \<longrightarrow> strtab_ok bs sh)"

definition represents :: "u8 list \<Rightarrow> Elf32_Shdr \<Rightarrow> ElfSectionHeader \<Rightarrow> bool" where
  "represents bs sh h \<longleftrightarrow> m_aSectionHeader h = sh \<and>
    (sh_type sh = SHT_STRTAB \<longrightarrow> (\<forall>n. getString h n = table_string bs sh n))"

lemma parse_section_ok:
  assumes "read_Shdr bs n = Ret sh" and "section_ok bs sh" and "length bs < 2 ^ 32"
  shows "\<exists>h. parse_section bs n = Ret (Some h) \<and> represents bs sh h"
proof -
  have "unat (sh_offset sh + sh_size sh) = unat (sh_offset sh) + unat (sh_size sh)"
    using assms(2,3) by (intro unat_add_less) (simp add: section_ok_def)
  with assms(2) have fits: "\<not> length bs < unat (sh_offset sh + sh_size sh)" by (simp add: section_ok_def)
  show ?thesis
  proof (cases "sh_type sh = SHT_STRTAB")
    case True
    with assms(2) have "strtab_ok bs (m_aSectionHeader (ElfSectionHeader_new sh))"
      by (simp add: section_ok_def ElfSectionHeader_new_def)
    from readStringTable_table [OF this assms(3)] obtain h'
      where "readStringTable bs (ElfSectionHeader_new sh) = Ret (h', True)" and "represents bs sh h'"
      by (auto simp: represents_def ElfSectionHeader_new_def)
    with True fits read_Shdr_fields [OF assms(1)] assms(1) show ?thesis by (simp add: parse_section_def)
  next
    case False
    with fits read_Shdr_fields [OF assms(1)] assms(1) show ?thesis
      by (simp add: parse_section_def represents_def ElfSectionHeader_new_def)
  qed
qed

lemma parse_sections_ok:
  assumes "length bs < 2 ^ 32" and "unat off + (k + length shs) * unat es \<le> length bs"
    and "list_all (\<lambda>i. read_Shdr bs (unat off + (k + i) * unat es) = Ret (shs ! i)) [0..<length shs]"
    and "list_all (section_ok bs) shs"
  shows "\<exists>hs. parse_sections bs off es k (length shs) coll = Ret (coll @ hs, True) \<and> list_all2 (represents bs) shs hs"
  using assms(2-)
proof (induction shs arbitrary: k coll)
  case Nil
  then show ?case by simp
next
  case (Cons sh shs)
  have "k * unat es \<le> (k + length (sh # shs)) * unat es" by (intro mult_le_mono1) simp
  then have lt: "unat off + k * unat es < 2 ^ 32" using Cons.prems(1) assms(1) by linarith
  have u: "unat (off + of_nat k * es) = unat off + k * unat es"
    using unat_add_of_nat [of off "k * unat es"] lt by simp
  have "read_Shdr bs (unat off + k * unat es) = Ret sh"
    using Cons.prems(2) [unfolded list_all_iff, THEN bspec, of 0] by (simp del: upt_Suc)
  then obtain h where h: "parse_section bs (unat off + k * unat es) = Ret (Some h)" "represents bs sh h"
    using parse_section_ok [of bs _ sh] Cons.prems(3) assms(1) by auto
  have "list_all (\<lambda>i. read_Shdr bs (unat off + (k + 1 + i) * unat es) = Ret (shs ! i)) [0..<length shs]"
  proof (simp add: list_all_iff, intro ballI)
    fix i
    assume "i \<in> {0..<length shs}"
    then have "Suc i \<in> set [0..<length (sh # shs)]" by auto
    with Cons.prems(2) have "read_Shdr bs (unat off + (k + Suc i) * unat es) = Ret ((sh # shs) ! Suc i)"
      unfolding list_all_iff by blast
    then show "read_Shdr bs (unat off + (unat es + (k + i) * unat es)) = Ret (shs ! i)" by simp
  qed
  then obtain hs where "parse_sections bs off es (k + 1) (length shs) (coll @ [h]) = Ret ((coll @ [h]) @ hs, True)"
    and "list_all2 (represents bs) shs hs"
    using Cons.IH [of "k + 1" "coll @ [h]"] Cons.prems by (auto simp: algebra_simps)
  with h show ?case by (auto simp: u intro!: exI [of _ "h # hs"])
qed

text \<open>What the file says: the name of a section, the bytes of a section.\<close>

definition name_ok :: "u8 list \<Rightarrow> Elf32_Shdr \<Rightarrow> Elf32_Shdr \<Rightarrow> bool" where
  "name_ok bs strtab sh \<longleftrightarrow> sh_name sh = 0 \<or> table_string bs strtab (unat (sh_name sh)) \<noteq> None"

definition section_name :: "u8 list \<Rightarrow> Elf32_Shdr \<Rightarrow> Elf32_Shdr \<Rightarrow> string" where
  "section_name bs strtab sh = (case table_string bs strtab (unat (sh_name sh)) of Some str \<Rightarrow> str | None \<Rightarrow> [])"

definition section_bytes :: "u8 list \<Rightarrow> Elf32_Shdr \<Rightarrow> u8 list" where
  "section_bytes bs sh = take (unat (sh_size sh)) (drop (unat (sh_offset sh)) bs)"

lemma copy_bytes_section:
  assumes "length bs < 2 ^ 32" and "unat off + k + n \<le> length bs"
  shows "copy_bytes bs off k n = Ret (take n (drop (unat off + k) bs))"
  using assms(2)
proof (induction n arbitrary: k)
  case 0
  then show ?case by simp
next
  case (Suc n)
  have "unat (off + of_nat k) = unat off + k" using Suc.prems assms(1) by (intro unat_add_of_nat) simp
  moreover have "drop (unat off + k) bs = bs ! (unat off + k) # drop (Suc (unat off + k)) bs"
    using Suc.prems by (intro Cons_nth_drop_Suc [symmetric]) simp
  ultimately show ?case using Suc.IH [of "k + 1"] Suc.prems by (simp add: byte_at_def)
qed

lemma names_found_ok:
  assumes "header_at l (unat (m_uStringTableSectionIdx l)) = Ret strtab" and "m_bHaveStringTable l"
    and "represents bs sh strtab" and "sh_type sh = SHT_STRTAB"
  shows "list_all2 (represents bs) shs hs \<Longrightarrow> names_found l hs = Ret (list_all (name_ok bs sh) shs)"
proof (induction rule: list_all2_induct)
  case Nil
  then show ?case by simp
next
  case (Cons s shs h hs)
  then have "m_aSectionHeader h = s" by (simp add: represents_def)
  moreover have "getString strtab n = table_string bs sh n" for n
    using assms(3,4) by (simp add: represents_def)
  ultimately show ?case using Cons assms(1,2) by (auto simp: Let_def name_ok_def)
qed

lemma find_section_ok:
  assumes "header_at l (unat (m_uStringTableSectionIdx l)) = Ret strtab" and "m_bHaveStringTable l"
    and "represents bs sh strtab" and "sh_type sh = SHT_STRTAB" and "m_collBinaryData l = bs" and "length bs < 2 ^ 32"
  shows "list_all2 (represents bs) shs hs \<Longrightarrow> list_all (section_ok bs) shs \<Longrightarrow>
    find_section l name hs = Ret (map_option (section_bytes bs) (List.find (\<lambda>s. section_name bs sh s = name) shs))"
proof (induction rule: list_all2_induct)
  case Nil
  then show ?case by simp
next
  case (Cons s shs h hs)
  then have "m_aSectionHeader h = s" by (simp add: represents_def)
  moreover have "getStringTableEntry l (sh_name s) = Ret (section_name bs sh s)"
    using assms by (simp add: getStringTableEntry_def section_name_def represents_def)
  moreover have "copy_bytes bs (sh_offset s) 0 (unat (sh_size s)) = Ret (section_bytes bs s)"
    using copy_bytes_section [of bs "sh_offset s" 0] Cons.prems assms(6) by (simp add: section_ok_def section_bytes_def)
  ultimately show ?case using Cons assms(5) by (auto simp: Let_def)
qed

text \<open>
  A file the loader can work with: \<open>shs\<close> are the section headers where the file header \<open>eh\<close> says they are.
  Whether the names of the sections are found is left open.
\<close>

definition elf_ok :: "nat \<Rightarrow> u8 list \<Rightarrow> Elf32_Ehdr \<Rightarrow> Elf32_Shdr list \<Rightarrow> bool" where
  "elf_ok sizeof_vector bs eh shs \<longleftrightarrow>
    sizeof_Ehdr \<le> length bs \<and> length bs < 2 ^ 31 \<and> read_Ehdr bs = Ret eh \<and> elf_magic eh \<and> arch_of (e_machine eh) \<noteq> None \<and>
    e_shoff eh \<noteq> 0 \<and> length shs = unat (e_shnum eh) \<and> 0 < unat (e_shentsize eh) \<and> sizeof_vector \<le> unat (e_shentsize eh) \<and>
    unat (e_shoff eh) + length shs * unat (e_shentsize eh) \<le> length bs \<and>
    list_all (\<lambda>i. read_Shdr bs (unat (e_shoff eh) + i * unat (e_shentsize eh)) = Ret (shs ! i)) [0..<length shs] \<and>
    list_all (section_ok bs) shs \<and>
    0 < unat (e_shstrndx eh) \<and> unat (e_shstrndx eh) < length shs \<and>
    sh_type (shs ! unat (e_shstrndx eh)) = SHT_STRTAB"

lemma parseSectionHeaders_ok:
  assumes "elf_ok sv bs eh shs" and "m_collBinaryData l = bs"
  shows "\<exists>hs. parseSectionHeaders sv l (e_shoff eh) (ucast (e_shnum eh)) (ucast (e_shentsize eh)) =
      Ret (l\<lparr>m_collSectionHeaders := hs\<rparr>, True) \<and> list_all2 (represents bs) shs hs"
proof -
  note ok = assms(1) [unfolded elf_ok_def]
  let ?n = "ucast (e_shnum eh) :: u32" and ?es = "ucast (e_shentsize eh) :: u32"
  have n: "unat ?n = length shs" and es: "unat ?es = unat (e_shentsize eh)"
    using ok by (simp_all add: unat_half)
  obtain hs where hs: "parse_sections bs (e_shoff eh) ?es 0 (length shs) [] = Ret ([] @ hs, True)"
    "list_all2 (represents bs) shs hs"
    using parse_sections_ok [of bs "e_shoff eh" 0 shs ?es "[]"] ok by (auto simp: es)
  have "?n * ?es = of_nat (length shs * unat (e_shentsize eh))"
    by (simp add: n [symmetric] es [symmetric])
  moreover have "unat (e_shoff eh) + length shs * unat (e_shentsize eh) < 2 ^ 32" using ok by (elim conjE) simp
  ultimately have "unat (e_shoff eh + ?n * ?es) = unat (e_shoff eh) + length shs * unat (e_shentsize eh)"
    using unat_add_of_nat by metis
  moreover have "unat (e_shoff eh) + length shs * unat (e_shentsize eh) \<le> length bs" using ok by blast
  ultimately have fits: "\<not> length bs < unat (e_shoff eh + ?n * ?es)" by linarith
  have nz: "?n \<noteq> 0" "?es \<noteq> 0" "e_shoff eh \<noteq> 0" "\<not> unat ?es < sv" using n es ok by force+
  have "parseSectionHeaders sv l (e_shoff eh) ?n ?es = Ret (l\<lparr>m_collSectionHeaders := hs\<rparr>, True)"
    using hs(1) assms(2) by (simp add: parseSectionHeaders_def Let_def n fits nz)
  with hs(2) show ?thesis by blast
qed

lemma parseElfHeader_ok:
  assumes ok: "elf_ok sv bs eh shs" and bs: "m_collBinaryData l = bs" and arch: "arch_of (e_machine eh) = Some arch"
  shows "\<exists>hs. parseElfHeader sv l =
      Ret (l\<lparr>m_enArchType := arch, m_collSectionHeaders := hs, m_bHaveStringTable := True,
        m_uStringTableSectionIdx := ucast (e_shstrndx eh)\<rparr>,
        list_all (name_ok bs (shs ! unat (e_shstrndx eh))) shs) \<and> list_all2 (represents bs) shs hs"
proof -
  note ok' = ok [unfolded elf_ok_def]
  obtain hs where hs: "parseSectionHeaders sv (l\<lparr>m_enArchType := arch\<rparr>) (e_shoff eh) (ucast (e_shnum eh)) (ucast (e_shentsize eh)) =
      Ret (l\<lparr>m_enArchType := arch, m_collSectionHeaders := hs\<rparr>, True)" and rep: "list_all2 (represents bs) shs hs"
    using parseSectionHeaders_ok [OF ok, of "l\<lparr>m_enArchType := arch\<rparr>"] bs by auto
  let ?k = "unat (e_shstrndx eh)"
  let ?l = "l\<lparr>m_enArchType := arch, m_collSectionHeaders := hs, m_bHaveStringTable := True,
        m_uStringTableSectionIdx := ucast (e_shstrndx eh)\<rparr>"
  have len: "length hs = length shs" using rep by (simp add: list_all2_lengthD)
  have k: "header_at ?l (unat (m_uStringTableSectionIdx ?l)) = Ret (hs ! ?k)"
    using ok' by (simp add: header_at_def unat_half len)
  have "represents bs (shs ! ?k) (hs ! ?k)" using rep ok' by (simp add: list_all2_nthD)
  then have "names_found ?l hs = Ret (list_all (name_ok bs (shs ! ?k)) shs)"
    using ok' by (intro names_found_ok [OF k _ _ _ rep]) simp_all
  moreover have "e_shstrndx eh \<noteq> SHN_UNDEF" using ok' by (auto simp: SHN_UNDEF_def)
  ultimately have "parseElfHeader sv l = Ret (?l, list_all (name_ok bs (shs ! ?k)) shs)"
    using ok' hs by (simp add: parseElfHeader_def bs arch postProcessSectionHeaders_def len Let_def)
  with rep show ?thesis by blast
qed

text \<open>
  C36. Loading a file whose section headers are in the file, together with the bytes of every section, and
  whose string tables are well formed. The loader accepts the file exactly if every section that has a
  name is named by the start of a string. It then knows the architecture and the section headers of the
  file, and \<open>getCodeSectionByName\<close> returns the bytes of the first section of that name, or false if there is
  none.
\<close>

theorem loadFile_correct:
  assumes "elf_ok sizeof_vector bs eh shs" and "strtab = shs ! unat (e_shstrndx eh)"
  shows "\<exists>l. loadFile sizeof_vector (Some (length bs, bs)) l0 = Ret (l, list_all (name_ok bs strtab) shs) \<and>
    Some (m_enArchType l) = arch_of (e_machine eh) \<and> map m_aSectionHeader (m_collSectionHeaders l) = shs \<and>
    (\<forall>name. getCodeSectionByName l name =
      Ret (map_option (section_bytes bs) (List.find (\<lambda>sh. section_name bs strtab sh = name) shs)))"
proof -
  note ok' = assms(1) [unfolded elf_ok_def]
  let ?l1 = "l0\<lparr>m_collBinaryData := bs\<rparr>"
  obtain arch where arch: "arch_of (e_machine eh) = Some arch" using ok' by auto
  obtain hs where parse: "parseElfHeader sizeof_vector ?l1 =
      Ret (?l1\<lparr>m_enArchType := arch, m_collSectionHeaders := hs, m_bHaveStringTable := True,
        m_uStringTableSectionIdx := ucast (e_shstrndx eh)\<rparr>, list_all (name_ok bs strtab) shs)"
    and rep: "list_all2 (represents bs) shs hs"
    using parseElfHeader_ok [OF assms(1) _ arch, of ?l1] assms(2) by auto
  let ?l = "?l1\<lparr>m_enArchType := arch, m_collSectionHeaders := hs, m_bHaveStringTable := True,
        m_uStringTableSectionIdx := ucast (e_shstrndx eh)\<rparr>"
  have len: "length hs = length shs" using rep by (simp add: list_all2_lengthD)
  have "bs \<noteq> []" using ok' by (auto simp: sizeof_Ehdr_def)
  then have load: "loadFile sizeof_vector (Some (length bs, bs)) l0 = Ret (?l, list_all (name_ok bs strtab) shs)"
    using parse by (simp add: loadFile_def fread_into_def resize_def)
  have k: "header_at ?l (unat (m_uStringTableSectionIdx ?l)) = Ret (hs ! unat (e_shstrndx eh))"
    using ok' by (simp add: header_at_def unat_half len)
  have "represents bs strtab (hs ! unat (e_shstrndx eh))" using rep ok' assms(2) by (simp add: list_all2_nthD)
  then have "getCodeSectionByName ?l name =
      Ret (map_option (section_bytes bs) (List.find (\<lambda>sh. section_name bs strtab sh = name) shs))" for name
    using ok' assms(2) unfolding getCodeSectionByName_def
    by (intro find_section_ok [OF k, where shs = shs]) (simp_all add: rep)
  moreover have "map m_aSectionHeader hs = shs"
    using rep by (induction rule: list_all2_induct) (simp_all add: represents_def)
  ultimately show ?thesis using load arch by (intro exI [of _ ?l]) simp
qed

text \<open>An object file with one code section and its string table; the index of the string table is an argument.\<close>

definition demo_elf :: "u8 \<Rightarrow> u8 list" where
  "demo_elf k = [
    127, 69, 76, 70, 1, 1, 1, 0, 0, 0, 0, 0, 0, 0, 0, 0, 1, 0, 3, 0, 1, 0, 0, 0, 0, 0, 0, 0, 0, 0, 0, 0, 52,
    0, 0, 0, 0, 0, 0, 0, 52, 0, 0, 0, 0, 0, 40, 0, 3, 0,
    k, 0,
    0, 0, 0, 0, 0, 0, 0, 0, 0, 0, 0, 0, 0, 0, 0, 0, 0, 0, 0, 0, 0, 0, 0, 0, 0, 0, 0, 0, 0, 0, 0, 0, 0, 0, 0,
    0, 0, 0, 0, 0, 1, 0, 0, 0, 1, 0, 0, 0, 6, 0, 0, 0, 0, 0, 0, 0, 172, 0, 0, 0, 4, 0, 0, 0, 0, 0, 0, 0, 0, 0,
    0, 0, 4, 0, 0, 0, 0, 0, 0, 0, 7, 0, 0, 0, 3, 0, 0, 0, 0, 0, 0, 0, 0, 0, 0, 0, 176, 0, 0, 0, 17, 0, 0, 0,
    0, 0, 0, 0, 0, 0, 0, 0, 1, 0, 0, 0, 0, 0, 0, 0, 144, 144, 144, 195, 0, 46, 116, 101, 120, 116, 0, 46, 115,
    104, 115, 116, 114, 116, 97, 98, 0]"

definition demo_eh :: "u16 \<Rightarrow> Elf32_Ehdr" where
  "demo_eh k = \<lparr>e_ident = [127, 69, 76, 70, 1, 1, 1, 0, 0, 0, 0, 0, 0, 0, 0, 0], e_type = 1, e_machine = 3, e_version = 1,
    e_entry = 0, e_phoff = 0, e_shoff = 52, e_flags = 0, e_ehsize = 52, e_phentsize = 0, e_phnum = 0,
    e_shentsize = 40, e_shnum = 3, e_shstrndx = k\<rparr>"

definition demo_shs :: "Elf32_Shdr list" where
  "demo_shs =
    [\<lparr>sh_name = 0, sh_type = 0, sh_flags = 0, sh_addr = 0, sh_offset = 0, sh_size = 0, sh_link = 0, sh_info = 0,
      sh_addralign = 0, sh_entsize = 0\<rparr>,
     \<lparr>sh_name = 1, sh_type = 1, sh_flags = 6, sh_addr = 0, sh_offset = 172, sh_size = 4, sh_link = 0, sh_info = 0,
      sh_addralign = 4, sh_entsize = 0\<rparr>,
     \<lparr>sh_name = 7, sh_type = 3, sh_flags = 0, sh_addr = 0, sh_offset = 176, sh_size = 17, sh_link = 0, sh_info = 0,
      sh_addralign = 1, sh_entsize = 0\<rparr>]"

lemma demo_elf_length: "length (demo_elf k) = 193"
  by (simp add: demo_elf_def)

lemma demo_elf_ok: "elf_ok 12 (demo_elf 2) (demo_eh 2) demo_shs"
proof -
  have "length (demo_elf 2) < 2 ^ 31" by (simp add: demo_elf_length)
  moreover have "sizeof_Ehdr \<le> length (demo_elf 2)" by code_simp
  moreover have "read_Ehdr (demo_elf 2) = Ret (demo_eh 2)" by code_simp
  moreover have "elf_magic (demo_eh 2)" and "arch_of (e_machine (demo_eh 2)) \<noteq> None" and "e_shoff (demo_eh 2) \<noteq> 0"
    and "length demo_shs = unat (e_shnum (demo_eh 2))" and "0 < unat (e_shentsize (demo_eh 2))"
    and "12 \<le> unat (e_shentsize (demo_eh 2))" and "0 < unat (e_shstrndx (demo_eh 2))"
    and "unat (e_shstrndx (demo_eh 2)) < length demo_shs" by code_simp+
  moreover have "unat (e_shoff (demo_eh 2)) + length demo_shs * unat (e_shentsize (demo_eh 2)) \<le> length (demo_elf 2)"
    by code_simp
  moreover have "list_all (\<lambda>i. read_Shdr (demo_elf 2) (unat (e_shoff (demo_eh 2)) + i * unat (e_shentsize (demo_eh 2))) =
      Ret (demo_shs ! i)) [0..<length demo_shs]" by code_simp
  moreover have "list_all (section_ok (demo_elf 2)) demo_shs" by code_simp
  moreover have "sh_type (demo_shs ! unat (e_shstrndx (demo_eh 2))) = SHT_STRTAB" by code_simp
  ultimately show ?thesis unfolding elf_ok_def by blast
qed

theorem readStringTable_strings_witness:
  "strtab_ok (demo_elf 2) (demo_shs ! 2) \<and>
   (\<exists>h. readStringTable (demo_elf 2) (ElfSectionHeader_new (demo_shs ! 2)) = Ret (h, True) \<and>
     getString h 7 = Some ''.shstrtab'' \<and> getString h 2 = None)"
proof -
  let ?h = "ElfSectionHeader_new (demo_shs ! 2)"
  have ok: "strtab_ok (demo_elf 2) (demo_shs ! 2)" by code_simp
  have "m_aSectionHeader ?h = demo_shs ! 2" by (simp add: ElfSectionHeader_new_def)
  moreover have "length (demo_elf 2) < 2 ^ 32" by (simp add: demo_elf_length)
  moreover have "table_string (demo_elf 2) (demo_shs ! 2) 7 = Some ''.shstrtab''"
    and "table_string (demo_elf 2) (demo_shs ! 2) 2 = None" by code_simp+
  ultimately show ?thesis
    using readStringTable_strings [of "demo_elf 2" ?h] ok
    unfolding table_string_def string_start_def c_chars_def Let_def by (simp only:) metis
qed

theorem loadFile_correct_witness:
  "elf_ok 12 (demo_elf 2) (demo_eh 2) demo_shs \<and>
   (\<exists>l. loadFile 12 (Some (length (demo_elf 2), demo_elf 2)) (ElfBinaryLoader_new 0) = Ret (l, True) \<and>
     m_enArchType l = ARCH_TYPE_X86 \<and> getCodeSectionByName l ''.text'' = Ret (Some [0x90, 0x90, 0x90, 0xC3]) \<and>
     getCodeSectionByName l ''.data'' = Ret None)"
proof -
  let ?t = "demo_shs ! unat (e_shstrndx (demo_eh 2))"
  have names: "list_all (name_ok (demo_elf 2) ?t) demo_shs" by code_simp
  have arch: "arch_of (e_machine (demo_eh 2)) = Some ARCH_TYPE_X86" by code_simp
  have code: "map_option (section_bytes (demo_elf 2)) (List.find (\<lambda>sh. section_name (demo_elf 2) ?t sh = ''.text'') demo_shs) =
      Some [0x90, 0x90, 0x90, 0xC3]" by code_simp
  have data: "map_option (section_bytes (demo_elf 2)) (List.find (\<lambda>sh. section_name (demo_elf 2) ?t sh = ''.data'') demo_shs) = None"
    by code_simp
  obtain l where l: "loadFile 12 (Some (length (demo_elf 2), demo_elf 2)) (ElfBinaryLoader_new 0) =
      Ret (l, list_all (name_ok (demo_elf 2) ?t) demo_shs)" "Some (m_enArchType l) = arch_of (e_machine (demo_eh 2))"
    and get: "\<forall>name. getCodeSectionByName l name = Ret (map_option (section_bytes (demo_elf 2))
      (List.find (\<lambda>sh. section_name (demo_elf 2) ?t sh = name) demo_shs))"
    using loadFile_correct [OF demo_elf_ok refl, of "ElfBinaryLoader_new 0"] by blast
  have "m_enArchType l = ARCH_TYPE_X86" using l(2) arch by simp
  moreover have "getCodeSectionByName l ''.text'' = Ret (Some [0x90, 0x90, 0x90, 0xC3])"
    and "getCodeSectionByName l ''.data'' = Ret None"
    by (rule trans [OF spec [OF get]], simp only: code data)+
  moreover have "loadFile 12 (Some (length (demo_elf 2), demo_elf 2)) (ElfBinaryLoader_new 0) = Ret (l, True)"
    using l(1) names by simp
  ultimately show ?thesis using demo_elf_ok by blast
qed

section \<open>The index of the string table\<close>

text \<open>
  C38. The check of the index of the string table is off by one: with an index equal to the number of
  section headers, the loader goes on and reads past the end of the vector.
\<close>

theorem parseElfHeader_strndx:
  assumes "sizeof_Ehdr \<le> length (m_collBinaryData l)" and "read_Ehdr (m_collBinaryData l) = Ret eh" and "elf_magic eh"
    and "arch_of (e_machine eh) = Some arch"
    and "parseSectionHeaders sizeof_vector (l\<lparr>m_enArchType := arch\<rparr>) (e_shoff eh) (ucast (e_shnum eh)) (ucast (e_shentsize eh)) =
      Ret (l1, True)"
    and "0 < length (m_collSectionHeaders l1)" and "unat (e_shstrndx eh) = length (m_collSectionHeaders l1)"
  shows "parseElfHeader sizeof_vector l = Fail Undefined"
proof -
  obtain h hs where hs: "m_collSectionHeaders l1 = h # hs" using assms(6) by (cases "m_collSectionHeaders l1") auto
  show ?thesis
    using assms hs by (simp add: parseElfHeader_def postProcessSectionHeaders_def header_at_def unat_half Let_def)
qed

theorem parseElfHeader_strndx_witness:
  "parseElfHeader 12 ((ElfBinaryLoader_new 0)\<lparr>m_collBinaryData := demo_elf 3\<rparr>) = Fail Undefined"
proof -
  let ?l = "(ElfBinaryLoader_new 0)\<lparr>m_collBinaryData := demo_elf 3\<rparr>"
  let ?p = "parseSectionHeaders 12 (?l\<lparr>m_enArchType := ARCH_TYPE_X86\<rparr>) (e_shoff (demo_eh 3)) (ucast (e_shnum (demo_eh 3)))
      (ucast (e_shentsize (demo_eh 3)))"
  have "case ?p of Ret (l1, ok) \<Rightarrow> ok \<and> length (m_collSectionHeaders l1) = 3 | Fail e \<Rightarrow> False" by code_simp
  then obtain l1 where "?p = Ret (l1, True)" and len: "length (m_collSectionHeaders l1) = 3"
    by (auto split: result.splits prod.splits)
  moreover have "0 < length (m_collSectionHeaders l1)" using len by simp
  moreover have "sizeof_Ehdr \<le> length (m_collBinaryData ?l)" and "read_Ehdr (m_collBinaryData ?l) = Ret (demo_eh 3)"
    and "elf_magic (demo_eh 3)" and "arch_of (e_machine (demo_eh 3)) = Some ARCH_TYPE_X86"
    and "unat (e_shstrndx (demo_eh 3)) = 3" by code_simp+
  ultimately show ?thesis by (intro parseElfHeader_strndx [of ?l "demo_eh 3" ARCH_TYPE_X86 12 l1]) simp_all
qed

end
