(* ===== verification/Rtl.thy ===== *)
theory Rtl
  imports X86Facts X86Format ElfLoader
begin

text \<open>
  The compiler \<^verbatim>\<open>src/tools/udcompiler\<close>: the register transfer language of \<^verbatim>\<open>RTLGeneratorBase.h\<close>, its generator for x86 code,
  \<^verbatim>\<open>X86RTLGenerator.cpp\<close>, and the main program.
\<close>

section \<open>The language\<close>

datatype eRegister = REGISTER_UNKNOWN | REGISTER_R001 | REGISTER_R002 | REGISTER_R003 | REGISTER_R004

datatype Argument_eType = TYPE_UNKNOWN | TYPE_REGISTER | TYPE_VALUE | TYPE_MEMORY_LOC

datatype eDataWidth = DATA_WIDTH_UNKNOWN | DATA_WIDTH_8_LW_LB | DATA_WIDTH_8_LW_HB | DATA_WIDTH_8_HW_LB | DATA_WIDTH_8_HW_HB
  | DATA_WIDTH_16_LW | DATA_WIDTH_16_HW | DATA_WIDTH_32

record Argument =
  m_enType :: Argument_eType
  m_enRegister :: eRegister
  m_enDataWidth :: eDataWidth
  m_uValue :: u32

definition Argument_new :: Argument where
  "Argument_new = \<lparr>m_enType = TYPE_UNKNOWN, m_enRegister = REGISTER_UNKNOWN, m_enDataWidth = DATA_WIDTH_UNKNOWN, m_uValue = 0x0BADC0DE\<rparr>"

datatype RTLOp_eType = OP_UNKNOWN | OP_ADD | OP_ASSIGN | OP_CALL | OP_COMPARE | OP_JUMP | OP_NOP | OP_RETURN | OP_SUBTRACT

record RTLOp =
  m_enOpType :: RTLOp_eType
  m_aArg1 :: Argument
  m_aArg2 :: Argument
  m_aArg3 :: Argument

definition RTLOp_new :: RTLOp where
  "RTLOp_new = \<lparr>m_enOpType = OP_UNKNOWN, m_aArg1 = Argument_new, m_aArg2 = Argument_new, m_aArg3 = Argument_new\<rparr>"

definition REGISTER_X86_EAX :: eRegister where "REGISTER_X86_EAX = REGISTER_R001"
definition REGISTER_X86_ESI :: eRegister where "REGISTER_X86_ESI = REGISTER_R002"
definition REGISTER_X86_ESP :: eRegister where "REGISTER_X86_ESP = REGISTER_R003"

section \<open>Printing it\<close>

fun getDataWidthSuffix :: "eDataWidth \<Rightarrow> string" where
  "getDataWidthSuffix DATA_WIDTH_8_LW_LB = ''8_LW_LB''"
| "getDataWidthSuffix DATA_WIDTH_8_LW_HB = ''8_LW_HB''"
| "getDataWidthSuffix DATA_WIDTH_8_HW_LB = ''8_HW_LB''"
| "getDataWidthSuffix DATA_WIDTH_8_HW_HB = ''8_HW_HB''"
| "getDataWidthSuffix DATA_WIDTH_16_LW = ''16_LW''"
| "getDataWidthSuffix DATA_WIDTH_16_HW = ''16_HW''"
| "getDataWidthSuffix DATA_WIDTH_32 = ''32''"
| "getDataWidthSuffix DATA_WIDTH_UNKNOWN = ''UNKNOWN''"

definition getRegisterName :: "eRegister \<Rightarrow> eDataWidth \<Rightarrow> string" where
  "getRegisterName enRegister enDataWidth =
    (if enRegister = REGISTER_X86_EAX then ''EAX.'' @ getDataWidthSuffix enDataWidth
     else if enRegister = REGISTER_X86_ESI then ''ESI.'' @ getDataWidthSuffix enDataWidth
     else if enRegister = REGISTER_X86_ESP then ''ESP.'' @ getDataWidthSuffix enDataWidth
     else ''UNKNOWN'')"

text \<open>The result is what is written to the standard output, and what the function returns.\<close>

definition dumpArg :: "Argument \<Rightarrow> string \<times> bool" where
  "dumpArg aArg =
    (case m_enType aArg of
       TYPE_MEMORY_LOC \<Rightarrow> (tabs 1 @ ''[TYPE_MEMORY_LOC]'' @ nl, True)
     | TYPE_REGISTER \<Rightarrow>
         (tabs 1 @ ''[TYPE_REGISTER] CPU_REG_'' @ getRegisterName (m_enRegister aArg) (m_enDataWidth aArg) @ nl, True)
     | TYPE_UNKNOWN \<Rightarrow> (tabs 1 @ ''[TYPE_UNKNOWN]'' @ nl, True)
     | TYPE_VALUE \<Rightarrow> (tabs 1 @ ''[TYPE_VALUE]'' @ nl, True))"

fun op_name :: "RTLOp_eType \<Rightarrow> string" where
  "op_name OP_ADD = ''OP_ADD''"
| "op_name OP_ASSIGN = ''OP_ASSIGN''"
| "op_name OP_CALL = ''OP_CALL''"
| "op_name OP_COMPARE = ''OP_COMPARE''"
| "op_name OP_JUMP = ''OP_JUMP''"
| "op_name OP_NOP = ''OP_NOP''"
| "op_name OP_RETURN = ''OP_RETURN''"
| "op_name OP_SUBTRACT = ''OP_SUBTRACT''"
| "op_name OP_UNKNOWN = ''OP_UNKNOWN''"

definition dump_if_known :: "Argument \<Rightarrow> string \<times> bool" where
  "dump_if_known aArg = (if m_enType aArg \<noteq> TYPE_UNKNOWN then dumpArg aArg else ([], True))"

fun dumpRTL :: "RTLOp list \<Rightarrow> string \<times> bool" where
  "dumpRTL [] = ([], True)"
| "dumpRTL (aRTLOp # ops) =
    (let head = op_name (m_enOpType aRTLOp) @ nl; (s1, ok1) = dump_if_known (m_aArg1 aRTLOp) in
     if \<not> ok1 then (head @ s1, False)
     else
       (let (s2, ok2) = dump_if_known (m_aArg2 aRTLOp) in
        if \<not> ok2 then (head @ s1 @ s2, False)
        else
          (let (s3, ok3) = dump_if_known (m_aArg3 aRTLOp) in
           if \<not> ok3 then (head @ s1 @ s2 @ s3, False)
           else (let (rest, ok) = dumpRTL ops in (head @ s1 @ s2 @ s3 @ nl @ rest, ok)))))"

section \<open>The generator\<close>

text \<open>An argument is left half filled when \<open>false\<close> is returned; the operation is given up then.\<close>

definition parseArgument :: "x86_op_t option \<Rightarrow> Argument \<Rightarrow> Argument \<times> bool" where
  "parseArgument pOp aArgument =
    (case pOp of
       None \<Rightarrow> (aArgument, False)
     | Some op \<Rightarrow>
         (case op_type op of
            op_register \<Rightarrow>
              (let a = aArgument\<lparr>m_enType := TYPE_REGISTER\<rparr>; name = reg_name (data_reg op) in
               if name = ''ah'' then (a\<lparr>m_enRegister := REGISTER_X86_EAX, m_enDataWidth := DATA_WIDTH_8_LW_HB\<rparr>, True)
               else if name = ''al'' then (a\<lparr>m_enRegister := REGISTER_X86_EAX, m_enDataWidth := DATA_WIDTH_8_LW_LB\<rparr>, True)
               else if name = ''ax'' then (a\<lparr>m_enRegister := REGISTER_X86_EAX, m_enDataWidth := DATA_WIDTH_16_LW\<rparr>, True)
               else if name = ''eax'' then (a\<lparr>m_enRegister := REGISTER_X86_EAX, m_enDataWidth := DATA_WIDTH_32\<rparr>, True)
               else if name = ''esi'' then (a\<lparr>m_enRegister := REGISTER_X86_ESI, m_enDataWidth := DATA_WIDTH_32\<rparr>, True)
               else if name = ''esp'' then (a\<lparr>m_enRegister := REGISTER_X86_ESP, m_enDataWidth := DATA_WIDTH_32\<rparr>, True)
               else (a, False))
          | op_immediate \<Rightarrow>
              (let a = aArgument\<lparr>m_enType := TYPE_VALUE\<rparr> in
               if op_datatype op = op_byte
               then (a\<lparr>m_uValue := ucast (ucast (data_word op) :: u8), m_enDataWidth := DATA_WIDTH_8_LW_LB\<rparr>, True)
               else (a, False))
          | op_expression \<Rightarrow> (aArgument\<lparr>m_enType := TYPE_MEMORY_LOC\<rparr>, True)
          | op_offset \<Rightarrow> (aArgument\<lparr>m_enType := TYPE_MEMORY_LOC\<rparr>, True)
          | op_relative_far \<Rightarrow> (aArgument\<lparr>m_enType := TYPE_VALUE\<rparr>, True)
          | op_relative_near \<Rightarrow> (aArgument\<lparr>m_enType := TYPE_VALUE\<rparr>, True)
          | _ \<Rightarrow> (aArgument, False)))"

definition op_type_of :: "x86_insn_type \<Rightarrow> RTLOp_eType option" where
  "op_type_of ty =
    (if ty = insn_add then Some OP_ADD
     else if ty = insn_call then Some OP_CALL
     else if ty = insn_jcc \<or> ty = insn_jmp then Some OP_JUMP
     else if ty = insn_mov then Some OP_ASSIGN
     else if ty = insn_return then Some OP_RETURN
     else if ty = insn_sub then Some OP_SUBTRACT
     else if ty = insn_test then Some OP_COMPARE
     else if ty = insn_push \<or> ty = insn_pop then Some OP_NOP
     else None)"

text \<open>One of the three arguments: nothing is done when there are fewer operands.\<close>

definition parse_nth :: "bool \<Rightarrow> x86_op_t option result \<Rightarrow> Argument \<Rightarrow> (Argument \<times> bool) result" where
  "parse_nth present operand arg = (if present then r_map (\<lambda>p. parseArgument p arg) operand else Ret (arg, True))"

definition parseInsn :: "x86_insn_t \<Rightarrow> RTLOp \<Rightarrow> (RTLOp \<times> bool) result" where
  "parseInsn aInsn aRTLOp =
    r_bind (x86_operand_count aInsn op_explicit) (\<lambda>uOpCount.
    case op_type_of (insn_type aInsn) of
      None \<Rightarrow> Ret (aRTLOp, False)
    | Some ty \<Rightarrow>
        let op0 = aRTLOp\<lparr>m_enOpType := ty\<rparr> in
        r_bind (parse_nth (uOpCount \<ge> 1) (x86_operand_1st aInsn) (m_aArg1 op0)) (\<lambda>(a1, ok1).
        let op1 = op0\<lparr>m_aArg1 := a1\<rparr> in
        if \<not> ok1 then Ret (op1, False)
        else
          r_bind (parse_nth (uOpCount \<ge> 2) (x86_operand_2nd aInsn) (m_aArg2 op1)) (\<lambda>(a2, ok2).
          let op2 = op1\<lparr>m_aArg2 := a2\<rparr> in
          if \<not> ok2 then Ret (op2, False)
          else
            r_map (\<lambda>(a3, ok3). (op2\<lparr>m_aArg3 := a3\<rparr>, ok3))
              (parse_nth (uOpCount \<ge> 3) (x86_operand_3rd aInsn) (m_aArg3 op2)))))"

text \<open>
  The loop runs until 52 bytes are read, and need not end: \<open>None\<close> is a call that never returns. \<open>raw n\<close> is what the local
  structure \<open>aInsn\<close> holds at the start of the turn \<open>n\<close>. The address of the first byte of an empty vector is not defined.
\<close>

partial_function (option) generate_loop ::
  "u32 \<Rightarrow> u32 \<Rightarrow> (nat \<Rightarrow> x86_insn_t) \<Rightarrow> u8 list \<Rightarrow> u32 \<Rightarrow> nat \<Rightarrow> RTLOp list \<Rightarrow> string
    \<Rightarrow> (RTLOp list \<times> string \<times> bool) result option" where
  "generate_loop options junk raw collData uIdx n ops out =
    (if uIdx < 52 then
       (if collData = [] then Some (Fail Undefined)
        else
          (case x86_disasm options junk collData (of_nat (length collData)) 0 uIdx (raw n) of
             Fail e \<Rightarrow> Some (Fail e)
           | Ret r \<Rightarrow>
               (case parseInsn (d_insn r) RTLOp_new of
                  Fail e \<Rightarrow> Some (Fail e)
                | Ret (aRTLOp, ok) \<Rightarrow>
                    if \<not> ok then Some (Ret (ops, out, False))
                    else
                      (case x86_format_insn (d_insn r) 1024 intel_syntax of
                         Fail e \<Rightarrow> Some (Fail e)
                       | Ret buf \<Rightarrow>
                           generate_loop options junk raw collData (uIdx + d_size r) (n + 1) (ops @ [aRTLOp])
                             (out @ fmt_x08X (uIdx + d_size r) @ '': '' @ buf @ nl)))))
     else Some (Ret (ops, out, True)))"

definition generateRTL ::
  "u32 \<Rightarrow> u32 \<Rightarrow> (nat \<Rightarrow> x86_insn_t) \<Rightarrow> u8 list \<Rightarrow> (RTLOp list \<times> string \<times> bool) result option" where
  "generateRTL options junk raw collData = generate_loop options junk raw collData 0 0 [] []"

section \<open>The main program\<close>

text \<open>
  The result is the exit status and the standard output. The file is the one at the path that the source names, if it
  can be opened. Nothing sets the options of the disassembler.
\<close>

definition udcompiler_main ::
  "nat \<Rightarrow> u32 \<Rightarrow> u32 \<Rightarrow> (nat \<Rightarrow> x86_insn_t) \<Rightarrow> (nat \<times> u8 list) option \<Rightarrow> (int \<times> string) result option" where
  "udcompiler_main sizeof_vector rawidx junk raw file =
    (case loadFile sizeof_vector file (ElfBinaryLoader_new rawidx) of
       Fail e \<Rightarrow> Some (Fail e)
     | Ret (aLoader, ok) \<Rightarrow>
         if \<not> ok then Some (Ret (-1, []))
         else
           (case getMainCodeSection aLoader of
              Fail e \<Rightarrow> Some (Fail e)
            | Ret None \<Rightarrow> Some (Ret (-2, []))
            | Ret (Some collData) \<Rightarrow>
                if m_enArchType aLoader \<noteq> ARCH_TYPE_X86 then Some (Ret (-3, []))
                else
                  map_option (\<lambda>res. r_map (\<lambda>(ops, out, gen).
                    if \<not> gen then (-4, out)
                    else (case dumpRTL ops of (text1, dumped) \<Rightarrow> (if dumped then 0 else -5, out @ text1))) res)
                  (generateRTL opt_none junk raw collData)))"

section \<open>When the generator returns\<close>

lemma parse_nth_returns: "(present \<Longrightarrow> \<exists>p. operand = Ret p) \<Longrightarrow> \<exists>a ok. parse_nth present operand arg = Ret (a, ok)"
  by (auto simp: parse_nth_def intro: prod.exhaust)

lemma parseInsn_returns:
  assumes "ops_plain insn"
  shows "\<exists>aRTLOp ok. parseInsn insn op = Ret (aRTLOp, ok)"
proof -
  from assms obtain ops where o: "operands insn = Live ops" "explicit_count insn \<le> length ops" by (auto simp: ops_plain_def)
  note acc = operand_accessors [OF o]
  have c: "x86_operand_count insn op_explicit = Ret (explicit_count insn)" by (simp add: x86_operand_count_def op_any_def op_explicit_def)
  have "\<exists>a ok. parse_nth b (x86_operand_1st insn) arg = Ret (a, ok)" "\<exists>a ok. parse_nth b (x86_operand_2nd insn) arg = Ret (a, ok)"
    "\<exists>a ok. parse_nth b (x86_operand_3rd insn) arg = Ret (a, ok)" for b arg
    by (rule parse_nth_returns, simp add: acc)+
  note p = this
  show ?thesis
  proof (cases "op_type_of (insn_type insn)")
    case None
    with c show ?thesis by (auto simp: parseInsn_def)
  next
    case (Some ty)
    let ?op0 = "op\<lparr>m_enOpType := ty\<rparr>" and ?n = "explicit_count insn"
    obtain a1 ok1 where 1: "parse_nth (?n \<ge> 1) (x86_operand_1st insn) (m_aArg1 ?op0) = Ret (a1, ok1)" using p(1) by blast
    let ?op1 = "?op0\<lparr>m_aArg1 := a1\<rparr>"
    obtain a2 ok2 where 2: "parse_nth (?n \<ge> 2) (x86_operand_2nd insn) (m_aArg2 ?op1) = Ret (a2, ok2)" using p(2) by blast
    let ?op2 = "?op1\<lparr>m_aArg2 := a2\<rparr>"
    obtain a3 ok3 where 3: "parse_nth (?n \<ge> 3) (x86_operand_3rd insn) (m_aArg3 ?op2) = Ret (a3, ok3)" using p(3) by blast
    have "parseInsn insn op = (if \<not> ok1 then Ret (?op1, False) else if \<not> ok2 then Ret (?op2, False)
        else Ret (?op2\<lparr>m_aArg3 := a3\<rparr>, ok3))"
      by (simp only: parseInsn_def c Some 1 2 3 r_bind.simps r_map_simps prod.case option.case Let_def)
    then show ?thesis by (auto split: if_splits)
  qed
qed

lemma format_returns: "ops_plain insn \<Longrightarrow> \<exists>buf. x86_format_insn insn 1024 intel_syntax = Ret buf"
  using x86_format_insn_intel [of insn _ 1024] by (auto simp: ops_plain_def)

lemma disasm_size_le:
  "x86_disasm options junk buf buf_len rva off insn = Ret r \<Longrightarrow> unat (d_size r) \<le> 20"
  by (auto simp: x86_disasm_def Let_def result_simps MAX_INSN_SIZE_def split: if_splits)

definition decodable :: "u32 \<Rightarrow> u32 \<Rightarrow> (nat \<Rightarrow> x86_insn_t) \<Rightarrow> u8 list \<Rightarrow> u32 \<Rightarrow> bool" where
  "decodable options junk raw collData uIdx \<longleftrightarrow>
    (\<forall>n. \<exists>r. x86_disasm options junk collData (of_nat (length collData)) 0 uIdx (raw n) = Ret r \<and>
      (d_size r \<noteq> 0 \<or> op_type_of (insn_type (d_insn r)) = None))"

lemma generate_loop_returns:
  assumes "collData \<noteq> []" and "\<forall>uIdx < 52. decodable options junk raw collData uIdx"
  shows "\<exists>ops' out' ok. generate_loop options junk raw collData uIdx n ops out = Some (Ret (ops @ ops', out', ok)) \<and>
    length ops' \<le> 52 - unat uIdx"
proof (induction "52 - unat uIdx" arbitrary: uIdx n ops out rule: less_induct)
  case less
  show ?case
  proof (cases "uIdx < 52")
    case False
    then show ?thesis by (subst generate_loop.simps) auto
  next
    case True
    then have idx: "unat uIdx < 52" by (simp add: word_less_nat_alt)
    from assms(2) True obtain r where r: "x86_disasm options junk collData (of_nat (length collData)) 0 uIdx (raw n) = Ret r"
      "d_size r \<noteq> 0 \<or> op_type_of (insn_type (d_insn r)) = None" unfolding decodable_def by blast
    show ?thesis
    proof (cases "d_size r = 0")
      case zero: True
      with r(2) have "parseInsn (d_insn r) RTLOp_new = Ret (RTLOp_new, False)"
        by (simp add: parseInsn_def x86_operand_count_def op_any_def op_explicit_def)
      with True r(1) assms(1) show ?thesis by (subst generate_loop.simps) auto
    next
      case False
      then have plain: "ops_plain (d_insn r)" using x86_disasm_plain [OF r(1)] by simp
      obtain op ok where p: "parseInsn (d_insn r) RTLOp_new = Ret (op, ok)" using parseInsn_returns [OF plain] by blast
      obtain buf where b: "x86_format_insn (d_insn r) 1024 intel_syntax = Ret buf" using format_returns [OF plain] by blast
      have sz: "unat (uIdx + d_size r) = unat uIdx + unat (d_size r)" "0 < unat (d_size r)"
        using disasm_size_le [OF r(1)] idx False by (simp_all add: unat_word_ariths unat_gt_0)
      then have "52 - unat (uIdx + d_size r) < 52 - unat uIdx" using idx by simp
      from less [OF this, of "n + 1" "ops @ [op]" "out @ fmt_x08X (uIdx + d_size r) @ '': '' @ buf @ nl"] obtain ops' out' ok' where
        l: "generate_loop options junk raw collData (uIdx + d_size r) (n + 1) (ops @ [op]) (out @ fmt_x08X (uIdx + d_size r) @ '': '' @ buf @ nl) =
          Some (Ret ((ops @ [op]) @ ops', out', ok'))" "length ops' \<le> 52 - unat (uIdx + d_size r)" by blast
      have "generate_loop options junk raw collData uIdx n ops out =
          (if \<not> ok then Some (Ret (ops, out, False)) else Some (Ret ((ops @ [op]) @ ops', out', ok')))"
        using True r(1) assms(1) p b l(1) by (subst generate_loop.simps) simp
      then show ?thesis using l(2) sz idx by (cases ok) (auto intro: exI [of _ "op # ops'"] exI [of _ "[]"])
    qed
  qed
qed

text \<open>A function that saves a register, as an example.\<close>

definition row_PUSH :: ia32_insn_t where "row_PUSH = tbl_Main ! 0x50"

lemma row_PUSH_eq: "row_PUSH = opcode 0 INS_PUSH (ADDRMETH_RR OR OPTYPE_v OR OP_R) ARG_NONE ARG_NONE (cpu_80386 OR isa_GP)
    ''push'' 0 0 0 0 0"
  by (simp add: row_PUSH_def tbl_Main_def tbl_Main_00_def tbl_Main_40_def nth_append)

lemma row_PUSH_simps:
  "i_table row_PUSH = 0" "row_prefix row_PUSH = 0" "mnem_flag row_PUSH AND INS_NOTE_SUFFIX = 0" "mnem_flag row_PUSH \<noteq> INS_INVALID"
  "INS_TYPE (mnem_flag row_PUSH AND NOT INS_NOTE_MASK) = insn_push" "implicit_ops row_PUSH = 0"
  "dest_flag row_PUSH AND ADDRMETH_MASK = ADDRMETH_RR" "dest_flag row_PUSH AND OPTYPE_MASK = OPTYPE_v" "dest_flag row_PUSH \<noteq> ARG_NONE"
  "src_flag row_PUSH = ARG_NONE" "aux_flag row_PUSH = ARG_NONE" "i_dest row_PUSH = 0"
  by (simp_all add: row_PUSH_eq row_prefix_def opcode_def INS_PUSH_def INS_STACK_def INS_NOTE_SUFFIX_def INS_NOTE_PREFIX_def
      INS_INVALID_def INS_TYPE_def INS_TYPE_MASK_def INS_NOTE_MASK_def insn_push_def INS_GROUP_MASK_def ADDRMETH_MASK_def
      ADDRMETH_RR_def OPTYPE_MASK_def OPTYPE_v_def OP_R_def ARG_NONE_def)

definition push_op :: x86_op_t where
  "push_op = hard_reg (zero_op\<lparr>op_access := 0, op_flags := 0, op_datatype := op_dword\<rparr>) 1"

definition push_insn :: x86_insn_t where
  "push_insn = (fresh_insn 0 row_PUSH)\<lparr>operand_count := 1, explicit_count := 1, operands := Live [push_op]\<rparr>"

lemma push_operand:
  "decode_operands buf len row_PUSH (fresh_insn 0 row_PUSH) 0 m = Ret (0, push_insn)"
proof -
  have v: "decode_operand_value buf len op insn ADDRMETH_RR 4 0 m REG_DWORD_OFFSET = Ret (0, hard_reg op 1)" for op insn
    by (simp add: decode_operand_value_def ADDRMETH_A_def ADDRMETH_C_def ADDRMETH_D_def ADDRMETH_E_def ADDRMETH_F_def ADDRMETH_G_def
        ADDRMETH_I_def ADDRMETH_J_def ADDRMETH_M_def ADDRMETH_O_def ADDRMETH_P_def ADDRMETH_Q_def ADDRMETH_R_def ADDRMETH_S_def
        ADDRMETH_T_def ADDRMETH_V_def ADDRMETH_W_def ADDRMETH_X_def ADDRMETH_Y_def ADDRMETH_RR_def REG_DWORD_OFFSET_def)
  have sz: "decode_operand_size OPTYPE_v (fresh_insn 0 row_PUSH) = (4, op_dword)"
    by (simp add: decode_operand_size_def OPTYPE_v_def OPTYPE_c_def OPTYPE_a_def)
  have pm: "OP_PERM OPTYPE_v = 0" "OP_FLAGS OPTYPE_v = 0"
    by (simp_all add: OP_PERM_def OP_FLAGS_def OPTYPE_v_def OP_PERM_MASK_def OP_FLAG_MASK_def)
  have reg: "op_type push_op = op_register" by (simp add: push_op_def hard_reg_def add_flags_def Let_def)
  have "ia32_decode_operand buf len (fresh_insn 0 row_PUSH) (i_dest row_PUSH) (dest_flag row_PUSH) 0 m = Ret (0, push_insn)"
    using reg by (simp add: ia32_decode_operand_def row_PUSH_simps sz pm v Let_def x86_oplist_append_def push_insn_def push_op_def)
  then show ?thesis by (simp add: decode_operands_def row_PUSH_simps) (simp add: ia32_decode_operand_def)
qed

lemma x86_disasm_push:
  assumes "drop (unat off) buf = 0x50 # bs" and "off < len" and "unat len < 2 ^ 31" and "len - off - 1 \<noteq> 0 \<Longrightarrow> bs \<noteq> []"
  shows "\<exists>r. x86_disasm 0 junk buf len rva off insn = Ret r \<and> d_size r = 1 \<and> insn_type (d_insn r) = insn_push \<and>
    operands (d_insn r) = Live [push_op] \<and> explicit_count (d_insn r) = 1"
proof -
  have d: "unat (len - off) = unat len - unat off" "unat off < unat len"
    using assms(2) by (simp_all add: unat_sub order_less_imp_le word_less_nat_alt)
  then have nz: "len - off \<noteq> 0" by auto
  have "\<exists>m. GET_BYTE bs (len - off - 1) = Ret m"
    using assms(4) by (cases "len - off - 1 = 0") (auto simp: GET_BYTE_def byte_at_def)
  then obtain m where "GET_BYTE bs (len - off - 1) = Ret m" ..
  then have "ia32_decode_insn 0 bs (len - off - 1) row_PUSH zero_insn 0 = Ret (0, push_insn)"
    using decode_insn_fresh [OF row_PUSH_simps(4) _ push_operand, of bs "len - off - 1" m push_insn]
    by (simp add: row_PUSH_simps ia32_insn_implicit_ops_def) (simp add: push_insn_def)
  then have "ia32_disasm_addr 0 junk (0x50 # bs) (len - off) = Ret (1 + 0, push_insn)"
    using nz by (intro disasm_addr_opcode [of _ row_PUSH]) (simp_all add: row_PUSH_simps, simp add: row_PUSH_def)
  note disasm = this
  have "unat (len - off) < 2 ^ 31" using d assms(3) by simp
  moreover have "0 < unat (len - off)" using d by simp
  ultimately have "\<not> sint (len - off) < 1" using sint_small [of "len - off"] by linarith
  then show ?thesis
    using disasm assms(1,2) by (auto simp: x86_disasm_def Let_def MAX_INSN_SIZE_def push_insn_def row_PUSH_simps)
qed

text \<open>
  C28. \<open>generateRTL\<close> returns, with at most 52 operations, when every decoding before byte 52 reads an instruction or finds one that
  it does not translate.
\<close>

theorem generateRTL_returns:
  assumes "collData \<noteq> []" and "\<forall>uIdx < 52. decodable options junk raw collData uIdx"
  shows "\<exists>ops out ok. generateRTL options junk raw collData = Some (Ret (ops, out, ok)) \<and> length ops \<le> 52"
  using generate_loop_returns [OF assms, of 0 0 "[]" "[]"] by (auto simp: generateRTL_def)

theorem generateRTL_returns_witness:
  "\<exists>ops out ok. generateRTL 0 0 (\<lambda>n. zero_insn) (replicate 52 0x50) = Some (Ret (ops, out, ok)) \<and> length ops \<le> 52"
proof (rule generateRTL_returns)
  show "\<forall>uIdx < 52. decodable 0 0 (\<lambda>n. zero_insn) (replicate 52 0x50) uIdx"
  proof (intro allI impI)
    fix uIdx :: u32
    assume "uIdx < 52"
    then have idx: "unat uIdx < 52" by (simp add: word_less_nat_alt)
    then have "52 - unat uIdx = Suc (51 - unat uIdx)" by simp
    then have "drop (unat uIdx) (replicate 52 (0x50 :: u8)) = 0x50 # replicate (51 - unat uIdx) 0x50" by simp
    moreover have "52 - uIdx - 1 \<noteq> 0 \<Longrightarrow> replicate (51 - unat uIdx) (0x50 :: u8) \<noteq> []"
    proof -
      assume "52 - uIdx - 1 \<noteq> 0"
      then have "uIdx \<noteq> 51" by auto
      then have "unat uIdx \<noteq> unat (51 :: u32)" by (simp only: word_unat_eq_iff not_False_eq_True)
      with idx show ?thesis by simp
    qed
    ultimately show "decodable 0 0 (\<lambda>n. zero_insn) (replicate 52 0x50) uIdx"
      unfolding decodable_def using \<open>uIdx < 52\<close> x86_disasm_push [of uIdx "replicate 52 0x50" _ 52] by fastforce
  qed
qed simp

text \<open>One turn of the loop in a section of less than 52 bytes: the next one starts inside of it or at its end.\<close>

definition translated :: "x86_insn_t \<Rightarrow> bool" where
  "translated insn \<longleftrightarrow> (\<exists>op buf. parseInsn insn RTLOp_new = Ret (op, True) \<and> x86_format_insn insn 1024 intel_syntax = Ret buf)"

lemma short_turn:
  assumes "length collData < 52" and "translated (raw n)" and "unat uIdx \<le> length collData"
    and "unat uIdx < length collData \<Longrightarrow>
      \<exists>r. x86_disasm options junk collData (of_nat (length collData)) 0 uIdx (raw n) = Ret r \<and> d_size r \<noteq> 0 \<and> translated (d_insn r)"
  shows "\<exists>r. x86_disasm options junk collData (of_nat (length collData)) 0 uIdx (raw n) = Ret r \<and> translated (d_insn r) \<and>
    unat (uIdx + d_size r) \<le> length collData \<and> (unat uIdx = length collData \<longrightarrow> d_size r = 0)"
proof (cases "unat uIdx < length collData")
  case True
  with assms(4) obtain r where r: "x86_disasm options junk collData (of_nat (length collData)) 0 uIdx (raw n) = Ret r" "d_size r \<noteq> 0"
    "translated (d_insn r)" by blast
  have "unat uIdx + unat (d_size r) \<le> length collData"
    using x86_disasm_fits [of options junk collData "length collData" 0 "unat uIdx" "raw n" r] r(1,2) assms(1) True by simp
  then have "unat (uIdx + d_size r) \<le> length collData" using assms(1) by (simp add: unat_word_ariths)
  with r True show ?thesis by auto
next
  case False
  have "unat (of_nat (length collData) :: u32) = length collData" using assms(1) by (simp add: unat_of_nat take_bit_nat_eq_self)
  then have "uIdx \<ge> of_nat (length collData)" using False by (simp add: word_le_nat_alt)
  then show ?thesis using assms(2,3) by (auto simp: x86_disasm_def Let_def)
qed

text \<open>
  The turns of the loop inside of a section: the turn \<open>n\<close> begins at byte \<open>uIdx\<close>. The first one begins at 0, and each one where
  the instruction of the turn before ends.
\<close>

inductive insn_start :: "u32 \<Rightarrow> u32 \<Rightarrow> (nat \<Rightarrow> x86_insn_t) \<Rightarrow> u8 list \<Rightarrow> u32 \<Rightarrow> nat \<Rightarrow> bool"
  for options junk raw collData where
  first: "insn_start options junk raw collData 0 0"
| follow: "insn_start options junk raw collData uIdx n \<Longrightarrow> unat uIdx < length collData \<Longrightarrow>
    x86_disasm options junk collData (of_nat (length collData)) 0 uIdx (raw n) = Ret r \<Longrightarrow>
    insn_start options junk raw collData (uIdx + d_size r) (n + 1)"

text \<open>
  C29. \<open>generateRTL\<close> does not return on a section of at least one and less than 52 bytes whose instructions, read one after
  the other from its start, are all decoded and translated: it goes on at the end of the section, where \<open>x86_disasm\<close> reads
  nothing and leaves the structure as it was. The structure is a local variable of the turn and not initialised; the
  theorem is for contents that are translated, as the instruction of the turn before is. The number 52 is written into the
  source.
\<close>

theorem generateRTL_diverges:
  assumes "collData \<noteq> []" and "length collData < 52" and "\<forall>n. translated (raw n)"
    and "\<forall>uIdx n. insn_start options junk raw collData uIdx n \<and> unat uIdx < length collData \<longrightarrow>
      (\<exists>r. x86_disasm options junk collData (of_nat (length collData)) 0 uIdx (raw n) = Ret r \<and> d_size r \<noteq> 0 \<and> translated (d_insn r))"
  shows "generateRTL options junk raw collData = None"
proof (rule ccontr)
  let ?on = "\<lambda>uIdx n. unat uIdx \<le> length collData \<and> (unat uIdx < length collData \<longrightarrow> insn_start options junk raw collData uIdx n)"
  assume "generateRTL options junk raw collData \<noteq> None"
  then obtain y where y: "generate_loop options junk raw collData 0 0 [] [] = Some y" by (auto simp: generateRTL_def)
  have "\<not> (options = options \<and> junk = junk \<and> raw = raw \<and> collData = collData \<and> ?on 0 0)"
  proof (rule generate_loop.raw_induct [OF _ y, where P = "\<lambda>opts j rw coll uIdx n ops out y.
      \<not> (opts = options \<and> j = junk \<and> rw = raw \<and> coll = collData \<and> ?on uIdx n)"], goal_cases)
    case (1 f opts j rw coll uIdx n ops out y)
    show ?case
    proof
      assume h: "opts = options \<and> j = junk \<and> rw = raw \<and> coll = collData \<and> ?on uIdx n"
      from short_turn [OF assms(2), of raw n uIdx options junk] assms(3,4) h obtain r where
        r: "x86_disasm options junk collData (of_nat (length collData)) 0 uIdx (raw n) = Ret r" "translated (d_insn r)"
          "unat (uIdx + d_size r) \<le> length collData" "unat uIdx = length collData \<Longrightarrow> d_size r = 0" by blast
      have on: "?on (uIdx + d_size r) (n + 1)"
        using h r insn_start.follow [of options junk raw collData uIdx n r] by (cases "unat uIdx = length collData") auto
      from r(2) obtain op buf where t: "parseInsn (d_insn r) RTLOp_new = Ret (op, True)"
        "x86_format_insn (d_insn r) 1024 intel_syntax = Ret buf" unfolding translated_def by blast
      have "uIdx < 52" using h assms(2) by (simp add: word_less_nat_alt)
      with 1(2) h r(1) t assms(1) have
        "f options junk raw collData (uIdx + d_size r) (n + 1) (ops @ [op]) (out @ fmt_x08X (uIdx + d_size r) @ '': '' @ buf @ nl) = Some y"
        by simp
      from 1(1) [OF this] on show False by simp
    qed
  qed
  then show False by (simp add: insn_start.first)
qed

text \<open>An instruction of a translated kind whose operands are all translated.\<close>

lemma translatedI:
  assumes "op_type_of (insn_type insn) \<noteq> None" and "operands insn = Live ops" and "explicit_count insn = length ops"
    and "length ops \<le> 2" and "\<forall>op \<in> set ops. \<forall>a. snd (parseArgument (Some op) a)"
  shows "translated insn"
proof -
  obtain ty where ty: "op_type_of (insn_type insn) = Some ty" using assms(1) by blast
  have n: "x86_operand_count insn op_explicit = Ret (length ops)"
    using assms(2,3) by (simp add: x86_operand_count_def op_any_def op_explicit_def)
  have nth: "x86_operand_1st insn = Ret (if 0 < length ops then Some (ops ! 0) else None)"
      "x86_operand_2nd insn = Ret (if 1 < length ops then Some (ops ! 1) else None)"
    using operand_accessors [OF assms(2)] assms(3) by simp_all
  have arg: "\<exists>a'. parseArgument (Some op) a = (a', True)" if "op \<in> set ops" for op a
    using assms(5) that by (metis (full_types) prod.collapse)
  consider "ops = []" | x where "ops = [x]" | x y where "ops = [x, y]"
    using assms(4) by (cases ops; cases "tl ops"; cases "tl (tl ops)") auto
  then have "\<exists>op. parseInsn insn RTLOp_new = Ret (op, True)"
  proof cases
    case 1
    then show ?thesis by (simp add: parseInsn_def n ty parse_nth_def)
  next
    case (2 x)
    with arg [of x "m_aArg1 (RTLOp_new\<lparr>m_enOpType := ty\<rparr>)"] show ?thesis
      by (auto simp: parseInsn_def n ty nth parse_nth_def)
  next
    case (3 x y)
    obtain a where a: "parseArgument (Some x) (m_aArg1 (RTLOp_new\<lparr>m_enOpType := ty\<rparr>)) = (a, True)" using arg 3 by auto
    obtain b where "parseArgument (Some y) (m_aArg2 (RTLOp_new\<lparr>m_enOpType := ty, m_aArg1 := a\<rparr>)) = (b, True)" using arg 3 by auto
    with a 3 show ?thesis by (simp add: parseInsn_def n ty nth parse_nth_def)
  qed
  moreover have "\<exists>buf. x86_format_insn insn 1024 intel_syntax = Ret buf"
    using x86_format_insn_intel [OF assms(2), of 1024] assms(3) by simp
  ultimately show ?thesis by (auto simp: translated_def)
qed

lemma push_translated:
  assumes "insn_type insn = insn_push" and "operands insn = Live [push_op]" and "explicit_count insn = 1"
  shows "translated insn"
proof (rule translatedI [OF _ assms(2)])
  have "op_type push_op = op_register \<and> reg_name (data_reg push_op) = ''eax''" by code_simp
  then show "\<forall>op \<in> set [push_op]. \<forall>a. snd (parseArgument (Some op) a)" by (simp add: parseArgument_def Let_def)
  have "op_type_of insn_push \<noteq> None" by code_simp
  then show "op_type_of (insn_type insn) \<noteq> None" using assms(1) by simp
qed (simp_all add: assms(3))

text \<open>The section \<open>mov eax, [esi+4]; ret\<close> of two instructions and four bytes.\<close>

definition demo_section :: "u8 list" where
  "demo_section = [0x8B, 0x46, 4, 0xC3]"

definition arg_ok :: "x86_op_t \<Rightarrow> bool" where
  "arg_ok op \<longleftrightarrow> op_type op = op_expression \<or> op_type op = op_register \<and> reg_name (data_reg op) = ''eax''"

lemma arg_ok_parsed: "arg_ok op \<Longrightarrow> snd (parseArgument (Some op) a)"
  by (auto simp: arg_ok_def parseArgument_def Let_def)

definition insn_ok :: "x86_insn_t \<Rightarrow> bool" where
  "insn_ok i \<longleftrightarrow> op_type_of (insn_type i) \<noteq> None \<and>
    (case operands i of Live ops \<Rightarrow> explicit_count i = length ops \<and> length ops \<le> 2 \<and> list_all arg_ok ops | _ \<Rightarrow> False)"

lemma insn_ok_translated:
  assumes "insn_ok i" and "insn_type j = insn_type i" "operands j = operands i" "explicit_count j = explicit_count i"
  shows "translated j"
proof -
  obtain ops where "operands i = Live ops" using assms(1) by (auto simp: insn_ok_def split: x86_oplist.splits)
  with assms show ?thesis by (intro translatedI [of j ops]) (auto simp: insn_ok_def list_all_iff intro: arg_ok_parsed)
qed

text \<open>The row of the main table and what it decodes to, checked by evaluation.\<close>

definition decodes_to :: "ia32_insn_t \<Rightarrow> u8 list \<Rightarrow> u32 \<Rightarrow> u32 \<Rightarrow> bool" where
  "decodes_to ri bs len k \<longleftrightarrow> i_table ri = 0 \<and> row_prefix ri = 0 \<and> mnem_flag ri AND INS_NOTE_SUFFIX = 0 \<and>
    (case ia32_decode_insn 0 bs len ri zero_insn 0 of Ret (n, i) \<Rightarrow> n = k \<and> insn_ok i | _ \<Rightarrow> False)"

lemma decodes_to_addr:
  assumes "decodes_to ri bs (len - 1) k" and "tbl_Main ! unat b = ri" and "b \<noteq> 0" and "len \<noteq> 0"
  shows "\<exists>i. ia32_disasm_addr 0 junk (b # bs) len = Ret (1 + k, i) \<and> insn_ok i"
proof -
  obtain i where "ia32_decode_insn 0 bs (len - 1) ri zero_insn 0 = Ret (k, i)" "insn_ok i"
    using assms(1) by (auto simp: decodes_to_def split: result.splits prod.splits)
  with assms show ?thesis by (intro exI [of _ i] conjI disasm_addr_opcode [of b ri]) (auto simp: decodes_to_def)
qed

lemma section_turns:
  "\<exists>r. x86_disasm 0 0 demo_section 4 0 0 insn = Ret r \<and> d_size r = 3 \<and> translated (d_insn r)"
  "\<exists>r. x86_disasm 0 0 demo_section 4 0 3 insn = Ret r \<and> d_size r = 1 \<and> translated (d_insn r)"
proof -
  let ?mov = "opcode 0 INS_MOV (ADDRMETH_G OR OPTYPE_v OR OP_W) (ADDRMETH_E OR OPTYPE_v OR OP_R) ARG_NONE (cpu_80386 OR isa_GP) ''mov'' 0 0 0 0 0"
  let ?ret = "opcode 0 INS_RET ARG_NONE ARG_NONE ARG_NONE (cpu_80386 OR isa_GP) ''ret'' 0 0 0 0 0"
  have rows: "tbl_Main ! 0x8B = ?mov" "tbl_Main ! 0xC3 = ?ret"
    by (simp_all add: tbl_Main_def tbl_Main_00_def tbl_Main_40_def tbl_Main_80_def tbl_Main_C0_def nth_append)
  have "decodes_to ?mov [0x46, 4, 0xC3] 3 2" by code_simp
  then obtain i where "ia32_disasm_addr 0 0 demo_section 4 = Ret (3, i)" "insn_ok i"
    using decodes_to_addr [of ?mov "[0x46, 4, 0xC3]" 4 2 "0x8B" 0] rows(1) by (auto simp: demo_section_def)
  then show "\<exists>r. x86_disasm 0 0 demo_section 4 0 0 insn = Ret r \<and> d_size r = 3 \<and> translated (d_insn r)"
    by (auto simp: x86_disasm_def Let_def MAX_INSN_SIZE_def demo_section_def intro: insn_ok_translated)
  have "decodes_to ?ret [] 0 0" by code_simp
  then obtain i where "ia32_disasm_addr 0 0 [0xC3] 1 = Ret (1, i)" "insn_ok i"
    using decodes_to_addr [of ?ret "[]" 1 0 "0xC3" 0] rows(2) by auto
  then show "\<exists>r. x86_disasm 0 0 demo_section 4 0 3 insn = Ret r \<and> d_size r = 1 \<and> translated (d_insn r)"
    by (auto simp: x86_disasm_def Let_def MAX_INSN_SIZE_def demo_section_def intro: insn_ok_translated)
qed

theorem generateRTL_diverges_witness: "generateRTL 0 0 (\<lambda>n. push_insn) demo_section = None"
proof (rule generateRTL_diverges)
  show "\<forall>n. translated push_insn" using push_translated [of push_insn] by (simp add: push_insn_def row_PUSH_simps)
  have n: "length demo_section = 4" by (simp add: demo_section_def)
  have start: "uIdx = 0 \<or> uIdx = 3 \<or> uIdx = 4" if "insn_start 0 0 (\<lambda>n. push_insn) demo_section uIdx n" for uIdx n
    using that
  proof induction
    case (follow uIdx n r)
    then show ?case using section_turns [of push_insn] by (auto simp: n)
  qed simp
  show "\<forall>uIdx n. insn_start 0 0 (\<lambda>n. push_insn) demo_section uIdx n \<and> unat uIdx < length demo_section \<longrightarrow>
    (\<exists>r. x86_disasm 0 0 demo_section (of_nat (length demo_section)) 0 uIdx push_insn = Ret r \<and> d_size r \<noteq> 0 \<and> translated (d_insn r))"
    using start section_turns [of push_insn] by (fastforce simp: n)
qed (simp_all add: demo_section_def)

end
