(* ===== verification/X86Print.thy ===== *)
theory X86Print
  imports X86Facts X86Format
begin

text \<open>
  Disassembling and printing: what the user of libdisasm sees of an instruction.
\<close>

section \<open>Every instruction can be printed\<close>

text \<open>
  C27. Whatever \<open>x86_disasm\<close> returns, the Intel format prints it: \<open>x86_format_insn\<close> stays inside of the array it is given and
  leaves there the prefixes, the mnemonic and up to three explicit operands, each cut off after 31 characters, and
  all of it cut off at the end of the array.
\<close>

theorem disassembled_intel:
  assumes "x86_disasm options junk buf buf_len rva off insn = Ret r" and "d_size r \<noteq> 0" and "0 < len"
  shows "\<exists>ops. operands (d_insn r) = Live ops \<and>
    x86_format_insn (d_insn r) len intel_syntax =
      Ret (take (len - 1) (intel_text (d_insn r) (take 3 (take (explicit_count (d_insn r)) ops))))"
  using x86_disasm_plain [OF assms(1,2)] x86_format_insn_intel [OF _ _ assms(3)] unfolding ops_plain_def by blast

theorem disassembled_intel_witness:
  "\<exists>r ops. x86_disasm 0 0 [0xEB, 0xFE] 2 0 0 zero_insn = Ret r \<and> d_size r \<noteq> 0 \<and> operands (d_insn r) = Live ops \<and>
    x86_format_insn (d_insn r) 1024 intel_syntax =
      Ret (take (1024 - 1) (intel_text (d_insn r) (take 3 (take (explicit_count (d_insn r)) ops))))"
proof -
  obtain r where r: "x86_disasm 0 0 [0xEB, 0xFE] 2 0 0 zero_insn = Ret r" "d_size r \<noteq> 0"
    using x86_disasm_jmp [of 2 0 0 "0xFE" "[]" 0 zero_insn] by simp
  with disassembled_intel [OF r, of 1024] show ?thesis by auto
qed

section \<open>A load with a displacement of one byte\<close>

lemmas meth_defs = ADDRMETH_MASK_def ADDRMETH_A_def ADDRMETH_C_def ADDRMETH_D_def ADDRMETH_E_def ADDRMETH_F_def ADDRMETH_G_def
  ADDRMETH_I_def ADDRMETH_J_def ADDRMETH_M_def ADDRMETH_O_def ADDRMETH_P_def ADDRMETH_Q_def ADDRMETH_R_def ADDRMETH_S_def
  ADDRMETH_T_def ADDRMETH_V_def ADDRMETH_W_def

definition gen_reg :: "nat \<Rightarrow> x86_reg_t" where
  "gen_reg k = ia32_handle_register zero_reg (k + 1)"

definition load_modrm :: "nat \<Rightarrow> nat \<Rightarrow> u8" where
  "load_modrm r b = of_nat (64 + 8 * r + b)"

lemma load_modrm_fields:
  assumes "r < 8" and "b < 8"
  shows "byte_decode (load_modrm r b) = \<lparr>mr_mod = 1, mr_reg = r, mr_rm = b\<rparr>"
proof -
  have "list_all (\<lambda>r. list_all (\<lambda>b. byte_decode (load_modrm r b) = \<lparr>mr_mod = 1, mr_reg = r, mr_rm = b\<rparr>) [0..<8]) [0..<8]"
    by code_simp
  with assms show ?thesis by (simp add: list_all_iff)
qed

definition row_MOV :: ia32_insn_t where "row_MOV = tbl_Main ! 0x8B"

lemma row_MOV_eq: "row_MOV = opcode 0 INS_MOV (ADDRMETH_G OR OPTYPE_v OR OP_W) (ADDRMETH_E OR OPTYPE_v OR OP_R) ARG_NONE
    (cpu_80386 OR isa_GP) ''mov'' 0 0 0 0 0"
  by (simp add: row_MOV_def tbl_Main_def tbl_Main_00_def tbl_Main_40_def tbl_Main_80_def nth_append)

lemma row_MOV_simps:
  "i_table row_MOV = 0" "row_prefix row_MOV = 0" "mnem_flag row_MOV AND INS_NOTE_SUFFIX = 0" "mnem_flag row_MOV \<noteq> INS_INVALID"
  "implicit_ops row_MOV = 0" "i_mnemonic row_MOV = ''mov''"
  by (simp_all add: row_MOV_eq row_prefix_def opcode_def INS_MOV_def INS_LOAD_def INS_NOTE_SUFFIX_def INS_NOTE_PREFIX_def INS_INVALID_def)

lemma row_MOV_flags:
  "dest_flag row_MOV AND ADDRMETH_MASK = ADDRMETH_G" "dest_flag row_MOV AND OPTYPE_MASK = OPTYPE_v" "dest_flag row_MOV \<noteq> ARG_NONE"
  "src_flag row_MOV AND ADDRMETH_MASK = ADDRMETH_E" "src_flag row_MOV AND OPTYPE_MASK = OPTYPE_v" "src_flag row_MOV \<noteq> ARG_NONE"
  "aux_flag row_MOV = ARG_NONE"
  by (simp_all add: row_MOV_eq opcode_def ARG_NONE_def meth_defs OPTYPE_MASK_def OPTYPE_v_def OP_W_def OP_R_def)

text \<open>The two operands.\<close>

definition load_dest :: "nat \<Rightarrow> x86_op_t" where
  "load_dest r = zero_op\<lparr>op_datatype := op_dword, op_type := op_register, data_reg := gen_reg r\<rparr>"

definition load_src :: "nat \<Rightarrow> u8 \<Rightarrow> x86_op_t" where
  "load_src b d = zero_op\<lparr>op_datatype := op_dword, op_type := op_expression, op_flags := op_pointer,
    data_expression := (data_expression zero_op)\<lparr>ea_base := gen_reg b, ea_disp := ucast d, ea_disp_size := 1\<rparr>\<rparr>"

lemma operand_v:
  "insn_op_size insn = 4 \<Longrightarrow> decode_operand_size OPTYPE_v insn = (4, op_dword)"
  "OP_PERM OPTYPE_v = 0" "OP_FLAGS OPTYPE_v = 0"
  by (simp_all add: decode_operand_size_def OPTYPE_v_def OPTYPE_c_def OPTYPE_a_def OP_PERM_def OP_FLAGS_def OP_PERM_MASK_def
      OP_FLAG_MASK_def)

lemma load_dest_decoded:
  assumes "insn_op_size insn = 4" and "r < 8" and "b < 8"
  shows "ia32_decode_operand buf len insn v (dest_flag row_MOV) 0 (load_modrm r b) = r_map (Pair 0) (x86_oplist_append insn (load_dest r))"
proof -
  have v: "decode_operand_value buf len op insn ADDRMETH_G sz w m g = Ret (0, ia32_reg_decode m op g)" for op sz w m g
    by (simp add: decode_operand_value_def meth_defs)
  have "ia32_reg_decode (load_modrm r b) (zero_op\<lparr>op_access := 0, op_flags := 0, op_datatype := op_dword\<rparr>) REG_DWORD_OFFSET = load_dest r"
    using load_modrm_fields [OF assms(2,3)]
    by (simp add: ia32_reg_decode_def REG_DWORD_OFFSET_def load_dest_def gen_reg_def) (simp add: zero_op_def)
  moreover have "op_type (load_dest r) = op_register" by (simp add: load_dest_def)
  ultimately show ?thesis
    by (simp add: ia32_decode_operand_def row_MOV_flags operand_v assms(1) v Let_def)
qed

lemma ucast_byte: "sint (ucast (d :: u8) :: u32) = uint d" "ucast (ucast d :: 64 word) = (ucast d :: u32)"
proof -
  have "unat (ucast d :: u32) = unat d" using unat_byte [of d] by (simp add: unsigned_ucast_eq take_bit_nat_eq_self)
  moreover have "unat d < 2 ^ 31" using unat_byte [of d] by simp
  ultimately show "sint (ucast d :: u32) = uint d" using sint_small [of "ucast d"] by simp
  show "ucast (ucast d :: 64 word) = (ucast d :: u32)"
    by (rule bit_word_eqI) (auto simp: bit_simps)
qed

lemma imm_disp_byte:
  assumes "ea_disp ea = 0" and "ea_disp_sign ea = 0"
  shows "imm_disp [d] 1 ea 1 = Ret (ea\<lparr>ea_disp := ucast d, ea_disp_size := 1\<rparr>)"
  using assms by (simp add: imm_disp_def x86_imm_signsized_def x86_imm_sized_def byte_at_def store_low_zero ucast_byte Let_def)

lemma load_modrm_decoded:
  assumes "addr_size insn = 4" and "r < 8" and "b < 8" and "b \<noteq> 4"
  shows "ia32_modrm_decode [load_modrm r b, d] 2 (zero_op\<lparr>op_access := 0, op_flags := 0, op_datatype := op_dword\<rparr>) insn g =
    Ret (2, load_src b d)"
proof -
  have "modrm_ea32 [d] 1 \<lparr>mr_mod = 1, mr_reg = r, mr_rm = b\<rparr> 4 (data_expression zero_op) =
      Ret (1, (data_expression zero_op)\<lparr>ea_base := gen_reg b, ea_disp := ucast d, ea_disp_size := 1\<rparr>)"
    using assms(4) imm_disp_byte [of "set_base (b + 1) (data_expression zero_op)" d]
    by (simp add: modrm_ea32_def MODRM_MOD_NODISP_def MODRM_RM_SIB_def MODRM_MOD_DISP8_def set_base_def gen_reg_def zero_op_def)
  then show ?thesis
    using load_modrm_fields [OF assms(2,3)] assms(1)
    by (simp add: ia32_modrm_decode_def byte_at_def MODRM_MOD_NOEA_def add_flags_def load_src_def Let_def)
      (simp add: zero_op_def)
qed

lemma load_src_decoded:
  assumes "insn_op_size insn = 4" and "addr_size insn = 4" and "r < 8" and "b < 8" and "b \<noteq> 4"
  shows "ia32_decode_operand [load_modrm r b, d] 2 insn v (src_flag row_MOV) 0 (load_modrm r b) =
    r_map (Pair 2) (x86_oplist_append insn (load_src b d))"
  using load_modrm_decoded [OF assms(2-5)]
  by (simp add: ia32_decode_operand_def row_MOV_flags operand_v assms(1) Let_def decode_operand_value_def load_src_def apply_seg_def)

text \<open>The instruction.\<close>

definition load_insn :: "nat \<Rightarrow> nat \<Rightarrow> u8 \<Rightarrow> x86_insn_t" where
  "load_insn r b d = (fresh_insn 0 row_MOV)\<lparr>operand_count := 2, explicit_count := 2, operands := Live [load_dest r, load_src b d]\<rparr>"

lemma load_insn_simps:
  "insn_op_size (fresh_insn 0 row_MOV) = 4" "addr_size (fresh_insn 0 row_MOV) = 4"
  "mnemonic (load_insn r b d) = ''mov''" "prefix_string (load_insn r b d) = []"
  by (simp_all add: load_insn_def) (simp_all add: fresh_insn_def ia32_handle_cpu_def ia32_handle_eflags_def ia32_handle_mnemtype_def
      ia32_handle_prefix_def set_sizes_def insn_no_prefix_def zero_insn_def row_MOV_simps Let_def)

lemma load_operands:
  assumes "r < 8" and "b < 8" and "b \<noteq> 4"
  shows "decode_operands [load_modrm r b, d] 2 row_MOV (fresh_insn 0 row_MOV) 0 (load_modrm r b) = Ret (2, load_insn r b d)"
proof -
  let ?i = "(fresh_insn 0 row_MOV)\<lparr>operand_count := 1, explicit_count := 1, operands := Live [load_dest r]\<rparr>"
  have "ia32_decode_operand [load_modrm r b, d] 2 (fresh_insn 0 row_MOV) (i_dest row_MOV) (dest_flag row_MOV) 0 (load_modrm r b) = Ret (0, ?i)"
    using load_dest_decoded [OF load_insn_simps(1) assms(1,2)] by (simp add: x86_oplist_append_def)
  moreover have "ia32_decode_operand [load_modrm r b, d] 2 ?i (i_src row_MOV) (src_flag row_MOV) 0 (load_modrm r b) =
      Ret (2, load_insn r b d)"
    using load_src_decoded [OF _ _ assms, of ?i] load_insn_simps(1,2) by (simp add: x86_oplist_append_def load_insn_def)
  ultimately show ?thesis
    by (simp add: decode_operands_def row_MOV_flags) (simp add: ia32_decode_operand_def)
qed

lemma x86_disasm_load:
  assumes "r < 8" and "b < 8" and "b \<noteq> 4"
  shows "x86_disasm 0 junk [0x8B, load_modrm r b, d] 3 rva 0 insn = Ret \<lparr>d_size = 3,
    d_insn = (load_insn r b d)\<lparr>addr := rva, offset := 0, insn_size := 3,
      insn_bytes := [0x8B, load_modrm r b, d] @ drop 3 (insn_bytes (load_insn r b d))\<rparr>, d_report = None\<rparr>"
proof -
  have "insn_op_size (load_insn r b d) \<noteq> 2" using load_insn_simps(1) by (simp add: load_insn_def)
  moreover have "ia32_insn_implicit_ops (load_insn r b d) (implicit_ops row_MOV) = Ret (load_insn r b d)"
    by (simp add: row_MOV_simps ia32_insn_implicit_ops_def)
  ultimately have "ia32_decode_insn 0 [load_modrm r b, d] 2 row_MOV zero_insn 0 = Ret (2, load_insn r b d)"
    using decode_insn_fresh [OF row_MOV_simps(4) _ load_operands [OF assms]]
    by (simp add: GET_BYTE_def byte_at_def)
  then have "ia32_disasm_addr 0 junk [0x8B, load_modrm r b, d] 3 = Ret (1 + 2, load_insn r b d)"
    by (intro disasm_addr_opcode [of _ row_MOV]) (simp_all add: row_MOV_simps, simp add: row_MOV_def)
  then show ?thesis by (simp add: x86_disasm_def Let_def MAX_INSN_SIZE_def)
qed

lemma gen_reg_name: "k < 8 \<Longrightarrow> reg_name (gen_reg k) \<noteq> [] \<and> length (reg_name (gen_reg k)) < 8"
  using all_alias_ok by (simp add: list_all_iff alias_ok_def gen_reg_def Let_def MAX_REGNAME_def)

lemma load_texts:
  assumes "r < 8" and "b < 8"
  shows "take (MAX_OP_STRING - 1) (operand_text (load_dest r) insn) = reg_name (gen_reg r)"
    "take (MAX_OP_STRING - 1) (operand_text (load_src b d) insn) = ''['' @ reg_name (gen_reg b) @ ''+'' @ fmt_d (uint d) @ '']''"
proof -
  show "take (MAX_OP_STRING - 1) (operand_text (load_dest r) insn) = reg_name (gen_reg r)"
    using gen_reg_name [OF assms(1)] by (simp add: operand_text_def load_dest_def MAX_OP_STRING_def)
  have "length (digits 10 (unat d)) \<le> 3" using unat_byte [of d] by (intro length_digits) simp_all
  then have l: "length (fmt_d (uint d)) \<le> 3" by (simp add: fmt_d_def fmt_u_def)
  have "format_seg (load_src b d) native_syntax = []"
    by (simp add: format_seg_def load_src_def seg_name_def op_pointer_def op_es_seg_def op_cs_seg_def op_ss_seg_def op_ds_seg_def
        op_fs_seg_def op_gs_seg_def)
  moreover have "concat (expr_pieces_native (data_expression (load_src b d))) = ''['' @ reg_name (gen_reg b) @ ''+'' @ fmt_d (uint d) @ '']''"
    using gen_reg_name [OF assms(2)] l
    by (simp add: expr_pieces_native_def load_src_def PRINT_DISPLACEMENT_def STRNCATF_def ucast_byte zero_op_def zero_reg_def MAX_OP_STRING_def)
  ultimately show "take (MAX_OP_STRING - 1) (operand_text (load_src b d) insn) = ''['' @ reg_name (gen_reg b) @ ''+'' @ fmt_d (uint d) @ '']''"
    using gen_reg_name [OF assms(2)] l by (auto simp: operand_text_def MAX_OP_STRING_def load_src_def)
qed

text \<open>
  C32. A load of a 32-bit register from an address with a displacement of one byte is decoded to the right registers, but
  its displacement is not sign-extended: it is printed as a number between 0 and 255. This is the address the
  processor uses for displacements below 128; \<open>mov eax, [ebp-4]\<close> is printed as \<open>mov eax, [ebp+252]\<close>.
\<close>

theorem load_displacement:
  assumes "r < 8" and "b < 8" and "b \<noteq> 4"
  shows "\<exists>res. x86_disasm 0 junk [0x8B, load_modrm r b, d] 3 rva 0 insn = Ret res \<and> d_size res = 3 \<and>
    x86_format_insn (d_insn res) 1024 intel_syntax =
      Ret (''mov'' @ tabs 1 @ reg_name (gen_reg r) @ '', ['' @ reg_name (gen_reg b) @ ''+'' @ fmt_d (uint d) @ '']'')"
proof -
  let ?i = "(load_insn r b d)\<lparr>addr := rva, offset := 0, insn_size := 3,
      insn_bytes := [0x8B, load_modrm r b, d] @ drop 3 (insn_bytes (load_insn r b d))\<rparr>"
  have o: "operands ?i = Live [load_dest r, load_src b d]" "explicit_count ?i = 2" by (simp_all add: load_insn_def)
  have t: "intel_text ?i [load_dest r, load_src b d] =
      ''mov'' @ tabs 1 @ reg_name (gen_reg r) @ '', ['' @ reg_name (gen_reg b) @ ''+'' @ fmt_d (uint d) @ '']''"
    by (simp add: intel_text_def load_insn_simps load_texts [OF assms(1,2), unfolded One_nat_def])
  have "length (digits 10 (unat d)) \<le> 3" using unat_byte [of d] by (intro length_digits) simp_all
  then have "length (fmt_d (uint d)) \<le> 3" by (simp add: fmt_d_def fmt_u_def)
  then have "length (intel_text ?i [load_dest r, load_src b d]) \<le> 1023"
    unfolding t using gen_reg_name [OF assms(1)] gen_reg_name [OF assms(2)] by (simp add: tabs_def)
  then have "x86_format_insn ?i 1024 intel_syntax = Ret (intel_text ?i [load_dest r, load_src b d])"
    using x86_format_insn_intel [OF o(1), of 1024] o(2) by simp
  then show ?thesis using x86_disasm_load [OF assms, of junk d rva insn] unfolding t by simp
qed

theorem load_displacement_witness:
  "\<exists>res. x86_disasm 0 0 [0x8B, load_modrm 0 5, 0xFC] 3 0 0 zero_insn = Ret res \<and> d_size res = 3 \<and>
    x86_format_insn (d_insn res) 1024 intel_syntax = Ret (''mov'' @ tabs 1 @ ''eax, [ebp+252]'')"
proof -
  have "reg_name (gen_reg 0) = ''eax'' \<and> reg_name (gen_reg 5) = ''ebp'' \<and> fmt_d (uint (0xFC :: u8)) = ''252''" by code_simp
  with load_displacement [of 0 5 0 "0xFC" 0 zero_insn] show ?thesis by simp
qed

section \<open>The XML format\<close>

text \<open>
  C34. The XML format overruns the array for an operand that is an address expression, of any flags, exactly if the
  description of its address has more than 210 characters, or more than 183 if a segment override is printed before it:
  \<open>format_expr\<close> returns the length of the whole text, so that the text before the address is taken off the space twice, and
  the closing tag is appended with a negative bound. The source of \<open>mov eax, [ebp+esi*4+0x10]\<close> with a displacement of 4
  bytes is decoded to such an operand.
\<close>

theorem xml_address_overflow:
  assumes "op_type op = op_expression" and "expr_pieces_xml (data_expression op) = Ret ps"
  shows "x86_format_operand op insn MAX_OP_XML_STRING xml_syntax = Fail Undefined \<longleftrightarrow>
    (if seg_name (op_flags op) = [] then 210 else 183) < length (concat ps)"
  by (rule xml_expression [OF assms])

text \<open>The bytes of \<open>mov eax, [ebp+esi*4+0x10]\<close> after the opcode.\<close>

definition scaled_bytes :: "u8 list" where
  "scaled_bytes = [0x84, 0xB5, 0x10, 0, 0, 0]"

definition overlong :: "x86_op_t \<Rightarrow> bool" where
  "overlong op \<longleftrightarrow> op_type op = op_expression \<and> seg_name (op_flags op) = [] \<and>
    (case expr_pieces_xml (data_expression op) of Ret ps \<Rightarrow> 210 < length (concat ps) | _ \<Rightarrow> False)"

lemma scaled_decoded:
  "\<exists>insn1 dest src. ia32_decode_insn 0 scaled_bytes 6 row_MOV zero_insn 0 = Ret (6, insn1) \<and>
    operands insn1 = Live [dest, src] \<and> overlong src"
proof -
  have "case ia32_decode_insn 0 scaled_bytes 6 (opcode 0 INS_MOV (ADDRMETH_G OR OPTYPE_v OR OP_W) (ADDRMETH_E OR OPTYPE_v OR OP_R) ARG_NONE
      (cpu_80386 OR isa_GP) ''mov'' 0 0 0 0 0) zero_insn 0 of
    Ret (n, i) \<Rightarrow> n = 6 \<and> (case operands i of Live [dest, src] \<Rightarrow> overlong src | _ \<Rightarrow> False)
    | _ \<Rightarrow> False"
    by code_simp
  then show ?thesis unfolding row_MOV_eq
    by (auto split: result.splits prod.splits x86_oplist.splits list.splits)
qed

theorem xml_address_overflow_witness:
  "\<exists>r dest src. x86_disasm 0 0 (0x8B # scaled_bytes) 7 0 0 zero_insn = Ret r \<and> d_size r = 7 \<and>
    operands (d_insn r) = Live [dest, src] \<and>
    x86_format_operand src (d_insn r) MAX_OP_XML_STRING xml_syntax = Fail Undefined"
proof -
  obtain insn1 dest src where d: "ia32_decode_insn 0 scaled_bytes 6 row_MOV zero_insn 0 = Ret (6, insn1)"
    "operands insn1 = Live [dest, src]" "overlong src" using scaled_decoded by blast
  then have "ia32_disasm_addr 0 0 (0x8B # scaled_bytes) 7 = Ret (1 + 6, insn1)"
    by (intro disasm_addr_opcode [of _ row_MOV]) (simp_all add: row_MOV_simps, simp add: row_MOV_def)
  then obtain r where "x86_disasm 0 0 (0x8B # scaled_bytes) 7 0 0 zero_insn = Ret r" "d_size r = 7" "operands (d_insn r) = Live [dest, src]"
    using d(2) by (simp add: x86_disasm_def Let_def MAX_INSN_SIZE_def scaled_bytes_def)
  moreover from d(3) obtain ps where "op_type src = op_expression" "expr_pieces_xml (data_expression src) = Ret ps"
    "210 < length (concat ps)" "seg_name (op_flags src) = []" by (auto simp: overlong_def split: result.splits)
  then have "x86_format_operand src (d_insn r) MAX_OP_XML_STRING xml_syntax = Fail Undefined"
    using xml_address_overflow [of src ps "d_insn r"] by simp
  ultimately show ?thesis by blast
qed

end
