(* ===== verification/X86Flow.thy ===== *)
theory X86Flow
  imports X86Facts
begin

text \<open>
  Two classes of instructions: jumps, which \<open>x86_disasm_forward\<close> follows, and the instructions of the floating point unit.
\<close>

section \<open>A jump to itself\<close>

lemma jmp_next:
  assumes "2 \<le> unat len" and "unat len < 2 ^ 31" and "rva \<noteq> - 1"
  shows "\<exists>r. x86_disasm opts junk (0xEB # 0xFE # bs) len rva 0 insn = Ret r \<and> next_offset None len rva (d_insn r) = Ret (Some 0, [])"
proof -
  have "len \<noteq> 0" using assms(1) by auto
  then have "0 < len" by (simp add: word_gt_0)
  moreover have "relative_near (jmp_op 0xFE) = - 2" by (simp add: relative_near_def jmp_op_def)
  ultimately show ?thesis
    using x86_disasm_jmp [OF assms(1,2), of opts junk "0xFE" bs rva insn] assms(3)
    by (simp add: next_offset_def follow_insn_dest_def jmp_insn_def row_JMP_simps x86_operand_1st_def nth_operand_def deref_def
        internal_resolver_def x86_optype_is_address_def jmp_op_def)
qed

text \<open>
  C30. \<open>x86_disasm_forward\<close> need not return: it follows every jump with a new call and does not look at what it has
  disassembled already. With the resolver of the library, a buffer that starts with a jump to itself is disassembled
  without end, until the stack is used up.
\<close>

theorem forward_diverges:
  assumes "2 \<le> unat len" and "unat len < 2 ^ 31" and "rva \<noteq> - 1"
  shows "x86_disasm_forward options junk raw (0xEB # 0xFE # bs) len rva 0 None = None"
proof (rule ccontr)
  let ?buf = "0xEB # 0xFE # bs"
  assume "x86_disasm_forward options junk raw ?buf len rva 0 None \<noteq> None"
  then obtain y where y: "forward_loop options junk raw ?buf len rva None 0 0 raw = Some y" by (auto simp: x86_disasm_forward_def)
  have "\<not> (?buf = ?buf \<and> len = len \<and> rva = rva \<and> (None :: (x86_op_t option \<Rightarrow> x86_insn_t \<Rightarrow> u32 result) option) = None \<and> (0 :: u32) = 0 \<and> (0 :: nat) = 0)"
  proof (rule forward_loop.raw_induct [OF _ y, where P = "\<lambda>options junk raw buf buf_len buf_rva resolver off bytes insn y.
      \<not> (buf = ?buf \<and> buf_len = len \<and> buf_rva = rva \<and> resolver = None \<and> off = 0 \<and> bytes = 0)"], goal_cases)
    case (1 f options junk raw buf buf_len buf_rva resolver off bytes insn y)
    show ?case
    proof
      assume h: "buf = ?buf \<and> buf_len = len \<and> buf_rva = rva \<and> resolver = None \<and> off = 0 \<and> bytes = 0"
      obtain r where "x86_disasm options junk ?buf len rva 0 insn = Ret r" "next_offset None len rva (d_insn r) = Ret (Some 0, [])"
        using jmp_next [OF assms] by blast
      with 1(2) h assms(1) obtain y' where "f options junk raw ?buf len rva None 0 0 raw = Some y'"
        by (auto simp: Let_def Option.bind_eq_Some_conv)
      from 1(1) [OF this] show False by simp
    qed
  qed
  then show False by simp
qed

theorem forward_diverges_witness: "x86_disasm_forward 0 0 zero_insn [0xEB, 0xFE] 2 0x1000 0 None = None"
  using forward_diverges [of 2 "0x1000" 0 0 zero_insn "[]"] by simp

section \<open>Floating point instructions\<close>

lemma fpu_rows:
  assumes "k < 8"
  shows "tbl_Main ! (0xD8 + k) = opcode (40 + 2 * k) 0 ARG_NONE ARG_NONE ARG_NONE (cpu_80386 OR isa_GP) [] 0 0 0 0 0"
proof -
  have "list_all (\<lambda>k. tbl_Main ! (0xD8 + k) = opcode (40 + 2 * k) 0 ARG_NONE ARG_NONE ARG_NONE (cpu_80386 OR isa_GP) [] 0 0 0 0 0) [0..<8]"
    by (simp add: upt_rec tbl_Main_def tbl_Main_00_def tbl_Main_40_def tbl_Main_80_def tbl_Main_C0_def nth_append
        idx_D8_def idx_D9_def idx_DA_def idx_DB_def idx_DC_def idx_DD_def idx_DE_def idx_DF_def)
  with assms show ?thesis by (simp add: list_all_iff)
qed

lemma fpu_tables:
  assumes "k < 8"
  shows "\<exists>d e. table_at (40 + 2 * k) = Ret d \<and> t_type d = tbl_fpu \<and> t_maxlim d = 0xB0 \<and>
    table_at (40 + 2 * k + 1) = Ret e \<and> t_shift e = 0 \<and> t_mask e = 0xFF \<and> t_minlim e = 0xC0"
proof -
  have "list_all (\<lambda>k. t_type (ia32_tables ! (40 + 2 * k)) = tbl_fpu \<and> t_maxlim (ia32_tables ! (40 + 2 * k)) = 0xB0 \<and>
      t_shift (ia32_tables ! (40 + 2 * k + 1)) = 0 \<and> t_mask (ia32_tables ! (40 + 2 * k + 1)) = 0xFF \<and>
      t_minlim (ia32_tables ! (40 + 2 * k + 1)) = 0xC0) [0..<8]"
    by (simp add: upt_rec ia32_tables_def)
  with assms show ?thesis by (simp add: list_all_iff table_at_def length_tables)
qed

lemma fpu_lookup:
  assumes "k < 8" and "0xB0 < m" and "m < 0xC0" and "2 \<le> unat len"
  shows "ia32_table_lookup ((0xD8 + of_nat k) # m # bs) len idx_Main None 0 = Ret (0, Some (tbl_Main ! (0xD8 + k)), 0)"
proof -
  let ?b = "0xD8 + of_nat k :: u8" and ?row = "tbl_Main ! (0xD8 + k)"
  have b: "unat ?b = 0xD8 + k" using assms(1) by (simp add: unat_word_ariths unat_of_nat take_bit_nat_eq_self)
  have len: "len \<noteq> 0" "len - 1 \<noteq> 0"
  proof -
    show nz: "len \<noteq> 0" using assms(4) by auto
    show "len - 1 \<noteq> 0" using unat_minus_one [OF nz] assms(4) by auto
  qed
  obtain d e where t: "table_at (40 + 2 * k) = Ret d" "t_type d = tbl_fpu" "t_maxlim d = 0xB0"
    "table_at (40 + 2 * k + 1) = Ret e" "t_shift e = 0" "t_mask e = 0xFF" "t_minlim e = 0xC0"
    using fpu_tables [OF assms(1)] by blast
  have row: "i_table ?row = 40 + 2 * k" "row_prefix ?row = 0"
    by (simp_all add: fpu_rows [OF assms(1)] opcode_def row_prefix_def)
  have "table_row e m = Ret None" using assms(3) by (simp add: table_row_def t(5-7) byte_full)
  then have sub: "ia32_table_lookup (m # bs) (len - 1) (40 + 2 * k) (Some ?row) 0 = Ret (INVALID_INSN, Some ?row, 0)"
    using len t assms(2) by (subst ia32_table_lookup.simps) (simp add: byte_at_def table_desc_for_def)
  have esc: "escapes ?row 0 = Ret True" "same_byte d = False"
    using t by (simp_all add: escapes_def row same_byte_def)
  show ?thesis
    using len b sub esc row t(1)
    by (subst ia32_table_lookup.simps) (simp add: byte_at_def main_row row_size_main deref_def INVALID_INSN_def)
qed

text \<open>
  C33. A part of the floating point instructions is unknown to the disassembler: of the instructions with an opcode from \<open>D8\<close> to
  \<open>DF\<close>, those with a ModR/M byte from \<open>B1\<close> to \<open>BF\<close> are rejected. These are the operations 6 and 7 on an address with a
  displacement of 4 bytes, for example \<open>fdiv dword [ecx+disp32]\<close>; the limit of their tables is \<open>B0\<close> in place of \<open>BF\<close>.
\<close>

theorem fpu_rejected:
  assumes "k < 8" and "0xB0 < m" and "m < 0xC0" and "2 \<le> unat len"
  shows "\<exists>insn1. x86_disasm opt_none junk ((0xD8 + of_nat k) # m # bs) len rva 0 insn =
    Ret \<lparr>d_size = 0, d_insn = insn1, d_report = Some (report_invalid_insn, rva)\<rparr>"
proof -
  have "len \<noteq> 0" using assms(4) by auto
  moreover have "mnem_flag (tbl_Main ! (0xD8 + k)) = 0" by (simp add: fpu_rows [OF assms(1)])
  ultimately show ?thesis
    by (simp add: x86_disasm_def ia32_disasm_addr_def fpu_lookup [OF assms] opt_none_def INVALID_INSN_def deref_def
        ia32_decode_insn_def INS_INVALID_def)
qed

theorem fpu_rejected_witness:
  "\<exists>insn1. x86_disasm opt_none 0 [0xD8, 0xB1, 1, 2, 3, 4] 6 0 0 zero_insn =
    Ret \<lparr>d_size = 0, d_insn = insn1, d_report = Some (report_invalid_insn, 0)\<rparr>"
  using fpu_rejected [of 0 "0xB1" 6 0 "[1, 2, 3, 4]" 0 zero_insn] by simp

end
