(* ===== verification/Ia32Invariant.thy ===== *)
theory Ia32Invariant
  imports X86Disasm Ia32Lookup
begin

text \<open>
  The invariant representation of an instruction and its size, \<^verbatim>\<open>ia32_invariant.c\<close>. The operands are copied to \<open>&buf[size - 1]\<close>,
  which is the buffer of the caller and not the array of the result: the memory of the buffer is therefore both an
  argument and a result, and \<open>in\<close> and \<open>out\<close> are positions in it.
\<close>

section \<open>Memory\<close>

definition X86_WILDCARD_BYTE :: u8 where "X86_WILDCARD_BYTE = 0xF4"

definition read_byte :: "u8 list \<Rightarrow> int \<Rightarrow> u8 result" where
  "read_byte mem p = (if 0 \<le> p \<and> p < int (length mem) then Ret (mem ! nat p) else Fail Undefined)"

definition write_byte :: "u8 list \<Rightarrow> int \<Rightarrow> u8 \<Rightarrow> u8 list result" where
  "write_byte mem p v = (if 0 \<le> p \<and> p < int (length mem) then Ret (mem[nat p := v]) else Fail Undefined)"

fun read_bytes_at :: "u8 list \<Rightarrow> int \<Rightarrow> nat \<Rightarrow> u8 list result" where
  "read_bytes_at mem p 0 = Ret []"
| "read_bytes_at mem p (Suc n) = r_bind (read_byte mem p) (\<lambda>v. r_map (Cons v) (read_bytes_at mem (p + 1) n))"

fun write_bytes :: "u8 list \<Rightarrow> int \<Rightarrow> u8 list \<Rightarrow> u8 list result" where
  "write_bytes mem p [] = Ret mem"
| "write_bytes mem p (v # vs) = r_bind (write_byte mem p v) (\<lambda>mem1. write_bytes mem1 (p + 1) vs)"

definition memset :: "u8 list \<Rightarrow> int \<Rightarrow> u8 \<Rightarrow> nat \<Rightarrow> u8 list result" where
  "memset mem p v n = write_bytes mem p (replicate n v)"

text \<open>An assignment through pointers to \<open>n\<close> bytes.\<close>

definition assign :: "u8 list \<Rightarrow> int \<Rightarrow> int \<Rightarrow> nat \<Rightarrow> u8 list result" where
  "assign mem p q n = r_bind (read_bytes_at mem q n) (write_bytes mem p)"

text \<open>\<open>memcpy\<close> of regions that overlap is undefined.\<close>

definition memcpy :: "u8 list \<Rightarrow> int \<Rightarrow> int \<Rightarrow> nat \<Rightarrow> u8 list result" where
  "memcpy mem p q n = (if abs (p - q) < int n then Fail Undefined else assign mem p q n)"

section \<open>Operands\<close>

record x86_invariant_op_t =
  inv_type :: x86_op_type
  inv_datatype :: x86_op_datatype
  inv_access :: u32
  inv_flags :: u32

record x86_invariant_t =
  inv_bytes :: "u8 list"
  inv_size :: u32
  inv_group :: x86_insn_group
  inv_insn_type :: x86_insn_type
  inv_operands :: "x86_invariant_op_t list"

definition zero_inv :: x86_invariant_t where
  "zero_inv = \<lparr>inv_bytes = replicate 64 0, inv_size = 0, inv_group = 0, inv_insn_type = 0,
    inv_operands = replicate 3 \<lparr>inv_type = op_unused, inv_datatype = op_no_datatype, inv_access = 0, inv_flags = 0\<rparr>\<rparr>"

text \<open>The comparison of \<open>modrm.rm\<close> with 101 is one of a number of three bits with a decimal number.\<close>

definition ia32_invariant_modrm ::
  "u8 list \<Rightarrow> int \<Rightarrow> int \<Rightarrow> bool \<Rightarrow> x86_invariant_op_t \<Rightarrow> (nat \<times> u8 list \<times> x86_invariant_op_t) result" where
  "ia32_invariant_modrm mem inp out mode_16 op =
    r_bind (read_byte mem inp) (\<lambda>b.
    let modrm = byte_decode b; op1 = op\<lparr>inv_type := op_expression, inv_flags := inv_flags op OR op_pointer\<rparr> in
    r_bind (write_byte mem out b) (\<lambda>mem1.
    r_bind (if \<not> mode_16 \<and> mr_rm modrm = MODRM_RM_SIB \<and> mr_mod modrm \<noteq> MODRM_MOD_NOEA then
        r_bind (read_byte mem1 (inp + 1)) (\<lambda>s.
        r_bind (write_byte mem1 (out + 1) s) (\<lambda>mem2.
          if mr_rm (byte_decode s) = SIB_BASE_EBP \<and> mr_mod modrm = 0
          then r_map (\<lambda>mem3. (5, mem3, inp + 2, out + 2)) (memset mem2 (out + 2) X86_WILDCARD_BYTE 4)
          else Ret (1, mem2, inp + 2, out + 2)))
      else Ret (0, mem1, inp + 1, out + 1)) (\<lambda>(n, mem2, cin, c).
    if mr_mod modrm = 0 \<and> mr_rm modrm = 101 then
      (if mode_16 then r_map (\<lambda>mem3. (n + 2, mem3, op1)) (memset mem2 c X86_WILDCARD_BYTE 2)
       else r_map (\<lambda>mem3. (n + 4, mem3, op1)) (memset mem2 c X86_WILDCARD_BYTE 2))
    else if mr_mod modrm \<noteq> 0 \<and> mr_mod modrm < 3 then
      (if mr_mod modrm = MODRM_MOD_DISP8 then r_map (\<lambda>mem3. (n + 1, mem3, op1)) (assign mem2 c cin 1)
       else if mode_16 then r_map (\<lambda>mem3. (n + 2, mem3, op1)) (assign mem2 c cin 2)
       else r_map (\<lambda>mem3. (n + 4, mem3, op1)) (assign mem2 c cin 4))
    else if mr_mod modrm = 3 then
      Ret (n, mem2, op1\<lparr>inv_type := op_register, inv_flags := inv_flags op1 AND NOT op_pointer\<rparr>)
    else Ret (n, mem2, op1))))"

text \<open>The size of an operand; for the other types it is that of the operand before.\<close>

definition invariant_size :: "u32 \<Rightarrow> u32 \<Rightarrow> u32 \<Rightarrow> nat \<Rightarrow> nat" where
  "invariant_size ot op_size asize sz =
    (if ot = OPTYPE_c then (if op_size = 4 then 2 else 1)
     else if ot = OPTYPE_a \<or> ot = OPTYPE_v then (if op_size = 4 then 4 else 2)
     else if ot = OPTYPE_p then (if op_size = 4 then 6 else 4)
     else if ot = OPTYPE_b then 1
     else if ot = OPTYPE_w then 2
     else if ot = OPTYPE_d \<or> ot = OPTYPE_fs \<or> ot = OPTYPE_fd \<or> ot = OPTYPE_fe \<or> ot = OPTYPE_fb \<or> ot = OPTYPE_fv
       \<or> ot = OPTYPE_si \<or> ot = OPTYPE_fx then 4
     else if ot = OPTYPE_s then 6
     else if ot = OPTYPE_q \<or> ot = OPTYPE_pi then 8
     else if ot = OPTYPE_dq \<or> ot = OPTYPE_ps \<or> ot = OPTYPE_ss \<or> ot = OPTYPE_pd \<or> ot = OPTYPE_sd then 16
     else if ot = OPTYPE_m then (if asize = 4 then 4 else 2)
     else sz)"

record inv_state =
  s_mem :: "u8 list"
  s_ops :: "x86_invariant_op_t list"
  s_bytes :: nat
  s_size :: nat
  s_modrm :: nat

text \<open>One turn of the loop over the three operands. The type of an operand of a string instruction is not set.\<close>

definition invariant_operand ::
  "u32 \<Rightarrow> u32 \<Rightarrow> bool \<Rightarrow> int \<Rightarrow> int \<Rightarrow> nat \<Rightarrow> u32 \<Rightarrow> inv_state \<Rightarrow> inv_state result" where
  "invariant_operand op_size asize mode_16 inp out x flags st =
    (let ty = flags AND ADDRMETH_MASK; ot = flags AND OPTYPE_MASK; sz = invariant_size ot op_size asize (s_size st);
         op = (s_ops st ! x)\<lparr>inv_access := OP_PERM flags, inv_flags := drop_bit 12 (OP_FLAGS flags)\<rparr>;
         at = int (s_bytes st + s_modrm st); st1 = st\<lparr>s_size := sz\<rparr>;
         done = (\<lambda>op s. Ret (s\<lparr>s_ops := (s_ops s)[x := op]\<rparr>)) in
     if ty = ADDRMETH_E \<or> ty = ADDRMETH_M \<or> ty = ADDRMETH_Q \<or> ty = ADDRMETH_R \<or> ty = ADDRMETH_W then
       r_bind (ia32_invariant_modrm (s_mem st) inp out mode_16 op) (\<lambda>(n, mem, op1).
         done op1 (st1\<lparr>s_mem := mem, s_bytes := s_bytes st + n, s_modrm := 1\<rparr>))
     else if ty = ADDRMETH_C \<or> ty = ADDRMETH_D \<or> ty = ADDRMETH_G \<or> ty = ADDRMETH_P \<or> ty = ADDRMETH_S \<or> ty = ADDRMETH_T
       \<or> ty = ADDRMETH_V then done (op\<lparr>inv_type := op_register\<rparr>) (st1\<lparr>s_modrm := 1\<rparr>)
     else if ty = ADDRMETH_A \<or> ty = ADDRMETH_O then
       r_bind (memset (s_mem st) (out + at) X86_WILDCARD_BYTE sz) (\<lambda>mem.
         done (op\<lparr>inv_type := op_offset, inv_flags := (if ty = ADDRMETH_O then inv_flags op OR op_signed OR op_pointer else inv_flags op)\<rparr>)
           (st1\<lparr>s_mem := mem, s_bytes := s_bytes st + sz\<rparr>))
     else if ty = ADDRMETH_I \<or> ty = ADDRMETH_J then
       r_bind (if ot = OPTYPE_v then memset (s_mem st) (out + at) X86_WILDCARD_BYTE sz
               else memcpy (s_mem st) (out + at) (inp + at) sz) (\<lambda>mem.
         done (if ty = ADDRMETH_J
             then op\<lparr>inv_type := (if sz = 1 then op_relative_near else op_relative_far), inv_flags := inv_flags op OR op_signed\<rparr>
             else op\<lparr>inv_type := op_immediate\<rparr>)
           (st1\<lparr>s_mem := mem, s_bytes := s_bytes st + sz\<rparr>))
     else if ty = ADDRMETH_F \<or> ty = ADDRMETH_RR then done (op\<lparr>inv_type := op_register\<rparr>) st1
     else if ty = ADDRMETH_X then done (op\<lparr>inv_flags := inv_flags op OR op_signed OR op_pointer OR op_ds_seg OR op_string\<rparr>) st1
     else if ty = ADDRMETH_Y then done (op\<lparr>inv_flags := inv_flags op OR op_signed OR op_pointer OR op_es_seg OR op_string\<rparr>) st1
     else if ty = ADDRMETH_II then done (op\<lparr>inv_type := op_immediate\<rparr>) st1
     else done (op\<lparr>inv_type := op_unused\<rparr>) st1)"

definition ia32_decode_invariant ::
  "u32 \<Rightarrow> u8 list \<Rightarrow> int \<Rightarrow> ia32_insn_t \<Rightarrow> int \<Rightarrow> u32 \<Rightarrow> x86_invariant_t \<Rightarrow> (u32 \<times> u8 list \<times> x86_invariant_t) result" where
  "ia32_decode_invariant options mem inp t out prefixes iv =
    (let po = prefixes AND PREFIX_OP_SIZE \<noteq> 0; pa = prefixes AND PREFIX_ADDR_SIZE \<noteq> 0;
         opt = options AND opt_16_bit \<noteq> 0;
         op_size = (if opt then (if po then 4 else 2) else if po then 2 else 4);
         asize = (if opt then (if pa then 4 else 2) else if pa then 2 else 4);
         mode_16 = (if opt then \<not> pa else pa);
         step = invariant_operand op_size asize mode_16 inp out in
     r_bind (step 0 (dest_flag t) \<lparr>s_mem = mem, s_ops = inv_operands iv, s_bytes = 0, s_size = 0, s_modrm = 0\<rparr>) (\<lambda>s1.
     r_bind (step 1 (src_flag t) s1) (\<lambda>s2.
     r_map (\<lambda>s3. (of_nat (s_bytes s3 + s_modrm s3), s_mem s3, iv\<lparr>inv_operands := s_ops s3\<rparr>)) (step 2 (aux_flag t) s2))))"

section \<open>Instructions\<close>

text \<open>The local variable \<open>prefixes\<close> is not set before the lookup ORs the prefixes into it: \<open>junk\<close> is what it holds.\<close>

definition ia32_disasm_invariant ::
  "u32 \<Rightarrow> u32 \<Rightarrow> u8 list \<Rightarrow> u32 \<Rightarrow> x86_invariant_t \<Rightarrow> (u32 \<times> u8 list \<times> x86_invariant_t) result" where
  "ia32_disasm_invariant options junk buf buf_len iv =
    r_bind (ia32_table_lookup buf buf_len 0 None junk) (\<lambda>(n, raw, prefixes).
    if n = INVALID_INSN \<or> n > buf_len then Ret (0, buf, iv)
    else
      r_bind (r_bind (read_bytes_at buf 0 (unat n)) (\<lambda>bs. write_bytes (inv_bytes iv) 0 bs)) (\<lambda>bytes.
      r_bind (deref raw) (\<lambda>t.
      r_map (\<lambda>(k, mem, iv1). (n + k, mem, iv1\<lparr>inv_size := n + k\<rparr>))
        (ia32_decode_invariant options buf (int (unat n)) t (int (unat n) - 1) prefixes (iv\<lparr>inv_bytes := bytes\<rparr>)))))"

definition ia32_disasm_size :: "u32 \<Rightarrow> u32 \<Rightarrow> u8 list \<Rightarrow> u32 \<Rightarrow> (u32 \<times> u8 list) result" where
  "ia32_disasm_size options junk buf buf_len = r_map (\<lambda>(n, mem, iv). (n, mem)) (ia32_disasm_invariant options junk buf buf_len zero_inv)"

definition x86_invariant_disasm ::
  "u32 \<Rightarrow> u32 \<Rightarrow> u8 list \<Rightarrow> u32 \<Rightarrow> x86_invariant_t \<Rightarrow> (u32 \<times> u8 list \<times> x86_invariant_t) result" where
  "x86_invariant_disasm options junk buf buf_len iv =
    (if buf_len = 0 then Ret (0, buf, iv) else ia32_disasm_invariant options junk buf buf_len iv)"

definition x86_size_disasm :: "u32 \<Rightarrow> u32 \<Rightarrow> u8 list \<Rightarrow> u32 \<Rightarrow> (u32 \<times> u8 list) result" where
  "x86_size_disasm options junk buf buf_len = (if buf_len = 0 then Ret (0, buf) else ia32_disasm_size options junk buf buf_len)"

section \<open>Asking for the size of an instruction\<close>

definition row_MOVI :: "nat \<Rightarrow> ia32_insn_t" where "row_MOVI r = tbl_Main ! (0xB8 + r)"

lemma row_MOVI_eq:
  assumes "r < 8"
  shows "row_MOVI r = opcode 0 INS_MOV (ADDRMETH_RR OR OPTYPE_v OR OP_W) (ADDRMETH_I OR OPTYPE_v OR OP_R) ARG_NONE (cpu_80386 OR isa_GP)
    ''mov'' (of_nat r) 0 0 0 0"
proof -
  have "list_all (\<lambda>r. row_MOVI r = opcode 0 INS_MOV (ADDRMETH_RR OR OPTYPE_v OR OP_W) (ADDRMETH_I OR OPTYPE_v OR OP_R) ARG_NONE
      (cpu_80386 OR isa_GP) ''mov'' (of_nat r) 0 0 0 0) [0..<8]"
    by (simp add: upt_rec row_MOVI_def tbl_Main_def tbl_Main_00_def tbl_Main_40_def tbl_Main_80_def nth_append)
  with assms show ?thesis by (simp add: list_all_iff)
qed

lemma row_MOVI_simps:
  assumes "r < 8"
  shows "i_table (row_MOVI r) = 0" "row_prefix (row_MOVI r) = 0"
    "dest_flag (row_MOVI r) AND ADDRMETH_MASK = ADDRMETH_RR" "dest_flag (row_MOVI r) AND OPTYPE_MASK = OPTYPE_v"
    "src_flag (row_MOVI r) AND ADDRMETH_MASK = ADDRMETH_I" "src_flag (row_MOVI r) AND OPTYPE_MASK = OPTYPE_v"
    "aux_flag (row_MOVI r) AND ADDRMETH_MASK = 0" "aux_flag (row_MOVI r) AND OPTYPE_MASK = 0"
  by (simp_all add: row_MOVI_eq [OF assms] row_prefix_def opcode_def INS_MOV_def INS_LOAD_def INS_NOTE_PREFIX_def ADDRMETH_MASK_def
      ADDRMETH_RR_def ADDRMETH_I_def OPTYPE_MASK_def OPTYPE_v_def OP_W_def OP_R_def ARG_NONE_def)

lemmas inv_meth_defs = ADDRMETH_A_def ADDRMETH_C_def ADDRMETH_D_def ADDRMETH_E_def ADDRMETH_F_def ADDRMETH_G_def
  ADDRMETH_I_def ADDRMETH_J_def ADDRMETH_M_def ADDRMETH_O_def ADDRMETH_P_def ADDRMETH_Q_def ADDRMETH_R_def ADDRMETH_S_def
  ADDRMETH_T_def ADDRMETH_V_def ADDRMETH_W_def ADDRMETH_X_def ADDRMETH_Y_def ADDRMETH_RR_def ADDRMETH_II_def

lemma invariant_size_v: "invariant_size OPTYPE_v 4 asize n = 4"
  by (simp add: invariant_size_def OPTYPE_c_def OPTYPE_v_def OPTYPE_a_def)

lemma MOVI_dest:
  assumes "r < 8"
  shows "\<exists>ops. invariant_operand 4 asize m16 inp out x (dest_flag (row_MOVI r)) st = Ret (st\<lparr>s_size := 4, s_ops := ops\<rparr>)"
  unfolding invariant_operand_def row_MOVI_simps [OF assms] invariant_size_v Let_def
  by (simp add: inv_meth_defs, intro exI, rule refl)

lemma MOVI_src:
  assumes "r < 8" and "memset (s_mem st) (out + int (s_bytes st + s_modrm st)) X86_WILDCARD_BYTE 4 = Ret mem"
  shows "\<exists>ops. invariant_operand 4 asize m16 inp out x (src_flag (row_MOVI r)) st =
    Ret (st\<lparr>s_size := 4, s_mem := mem, s_bytes := s_bytes st + 4, s_ops := ops\<rparr>)"
  unfolding invariant_operand_def row_MOVI_simps [OF assms(1)] invariant_size_v Let_def assms(2)
  by (simp add: inv_meth_defs, intro exI, rule refl)

lemma MOVI_aux:
  assumes "r < 8"
  shows "\<exists>ops sz. invariant_operand 4 asize m16 inp out x (aux_flag (row_MOVI r)) st = Ret (st\<lparr>s_size := sz, s_ops := ops\<rparr>)"
  unfolding invariant_operand_def row_MOVI_simps [OF assms] Let_def
  by (simp add: inv_meth_defs, intro exI, rule refl)

text \<open>
  C31. Asking for the size of an instruction destroys it. For a load of a register with a constant of 4 bytes, \<open>x86_size_disasm\<close>
  returns the right size, 5, but overwrites the opcode and the first three bytes of the constant in the buffer of
  the caller with the wildcard byte: the operands are copied to \<open>&buf[size - 1]\<close> in place of the array of the result.
\<close>

theorem size_disasm_overwrites:
  assumes "r < 8" and "5 \<le> unat len" and "junk AND PREFIX_OP_SIZE = 0" and "options AND opt_16_bit = 0"
  shows "x86_size_disasm options junk ((0xB8 + of_nat r) # i0 # i1 # i2 # i3 # bs) len = Ret (5, 0xF4 # 0xF4 # 0xF4 # 0xF4 # i3 # bs)"
proof -
  let ?b = "0xB8 + of_nat r :: u8"
  let ?buf = "?b # i0 # i1 # i2 # i3 # bs" and ?mem = "0xF4 # 0xF4 # 0xF4 # 0xF4 # i3 # bs"
  have len: "len \<noteq> 0" "\<not> len < 1" using assms(2) by (auto simp: word_less_nat_alt)
  have "unat ?b = 0xB8 + r" using assms(1) by (simp add: unat_word_ariths unat_of_nat take_bit_nat_eq_self)
  then have row: "tbl_Main ! unat ?b = row_MOVI r" by (simp add: row_MOVI_def)
  have look: "ia32_table_lookup ?buf len 0 None junk = Ret (1, Some (row_MOVI r), junk)"
    using lookup_plain [OF row row_MOVI_simps(1,2) [OF assms(1)] len(1)] unfolding idx_Main_def .
  define st0 where "st0 = \<lparr>s_mem = ?buf, s_ops = inv_operands zero_inv, s_bytes = 0, s_size = 0, s_modrm = 0\<rparr>"
  have inv: "\<exists>iv1. ia32_decode_invariant options ?buf 1 (row_MOVI r) 0 junk (zero_inv\<lparr>inv_bytes := bytes\<rparr>) = Ret (4, ?mem, iv1)" for bytes
  proof -
    let ?step = "invariant_operand 4 (if junk AND PREFIX_ADDR_SIZE \<noteq> 0 then 2 else 4) (junk AND PREFIX_ADDR_SIZE \<noteq> 0) 1 0"
    obtain ops1 where s1: "?step 0 (dest_flag (row_MOVI r)) st0 = Ret (st0\<lparr>s_size := 4, s_ops := ops1\<rparr>)"
      using MOVI_dest [OF assms(1)] by blast
    define st1 where "st1 = st0\<lparr>s_size := 4, s_ops := ops1\<rparr>"
    have "memset (s_mem st1) (0 + int (s_bytes st1 + s_modrm st1)) X86_WILDCARD_BYTE 4 = Ret ?mem"
      by (simp add: st1_def st0_def memset_def X86_WILDCARD_BYTE_def numeral_eq_Suc write_byte_def)
    from MOVI_src [OF assms(1) this] obtain ops2 where
      s2: "?step 1 (src_flag (row_MOVI r)) st1 = Ret (st1\<lparr>s_size := 4, s_mem := ?mem, s_bytes := s_bytes st1 + 4, s_ops := ops2\<rparr>)"
      by blast
    define st2 where "st2 = st1\<lparr>s_size := 4, s_mem := ?mem, s_bytes := s_bytes st1 + 4, s_ops := ops2\<rparr>"
    obtain ops3 sz where s3: "?step 2 (aux_flag (row_MOVI r)) st2 = Ret (st2\<lparr>s_size := sz, s_ops := ops3\<rparr>)"
      using MOVI_aux [OF assms(1)] by blast
    have "ia32_decode_invariant options ?buf 1 (row_MOVI r) 0 junk (zero_inv\<lparr>inv_bytes := bytes\<rparr>) =
        Ret (of_nat (s_bytes st2 + s_modrm st2), s_mem st2, zero_inv\<lparr>inv_bytes := bytes, inv_operands := ops3\<rparr>)"
      using s1 s2 s3 assms(3,4) unfolding ia32_decode_invariant_def Let_def st0_def [symmetric] st1_def [symmetric] st2_def [symmetric]
      by (simp add: st0_def [symmetric])
    then show ?thesis by (simp add: st2_def st1_def st0_def)
  qed
  have "\<exists>bytes. write_bytes (inv_bytes zero_inv) 0 [?b] = Ret bytes" by (simp add: write_byte_def zero_inv_def)
  then obtain bytes where "write_bytes (inv_bytes zero_inv) 0 [?b] = Ret bytes" ..
  moreover obtain iv1 where "ia32_decode_invariant options ?buf 1 (row_MOVI r) 0 junk (zero_inv\<lparr>inv_bytes := bytes\<rparr>) = Ret (4, ?mem, iv1)"
    using inv by blast
  ultimately have "ia32_disasm_invariant options junk ?buf len zero_inv = Ret (5, ?mem, iv1\<lparr>inv_size := 5\<rparr>)"
    using len by (simp add: ia32_disasm_invariant_def look INVALID_INSN_def deref_def read_byte_def del: write_bytes.simps)
  then show ?thesis using len(1) by (simp add: x86_size_disasm_def ia32_disasm_size_def)
qed

theorem size_disasm_overwrites_witness:
  "x86_size_disasm 0 0 [0xB8, 1, 2, 3, 4] 5 = Ret (5, [0xF4, 0xF4, 0xF4, 0xF4, 4])"
  using size_disasm_overwrites [of 0 5 0 0 1 2 3 4 "[]"] by simp

end
