(* ===== verification/Spec2Isabelle.thy ===== *)
theory Spec2Isabelle
  imports Encoding MipsDec Rtl X86Print X86Flow Ia32Invariant
begin

text \<open>
  Verification of the two tools of the repository: the MIPS decompiler \<^verbatim>\<open>src/tools/mipsdec\<close> and the x86 compiler
  \<^verbatim>\<open>src/tools/udcompiler\<close> with its disassembler \<^verbatim>\<open>libdisasm\<close>.

  \<^bold>\<open>Conventions.\<close> A C integer is a word of its width (\<open>u8\<close>, \<open>u16\<close>, \<open>u32\<close>; \<open>long\<close> has 32 bits, as on the platforms the
  project files are for). A function that can fail an assertion or run into undefined behaviour returns a \<^typ>\<open>'a result\<close>:
  \<open>Fail AssertFailed\<close>, \<open>Fail Undefined\<close> or \<open>Ret x\<close>. A failed assertion ends the program in the Windows builds; in the other
  builds \<open>M_ASSERT\<close> prints a line and goes on, and what follows is not described. A loop or recursion that need not end is a \<^verbatim>\<open>partial_function\<close> in the
  option type, where \<^const>\<open>None\<close> means that it does not return; the model uses no fuel. Storage that the source
  does not initialise is an argument (\<open>raw\<close>, \<open>rawj\<close>, \<open>junk\<close>), and the theorems hold for every content. Files, the environment and
  the arguments of the command are arguments, and what is printed is part of the result: the messages of \<open>parseSymFile\<close> and
  \<open>parseFromFile\<close>, the files written, the callbacks and reports of the disassembler. \<open>Prelude\<close> has these types, \<open>Printf\<close>
  the conversions of the C library, \<open>Bytes\<close> the reads of a buffer through casted pointers.

  \<^bold>\<open>The decompiler.\<close> It reads a symbol map and a binary, parses one function to instructions, resolves the delay slots,
  rewrites the instruction tree until no pass changes it, and prints C.

    \<^item> \<open>Registers\<close>, \<open>Instructions\<close>: \<^verbatim>\<open>register.h/cpp\<close>, \<^verbatim>\<open>instruction.h\<close> and the decoder of \<^verbatim>\<open>instruction.cpp\<close>; the record
      \<open>inst_data\<close> and the tree \<open>Instruction\<close> are the class \<^verbatim>\<open>Instruction\<close>. \<open>Encoding\<close> compares the decoder with the encoding of
      the architecture, C11 to C14, with the cases in which it loses something: the target of BGEZ, the register of a coprocessor,
      the jumps with a hazard barrier, the link register of JALR.
    \<^item> \<open>JumpTargets\<close>, \<open>Symbols\<close>, \<open>Functions\<close>: \<open>updateJumpTargets\<close>, \<^verbatim>\<open>symbols.cpp\<close>, \<^verbatim>\<open>function.cpp\<close>; C15 to C19. A failed \<open>fseek\<close> leaves the file at its start. The contract
      of the symbol table is the locale \<open>symbol_table\<close>.
    \<^item> \<open>DelaySlots\<close>, \<open>Passes\<close>, \<open>Blocks\<close>: \<^verbatim>\<open>optimize.cpp\<close>, one definition for each static function; the walk over the tree that
      the passes share is \<open>rewrite_first\<close>. C20 and C21 say what the restarting loop of the delay slots computes and when.
    \<^item> \<open>Semantics\<close>, \<open>Preservation\<close>, \<open>Mips\<close>, \<open>Rounds\<close>, \<open>SlotSemantics\<close>: what a tree computes, for instructions that satisfy the
      laws of the locale \<open>isa_laws\<close> (and \<open>slot_laws\<close> for the processor with delay slots), which the MIPS32 instructions do. The
      resolution of the delay slots (C3) and the rounds of the optimiser (C4, C5) preserve it. The processor writes the link
      register of a call before it executes the slot. C39 and C40 are legal code on which the resolution of the delay slots goes wrong: a slot
      that overwrites the register of the jump, and a jump into a slot.
    \<^item> \<open>RegisterValue\<close>: \<open>resolveRegisterValue\<close> and \<open>dumpInstructions\<close> of \<^verbatim>\<open>instruction.cpp\<close>; C6 to C8. C6 is about the runs of the
      semantics above that come to an instruction, with the calls and branches on the way.
    \<^item> \<open>Parameters\<close>, \<open>Codegen\<close>, \<open>CProgram\<close>: \<^verbatim>\<open>parameter.cpp\<close>, \<^verbatim>\<open>codegen.cpp\<close>, and a semantics of the fragment of C that is
      printed. The printed program computes what the tree computes (C2); C9 is about calls and C10 about the one instruction, SH, that
      is translated wrongly.
    \<^item> \<open>MipsDec\<close>: \<^verbatim>\<open>mipsdec.cpp\<close>. C1 composes the above: from the bytes of the binary to the meaning of \<^verbatim>\<open>code.c\<close>, when each
      round is one that is proved to preserve the meaning. C22 is about a missing function.

  \<^bold>\<open>The x86 compiler.\<close> It loads an ELF file, decodes its code section with libdisasm and translates the instructions to a
  register transfer language.

    \<^item> \<open>ElfLoader\<close>: \<^verbatim>\<open>ElfBinaryLoader.h/cpp\<close>, \<^verbatim>\<open>ElfSpec.h\<close>, \<^verbatim>\<open>LoaderBase.h\<close>; C36 to C38.
    \<^item> \<open>Libdis\<close>: the types of \<^verbatim>\<open>libdis.h\<close>, \<^verbatim>\<open>x86_operand_list.c\<close> and \<^verbatim>\<open>x86_insn.c\<close>. \<open>Ia32Reg\<close>: \<^verbatim>\<open>ia32_reg.c\<close>.
    \<^item> \<open>Ia32Insn\<close>, \<open>Ia32Tables\<close>: the constants of \<^verbatim>\<open>ia32_insn.h\<close> and every row of \<^verbatim>\<open>ia32_opcode_tables.c\<close>.
    \<^item> \<open>Ia32Implicit\<close>, \<open>Ia32Operand\<close>, \<open>Ia32Decode\<close>: \<^verbatim>\<open>ia32_implicit.c\<close>, then \<^verbatim>\<open>x86_imm.c\<close>, \<^verbatim>\<open>ia32_modrm.c\<close> and
      \<^verbatim>\<open>ia32_operand.c\<close>, then \<^verbatim>\<open>ia32_insn.c\<close>. \<open>Ia32Lookup\<close> checks the tables once and \<open>Ia32Search\<close> concludes that the recursive
      lookup ends inside of them: C24.
    \<^item> \<open>X86Disasm\<close>: \<^verbatim>\<open>x86_disasm.c\<close>. \<open>X86Facts\<close> and \<open>X86Flow\<close> have what holds of every decoded instruction (C23, C35), the walk
      over a range (C25), and where the decoder goes wrong: C26, C30, C33.
    \<^item> \<open>X86Format\<close>: \<^verbatim>\<open>x86_format.c\<close>, with the macros as functions on a text and the number of characters left, which the source
      lets become negative. \<open>X86Print\<close> composes it with the decoder: C27, C32, C34.
    \<^item> \<open>Ia32Invariant\<close>: \<^verbatim>\<open>ia32_invariant.c\<close>, over the memory of the buffer, since it writes there: C31.
    \<^item> \<open>Rtl\<close>: \<^verbatim>\<open>RTLGeneratorBase.h/cpp\<close>, \<^verbatim>\<open>X86RTLGenerator.h/cpp\<close>, \<^verbatim>\<open>udcompiler.cpp\<close>; when the generator returns (C28) and a
      case in which it does not (C29).

  \<^bold>\<open>Hypotheses.\<close> C1 and C3 are about the code that the resolution of the delay slots is made for, \<open>slot_program\<close>. Its conditions are
  limits of the pass, not of the architecture: no slot holds a branch or jump, is jumped to, overwrites the register of a register
  jump or uses the link register at a call, and there is no BGEZ, JR.HB or JALR.HB. C21, C39 and C40 say what happens without them. C5
  assumes that no label in use was removed; the passes do not check it. C1 therefore assumes \<open>verified_run n\<close>, an executable check that
  the optimiser stops within \<open>n\<close> rounds and that every round of the function at hand is one of C4 or C5: no round strips a
  prologue or epilogue, moves a block or copies one. It also assumes that the final tree has only instructions of C2, so no calls and
  no SH. The effect of a called function is the parameter \<open>callee\<close>; a call sets the link register to 0 before it, since the
  tree no longer has the return addresses. C6 and C9 assume that the calls and branches before the instruction keep the registers
  that the scan relies on, which it does not check; two lemmas of \<open>RegisterValue\<close> show that it matters. The passes
  \<open>removeClosingJump2\<close> and \<open>detectEndOfBranchJumps\<close> advance \<open>begin()\<close> of lists that may be empty; the model takes the
  result to be \<open>end()\<close>, as the usual implementations of \<open>std::list\<close> do, since otherwise no function with a branch would have
  a defined result (C5, C22). The counters of \<open>range_loop\<close> are natural numbers; C25 bounds them by \<open>2 ^ 31\<close>.

  \<^bold>\<open>Not modelled.\<close> Pointers to operands are values, so what happens after an operand list has been freed is not described;
  \<open>malloc\<close> does not fail. The getters of \<^verbatim>\<open>ia32_settings.c\<close> and \<^verbatim>\<open>x86_misc.c\<close> read a structure of constants, of which only the
  options matter; they are an argument. \<^verbatim>\<open>ia32_fixup.c\<close> is a table of null pointers without a use. \<open>snprintf\<close> is the one of C99; the
  project files for Microsoft compilers replace it with a function that does not always end the text with a NUL. The meaning of the
  two passes of \<open>Blocks\<close> that copy blocks is not proved to be preserved, because it is not in general: a copied block keeps its
  labels. The meaning of the decoded x86 instructions and of the register transfer language is not given, since the tool has no
  consumer of it. \<^verbatim>\<open>src/kernel\<close> is a copy of the Linux kernel that the tools do not use, and the makefiles and project files
  have no behaviour to model.
\<close>

end
